(* ===== verification/Prelude.thy ===== *)
theory Prelude
  imports Main "HOL-Library.Word" "HOL-Library.AList" "HOL-Library.Char_ord"
    "HOL-Library.List_Lexorder" "HOL-Library.Multiset" "HOL-Library.Code_Target_Nat"
begin

text \<open>
  Shared vocabulary of the development: the parts of Go's standard library that the operator's
  sources use (package \<open>strings\<close>, \<open>strconv\<close> and \<open>sort\<close>), Go results as sum values, Go maps as
  association lists, and the generic lemmas the component theories rely on.

  A Go string is a byte sequence; it is a \<^typ>\<open>string\<close> here, whose characters are the 256 byte values.
  Comparison of strings is the library's lexicographic order, which is Go's byte-wise order.
  A Go function that returns \<open>(T, error)\<close> returns a value of type \<open>'e + 'a\<close>: \<open>Inl\<close> carries the error.
\<close>

section \<open>Results\<close>

named_theorems go_defs \<open>definitions of Go library functions that proofs unfold\<close>

type_synonym gerror = string

fun bind_res :: "'e + 'a \<Rightarrow> ('a \<Rightarrow> 'e + 'b) \<Rightarrow> 'e + 'b" where
  "bind_res (Inl e) f = Inl e"
| "bind_res (Inr x) f = f x"

lemma bind_res_Inr_iff [simp]:
  "bind_res r f = Inr y \<longleftrightarrow> (\<exists>x. r = Inr x \<and> f x = Inr y)"
  by (cases r) auto

lemma bind_res_Inl_iff:
  "bind_res r f = Inl e \<longleftrightarrow> r = Inl e \<or> (\<exists>x. r = Inr x \<and> f x = Inl e)"
  by (cases r) auto

fun is_ok :: "'e + 'a \<Rightarrow> bool" where
  "is_ok (Inr _) = True"
| "is_ok (Inl _) = False"

text \<open>A loop whose body may return early with an error.\<close>

fun map_res :: "('a \<Rightarrow> 'e + 'b) \<Rightarrow> 'a list \<Rightarrow> 'e + 'b list" where
  "map_res f [] = Inr []"
| "map_res f (x # xs) =
    (case f x of Inl e \<Rightarrow> Inl e
     | Inr y \<Rightarrow> (case map_res f xs of Inl e \<Rightarrow> Inl e | Inr ys \<Rightarrow> Inr (y # ys)))"

lemma map_res_Inr_iff:
  "map_res f xs = Inr ys \<longleftrightarrow> list_all2 (\<lambda>x y. f x = Inr y) xs ys"
proof (induction xs arbitrary: ys)
  case Nil
  show ?case by auto
next
  case (Cons x xs)
  show ?case
    by (cases "f x"; cases "map_res f xs") (auto simp: list_all2_Cons1 Cons.IH [symmetric])
qed

fun fold_res :: "('s \<Rightarrow> 'a \<Rightarrow> 'e + 's) \<Rightarrow> 's \<Rightarrow> 'a list \<Rightarrow> 'e + 's" where
  "fold_res f s [] = Inr s"
| "fold_res f s (x # xs) = (case f s x of Inl e \<Rightarrow> Inl e | Inr s' \<Rightarrow> fold_res f s' xs)"

lemma fold_res_inv:
  assumes "fold_res f s xs = Inr s'" and "P s"
    and "\<And>s x s'. P s \<Longrightarrow> x \<in> set xs \<Longrightarrow> f s x = Inr s' \<Longrightarrow> P s'"
  shows "P s'"
  using assms
proof (induction xs arbitrary: s)
  case Nil
  then show ?case by simp
next
  case (Cons x xs)
  from Cons.prems(1) obtain s1 where s1: "f s x = Inr s1" "fold_res f s1 xs = Inr s'"
    by (auto split: sum.splits)
  show ?case
  proof (rule Cons.IH [OF s1(2)])
    show "P s1" by (rule Cons.prems(3) [OF Cons.prems(2) _ s1(1)]) simp
    show "\<And>s x s'. P s \<Longrightarrow> x \<in> set xs \<Longrightarrow> f s x = Inr s' \<Longrightarrow> P s'"
      using Cons.prems(3) by auto
  qed
qed

section \<open>Package strings\<close>

definition HasPrefix :: "string \<Rightarrow> string \<Rightarrow> bool" where
  "HasPrefix s p \<longleftrightarrow> take (length p) s = p"

definition HasSuffix :: "string \<Rightarrow> string \<Rightarrow> bool" where
  "HasSuffix s p \<longleftrightarrow> length p \<le> length s \<and> drop (length s - length p) s = p"

definition TrimPrefix :: "string \<Rightarrow> string \<Rightarrow> string" where
  "TrimPrefix s p = (if HasPrefix s p then drop (length p) s else s)"

definition TrimSuffix :: "string \<Rightarrow> string \<Rightarrow> string" where
  "TrimSuffix s p = (if HasSuffix s p then take (length s - length p) s else s)"

lemma HasPrefix_iff: "HasPrefix s p \<longleftrightarrow> (\<exists>t. s = p @ t)"
  unfolding HasPrefix_def by (metis append_eq_conv_conj append_take_drop_id)

lemma HasSuffix_iff: "HasSuffix s p \<longleftrightarrow> (\<exists>t. s = t @ p)"
  unfolding HasSuffix_def
  by (metis add_diff_cancel_right' append_eq_conv_conj append_take_drop_id le_add2 length_append)

text \<open>\<open>strings.Contains\<close> and the general \<open>strings.Split\<close>, for a non-empty separator.\<close>

fun str_contains :: "string \<Rightarrow> string \<Rightarrow> bool" where
  "str_contains [] p = (p = [])"
| "str_contains (c # s) p = (HasPrefix (c # s) p \<or> str_contains s p)"

lemma str_contains_iff: "str_contains s p \<longleftrightarrow> (\<exists>a b. s = a @ p @ b)"
proof (induction s)
  case Nil
  show ?case by auto
next
  case (Cons c s)
  have "(\<exists>a b. c # s = a @ p @ b) \<longleftrightarrow> (\<exists>b. c # s = p @ b) \<or> (\<exists>a b. s = a @ p @ b)"
    by (metis append_Cons append_Nil list.exhaust list.inject)
  with Cons.IH show ?case by (simp add: HasPrefix_iff)
qed

text \<open>\<open>strings.ToUpper\<close>, \<open>strings.ToLower\<close> and \<open>strings.TrimSpace\<close> on ASCII.\<close>

definition upper_char :: "char \<Rightarrow> char" where
  "upper_char c = (if 97 \<le> (of_char c :: nat) \<and> (of_char c :: nat) \<le> 122 then char_of (of_char c - 32 :: nat) else c)"

definition lower_char :: "char \<Rightarrow> char" where
  "lower_char c = (if 65 \<le> (of_char c :: nat) \<and> (of_char c :: nat) \<le> 90 then char_of (of_char c + 32 :: nat) else c)"

definition is_space :: "char \<Rightarrow> bool" where
  "is_space c \<longleftrightarrow> of_char c \<in> {9 :: nat, 10, 11, 12, 13, 32}"

definition TrimSpace :: "string \<Rightarrow> string" where
  "TrimSpace s = rev (dropWhile is_space (rev (dropWhile is_space s)))"

text \<open>\<open>strings.Cut\<close> at a byte: what is before and after its first occurrence.\<close>

definition str_cut :: "char \<Rightarrow> string \<Rightarrow> string \<times> string \<times> bool" where
  "str_cut c s = (takeWhile (\<lambda>x. x \<noteq> c) s, tl (dropWhile (\<lambda>x. x \<noteq> c) s), c \<in> set s)"

text \<open>\<open>strings.Split\<close> with a separator of one byte, the only case the sources use on paths,
  addresses and identifiers, and its inverse \<open>strings.Join\<close>.\<close>

fun split_char :: "char \<Rightarrow> string \<Rightarrow> string list" where
  "split_char c [] = [[]]"
| "split_char c (x # xs) =
    (if x = c then [] # split_char c xs
     else (case split_char c xs of [] \<Rightarrow> [[x]] | y # ys \<Rightarrow> (x # y) # ys))"

fun str_join :: "string list \<Rightarrow> string \<Rightarrow> string" where
  "str_join [] sep = []"
| "str_join [x] sep = x"
| "str_join (x # y # ys) sep = x @ sep @ str_join (y # ys) sep"

lemma split_char_nonempty [simp]: "split_char c s \<noteq> []"
  by (induction s) (auto split: list.splits)

lemma split_char_no_sep: "y \<in> set (split_char c s) \<Longrightarrow> c \<notin> set y"
  by (induction s arbitrary: y) (auto split: list.splits if_splits)

lemma str_join_Cons: "ys \<noteq> [] \<Longrightarrow> str_join (x # ys) sep = x @ sep @ str_join ys sep"
  by (cases ys) auto

lemma join_split: "str_join (split_char c s) [c] = s"
proof (induction s)
  case Nil
  show ?case by simp
next
  case (Cons x s)
  obtain y ys where sp: "split_char c s = y # ys"
    by (cases "split_char c s") auto
  from Cons.IH sp show ?case by (cases ys) (auto)
qed

lemma split_char_append_sep:
  "c \<notin> set x \<Longrightarrow> split_char c (x @ c # s) = x # split_char c s"
  by (induction x) (auto)

lemma split_char_id: "c \<notin> set x \<Longrightarrow> split_char c x = [x]"
  by (induction x) auto

lemma split_join:
  assumes "xs \<noteq> []" and "\<And>x. x \<in> set xs \<Longrightarrow> c \<notin> set x"
  shows "split_char c (str_join xs [c]) = xs"
  using assms
proof (induction xs)
  case Nil
  then show ?case by simp
next
  case (Cons x xs)
  show ?case
  proof (cases xs)
    case Nil
    with Cons.prems show ?thesis by (simp add: split_char_id)
  next
    case (Cons y ys)
    with Cons.IH Cons.prems show ?thesis by (simp add: split_char_append_sep)
  qed
qed

lemma str_join_inj:
  assumes "str_join xs [c] = str_join ys [c]" "xs \<noteq> []" "ys \<noteq> []"
    and "\<And>x. x \<in> set xs \<union> set ys \<Longrightarrow> c \<notin> set x"
  shows "xs = ys"
proof -
  have "xs = split_char c (str_join xs [c])" using assms split_join [of xs c] by simp
  also have "\<dots> = split_char c (str_join ys [c])" using assms(1) by simp
  also have "\<dots> = ys" using assms split_join [of ys c] by simp
  finally show ?thesis .
qed

lemma length_str_join:
  "length (str_join xs sep) = (\<Sum>x\<leftarrow>xs. length x) + (length xs - 1) * length sep"
  by (induction xs sep rule: str_join.induct) auto

text \<open>\<open>strings.ReplaceAll\<close> for a one-byte pattern.\<close>

fun replace_char :: "char \<Rightarrow> string \<Rightarrow> string \<Rightarrow> string" where
  "replace_char c r [] = []"
| "replace_char c r (x # xs) = (if x = c then r else [x]) @ replace_char c r xs"

lemma replace_char_notin: "c \<notin> set r \<Longrightarrow> c \<notin> set (replace_char c r s)"
  by (induction s) auto

lemma replace_char_id [simp]: "c \<notin> set s \<Longrightarrow> replace_char c r s = s"
  by (induction s) auto

section \<open>Package strconv\<close>

definition digit_char :: "nat \<Rightarrow> char" where
  "digit_char d = char_of (48 + d)"

fun nat_str :: "nat \<Rightarrow> string" where
  "nat_str n = (if n < 10 then [digit_char n] else nat_str (n div 10) @ [digit_char (n mod 10)])"

declare nat_str.simps [simp del]

definition Itoa :: "int \<Rightarrow> string" where
  "Itoa i = (if i < 0 then CHR ''-'' # nat_str (nat (- i)) else nat_str (nat i))"

definition is_digit :: "char \<Rightarrow> bool" where
  "is_digit c \<longleftrightarrow> 48 \<le> (of_char c :: nat) \<and> (of_char c :: nat) \<le> 57"

definition digit_val :: "char \<Rightarrow> nat" where
  "digit_val c = of_char c - 48"

definition dec_val :: "string \<Rightarrow> nat" where
  "dec_val s = foldl (\<lambda>a c. a * 10 + digit_val c) 0 s"

text \<open>\<open>strconv.Atoi\<close> on a platform with 64-bit \<open>int\<close>: an optional sign, at least one decimal digit,
  and a value in the range of the type; \<open>None\<close> is any of its errors.\<close>

definition max_int64 :: int where "max_int64 = 2 ^ 63 - 1"
definition min_int64 :: int where "min_int64 = - (2 ^ 63)"

definition Atoi :: "string \<Rightarrow> int option" where
  "Atoi s =
    (let neg = (s \<noteq> [] \<and> hd s = CHR ''-'');
         body = (if s \<noteq> [] \<and> (hd s = CHR ''-'' \<or> hd s = CHR ''+'') then tl s else s);
         v = (if neg then - int (dec_val body) else int (dec_val body))
     in if body = [] \<or> \<not> list_all is_digit body \<or> v < min_int64 \<or> max_int64 < v then None
        else Some v)"

lemma digit_char_val [simp]: "d < 10 \<Longrightarrow> digit_val (digit_char d) = d"
  by (simp add: digit_val_def digit_char_def)

lemma digit_char_digit [simp]: "d < 10 \<Longrightarrow> is_digit (digit_char d)"
  by (simp add: is_digit_def digit_char_def)

lemma dec_val_snoc: "dec_val (s @ [c]) = dec_val s * 10 + digit_val c"
  by (simp add: dec_val_def)

lemma nat_str_nonempty [simp]: "nat_str n \<noteq> []"
  by (subst nat_str.simps) simp

lemma nat_str_digits: "list_all is_digit (nat_str n)"
proof (induction n rule: nat_str.induct)
  case (1 n)
  then show ?case by (subst nat_str.simps) auto
qed

lemma dec_val_nat_str [simp]: "dec_val (nat_str n) = n"
proof (induction n rule: nat_str.induct)
  case (1 n)
  show ?case
  proof (cases "n < 10")
    case True
    then show ?thesis by (subst nat_str.simps) (simp add: dec_val_def)
  next
    case False
    then show ?thesis using 1 by (subst nat_str.simps) (simp add: dec_val_snoc)
  qed
qed

lemma hd_nat_str_digit: "is_digit (hd (nat_str n))"
  using nat_str_digits [of n] by (cases "nat_str n") auto

lemma not_digit_sign [simp]: "\<not> is_digit CHR ''-''" "\<not> is_digit CHR ''+''"
  by (simp_all add: is_digit_def)

lemma Atoi_Itoa: "min_int64 \<le> i \<Longrightarrow> i \<le> max_int64 \<Longrightarrow> Atoi (Itoa i) = Some i"
  using nat_str_digits [of "nat i"] nat_str_digits [of "nat (- i)"]
    hd_nat_str_digit [of "nat i"] hd_nat_str_digit [of "nat (- i)"]
  by (auto simp: Atoi_def Itoa_def Let_def)

lemma nat_str_inj: "nat_str m = nat_str n \<Longrightarrow> m = n"
  by (metis dec_val_nat_str)

section \<open>Association lists as Go maps\<close>

text \<open>A Go map whose iteration order matters to the result is an association list with distinct
  keys; a range loop over it visits the entries in an order the caller of the model chooses.\<close>

definition wf_map :: "('k \<times> 'v) list \<Rightarrow> bool" where
  "wf_map m \<longleftrightarrow> distinct (map fst m)"

lemma wf_map_update [simp]: "wf_map m \<Longrightarrow> wf_map (AList.update k v m)"
  by (simp add: wf_map_def distinct_update)

lemma wf_map_delete [simp]: "wf_map m \<Longrightarrow> wf_map (AList.delete k m)"
  by (simp add: wf_map_def distinct_delete)

lemma wf_map_Nil [simp]: "wf_map []"
  by (simp add: wf_map_def)

lemma map_of_update_iff [simp]: "map_of (AList.update k v m) = (map_of m)(k \<mapsto> v)"
  by (simp add: update_conv')

lemma map_of_delete_iff [simp]: "map_of (AList.delete k m) = (map_of m)(k := None)"
  by (simp add: delete_conv')

text \<open>The order in which a range loop visits the keys of a map or of a set.\<close>

definition is_order :: "('a list \<Rightarrow> 'a list) \<Rightarrow> bool" where
  "is_order ord \<longleftrightarrow> (\<forall>xs. mset (ord xs) = mset xs)"

lemma is_order_id: "is_order id"
  by (simp add: is_order_def)

lemma is_order_rev: "is_order rev"
  by (simp add: is_order_def)

lemma is_order_set [simp]: "is_order ord \<Longrightarrow> set (ord xs) = set xs"
  by (metis is_order_def mset_eq_setD)

lemma is_order_distinct [simp]: "is_order ord \<Longrightarrow> distinct (ord xs) = distinct xs"
  by (metis is_order_def mset_eq_imp_distinct_iff)

section \<open>Lists\<close>

lemma find_None_all: "List.find P xs = None \<longleftrightarrow> (\<forall>x \<in> set xs. \<not> P x)"
  by (auto simp: find_None_iff)

lemma find_Some_in: "List.find P xs = Some x \<Longrightarrow> x \<in> set xs \<and> P x"
  by (auto simp: find_Some_iff)

section \<open>Slices\<close>

text \<open>The slice \<open>s[:n]\<close>; \<open>None\<close> is the run-time panic for an index out of range. Functions whose
  only failure is such a panic return an option throughout the development.\<close>

definition slice_to :: "string \<Rightarrow> int \<Rightarrow> string option" where
  "slice_to s n = (if n < 0 \<or> int (length s) < n then None else Some (take (nat n) s))"

lemma slice_to_Some [simp]:
  "slice_to s n = Some t \<longleftrightarrow> 0 \<le> n \<and> n \<le> int (length s) \<and> t = take (nat n) s"
  by (auto simp: slice_to_def)

lemma slice_to_None [simp]: "slice_to s n = None \<longleftrightarrow> n < 0 \<or> int (length s) < n"
  by (auto simp: slice_to_def)

text \<open>The value that \<open>c, _ := strconv.Atoi(s)\<close> leaves in \<open>c\<close>: 0 for a syntax error, the nearest value of the
  type for one out of range.\<close>

definition Atoi_val :: "string \<Rightarrow> int" where
  "Atoi_val s =
    (let neg = (s \<noteq> [] \<and> hd s = CHR ''-'');
         body = (if s \<noteq> [] \<and> (hd s = CHR ''-'' \<or> hd s = CHR ''+'') then tl s else s)
     in if body = [] \<or> \<not> list_all is_digit body then 0
        else if neg then max min_int64 (- int (dec_val body)) else min max_int64 (int (dec_val body)))"

lemma Atoi_val_Itoa: "min_int64 \<le> i \<Longrightarrow> i \<le> max_int64 \<Longrightarrow> Atoi_val (Itoa i) = i"
  using nat_str_digits [of "nat i"] nat_str_digits [of "nat (- i)"]
    hd_nat_str_digit [of "nat i"] hd_nat_str_digit [of "nat (- i)"]
  by (auto simp: Atoi_val_def Itoa_def Let_def)

lemma find_append:
  "List.find P (xs @ ys) = (case List.find P xs of Some x \<Rightarrow> Some x | None \<Rightarrow> List.find P ys)"
  by (induction xs) auto

end
