(* ===== verification/GoNet.thy ===== *)
theory GoNet
  imports Prelude
begin

text \<open>
  The parts of Go's package \<open>net\<close> the operator relies on: the byte representation of an address,
  \<open>ParseIP\<close>, \<open>ParseCIDR\<close>, \<open>IP.To4\<close>, \<open>IP.Equal\<close>, \<open>IP.Mask\<close>, \<open>CIDRMask\<close> and \<open>IP.String\<close>, for
  IPv4 and IPv6 literals, together with the lemmas that connect the byte-wise operations with
  arithmetic on the value of an address.
\<close>

unbundle bit_operations_syntax

section \<open>Addresses\<close>

text \<open>An address is a slice of 4 or 16 bytes; the nil slice is the empty list.\<close>

type_synonym IP = "8 word list"

definition v4InV6Prefix :: IP where
  "v4InV6Prefix = replicate 10 0 @ [255, 255]"

definition To4 :: "IP \<Rightarrow> IP" where
  "To4 ip = (if length ip = 4 then ip
             else if length ip = 16 \<and> take 12 ip = v4InV6Prefix then drop 12 ip else [])"

definition To16 :: "IP \<Rightarrow> IP" where
  "To16 ip = (if length ip = 4 then v4InV6Prefix @ ip else if length ip = 16 then ip else [])"

definition IP_Equal :: "IP \<Rightarrow> IP \<Rightarrow> bool" where
  "IP_Equal a b =
    (if length a = length b then a = b
     else if length a = 4 \<and> length b = 16 then take 12 b = v4InV6Prefix \<and> a = drop 12 b
     else if length a = 16 \<and> length b = 4 then take 12 a = v4InV6Prefix \<and> drop 12 a = b
     else False)"

text \<open>The value of an address, \<open>big.Int.SetBytes\<close>: most significant byte first.\<close>

fun bytes_val :: "IP \<Rightarrow> nat" where
  "bytes_val [] = 0"
| "bytes_val (b # bs) = unat b * 256 ^ length bs + bytes_val bs"

text \<open>The \<open>n\<close> low-order bytes of a number, most significant byte first.\<close>

fun val_bytes :: "nat \<Rightarrow> nat \<Rightarrow> IP" where
  "val_bytes 0 v = []"
| "val_bytes (Suc n) v = of_nat (v div 256 ^ n) # val_bytes n v"

lemma length_val_bytes [simp]: "length (val_bytes n v) = n"
  by (induction n) auto

lemma unat_byte_less: "unat (b :: 8 word) < 256"
  using unsigned_less [of b, where 'a = nat] by simp

lemma bytes_val_less: "bytes_val bs < 256 ^ length bs"
proof (induction bs)
  case Nil
  show ?case by simp
next
  case (Cons b bs)
  have "unat b < 256" by (rule unat_byte_less)
  then have "Suc (unat b) * 256 ^ length bs \<le> 256 * 256 ^ length bs"
    by (intro mult_le_mono1) simp
  moreover have "256 ^ length (b # bs) = 256 * (256 ^ length bs :: nat)" by simp
  moreover have "Suc (unat b) * 256 ^ length bs = 256 ^ length bs + unat b * 256 ^ length bs" by simp
  ultimately show ?case using Cons.IH unfolding bytes_val.simps by linarith
qed

lemma bytes_val_val_bytes: "bytes_val (val_bytes n v) = v mod 256 ^ n"
proof (induction n)
  case 0
  show ?case by simp
next
  case (Suc n)
  have "unat (of_nat (v div 256 ^ n) :: 8 word) = v div 256 ^ n mod 256"
    by (simp add: unat_of_nat)
  moreover have "v mod (256 ^ n * 256) = 256 ^ n * (v div 256 ^ n mod 256) + v mod 256 ^ n"
    by (rule mod_mult2_eq)
  ultimately show ?case
    using Suc.IH by (simp add: mult.commute)
qed

lemma bytes_val_inj: "bytes_val a = bytes_val b \<Longrightarrow> length a = length b \<Longrightarrow> a = b"
proof (induction a arbitrary: b)
  case Nil
  then show ?case by simp
next
  case (Cons x a)
  then obtain y b' where b: "b = y # b'" "length a = length b'"
    by (cases b) auto
  let ?k = "256 ^ length b' :: nat"
  have eq: "unat x * ?k + bytes_val a = unat y * ?k + bytes_val b'"
    using Cons.prems b by simp
  have lt: "bytes_val a < ?k" "bytes_val b' < ?k"
    using bytes_val_less [of a] bytes_val_less [of b'] b by simp_all
  have "(unat x * ?k + bytes_val a) div ?k = unat x" using lt by simp
  moreover have "(unat y * ?k + bytes_val b') div ?k = unat y" using lt by simp
  ultimately have xy: "unat x = unat y" using eq by simp
  with eq have "bytes_val a = bytes_val b'" by simp
  moreover from xy have "x = y" by (simp add: word_unat_eq_iff)
  ultimately show ?case using b Cons.IH by simp
qed

lemma bytes_val_append:
  "bytes_val (a @ b) = bytes_val a * 256 ^ length b + bytes_val b"
  by (induction a) (auto simp: power_add algebra_simps)

lemma bytes_val_zeros [simp]: "bytes_val (replicate n 0) = 0"
  by (induction n) auto

lemma bytes_val_ones: "bytes_val (replicate n 255) = 256 ^ n - 1"
proof (induction n)
  case 0
  show ?case by simp
next
  case (Suc n)
  have "(1::nat) \<le> 256 ^ n" "unat (255 :: 8 word) = 255" by simp_all
  then show ?case using Suc by (simp del: unsigned_numeral)
qed

section \<open>Masks\<close>

text \<open>\<open>CIDRMask (n, 8 * l)\<close>, for a number of bits in range.\<close>

fun CIDRMask :: "nat \<Rightarrow> nat \<Rightarrow> IP" where
  "CIDRMask n 0 = []"
| "CIDRMask n (Suc l) =
    (if 8 \<le> n then 255 # CIDRMask (n - 8) l
     else NOT (drop_bit n 255) # CIDRMask 0 l)"

lemma length_CIDRMask [simp]: "length (CIDRMask n l) = l"
  by (induction n l rule: CIDRMask.induct) auto

text \<open>\<open>IP.Mask\<close>; the nil slice is returned when the lengths do not agree.\<close>

definition IP_Mask :: "IP \<Rightarrow> IP \<Rightarrow> IP" where
  "IP_Mask ip0 m0 =
    (let m = (if length m0 = 16 \<and> length ip0 = 4 \<and> take 12 m0 = replicate 12 255
              then drop 12 m0 else m0);
         ip = (if length m = 4 \<and> length ip0 = 16 \<and> take 12 ip0 = v4InV6Prefix
               then drop 12 ip0 else ip0)
     in if length ip \<noteq> length m then [] else map2 (AND) ip m)"

definition host_max :: "IP \<Rightarrow> IP \<Rightarrow> IP" where
  "host_max ip m = map2 (\<lambda>a b. a OR NOT b) ip m"

lemma drop_bit_ones:
  assumes "n \<le> 8"
  shows "drop_bit n (255 :: 8 word) = mask (8 - n)"
proof -
  have "(255 :: 8 word) = mask 8" by (simp add: mask_eq_exp_minus_1)
  then show ?thesis using assms
    by (simp add: bit_eq_iff bit_drop_bit_eq bit_mask_iff) auto
qed

lemma and_not_mask_conv:
  fixes b :: "8 word"
  shows "b AND NOT (mask k) = b - take_bit k b"
proof -
  have "b AND NOT (mask k) = b AND NOT (take_bit k b)"
    by (rule bit_word_eqI) (auto simp: bit_simps)
  also have "\<dots> = b - take_bit k b"
    by (rule disjunctive_diff [symmetric]) (auto simp: bit_simps)
  finally show ?thesis .
qed

lemma unat_take_bit_byte: "unat (take_bit k (b :: 8 word)) = unat b mod 2 ^ k"
  by (simp only: unsigned_take_bit_eq) (simp add: take_bit_eq_mod)

lemma byte_and_mask:
  fixes b :: "8 word"
  assumes "n \<le> 8"
  shows "unat (b AND NOT (drop_bit n 255)) = unat b - unat b mod 2 ^ (8 - n)"
proof -
  have "unat (take_bit (8 - n) b) \<le> unat b" by (simp add: unat_take_bit_byte)
  then have "unat (b - take_bit (8 - n) b) = unat b - unat (take_bit (8 - n) b)"
    by (simp add: unat_sub word_le_nat_alt)
  with assms show ?thesis
    by (simp add: drop_bit_ones and_not_mask_conv unat_take_bit_byte)
qed

lemma unat_mask_byte:
  assumes "k \<le> 8"
  shows "unat (mask k :: 8 word) = mask k"
proof -
  from assms have "k = 0 \<or> k = 1 \<or> k = 2 \<or> k = 3 \<or> k = 4 \<or> k = 5 \<or> k = 6 \<or> k = 7 \<or> k = 8"
    by arith
  then show ?thesis by (elim disjE) (simp_all add: mask_eq_exp_minus_1)
qed

lemma full_byte: "(255 :: 8 word) = mask 8"
  by (simp add: mask_eq_exp_minus_1)

lemma and_full_byte: "b AND 255 = (b :: 8 word)"
  unfolding full_byte by (rule bit_word_eqI) (simp add: bit_simps)

lemma or_not_full_byte: "b OR NOT 255 = (b :: 8 word)"
  unfolding full_byte by (rule bit_word_eqI) (auto simp: bit_simps)

lemma byte_or_mask:
  fixes b :: "8 word"
  assumes "n \<le> 8"
  shows "unat (b OR drop_bit n 255) = unat b - unat b mod 2 ^ (8 - n) + (2 ^ (8 - n) - 1)"
proof -
  let ?m = "mask (8 - n) :: 8 word"
  have "unat (b OR ?m) = unat b OR unat ?m" by (rule unsigned_or_eq)
  also have "unat ?m = mask (8 - n)" using assms by (simp add: unat_mask_byte)
  also have "unat b OR mask (8 - n) = (unat b - take_bit (8 - n) (unat b)) + mask (8 - n)"
  proof -
    let ?k = "8 - n"
    have "unat b OR mask ?k = push_bit ?k (drop_bit ?k (unat b)) OR mask ?k"
      by (rule bit_eqI) (auto simp: bit_simps)
    also have "\<dots> = push_bit ?k (drop_bit ?k (unat b)) + mask ?k"
      by (rule disjunctive_add [symmetric]) (auto simp: bit_simps)
    also have "push_bit ?k (drop_bit ?k (unat b)) = unat b - take_bit ?k (unat b)"
      by (simp add: push_bit_eq_mult drop_bit_eq_div take_bit_eq_mod minus_mod_eq_div_mult)
    finally show ?thesis .
  qed
  finally show ?thesis using assms
    by (simp add: drop_bit_ones take_bit_eq_mod mask_eq_exp_minus_1)
qed

lemma CIDRMask_0: "CIDRMask 0 l = replicate l 0"
  by (induction l) (auto)

lemma and_zeros: "length bs = l \<Longrightarrow> map2 (AND) bs (replicate l (0 :: 8 word)) = replicate l 0"
  by (induction bs arbitrary: l) auto

lemma or_not_zeros: "length bs = l \<Longrightarrow> map2 (\<lambda>a b. a OR NOT b) bs (replicate l (0 :: 8 word)) = replicate l 255"
  by (induction bs arbitrary: l) (auto)

lemma mod_low: "(d :: nat) dvd k \<Longrightarrow> (b * k + v) mod d = v mod d"
  by (auto simp: mod_add_eq [symmetric] elim: dvdE)

lemma mod_high:
  assumes "v < (k :: nat)"
  shows "(b * k + v) mod (k * d) = k * (b mod d) + v"
proof -
  have "(b * k + v) mod (k * d) = k * ((b * k + v) div k mod d) + (b * k + v) mod k"
    by (rule mod_mult2_eq)
  with assms show ?thesis by simp
qed

lemma pow256: "(256::nat) ^ l = 2 ^ (8 * l)"
  by (simp add: power_mult)

text \<open>Masking an address is rounding its value down to a multiple of the block size, and setting
  the host bits is rounding it up to the last value of the block.\<close>

lemma bytes_val_mask:
  assumes "n \<le> 8 * length bs"
  shows "bytes_val (map2 (AND) bs (CIDRMask n (length bs)))
         = bytes_val bs - bytes_val bs mod 2 ^ (8 * length bs - n)"
  using assms
proof (induction bs arbitrary: n)
  case Nil
  then show ?case by simp
next
  case (Cons b bs)
  let ?L = "length bs" let ?v = "bytes_val bs" let ?K = "2 ^ (8 * length bs) :: nat"
  have v: "?v < ?K" using bytes_val_less [of bs] by (simp add: pow256)
  show ?case
  proof (cases "8 \<le> n")
    case True
    let ?D = "2 ^ (8 * ?L - (n - 8)) :: nat"
    have D: "?D dvd ?K" by (rule le_imp_power_dvd) simp
    have e: "8 * length (b # bs) - n = 8 * ?L - (n - 8)" using True by simp
    have "unat (b AND 255) = unat b"
      using drop_bit_ones [of 0] by (simp add: and_full_byte)
    moreover have "?v mod ?D \<le> ?v" by simp
    ultimately show ?thesis
      using Cons.IH [of "n - 8"] Cons.prems True mod_low [OF D, of "unat b" ?v]
      unfolding e by (simp add: pow256)
  next
    case False
    have e: "2 ^ (8 * length (b # bs) - n) = ?K * 2 ^ (8 - n)"
      using False by (simp add: power_add [symmetric])
    have "unat b mod 2 ^ (8 - n) \<le> unat b" by simp
    then have "(unat b - unat b mod 2 ^ (8 - n)) * ?K
               = unat b * ?K + ?v - (?K * (unat b mod 2 ^ (8 - n)) + ?v)"
      by (simp add: diff_mult_distrib2 mult.commute)
    then show ?thesis
      using False byte_and_mask [of n b] mod_high [OF v, of "unat b" "2 ^ (8 - n)"]
      unfolding e by (simp add: CIDRMask_0 and_zeros pow256)
  qed
qed

lemma block_end:
  fixes x m d k :: nat
  assumes "m \<le> x" "1 \<le> d" "1 \<le> k"
  shows "(x - m + (d - 1)) * k + (k - 1) = (x * k - k * m) + (k * d - 1)"
proof -
  obtain y where "x = m + y" using assms(1) le_Suc_ex by blast
  moreover obtain d' where "d = Suc d'" using assms(2) by (cases d) auto
  moreover obtain k' where "k = Suc k'" using assms(3) by (cases k) auto
  ultimately show ?thesis by (simp add: algebra_simps)
qed

lemma bytes_val_host_max:
  assumes "n \<le> 8 * length bs"
  shows "bytes_val (host_max bs (CIDRMask n (length bs)))
         = bytes_val bs - bytes_val bs mod 2 ^ (8 * length bs - n) + (2 ^ (8 * length bs - n) - 1)"
  using assms unfolding host_max_def
proof (induction bs arbitrary: n)
  case Nil
  then show ?case by simp
next
  case (Cons b bs)
  let ?L = "length bs" let ?v = "bytes_val bs" let ?K = "2 ^ (8 * length bs) :: nat"
  have v: "?v < ?K" using bytes_val_less [of bs] by (simp add: pow256)
  show ?case
  proof (cases "8 \<le> n")
    case True
    let ?D = "2 ^ (8 * ?L - (n - 8)) :: nat"
    have D: "?D dvd ?K" by (rule le_imp_power_dvd) simp
    have e: "8 * length (b # bs) - n = 8 * ?L - (n - 8)" using True by simp
    have "b OR NOT 255 = b"
      by (rule or_not_full_byte)
    then have "bytes_val (map2 (\<lambda>a b. a OR NOT b) (b # bs) (CIDRMask n (length (b # bs))))
          = unat b * ?K + (?v - ?v mod ?D + (?D - 1))"
      using Cons.IH [of "n - 8"] Cons.prems True by (simp add: pow256)
    also have "\<dots> = unat b * ?K + ?v - ?v mod ?D + (?D - 1)"
      using mod_less_eq_dividend [of ?v ?D] by linarith
    also have "?v mod ?D = bytes_val (b # bs) mod ?D"
      using mod_low [OF D, of "unat b" ?v] by (simp add: pow256)
    also have "unat b * ?K + ?v = bytes_val (b # bs)" by (simp add: pow256)
    finally show ?thesis unfolding e .
  next
    case False
    let ?d = "2 ^ (8 - n) :: nat"
    have e: "2 ^ (8 * length (b # bs) - n) = ?K * ?d"
      using False by (simp add: power_add [symmetric])
    have d: "unat b mod ?d \<le> unat b" "1 \<le> ?d" "1 \<le> ?K" by simp_all
    have "(unat b - unat b mod ?d + (?d - 1)) * ?K + (?K - 1)
          = (unat b * ?K - ?K * (unat b mod ?d)) + (?K * ?d - 1)"
      by (rule block_end [OF d])
    then show ?thesis
      using False byte_or_mask [of n b] mod_high [OF v, of "unat b" ?d]
      unfolding e by (simp add: CIDRMask_0 or_not_zeros bytes_val_ones pow256)
  qed
qed

section \<open>Parsing\<close>

text \<open>One field of a dotted-quad address: decimal, no leading zero, at most 255.\<close>

definition parse_octet :: "string \<Rightarrow> 8 word option" where
  "parse_octet s =
    (if s \<noteq> [] \<and> list_all is_digit s \<and> (length s = 1 \<or> hd s \<noteq> CHR ''0'') \<and> dec_val s \<le> 255
     then Some (of_nat (dec_val s)) else None)"

definition parseIPv4 :: "string \<Rightarrow> IP option" where
  "parseIPv4 s =
    (case split_char CHR ''.'' s of
       [a, b, c, d] \<Rightarrow>
         (case (parse_octet a, parse_octet b, parse_octet c, parse_octet d) of
            (Some w, Some x, Some y, Some z) \<Rightarrow> Some [w, x, y, z]
          | _ \<Rightarrow> None)
     | _ \<Rightarrow> None)"

definition hex_val :: "char \<Rightarrow> nat option" where
  "hex_val c =
    (let n = of_char c in
     if 48 \<le> n \<and> n \<le> 57 then Some (n - 48)
     else if 97 \<le> n \<and> n \<le> 102 then Some (n - 87)
     else if 65 \<le> n \<and> n \<le> 70 then Some (n - 55)
     else None)"

definition is_hex :: "char \<Rightarrow> bool" where
  "is_hex c \<longleftrightarrow> hex_val c \<noteq> None"

definition hex_group :: "string \<Rightarrow> IP" where
  "hex_group g =
    val_bytes 2 (foldl (\<lambda>a c. a * 16 + (case hex_val c of Some d \<Rightarrow> d | None \<Rightarrow> 0)) 0 g)"

text \<open>One iteration of the group loop of \<open>netip.parseIPv6\<close>: the state is the bytes read so far, the
  position of the ellipsis and the rest of the input. An iteration fails, leaves the loop
  (\<open>Inl\<close>) or continues it (\<open>Inr\<close>); it consumes at least one hexadecimal digit.\<close>

type_synonym parse6_state = "IP \<times> nat option \<times> string"

definition parse6_step :: "IP \<Rightarrow> nat option \<Rightarrow> string \<Rightarrow> (parse6_state + parse6_state) option" where
  "parse6_step acc ell s =
    (let g = takeWhile is_hex s; rest = dropWhile is_hex s; acc' = acc @ hex_group g in
     if g = [] \<or> 4 < length g then None
     else if rest \<noteq> [] \<and> hd rest = CHR ''.'' then
       (if ell = None \<and> length acc \<noteq> 12 then None
        else if 16 < length acc + 4 then None
        else (case parseIPv4 s of None \<Rightarrow> None | Some b \<Rightarrow> Some (Inl (acc @ b, ell, []))))
     else if rest = [] then Some (Inl (acc', ell, []))
     else if hd rest \<noteq> CHR '':'' then None
     else if length rest = 1 then None
     else if hd (tl rest) = CHR '':'' then
       (if ell \<noteq> None then None
        else if tl (tl rest) = [] then Some (Inl (acc', Some (length acc'), []))
        else Some (Inr (acc', Some (length acc'), tl (tl rest))))
     else Some (Inr (acc', ell, tl rest)))"

lemma length_dropWhile_less:
  "takeWhile P s \<noteq> [] \<Longrightarrow> length (dropWhile P s) < length s"
  by (metis length_append length_greater_0_conv less_add_same_cancel2 takeWhile_dropWhile_id)

lemma parse6_step_less:
  assumes "parse6_step acc ell s = Some (Inr (acc', ell', s'))"
  shows "length s' < length s"
proof -
  have "takeWhile is_hex s \<noteq> []" "s' = tl (dropWhile is_hex s) \<or> s' = tl (tl (dropWhile is_hex s))"
    using assms by (auto simp only: parse6_step_def Let_def option.inject sum.inject prod.inject
        sum.distinct option.distinct split: if_splits option.splits)
  with length_dropWhile_less [of is_hex s] show ?thesis by auto
qed

function parse6_loop :: "IP \<Rightarrow> nat option \<Rightarrow> string \<Rightarrow> parse6_state option" where
  "parse6_loop acc ell s =
    (if 16 \<le> length acc then Some (acc, ell, s)
     else (case parse6_step acc ell s of
             None \<Rightarrow> None
           | Some (Inl r) \<Rightarrow> Some r
           | Some (Inr (acc', ell', s')) \<Rightarrow> parse6_loop acc' ell' s'))"
  by pat_completeness auto

termination
  by (relation "measure (\<lambda>(acc, ell, s). length s)") (auto dest: parse6_step_less)

declare parse6_loop.simps [simp del]

definition parseIPv6 :: "string \<Rightarrow> IP option" where
  "parseIPv6 s =
    (if CHR ''%'' \<in> set s then None
     else
       let ell0 = (if take 2 s = ''::'' then Some 0 else None);
           body = (if take 2 s = ''::'' then drop 2 s else s)
       in if ell0 = Some 0 \<and> body = [] then Some (replicate 16 0)
          else (case parse6_loop [] ell0 body of
                  None \<Rightarrow> None
                | Some (acc, ell, rest) \<Rightarrow>
                    if rest \<noteq> [] then None
                    else if length acc < 16 then
                      (case ell of None \<Rightarrow> None
                       | Some e \<Rightarrow> Some (take e acc @ replicate (16 - length acc) 0 @ drop e acc))
                    else if ell \<noteq> None then None
                    else Some acc))"

text \<open>\<open>netip.ParseAddr\<close> without a zone: four bytes for a dotted quad, sixteen otherwise.\<close>

definition ParseAddr :: "string \<Rightarrow> IP option" where
  "ParseAddr s =
    (case List.find (\<lambda>c. c = CHR ''.'' \<or> c = CHR '':'' \<or> c = CHR ''%'') s of
       Some c \<Rightarrow> if c = CHR ''.'' then parseIPv4 s else if c = CHR '':'' then parseIPv6 s else None
     | None \<Rightarrow> None)"

definition ParseIP :: "string \<Rightarrow> IP option" where
  "ParseIP s = map_option To16 (ParseAddr s)"

text \<open>\<open>ParseCIDR\<close>: the address, and the network as its address and mask.\<close>

definition ParseCIDR :: "string \<Rightarrow> (IP \<times> IP \<times> IP) option" where
  "ParseCIDR s =
    (let addr = takeWhile (\<lambda>c. c \<noteq> CHR ''/'') s; rest = dropWhile (\<lambda>c. c \<noteq> CHR ''/'') s in
     if rest = [] then None
     else (case ParseAddr addr of
             None \<Rightarrow> None
           | Some a \<Rightarrow>
               let m = tl rest; bits = 8 * length a; n = dec_val m in
               if m = [] \<or> \<not> list_all is_digit m \<or> bits < n then None
               else Some (To16 a, IP_Mask (To16 a) (CIDRMask n (length a)), CIDRMask n (length a))))"

section \<open>Printing\<close>

definition quad_str :: "IP \<Rightarrow> string" where
  "quad_str ip = str_join (map (\<lambda>b. nat_str (unat b)) ip) ''.''"

definition hex_digit :: "nat \<Rightarrow> char" where
  "hex_digit d = (if d < 10 then char_of (48 + d) else char_of (87 + d))"

fun hex_str :: "nat \<Rightarrow> string" where
  "hex_str n = (if n < 16 then [hex_digit n] else hex_str (n div 16) @ [hex_digit (n mod 16)])"

declare hex_str.simps [simp del]

fun groups16 :: "IP \<Rightarrow> nat list" where
  "groups16 (a # b # bs) = (unat a * 256 + unat b) # groups16 bs"
| "groups16 _ = []"

text \<open>The longest run of at least two zero groups, the first one if there are several.\<close>

definition zero_run :: "nat list \<Rightarrow> nat \<times> nat" where
  "zero_run gs =
    foldl (\<lambda>(zs, ze) i. let l = length (takeWhile (\<lambda>g. g = 0) (drop i gs)) in
                        if 2 \<le> l \<and> ze - zs < l then (i, i + l) else (zs, ze)) (255, 255) [0..<8]"

definition string6 :: "IP \<Rightarrow> string" where
  "string6 ip =
    (let gs = groups16 ip; (zs, ze) = zero_run gs in
     if zs = 255 then str_join (map hex_str gs) '':''
     else str_join (map hex_str (take zs gs)) '':'' @ ''::'' @ str_join (map hex_str (drop ze gs)) '':'')"

definition IP_String :: "IP \<Rightarrow> string" where
  "IP_String ip =
    (if ip = [] then ''<nil>''
     else if length ip \<noteq> 4 \<and> length ip \<noteq> 16 then CHR ''?'' # concat (map (\<lambda>b. [hex_digit (unat b div 16), hex_digit (unat b mod 16)]) ip)
     else if To4 ip \<noteq> [] then quad_str (To4 ip) else string6 ip)"

section \<open>Shape of parsed addresses\<close>

lemma parseIPv4_length: "parseIPv4 s = Some ip \<Longrightarrow> length ip = 4"
  by (auto simp: parseIPv4_def split: list.splits option.splits)

lemma hex_group_length [simp]: "length (hex_group g) = 2"
  by (simp add: hex_group_def)

lemma parse6_step_shape:
  assumes "parse6_step acc ell s = Some r" "length acc < 16" "even (length acc)"
    "\<And>e. ell = Some e \<Longrightarrow> e \<le> length acc"
    and "(case r of Inl q \<Rightarrow> q | Inr q \<Rightarrow> q) = (acc', ell', s')"
  shows "length acc' \<le> 16 \<and> even (length acc') \<and> (\<forall>e. ell' = Some e \<longrightarrow> e \<le> length acc')"
proof -
  have le: "length acc + 2 \<le> 16" using assms(2,3) by (auto elim!: evenE)
  have "(length acc' = length acc + 2 \<and> (ell' = ell \<or> ell' = Some (length acc')))
      \<or> (length acc' = length acc + 4 \<and> length acc + 4 \<le> 16 \<and> ell' = ell)"
    using assms(1,5)
    by (auto simp only: parse6_step_def Let_def option.inject sum.case prod.inject length_append
        hex_group_length not_less option.distinct parseIPv4_length split: if_splits option.splits)
  with assms(3,4) le show ?thesis by fastforce
qed

lemma parse6_loop_shape:
  assumes "parse6_loop acc ell s = Some (acc', ell', rest)"
    and "length acc \<le> 16" "even (length acc)" "\<And>e. ell = Some e \<Longrightarrow> e \<le> length acc"
  shows "length acc' \<le> 16 \<and> (\<forall>e. ell' = Some e \<longrightarrow> e \<le> length acc')"
  using assms
proof (induction acc ell s rule: parse6_loop.induct)
  case (1 acc ell s)
  show ?case
  proof (cases "16 \<le> length acc")
    case True
    with 1(2-) show ?thesis by (simp add: parse6_loop.simps [of acc])
  next
    case False
    with 1(2) obtain r where r: "parse6_step acc ell s = Some r"
      by (auto simp: parse6_loop.simps [of acc] split: option.splits)
    note shape = parse6_step_shape [OF r _ 1(4,5)]
    show ?thesis
    proof (cases r)
      case (Inl q)
      with r False 1(2) have "q = (acc', ell', rest)" by (simp add: parse6_loop.simps [of acc])
      with Inl shape [of acc' ell' rest] False show ?thesis by simp
    next
      case (Inr q)
      obtain acc1 ell1 s1 where q: "q = (acc1, ell1, s1)" by (cases q) auto
      have sh: "length acc1 \<le> 16 \<and> even (length acc1) \<and> (\<forall>e. ell1 = Some e \<longrightarrow> e \<le> length acc1)"
        using shape [of acc1 ell1 s1] Inr q False by simp
      have "parse6_loop acc1 ell1 s1 = Some (acc', ell', rest)"
        using 1(2) r Inr q False by (simp add: parse6_loop.simps [of acc])
      from 1(1) [OF False r [unfolded Inr q] refl refl refl this] sh show ?thesis
        by blast
    qed
  qed
qed

lemma parseIPv6_length:
  assumes "parseIPv6 s = Some ip"
  shows "length ip = 16"
proof -
  have shape: "length acc \<le> 16 \<and> (\<forall>e. ell = Some e \<longrightarrow> e \<le> length acc)"
    if "parse6_loop [] e0 b = Some (acc, ell, [])" "e0 = None \<or> e0 = Some 0" for e0 b acc ell
    using parse6_loop_shape [OF that(1)] that(2) by auto
  show ?thesis
    using assms unfolding parseIPv6_def Let_def
    by (auto split: if_splits option.splits dest!: shape)
qed

lemma ParseAddr_length: "ParseAddr s = Some a \<Longrightarrow> length a = 4 \<or> length a = 16"
  by (auto simp: ParseAddr_def parseIPv4_length parseIPv6_length split: option.splits if_splits)

lemma IP_Mask_To16:
  assumes "length a = 4 \<or> length a = 16"
  shows "IP_Mask (To16 a) (CIDRMask n (length a)) = map2 (AND) a (CIDRMask n (length a))"
  using assms by (auto simp: IP_Mask_def To16_def v4InV6Prefix_def)

lemma ParseCIDR_Some:
  assumes "ParseCIDR s = Some (ip, net, m)"
  shows "\<exists>a n. (length a = 4 \<or> length a = 16) \<and> n \<le> 8 * length a \<and> ip = To16 a
           \<and> m = CIDRMask n (length a) \<and> net = map2 (AND) a (CIDRMask n (length a))"
proof -
  let ?addr = "takeWhile (\<lambda>c. c \<noteq> CHR ''/'') s"
  let ?n = "dec_val (tl (dropWhile (\<lambda>c. c \<noteq> CHR ''/'') s))"
  from assms obtain a where a: "ParseAddr ?addr = Some a"
    by (auto simp: ParseCIDR_def Let_def split: if_splits option.splits)
  have len: "length a = 4 \<or> length a = 16" by (rule ParseAddr_length [OF a])
  from assms a have "?n \<le> 8 * length a" "ip = To16 a" "m = CIDRMask ?n (length a)"
    "net = IP_Mask (To16 a) (CIDRMask ?n (length a))"
    by (auto simp: ParseCIDR_def Let_def split: if_splits)
  with len IP_Mask_To16 [OF len] show ?thesis by auto
qed

lemma nat_str_no_dot: "c \<in> set (nat_str n) \<Longrightarrow> is_digit c"
  using nat_str_digits [of n] by (auto simp: list_all_iff)

lemma hd_nat_str_nonzero: "10 \<le> n \<Longrightarrow> hd (nat_str n) \<noteq> CHR ''0''"
proof (induction n rule: nat_str.induct)
  case (1 n)
  show ?case
  proof (cases "n div 10 < 10")
    case True
    then have "nat_str (n div 10) = [digit_char (n div 10)]" by (subst nat_str.simps) simp
    moreover have "digit_char (n div 10) \<noteq> CHR ''0''"
    proof
      assume "digit_char (n div 10) = CHR ''0''"
      then have "digit_val (digit_char (n div 10)) = digit_val CHR ''0''" by simp
      moreover have "digit_val CHR ''0'' = 0" by (simp add: digit_val_def)
      ultimately show False using True "1.prems" by simp
    qed
    ultimately show ?thesis using "1.prems" by (subst nat_str.simps) simp
  next
    case False
    with 1 show ?thesis by (subst nat_str.simps) simp
  qed
qed

lemma parse_octet_nat_str: "parse_octet (nat_str (unat b)) = Some b"
proof -
  have "unat b \<le> 255" using unat_byte_less [of b] by simp
  moreover have "length (nat_str (unat b)) = 1 \<or> hd (nat_str (unat b)) \<noteq> CHR ''0''"
  proof (cases "unat b < 10")
    case True
    then show ?thesis by (subst nat_str.simps) simp
  next
    case False
    then show ?thesis using hd_nat_str_nonzero [of "unat b"] by simp
  qed
  ultimately show ?thesis
    by (simp add: parse_octet_def nat_str_digits)
qed

text \<open>Printing a dotted quad and parsing it again gives the address back.\<close>

lemma quad_str_split:
  "ip \<noteq> [] \<Longrightarrow> split_char CHR ''.'' (quad_str ip) = map (\<lambda>b. nat_str (unat b)) ip"
  unfolding quad_str_def
  by (rule split_join) (auto dest!: nat_str_no_dot simp: is_digit_def)

lemma parseIPv4_quad_str:
  assumes "length ip = 4"
  shows "parseIPv4 (quad_str ip) = Some ip"
proof -
  obtain a b c d where ip: "ip = [a, b, c, d]"
    using assms by (auto simp: length_Suc_conv numeral_eq_Suc)
  then show ?thesis
    using quad_str_split [of ip] by (simp add: parseIPv4_def parse_octet_nat_str)
qed

lemma find_skip: "(\<And>x. x \<in> set xs \<Longrightarrow> \<not> P x) \<Longrightarrow> P y \<Longrightarrow> List.find P (xs @ y # ys) = Some y"
  by (induction xs) auto

lemma ParseAddr_quad_str:
  assumes "length ip = 4"
  shows "ParseAddr (quad_str ip) = Some ip"
proof -
  let ?P = "\<lambda>c. c = CHR ''.'' \<or> c = CHR '':'' \<or> c = CHR ''%''"
  obtain a b c d where ip: "ip = [a, b, c, d]"
    using assms by (auto simp: length_Suc_conv numeral_eq_Suc)
  have "quad_str ip = nat_str (unat a) @ CHR ''.'' # str_join (map (\<lambda>b. nat_str (unat b)) [b, c, d]) ''.''"
    by (simp add: quad_str_def ip)
  moreover have "\<not> ?P x" if "x \<in> set (nat_str (unat a))" for x
    using nat_str_no_dot [OF that] by (auto simp: is_digit_def)
  ultimately have "List.find ?P (quad_str ip) = Some CHR ''.''"
    by (simp add: find_skip)
  with assms show ?thesis by (simp add: ParseAddr_def parseIPv4_quad_str)
qed

end
