(* ===== verification/IpRange.thy ===== *)
theory IpRange
  imports GoNet
begin

text \<open>
  Address arithmetic of \<open>pkg/util/ip.go\<close>: prefixes and masks, the address range of a CIDR, and the
  subtraction of excepted CIDRs from a CIDR that security policies with \<open>ipBlock.except\<close> use. A range
  is the pair of its two addresses; its meaning is the set of values between them.
\<close>

section \<open>Prefixes, masks and families\<close>

definition RemoveIPPrefix :: "string \<Rightarrow> gerror + string" where
  "RemoveIPPrefix ipAddress =
    (let ip = hd (split_char CHR ''/'' ipAddress) in
     if ParseIP ip = None then Inl ''invalid IP address'' else Inr ip)"

text \<open>The value next to an error is \<open>-1\<close> in the code and is not modelled.\<close>

definition GetIPPrefix :: "string \<Rightarrow> gerror + int" where
  "GetIPPrefix ipAddress =
    (case split_char CHR ''/'' ipAddress of
       _ # p # _ \<Rightarrow> (case Atoi p of None \<Rightarrow> Inl ''strconv.Atoi'' | Some num \<Rightarrow> Inr num)
     | _ \<Rightarrow> Inl ''invalid IP address or CIDR format'')"

definition GetSubnetMask :: "int \<Rightarrow> gerror + string" where
  "GetSubnetMask subnetLength =
    (if subnetLength < 0 \<or> 32 < subnetLength then Inl ''invalid subnet mask length''
     else let subnetBinary = push_bit (nat (32 - subnetLength)) (0xffffffff :: 32 word) in
          Inr (IP_String (v4InV6Prefix @
            [ucast (drop_bit 24 subnetBinary), ucast (drop_bit 16 subnetBinary),
             ucast (drop_bit 8 subnetBinary), ucast subnetBinary])))"

definition IsIPv6CIDR :: "string \<Rightarrow> bool" where
  "IsIPv6CIDR cidrStr =
    (case ParseCIDR cidrStr of None \<Rightarrow> False | Some (ip, _, _) \<Rightarrow> To4 ip = [])"

fun ContainsIPv4CIDR :: "string list \<Rightarrow> bool" where
  "ContainsIPv4CIDR [] = False"
| "ContainsIPv4CIDR (c # cs) =
    ((case ParseCIDR c of None \<Rightarrow> False | Some (ip, _, _) \<Rightarrow> To4 ip \<noteq> []) \<or> ContainsIPv4CIDR cs)"

fun ContainsIPv6CIDR :: "string list \<Rightarrow> bool" where
  "ContainsIPv6CIDR [] = False"
| "ContainsIPv6CIDR (c # cs) = (IsIPv6CIDR c \<or> ContainsIPv6CIDR cs)"

definition IsIPv6 :: "string \<Rightarrow> bool" where
  "IsIPv6 addr = (case ParseIP addr of None \<Rightarrow> False | Some ip \<Rightarrow> To4 ip = [])"

text \<open>The address count of a network comes from the package go-cidr and is a parameter; the
  conversion to \<open>int\<close> and the sum wrap at 64 bits.\<close>

fun CalculateIPFromCIDRs :: "(IP \<Rightarrow> IP \<Rightarrow> 64 word) \<Rightarrow> string list \<Rightarrow> 64 word \<Rightarrow> gerror + 64 word" where
  "CalculateIPFromCIDRs addressCount [] tot = Inr tot"
| "CalculateIPFromCIDRs addressCount (addr # rest) tot =
    (case ParseCIDR addr of
       None \<Rightarrow> Inl (''invalid CIDR address: '' @ addr)
     | Some (_, net, m) \<Rightarrow> CalculateIPFromCIDRs addressCount rest (tot + addressCount net m))"

datatype ip_address_type = IPAddressTypeIPv4 | IPAddressTypeIPv6 | IPAddressTypeIPv4IPv6 | IPAddressTypeOther string

definition IPAddressTypeIncludesIPv6 :: "ip_address_type \<Rightarrow> bool" where
  "IPAddressTypeIncludesIPv6 t \<longleftrightarrow> t = IPAddressTypeIPv6 \<or> t = IPAddressTypeIPv4IPv6"

definition IPAddressTypeIncludesIPv4 :: "ip_address_type \<Rightarrow> bool" where
  "IPAddressTypeIncludesIPv4 t \<longleftrightarrow> t \<noteq> IPAddressTypeIPv6"

fun CountAddressBindingsByFamily :: "string list \<Rightarrow> nat \<times> nat" where
  "CountAddressBindingsByFamily [] = (0, 0)"
| "CountAddressBindingsByFamily (b # bs) =
    (let (v4, v6) = CountAddressBindingsByFamily bs in
     if b = '''' then (v4 + 1, v6)
     else (case ParseIP b of
             Some ip \<Rightarrow> if To4 ip = [] then (v4, v6 + 1) else (v4 + 1, v6)
           | None \<Rightarrow> (v4 + 1, v6)))"

section \<open>Ranges\<close>

type_synonym iprange = "IP \<times> IP"

definition normalizeIP :: "IP \<Rightarrow> IP" where
  "normalizeIP ip = (if To4 ip \<noteq> [] then To4 ip else To16 ip)"

definition parseCIDRRange :: "string \<Rightarrow> gerror + iprange" where
  "parseCIDRRange cidr =
    (case ParseCIDR cidr of
       None \<Rightarrow> Inl (''invalid CIDR address: '' @ cidr)
     | Some (_, net, m) \<Rightarrow> let startIP = normalizeIP net in Inr (startIP, host_max startIP m))"

definition ipToBigInt :: "IP \<Rightarrow> int" where
  "ipToBigInt ip = int (bytes_val (normalizeIP ip))"

definition bigIntToIP :: "int \<Rightarrow> nat \<Rightarrow> IP" where
  "bigIntToIP n ipLen = (if n \<le> 0 then replicate ipLen 0 else val_bytes ipLen (nat n))"

definition calculateOffsetIP :: "IP \<Rightarrow> int \<Rightarrow> IP" where
  "calculateOffsetIP ip0 offset =
    (let ip = normalizeIP ip0 in bigIntToIP (ipToBigInt ip + offset) (length ip))"

definition compareIP :: "IP \<Rightarrow> IP \<Rightarrow> bool" where
  "compareIP ip1 ip2 \<longleftrightarrow> ipToBigInt ip1 < ipToBigInt ip2"

definition equalIP :: "IP \<Rightarrow> IP \<Rightarrow> bool" where
  "equalIP ip1 ip2 \<longleftrightarrow> IP_Equal (normalizeIP ip1) (normalizeIP ip2)"

definition rangeAppend :: "iprange list \<Rightarrow> iprange \<Rightarrow> iprange list" where
  "rangeAppend ranges r = (if \<not> compareIP (snd r) (fst r) then ranges @ [r] else ranges)"

datatype location =
  LocationBeforeStart | LocationAtStart | LocationBetween | LocationAtEnd | LocationAfterEnd

definition getIPPositionInRange :: "iprange \<Rightarrow> IP \<Rightarrow> location" where
  "getIPPositionInRange rng ip =
    (if compareIP ip (fst rng) then LocationBeforeStart
     else if equalIP ip (fst rng) then LocationAtStart
     else if compareIP ip (snd rng) then LocationBetween
     else if equalIP ip (snd rng) then LocationAtEnd
     else LocationAfterEnd)"

text \<open>The body of the loop over the ranges.\<close>

definition abstractRange :: "iprange \<Rightarrow> iprange list \<Rightarrow> iprange \<Rightarrow> iprange list" where
  "abstractRange except results r =
    (let rng = (normalizeIP (fst r), normalizeIP (snd r));
         exceptPrev = calculateOffsetIP (fst except) (- 1);
         exceptNext = calculateOffsetIP (snd except) 1;
         p0 = getIPPositionInRange rng (fst except);
         p1 = getIPPositionInRange rng (snd except)
     in case p0 of
          LocationBeforeStart \<Rightarrow>
            if p1 = LocationBeforeStart then rangeAppend results rng
            else if p1 = LocationAtStart \<or> p1 = LocationBetween
            then rangeAppend results (exceptNext, snd rng) else results
        | LocationAtStart \<Rightarrow>
            if p1 = LocationAtStart \<or> p1 = LocationBetween
            then rangeAppend results (exceptNext, snd rng) else results
        | LocationBetween \<Rightarrow>
            if p1 = LocationBetween
            then rangeAppend (rangeAppend results (fst rng, exceptPrev)) (exceptNext, snd rng)
            else rangeAppend results (fst rng, exceptPrev)
        | LocationAtEnd \<Rightarrow> rangeAppend results (fst rng, exceptPrev)
        | LocationAfterEnd \<Rightarrow> rangeAppend results rng)"

definition rangesAbstractRange :: "iprange list \<Rightarrow> iprange \<Rightarrow> iprange list" where
  "rangesAbstractRange ranges except =
    foldl (abstractRange (normalizeIP (fst except), normalizeIP (snd except))) [] ranges"

fun removeExcepts :: "iprange list \<Rightarrow> string list \<Rightarrow> gerror + iprange list" where
  "removeExcepts calculatedRanges [] = Inr calculatedRanges"
| "removeExcepts calculatedRanges (ept # epts) =
    (case parseCIDRRange ept of
       Inl err \<Rightarrow> Inl err
     | Inr except \<Rightarrow> removeExcepts (rangesAbstractRange calculatedRanges except) epts)"

definition range_str :: "iprange \<Rightarrow> string" where
  "range_str rng = IP_String (fst rng) @ ''-'' @ IP_String (snd rng)"

definition GetCIDRRangesWithExcept :: "string \<Rightarrow> string list \<Rightarrow> gerror + string list" where
  "GetCIDRRangesWithExcept cidr excepts =
    (case parseCIDRRange cidr of
       Inl err \<Rightarrow> Inl err
     | Inr main \<Rightarrow>
         (case removeExcepts [main] excepts of
            Inl err \<Rightarrow> Inl err
          | Inr calculatedRanges \<Rightarrow> Inr (map range_str calculatedRanges)))"

section \<open>Meaning of ranges\<close>

definition range_set :: "iprange \<Rightarrow> nat set" where
  "range_set r = {bytes_val (fst r)..bytes_val (snd r)}"

definition ranges_set :: "iprange list \<Rightarrow> nat set" where
  "ranges_set rs = (\<Union>r \<in> set rs. range_set r)"

text \<open>The smallest value from which every address of a family is its own canonical form: an IPv6
  address below it may be an IPv4-mapped one, which the code shortens to four bytes.\<close>

definition family_floor :: "nat \<Rightarrow> nat" where
  "family_floor l = (if l = 16 then 2 ^ 48 else 0)"

definition range_ok :: "nat \<Rightarrow> iprange \<Rightarrow> bool" where
  "range_ok l r \<longleftrightarrow> length (fst r) = l \<and> length (snd r) = l \<and> family_floor l \<le> bytes_val (fst r)
     \<and> bytes_val (fst r) \<le> bytes_val (snd r)"

definition ascending :: "iprange list \<Rightarrow> bool" where
  "ascending rs \<longleftrightarrow> sorted_wrt (\<lambda>a b. bytes_val (snd a) < bytes_val (fst b)) rs"

lemma range_set_alt: "v \<in> range_set r \<longleftrightarrow> bytes_val (fst r) \<le> v \<and> v \<le> bytes_val (snd r)"
  by (simp add: range_set_def)

lemma ranges_set_simps [simp]:
  "ranges_set [] = {}" "ranges_set (r # rs) = range_set r \<union> ranges_set rs"
  "ranges_set (rs @ qs) = ranges_set rs \<union> ranges_set qs"
  by (auto simp: ranges_set_def)

section \<open>Canonical addresses\<close>

lemma mapped_value:
  assumes "length ip = 16" "take 12 ip = v4InV6Prefix"
  shows "bytes_val ip < 2 ^ 48"
proof -
  have "ip = v4InV6Prefix @ drop 12 ip" using assms(2) by (metis append_take_drop_id)
  moreover have "length (drop 12 ip) = 4" using assms(1) by simp
  ultimately have "bytes_val ip = bytes_val v4InV6Prefix * 256 ^ 4 + bytes_val (drop 12 ip)"
    by (metis bytes_val_append)
  moreover have "bytes_val (drop 12 ip) < 256 ^ 4"
    using bytes_val_less [of "drop 12 ip"] assms(1) by simp
  ultimately show ?thesis by (simp add: v4InV6Prefix_def bytes_val_append)
qed

lemma normalizeIP_canonical:
  assumes "length ip = 4 \<or> length ip = 16" "family_floor (length ip) \<le> bytes_val ip"
  shows "normalizeIP ip = ip"
proof (cases "length ip = 4")
  case True
  then show ?thesis by (auto simp: normalizeIP_def To4_def)
next
  case False
  then have l: "length ip = 16" using assms by simp
  then have "take 12 ip \<noteq> v4InV6Prefix"
    using mapped_value [OF l] assms(2) by (auto simp: family_floor_def)
  with l show ?thesis by (simp add: normalizeIP_def To4_def To16_def)
qed

lemma ipToBigInt_canonical:
  assumes "length ip = 4 \<or> length ip = 16" "family_floor (length ip) \<le> bytes_val ip"
  shows "ipToBigInt ip = int (bytes_val ip)"
  by (simp add: ipToBigInt_def normalizeIP_canonical [OF assms])

lemma ipToBigInt_below:
  assumes "length ip = 4 \<or> length ip = 16" "bytes_val ip < family_floor (length ip)"
  shows "ipToBigInt ip < int (family_floor (length ip))"
proof -
  have l: "length ip = 16" using assms by (auto simp: family_floor_def split: if_splits)
  show ?thesis
  proof (cases "take 12 ip = v4InV6Prefix")
    case True
    have "bytes_val (drop 12 ip) < 256 ^ 4"
      using bytes_val_less [of "drop 12 ip"] l by simp
    moreover have "normalizeIP ip = drop 12 ip"
      using True l by (auto simp: normalizeIP_def To4_def)
    ultimately show ?thesis using l by (simp add: ipToBigInt_def family_floor_def)
  next
    case False
    then have "normalizeIP ip = ip" using l by (simp add: normalizeIP_def To4_def To16_def)
    with assms(2) show ?thesis by (simp add: ipToBigInt_def)
  qed
qed

text \<open>Comparison, equality and neighbours of an address with respect to a well-formed range
  are comparison, equality and successor of values.\<close>

lemma compareIP_floor:
  assumes "length a = l" "length b = l" "l = 4 \<or> l = 16" "family_floor l \<le> bytes_val b"
  shows "compareIP a b \<longleftrightarrow> bytes_val a < bytes_val b"
proof (cases "family_floor l \<le> bytes_val a")
  case True
  with assms show ?thesis by (simp add: compareIP_def ipToBigInt_canonical)
next
  case False
  with assms ipToBigInt_below [of a] ipToBigInt_canonical [of b] show ?thesis
    by (simp add: compareIP_def)
qed

lemma equalIP_floor:
  assumes "length a = l" "length b = l" "l = 4 \<or> l = 16"
    "family_floor l \<le> bytes_val a" "family_floor l \<le> bytes_val b"
  shows "equalIP a b \<longleftrightarrow> bytes_val a = bytes_val b"
  using assms by (auto simp: equalIP_def normalizeIP_canonical IP_Equal_def dest: bytes_val_inj)

lemma position_value:
  assumes "range_ok l r" "length e = l" "l = 4 \<or> l = 16"
  shows "getIPPositionInRange r e =
    (let v = bytes_val e; lo = bytes_val (fst r); hi = bytes_val (snd r) in
     if v < lo then LocationBeforeStart else if v = lo then LocationAtStart
     else if v < hi then LocationBetween else if v = hi then LocationAtEnd else LocationAfterEnd)"
proof (cases "bytes_val e < bytes_val (fst r)")
  case True
  with assms show ?thesis
    by (simp add: getIPPositionInRange_def Let_def range_ok_def compareIP_floor)
next
  case False
  with assms have "family_floor l \<le> bytes_val e" "family_floor l \<le> bytes_val (snd r)"
    by (simp_all add: range_ok_def)
  with assms False show ?thesis
    by (simp add: getIPPositionInRange_def Let_def range_ok_def compareIP_floor equalIP_floor)
qed

lemma normalize_below:
  assumes "length e = l" "l = 4 \<or> l = 16" "range_ok l r"
  shows "getIPPositionInRange r (normalizeIP e) = getIPPositionInRange r e"
proof -
  have "normalizeIP (normalizeIP e) = normalizeIP e"
    using assms(1,2) by (auto simp: normalizeIP_def To4_def To16_def)
  then show ?thesis
    by (simp add: getIPPositionInRange_def compareIP_def equalIP_def ipToBigInt_def)
qed

lemma next_value:
  assumes "length e = l" "l = 4 \<or> l = 16" "family_floor l \<le> bytes_val e"
    "bytes_val e + 1 < 256 ^ l"
  shows "length (calculateOffsetIP e 1) = l" "bytes_val (calculateOffsetIP e 1) = bytes_val e + 1"
  using assms
  by (simp_all add: calculateOffsetIP_def Let_def normalizeIP_canonical ipToBigInt_canonical
      bigIntToIP_def bytes_val_val_bytes nat_add_distrib)

lemma prev_value:
  assumes "length e = l" "l = 4 \<or> l = 16" "family_floor l \<le> bytes_val e" "0 < bytes_val e"
  shows "length (calculateOffsetIP e (- 1)) = l"
    "bytes_val (calculateOffsetIP e (- 1)) = bytes_val e - 1"
  using assms bytes_val_less [of e]
  by (auto simp: calculateOffsetIP_def Let_def normalizeIP_canonical ipToBigInt_canonical
      bigIntToIP_def bytes_val_val_bytes nat_diff_distrib)

lemma offset_normalize: 
  assumes "length e = 4 \<or> length e = 16"
  shows "calculateOffsetIP (normalizeIP e) k = calculateOffsetIP e k"
proof -
  have "normalizeIP (normalizeIP e) = normalizeIP e"
    using assms by (auto simp: normalizeIP_def To4_def To16_def)
  then show ?thesis by (simp add: calculateOffsetIP_def)
qed

lemma rangeAppend_ok:
  assumes "length a = l" "length b = l" "l = 4 \<or> l = 16" "family_floor l \<le> bytes_val a"
  shows "rangeAppend rs (a, b) = rs @ (if bytes_val a \<le> bytes_val b then [(a, b)] else [])"
  using assms by (simp add: rangeAppend_def compareIP_floor not_less)

section \<open>Subtraction of a range\<close>

definition within :: "iprange \<Rightarrow> iprange \<Rightarrow> bool" where
  "within p r \<longleftrightarrow> bytes_val (fst r) \<le> bytes_val (fst p) \<and> bytes_val (snd p) \<le> bytes_val (snd r)"

definition pieces_of :: "nat \<Rightarrow> iprange list \<Rightarrow> iprange \<Rightarrow> nat set \<Rightarrow> bool" where
  "pieces_of l ps r ex \<longleftrightarrow> (\<forall>p \<in> set ps. range_ok l p \<and> within p r) \<and> ascending ps
     \<and> ranges_set ps = range_set r - ex"

lemma pieces_simps:
  "pieces_of l [] r ex \<longleftrightarrow> range_set r \<subseteq> ex"
  "pieces_of l [p] r ex \<longleftrightarrow> range_ok l p \<and> within p r \<and> range_set p = range_set r - ex"
  "pieces_of l [p, q] r ex \<longleftrightarrow> range_ok l p \<and> within p r \<and> range_ok l q \<and> within q r
     \<and> bytes_val (snd p) < bytes_val (fst q) \<and> range_set p \<union> range_set q = range_set r - ex"
  by (auto simp: pieces_of_def ascending_def)

lemma abstractRange_pieces:
  assumes r: "range_ok l r" and l: "l = 4 \<or> l = 16" and e: "length e0 = l" "length e1 = l"
    and le: "bytes_val e0 \<le> bytes_val e1"
    and top: "bytes_val e1 + 1 < 256 ^ l \<or> bytes_val (snd r) + 1 < 256 ^ l"
  shows "\<exists>ps. abstractRange (normalizeIP e0, normalizeIP e1) results r = results @ ps
              \<and> pieces_of l ps r {bytes_val e0..bytes_val e1}"
proof -
  obtain a b where ab: "r = (a, b)" by (cases r)
  let ?v0 = "bytes_val e0" let ?v1 = "bytes_val e1" let ?lo = "bytes_val a" let ?hi = "bytes_val b"
  let ?prev = "calculateOffsetIP e0 (- 1)" let ?next = "calculateOffsetIP e1 1"
  have rr: "length a = l" "length b = l" "family_floor l \<le> ?lo" "?lo \<le> ?hi" "family_floor l \<le> ?hi"
    using r ab by (auto simp: range_ok_def)
  have na: "normalizeIP a = a" "normalizeIP b = b"
    using rr l by (auto intro!: normalizeIP_canonical)
  have pos: "getIPPositionInRange (a, b) (normalizeIP e0) = getIPPositionInRange (a, b) e0"
    "getIPPositionInRange (a, b) (normalizeIP e1) = getIPPositionInRange (a, b) e1"
    using normalize_below e l r ab by auto
  have off: "calculateOffsetIP (normalizeIP e0) (- 1) = ?prev"
    "calculateOffsetIP (normalizeIP e1) 1 = ?next"
    using offset_normalize e l by auto
  have nxt: "length ?next = l \<and> bytes_val ?next = ?v1 + 1" if "?lo \<le> ?v1" "?v1 \<le> ?hi"
    using that next_value [OF e(2) l] top rr ab by auto
  have prv: "length ?prev = l \<and> bytes_val ?prev = ?v0 - 1" if "?lo < ?v0"
    using that prev_value [OF e(1) l] rr by auto
  note defs = abstractRange_def Let_def ab fst_conv snd_conv na pos off
    position_value [OF r [unfolded ab] e(1) l] position_value [OF r [unfolded ab] e(2) l]
  note pc = pieces_simps range_ok_def within_def range_set_def
  consider (before) "?v0 < ?lo" | (start) "?v0 = ?lo" | (mid) "?lo < ?v0" "?v0 \<le> ?hi"
    | (after) "?hi < ?v0" by linarith
  then show ?thesis
  proof cases
    case before
    show ?thesis
    proof (cases "?lo \<le> ?v1 \<and> ?v1 \<le> ?hi")
      case True
      with before le rr l nxt show ?thesis
        by (intro exI [of _ "if ?v1 + 1 \<le> ?hi then [(?next, b)] else []"])
          (auto simp: defs pc rangeAppend_ok)
    next
      case False
      with before le rr l show ?thesis
        by (intro exI [of _ "if ?v1 < ?lo then [(a, b)] else []"])
          (auto simp: defs pc rangeAppend_ok)
    qed
  next
    case start
    with le rr l nxt show ?thesis
      by (intro exI [of _ "if ?v1 + 1 \<le> ?hi then [(?next, b)] else []"])
        (auto simp: defs pc rangeAppend_ok)
  next
    case mid
    with le rr l nxt prv show ?thesis
      by (intro exI [of _ "if ?v1 < ?hi then [(a, ?prev), (?next, b)] else [(a, ?prev)]"])
        (auto simp: defs pc rangeAppend_ok)
  next
    case after
    with le rr l show ?thesis
      by (intro exI [of _ "[(a, b)]"]) (auto simp: defs pc rangeAppend_ok)
  qed
qed

lemma foldl_pieces:
  assumes "\<And>r. r \<in> set rs \<Longrightarrow> range_ok l r"
    and "l = 4 \<or> l = 16" "length e0 = l" "length e1 = l" "bytes_val e0 \<le> bytes_val e1"
    and "\<And>r. r \<in> set rs \<Longrightarrow> bytes_val e1 + 1 < 256 ^ l \<or> bytes_val (snd r) + 1 < 256 ^ l"
    and "ascending rs"
  shows "\<exists>ps. foldl (abstractRange (normalizeIP e0, normalizeIP e1)) acc rs = acc @ ps
     \<and> (\<forall>p \<in> set ps. range_ok l p \<and> (\<exists>r \<in> set rs. within p r)) \<and> ascending ps
     \<and> ranges_set ps = ranges_set rs - {bytes_val e0..bytes_val e1}"
  using assms
proof (induction rs arbitrary: acc)
  case Nil
  then show ?case by (auto simp: ascending_def)
next
  case (Cons r rs)
  obtain qs where q: "abstractRange (normalizeIP e0, normalizeIP e1) acc r = acc @ qs"
    "pieces_of l qs r {bytes_val e0..bytes_val e1}"
    using abstractRange_pieces [of l r e0 e1 acc] Cons.prems by auto
  obtain ps where ps: "foldl (abstractRange (normalizeIP e0, normalizeIP e1)) (acc @ qs) rs = (acc @ qs) @ ps"
    "\<forall>p \<in> set ps. range_ok l p \<and> (\<exists>r \<in> set rs. within p r)" "ascending ps"
    "ranges_set ps = ranges_set rs - {bytes_val e0..bytes_val e1}"
    using Cons.IH [of "acc @ qs"] Cons.prems by (auto simp: ascending_def)
  have "bytes_val (snd x) < bytes_val (fst y)" if "x \<in> set qs" "y \<in> set ps" for x y
  proof -
    from that ps(2) obtain r' where "r' \<in> set rs" "within y r'" by auto
    moreover have "within x r" using that q(2) by (auto simp: pieces_of_def)
    ultimately show ?thesis using Cons.prems(7) by (auto simp: ascending_def within_def)
  qed
  then have "ascending (qs @ ps)"
    using q(2) ps(3) by (auto simp: ascending_def pieces_of_def sorted_wrt_append)
  then show ?case
    using q ps by (intro exI [of _ "qs @ ps"]) (auto simp: pieces_of_def)
qed

section \<open>The range of a CIDR\<close>

lemma host_max_ge: "length xs \<le> length m \<Longrightarrow> bytes_val xs \<le> bytes_val (host_max xs m)"
proof (induction xs arbitrary: m)
  case Nil
  then show ?case by simp
next
  case (Cons x xs)
  then obtain y ys where m: "m = y # ys" by (cases m) auto
  have "unat x \<le> unat (x OR NOT y)" using le_word_or2 [of x "NOT y"] by (simp add: word_le_nat_alt)
  with Cons m show ?case by (auto simp: host_max_def intro!: add_mono)
qed

lemma normalizeIP_length:
  "length ip = 4 \<or> length ip = 16 \<Longrightarrow> length (normalizeIP ip) \<le> length ip \<and> (length (normalizeIP ip) = 4 \<or> length (normalizeIP ip) = 16)"
  by (auto simp: normalizeIP_def To4_def To16_def)

lemma parseCIDRRange_shape:
  assumes "parseCIDRRange c = Inr (s, e)"
  shows "(length s = 4 \<or> length s = 16) \<and> length e = length s \<and> bytes_val s \<le> bytes_val e"
proof -
  from assms obtain ip net m where p: "ParseCIDR c = Some (ip, net, m)"
    and s: "s = normalizeIP net" and e: "e = host_max s m"
    by (auto simp: parseCIDRRange_def Let_def split: option.splits)
  from ParseCIDR_Some [OF p] have "length net = 4 \<or> length net = 16" "length m = length net"
    by auto
  with normalizeIP_length [of net] have "length s = 4 \<or> length s = 16" "length s \<le> length m"
    by (auto simp: s)
  then show ?thesis using host_max_ge [of s m] by (simp add: e host_max_def)
qed

text \<open>The two ends of the block of a dotted-quad CIDR.\<close>

lemma ParseCIDR_quad:
  assumes "length ip = 4" "n \<le> 32"
  shows "ParseCIDR (quad_str ip @ ''/'' @ nat_str n)
         = Some (To16 ip, map2 (AND) ip (CIDRMask n 4), CIDRMask n 4)"
proof -
  have slash: "CHR ''/'' \<notin> set (quad_str ip)"
  proof -
    obtain a b c d where "ip = [a, b, c, d]"
      using assms by (auto simp: length_Suc_conv numeral_eq_Suc)
    then show ?thesis by (auto simp: quad_str_def is_digit_def dest!: nat_str_no_dot)
  qed
  have sep: "takeWhile (\<lambda>c. c \<noteq> CHR ''/'') (quad_str ip @ CHR ''/'' # nat_str n) = quad_str ip"
    "dropWhile (\<lambda>c. c \<noteq> CHR ''/'') (quad_str ip @ CHR ''/'' # nat_str n) = CHR ''/'' # nat_str n"
    using slash by (auto simp: takeWhile_append dropWhile_append)
  show ?thesis
    using assms IP_Mask_To16 [of ip n]
    by (simp add: ParseCIDR_def sep ParseAddr_quad_str nat_str_digits)
qed

lemma parseCIDRRange_quad:
  assumes "length ip = 4" "n \<le> 32"
  shows "\<exists>s e. parseCIDRRange (quad_str ip @ ''/'' @ nat_str n) = Inr (s, e)
     \<and> length s = 4 \<and> length e = 4
     \<and> bytes_val s = bytes_val ip - bytes_val ip mod 2 ^ (32 - n)
     \<and> bytes_val e = bytes_val s + (2 ^ (32 - n) - 1)"
proof -
  let ?s = "map2 (AND) ip (CIDRMask n 4)"
  let ?e = "host_max ?s (CIDRMask n 4)"
  have len: "length ?s = 4" using assms by simp
  have s: "bytes_val ?s = bytes_val ip - bytes_val ip mod 2 ^ (32 - n)"
    using bytes_val_mask [of n ip] assms by simp
  then have "bytes_val ?s mod 2 ^ (32 - n) = 0" by (simp add: minus_mod_eq_mult_div)
  then have e: "bytes_val ?e = bytes_val ?s + (2 ^ (32 - n) - 1)"
    using bytes_val_host_max [of n ?s] assms by simp
  have "normalizeIP ?s = ?s" using len by (intro normalizeIP_canonical) (auto simp: family_floor_def)
  with ParseCIDR_quad [OF assms]
  have "parseCIDRRange (quad_str ip @ ''/'' @ nat_str n) = Inr (?s, ?e)"
    by (simp add: parseCIDRRange_def Let_def)
  with s e len show ?thesis by (auto simp: host_max_def)
qed

section \<open>Correctness of the subtraction\<close>

lemma removeExcepts_pieces:
  assumes "map_res parseCIDRRange epts = Inr exs"
    and "\<And>r. r \<in> set rs \<Longrightarrow> range_ok l r \<and> bytes_val (snd r) \<le> hi" "ascending rs"
    and "l = 4 \<or> l = 16" "\<And>x. x \<in> set exs \<Longrightarrow> length (fst x) = l"
    and "hi + 1 < 256 ^ l \<or> (\<forall>x \<in> set exs. bytes_val (snd x) + 1 < 256 ^ l)"
  shows "\<exists>ps. removeExcepts rs epts = Inr ps \<and> (\<forall>p \<in> set ps. range_ok l p) \<and> ascending ps
     \<and> ranges_set ps = ranges_set rs - ranges_set exs"
  using assms
proof (induction epts arbitrary: rs exs)
  case Nil
  then show ?case by auto
next
  case (Cons ept epts)
  from Cons.prems(1) obtain e0 e1 exs' where ex: "parseCIDRRange ept = Inr (e0, e1)"
    "map_res parseCIDRRange epts = Inr exs'" "exs = (e0, e1) # exs'"
    by (auto split: sum.splits)
  have sh: "length e0 = l" "length e1 = l" "bytes_val e0 \<le> bytes_val e1"
    using parseCIDRRange_shape [OF ex(1)] Cons.prems(5) [of "(e0, e1)"] ex(3) by auto
  have top: "bytes_val e1 + 1 < 256 ^ l \<or> bytes_val (snd r) + 1 < 256 ^ l" if "r \<in> set rs" for r
    using Cons.prems(2) [OF that] Cons.prems(6) ex(3) by auto
  obtain ps where ps: "rangesAbstractRange rs (e0, e1) = ps"
    "\<forall>p \<in> set ps. range_ok l p \<and> (\<exists>r \<in> set rs. within p r)" "ascending ps"
    "ranges_set ps = ranges_set rs - {bytes_val e0..bytes_val e1}"
    using foldl_pieces [OF _ Cons.prems(4) sh top Cons.prems(3), of "[]"] Cons.prems(2)
    by (auto simp: rangesAbstractRange_def)
  have "range_ok l p \<and> bytes_val (snd p) \<le> hi" if "p \<in> set ps" for p
  proof -
    from ps(2) that obtain r where "r \<in> set rs" "within p r" "range_ok l p" by auto
    with Cons.prems(2) [of r] show ?thesis by (simp add: within_def)
  qed
  from Cons.IH [OF ex(2) this ps(3) Cons.prems(4)] Cons.prems(5,6) ex(3)
  obtain qs where "removeExcepts ps epts = Inr qs \<and> (\<forall>p \<in> set qs. range_ok l p) \<and> ascending qs
     \<and> ranges_set qs = ranges_set ps - ranges_set exs'" by auto
  with ex ps show ?case by (auto simp: range_set_def)
qed

lemma div_block:
  assumes "0 < (d :: nat)"
  shows "v div d = q \<longleftrightarrow> q * d \<le> v \<and> v \<le> q * d + (d - 1)"
proof
  assume "v div d = q"
  then show "q * d \<le> v \<and> v \<le> q * d + (d - 1)"
    using assms dividend_less_div_times [OF assms, of v] by auto
next
  assume "q * d \<le> v \<and> v \<le> q * d + (d - 1)"
  then show "v div d = q" using assms by (intro div_nat_eqI) (auto simp: mult.commute)
qed

section \<open>Properties\<close>



text \<open>The range computed for a dotted-quad CIDR with any prefix length is its block: from the address
  rounded down to a multiple of the block size up to the last address of the block.\<close>

theorem parseCIDRRange_block:
  assumes "length ip = 4" and "n \<le> 32"
  shows "\<exists>s e. parseCIDRRange (quad_str ip @ ''/'' @ nat_str n) = Inr (s, e)
     \<and> bytes_val s = bytes_val ip div 2 ^ (32 - n) * 2 ^ (32 - n)
     \<and> range_set (s, e) = {v. v div 2 ^ (32 - n) = bytes_val ip div 2 ^ (32 - n)}"
proof -
  let ?d = "2 ^ (32 - n) :: nat"
  obtain s e where se: "parseCIDRRange (quad_str ip @ ''/'' @ nat_str n) = Inr (s, e)"
    "bytes_val s = bytes_val ip - bytes_val ip mod ?d" "bytes_val e = bytes_val s + (?d - 1)"
    using parseCIDRRange_quad [OF assms] by auto
  have s: "bytes_val s = bytes_val ip div ?d * ?d"
    using se(2) by (simp add: minus_mod_eq_div_mult)
  have "range_set (s, e) = {v. v div ?d = bytes_val ip div ?d}"
    unfolding range_set_def using se(3) s by (auto simp: div_block)
  with se(1) s show ?thesis by blast
qed

theorem parseCIDRRange_block_witness:
  "\<exists>s e. parseCIDRRange (quad_str [10, 1, 2, 3] @ ''/'' @ nat_str 20) = Inr (s, e)
     \<and> bytes_val s = bytes_val [10, 1, 2, 3] div 2 ^ (32 - 20) * 2 ^ (32 - 20)
     \<and> range_set (s, e) = {v. v div 2 ^ (32 - 20) = bytes_val [10, 1, 2, 3] div 2 ^ (32 - 20)}"
  by (rule parseCIDRRange_block) simp_all

text \<open>Defect: when an excepted CIDR ends at the last address of the family and an earlier exception
  has already cut the CIDR down to that single address, the successor wraps to the first address and
  the result is the whole address space instead of no address at all.\<close>

theorem GetCIDRRangesWithExcept_wraps:
  "GetCIDRRangesWithExcept ''255.255.255.254/31'' [''255.255.255.254/32'', ''255.255.255.255/32'']
   = Inr [''0.0.0.0-255.255.255.255'']"
  by code_simp

text \<open>Defect: the range of an IPv4-mapped IPv6 CIDR is its first address only, because the
  address is shortened to four bytes while the mask keeps sixteen.\<close>

theorem parseCIDRRange_mapped:
  "parseCIDRRange ''::ffff:10.0.0.0/120'' = Inr ([10, 0, 0, 0], [10, 0, 0, 0])"
  by code_simp

end
