(* ===== verification/ResourcePath.thy ===== *)
theory ResourcePath
  imports Prelude
begin

text \<open>
  Policy paths of VPC resources: \<open>ParseVPCResourcePath\<close> and the conversions built on it, from
  \<open>pkg/nsx/services/common/builder.go\<close> and \<open>types.go\<close>. The regular expression of the parser is
  translated into a search for the leftmost occurrence of its literal segments.
\<close>

section \<open>Parsing\<close>

record vpc_resource_info =
  OrgID :: string
  ProjectID :: string
  VPCID :: string
  ResID :: string
  ParentID :: string

text \<open>\<open>[^/]+\<close>: a non-empty segment, which ends at the next slash or at the end.\<close>

definition take_segment :: "string \<Rightarrow> (string \<times> string) option" where
  "take_segment s =
    (let seg = takeWhile (\<lambda>c. c \<noteq> CHR ''/'') s in
     if seg = [] then None else Some (seg, dropWhile (\<lambda>c. c \<noteq> CHR ''/'') s))"

definition literal :: "string \<Rightarrow> string \<Rightarrow> string option" where
  "literal p s = (if HasPrefix s p then Some (drop (length p) s) else None)"

definition match_vpc_at :: "string \<Rightarrow> (string \<times> string \<times> string) option" where
  "match_vpc_at s =
    Option.bind (literal ''/orgs/'' s) (\<lambda>s1. Option.bind (take_segment s1) (\<lambda>(org, s2).
    Option.bind (literal ''/projects/'' s2) (\<lambda>s3. Option.bind (take_segment s3) (\<lambda>(proj, s4).
    Option.bind (literal ''/vpcs/'' s4) (\<lambda>s5. Option.bind (take_segment s5) (\<lambda>(vpc, _).
    Some (org, proj, vpc)))))))"

fun find_vpc :: "string \<Rightarrow> (string \<times> string \<times> string) option" where
  "find_vpc [] = None"
| "find_vpc (c # s) = (case match_vpc_at (c # s) of Some m \<Rightarrow> Some m | None \<Rightarrow> find_vpc s)"

definition ParseVPCResourcePath :: "string \<Rightarrow> gerror + vpc_resource_info" where
  "ParseVPCResourcePath nsxResourcePath =
    (case find_vpc nsxResourcePath of
       None \<Rightarrow> Inl (''invalid path '' @ [CHR 0x27] @ nsxResourcePath @ [CHR 0x27])
     | Some (org, proj, vpc) \<Rightarrow>
         let layers = split_char CHR ''/'' nsxResourcePath; size = length layers in
         Inr \<lparr>OrgID = org, ProjectID = proj, VPCID = vpc,
              ResID = layers ! (size - 1), ParentID = layers ! (size - 3)\<rparr>)"

section \<open>Conversions\<close>

definition GetVPCPath :: "vpc_resource_info \<Rightarrow> string" where
  "GetVPCPath info = ''/orgs/'' @ OrgID info @ ''/projects/'' @ ProjectID info @ ''/vpcs/'' @ VPCID info"

definition NSXProjectPathToId :: "string \<Rightarrow> gerror + string \<times> string" where
  "NSXProjectPathToId path =
    (let parts = split_char CHR ''/'' path in
     if length parts < 5 then Inl ''invalid NSX project path'' else Inr (parts ! 2, parts ! 4))"

definition QueryTagCondition :: "string \<Rightarrow> string \<Rightarrow> string" where
  "QueryTagCondition resourceType cluster =
    ''resource_type:'' @ resourceType @ '' AND tags.scope:'' @ replace_char CHR ''/'' [CHR 0x5C, CHR ''/''] ''nsx-op/cluster''
    @ '' AND tags.tag:'' @ replace_char CHR '':'' [CHR 0x5C, CHR '':''] cluster"

text \<open>\<open>IsDefaultNSXProject\<close> of the VPC service is an argument.\<close>

definition GetVPCFullID ::
  "string \<Rightarrow> string \<Rightarrow> string \<Rightarrow> (string \<Rightarrow> string \<Rightarrow> gerror + bool) \<Rightarrow> gerror + string" where
  "GetVPCFullID orgID projectID vpcID isDefaultNSXProject =
    (case isDefaultNSXProject orgID projectID of
       Inl err \<Rightarrow> Inl (''failed to check if project is default: '' @ err)
     | Inr isDefault \<Rightarrow> Inr (if isDefault then '':'' @ vpcID else projectID @ '':'' @ vpcID))"

definition orgId :: string where "orgId = ''default''"

definition GetSubnetPathFromAssociatedResource :: "string \<Rightarrow> gerror + string" where
  "GetSubnetPathFromAssociatedResource associatedResource =
    (case split_char CHR '':'' associatedResource of
       [p, v, s] \<Rightarrow> Inr (''/orgs/'' @ orgId @ ''/projects/'' @ p @ ''/vpcs/'' @ v @ ''/subnets/'' @ s)
     | _ \<Rightarrow> Inl (''failed to parse associated resource annotation '' @ associatedResource))"

definition ExtractSubnetPath :: "string \<Rightarrow> gerror + string \<times> string \<times> string \<times> string" where
  "ExtractSubnetPath sharedSubnetPath =
    (case ParseVPCResourcePath sharedSubnetPath of
       Inl _ \<Rightarrow> Inl (''invalid subnet path format: '' @ sharedSubnetPath)
     | Inr info \<Rightarrow> Inr (OrgID info, ProjectID info, VPCID info, ResID info))"

definition ConvertSubnetPathToAssociatedResource :: "string \<Rightarrow> gerror + string" where
  "ConvertSubnetPathToAssociatedResource sharedSubnetPath =
    (case ExtractSubnetPath sharedSubnetPath of
       Inl err \<Rightarrow> Inl err
     | Inr (_, projectID, vpcID, subnetID) \<Rightarrow> Inr (projectID @ '':'' @ vpcID @ '':'' @ subnetID))"

text \<open>\<open>strconv.ParseBool\<close>.\<close>

definition ParseBool :: "string \<Rightarrow> bool option" where
  "ParseBool s =
    (if s \<in> {''1'', ''t'', ''T'', ''true'', ''TRUE'', ''True''} then Some True
     else if s \<in> {''0'', ''f'', ''F'', ''false'', ''FALSE'', ''False''} then Some False else None)"

definition IsDefaultNetworkConfigCR :: "(string \<times> string) list \<Rightarrow> bool" where
  "IsDefaultNetworkConfigCR annos =
    (case map_of annos ''nsx.vmware.com/default'' of
       None \<Rightarrow> False
     | Some val \<Rightarrow> (case ParseBool val of None \<Rightarrow> False | Some b \<Rightarrow> b))"

definition IsSharedSubnet :: "(string \<times> string) list option \<Rightarrow> bool" where
  "IsSharedSubnet annotations =
    (case annotations of None \<Rightarrow> False
     | Some annos \<Rightarrow> map_of annos ''nsx.vmware.com/associated-resource'' \<noteq> None)"

section \<open>Well-formed paths\<close>

definition is_segment :: "string \<Rightarrow> bool" where
  "is_segment s \<longleftrightarrow> s \<noteq> [] \<and> CHR ''/'' \<notin> set s"

lemma take_segment_ok:
  assumes "is_segment s" "t = [] \<or> hd t = CHR ''/''"
  shows "take_segment (s @ t) = Some (s, t)"
proof -
  have "takeWhile (\<lambda>c. c \<noteq> CHR ''/'') (s @ t) = s" "dropWhile (\<lambda>c. c \<noteq> CHR ''/'') (s @ t) = t"
    using assms by (cases t; auto simp: is_segment_def takeWhile_append dropWhile_append)+
  then show ?thesis using assms(1) by (simp add: take_segment_def is_segment_def)
qed

lemma literal_ok [simp]: "literal p (p @ s) = Some s"
  by (simp add: literal_def HasPrefix_def)

lemma match_vpc_at_ok:
  assumes "is_segment org" "is_segment proj" "is_segment vpc" "t = [] \<or> hd t = CHR ''/''"
  shows "match_vpc_at (''/orgs/'' @ org @ ''/projects/'' @ proj @ ''/vpcs/'' @ vpc @ t) = Some (org, proj, vpc)"
proof -
  have seg: "take_segment (org @ ''/projects/'' @ proj @ ''/vpcs/'' @ vpc @ t)
      = Some (org, ''/projects/'' @ proj @ ''/vpcs/'' @ vpc @ t)"
    "take_segment (proj @ ''/vpcs/'' @ vpc @ t) = Some (proj, ''/vpcs/'' @ vpc @ t)"
    "take_segment (vpc @ t) = Some (vpc, t)"
    using assms by (auto intro!: take_segment_ok)
  show ?thesis by (simp only: match_vpc_at_def literal_ok Option.bind.bind_lunit prod.case seg)
qed

lemma find_vpc_ok:
  assumes "is_segment org" "is_segment proj" "is_segment vpc" "t = [] \<or> hd t = CHR ''/''"
  shows "find_vpc (''/orgs/'' @ org @ ''/projects/'' @ proj @ ''/vpcs/'' @ vpc @ t) = Some (org, proj, vpc)"
  using match_vpc_at_ok [OF assms] by simp

text \<open>The path of a resource that is nested in a VPC: pairs of a collection and an identifier.\<close>

definition nested_path :: "string \<Rightarrow> string \<Rightarrow> string \<Rightarrow> (string \<times> string) list \<Rightarrow> string" where
  "nested_path org proj vpc rest =
    ''/orgs/'' @ org @ ''/projects/'' @ proj @ ''/vpcs/'' @ vpc
    @ concat (map (\<lambda>(k, i). ''/'' @ k @ ''/'' @ i) rest)"

definition segments :: "string \<Rightarrow> string \<Rightarrow> string \<Rightarrow> (string \<times> string) list \<Rightarrow> string list" where
  "segments org proj vpc rest =
    ['''', ''orgs'', org, ''projects'', proj, ''vpcs'', vpc] @ concat (map (\<lambda>(k, i). [k, i]) rest)"

lemma join_pairs:
  "xs \<noteq> [] \<Longrightarrow> str_join (xs @ concat (map (\<lambda>(k, i). [k, i]) rest)) ''/''
     = str_join xs ''/'' @ concat (map (\<lambda>(k, i). ''/'' @ k @ ''/'' @ i) rest)"
proof (induction rest arbitrary: xs)
  case Nil
  then show ?case by simp
next
  case (Cons p rest)
  obtain k i where p: "p = (k, i)" by (cases p)
  have "str_join (xs @ [k, i]) ''/'' = str_join xs ''/'' @ ''/'' @ k @ ''/'' @ i"
    using Cons.prems by (induction xs rule: induct_list012) auto
  with Cons.IH [of "xs @ [k, i]"] show ?case by (simp add: p)
qed

lemma nested_path_join: "nested_path org proj vpc rest = str_join (segments org proj vpc rest) ''/''"
  unfolding nested_path_def segments_def by (subst join_pairs) simp_all

lemma split_nested_path:
  assumes "is_segment org" "is_segment proj" "is_segment vpc"
    "\<And>k i. (k, i) \<in> set rest \<Longrightarrow> is_segment k \<and> is_segment i"
  shows "split_char CHR ''/'' (nested_path org proj vpc rest) = segments org proj vpc rest"
  unfolding nested_path_join
  by (rule split_join) (use assms in \<open>auto simp: segments_def is_segment_def\<close>)

lemma ParseVPCResourcePath_nested:
  assumes "is_segment org" "is_segment proj" "is_segment vpc"
    "\<And>k i. (k, i) \<in> set rest \<Longrightarrow> is_segment k \<and> is_segment i"
  shows "ParseVPCResourcePath (nested_path org proj vpc rest) =
    Inr \<lparr>OrgID = org, ProjectID = proj, VPCID = vpc,
         ResID = (if rest = [] then vpc else snd (last rest)),
         ParentID = (if rest = [] then proj else if length rest = 1 then vpc else snd (last (butlast rest)))\<rparr>"
proof -
  have f: "find_vpc (nested_path org proj vpc rest) = Some (org, proj, vpc)"
    unfolding nested_path_def
    by (rule find_vpc_ok [OF assms(1-3)]) (cases rest; auto)
  have len: "length (segments org proj vpc rest) = 7 + 2 * length rest"
    by (simp add: segments_def) (induction rest, auto)
  let ?l = "segments org proj vpc rest"
  have "?l ! (length ?l - 1) = (if rest = [] then vpc else snd (last rest))
    \<and> ?l ! (length ?l - 3) = (if rest = [] then proj else if length rest = 1 then vpc else snd (last (butlast rest)))"
  proof (cases rest rule: rev_cases)
    case Nil
    then show ?thesis by (simp add: segments_def)
  next
    case (snoc ys p)
    obtain k i where p: "p = (k, i)" by (cases p)
    show ?thesis
    proof (cases ys rule: rev_cases)
      case Nil
      with snoc p show ?thesis by (simp add: segments_def)
    next
      case (snoc zs q)
      obtain k' i' where q: "q = (k', i')" by (cases q)
      define pre where "pre = segments org proj vpc zs"
      have "?l = pre @ [k', i', k, i]"
        using \<open>rest = ys @ [p]\<close> snoc p q by (simp add: segments_def pre_def)
      then show ?thesis using \<open>rest = ys @ [p]\<close> snoc p q by (simp add: nth_append butlast_append)
    qed
  qed
  with f show ?thesis
    by (simp add: ParseVPCResourcePath_def split_nested_path [OF assms] Let_def)
qed

section \<open>Properties\<close>

text \<open>C39. Parsing the path of a resource nested in a VPC returns its organization, project and VPC, the
  identifier of the resource and that of its parent (the VPC for a direct child), and the path of the VPC
  is the prefix of the resource's path.\<close>

theorem ParseVPCResourcePath_correct:
  assumes "is_segment org" "is_segment proj" "is_segment vpc"
    and "\<forall>(k, i) \<in> set rest. is_segment k \<and> is_segment i" and "rest \<noteq> []"
  shows "\<exists>info. ParseVPCResourcePath (nested_path org proj vpc rest) = Inr info
    \<and> OrgID info = org \<and> ProjectID info = proj \<and> VPCID info = vpc
    \<and> ResID info = snd (last rest)
    \<and> ParentID info = (if length rest = 1 then vpc else snd (last (butlast rest)))
    \<and> HasPrefix (nested_path org proj vpc rest) (GetVPCPath info)"
proof -
  let ?info = "\<lparr>OrgID = org, ProjectID = proj, VPCID = vpc, ResID = snd (last rest),
     ParentID = (if length rest = 1 then vpc else snd (last (butlast rest)))\<rparr>"
  have "ParseVPCResourcePath (nested_path org proj vpc rest) = Inr ?info"
  proof -
    have "\<And>k i. (k, i) \<in> set rest \<Longrightarrow> is_segment k \<and> is_segment i" using assms(4) by blast
    from ParseVPCResourcePath_nested [OF assms(1-3) this] assms(5) show ?thesis by simp
  qed
  moreover have "HasPrefix (nested_path org proj vpc rest) (GetVPCPath ?info)"
    by (simp add: GetVPCPath_def HasPrefix_iff nested_path_def)
  ultimately show ?thesis by (intro exI [of _ ?info]) simp
qed

theorem ParseVPCResourcePath_correct_witness:
  "\<exists>info. ParseVPCResourcePath (nested_path ''o'' ''p'' ''v'' [(''subnets'', ''s''), (''ports'', ''x'')]) = Inr info
    \<and> ResID info = ''x'' \<and> ParentID info = ''s''"
  using ParseVPCResourcePath_correct [of "''o''" "''p''" "''v''" "[(''subnets'', ''s''), (''ports'', ''x'')]"]
  by (auto simp: is_segment_def)

text \<open>The annotation \<open>project:vpc:subnet\<close> of a shared Subnet and its policy path determine each other.\<close>

theorem associated_resource_roundtrip:
  assumes "\<forall>x \<in> {p, v, s}. is_segment x \<and> CHR '':'' \<notin> set x"
  shows "\<exists>path. GetSubnetPathFromAssociatedResource (p @ '':'' @ v @ '':'' @ s) = Inr path
    \<and> ConvertSubnetPathToAssociatedResource path = Inr (p @ '':'' @ v @ '':'' @ s)
    \<and> ExtractSubnetPath path = Inr (''default'', p, v, s)"
proof -
  have "split_char CHR '':'' (str_join [p, v, s] '':'') = [p, v, s]"
    by (rule split_join) (use assms in auto)
  then have g: "GetSubnetPathFromAssociatedResource (p @ '':'' @ v @ '':'' @ s)
      = Inr (nested_path ''default'' p v [(''subnets'', s)])"
    by (simp add: GetSubnetPathFromAssociatedResource_def nested_path_def orgId_def)
  have "ParseVPCResourcePath (nested_path ''default'' p v [(''subnets'', s)])
      = Inr \<lparr>OrgID = ''default'', ProjectID = p, VPCID = v, ResID = s, ParentID = v\<rparr>"
    using ParseVPCResourcePath_nested [of "''default''" p v "[(''subnets'', s)]"] assms
    by (simp add: is_segment_def)
  then have "ExtractSubnetPath (nested_path ''default'' p v [(''subnets'', s)]) = Inr (''default'', p, v, s)"
    by (simp add: ExtractSubnetPath_def)
  with g show ?thesis by (simp add: ConvertSubnetPathToAssociatedResource_def)
qed

theorem associated_resource_roundtrip_witness:
  "\<exists>path. GetSubnetPathFromAssociatedResource (''p1'' @ '':'' @ ''v1'' @ '':'' @ ''s1'') = Inr path
    \<and> ConvertSubnetPathToAssociatedResource path = Inr (''p1'' @ '':'' @ ''v1'' @ '':'' @ ''s1'')
    \<and> ExtractSubnetPath path = Inr (''default'', ''p1'', ''v1'', ''s1'')"
  by (rule associated_resource_roundtrip) (simp add: is_segment_def)

end
