(* ===== verification/NsxErrors.thy ===== *)
theory NsxErrors
  imports Prelude
begin

text \<open>
  Errors of the NSX manager: \<open>pkg/nsx/util/errors.go\<close> and the classification, extraction and small
  array helpers of \<open>pkg/nsx/util/utils.go\<close>. The decoding of a response body is an argument (the decoded
  body or the decoding error), and so is the SDK's conversion of an error payload.
\<close>

section \<open>Data\<close>

record error_detail =
  StatusCode :: int
  ErrorCode :: int
  RelatedErrorCodes :: "int list"
  RelatedStatusCodes :: "string list"
  Details :: string

text \<open>The struct types an \<open>NsxError\<close> can have.\<close>

datatype nsx_kind =
    BackendResourceNotFound | StaleRevision | ResourceNotFound | NsxIndexingInProgress
  | NsxSearchTimeout | NsxSearchOutOfSync | NsxOverlapVlan | NsxPendingDelete | ResourceInUse
  | NsxOverlapAddresses | NsxSegmentWithVM | CannotConnectToServer | ClientCertificateNotTrusted
  | APITransactionAborted | BadXSRFToken | InvalidCredentials | InvalidLicense | TooManyRequests
  | ServiceUnavailable | GeneralManagerError | ConnectionError | Timeout | ServiceClusterUnavailable

record related_api_error =
  RelErrorCode :: "int option"
  RelErrorMessage :: "string option"
  RelDetails :: "string option"
  RelModuleName :: "string option"

record api_error =
  ApiErrorCode :: "int option"
  ApiErrorMessage :: "string option"
  ApiDetails :: "string option"
  RelatedErrors :: "related_api_error list option"

text \<open>Go errors: the typed ones the code tells apart, an SDK error with its payload, a wrapped error
  and any other error, by its message.\<close>

datatype go_error =
    NsxErr nsx_kind error_detail string
  | NSXApiError "api_error option" string
  | RealizeStateError string int "int list"
  | GeneralNsxError error_detail string
  | SdkError string "string option"
  | WrappedError string go_error
  | OtherError string

text \<open>The chain that \<open>errors.As\<close> walks.\<close>

fun error_chain :: "go_error \<Rightarrow> go_error list" where
  "error_chain (WrappedError m e) = WrappedError m e # error_chain e"
| "error_chain e = [e]"

section \<open>Classification\<close>

fun kind_name :: "nsx_kind \<Rightarrow> string" where
  "kind_name BackendResourceNotFound = ''BackendResourceNotFound''"
| "kind_name StaleRevision = ''StaleRevision''"
| "kind_name ResourceNotFound = ''ResourceNotFound''"
| "kind_name NsxIndexingInProgress = ''NsxIndexingInProgress''"
| "kind_name NsxSearchTimeout = ''NsxSearchTimeout''"
| "kind_name NsxSearchOutOfSync = ''NsxSearchOutOfSync''"
| "kind_name NsxOverlapVlan = ''NsxOverlapVlan''"
| "kind_name NsxPendingDelete = ''NsxPendingDelete''"
| "kind_name ResourceInUse = ''ResourceInUse''"
| "kind_name NsxOverlapAddresses = ''NsxOverlapAddresses''"
| "kind_name NsxSegmentWithVM = ''NsxSegmentWithVM''"
| "kind_name CannotConnectToServer = ''CannotConnectToServer''"
| "kind_name ClientCertificateNotTrusted = ''ClientCertificateNotTrusted''"
| "kind_name APITransactionAborted = ''APITransactionAborted''"
| "kind_name BadXSRFToken = ''BadXSRFToken''"
| "kind_name InvalidCredentials = ''InvalidCredentials''"
| "kind_name InvalidLicense = ''InvalidLicense''"
| "kind_name TooManyRequests = ''TooManyRequests''"
| "kind_name ServiceUnavailable = ''ServiceUnavailable''"
| "kind_name GeneralManagerError = ''GeneralManagerError''"
| "kind_name ConnectionError = ''ConnectionError''"
| "kind_name Timeout = ''Timeout''"
| "kind_name ServiceClusterUnavailable = ''ServiceClusterUnavailable''"

text \<open>\<open>reflect.TypeOf(err).String()\<close>.\<close>

fun type_string :: "go_error \<Rightarrow> string" where
  "type_string (NsxErr k _ _) = ''*util.'' @ kind_name k"
| "type_string (NSXApiError _ _) = ''*util.NSXApiError''"
| "type_string (RealizeStateError _ _ _) = ''*util.RealizeStateError''"
| "type_string (GeneralNsxError _ _) = ''*util.GeneralNsxError''"
| "type_string (SdkError k _) = ''errors.'' @ k"
| "type_string (WrappedError _ _) = ''*fmt.wrapError''"
| "type_string (OtherError _) = ''*errors.errorString''"

definition groundTriggers :: "string list" where
  "groundTriggers = [''ConnectionError'', ''Timeout'']"

definition retriables :: "string list" where
  "retriables = [''APITransactionAborted'', ''CannotConnectToServer'', ''ServerBusy'']"

definition regenerateTriggers :: "string list" where
  "regenerateTriggers = [''InvalidCredentials'', ''ClientCertificateNotTrusted'', ''BadXSRFToken'']"

definition category :: "go_error option \<Rightarrow> string list \<Rightarrow> bool" where
  "category err table =
    (case err of None \<Rightarrow> False
     | Some e \<Rightarrow>
         let fn = split_char CHR ''.'' (type_string e);
             name = (if length fn = 1 then fn ! 0 else fn ! 1)
         in name \<in> set table)"

definition ShouldGroundPoint :: "go_error option \<Rightarrow> bool" where
  "ShouldGroundPoint err = category err groundTriggers"

definition ShouldRetry :: "go_error option \<Rightarrow> bool" where
  "ShouldRetry err = category err retriables"

definition ShouldRegenerate :: "go_error option \<Rightarrow> bool" where
  "ShouldRegenerate err = category err regenerateTriggers"

section \<open>Errors from responses\<close>

record related_body =
  bodyHTTPStatus :: string
  bodyErrorCode :: int
  bodyErrorMessage :: string

record response_body =
  resErrorCode :: int
  resRelated :: "related_body list"
  resErrorMsg :: string

definition CreateGeneralManagerError :: "string \<Rightarrow> string \<Rightarrow> string \<Rightarrow> go_error" where
  "CreateGeneralManagerError manager operation details =
    NsxErr GeneralManagerError
      \<lparr>StatusCode = 0, ErrorCode = 0, RelatedErrorCodes = [], RelatedStatusCodes = [], Details = []\<rparr>
      (''Unexpected error from backend manager ('' @ manager @ '') for '' @ operation @ details)"

text \<open>The body is \<open>None\<close> when it is empty; otherwise it is the result of decoding it.\<close>

definition extractHTTPDetailFromBody ::
  "string \<Rightarrow> int \<Rightarrow> (gerror + response_body) option \<Rightarrow> error_detail \<times> go_error option" where
  "extractHTTPDetailFromBody host statusCode body =
    (let ec = \<lparr>StatusCode = statusCode, ErrorCode = 0, RelatedErrorCodes = [], RelatedStatusCodes = [],
               Details = []\<rparr> in
     case body of
       None \<Rightarrow> (ec, None)
     | Some (Inl err) \<Rightarrow> (ec, Some (CreateGeneralManagerError host ''decode body'' err))
     | Some (Inr res) \<Rightarrow>
         (ec\<lparr>ErrorCode := resErrorCode res,
             RelatedErrorCodes := map bodyErrorCode (resRelated res),
             RelatedStatusCodes := map bodyHTTPStatus (resRelated res),
             Details := resErrorMsg res
               @ str_join (resErrorMsg res # map bodyErrorMessage (resRelated res)) '' ''\<rparr>, None))"

type_synonym errmap = "(string \<times> nsx_kind) list"

definition errorTable :: "(string \<times> errmap) list" where
  "errorTable =
    [(''404'', [(''202'', BackendResourceNotFound), (''500090'', StaleRevision), (''default'', ResourceNotFound)]),
     (''400'', [(''60508'', NsxIndexingInProgress), (''60514'', NsxSearchTimeout),
                (''60515'', NsxSearchOutOfSync), (''8327'', NsxOverlapVlan), (''640873'', NsxOverlapVlan),
                (''500045'', NsxPendingDelete), (''500030'', ResourceInUse), (''500087'', StaleRevision),
                (''500105'', NsxOverlapAddresses), (''500232'', StaleRevision),
                (''503040'', NsxSegmentWithVM), (''100148'', StaleRevision)]),
     (''500'', [(''98'', CannotConnectToServer), (''99'', ClientCertificateNotTrusted),
                (''607'', APITransactionAborted)]),
     (''403'', [(''98'', BadXSRFToken), (''403'', InvalidCredentials), (''505'', InvalidLicense)])]"

definition errorTable1 :: errmap where
  "errorTable1 = [(''409'', StaleRevision), (''412'', StaleRevision), (''429'', TooManyRequests),
                  (''503'', ServiceUnavailable)]"

fun firstRelated :: "errmap \<Rightarrow> int list \<Rightarrow> nsx_kind option" where
  "firstRelated e [] = None"
| "firstRelated e (i # is) = (case map_of e (Itoa i) of Some k \<Rightarrow> Some k | None \<Rightarrow> firstRelated e is)"

text \<open>The kind of the error, before its detail is set.\<close>

definition errorKind :: "error_detail \<Rightarrow> nsx_kind option" where
  "errorKind detail =
    (let fallback = map_of errorTable1 (Itoa (StatusCode detail)) in
     case map_of errorTable (Itoa (StatusCode detail)) of
       None \<Rightarrow> fallback
     | Some e \<Rightarrow>
         (case (if 0 < ErrorCode detail then map_of e (Itoa (ErrorCode detail)) else None) of
            Some k \<Rightarrow> Some k
          | None \<Rightarrow>
              (case firstRelated e (RelatedErrorCodes detail) of
                 Some k \<Rightarrow> Some k
               | None \<Rightarrow> (case map_of e ''default'' of Some k \<Rightarrow> Some k | None \<Rightarrow> fallback))))"

definition int_list_str :: "int list \<Rightarrow> string" where
  "int_list_str is = ''['' @ str_join (map Itoa is) '' '' @ '']''"

definition detail_str :: "error_detail \<Rightarrow> string" where
  "detail_str e =
    ''StatusCode is '' @ Itoa (StatusCode e) @ '',''
    @ (if 0 < ErrorCode e then ''ErrorCode is '' @ Itoa (ErrorCode e) @ '','' else [])
    @ (if RelatedErrorCodes e \<noteq> [] then ''RelatedErrorCodes is '' @ int_list_str (RelatedErrorCodes e) @ '','' else [])
    @ (if RelatedStatusCodes e \<noteq> []
       then ''RelatedStatusCodes is ['' @ str_join (RelatedStatusCodes e) '' '' @ ''],'' else [])
    @ (if Details e \<noteq> [] then ''Detail is '' @ Details e else [])"

definition httpErrortoNSXError :: "error_detail \<Rightarrow> go_error" where
  "httpErrortoNSXError detail =
    (case errorKind detail of
       Some k \<Rightarrow> NsxErr k detail []
     | None \<Rightarrow> CreateGeneralManagerError [] [] (detail_str detail))"

text \<open>\<open>nsxErrorImpl.Error\<close>, and the message of the other errors the code builds.\<close>

fun error_msg :: "go_error \<Rightarrow> string" where
  "error_msg (NsxErr _ d m) = (if StatusCode d \<noteq> 0 then m @ detail_str d else m)"
| "error_msg (GeneralNsxError d m) = (if StatusCode d \<noteq> 0 then m @ detail_str d else m)"
| "error_msg (NSXApiError _ m) = m"
| "error_msg (RealizeStateError m _ _) = m"
| "error_msg (SdkError m _) = m"
| "error_msg (WrappedError m _) = m"
| "error_msg (OtherError m) = m"

definition InitErrorFromResponse ::
  "string \<Rightarrow> int \<Rightarrow> (gerror + response_body) option \<Rightarrow> go_error option" where
  "InitErrorFromResponse host statusCode body =
    (case extractHTTPDetailFromBody host statusCode body of
       (_, Some err) \<Rightarrow> Some (CreateGeneralManagerError host ''decode body'' (error_msg err))
     | (detail, None) \<Rightarrow>
         if ErrorCode detail = 0 \<or> StatusCode detail = 200 then None
         else Some (httpErrortoNSXError detail))"

section \<open>Error codes\<close>

definition PendingDeleteErrorCode :: int where "PendingDeleteErrorCode = 500045"
definition InvalidLicenseErrorCode :: int where "InvalidLicenseErrorCode = 505"
definition VpcOverlapVlanErrorCode :: int where "VpcOverlapVlanErrorCode = 640873"
definition ProviderNotReadyErrorCode :: int where "ProviderNotReadyErrorCode = 500042"

definition IsMixedModeIPAllocationError :: "int \<Rightarrow> bool" where
  "IsMixedModeIPAllocationError code \<longleftrightarrow> 660000 \<le> code \<and> code \<le> 660011"

text \<open>The first \<open>NSXApiError\<close>, \<open>RealizeStateError\<close> and \<open>GeneralNsxError\<close> of the chain; an absent
  \<open>RelatedErrors\<close> slice is empty.\<close>

definition relatedOf :: "api_error \<Rightarrow> related_api_error list" where
  "relatedOf a = (case RelatedErrors a of None \<Rightarrow> [] | Some rs \<Rightarrow> rs)"

fun as_api :: "go_error list \<Rightarrow> api_error option" where
  "as_api [] = None"
| "as_api (NSXApiError a _ # es) = a"
| "as_api (_ # es) = as_api es"

fun as_realize :: "go_error list \<Rightarrow> (int \<times> int list) option" where
  "as_realize [] = None"
| "as_realize (RealizeStateError _ c rs # es) = Some (c, rs)"
| "as_realize (_ # es) = as_realize es"

fun as_general :: "go_error list \<Rightarrow> error_detail option" where
  "as_general [] = None"
| "as_general (GeneralNsxError d _ # es) = Some d"
| "as_general (_ # es) = as_general es"

definition addCode :: "int list \<Rightarrow> int \<Rightarrow> int list" where
  "addCode codes code = (if 0 < code \<and> code \<notin> set codes then codes @ [code] else codes)"

fun somes :: "'a option list \<Rightarrow> 'a list" where
  "somes [] = []"
| "somes (None # xs) = somes xs"
| "somes (Some x # xs) = x # somes xs"

definition ExtractAllErrorCodes :: "go_error option \<Rightarrow> int list" where
  "ExtractAllErrorCodes err =
    (case err of None \<Rightarrow> []
     | Some e \<Rightarrow>
         let chain = error_chain e;
             c1 = (case as_api chain of None \<Rightarrow> []
                   | Some a \<Rightarrow> foldl addCode [] (somes (ApiErrorCode a # map RelErrorCode (relatedOf a))));
             c2 = (case as_realize chain of None \<Rightarrow> c1
                   | Some (c, rs) \<Rightarrow> foldl addCode (if 0 < c then addCode c1 c else c1) (filter (\<lambda>r. 0 < r) rs));
             c3 = (case as_general chain of None \<Rightarrow> c2
                   | Some d \<Rightarrow> foldl addCode (addCode c2 (ErrorCode d)) (RelatedErrorCodes d))
         in c3)"

definition HasAnyErrorCode :: "go_error option \<Rightarrow> int list \<Rightarrow> bool" where
  "HasAnyErrorCode err targetCodes =
    (if err = None \<or> targetCodes = [] then False
     else list_ex (\<lambda>c. list_ex (\<lambda>t. c = t) targetCodes) (ExtractAllErrorCodes err))"

fun firstTarget :: "int list \<Rightarrow> int list \<Rightarrow> int" where
  "firstTarget extracted [] = 0"
| "firstTarget extracted (t # ts) = (if t \<in> set extracted then t else firstTarget extracted ts)"

definition GetFirstMatchingErrorCode :: "go_error option \<Rightarrow> int list \<Rightarrow> int" where
  "GetFirstMatchingErrorCode err targetCodes =
    (if err = None \<or> targetCodes = [] then 0 else firstTarget (ExtractAllErrorCodes err) targetCodes)"

definition LBSEdgeCapacityErrorCodes :: "int list" where
  "LBSEdgeCapacityErrorCodes = [502105, 502103, 10087, 10145]"

definition IsLBSEdgeCapacityError :: "go_error option \<Rightarrow> bool" where
  "IsLBSEdgeCapacityError err = HasAnyErrorCode err LBSEdgeCapacityErrorCodes"

definition GetLBSEdgeCapacityErrorCode :: "go_error option \<Rightarrow> int" where
  "GetLBSEdgeCapacityErrorCode err = GetFirstMatchingErrorCode err LBSEdgeCapacityErrorCodes"

text \<open>The test looks at the outermost error only.\<close>

definition IsVpcOverlapVlanError :: "go_error option \<Rightarrow> bool" where
  "IsVpcOverlapVlanError err =
    (case err of
       Some (NSXApiError (Some a) _) \<Rightarrow>
         ApiErrorCode a = Some VpcOverlapVlanErrorCode
         \<or> list_ex (\<lambda>r. RelErrorCode r = Some VpcOverlapVlanErrorCode) (relatedOf a)
     | _ \<Rightarrow> False)"

section \<open>Pending deletion\<close>

definition safeString :: "string option \<Rightarrow> string" where
  "safeString p = (case p of None \<Rightarrow> [] | Some s \<Rightarrow> s)"

definition safeInt :: "int option \<Rightarrow> int" where
  "safeInt p = (case p of None \<Rightarrow> 0 | Some i \<Rightarrow> i)"

definition isPendingDeleteCode :: "int option \<Rightarrow> bool" where
  "isPendingDeleteCode code \<longleftrightarrow> code = Some PendingDeleteErrorCode"

definition pendingDeleteMsg :: string where
  "pendingDeleteMsg = ''An object with the same name is marked for deletion. Either use another path ''
     @ ''or wait for the purge cycle to permanently remove the deleted object''"

definition toNsxPendingDelete :: "int option \<Rightarrow> string option \<Rightarrow> string option \<Rightarrow> go_error" where
  "toNsxPendingDelete code errMsg details =
    NsxErr NsxPendingDelete
      \<lparr>StatusCode = 0, ErrorCode = safeInt code, RelatedErrorCodes = [], RelatedStatusCodes = [],
       Details = (if code = None then [] else safeString details)\<rparr>
      (case errMsg of None \<Rightarrow> pendingDeleteMsg | Some m \<Rightarrow> m)"

definition apiErrorToRetryAfterError :: "api_error option \<Rightarrow> go_error option" where
  "apiErrorToRetryAfterError err =
    (case err of None \<Rightarrow> None
     | Some a \<Rightarrow>
         if isPendingDeleteCode (ApiErrorCode a)
         then Some (toNsxPendingDelete (ApiErrorCode a) (ApiErrorMessage a) (ApiDetails a))
         else (case List.find (\<lambda>r. isPendingDeleteCode (RelErrorCode r)) (relatedOf a) of
                 None \<Rightarrow> None
               | Some r \<Rightarrow> Some (toNsxPendingDelete (RelErrorCode r) (RelErrorMessage r) (RelDetails r))))"

definition isEmptyAPIError :: "api_error \<Rightarrow> bool" where
  "isEmptyAPIError a \<longleftrightarrow> ApiErrorCode a = None \<and> ApiErrorMessage a = None"

text \<open>The SDK's converter is a parameter: it gives the API error and tells whether it reported errors.\<close>

type_synonym converter = "string \<Rightarrow> api_error \<times> bool"

definition castApiError :: "converter \<Rightarrow> string option \<Rightarrow> api_error option" where
  "castApiError convert payload =
    (case payload of None \<Rightarrow> None
     | Some d \<Rightarrow> let (a, failed) = convert d in if failed \<and> isEmptyAPIError a then None else Some a)"

definition DumpAPIError :: "converter \<Rightarrow> go_error \<Rightarrow> (api_error option \<times> string) option" where
  "DumpAPIError convert err =
    (case err of SdkError kind payload \<Rightarrow> Some (castApiError convert payload, kind) | _ \<Rightarrow> None)"

definition TransNSXApiError :: "converter \<Rightarrow> go_error option \<Rightarrow> go_error option" where
  "TransNSXApiError convert err =
    (case err of None \<Rightarrow> None
     | Some e \<Rightarrow> (case DumpAPIError convert e of
                   Some (Some a, kind) \<Rightarrow> Some (NSXApiError (Some a) kind)
                 | _ \<Rightarrow> Some e))"

text \<open>\<open>AsRetryAfterError\<close>: only \<open>NsxPendingDelete\<close> implements the interface.\<close>

fun as_retry_after :: "go_error list \<Rightarrow> go_error option" where
  "as_retry_after [] = None"
| "as_retry_after (NsxErr NsxPendingDelete d m # es) = Some (NsxErr NsxPendingDelete d m)"
| "as_retry_after (_ # es) = as_retry_after es"

definition ConvertToRetryAfterError :: "converter \<Rightarrow> go_error option \<Rightarrow> go_error option" where
  "ConvertToRetryAfterError convert err =
    (case err of None \<Rightarrow> None
     | Some e \<Rightarrow>
         (case as_retry_after (error_chain e) of
            Some r \<Rightarrow> Some r
          | None \<Rightarrow>
              (case apiErrorToRetryAfterError (as_api (error_chain e)) of
                 Some r \<Rightarrow> Some r
               | None \<Rightarrow> (case DumpAPIError convert e of
                            Some (a, _) \<Rightarrow> apiErrorToRetryAfterError a
                          | None \<Rightarrow> None))))"

section \<open>Arrays and addresses by port\<close>

text \<open>A set visited in the order \<open>ord\<close> gives the unsorted list of \<open>sets.Set\<close>.\<close>

definition MergeArraysWithoutDuplicate :: "('a list \<Rightarrow> 'a list) \<Rightarrow> 'a list \<Rightarrow> 'a list \<Rightarrow> 'a list" where
  "MergeArraysWithoutDuplicate ord oldArray newArray =
    (if oldArray = [] then newArray else if newArray = [] then oldArray
     else ord (remdups (oldArray @ newArray)))"

definition CompareArraysWithoutOrder :: "'a list \<Rightarrow> 'a list \<Rightarrow> bool" where
  "CompareArraysWithoutOrder oldArray newArray \<longleftrightarrow>
    length oldArray = length newArray \<and> set oldArray = set newArray"

definition DiffArrays :: "('a list \<Rightarrow> 'a list) \<Rightarrow> 'a list \<Rightarrow> 'a list \<Rightarrow> 'a list" where
  "DiffArrays ord firstArray secondArray = ord (filter (\<lambda>x. x \<notin> set secondArray) (remdups firstArray))"

type_synonym port_address = "int \<times> string list"

definition mergeStep ::
  "int list \<times> (int \<times> string list) list \<Rightarrow> port_address \<Rightarrow> int list \<times> (int \<times> string list) list" where
  "mergeStep st pa =
    (let (sortKeys, mappedPorts) = st; (port, ips) = pa in
     case map_of mappedPorts port of
       None \<Rightarrow> (sortKeys @ [port], AList.update port ips mappedPorts)
     | Some old \<Rightarrow> (sortKeys, AList.update port (old @ ips) mappedPorts))"

definition MergeAddressByPort :: "port_address list \<Rightarrow> port_address list" where
  "MergeAddressByPort portAddressOriginal =
    (let (sortKeys, mappedPorts) = foldl mergeStep ([], []) portAddressOriginal in
     map (\<lambda>key. (key, the (map_of mappedPorts key))) (sort sortKeys))"

section \<open>Lemmas\<close>

lemma addCode_fold:
  "distinct cs \<Longrightarrow> distinct (foldl addCode cs xs)
     \<and> set (foldl addCode cs xs) = set cs \<union> {x \<in> set xs. 0 < x}"
proof (induction xs arbitrary: cs)
  case Nil
  then show ?case by simp
next
  case (Cons x xs)
  have "distinct (addCode cs x)" using Cons.prems by (simp add: addCode_def)
  from Cons.IH [OF this] show ?case by (auto simp: addCode_def)
qed

lemma set_somes: "set (somes xs) = {x. Some x \<in> set xs}"
  by (induction xs rule: somes.induct) auto

text \<open>The positive codes an error carries.\<close>

definition codes_of :: "go_error \<Rightarrow> int set" where
  "codes_of e =
    {c. 0 < c \<and> (
       (\<exists>a. as_api (error_chain e) = Some a \<and> Some c \<in> insert (ApiErrorCode a) (RelErrorCode ` set (relatedOf a)))
     \<or> (\<exists>k rs. as_realize (error_chain e) = Some (k, rs) \<and> c \<in> insert k (set rs))
     \<or> (\<exists>d. as_general (error_chain e) = Some d \<and> c \<in> insert (ErrorCode d) (set (RelatedErrorCodes d))))}"

lemma ExtractAllErrorCodes_set:
  "distinct (ExtractAllErrorCodes (Some e)) \<and> set (ExtractAllErrorCodes (Some e)) = codes_of e"
proof -
  let ?ch = "error_chain e"
  define c1 where "c1 = (case as_api ?ch of None \<Rightarrow> []
     | Some a \<Rightarrow> foldl addCode [] (somes (ApiErrorCode a # map RelErrorCode (relatedOf a))))"
  define c2 where "c2 = (case as_realize ?ch of None \<Rightarrow> c1
     | Some (c, rs) \<Rightarrow> foldl addCode (if 0 < c then addCode c1 c else c1) (filter (\<lambda>r. 0 < r) rs))"
  define c3 where "c3 = (case as_general ?ch of None \<Rightarrow> c2
     | Some d \<Rightarrow> foldl addCode (addCode c2 (ErrorCode d)) (RelatedErrorCodes d))"
  have eq: "ExtractAllErrorCodes (Some e) = c3"
    unfolding ExtractAllErrorCodes_def Let_def option.case c3_def c2_def c1_def ..
  have s1: "distinct c1 \<and> set c1 = {c. 0 < c \<and> (\<exists>a. as_api ?ch = Some a
      \<and> Some c \<in> insert (ApiErrorCode a) (RelErrorCode ` set (relatedOf a)))}"
    unfolding c1_def
    by (cases "as_api ?ch") (auto simp: addCode_fold set_somes simp del: somes.simps foldl.simps)
  have s2: "distinct c2 \<and> set c2 = set c1 \<union> {c. 0 < c \<and> (\<exists>k rs. as_realize ?ch = Some (k, rs)
      \<and> c \<in> insert k (set rs))}"
  proof (cases "as_realize ?ch")
    case None
    with s1 show ?thesis by (simp add: c2_def)
  next
    case (Some p)
    obtain k rs where p: "p = (k, rs)" by (cases p)
    let ?b = "if 0 < k then addCode c1 k else c1"
    have "distinct ?b" "set ?b = set c1 \<union> {c. 0 < c \<and> c = k}" using s1 by (auto simp: addCode_def)
    with addCode_fold [of ?b "filter (\<lambda>r. 0 < r) rs"] show ?thesis
      unfolding c2_def Some p by auto
  qed
  have s3: "distinct c3 \<and> set c3 = set c2 \<union> {c. 0 < c \<and> (\<exists>d. as_general ?ch = Some d
      \<and> c \<in> insert (ErrorCode d) (set (RelatedErrorCodes d)))}"
  proof (cases "as_general ?ch")
    case None
    with s2 show ?thesis by (simp add: c3_def)
  next
    case (Some d)
    have "distinct (addCode c2 (ErrorCode d))"
      "set (addCode c2 (ErrorCode d)) = set c2 \<union> {c. 0 < c \<and> c = ErrorCode d}"
      using s2 by (auto simp: addCode_def)
    with addCode_fold [of "addCode c2 (ErrorCode d)" "RelatedErrorCodes d"] show ?thesis
      unfolding c3_def Some by auto
  qed
  show ?thesis unfolding eq codes_of_def using s1 s2 s3 by auto
qed

lemma firstTarget_spec:
  assumes "0 \<notin> set ts"
  shows "(firstTarget xs ts = 0 \<longleftrightarrow> (\<forall>t \<in> set ts. t \<notin> set xs))
    \<and> (firstTarget xs ts \<noteq> 0 \<longrightarrow> (\<exists>i < length ts. firstTarget xs ts = ts ! i \<and> ts ! i \<in> set xs
          \<and> (\<forall>j < i. ts ! j \<notin> set xs)))"
  using assms
proof (induction ts)
  case Nil
  show ?case by simp
next
  case (Cons t ts)
  show ?case
  proof (cases "t \<in> set xs")
    case True
    with Cons.prems show ?thesis by (auto intro!: exI [of _ 0])
  next
    case False
    have "\<exists>i < length (t # ts). firstTarget xs (t # ts) = (t # ts) ! i \<and> (t # ts) ! i \<in> set xs
          \<and> (\<forall>j < i. (t # ts) ! j \<notin> set xs)" if "firstTarget xs ts \<noteq> 0"
    proof -
      from that Cons obtain i where i: "i < length ts" "firstTarget xs ts = ts ! i" "ts ! i \<in> set xs"
        "\<forall>j < i. ts ! j \<notin> set xs" by auto
      then show ?thesis using False
        by (intro exI [of _ "Suc i"]) (auto simp: nth_Cons split: nat.splits)
    qed
    with False Cons show ?thesis by auto
  qed
qed

definition ips_at :: "int \<Rightarrow> port_address list \<Rightarrow> string list" where
  "ips_at p pas = concat (map snd (filter (\<lambda>x. fst x = p) pas))"

lemma mergeStep_fold:
  "\<exists>ks m. foldl mergeStep ([], []) pas = (ks, m) \<and> distinct ks \<and> set ks = fst ` set pas
     \<and> map_of m = (\<lambda>p. if p \<in> fst ` set pas then Some (ips_at p pas) else None)"
proof (induction pas rule: rev_induct)
  case Nil
  show ?case by simp
next
  case (snoc pa pas)
  obtain port ips where pa: "pa = (port, ips)" by (cases pa)
  obtain ks m where IH: "foldl mergeStep ([], []) pas = (ks, m)" "distinct ks" "set ks = fst ` set pas"
    "map_of m = (\<lambda>p. if p \<in> fst ` set pas then Some (ips_at p pas) else None)"
    using snoc by blast
  have at: "ips_at p (pas @ [(port, ips)]) = ips_at p pas @ (if p = port then ips else [])" for p
    by (auto simp: ips_at_def pa)
  show ?case
  proof (cases "port \<in> fst ` set pas")
    case True
    then have "foldl mergeStep ([], []) (pas @ [pa])
        = (ks, AList.update port (ips_at port pas @ ips) m)"
      using IH by (simp add: mergeStep_def pa)
    with IH True show ?thesis by (auto simp: at pa fun_eq_iff)
  next
    case False
    then have "foldl mergeStep ([], []) (pas @ [pa]) = (ks @ [port], AList.update port ips m)"
      using IH by (simp add: mergeStep_def pa)
    moreover have "ips_at port pas = []"
      using False by (force simp: ips_at_def filter_empty_conv)
    ultimately show ?thesis using IH False by (auto simp: at pa fun_eq_iff)
  qed
qed

section \<open>Properties\<close>

text \<open>The codes extracted from an error are distinct and are exactly the positive codes of the API
  error, the realization error and the general error in its chain; the first match respects the
  priority of the targets, and is 0 exactly when the error carries none of them.\<close>

theorem error_code_extraction:
  assumes "0 \<notin> set targets"
  shows "distinct (ExtractAllErrorCodes (Some e)) \<and> set (ExtractAllErrorCodes (Some e)) = codes_of e
    \<and> (HasAnyErrorCode (Some e) targets \<longleftrightarrow> set targets \<inter> codes_of e \<noteq> {})
    \<and> (if set targets \<inter> codes_of e = {} then GetFirstMatchingErrorCode (Some e) targets = 0
       else \<exists>i < length targets. GetFirstMatchingErrorCode (Some e) targets = targets ! i
              \<and> targets ! i \<in> codes_of e \<and> (\<forall>j < i. targets ! j \<notin> codes_of e))"
proof -
  note ex = ExtractAllErrorCodes_set [of e]
  have has: "HasAnyErrorCode (Some e) targets \<longleftrightarrow> set targets \<inter> codes_of e \<noteq> {}"
    using ex by (auto simp: HasAnyErrorCode_def list_ex_iff)
  have "GetFirstMatchingErrorCode (Some e) targets = firstTarget (ExtractAllErrorCodes (Some e)) targets"
    by (simp add: GetFirstMatchingErrorCode_def)
  with firstTarget_spec [OF assms, of "ExtractAllErrorCodes (Some e)"] ex has show ?thesis
    by (auto simp: disjoint_iff)
qed

theorem error_code_extraction_witness:
  "0 \<notin> set LBSEdgeCapacityErrorCodes
   \<and> HasAnyErrorCode (Some (RealizeStateError ''x'' 500 [10145])) LBSEdgeCapacityErrorCodes
   \<and> GetFirstMatchingErrorCode (Some (RealizeStateError ''x'' 500 [10145])) LBSEdgeCapacityErrorCodes = 10145"
proof -
  have z: "0 \<notin> set LBSEdgeCapacityErrorCodes" by (simp add: LBSEdgeCapacityErrorCodes_def)
  have c: "codes_of (RealizeStateError ''x'' 500 [10145]) = {500, 10145}"
    by (auto simp: codes_of_def)
  from error_code_extraction [OF z, of "RealizeStateError ''x'' 500 [10145]"]
  show ?thesis unfolding c
    by (auto simp: LBSEdgeCapacityErrorCodes_def GetFirstMatchingErrorCode_def ExtractAllErrorCodes_def addCode_def)
qed

text \<open>Addresses merged by port: one entry per port, ports ascending, and the addresses of a port are
  those of its original entries in order.\<close>

theorem MergeAddressByPort_spec:
  "sorted_wrt (<) (map fst (MergeAddressByPort pas))
   \<and> set (MergeAddressByPort pas) = {(p, ips_at p pas) | p. p \<in> fst ` set pas}"
proof -
  obtain ks m where f: "foldl mergeStep ([], []) pas = (ks, m)" "distinct ks" "set ks = fst ` set pas"
    "map_of m = (\<lambda>p. if p \<in> fst ` set pas then Some (ips_at p pas) else None)"
    using mergeStep_fold by blast
  have eq: "MergeAddressByPort pas = map (\<lambda>p. (p, ips_at p pas)) (sort ks)"
    unfolding MergeAddressByPort_def f(1) using f(3,4) by auto
  have "sorted_wrt (<) (sort ks)"
    using f(2) by (simp add: strict_sorted_iff)
  then show ?thesis unfolding eq using f(3) by (auto simp: comp_def)
qed

text \<open>Defect: a response with status 429 (too many requests) or 503 (service unavailable) is turned
  into an error that the transport never retries, although server-busy errors are listed as retriable.\<close>

theorem busy_not_retried:
  assumes "StatusCode detail = 429 \<or> StatusCode detail = 503"
  shows "\<not> ShouldRetry (Some (httpErrortoNSXError detail))"
proof -
  have t: "Itoa 429 = ''429''" "Itoa 503 = ''503''" by code_simp+
  have tab: "map_of errorTable ''429'' = None" "map_of errorTable ''503'' = None"
    "map_of errorTable1 ''429'' = Some TooManyRequests" "map_of errorTable1 ''503'' = Some ServiceUnavailable"
    by code_simp+
  have "errorKind detail = Some TooManyRequests \<or> errorKind detail = Some ServiceUnavailable"
    using assms by (elim disjE) (simp_all add: errorKind_def t tab)
  then obtain k where k: "httpErrortoNSXError detail = NsxErr k detail []"
    "k = TooManyRequests \<or> k = ServiceUnavailable"
    by (auto simp: httpErrortoNSXError_def)
  have "split_char CHR ''.'' (''*util.'' @ kind_name k) = [''*util'', kind_name k]"
    using k(2) by auto
  with k show ?thesis by (auto simp: ShouldRetry_def category_def retriables_def)
qed

theorem busy_not_retried_witness:
  "\<not> ShouldRetry (Some (httpErrortoNSXError \<lparr>StatusCode = 503, ErrorCode = 7, RelatedErrorCodes = [],
       RelatedStatusCodes = [], Details = ''busy''\<rparr>))"
  by (rule busy_not_retried) simp

text \<open>Defect: a response whose body is empty or carries no error code is reported as success whatever
  its status code.\<close>

theorem InitErrorFromResponse_no_code:
  "InitErrorFromResponse host status None = None"
  by (simp add: InitErrorFromResponse_def extractHTTPDetailFromBody_def)

end
