(* ===== verification/Sha1.thy ===== *)
theory Sha1
  imports Prelude
begin

text \<open>
  Go's package \<open>crypto/sha1\<close> as the operator uses it: the digest of a byte string (FIPS 180-4), with
  32-bit words. The naming functions only rely on the digest having twenty bytes.
\<close>

unbundle bit_operations_syntax

definition byte_of_char :: "char \<Rightarrow> 8 word" where
  "byte_of_char c = of_nat (of_char c)"

definition sha1_pad :: "string \<Rightarrow> 8 word list" where
  "sha1_pad s =
    (let n = length s; z = (119 - n mod 64) mod 64 in
     map byte_of_char s @ [0x80] @ replicate z 0
       @ map (\<lambda>i. of_nat (8 * n div 256 ^ (7 - i))) [0..<8])"

fun be_words :: "8 word list \<Rightarrow> 32 word list" where
  "be_words (a # b # c # d # bs) =
    (push_bit 24 (ucast a) OR push_bit 16 (ucast b) OR push_bit 8 (ucast c) OR ucast d) # be_words bs"
| "be_words _ = []"

fun chunks :: "nat \<Rightarrow> 32 word list \<Rightarrow> 32 word list list" where
  "chunks 0 ws = []"
| "chunks (Suc n) ws = (if ws = [] then [] else take 16 ws # chunks n (drop 16 ws))"

text \<open>The message schedule, kept with the latest word first.\<close>

fun sha1_expand :: "nat \<Rightarrow> 32 word list \<Rightarrow> 32 word list" where
  "sha1_expand 0 r = r"
| "sha1_expand (Suc n) r =
    sha1_expand n (word_rotl 1 (r ! 2 XOR r ! 7 XOR r ! 13 XOR r ! 15) # r)"

type_synonym sha1_state = "32 word \<times> 32 word \<times> 32 word \<times> 32 word \<times> 32 word"

definition sha1_fk :: "nat \<Rightarrow> 32 word \<Rightarrow> 32 word \<Rightarrow> 32 word \<Rightarrow> 32 word" where
  "sha1_fk t b c d =
    (if t < 20 then ((b AND c) OR (NOT b AND d)) + 0x5A827999
     else if t < 40 then (b XOR c XOR d) + 0x6ED9EBA1
     else if t < 60 then (((b OR c) AND d) OR (b AND c)) + 0x8F1BBCDC
     else (b XOR c XOR d) + 0xCA62C1D6)"

definition sha1_round :: "sha1_state \<Rightarrow> nat \<times> 32 word \<Rightarrow> sha1_state" where
  "sha1_round st tw =
    (let (a, b, c, d, e) = st; (t, w) = tw in
     (word_rotl 5 a + sha1_fk t b c d + e + w, a, word_rotl 30 b, c, d))"

definition sha1_block :: "sha1_state \<Rightarrow> 32 word list \<Rightarrow> sha1_state" where
  "sha1_block st ws =
    (let (h0, h1, h2, h3, h4) = st;
         (a, b, c, d, e) = foldl sha1_round st (zip [0..<80] (rev (sha1_expand 64 (rev ws))))
     in (h0 + a, h1 + b, h2 + c, h3 + d, h4 + e))"

definition word_bytes :: "32 word \<Rightarrow> 8 word list" where
  "word_bytes w = [ucast (drop_bit 24 w), ucast (drop_bit 16 w), ucast (drop_bit 8 w), ucast w]"

definition sha1_sum :: "string \<Rightarrow> 8 word list" where
  "sha1_sum s =
    (let ws = be_words (sha1_pad s);
         (a, b, c, d, e) = foldl sha1_block
           (0x67452301, 0xEFCDAB89, 0x98BADCFE, 0x10325476, 0xC3D2E1F0) (chunks (length ws) ws)
     in word_bytes a @ word_bytes b @ word_bytes c @ word_bytes d @ word_bytes e)"

lemma length_sha1_sum [simp]: "length (sha1_sum s) = 20"
  by (simp add: sha1_sum_def Let_def word_bytes_def case_prod_beta)

text \<open>The verb \<open>%x\<close> on a byte slice.\<close>

definition hex_char :: "nat \<Rightarrow> char" where
  "hex_char d = (if d < 10 then char_of (48 + d) else char_of (87 + d))"

definition hex_bytes :: "8 word list \<Rightarrow> string" where
  "hex_bytes bs = concat (map (\<lambda>b. [hex_char (unat b div 16), hex_char (unat b mod 16)]) bs)"

lemma length_hex_bytes [simp]: "length (hex_bytes bs) = 2 * length bs"
  by (induction bs) (auto simp: hex_bytes_def)

end
