(* ===== verification/Naming.thy ===== *)
theory Naming
  imports GoNet Sha1
begin

text \<open>
  Names and identifiers of NSX resources: the hashing, normalization and truncation functions of
  \<open>pkg/util/utils.go\<close> and the collision-free identifiers of \<open>pkg/nsx/services/common/builder.go\<close>.
  A result \<open>None\<close> is a run-time panic (a slice index out of range).
\<close>

section \<open>Limits\<close>

definition HashLength :: int where "HashLength = 8"
definition UUIDHashLength :: int where "UUIDHashLength = 5"
definition MaxTagsCount :: nat where "MaxTagsCount = 26"
definition MaxTagScopeLength :: int where "MaxTagScopeLength = 128"
definition MaxTagValueLength :: int where "MaxTagValueLength = 256"
definition MaxIdLength :: int where "MaxIdLength = 255"
definition ConnectorUnderline :: string where "ConnectorUnderline = ''_''"
definition ConnectorHyphen :: string where "ConnectorHyphen = ''-''"

lemmas limit_defs = HashLength_def UUIDHashLength_def MaxTagsCount_def MaxTagScopeLength_def
  MaxTagValueLength_def MaxIdLength_def ConnectorUnderline_def ConnectorHyphen_def

section \<open>Hashes\<close>

definition getSha1Bytes :: "string \<Rightarrow> 8 word list" where
  "getSha1Bytes data = sha1_sum data"

definition Sha1 :: "string \<Rightarrow> string" where
  "Sha1 data = hex_bytes (getSha1Bytes data)"

definition HashCharset :: string where
  "HashCharset = ''0123456789abcdefghijklmnopqrstuvwxyz''"

text \<open>The encoding loop, which produces the digits in reverse order.\<close>

fun charsetDigits :: "nat \<Rightarrow> string" where
  "charsetDigits v = (if v = 0 then [] else HashCharset ! (v mod 36) # charsetDigits (v div 36))"

declare charsetDigits.simps [simp del]

definition Sha1WithCustomizedCharset :: "string \<Rightarrow> string" where
  "Sha1WithCustomizedCharset data = rev (charsetDigits (bytes_val (getSha1Bytes data)))"

definition truncateLabelHash :: "string \<Rightarrow> string option" where
  "truncateLabelHash data = slice_to (Sha1 data) HashLength"

definition TruncateUIDHash :: "string \<Rightarrow> string option" where
  "TruncateUIDHash uid = slice_to (Sha1WithCustomizedCharset uid) UUIDHashLength"

section \<open>Normalization\<close>

definition connectStrings :: "string \<Rightarrow> string list \<Rightarrow> string" where
  "connectStrings sep parts = str_join (filter (\<lambda>p. p \<noteq> []) parts) sep"

definition normalizeNameByLimit ::
  "string \<Rightarrow> string \<Rightarrow> int \<Rightarrow> (string \<Rightarrow> string option) \<Rightarrow> string option" where
  "normalizeNameByLimit name suffix limit hashFn =
    (let newName = connectStrings ConnectorUnderline [name, suffix] in
     if int (length newName) \<le> limit then Some newName
     else (case hashFn (if suffix \<noteq> [] then suffix else name) of
             None \<Rightarrow> None
           | Some hashString \<Rightarrow>
               let nameLength0 = limit - int (length hashString) - 1;
                   nameLength = (if int (length name) < nameLength0 then int (length name) else nameLength0)
               in (case slice_to name nameLength of
                     None \<Rightarrow> None
                   | Some p \<Rightarrow> Some (str_join [p, hashString] ConnectorUnderline))))"

definition NormalizeLabelKey :: "string \<Rightarrow> (string \<Rightarrow> string option) \<Rightarrow> string option" where
  "NormalizeLabelKey key shaFn =
    (if int (length key) \<le> MaxTagScopeLength then Some key
     else normalizeNameByLimit (last (split_char CHR ''/'' key)) [] MaxTagScopeLength shaFn)"

definition NormalizeLabelValue :: "string \<Rightarrow> (string \<Rightarrow> string option) \<Rightarrow> string option" where
  "NormalizeLabelValue val shaFn = normalizeNameByLimit val [] MaxTagValueLength shaFn"

text \<open>The labels are visited in the order of the list; a later entry overwrites an earlier one whose
  key normalizes to the same string.\<close>

fun NormalizeLabels :: "(string \<times> string) list \<Rightarrow> (string \<times> string) list \<Rightarrow> (string \<times> string) list option" where
  "NormalizeLabels [] newLabels = Some newLabels"
| "NormalizeLabels ((k, v) # rest) newLabels =
    (case (NormalizeLabelKey k truncateLabelHash, NormalizeLabelValue v truncateLabelHash) of
       (Some k', Some v') \<Rightarrow> NormalizeLabels rest (AList.update k' v' newLabels)
     | _ \<Rightarrow> None)"

text \<open>The loop of \<open>NormalizeId\<close> that drops separators at the end of the kept prefix.\<close>

fun trimSeparators :: "string \<Rightarrow> nat \<Rightarrow> nat option" where
  "trimSeparators newName 0 = None"
| "trimSeparators newName (Suc n) =
    (if length newName \<le> n then None
     else if newName ! n \<in> set ''-._'' then trimSeparators newName n
     else Some (Suc n))"

definition NormalizeId :: "string \<Rightarrow> string option" where
  "NormalizeId name =
    (let newName = replace_char CHR '':'' ''_'' name in
     if int (length newName) \<le> MaxIdLength then Some newName
     else (case trimSeparators newName (nat (MaxIdLength - HashLength - 1)) of
             None \<Rightarrow> None
           | Some nameLength \<Rightarrow>
               (case slice_to (Sha1 name) HashLength of
                  None \<Rightarrow> None
                | Some h \<Rightarrow> Some (take nameLength newName @ ''-'' @ h))))"

section \<open>Identifiers\<close>

record object_meta =
  Name :: string
  Namespace :: string
  UID :: string

definition GenerateIDByObject :: "object_meta \<Rightarrow> string option" where
  "GenerateIDByObject obj =
    (case TruncateUIDHash (UID obj) of
       None \<Rightarrow> None
     | Some suffix \<Rightarrow>
         let desiredName = connectStrings ConnectorUnderline [Name obj, suffix] in
         if MaxIdLength < int (length desiredName) then
           (case slice_to (Name obj) (MaxIdLength - int (length suffix) - 1) of
              None \<Rightarrow> None
            | Some p \<Rightarrow> Some (connectStrings ConnectorUnderline [p, suffix]))
         else Some desiredName)"

definition GenerateID :: "string \<Rightarrow> string \<Rightarrow> string \<Rightarrow> string \<Rightarrow> string" where
  "GenerateID resID prefix suffix index = connectStrings ConnectorUnderline [prefix, resID, index, suffix]"

definition generateDisplayName ::
  "string \<Rightarrow> string \<Rightarrow> string \<Rightarrow> string \<Rightarrow> string \<Rightarrow> string \<Rightarrow> string" where
  "generateDisplayName connector resName prefix suffix project cluster =
    connectStrings connector [prefix, cluster, resName, project, suffix]"

definition GenerateTruncName ::
  "int \<Rightarrow> string \<Rightarrow> string \<Rightarrow> string \<Rightarrow> string \<Rightarrow> string \<Rightarrow> string option" where
  "GenerateTruncName limit resName prefix suffix project cluster =
    (let adjustedLimit = limit - int (length prefix) - int (length suffix)
           - (if prefix \<noteq> [] then 1 else 0) - (if suffix \<noteq> [] then 1 else 0);
         oldName = generateDisplayName ConnectorUnderline resName [] [] project cluster
     in if adjustedLimit < int (length oldName) then
          (case normalizeNameByLimit oldName [] adjustedLimit TruncateUIDHash of
             None \<Rightarrow> None
           | Some newName \<Rightarrow> Some (generateDisplayName ConnectorUnderline newName prefix suffix [] []))
        else Some (generateDisplayName ConnectorUnderline resName prefix suffix project cluster))"

text \<open>The random UUIDs drawn by the loop are the sequence \<open>uuid\<close>; \<open>None\<close> is a panic of the generator
  or a loop that does not end.\<close>

partial_function (option) uniqueIdLoop ::
  "string \<Rightarrow> (object_meta \<Rightarrow> string option) \<Rightarrow> (string \<Rightarrow> bool) \<Rightarrow> (nat \<Rightarrow> string) \<Rightarrow> nat \<Rightarrow> string
    \<Rightarrow> string option" where
  "uniqueIdLoop name idGeneratorFn idExistsFn uuid i resId =
    (if idExistsFn resId then
       Option.bind (idGeneratorFn \<lparr>Name = name, Namespace = [], UID = uuid i\<rparr>)
         (\<lambda>resId'. uniqueIdLoop name idGeneratorFn idExistsFn uuid (Suc i) resId')
     else Some resId)"

declare uniqueIdLoop.simps [code]

definition BuildUniqueIDWithRandomUUID ::
  "(nat \<Rightarrow> string) \<Rightarrow> object_meta \<Rightarrow> (object_meta \<Rightarrow> string option) \<Rightarrow> (string \<Rightarrow> bool) \<Rightarrow> string option" where
  "BuildUniqueIDWithRandomUUID uuid initialObject idGeneratorFn idExistsFn =
    Option.bind (idGeneratorFn initialObject)
      (\<lambda>resId. uniqueIdLoop (Name initialObject) idGeneratorFn idExistsFn uuid 0 resId)"

definition BuildUniqueIDWithSuffix ::
  "(nat \<Rightarrow> string) \<Rightarrow> object_meta \<Rightarrow> string \<Rightarrow> int \<Rightarrow> (object_meta \<Rightarrow> string option) \<Rightarrow> (string \<Rightarrow> bool)
    \<Rightarrow> string option" where
  "BuildUniqueIDWithSuffix uuid obj suffixStr maxLength idGeneratorFn idExistsFn =
    (let maxNameLength0 = maxLength - UUIDHashLength - 1;
         maxNameLength = (if suffixStr \<noteq> [] then maxNameLength0 - (int (length suffixStr) + 1)
                          else maxNameLength0);
         suffix = (if suffixStr \<noteq> [] then ConnectorHyphen @ suffixStr else []);
         prefix = (if maxNameLength < int (length (Name obj)) then slice_to (Name obj) maxNameLength
                   else Some (Name obj))
     in Option.bind prefix (\<lambda>p.
          BuildUniqueIDWithRandomUUID uuid \<lparr>Name = p @ suffix, Namespace = [], UID = UID obj\<rparr>
            idGeneratorFn idExistsFn))"

section \<open>Lengths\<close>

lemma connect_two:
  "connectStrings sep [a, b] = (if a = [] then b else if b = [] then a else a @ sep @ b)"
  by (simp add: connectStrings_def)

lemma length_connect_le:
  "length (connectStrings sep ps) \<le> (\<Sum>p\<leftarrow>ps. length p + (if p = [] then 0 else length sep))
     - (if \<exists>p \<in> set ps. p \<noteq> [] then length sep else 0)"
proof -
  let ?qs = "filter (\<lambda>p. p \<noteq> []) ps"
  have sum: "(\<Sum>p\<leftarrow>ps. length p + (if p = [] then 0 else length sep))
    = (\<Sum>p\<leftarrow>?qs. length p) + length ?qs * length sep"
    by (induction ps) auto
  have "?qs = [] \<longleftrightarrow> \<not> (\<exists>p \<in> set ps. p \<noteq> [])" by (auto simp: filter_empty_conv)
  then show ?thesis
    unfolding sum connectStrings_def length_str_join
    by (cases "?qs = []") (auto simp: diff_mult_distrib Suc_le_eq)
qed

lemma length_connect_around:
  "length (connectStrings ''_'' (p # xs @ [q])) \<le>
     length p + (if p = [] then 0 else 1) + length (connectStrings ''_'' xs)
     + (if q = [] then 0 else 1) + length q"
proof -
  let ?n = "length (filter (\<lambda>p. p \<noteq> []) xs)"
  have "filter (\<lambda>p. p \<noteq> []) xs = [] \<Longrightarrow> (\<Sum>x\<leftarrow>filter (\<lambda>p. p \<noteq> []) xs. length x) = 0" by simp
  then show ?thesis
    by (cases ?n) (auto simp: connectStrings_def length_str_join)
qed

lemma normalize_bound:
  "normalizeNameByLimit name suffix limit h = Some r \<Longrightarrow> int (length r) \<le> limit"
  by (auto simp: normalizeNameByLimit_def Let_def limit_defs split: if_splits option.splits)

lemma normalize_no_suffix:
  "normalizeNameByLimit name [] limit h =
    (if int (length name) \<le> limit then Some name
     else (case h name of None \<Rightarrow> None
           | Some s \<Rightarrow> if limit \<le> int (length s) then None
                      else Some (take (nat (limit - int (length s) - 1)) name @ ''_'' @ s)))"
  by (auto simp: normalizeNameByLimit_def Let_def connect_two limit_defs split: option.splits)

lemma TruncateUIDHash_length: "TruncateUIDHash uid = Some h \<Longrightarrow> length h = 5"
  by (auto simp: TruncateUIDHash_def limit_defs)

lemma Sha1_length [simp]: "length (Sha1 s) = 40"
  by (simp add: Sha1_def getSha1Bytes_def)

lemma GenerateIDByObject_Some:
  assumes "TruncateUIDHash (UID obj) = Some h"
  shows "GenerateIDByObject obj =
    Some (connectStrings ''_'' [take 249 (Name obj), h])"
  using TruncateUIDHash_length [OF assms] assms
  by (auto simp: GenerateIDByObject_def Let_def connect_two limit_defs split: option.splits)

lemma GenerateIDByObject_bound:
  assumes "GenerateIDByObject obj = Some i"
  shows "length i \<le> length (Name obj) + 6 \<and> length i \<le> 255"
proof (cases "TruncateUIDHash (UID obj)")
  case None
  with assms show ?thesis by (simp add: GenerateIDByObject_def)
next
  case (Some h)
  with assms show ?thesis
    using GenerateIDByObject_Some [OF Some] TruncateUIDHash_length [OF Some]
    by (auto simp: connect_two)
qed

section \<open>The loop over random identifiers\<close>

lemma uniqueIdLoop_step:
  "uniqueIdLoop n g ex u i r =
    (if ex r then (case g \<lparr>Name = n, Namespace = [], UID = u i\<rparr> of None \<Rightarrow> None
                   | Some r' \<Rightarrow> uniqueIdLoop n g ex u (Suc i) r') else Some r)"
  by (subst uniqueIdLoop.simps) (simp split: option.splits)

lemma uniqueIdLoop_inv:
  assumes "uniqueIdLoop n g ex u i r = Some x" "P r"
    and "\<And>v s. g \<lparr>Name = n, Namespace = [], UID = v\<rparr> = Some s \<Longrightarrow> P s"
  shows "P x \<and> \<not> ex x"
proof -
  have "P r \<longrightarrow> (\<forall>v s. g \<lparr>Name = n, Namespace = [], UID = v\<rparr> = Some s \<longrightarrow> P s) \<longrightarrow> P x \<and> \<not> ex x"
    using assms(1)
  proof (induction rule: uniqueIdLoop.raw_induct [rotated, consumes 1, case_names step])
    case (step f n g ex u i r x)
    show ?case
    proof (cases "ex r")
      case True
      with step(2) obtain y where "g \<lparr>Name = n, Namespace = [], UID = u i\<rparr> = Some y"
        "f n g ex u (Suc i) y = Some x" by (auto simp: bind_eq_Some_conv)
      with step(1) [OF this(2)] show ?thesis by blast
    next
      case False
      with step(2) show ?thesis by simp
    qed
  qed
  with assms(2,3) show ?thesis by blast
qed

lemma uniqueIdLoop_ends:
  assumes "\<And>o'. g o' \<noteq> None" and "k \<ge> i"
    and "\<not> ex (the (g \<lparr>Name = n, Namespace = [], UID = u k\<rparr>))"
  shows "\<exists>x. uniqueIdLoop n g ex u i r = Some x"
  using assms(2,3)
proof (induction "k - i" arbitrary: i r)
  case 0
  obtain y where "g \<lparr>Name = n, Namespace = [], UID = u i\<rparr> = Some y" using assms(1) by fastforce
  with 0 show ?case
    by (simp add: uniqueIdLoop_step [of n g ex u i] uniqueIdLoop_step [of n g ex u "Suc i"])
next
  case (Suc d)
  obtain y where y: "g \<lparr>Name = n, Namespace = [], UID = u i\<rparr> = Some y" using assms(1) by fastforce
  from Suc have "d = k - Suc i" "Suc i \<le> k" by auto
  from Suc(1) [OF this Suc(4)] y show ?case
    by (simp add: uniqueIdLoop_step [of n g ex u i])
qed

section \<open>Normalized identifiers\<close>

lemma length_replace_char: "length (replace_char c [d] s) = length s"
  by (induction s) auto

lemma trimSeparators_spec:
  "trimSeparators s n = Some k \<Longrightarrow> 0 < k \<and> k \<le> n \<and> k \<le> length s \<and> s ! (k - 1) \<notin> set ''-._''"
  by (induction n) (auto split: if_splits)

lemma trimSeparators_None:
  "n \<le> length s \<Longrightarrow> trimSeparators s n = None \<longleftrightarrow> (\<forall>i < n. s ! i \<in> set ''-._'')"
  by (induction n) (auto simp: less_Suc_eq)

lemma NormalizeId_eq:
  "NormalizeId name =
    (let newName = replace_char CHR '':'' ''_'' name in
     if length newName \<le> 255 then Some newName
     else (case trimSeparators newName 246 of None \<Rightarrow> None
           | Some k \<Rightarrow> Some (take k newName @ ''-'' @ take 8 (Sha1 name))))"
  by (auto simp: NormalizeId_def Let_def limit_defs split: option.splits)

lemma replace_char_nth:
  "i < length s \<Longrightarrow> replace_char c [d] s ! i = (if s ! i = c then d else s ! i)"
  by (induction s arbitrary: i) (auto simp: nth_Cons split: nat.splits)

lemma hex_char_not_colon: "d < 16 \<Longrightarrow> hex_char d \<noteq> CHR '':''"
proof
  assume d: "d < 16" and "hex_char d = CHR '':''"
  then have "of_char (hex_char d) = (of_char CHR '':'' :: nat)" by simp
  with d show False by (auto simp: hex_char_def split: if_splits)
qed

lemma Sha1_no_colon: "CHR '':'' \<notin> set (Sha1 s)"
proof -
  have "unat b div 16 < 16" for b :: "8 word" using unat_byte_less [of b] by simp
  with hex_char_not_colon [of "unat b div 16" for b :: "8 word"] show ?thesis
    using hex_char_not_colon [of "unat b mod 16" for b :: "8 word"]
    by (auto simp: Sha1_def hex_bytes_def eq_commute [of "CHR '':''"])
qed

section \<open>Properties\<close>

text \<open>C38. The loop that avoids identifier collisions returns, as soon as one of the random UUIDs gives
  an identifier that does not exist yet, and the identifier it returns does not exist.\<close>

theorem BuildUniqueIDWithRandomUUID_fresh:
  assumes "\<And>o'. gen o' \<noteq> None"
    and "\<not> taken (the (gen \<lparr>Name = Name obj, Namespace = [], UID = uuid k\<rparr>))"
  shows "\<exists>i. BuildUniqueIDWithRandomUUID uuid obj gen taken = Some i \<and> \<not> taken i"
proof -
  obtain r where r: "gen obj = Some r" using assms(1) by fastforce
  obtain i where "uniqueIdLoop (Name obj) gen taken uuid 0 r = Some i"
    using uniqueIdLoop_ends [of gen 0 k taken "Name obj" uuid r] assms by auto
  with uniqueIdLoop_inv [OF this, of "\<lambda>_. True"] r show ?thesis by (simp add: BuildUniqueIDWithRandomUUID_def)
qed

theorem BuildUniqueIDWithRandomUUID_fresh_witness:
  "\<exists>i. BuildUniqueIDWithRandomUUID nat_str \<lparr>Name = ''b'', Namespace = [], UID = ''0''\<rparr>
         (\<lambda>o'. Some (Name o' @ ''_'' @ UID o')) (\<lambda>i. i \<in> {''b_0'', ''b_1''}) = Some i
       \<and> i \<notin> {''b_0'', ''b_1''}"
proof -
  have two: "nat_str 2 = ''2''" by code_simp
  show ?thesis
    by (rule BuildUniqueIDWithRandomUUID_fresh [where k = 2]) (simp_all add: two)
qed

text \<open>An identifier with a suffix is never longer than the limit asked for, and is fresh, for every
  generator that appends at most an underscore and five characters to the name, as
  \<open>GenerateIDByObject\<close> does.\<close>

theorem BuildUniqueIDWithSuffix_bounded:
  assumes "\<And>o' s. gen o' = Some s \<Longrightarrow> length s \<le> length (Name o') + 6"
    and "BuildUniqueIDWithSuffix uuid obj suffixStr maxLength gen taken = Some i"
  shows "int (length i) \<le> maxLength \<and> \<not> taken i"
proof -
  define sfx where "sfx = (if suffixStr \<noteq> [] then ConnectorHyphen @ suffixStr else [])"
  define mx where "mx = maxLength - 6 - int (length sfx)"
  have "BuildUniqueIDWithSuffix uuid obj suffixStr maxLength gen taken =
      Option.bind (if mx < int (length (Name obj)) then slice_to (Name obj) mx else Some (Name obj))
        (\<lambda>p. BuildUniqueIDWithRandomUUID uuid \<lparr>Name = p @ sfx, Namespace = [], UID = UID obj\<rparr> gen taken)"
    by (simp add: BuildUniqueIDWithSuffix_def Let_def limit_defs sfx_def mx_def)
  with assms(2) obtain p where
    p0: "(if mx < int (length (Name obj)) then slice_to (Name obj) mx else Some (Name obj)) = Some p"
    and r: "BuildUniqueIDWithRandomUUID uuid \<lparr>Name = p @ sfx, Namespace = [], UID = UID obj\<rparr> gen taken = Some i"
    by (auto simp: bind_eq_Some_conv)
  from p0 have p: "int (length (p @ sfx)) \<le> maxLength - 6"
    by (auto simp: mx_def split: if_splits)
  obtain r0 where r0: "gen \<lparr>Name = p @ sfx, Namespace = [], UID = UID obj\<rparr> = Some r0"
    and loop: "uniqueIdLoop (p @ sfx) gen taken uuid 0 r0 = Some i"
    using r by (auto simp: BuildUniqueIDWithRandomUUID_def bind_eq_Some_conv)
  have "length i \<le> length (p @ sfx) + 6"
    using uniqueIdLoop_inv [OF loop, where P = "\<lambda>x. length x \<le> length (p @ sfx) + 6"]
      assms(1) [OF r0] assms(1) by fastforce
  with p uniqueIdLoop_inv [OF loop, of "\<lambda>_. True"] show ?thesis by auto
qed

theorem BuildUniqueIDWithSuffix_bounded_witness:
  "\<exists>i. BuildUniqueIDWithSuffix nat_str \<lparr>Name = ''subnet'', Namespace = [], UID = ''0''\<rparr> ''ab'' 12
         (\<lambda>o'. Some (Name o' @ ''_'' @ take 5 (UID o'))) (\<lambda>i. False) = Some i
       \<and> int (length i) \<le> 12"
proof -
  let ?gen = "\<lambda>o' :: object_meta. Some (Name o' @ ''_'' @ take 5 (UID o'))"
  have "BuildUniqueIDWithSuffix nat_str \<lparr>Name = ''subnet'', Namespace = [], UID = ''0''\<rparr> ''ab'' 12
      ?gen (\<lambda>i. False) = Some ''sub-ab_0''"
    by (simp add: BuildUniqueIDWithSuffix_def limit_defs slice_to_def
        BuildUniqueIDWithRandomUUID_def uniqueIdLoop_step)
  from BuildUniqueIDWithSuffix_bounded [OF _ this] this show ?thesis by auto
qed

text \<open>\<open>GenerateIDByObject\<close> returns the name and the five-character hash of the UID, the name cut so
  that the identifier has at most 255 characters; it panics only if the encoded digest is shorter than
  five characters.\<close>

theorem GenerateIDByObject_spec:
  "if length (Sha1WithCustomizedCharset (UID obj)) < 5 then GenerateIDByObject obj = None
   else GenerateIDByObject obj
          = Some (connectStrings ''_'' [take 249 (Name obj), take 5 (Sha1WithCustomizedCharset (UID obj))])
        \<and> length (the (GenerateIDByObject obj)) \<le> 255"
proof (cases "length (Sha1WithCustomizedCharset (UID obj)) < 5")
  case True
  then have "TruncateUIDHash (UID obj) = None" by (simp add: TruncateUIDHash_def limit_defs)
  with True show ?thesis by (simp add: GenerateIDByObject_def)
next
  case False
  then have "TruncateUIDHash (UID obj) = Some (take 5 (Sha1WithCustomizedCharset (UID obj)))"
    by (simp add: TruncateUIDHash_def limit_defs)
  from GenerateIDByObject_Some [OF this] False show ?thesis by (auto simp: connect_two)
qed

text \<open>A display name generated with a limit fits into it: the whole name when that is short enough,
  and otherwise the prefix, the truncated name with its hash, and the suffix.\<close>

theorem GenerateTruncName_bounded:
  "case GenerateTruncName limit resName prefix suffix project cluster of
     None \<Rightarrow> limit < int (length prefix + length suffix) + 8 \<or> (\<exists>n. TruncateUIDHash n = None)
   | Some r \<Rightarrow> int (length r) \<le> limit"
proof -
  let ?adj = "limit - int (length prefix) - int (length suffix)
           - (if prefix \<noteq> [] then 1 else 0) - (if suffix \<noteq> [] then 1 else 0)"
  let ?old = "connectStrings ''_'' [cluster, resName, project]"
  have old: "generateDisplayName ConnectorUnderline resName [] [] project cluster = ?old"
    by (simp add: generateDisplayName_def connectStrings_def limit_defs)
  show ?thesis
  proof (cases "?adj < int (length ?old)")
    case True
    then have eq: "GenerateTruncName limit resName prefix suffix project cluster =
      map_option (\<lambda>n. connectStrings ''_'' [prefix, n, suffix]) (normalizeNameByLimit ?old [] ?adj TruncateUIDHash)"
      unfolding GenerateTruncName_def Let_def old
      by (cases "normalizeNameByLimit ?old [] ?adj TruncateUIDHash")
        (simp_all add: generateDisplayName_def connectStrings_def limit_defs)
    show ?thesis
    proof (cases "normalizeNameByLimit ?old [] ?adj TruncateUIDHash")
      case None
      then have "TruncateUIDHash ?old = None \<or> ?adj \<le> 5"
        using True by (auto simp: normalize_no_suffix dest: TruncateUIDHash_length split: option.splits if_splits)
      with None show ?thesis unfolding eq by (auto split: if_splits)
    next
      case (Some n)
      have "connectStrings ''_'' [n] = n" by (simp add: connectStrings_def)
      with Some normalize_bound [OF Some] show ?thesis
        using length_connect_around [of prefix "[n]" suffix] unfolding eq by (simp split: if_splits)
    qed
  next
    case False
    then have eq: "GenerateTruncName limit resName prefix suffix project cluster =
      Some (connectStrings ''_'' (prefix # [cluster, resName, project] @ [suffix]))"
      unfolding GenerateTruncName_def Let_def old
      by (simp add: generateDisplayName_def limit_defs)
    show ?thesis
      using False length_connect_around [of prefix "[cluster, resName, project]" suffix] unfolding eq
      by (simp split: if_splits)
  qed
qed

text \<open>A normalized identifier has no colon and at most 255 characters; one that is already valid
  is unchanged, and a long one keeps a prefix that does not end in a separator.\<close>

theorem NormalizeId_valid:
  "case NormalizeId name of
     None \<Rightarrow> 255 < length name \<and> set (take 246 name) \<subseteq> set '':-._''
   | Some r \<Rightarrow> length r \<le> 255 \<and> CHR '':'' \<notin> set r
       \<and> (if length name \<le> 255 then r = replace_char CHR '':'' ''_'' name
          else \<exists>k \<le> 246. 0 < k \<and> r = take k (replace_char CHR '':'' ''_'' name) @ ''-'' @ take 8 (Sha1 name)
               \<and> replace_char CHR '':'' ''_'' name ! (k - 1) \<notin> set ''-._'')"
proof -
  let ?new = "replace_char CHR '':'' ''_'' name"
  have len: "length ?new = length name" by (rule length_replace_char)
  have colon: "CHR '':'' \<notin> set ?new" by (rule replace_char_notin) simp
  have hash: "CHR '':'' \<notin> set (Sha1 name)" by (rule Sha1_no_colon)
  show ?thesis
  proof (cases "length name \<le> 255")
    case True
    with len colon show ?thesis by (simp add: NormalizeId_eq)
  next
    case False
    show ?thesis
    proof (cases "trimSeparators ?new 246")
      case None
      then have "\<forall>i < 246. ?new ! i \<in> set ''-._''" using trimSeparators_None [of 246 ?new] False len by simp
      then have "\<forall>i < 246. name ! i \<in> set '':-._''"
        using False by (auto simp: replace_char_nth)
      then have "set (take 246 name) \<subseteq> set '':-._''"
        by (auto simp only: subset_iff in_set_conv_nth [of _ "take 246 name"] length_take min_less_iff_conj nth_take)
      with None False len show ?thesis by (simp add: NormalizeId_eq)
    next
      case (Some k)
      note k = trimSeparators_spec [OF Some]
      have "set (take k ?new) \<subseteq> set ?new" "set (take 8 (Sha1 name)) \<subseteq> set (Sha1 name)"
        by (rule set_take_subset)+
      with k Some False len colon hash show ?thesis by (auto simp: NormalizeId_eq)
    qed
  qed
qed

end
