(* ===== verification/KubeUtil.thy ===== *)
theory KubeUtil
  imports Naming IpRange
begin

text \<open>
  The remaining helpers of \<open>pkg/util/utils.go\<close>: tags of NSX resources, annotations of Kubernetes
  objects, system namespaces, subnet sizes and the defaults of static IP allocation.
\<close>

section \<open>Tags\<close>

text \<open>A tag of the NSX model; both fields are pointers.\<close>

type_synonym nsx_tag = "string option \<times> string option"

definition mk_tag :: "string \<Rightarrow> string \<Rightarrow> nsx_tag" where
  "mk_tag scope v = (Some scope, Some v)"

definition BuildClusterTags :: "string \<Rightarrow> nsx_tag list" where
  "BuildClusterTags cluster =
    [mk_tag ''nsx-op/cluster'' cluster, mk_tag ''nsx-op/version'' (str_join [''1'', ''0'', ''0''] ''.'')]"

text \<open>The objects \<open>BuildBasicTags\<close> tells apart; a Pod comes with its controller reference (kind, name
  and UID).\<close>

datatype k8s_object =
    ObjStaticRoute object_meta | ObjSecurityPolicy object_meta | ObjNetworkPolicy object_meta
  | ObjSubnet object_meta | ObjSubnetSet object_meta | ObjSubnetPort object_meta
  | ObjPod object_meta "(string \<times> string \<times> string) option"
  | ObjNetworkInfo object_meta | ObjIPAddressAllocation object_meta
  | ObjSubnetConnectionBindingMap object_meta | ObjAddressBinding object_meta
  | ObjSubnetIPReservation object_meta | ObjUnknown

fun objectTags :: "k8s_object \<Rightarrow> string \<Rightarrow> nsx_tag list" where
  "objectTags (ObjStaticRoute m) ns =
    [mk_tag ''nsx-op/namespace'' (Namespace m), mk_tag ''nsx-op/static_route_name'' (Name m),
     mk_tag ''nsx-op/static_route_uid'' (UID m)]"
| "objectTags (ObjSecurityPolicy m) ns = [mk_tag ''nsx-op/namespace'' (Namespace m)]"
| "objectTags (ObjNetworkPolicy m) ns = [mk_tag ''nsx-op/namespace'' (Namespace m)]"
| "objectTags (ObjSubnet m) ns =
    [mk_tag ''nsx-op/subnet_name'' (Name m), mk_tag ''nsx-op/subnet_uid'' (UID m)]"
| "objectTags (ObjSubnetSet m) ns =
    [mk_tag ''nsx-op/subnetset_name'' (Name m), mk_tag ''nsx-op/subnetset_uid'' (UID m)]"
| "objectTags (ObjSubnetPort m) ns =
    [mk_tag ''nsx-op/namespace'' (Namespace m), mk_tag ''nsx-op/vm_namespace'' (Namespace m),
     mk_tag ''nsx-op/vm_namespace_uid'' ns, mk_tag ''nsx-op/subnetport_name'' (Name m),
     mk_tag ''nsx-op/subnetport_uid'' (UID m)]"
| "objectTags (ObjPod m ref) ns =
    [mk_tag ''nsx-op/namespace'' (Namespace m), mk_tag ''nsx-op/pod_name'' (Name m),
     mk_tag ''nsx-op/pod_uid'' (UID m)]
    @ (case ref of
         Some (kind, name, uid) \<Rightarrow>
           if kind = ''StatefulSet'' then [mk_tag ''nsx-op/sts_name'' name, mk_tag ''nsx-op/sts_uid'' uid] else []
       | None \<Rightarrow> [])"
| "objectTags (ObjNetworkInfo m) ns = [mk_tag ''nsx-op/namespace'' (Namespace m)]"
| "objectTags (ObjIPAddressAllocation m) ns =
    [mk_tag ''nsx-op/namespace'' (Namespace m), mk_tag ''nsx-op/ipaddressallocation_name'' (Name m),
     mk_tag ''nsx-op/ipaddressallocation_uid'' (UID m)]"
| "objectTags (ObjSubnetConnectionBindingMap m) ns =
    [mk_tag ''nsx-op/namespace'' (Namespace m), mk_tag ''nsx-op/subnetbinding_name'' (Name m),
     mk_tag ''nsx-op/subnetbinding_uid'' (UID m)]"
| "objectTags (ObjAddressBinding m) ns =
    [mk_tag ''nsx-op/namespace'' (Namespace m), mk_tag ''nsx-op/addressbinding_name'' (Name m),
     mk_tag ''nsx-op/addressbinding_uid'' (UID m)]"
| "objectTags (ObjSubnetIPReservation m) ns =
    [mk_tag ''nsx-op/namespace'' (Namespace m), mk_tag ''nsx-op/subnetipreservation_name'' (Name m),
     mk_tag ''nsx-op/subnetipreservation_uid'' (UID m)]"
| "objectTags ObjUnknown ns = []"

definition BuildBasicTags :: "string \<Rightarrow> k8s_object \<Rightarrow> string \<Rightarrow> nsx_tag list" where
  "BuildBasicTags cluster obj namespaceID =
    BuildClusterTags cluster @ objectTags obj namespaceID
    @ (if namespaceID \<noteq> [] then [mk_tag ''nsx-op/namespace_uid'' namespaceID] else [])"

text \<open>\<open>nsxutil.FindTag\<close>; a tag without a scope, or a matching one without a value, makes it panic.\<close>

fun FindTag :: "nsx_tag list \<Rightarrow> string \<Rightarrow> string option" where
  "FindTag [] tagScope = Some ''''"
| "FindTag ((s, v) # tags) tagScope =
    (case s of None \<Rightarrow> None
     | Some sc \<Rightarrow> if sc = tagScope then v else FindTag tags tagScope)"

definition ToUpper :: "string \<Rightarrow> string" where
  "ToUpper s = map upper_char s"

section \<open>Annotations\<close>

text \<open>The loop over the changes, which come in the iteration order of the map: the annotations and the
  flag that decides whether the object is sent to the API server.\<close>

fun annotationLoop ::
  "(string \<times> string) list \<Rightarrow> (string \<times> string) list \<Rightarrow> bool \<Rightarrow> (string \<times> string) list \<times> bool" where
  "annotationLoop [] newAnno needUpdate = (newAnno, needUpdate)"
| "annotationLoop ((key, val) # changes) newAnno needUpdate =
    (if val \<noteq> [] then annotationLoop changes (AList.update key val newAnno) True
     else if map_of newAnno key \<noteq> None then annotationLoop changes (AList.delete key newAnno) True
     else annotationLoop changes newAnno False)"

text \<open>\<open>update\<close> is the request to the API server.\<close>

definition UpdateK8sResourceAnnotation ::
  "((string \<times> string) list \<Rightarrow> gerror option) \<Rightarrow> (string \<times> string) list option \<Rightarrow> (string \<times> string) list
    \<Rightarrow> gerror option \<times> (string \<times> string) list \<times> bool" where
  "UpdateK8sResourceAnnotation update anno changes =
    (let (newAnno, needUpdate) = annotationLoop changes (case anno of None \<Rightarrow> [] | Some a \<Rightarrow> a) False in
     (if needUpdate then update newAnno else None, newAnno, needUpdate))"

section \<open>Namespaces, ports and lists\<close>

datatype get_result = GetFound "(string \<times> string) list" | GetNotFound | GetFailed gerror

definition to_lower :: "string \<Rightarrow> string" where
  "to_lower s = map (\<lambda>c. let n = (of_char c :: nat) in if 65 \<le> n \<and> n \<le> 90 then char_of (n + 32) else c) s"

definition lookupAnnotation :: "(string \<Rightarrow> get_result) \<Rightarrow> string \<Rightarrow> (string \<times> string) list option \<Rightarrow> string
    \<Rightarrow> gerror + string option" where
  "lookupAnnotation get ns obj key =
    (case obj of
       Some annos \<Rightarrow> Inr (map_of annos key)
     | None \<Rightarrow> (case get ns of
                  GetFound annos \<Rightarrow> Inr (map_of annos key)
                | GetNotFound \<Rightarrow> Inr None
                | GetFailed err \<Rightarrow> Inl err))"

definition IsT1SystemNamespace ::
  "(string \<Rightarrow> get_result) \<Rightarrow> string \<Rightarrow> (string \<times> string) list option \<Rightarrow> gerror + bool" where
  "IsT1SystemNamespace get ns obj =
    (case lookupAnnotation get ns obj ''vmware-system-shared-t1'' of
       Inl err \<Rightarrow> Inl err
     | Inr v \<Rightarrow> Inr (case v of None \<Rightarrow> False | Some s \<Rightarrow> to_lower s = ''true''))"

definition IsVPCSystemNamespace ::
  "(string \<Rightarrow> get_result) \<Rightarrow> string \<Rightarrow> (string \<times> string) list option \<Rightarrow> gerror + bool" where
  "IsVPCSystemNamespace get ns obj =
    (case lookupAnnotation get ns obj ''nsx.vmware.com/shared_vpc_namespace'' of
       Inl err \<Rightarrow> Inl err
     | Inr v \<Rightarrow> Inr (v = Some ''kube-system''))"

definition IsSystemNamespace ::
  "(string \<Rightarrow> get_result) \<Rightarrow> string \<Rightarrow> (string \<times> string) list option \<Rightarrow> bool \<Rightarrow> gerror + bool" where
  "IsSystemNamespace get ns obj vpcMode =
    (if vpcMode then IsVPCSystemNamespace get ns obj else IsT1SystemNamespace get ns obj)"

text \<open>The names of the ports of the containers of a Pod.\<close>

definition CheckPodHasNamedPort :: "string list list \<Rightarrow> bool" where
  "CheckPodHasNamedPort containers = list_ex (\<lambda>ports. list_ex (\<lambda>name. name \<noteq> []) ports) containers"

definition FilterOut :: "string list \<Rightarrow> string \<Rightarrow> string list" where
  "FilterOut s strToRemove = filter (\<lambda>e. e \<noteq> strToRemove) s"

definition RemoveDuplicateStr :: "(string list \<Rightarrow> string list) \<Rightarrow> string list \<Rightarrow> string list" where
  "RemoveDuplicateStr ord strSlice = ord (remdups strSlice)"

definition IntersectStr :: "string list \<Rightarrow> string list \<Rightarrow> string list" where
  "IntersectStr a b = sort (filter (\<lambda>x. x \<in> set b) (remdups a))"

section \<open>Subnet sizes and IP allocation\<close>

definition CalculateSubnetSize :: "int \<Rightarrow> int" where
  "CalculateSubnetSize m = (if m \<le> 32 then sint (push_bit (nat (32 - m)) (1 :: 64 word)) else 0)"

definition IsPowerOfTwo :: "int \<Rightarrow> bool" where
  "IsPowerOfTwo n \<longleftrightarrow> 0 < n \<and> n AND (n - 1) = 0"

definition ValidateSubnetSize :: "bool \<Rightarrow> int \<Rightarrow> bool \<times> string" where
  "ValidateSubnetSize minimalSize8 subnetSize =
    (if subnetSize = 0 then (True, [])
     else if \<not> IsPowerOfTwo subnetSize then (False, ''Subnet size must be a power of 2'')
     else if minimalSize8 then
       (if subnetSize < 8 then (False, ''Subnet size must be greater than or equal to '' @ Itoa 8) else (True, []))
     else
       (if subnetSize < 16 then (False, ''Subnet size must be greater than or equal to '' @ Itoa 16) else (True, [])))"

definition ParseDHCPMode :: "string \<Rightarrow> string" where
  "ParseDHCPMode mode =
    (if mode = ''DHCPDeactivated'' then ''DHCP_DEACTIVATED''
     else if mode = ''DHCPServer'' then ''DHCP_SERVER''
     else if mode = ''DHCPRelay'' then ''DHCP_RELAY''
     else if mode = ''DHCPServerStateless'' then ''DHCP_SERVER_STATELESS''
     else '''')"

text \<open>The parts of an NSX VPC Subnet that decide the allocation: the DHCP modes (absent when any pointer
  on the way is nil) and the static allocation switch.\<close>

record nsx_subnet_ip =
  dhcpMode :: "string option"
  dhcpv6Mode :: "string option"
  staticEnabled :: "bool option"

definition NSXSubnetDHCPEnabled :: "nsx_subnet_ip \<Rightarrow> bool" where
  "NSXSubnetDHCPEnabled s =
    (case dhcpMode s of None \<Rightarrow> False | Some m \<Rightarrow> m \<noteq> ParseDHCPMode ''DHCPDeactivated'')"

definition NSXSubnetDHCPv6Enabled :: "nsx_subnet_ip \<Rightarrow> bool" where
  "NSXSubnetDHCPv6Enabled s =
    (case dhcpv6Mode s of None \<Rightarrow> False | Some m \<Rightarrow> m \<noteq> ParseDHCPMode ''DHCPDeactivated'')"

definition NSXSubnetStaticIPAllocationEnabled :: "nsx_subnet_ip \<Rightarrow> bool" where
  "NSXSubnetStaticIPAllocationEnabled s \<longleftrightarrow> staticEnabled s = Some True"

datatype static_ip_type =
  StaticIPAllocationTypeNone | StaticIPAllocationTypeIPv4 | StaticIPAllocationTypeIPv6
| StaticIPAllocationTypeIPv4IPv6

definition StaticIPAllocationTypeIncludesIPv4 :: "static_ip_type \<Rightarrow> bool" where
  "StaticIPAllocationTypeIncludesIPv4 t \<longleftrightarrow> t = StaticIPAllocationTypeIPv4 \<or> t = StaticIPAllocationTypeIPv4IPv6"

definition StaticIPAllocationTypeIncludesIPv6 :: "static_ip_type \<Rightarrow> bool" where
  "StaticIPAllocationTypeIncludesIPv6 t \<longleftrightarrow> t = StaticIPAllocationTypeIPv6 \<or> t = StaticIPAllocationTypeIPv4IPv6"

definition ComputeDefaultStaticIPAllocationType :: "nsx_subnet_ip \<Rightarrow> ip_address_type \<Rightarrow> static_ip_type" where
  "ComputeDefaultStaticIPAllocationType nsxSubnet interfaceIPType =
    (if \<not> NSXSubnetStaticIPAllocationEnabled nsxSubnet then StaticIPAllocationTypeNone
     else let dhcpEnabled = NSXSubnetDHCPEnabled nsxSubnet;
              dhcpv6Enabled = NSXSubnetDHCPv6Enabled nsxSubnet
          in case interfaceIPType of
               IPAddressTypeIPv4 \<Rightarrow>
                 if \<not> dhcpEnabled then StaticIPAllocationTypeIPv4 else StaticIPAllocationTypeNone
             | IPAddressTypeIPv6 \<Rightarrow>
                 if \<not> dhcpv6Enabled then StaticIPAllocationTypeIPv6 else StaticIPAllocationTypeNone
             | IPAddressTypeIPv4IPv6 \<Rightarrow>
                 if \<not> dhcpEnabled \<and> \<not> dhcpv6Enabled then StaticIPAllocationTypeIPv4IPv6
                 else if \<not> dhcpEnabled \<and> dhcpv6Enabled then StaticIPAllocationTypeIPv4
                 else if dhcpEnabled \<and> \<not> dhcpv6Enabled then StaticIPAllocationTypeIPv6
                 else StaticIPAllocationTypeNone
             | IPAddressTypeOther _ \<Rightarrow> StaticIPAllocationTypeNone)"

text \<open>The fields of a Subnet or SubnetSet CR that the defaults look at; \<open>None\<close> is another kind of object.\<close>

record cr_subnet_ip =
  crDHCPMode :: string
  crDHCPv6Mode :: string
  crIPAddressType :: ip_address_type

definition CRSubnetDHCPEnabled :: "cr_subnet_ip option \<Rightarrow> bool" where
  "CRSubnetDHCPEnabled obj =
    (let mode = (case obj of Some o' \<Rightarrow> crDHCPMode o' | None \<Rightarrow> '''') in
     mode = ''DHCPServer'' \<or> mode = ''DHCPRelay'')"

definition CRSubnetDHCPv6Enabled :: "cr_subnet_ip option \<Rightarrow> bool" where
  "CRSubnetDHCPv6Enabled obj =
    (let mode = (case obj of Some o' \<Rightarrow> crDHCPv6Mode o' | None \<Rightarrow> '''') in
     mode = ''DHCPServer'' \<or> mode = ''DHCPRelay'' \<or> mode = ''DHCPServerStateless'')"

definition GetDefaultStaticIPAllocation :: "cr_subnet_ip option \<Rightarrow> bool" where
  "GetDefaultStaticIPAllocation obj =
    (case (case obj of Some o' \<Rightarrow> crIPAddressType o' | None \<Rightarrow> IPAddressTypeOther '''') of
       IPAddressTypeIPv6 \<Rightarrow> \<not> CRSubnetDHCPv6Enabled obj
     | IPAddressTypeIPv4IPv6 \<Rightarrow> \<not> CRSubnetDHCPEnabled obj \<and> \<not> CRSubnetDHCPv6Enabled obj
     | _ \<Rightarrow> \<not> CRSubnetDHCPEnabled obj)"

definition GetSubnetSetKind :: "(string \<times> string) list \<Rightarrow> string" where
  "GetSubnetSetKind labels =
    (case map_of labels ''nsx.vmware.com/default-network'' of
       Some v \<Rightarrow> v
     | None \<Rightarrow>
         (case map_of labels ''nsxoperator.vmware.com/default-subnetset-for'' of
            Some v \<Rightarrow> if v = ''Pod'' then ''pod'' else if v = ''VirtualMachine'' then ''vm'' else ''''
          | None \<Rightarrow> ''''))"

text \<open>The cache of cluster UUIDs; \<open>newV5\<close> is the UUID library's name-based UUID.\<close>

definition GetClusterUUID :: "(string \<Rightarrow> string) \<Rightarrow> (string \<rightharpoonup> string) \<Rightarrow> string \<Rightarrow> string \<times> (string \<rightharpoonup> string)" where
  "GetClusterUUID newV5 clusterUUIDs clusterID =
    (case clusterUUIDs clusterID of
       Some u \<Rightarrow> (u, clusterUUIDs)
     | None \<Rightarrow> (newV5 clusterID, clusterUUIDs(clusterID \<mapsto> newV5 clusterID)))"

section \<open>Powers of two\<close>

lemma power_of_two_and:
  fixes n :: int
  assumes "0 < n"
  shows "n AND (n - 1) = 0 \<longleftrightarrow> (\<exists>k. n = 2 ^ k)"
  using assms
proof (induction "nat n" arbitrary: n rule: less_induct)
  case less
  show ?case
  proof (cases "even n")
    case True
    then obtain m where m: "n = 2 * m" by (auto elim: evenE)
    with less.prems have pos: "0 < m" "nat m < nat n" by auto
    have "n AND (n - 1) = of_bool (odd n \<and> odd (n - 1)) + 2 * ((n div 2) AND ((n - 1) div 2))"
      by (rule and_rec)
    also have "(n - 1) div 2 = m - 1" using m by linarith
    also have "of_bool (odd n \<and> odd (n - 1)) + 2 * ((n div 2) AND (m - 1)) = 2 * (m AND (m - 1))"
      using m by simp
    finally have "n AND (n - 1) = 0 \<longleftrightarrow> m AND (m - 1) = 0" by simp
    also have "\<dots> \<longleftrightarrow> (\<exists>k. m = 2 ^ k)" by (rule less.hyps [OF pos(2,1)])
    also have "\<dots> \<longleftrightarrow> (\<exists>k. n = 2 ^ k)"
    proof
      assume "\<exists>k. m = 2 ^ k"
      then obtain k where "m = 2 ^ k" ..
      with m have "n = 2 ^ Suc k" by simp
      then show "\<exists>k. n = 2 ^ k" ..
    next
      assume "\<exists>k. n = 2 ^ k"
      then obtain k where k: "n = 2 ^ k" ..
      with True have "k \<noteq> 0" by (cases k) auto
      with k m show "\<exists>k. m = 2 ^ k" by (cases k) auto
    qed
    finally show ?thesis .
  next
    case False
    then obtain m where m: "n = 2 * m + 1" by (auto elim: oddE)
    have "n AND (n - 1) = of_bool (odd n \<and> odd (n - 1)) + 2 * ((n div 2) AND ((n - 1) div 2))"
      by (rule and_rec)
    also have "\<dots> = 2 * m" using m by simp
    finally have "n AND (n - 1) = 0 \<longleftrightarrow> n = 1" using m by auto
    also have "\<dots> \<longleftrightarrow> (\<exists>k. n = 2 ^ k)"
    proof
      assume "n = 1"
      then have "n = 2 ^ 0" by simp
      then show "\<exists>k. n = 2 ^ k" ..
    next
      assume "\<exists>k. n = 2 ^ k"
      then obtain k where k: "n = 2 ^ k" ..
      with False show "n = 1" by (cases k) auto
    qed
    finally show ?thesis .
  qed
qed

section \<open>Properties\<close>

text \<open>A subnet size is accepted exactly when it is 0 or a power of two that is at least 8 (at least 16
  on an NSX version without support for the smaller size).\<close>

theorem ValidateSubnetSize_spec:
  "fst (ValidateSubnetSize minimalSize8 n) \<longleftrightarrow>
     n = 0 \<or> (\<exists>k. n = 2 ^ k \<and> k \<ge> (if minimalSize8 then 3 else 4))"
proof -
  have pow: "IsPowerOfTwo n \<longleftrightarrow> (\<exists>k. n = 2 ^ k)"
    unfolding IsPowerOfTwo_def using power_of_two_and [of n] by auto
  have le: "(2 ^ j \<le> (2 ^ k :: int)) \<longleftrightarrow> j \<le> k" for j k by simp
  have b: "(2 ^ k < (8 :: int)) \<longleftrightarrow> k < 3" "(2 ^ k < (16 :: int)) \<longleftrightarrow> k < 4" for k
    using le [of 3 k] le [of 4 k] by (simp_all add: not_le [symmetric])
  show ?thesis
    unfolding ValidateSubnetSize_def pow by (auto simp: b)
qed

text \<open>The default static allocation of a port covers an address family exactly when the interface uses
  it, static allocation is enabled on the Subnet and DHCP is not active for the family.\<close>

theorem ComputeDefaultStaticIPAllocationType_spec:
  "(StaticIPAllocationTypeIncludesIPv4 (ComputeDefaultStaticIPAllocationType s t) \<longleftrightarrow>
     NSXSubnetStaticIPAllocationEnabled s \<and> t \<in> {IPAddressTypeIPv4, IPAddressTypeIPv4IPv6}
     \<and> \<not> NSXSubnetDHCPEnabled s)
   \<and> (StaticIPAllocationTypeIncludesIPv6 (ComputeDefaultStaticIPAllocationType s t) \<longleftrightarrow>
     NSXSubnetStaticIPAllocationEnabled s \<and> IPAddressTypeIncludesIPv6 t \<and> \<not> NSXSubnetDHCPv6Enabled s)"
  by (cases t) (simp_all add: ComputeDefaultStaticIPAllocationType_def StaticIPAllocationTypeIncludesIPv4_def
      StaticIPAllocationTypeIncludesIPv6_def IPAddressTypeIncludesIPv6_def Let_def)

text \<open>The basic tags of every kind of object have pairwise different scopes, respect the limit of NSX
  on the number of tags, and identify the cluster.\<close>

theorem BuildBasicTags_wf:
  "distinct (map fst (BuildBasicTags cluster obj ns)) \<and> length (BuildBasicTags cluster obj ns) \<le> MaxTagsCount
   \<and> FindTag (BuildBasicTags cluster obj ns) ''nsx-op/cluster'' = Some cluster"
  by (cases obj) (auto simp: BuildBasicTags_def BuildClusterTags_def mk_tag_def MaxTagsCount_def split: option.splits)

text \<open>Defect: whether changed annotations are sent to the API server depends on the iteration order of
  the map of changes: a removal of a missing key that comes last cancels the update.\<close>

theorem UpdateK8sResourceAnnotation_order:
  "UpdateK8sResourceAnnotation u None [(''a'', ''1''), (''b'', '''')] = (None, [(''a'', ''1'')], False)
   \<and> UpdateK8sResourceAnnotation u None [(''b'', ''''), (''a'', ''1'')] = (u [(''a'', ''1'')], [(''a'', ''1'')], True)"
  by (simp add: UpdateK8sResourceAnnotation_def)

text \<open>The comment on \<open>GetDefaultStaticIPAllocation\<close> says that static allocation is enabled unless DHCP
  covers every address family; for a dual-stack Subnet it is disabled when DHCP covers one of the two.\<close>

theorem GetDefaultStaticIPAllocation_dual:
  "GetDefaultStaticIPAllocation
     (Some \<lparr>crDHCPMode = ''DHCPServer'', crDHCPv6Mode = ''DHCPDeactivated'', crIPAddressType = IPAddressTypeIPv4IPv6\<rparr>) = False"
  by (simp add: GetDefaultStaticIPAllocation_def CRSubnetDHCPEnabled_def)

end
