(* ===== verification/Store.thy ===== *)
theory Store
  imports ResourcePath NsxErrors KubeUtil
begin

text \<open>
  The resource stores of \<open>pkg/nsx/services/common/store.go\<close> and the comparison of resources of
  \<open>compare.go\<close>. A store embeds the thread-safe indexer of client-go, which is a parameter: a record of its
  operations, with its documented laws in the locale \<open>indexer\<close>. The locale is interpreted on a reference
  indexer, an association list, for every store of the development.
\<close>

section \<open>The indexer\<close>

record ('s, 'o) indexer_ops =
  ixAdd :: "'s \<Rightarrow> 'o \<Rightarrow> 's"
  ixDelete :: "'s \<Rightarrow> 'o \<Rightarrow> 's"
  ixGetByKey :: "'s \<Rightarrow> string \<Rightarrow> 'o option"
  ixByIndex :: "'s \<Rightarrow> string \<Rightarrow> string \<Rightarrow> 'o list"
  ixList :: "'s \<Rightarrow> 'o list"

text \<open>The laws of \<open>cache.Indexer\<close>: an object is stored under the key of the key function and replaces the
  object stored there; an index query returns the stored objects that have the value among
  the values of the index function.\<close>

locale indexer =
  fixes ops :: "('s, 'o) indexer_ops"
    and keyFunc :: "'o \<Rightarrow> string"
    and indexFunc :: "string \<Rightarrow> 'o \<Rightarrow> string list"
  assumes get_add: "ixGetByKey ops (ixAdd ops s x) k = (if k = keyFunc x then Some x else ixGetByKey ops s k)"
    and get_delete: "ixGetByKey ops (ixDelete ops s x) k = (if k = keyFunc x then None else ixGetByKey ops s k)"
    and get_key: "ixGetByKey ops s k = Some x \<Longrightarrow> keyFunc x = k"
    and by_index: "set (ixByIndex ops s i v) = {x. (\<exists>k. ixGetByKey ops s k = Some x) \<and> v \<in> set (indexFunc i x)}"
    and list_all: "set (ixList ops s) = {x. \<exists>k. ixGetByKey ops s k = Some x}"
begin

lemma by_index_iff:
  "x \<in> set (ixByIndex ops s i v) \<longleftrightarrow> ixGetByKey ops s (keyFunc x) = Some x \<and> v \<in> set (indexFunc i x)"
  using get_key by (auto simp: by_index)

lemma list_iff: "x \<in> set (ixList ops s) \<longleftrightarrow> ixGetByKey ops s (keyFunc x) = Some x"
  using get_key by (auto simp: list_all)

lemma fold_add:
  "ixGetByKey ops (foldl (ixAdd ops) s xs) k =
    (case List.find (\<lambda>x. keyFunc x = k) (rev xs) of Some x \<Rightarrow> Some x | None \<Rightarrow> ixGetByKey ops s k)"
  by (induction xs rule: rev_induct) (auto simp: get_add)

lemma fold_delete:
  "ixGetByKey ops (foldl (ixDelete ops) s xs) k =
    (if k \<in> keyFunc ` set xs then None else ixGetByKey ops s k)"
  by (induction xs rule: rev_induct) (auto simp: get_delete)

end

text \<open>The reference indexer.\<close>

definition al_ops :: "('o \<Rightarrow> string) \<Rightarrow> (string \<Rightarrow> 'o \<Rightarrow> string list) \<Rightarrow> ((string \<times> 'o) list, 'o) indexer_ops" where
  "al_ops key idx =
    \<lparr>ixAdd = (\<lambda>s x. AList.update (key x) x s),
     ixDelete = (\<lambda>s x. AList.delete (key x) s),
     ixGetByKey = (\<lambda>s k. case map_of s k of Some x \<Rightarrow> if key x = k then Some x else None | None \<Rightarrow> None),
     ixByIndex = (\<lambda>s i v. filter (\<lambda>x. map_of s (key x) = Some x \<and> v \<in> set (idx i x)) (map snd s)),
     ixList = (\<lambda>s. filter (\<lambda>x. map_of s (key x) = Some x) (map snd s))\<rparr>"

lemma al_get_iff: "ixGetByKey (al_ops key idx) s k = Some x \<longleftrightarrow> key x = k \<and> map_of s k = Some x"
  by (auto simp: al_ops_def split: option.splits)

lemma indexer_al_ops: "indexer (al_ops key idx) key idx"
proof
  have in_snd: "map_of s (key x) = Some x \<Longrightarrow> x \<in> snd ` set s" for s x
    by (force dest: map_of_SomeD)
  show "ixGetByKey (al_ops key idx) (ixAdd (al_ops key idx) s x) k =
      (if k = key x then Some x else ixGetByKey (al_ops key idx) s k)" for s x k
    by (simp add: al_ops_def)
  show "ixGetByKey (al_ops key idx) (ixDelete (al_ops key idx) s x) k =
      (if k = key x then None else ixGetByKey (al_ops key idx) s k)" for s x k
    by (simp add: al_ops_def)
  show "ixGetByKey (al_ops key idx) s k = Some x \<Longrightarrow> key x = k" for s k x
    by (simp add: al_get_iff)
  show "set (ixByIndex (al_ops key idx) s i v) =
      {x. (\<exists>k. ixGetByKey (al_ops key idx) s k = Some x) \<and> v \<in> set (idx i x)}" for s i v
    by (auto simp: al_get_iff) (auto simp: al_ops_def dest: in_snd)
  show "set (ixList (al_ops key idx) s) = {x. \<exists>k. ixGetByKey (al_ops key idx) s k = Some x}" for s
    by (auto simp: al_get_iff) (auto simp: al_ops_def dest: in_snd)
qed

section \<open>ResourceStore\<close>

definition GetByKey :: "('s, 'o) indexer_ops \<Rightarrow> 's \<Rightarrow> string \<Rightarrow> 'o option" where
  "GetByKey ops s key = ixGetByKey ops s key"

definition GetByIndex :: "('s, 'o) indexer_ops \<Rightarrow> 's \<Rightarrow> string \<Rightarrow> string \<Rightarrow> 'o list" where
  "GetByIndex ops s index val = ixByIndex ops s index val"

text \<open>\<open>ListIndexFuncValues\<close>: the values of an index over the stored objects.\<close>

definition indexValues :: "('s, 'o) indexer_ops \<Rightarrow> (string \<Rightarrow> 'o \<Rightarrow> string list) \<Rightarrow> 's \<Rightarrow> string \<Rightarrow> string set" where
  "indexValues ops idx s name = (\<Union>ob \<in> set (ixList ops s). set (idx name ob))"

text \<open>The SDK's converter gives the resource, or the first of its errors.\<close>

definition TransResourceToStore ::
  "('s, 'o) indexer_ops \<Rightarrow> ('v \<Rightarrow> gerror + 'o) \<Rightarrow> 's \<Rightarrow> 'v \<Rightarrow> gerror + 's" where
  "TransResourceToStore ops convert s entity =
    (case convert entity of Inl e \<Rightarrow> Inl e | Inr obj \<Rightarrow> Inr (ixAdd ops s obj))"

definition DecrementPageSize :: "int \<Rightarrow> int" where
  "DecrementPageSize pageSize = (let p = pageSize - 100 in if p \<le> 0 then 10 else p)"

section \<open>Search\<close>

text \<open>One answer of the query API: the results, the cursor, the total count and the error. The two errors
  that mean that a page is too large are told apart by \<open>TransError\<close>.\<close>

record 'v query_page =
  qResults :: "'v list"
  qCursor :: "string option"
  qResultCount :: "int option"
  qError :: "go_error option"

datatype search_error = PageMaxError | SearchError gerror

definition TransError :: "converter \<Rightarrow> go_error \<Rightarrow> search_error" where
  "TransError convert err =
    (case DumpAPIError convert err of
       Some (Some a, kind) \<Rightarrow>
         if kind = ''SERVICE_UNAVAILABLE'' \<and> ApiErrorCode a = Some 60576
            \<or> kind = ''INVALID_REQUEST'' \<and> ApiErrorCode a = Some 255
         then PageMaxError else SearchError (error_msg err)
     | _ \<Rightarrow> SearchError (error_msg err))"

fun storeResults ::
  "('s \<Rightarrow> 'v \<Rightarrow> gerror + 's) \<Rightarrow> 's \<Rightarrow> nat \<Rightarrow> 'v list \<Rightarrow> gerror option \<times> 's \<times> nat" where
  "storeResults toStore s cnt [] = (None, s, cnt)"
| "storeResults toStore s cnt (e # es) =
    (case toStore s e of Inl err \<Rightarrow> (Some err, s, cnt) | Inr s' \<Rightarrow> storeResults toStore s' (Suc cnt) es)"

text \<open>The loop of \<open>SearchResource\<close>; the state is the store, the page size (a package variable), the
  cursor and the count. \<open>query\<close> is the query client, whose answer may depend on the number of
  the call. \<open>None\<close> is a loop that does not end.\<close>

partial_function (option) searchLoop ::
  "(nat \<Rightarrow> string option \<Rightarrow> int \<Rightarrow> 'v query_page) \<Rightarrow> converter \<Rightarrow> ('s \<Rightarrow> 'v \<Rightarrow> gerror + 's)
    \<Rightarrow> nat \<Rightarrow> 's \<Rightarrow> int \<Rightarrow> string option \<Rightarrow> nat \<Rightarrow> ((gerror option \<times> nat) \<times> 's \<times> int) option" where
  "searchLoop query convert toStore n s pageSize cursor cnt =
    (let response = query n cursor pageSize in
     case qError response of
       Some e \<Rightarrow>
         (case TransError convert e of
            PageMaxError \<Rightarrow>
              searchLoop query convert toStore (Suc n) s (DecrementPageSize pageSize) (qCursor response) cnt
          | SearchError err \<Rightarrow> Some ((Some err, cnt), s, pageSize))
     | None \<Rightarrow>
         (let (err, s', cnt') = storeResults toStore s cnt (qResults response) in
          case err of
            Some e \<Rightarrow> Some ((Some e, cnt'), s', pageSize)
          | None \<Rightarrow>
              (case qCursor response of
                 None \<Rightarrow> Some ((None, cnt'), s', pageSize)
               | Some c \<Rightarrow>
                   (if the (qResultCount response) \<le> Atoi_val c
                    then Some ((None, cnt'), s', pageSize)
                    else searchLoop query convert toStore (Suc n) s' pageSize (Some c) cnt'))))"

declare searchLoop.simps [code]

definition SearchResource ::
  "(nat \<Rightarrow> string option \<Rightarrow> int \<Rightarrow> 'v query_page) \<Rightarrow> converter \<Rightarrow> ('s \<Rightarrow> 'v \<Rightarrow> gerror + 's)
    \<Rightarrow> 's \<Rightarrow> int \<Rightarrow> ((gerror option \<times> nat) \<times> 's \<times> int) option" where
  "SearchResource query convert toStore s pageSize = searchLoop query convert toStore 0 s pageSize None 0"

section \<open>Queries\<close>

definition escape_slash :: "string \<Rightarrow> string" where
  "escape_slash = replace_char CHR ''/'' [CHR 0x5C, CHR ''/'']"

definition escape_colon :: "string \<Rightarrow> string" where
  "escape_colon = replace_char CHR '':'' [CHR 0x5C, CHR '':'']"

definition containsTagScope :: "nsx_tag list \<Rightarrow> string list \<Rightarrow> bool" where
  "containsTagScope tags scopes = list_ex (\<lambda>t. list_ex (\<lambda>sc. fst t = Some sc) scopes) tags"

definition formatTagParamScope :: "string \<Rightarrow> string \<Rightarrow> string" where
  "formatTagParamScope paramType val = paramType @ '':'' @ escape_slash val"

definition formatTagParamTag :: "string \<Rightarrow> string \<Rightarrow> string" where
  "formatTagParamTag paramType val = paramType @ '':'' @ escape_colon val"

fun tagParamsOf :: "nsx_tag list \<Rightarrow> string list" where
  "tagParamsOf [] = []"
| "tagParamsOf ((sc, v) # tags) =
    (case sc of None \<Rightarrow> []
     | Some sc' \<Rightarrow> formatTagParamScope ''tags.scope'' sc'
         # (case v of None \<Rightarrow> [] | Some v' \<Rightarrow> [formatTagParamTag ''tags.tag'' v'])) @ tagParamsOf tags"

definition commonStoreQuery ::
  "string \<Rightarrow> string \<Rightarrow> string \<Rightarrow> string \<Rightarrow> nsx_tag list \<Rightarrow> bool \<Rightarrow> string" where
  "commonStoreQuery cluster org project resourceTypeValue tags isPolicyAPI =
    (let tagParams =
           (if \<not> containsTagScope tags [''nsx-op/cluster'', ''ncp/cluster'']
            then [formatTagParamScope ''tags.scope'' ''nsx-op/cluster'', formatTagParamTag ''tags.tag'' cluster]
            else []) @ tagParamsOf tags;
         base = ''resource_type:'' @ resourceTypeValue @ '' AND '' @ str_join tagParams '' AND '';
         bs = [CHR 0x5C, CHR ''/''];
         withPath = (if org \<noteq> [] \<or> project \<noteq> []
           then base @ '' AND path:'' @ bs @ ''orgs'' @ bs @ org @ bs @ ''projects'' @ bs @ project @ bs @ ''*''
           else base)
     in if isPolicyAPI then withPath @ '' AND marked_for_delete:false'' else withPath)"

definition buildResourceType :: "string list \<Rightarrow> string" where
  "buildResourceType resourceTypes =
    (if length resourceTypes = 1 then ''resource_type:'' @ hd resourceTypes
     else ''resource_type:('' @ str_join resourceTypes '' OR '' @ '')'')"

definition AddNCPClusterTag :: "string \<Rightarrow> string \<Rightarrow> string" where
  "AddNCPClusterTag cluster query =
    query @ '' AND tags.scope:'' @ escape_slash ''ncp/cluster'' @ '' AND tags.tag:'' @ escape_colon cluster"

definition AddNCPCreatedForTag :: "string \<Rightarrow> string \<Rightarrow> string" where
  "AddNCPCreatedForTag query createdFor =
    query @ '' AND tags.scope:'' @ escape_slash ''ncp/created_for'' @ '' AND tags.tag:'' @ escape_colon createdFor"

section \<open>The index by VPC\<close>

definition getVPCPathFromParentPath :: "string option \<Rightarrow> gerror + string list" where
  "getVPCPathFromParentPath parentPath =
    (case parentPath of None \<Rightarrow> Inr [] | Some p \<Rightarrow> Inr [p])"

definition getVPCPathFromResourcePath :: "string option \<Rightarrow> gerror + string list" where
  "getVPCPathFromResourcePath path =
    (case path of None \<Rightarrow> Inr []
     | Some p \<Rightarrow> (case ParseVPCResourcePath p of Inl err \<Rightarrow> Inl err | Inr info \<Rightarrow> Inr [GetVPCPath info]))"

datatype vpc_indexed =
    IxVpc "string option" | IxVpcSubnet "string option" | IxVpcSubnetPort "string option"
  | IxSubnetConnectionBindingMap "string option" | IxVpcIpAddressAllocation "string option"
  | IxStaticRoutes "string option" | IxLBService "string option" | IxLBVirtualServer "string option"
  | IxLBPool "string option" | IxSecurityPolicy "string option" | IxGroup "string option"
  | IxRule "string option" | IxOther

text \<open>The argument of a constructor is the path or the parent path, whichever the index uses.\<close>

fun IndexByVPCFunc :: "vpc_indexed \<Rightarrow> gerror + string list" where
  "IndexByVPCFunc (IxVpc p) = getVPCPathFromResourcePath p"
| "IndexByVPCFunc (IxVpcSubnet p) = getVPCPathFromParentPath p"
| "IndexByVPCFunc (IxVpcSubnetPort p) = getVPCPathFromResourcePath p"
| "IndexByVPCFunc (IxSubnetConnectionBindingMap p) = getVPCPathFromResourcePath p"
| "IndexByVPCFunc (IxVpcIpAddressAllocation p) = getVPCPathFromParentPath p"
| "IndexByVPCFunc (IxStaticRoutes p) = getVPCPathFromParentPath p"
| "IndexByVPCFunc (IxLBService p) = getVPCPathFromParentPath p"
| "IndexByVPCFunc (IxLBVirtualServer p) = getVPCPathFromParentPath p"
| "IndexByVPCFunc (IxLBPool p) = getVPCPathFromParentPath p"
| "IndexByVPCFunc (IxSecurityPolicy p) = getVPCPathFromParentPath p"
| "IndexByVPCFunc (IxGroup p) = getVPCPathFromParentPath p"
| "IndexByVPCFunc (IxRule p) = getVPCPathFromResourcePath p"
| "IndexByVPCFunc IxOther = Inl (''indexFunc doesn'' @ [CHR 0x27] @ ''t support unknown type'')"

section \<open>Comparison of resources\<close>

text \<open>\<open>Comparable\<close>: \<open>key\<close> and \<open>val\<close> are its two methods and \<open>enc\<close> is the JSON encoder of the SDK. The
  maps of the code are association lists, visited in the order \<open>ord\<close>.\<close>

definition CompareResource :: "('v \<Rightarrow> 'e) \<Rightarrow> ('r \<Rightarrow> 'v) \<Rightarrow> 'r \<Rightarrow> 'r \<Rightarrow> bool" where
  "CompareResource enc val existing expected \<longleftrightarrow> enc (val existing) \<noteq> enc (val expected)"

definition keyedMap :: "('r \<Rightarrow> string) \<Rightarrow> 'r list \<Rightarrow> (string \<times> 'r) list" where
  "keyedMap key rs = foldl (\<lambda>m r. AList.update (key r) r m) [] rs"

definition CompareResources ::
  "((string \<times> 'r) list \<Rightarrow> (string \<times> 'r) list) \<Rightarrow> ('r \<Rightarrow> string) \<Rightarrow> ('r \<Rightarrow> 'v) \<Rightarrow> ('v \<Rightarrow> 'e)
    \<Rightarrow> 'r list \<Rightarrow> 'r list \<Rightarrow> 'r list \<times> 'r list" where
  "CompareResources ord key val enc existing expected =
    (let expectedMap = keyedMap key expected; existingMap = keyedMap key existing in
     (map snd (filter (\<lambda>(k, r). case map_of existingMap k of
                  Some e \<Rightarrow> CompareResource enc val e r | None \<Rightarrow> True) (ord expectedMap)),
      map snd (filter (\<lambda>(k, r). map_of expectedMap k = None) (ord existingMap))))"

lemma keyedMap_wf: "wf_map (keyedMap key rs)"
  unfolding keyedMap_def by (induction rs rule: rev_induct) auto

lemma keyedMap_lookup: "map_of (keyedMap key rs) k = List.find (\<lambda>r. key r = k) (rev rs)"
  unfolding keyedMap_def by (induction rs rule: rev_induct) auto

lemma keyedMap_entry:
  "(k, r) \<in> set (keyedMap key rs) \<longleftrightarrow> map_of (keyedMap key rs) k = Some r"
  using keyedMap_wf [of key rs] by (simp add: wf_map_def)

lemma keyedMap_key: "map_of (keyedMap key rs) k = Some r \<Longrightarrow> key r = k \<and> r \<in> set rs"
  unfolding keyedMap_lookup by (drule find_Some_in) auto

lemma keyedMap_distinct:
  assumes "distinct (map key rs)"
  shows "map_of (keyedMap key rs) k = Some r \<longleftrightarrow> r \<in> set rs \<and> key r = k"
proof
  assume "map_of (keyedMap key rs) k = Some r"
  then show "r \<in> set rs \<and> key r = k" using keyedMap_key by fastforce
next
  assume r: "r \<in> set rs \<and> key r = k"
  then have "map_of (keyedMap key rs) k \<noteq> None"
    unfolding keyedMap_lookup by (auto simp: find_None_iff)
  then obtain q where q: "map_of (keyedMap key rs) k = Some q" by blast
  then have "key q = key r" "q \<in> set rs" using keyedMap_key [OF q] r by auto
  moreover have "inj_on key (set rs)" using assms by (simp add: distinct_map)
  ultimately have "q = r" using r by (auto dest: inj_onD)
  with q show "map_of (keyedMap key rs) k = Some r" by simp
qed

text \<open>The contract of a comparable resource: the encoder of its value loses nothing.\<close>

locale comparable =
  fixes key :: "'r \<Rightarrow> string" and val :: "'r \<Rightarrow> 'v" and enc :: "'v \<Rightarrow> 'e"
  assumes enc_inj: "enc (val a) = enc (val b) \<Longrightarrow> val a = val b"
begin

lemma compare_iff: "CompareResource enc val a b \<longleftrightarrow> val a \<noteq> val b"
  using enc_inj by (auto simp: CompareResource_def)

lemma compare_sets:
  assumes "is_order ord" "distinct (map key existing)" "distinct (map key expected)"
    and c: "CompareResources ord key val enc existing expected = (changed, stale)"
  shows "set changed = {r \<in> set expected. \<forall>e \<in> set existing. key e = key r \<longrightarrow> val e \<noteq> val r}"
    and "set stale = {e \<in> set existing. \<forall>r \<in> set expected. key r \<noteq> key e}"
proof -
  have ch: "changed = map snd (filter (\<lambda>(k, r). case map_of (keyedMap key existing) k of
       Some e \<Rightarrow> CompareResource enc val e r | None \<Rightarrow> True) (ord (keyedMap key expected)))"
    and st: "stale = map snd (filter (\<lambda>(k, r). map_of (keyedMap key expected) k = None) (ord (keyedMap key existing)))"
    using c by (simp_all add: CompareResources_def Let_def)
  note dist = keyedMap_distinct [OF assms(2)] keyedMap_distinct [OF assms(3)]
  have none: "map_of (keyedMap key rs) k = None \<longleftrightarrow> (\<forall>r \<in> set rs. key r \<noteq> k)" for rs k
    by (auto simp: keyedMap_lookup find_None_iff)
  show "set stale = {e \<in> set existing. \<forall>r \<in> set expected. key r \<noteq> key e}"
    unfolding st using assms(1) by (force simp: keyedMap_entry dist none)
  have "(case map_of (keyedMap key existing) (key r) of
       Some e \<Rightarrow> CompareResource enc val e r | None \<Rightarrow> True)
     \<longleftrightarrow> (\<forall>e \<in> set existing. key e = key r \<longrightarrow> val e \<noteq> val r)" for r
  proof (cases "map_of (keyedMap key existing) (key r)")
    case None
    then show ?thesis using none [of existing "key r"] by auto
  next
    case (Some e)
    then have e: "e \<in> set existing" "key e = key r" by (auto simp: dist)
    have inj: "inj_on key (set existing)" using assms(2) by (simp add: distinct_map)
    have "e' = e" if "e' \<in> set existing" "key e' = key r" for e'
      using inj_onD [OF inj, of e' e] that e by simp
    with e have "(\<forall>e' \<in> set existing. key e' = key r \<longrightarrow> val e' \<noteq> val r) \<longleftrightarrow> val e \<noteq> val r" by blast
    with Some show ?thesis by (simp add: compare_iff)
  qed
  then show "set changed = {r \<in> set expected. \<forall>e \<in> set existing. key e = key r \<longrightarrow> val e \<noteq> val r}"
    unfolding ch using assms(1) by (force simp: keyedMap_entry dist)
qed

end

section \<open>Search over pages\<close>

text \<open>A server that pages through a list, with the position of the next page as its cursor.\<close>

definition pageOf :: "'v list \<Rightarrow> nat \<Rightarrow> string option \<Rightarrow> int \<Rightarrow> 'v query_page" where
  "pageOf items n cursor pageSize =
    (let off = (case cursor of None \<Rightarrow> 0 | Some c \<Rightarrow> nat (Atoi_val c));
         res = take (nat pageSize) (drop off items)
     in \<lparr>qResults = res, qCursor = Some (Itoa (int (off + length res))),
         qResultCount = Some (int (length items)), qError = None\<rparr>)"

lemma storeResults_ok:
  assumes "\<And>s e. e \<in> set es \<Longrightarrow> toStore s e = Inr (f s e)"
  shows "storeResults toStore s cnt es = (None, foldl f s es, cnt + length es)"
  using assms by (induction es arbitrary: s cnt) auto

lemma searchLoop_pages:
  assumes ok: "\<And>s e. e \<in> set items \<Longrightarrow> toStore s e = Inr (f s e)"
    and ps: "0 < pageSize" and len: "int (length items) \<le> max_int64"
    and off: "off \<le> length items" and cur: "cursor = None \<and> off = 0 \<or> cursor = Some (Itoa (int off))"
  shows "searchLoop (pageOf items) convert toStore n s pageSize cursor cnt
     = Some ((None, cnt + (length items - off)), foldl f s (drop off items), pageSize)"
  using off cur
proof (induction "length items - off" arbitrary: off cursor n s cnt rule: less_induct)
  case less
  define res where "res = take (nat pageSize) (drop off items)"
  define off' where "off' = off + length res"
  have o: "(case cursor of None \<Rightarrow> 0 | Some c \<Rightarrow> nat (Atoi_val c)) = off"
    using less.prems len by (auto simp: Atoi_val_Itoa min_int64_def)
  have st: "storeResults toStore s cnt res = (None, foldl f s res, cnt + length res)"
    unfolding res_def using ok by (intro storeResults_ok) (auto dest!: in_set_takeD in_set_dropD)
  have le: "off' \<le> length items" using less.prems by (simp add: off'_def res_def)
  have at: "Atoi_val (Itoa (int off')) = int off'"
    using le len by (intro Atoi_val_Itoa) (auto simp: min_int64_def)
  have page: "pageOf items n cursor pageSize = \<lparr>qResults = res, qCursor = Some (Itoa (int off')),
      qResultCount = Some (int (length items)), qError = None\<rparr>"
    unfolding pageOf_def o Let_def res_def off'_def ..
  have step: "searchLoop (pageOf items) convert toStore n s pageSize cursor cnt =
      (if length items \<le> off' then Some ((None, cnt + length res), foldl f s res, pageSize)
       else searchLoop (pageOf items) convert toStore (Suc n) (foldl f s res) pageSize
              (Some (Itoa (int off'))) (cnt + length res))"
    by (subst searchLoop.simps) (simp add: page st at Let_def)
  have split: "drop off items = res @ drop off' items"
  proof -
    have "drop off items = res @ drop (nat pageSize) (drop off items)"
      by (simp only: res_def append_take_drop_id)
    also have "drop (nat pageSize) (drop off items) = drop off' items"
      by (cases "nat pageSize \<le> length items - off") (simp_all add: off'_def res_def add.commute)
    finally show ?thesis .
  qed
  show ?case
  proof (cases "length items \<le> off'")
    case True
    with le have "off' = length items" by simp
    with split step True show ?thesis by (simp add: off'_def)
  next
    case False
    have "res \<noteq> []"
    proof
      assume "res = []"
      with ps less.prems False show False by (auto simp: res_def off'_def)
    qed
    then have "off < off'" by (simp add: off'_def)
    then have dec: "length items - off' < length items - off" using le False by simp
    have "searchLoop (pageOf items) convert toStore n s pageSize cursor cnt
      = Some ((None, cnt + length res + (length items - off')), foldl f (foldl f s res) (drop off' items), pageSize)"
      using less.hyps [OF dec le, of "Some (Itoa (int off'))"] step False by simp
    moreover have "length res + (length items - off') = length items - off"
      using le by (simp add: off'_def)
    ultimately show ?thesis by (simp add: split)
  qed
qed

section \<open>Properties\<close>

text \<open>C5. Reconciling with the result of the comparison gives the expected resources: the changed resources
  are exactly those that are missing or have another value, the stale ones exactly those that are
  not expected, so that replacing the former and removing the latter leaves, under every key, the expected
  value; what is unchanged is not written.\<close>

theorem CompareResources_reconciles:
  assumes "comparable val enc" and "is_order ord"
    and "distinct (map key existing)" and "distinct (map key expected)"
    and "CompareResources ord key val enc existing expected = (changed, stale)"
  shows "map_option val (map_of (keyedMap key (filter (\<lambda>e. e \<notin> set stale) existing @ changed)) k)
       = map_option val (map_of (keyedMap key expected) k)
     \<and> (\<forall>r \<in> set changed. r \<in> set expected \<and> (\<forall>e \<in> set existing. key e = key r \<longrightarrow> val e \<noteq> val r))"
proof -
  note sets = comparable.compare_sets [OF assms]
  have injx: "inj_on key (set expected)" and inje: "inj_on key (set existing)"
    using assms(3,4) by (simp_all add: distinct_map)
  have lookup: "map_of (keyedMap key (filter (\<lambda>e. e \<notin> set stale) existing @ changed)) k =
      (case List.find (\<lambda>r. key r = k) (rev changed) of
         Some r \<Rightarrow> Some r
       | None \<Rightarrow> List.find (\<lambda>r. key r = k) (rev (filter (\<lambda>e. e \<notin> set stale) existing)))"
    by (simp add: keyedMap_lookup find_append)
  have "map_option val (map_of (keyedMap key (filter (\<lambda>e. e \<notin> set stale) existing @ changed)) k)
       = map_option val (map_of (keyedMap key expected) k)"
  proof (cases "List.find (\<lambda>r. key r = k) (rev changed)")
    case (Some r)
    then have "r \<in> set expected" "key r = k" using find_Some_in [OF Some] sets(1) by auto
    then have "map_of (keyedMap key expected) k = Some r"
      by (simp add: keyedMap_distinct [OF assms(4)])
    with Some lookup show ?thesis by simp
  next
    case None
    then have nc: "\<And>r. r \<in> set changed \<Longrightarrow> key r \<noteq> k" by (simp add: find_None_all)
    show ?thesis
    proof (cases "map_of (keyedMap key expected) k")
      case None
      then have "\<forall>r \<in> set expected. key r \<noteq> k" by (auto simp: keyedMap_lookup find_None_all)
      then have "List.find (\<lambda>r. key r = k) (rev (filter (\<lambda>e. e \<notin> set stale) existing)) = None"
        using sets(2) by (auto simp: find_None_all)
      with None lookup \<open>List.find (\<lambda>r. key r = k) (rev changed) = None\<close> show ?thesis by simp
    next
      case (Some r)
      then have r: "r \<in> set expected" "key r = k" by (simp_all add: keyedMap_distinct [OF assms(4)])
      with nc [of r] sets(1) obtain e where e: "e \<in> set existing" "key e = k" "val e = val r" by auto
      have ns: "e \<notin> set stale" using sets(2) r e by auto
      have "List.find (\<lambda>r. key r = k) (rev (filter (\<lambda>e. e \<notin> set stale) existing)) \<noteq> None"
        using e ns by (auto simp: find_None_all)
      then obtain e' where e': "List.find (\<lambda>r. key r = k) (rev (filter (\<lambda>e. e \<notin> set stale) existing)) = Some e'"
        by blast
      then have "e' \<in> set existing" "key e' = k" using find_Some_in [OF e'] by auto
      with e inje have "e' = e" by (auto dest: inj_onD)
      with e' e Some lookup \<open>List.find (\<lambda>r. key r = k) (rev changed) = None\<close> show ?thesis by simp
    qed
  qed
  with sets(1) show ?thesis by auto
qed

theorem CompareResources_reconciles_witness:
  "map_option snd (map_of (keyedMap fst (filter (\<lambda>e. e \<notin> set [(''c'', ''3'')])
       [(''a'', ''1''), (''c'', ''3'')] @ [(''b'', ''2'')])) ''c'')
     = map_option snd (map_of (keyedMap fst [(''a'', ''1''), (''b'', ''2'')]) ''c'')"
proof -
  have "CompareResources id fst snd id [(''a'', ''1''), (''c'', ''3'')] [(''a'', ''1''), (''b'', ''2'')]
      = ([(''b'', ''2'')], [(''c'', ''3'')])" by code_simp
  from CompareResources_reconciles [OF _ is_order_id _ _ this, of "''c''"] show ?thesis
    by (simp add: comparable_def)
qed


definition noConvert :: converter where
  "noConvert d = (\<lparr>ApiErrorCode = None, ApiErrorMessage = None, ApiDetails = None, RelatedErrors = None\<rparr>, True)"


text \<open>Defect: while the server answers that the page is too large, the search never returns: the page
  size stops at 10 and the loop has no other exit.\<close>

theorem SearchResource_page_max_diverges:
  assumes "\<forall>n c p. \<exists>e. qError (query n c p) = Some e \<and> TransError convert e = PageMaxError"
  shows "SearchResource query convert toStore s pageSize = None"
proof -
  have "False" if "searchLoop query convert toStore n s p c k = Some r"
    and "\<forall>n c p. \<exists>e. qError (query n c p) = Some e \<and> TransError convert e = PageMaxError" for n s p c k r
    using that
  proof (induction rule: searchLoop.raw_induct [rotated, consumes 1, case_names step])
    case (step f query convert toStore n s p c k r)
    then obtain e where e: "qError (query n c p) = Some e" "TransError convert e = PageMaxError" by blast
    with step(2) have "f query convert toStore (Suc n) s (DecrementPageSize p) (qCursor (query n c p)) k = Some r"
      by (simp add: Let_def)
    from step(1) [OF this step(3)] show ?case .
  qed
  with assms show ?thesis unfolding SearchResource_def by (metis not_None_eq)
qed

theorem SearchResource_page_max_diverges_witness:
  "SearchResource (\<lambda>n c p. \<lparr>qResults = [], qCursor = None, qResultCount = None,
        qError = Some (SdkError ''INVALID_REQUEST'' (Some ''x''))\<rparr>)
     (\<lambda>d. (\<lparr>ApiErrorCode = Some 255, ApiErrorMessage = None, ApiDetails = None, RelatedErrors = None\<rparr>, False))
     (\<lambda>s e. Inr s) () 1000 = None"
  by (rule SearchResource_page_max_diverges)
    (simp add: TransError_def DumpAPIError_def castApiError_def isEmptyAPIError_def)

end
