(* ===== verification/PolicyTree.thy ===== *)
theory PolicyTree
  imports Store
begin

text \<open>
  The hierarchical writes of \<open>pkg/nsx/services/common/policy_tree.go\<close> and \<open>wrap.go\<close>: resources of one
  kind are merged into a tree along their policy paths, the tree becomes the body of one PATCH on the organisation
  root or on the infra root, and a long list is sent page by page. The SDK's type converter and the PATCH calls are
  parameters. Logging is left out.
\<close>

section \<open>Resource types and paths\<close>

text \<open>The SDK models that the type switches of the getters tell apart, and any other type.\<close>

datatype model_type =
    DnsRecordT | VpcIpAddressAllocationT | VpcSubnetT | VpcSubnetPortT | SubnetConnectionBindingMapT
  | VpcT | StaticRoutesT | SecurityPolicyT | GroupT | RuleT | ShareT | LBServiceT | LBVirtualServerT
  | LBPoolT | TlsCertificateT | SharedResourceT | DomainT | DynamicIpAddressReservationT
  | StaticIpAddressReservationT | OtherT

text \<open>A resource: the fields this code reads, and the rest of the model as one value.\<close>

record 'p nsx_resource =
  ModelType :: model_type
  ResPath :: "string option"
  ResId :: "string option"
  ResDisplayName :: "string option"
  ResMarkedForDelete :: "bool option"
  ResResourceType :: "string option"
  ResFqdn :: "string option"
  ResBody :: 'p

definition getNSXResourcePath :: "'p nsx_resource \<Rightarrow> string option" where
  "getNSXResourcePath obj = (if ModelType obj = OtherT then None else ResPath obj)"

definition getNSXResourceId :: "'p nsx_resource \<Rightarrow> string option" where
  "getNSXResourceId obj = (if ModelType obj = OtherT then None else ResId obj)"

definition getNSXResourceName :: "'p nsx_resource \<Rightarrow> string option" where
  "getNSXResourceName obj = (if ModelType obj = OtherT then None else ResDisplayName obj)"

record PolicyResourceType =
  ModelKey :: string
  PathKey :: string

type_synonym PolicyResourcePath = "PolicyResourceType list"

definition ResourceTypeInfra :: string where "ResourceTypeInfra = ''Infra''"
definition ResourceTypeOrgRoot :: string where "ResourceTypeOrgRoot = ''OrgRoot''"

definition PolicyResourceInfra :: PolicyResourceType where
  "PolicyResourceInfra = \<lparr>ModelKey = ResourceTypeInfra, PathKey = ''infra''\<rparr>"
definition PolicyResourceOrg :: PolicyResourceType where
  "PolicyResourceOrg = \<lparr>ModelKey = ''Org'', PathKey = ''orgs''\<rparr>"
definition PolicyResourceProject :: PolicyResourceType where
  "PolicyResourceProject = \<lparr>ModelKey = ''Project'', PathKey = ''projects''\<rparr>"
definition PolicyResourceVpc :: PolicyResourceType where
  "PolicyResourceVpc = \<lparr>ModelKey = ''Vpc'', PathKey = ''vpcs''\<rparr>"

definition vpc_leaf :: "string \<Rightarrow> string \<Rightarrow> PolicyResourcePath" where
  "vpc_leaf m p = [PolicyResourceOrg, PolicyResourceProject, PolicyResourceVpc, \<lparr>ModelKey = m, PathKey = p\<rparr>]"
definition subnet_leaf :: "string \<Rightarrow> string \<Rightarrow> PolicyResourcePath" where
  "subnet_leaf m p = vpc_leaf ''VpcSubnet'' ''subnets'' @ [\<lparr>ModelKey = m, PathKey = p\<rparr>]"
definition infra_leaf :: "string \<Rightarrow> string \<Rightarrow> PolicyResourcePath" where
  "infra_leaf m p = [PolicyResourceInfra, \<lparr>ModelKey = m, PathKey = p\<rparr>]"

text \<open>The paths declared by the package, with the model type of their resources.\<close>

definition policyPaths :: "(model_type \<times> PolicyResourcePath) list" where
  "policyPaths =
    [(VpcSubnetT, vpc_leaf ''VpcSubnet'' ''subnets''),
     (SubnetConnectionBindingMapT, subnet_leaf ''SubnetConnectionBindingMap'' ''subnet-connection-binding-maps''),
     (VpcSubnetPortT, subnet_leaf ''VpcSubnetPort'' ''ports''),
     (LBPoolT, vpc_leaf ''LBPool'' ''vpc-lb-pools''),
     (LBServiceT, vpc_leaf ''LBService'' ''vpc-lbs''),
     (LBVirtualServerT, vpc_leaf ''LBVirtualServer'' ''vpc-lb-virtual-servers''),
     (VpcIpAddressAllocationT, vpc_leaf ''VpcIpAddressAllocation'' ''ip-address-allocations''),
     (SecurityPolicyT, vpc_leaf ''SecurityPolicy'' ''security-policies''),
     (StaticRoutesT, vpc_leaf ''StaticRoutes'' ''static-routes''),
     (RuleT, vpc_leaf ''SecurityPolicy'' ''security-policies'' @ [\<lparr>ModelKey = ''Rule'', PathKey = ''rules''\<rparr>]),
     (GroupT, vpc_leaf ''Group'' ''groups''),
     (GroupT, [PolicyResourceOrg, PolicyResourceProject] @ infra_leaf ''Domain'' ''domains'' @ [\<lparr>ModelKey = ''Group'', PathKey = ''groups''\<rparr>]),
     (ShareT, [PolicyResourceOrg, PolicyResourceProject] @ infra_leaf ''Share'' ''shares''),
     (GroupT, infra_leaf ''Domain'' ''domains'' @ [\<lparr>ModelKey = ''Group'', PathKey = ''groups''\<rparr>]),
     (ShareT, infra_leaf ''Share'' ''shares''),
     (SharedResourceT, infra_leaf ''Share'' ''shares'' @ [\<lparr>ModelKey = ''SharedResource'', PathKey = ''resources''\<rparr>]),
     (TlsCertificateT, infra_leaf ''TlsCertificate'' ''certificates''),
     (LBVirtualServerT, infra_leaf ''LBVirtualServer'' ''lb-virtual-servers''),
     (LBPoolT, infra_leaf ''LBPool'' ''lb-pools''),
     (LBServiceT, infra_leaf ''LBService'' ''lb-services''),
     (DomainT, infra_leaf ''Domain'' ''domains''),
     (DynamicIpAddressReservationT, subnet_leaf ''DynamicIpAddressReservation'' ''dynamic-ip-reservations''),
     (StaticIpAddressReservationT, subnet_leaf ''StaticIpAddressReservation'' ''static-ip-reservations''),
     (DnsRecordT, [PolicyResourceOrg, PolicyResourceProject, \<lparr>ModelKey = ''DnsRecord'', PathKey = ''dns-records''\<rparr>])]"

definition path_String :: "PolicyResourcePath \<Rightarrow> string" where
  "path_String p = str_join (map ModelKey p) ''-''"

text \<open>\<open>resources[0]\<close> panics on an empty path; the constructor below rejects it first.\<close>

definition getChildrenResources :: "PolicyResourcePath \<Rightarrow> PolicyResourceType list" where
  "getChildrenResources p = (if hd p = PolicyResourceInfra then tl p else p)"

definition getKVPathFormat :: "PolicyResourcePath \<Rightarrow> string list" where
  "getKVPathFormat p = map PathKey (getChildrenResources p)"

definition getChildrenModelFormat :: "PolicyResourcePath \<Rightarrow> string list" where
  "getChildrenModelFormat p = map ModelKey (getChildrenResources p)"

definition getRootType :: "PolicyResourcePath \<Rightarrow> string" where
  "getRootType p = (if hd p = PolicyResourceOrg then ResourceTypeOrgRoot else ResourceTypeInfra)"

record PolicyTreeBuilder =
  leafType :: string
  rootType :: string
  pathFormat :: "string list"
  modelFormat :: "string list"
  hasInnerInfra :: bool

text \<open>\<open>None\<close> is the panic of \<open>modelFormat[len(modelFormat)-1]\<close> on the path of the infra root alone.\<close>

definition NewPolicyTreeBuilder :: "PolicyResourcePath \<Rightarrow> (gerror + PolicyTreeBuilder) option" where
  "NewPolicyTreeBuilder p =
    (if p = [] then Some (Inl (''invalid PolicyResourcePath: '' @ path_String p))
     else if getChildrenModelFormat p = [] then None
     else Some (Inr \<lparr>leafType = last (getChildrenModelFormat p),
               rootType = getRootType p,
               pathFormat = getKVPathFormat p,
               modelFormat = getChildrenModelFormat p,
               hasInnerInfra = (PathKey PolicyResourceInfra \<in> set (getKVPathFormat p))\<rparr>))"

section \<open>Data values\<close>

text \<open>The child models handed to the SDK's converter: a child resource, with its wrapper's resource type, id and
  deletion mark, or a reference to an ancestor, with its id, its resource type, its target type and its
  children, which are pointers.\<close>

datatype ('p, 'd) child_model =
    Child string "string option" "bool option" "'p nsx_resource"
  | ChildResourceReference string string string "'d option list"

text \<open>\<open>ConvertToVapi\<close>: a data value and the list of errors.\<close>

type_synonym ('p, 'd) vapi_converter = "('p, 'd) child_model \<Rightarrow> 'd \<times> go_error list"

definition convertOrFail :: "('p, 'd) vapi_converter \<Rightarrow> ('p, 'd) child_model \<Rightarrow> go_error + 'd" where
  "convertOrFail conv m = (case conv m of (dv, []) \<Rightarrow> Inr dv | (dv, e # _) \<Rightarrow> Inl e)"

definition WrapChildResourceReference ::
  "('p, 'd) vapi_converter \<Rightarrow> string \<Rightarrow> string \<Rightarrow> 'd option list \<Rightarrow> go_error + 'd option list" where
  "WrapChildResourceReference conv targetType i children =
    bind_res (convertOrFail conv (ChildResourceReference i ''ChildResourceReference'' targetType children))
      (\<lambda>dv. Inr [Some dv])"

definition WrapOrg :: "('p, 'd) vapi_converter \<Rightarrow> string \<Rightarrow> 'd option list \<Rightarrow> go_error + 'd option list" where
  "WrapOrg conv org children = WrapChildResourceReference conv ''Org'' org children"

definition WrapProject :: "('p, 'd) vapi_converter \<Rightarrow> string \<Rightarrow> 'd option list \<Rightarrow> go_error + 'd option list" where
  "WrapProject conv nsxtProject children = WrapChildResourceReference conv ''Project'' nsxtProject children"

text \<open>The common shape of the wrappers: set the resource type, build the child, convert it.\<close>

definition wrapChild ::
  "('p, 'd) vapi_converter \<Rightarrow> string \<Rightarrow> string \<Rightarrow> 'p nsx_resource \<Rightarrow> go_error + 'd" where
  "wrapChild conv resType childType obj =
    (let obj' = obj\<lparr>ResResourceType := Some resType\<rparr> in
     convertOrFail conv (Child childType (ResId obj') (ResMarkedForDelete obj') obj'))"

definition WrapDnsRecord :: "('p, 'd) vapi_converter \<Rightarrow> 'p nsx_resource option \<Rightarrow> go_error + 'd" where
  "WrapDnsRecord conv rec =
    (case rec of None \<Rightarrow> Inl (OtherError ''nil DnsRecord'')
     | Some r \<Rightarrow> wrapChild conv ''DnsRecord'' ''ChildDnsRecord'' (r\<lparr>ResFqdn := None\<rparr>))"

definition WrapVpcIpAddressAllocation :: "('p, 'd) vapi_converter \<Rightarrow> 'p nsx_resource \<Rightarrow> go_error + 'd" where
  "WrapVpcIpAddressAllocation conv = wrapChild conv ''VpcIpAddressAllocation'' ''ChildVpcIpAddressAllocation''"

definition WrapVpcSubnetPort :: "('p, 'd) vapi_converter \<Rightarrow> 'p nsx_resource \<Rightarrow> go_error + 'd" where
  "WrapVpcSubnetPort conv = wrapChild conv ''VpcSubnetPort'' ''ChildVpcSubnetPort''"

definition WrapSubnetConnectionBindingMap :: "('p, 'd) vapi_converter \<Rightarrow> 'p nsx_resource \<Rightarrow> go_error + 'd" where
  "WrapSubnetConnectionBindingMap conv = wrapChild conv ''SubnetConnectionBindingMap'' ''ChildSubnetConnectionBindingMap''"

definition WrapVpcSubnet :: "('p, 'd) vapi_converter \<Rightarrow> 'p nsx_resource \<Rightarrow> go_error + 'd" where
  "WrapVpcSubnet conv = wrapChild conv ''VpcSubnet'' ''ChildVpcSubnet''"

definition WrapStaticRoutes :: "('p, 'd) vapi_converter \<Rightarrow> 'p nsx_resource \<Rightarrow> go_error + 'd" where
  "WrapStaticRoutes conv = wrapChild conv ''StaticRoutes'' ''ChildStaticRoutes''"

definition WrapSecurityPolicy :: "('p, 'd) vapi_converter \<Rightarrow> 'p nsx_resource \<Rightarrow> go_error + 'd" where
  "WrapSecurityPolicy conv = wrapChild conv ''SecurityPolicy'' ''ChildSecurityPolicy''"

definition WrapRule :: "('p, 'd) vapi_converter \<Rightarrow> 'p nsx_resource \<Rightarrow> go_error + 'd" where
  "WrapRule conv = wrapChild conv ''Rule'' ''ChildRule''"

definition WrapGroup :: "('p, 'd) vapi_converter \<Rightarrow> 'p nsx_resource \<Rightarrow> go_error + 'd" where
  "WrapGroup conv = wrapChild conv ''Group'' ''ChildGroup''"

definition WrapShare :: "('p, 'd) vapi_converter \<Rightarrow> 'p nsx_resource \<Rightarrow> go_error + 'd" where
  "WrapShare conv = wrapChild conv ''Share'' ''ChildShare''"

definition WrapLBService :: "('p, 'd) vapi_converter \<Rightarrow> 'p nsx_resource \<Rightarrow> go_error + 'd" where
  "WrapLBService conv = wrapChild conv ''LBService'' ''ChildLBService''"

definition WrapLBVirtualServer :: "('p, 'd) vapi_converter \<Rightarrow> 'p nsx_resource \<Rightarrow> go_error + 'd" where
  "WrapLBVirtualServer conv = wrapChild conv ''LBVirtualServer'' ''ChildLBVirtualServer''"

definition WrapLBPool :: "('p, 'd) vapi_converter \<Rightarrow> 'p nsx_resource \<Rightarrow> go_error + 'd" where
  "WrapLBPool conv = wrapChild conv ''LBPool'' ''ChildLBPool''"

definition WrapVPC :: "('p, 'd) vapi_converter \<Rightarrow> 'p nsx_resource \<Rightarrow> go_error + 'd" where
  "WrapVPC conv = wrapChild conv ''Vpc'' ''ChildVpc''"

definition WrapCertificate :: "('p, 'd) vapi_converter \<Rightarrow> 'p nsx_resource \<Rightarrow> go_error + 'd" where
  "WrapCertificate conv = wrapChild conv ''TlsCertificate'' ''ChildTlsCertificate''"

definition WrapDomain :: "('p, 'd) vapi_converter \<Rightarrow> 'p nsx_resource \<Rightarrow> go_error + 'd" where
  "WrapDomain conv = wrapChild conv ''Domain'' ''ChildDomain''"

definition WrapDynamicIpAddressReservation :: "('p, 'd) vapi_converter \<Rightarrow> 'p nsx_resource \<Rightarrow> go_error + 'd" where
  "WrapDynamicIpAddressReservation conv = wrapChild conv ''DynamicIpAddressReservation'' ''ChildDynamicIpAddressReservation''"

definition WrapStaticIpAddressReservation :: "('p, 'd) vapi_converter \<Rightarrow> 'p nsx_resource \<Rightarrow> go_error + 'd" where
  "WrapStaticIpAddressReservation conv = wrapChild conv ''StaticIpAddressReservation'' ''ChildStaticIpAddressReservation''"

text \<open>The type switch; \<open>SharedResource\<close> has no case and falls to the default.\<close>

definition leafWrapper :: "('p, 'd) vapi_converter \<Rightarrow> 'p nsx_resource \<Rightarrow> go_error + 'd" where
  "leafWrapper conv obj =
    (case ModelType obj of
       DnsRecordT \<Rightarrow> WrapDnsRecord conv (Some obj)
     | VpcIpAddressAllocationT \<Rightarrow> WrapVpcIpAddressAllocation conv obj
     | VpcSubnetPortT \<Rightarrow> WrapVpcSubnetPort conv obj
     | SubnetConnectionBindingMapT \<Rightarrow> WrapSubnetConnectionBindingMap conv obj
     | VpcSubnetT \<Rightarrow> WrapVpcSubnet conv obj
     | StaticRoutesT \<Rightarrow> WrapStaticRoutes conv obj
     | SecurityPolicyT \<Rightarrow> WrapSecurityPolicy conv obj
     | RuleT \<Rightarrow> WrapRule conv obj
     | GroupT \<Rightarrow> WrapGroup conv obj
     | ShareT \<Rightarrow> WrapShare conv obj
     | LBServiceT \<Rightarrow> WrapLBService conv obj
     | LBVirtualServerT \<Rightarrow> WrapLBVirtualServer conv obj
     | LBPoolT \<Rightarrow> WrapLBPool conv obj
     | VpcT \<Rightarrow> WrapVPC conv obj
     | TlsCertificateT \<Rightarrow> WrapCertificate conv obj
     | DomainT \<Rightarrow> WrapDomain conv obj
     | DynamicIpAddressReservationT \<Rightarrow> WrapDynamicIpAddressReservation conv obj
     | StaticIpAddressReservationT \<Rightarrow> WrapStaticIpAddressReservation conv obj
     | SharedResourceT \<Rightarrow> Inl (OtherError ''unsupported NSX resource type'')
     | OtherT \<Rightarrow> Inl (OtherError ''unsupported NSX resource type''))"

text \<open>The roots of the two hierarchies.\<close>

datatype 'd root_body = OrgRoot string "'d option list" | Infra string "'d option list"

definition buildInfraFromChildren :: "'d option list \<Rightarrow> 'd root_body" where
  "buildInfraFromChildren children = Infra ResourceTypeInfra children"

definition WrapInfra :: "'d option list \<Rightarrow> go_error + 'd root_body" where
  "WrapInfra children = Inr (buildInfraFromChildren children)"

definition WrapOrgRoot :: "'d option list \<Rightarrow> go_error + 'd root_body" where
  "WrapOrgRoot children = Inr (OrgRoot ResourceTypeOrgRoot children)"

section \<open>The tree\<close>

record hNodeKey =
  resType :: string
  resID :: string

definition hNodeKey_Equals :: "hNodeKey \<Rightarrow> hNodeKey \<Rightarrow> bool" where
  "hNodeKey_Equals k other \<longleftrightarrow> resType k = resType other \<and> resID k = resID other"

definition hNodeKey_String :: "hNodeKey \<Rightarrow> string" where
  "hNodeKey_String k = ''/'' @ str_join [resType k, resID k] ''/''"

datatype 'd hNode = HNode (key: hNodeKey) (leafData: "'d option") (childNodes: "(hNodeKey \<times> 'd hNode) list")

fun putChild :: "'d hNode \<Rightarrow> 'd hNode \<Rightarrow> 'd hNode" where
  "putChild (HNode k d cs) node = HNode k d (AList.update (key node) node cs)"

text \<open>\<open>mergeChildNode\<close> visits the children of \<open>node\<close> in the order of its map; the nodes that are merged are
  chains (\<open>buildHNodeFromResource_chain\<close>), with at most one child each, so there is one order only.\<close>

fun mergeChildNode :: "'d hNode \<Rightarrow> 'd hNode \<Rightarrow> string \<Rightarrow> 'd hNode" where
  "mergeChildNode n (HNode nk nd ncs) leaf =
    (if resType nk = leaf then putChild n (HNode nk nd ncs)
     else case map_of (childNodes n) nk of
       Some cn \<Rightarrow>
         HNode (key n) (leafData n)
           (AList.update nk (foldl (\<lambda>c chN. mergeChildNode c (snd chN) leaf) cn ncs) (childNodes n))
     | None \<Rightarrow> putChild n (HNode nk nd ncs))"

text \<open>\<open>buildTree\<close>: \<open>ord\<close> is the order in which the map of children is ranged over; a value is either
  the first error in that order or the concatenation of the children's values.\<close>

type_synonym 'd child_order = "(hNodeKey \<times> (go_error + 'd option list)) list \<Rightarrow> (hNodeKey \<times> (go_error + 'd option list)) list"

fun concat_res :: "('k \<times> ('e + 'a list)) list \<Rightarrow> 'e + 'a list" where
  "concat_res [] = Inr []"
| "concat_res ((k, r) # rs) = bind_res r (\<lambda>xs. bind_res (concat_res rs) (\<lambda>ys. Inr (xs @ ys)))"

fun buildTree :: "('p, 'd) vapi_converter \<Rightarrow> 'd child_order \<Rightarrow> string \<Rightarrow> string \<Rightarrow> 'd hNode \<Rightarrow> go_error + 'd option list" where
  "buildTree conv ord root leaf (HNode k d cs) =
    (if resType k = leaf then Inr [d]
     else bind_res (concat_res (ord (map (\<lambda>(ck, cn). (ck, buildTree conv ord root leaf cn)) cs)))
       (\<lambda>children. if resType k = root then Inr children
                   else WrapChildResourceReference conv (resType k) (resID k) children))"

section \<open>From a path to a chain of nodes\<close>

definition trim_char :: "char \<Rightarrow> string \<Rightarrow> string" where
  "trim_char c s = rev (dropWhile (\<lambda>x. x = c) (rev (dropWhile (\<lambda>x. x = c) s)))"

text \<open>The slice \<open>pathSegments[1:]\<close> is always in range: a split is never empty.\<close>

definition parsePathSegments :: "PolicyTreeBuilder \<Rightarrow> string \<Rightarrow> gerror + string list" where
  "parsePathSegments b inputPath =
    (let segs0 = split_char CHR ''/'' (trim_char CHR ''/'' inputPath);
         segs = (if rootType b = ResourceTypeInfra then tl segs0 else segs0);
         n = length segs;
         leafPathKey = last (pathFormat b);
         m = (if hasInnerInfra b then n + 1 else n) in
     if n < 2 \<or> segs ! (n - 2) \<noteq> leafPathKey
     then Inl (''invalid input path '' @ inputPath @ '' for resource '' @ leafType b)
     else if m \<noteq> length (pathFormat b) * 2 then Inl (''invalid input path: '' @ inputPath)
     else Inr segs)"

definition segment_at :: "string list \<Rightarrow> int \<Rightarrow> string option" where
  "segment_at segs i = (if 0 \<le> i \<and> i < int (length segs) then Some (segs ! nat i) else None)"

text \<open>The loop over the ancestors, from the parent of the leaf up to the child of the root; \<open>None\<close> is the panic of
  an index out of range.\<close>

fun chainLoop :: "string list \<Rightarrow> string list \<Rightarrow> nat \<Rightarrow> int \<Rightarrow> 'd hNode \<Rightarrow> 'd hNode option" where
  "chainLoop segs fmt 0 idx child = Some child"
| "chainLoop segs fmt (Suc i) idx child =
    (if fmt ! i \<noteq> ResourceTypeInfra
     then case segment_at segs idx of
        None \<Rightarrow> None
      | Some r \<Rightarrow> chainLoop segs fmt i (idx - 2) (HNode \<lparr>resType = fmt ! i, resID = r\<rparr> None [(key child, child)])
     else chainLoop segs fmt i (idx - 1) (HNode \<lparr>resType = fmt ! i, resID = []\<rparr> None [(key child, child)]))"

definition buildHNodeFromResource ::
  "('p, 'd) vapi_converter \<Rightarrow> PolicyTreeBuilder \<Rightarrow> string \<Rightarrow> 'p nsx_resource \<Rightarrow> (go_error + 'd hNode) option" where
  "buildHNodeFromResource conv b path res =
    (case parsePathSegments b path of
       Inl e \<Rightarrow> Some (Inl (OtherError e))
     | Inr segs \<Rightarrow> (case leafWrapper conv res of
         Inl e \<Rightarrow> Some (Inl e)
       | Inr dataValue \<Rightarrow>
          (let idx = int (length segs) - 1; leafIdx = length (pathFormat b) - 1 in
           case segment_at segs idx of
             None \<Rightarrow> None
           | Some i \<Rightarrow> map_option Inr
              (chainLoop segs (modelFormat b) leafIdx (idx - 2)
                 (HNode \<lparr>resType = modelFormat b ! leafIdx, resID = i\<rparr> (Some dataValue) [])))))"

text \<open>The path of a resource: under the parent path if one is given (a missing id panics), otherwise its own path,
  if it has one.\<close>

definition resourcePath :: "PolicyTreeBuilder \<Rightarrow> string \<Rightarrow> 'p nsx_resource \<Rightarrow> string option option" where
  "resourcePath b parentPath res =
    (if parentPath \<noteq> [] then
       (case getNSXResourceId res of None \<Rightarrow> None
        | Some i \<Rightarrow> Some (Some (parentPath @ ''/'' @ last (pathFormat b) @ ''/'' @ i)))
     else Some (getNSXResourcePath res))"

definition addResource ::
  "('p, 'd) vapi_converter \<Rightarrow> PolicyTreeBuilder \<Rightarrow> string \<Rightarrow> 'd hNode \<Rightarrow> 'p nsx_resource \<Rightarrow> 'd hNode option" where
  "addResource conv b parentPath root res =
    (case resourcePath b parentPath res of
       None \<Rightarrow> None
     | Some None \<Rightarrow> Some root
     | Some (Some path) \<Rightarrow> (case buildHNodeFromResource conv b path res of
         None \<Rightarrow> None
       | Some (Inl e) \<Rightarrow> Some root
       | Some (Inr node) \<Rightarrow> Some (mergeChildNode root node (leafType b))))"

fun addResources ::
  "('p, 'd) vapi_converter \<Rightarrow> PolicyTreeBuilder \<Rightarrow> string \<Rightarrow> 'd hNode \<Rightarrow> 'p nsx_resource list \<Rightarrow> 'd hNode option" where
  "addResources conv b parentPath root [] = Some root"
| "addResources conv b parentPath root (res # rs) =
    Option.bind (addResource conv b parentPath root res) (\<lambda>root'. addResources conv b parentPath root' rs)"

definition rootNode :: "PolicyTreeBuilder \<Rightarrow> 'd hNode" where
  "rootNode b = HNode \<lparr>resType = rootType b, resID = []\<rparr> None []"

definition BuildRootNode ::
  "('p, 'd) vapi_converter \<Rightarrow> PolicyTreeBuilder \<Rightarrow> 'p nsx_resource list \<Rightarrow> string \<Rightarrow> 'd hNode option" where
  "BuildRootNode conv b resources parentPath = addResources conv b parentPath (rootNode b) resources"

definition builder_buildTree ::
  "('p, 'd) vapi_converter \<Rightarrow> 'd child_order \<Rightarrow> PolicyTreeBuilder \<Rightarrow> 'p nsx_resource list \<Rightarrow> string \<Rightarrow>
   (go_error + 'd option list) option" where
  "builder_buildTree conv ord b resources parentPath =
    map_option (buildTree conv ord (rootType b) (leafType b)) (BuildRootNode conv b resources parentPath)"

definition BuildOrgRoot ::
  "('p, 'd) vapi_converter \<Rightarrow> 'd child_order \<Rightarrow> PolicyTreeBuilder \<Rightarrow> 'p nsx_resource list \<Rightarrow> string \<Rightarrow>
   (go_error + 'd root_body) option" where
  "BuildOrgRoot conv ord b resources parentPath =
    map_option (\<lambda>r. bind_res r (\<lambda>children. Inr (OrgRoot ResourceTypeOrgRoot children)))
      (builder_buildTree conv ord b resources parentPath)"

definition BuildInfra ::
  "('p, 'd) vapi_converter \<Rightarrow> 'd child_order \<Rightarrow> PolicyTreeBuilder \<Rightarrow> 'p nsx_resource list \<Rightarrow> string \<Rightarrow>
   (go_error + 'd root_body) option" where
  "BuildInfra conv ord b resources parentPath =
    map_option (\<lambda>r. bind_res r (\<lambda>children. Inr (buildInfraFromChildren children)))
      (builder_buildTree conv ord b resources parentPath)"

section \<open>Writing to NSX\<close>

text \<open>The PATCH calls on the two roots, with the revision check off: the new state of the server and an error.\<close>

type_synonym ('w, 'd) patch_client = "'d root_body \<Rightarrow> bool \<Rightarrow> 'w \<Rightarrow> go_error option \<times> 'w"

definition UpdateMultipleResourcesOnNSX ::
  "('p, 'd) vapi_converter \<Rightarrow> 'd child_order \<Rightarrow> converter \<Rightarrow> ('w, 'd) patch_client \<Rightarrow> PolicyTreeBuilder \<Rightarrow>
   'p nsx_resource list \<Rightarrow> 'w \<Rightarrow> (go_error option \<times> 'w) option" where
  "UpdateMultipleResourcesOnNSX conv ord api patch b objects w =
    (if objects = [] then Some (None, w)
     else case (if rootType b = ResourceTypeOrgRoot then BuildOrgRoot conv ord b objects []
                else BuildInfra conv ord b objects []) of
       None \<Rightarrow> None
     | Some (Inl e) \<Rightarrow> Some (Some e, w)
     | Some (Inr body) \<Rightarrow> (case patch body False w of
          (None, w') \<Rightarrow> Some (None, w')
        | (Some e, w') \<Rightarrow> Some (TransNSXApiError api (Some e), w')))"

text \<open>Go's integer division truncates; \<open>None\<close> is the panic of a division by zero, of \<open>make\<close> with a negative
  length or of a slice out of range.\<close>

definition go_quot :: "int \<Rightarrow> int \<Rightarrow> int" where
  "go_quot a b = sgn a * sgn b * (\<bar>a\<bar> div \<bar>b\<bar>)"

definition slice :: "'a list \<Rightarrow> int \<Rightarrow> int \<Rightarrow> 'a list option" where
  "slice xs a b =
    (if 0 \<le> a \<and> a \<le> b \<and> b \<le> int (length xs) then Some (take (nat (b - a)) (drop (nat a) xs)) else None)"

fun pageLoop :: "'a list \<Rightarrow> int \<Rightarrow> int list \<Rightarrow> 'a list list option" where
  "pageLoop resources pageSize [] = Some []"
| "pageLoop resources pageSize (i # is) =
    (let start = (i - 1) * pageSize; e = start + pageSize;
         en = (if int (length resources) < e then int (length resources) else e) in
     Option.bind (slice resources start en) (\<lambda>page.
     Option.bind (pageLoop resources pageSize is) (\<lambda>ps. Some (page # ps))))"

definition PagingNSXResources :: "'a list \<Rightarrow> int \<Rightarrow> 'a list list option" where
  "PagingNSXResources resources pageSize =
    (if pageSize = 0 then None
     else let pages = go_quot (int (length resources) + pageSize - 1) pageSize in
       if pages < 0 then None else pageLoop resources pageSize [1..pages])"

text \<open>\<open>ctxDone i\<close> tells whether the context is done when batch \<open>i\<close> starts, with its error;
  \<open>updateFn\<close> changes the store of the caller.\<close>

definition TimeoutFailed_msg :: string where "TimeoutFailed_msg = ''failed because of timeout''"

fun batchLoop ::
  "('p nsx_resource list \<Rightarrow> 'w \<Rightarrow> (go_error option \<times> 'w) option) \<Rightarrow> (nat \<Rightarrow> gerror option) \<Rightarrow>
   ('p nsx_resource list \<Rightarrow> 's \<Rightarrow> 's) option \<Rightarrow> nat \<Rightarrow> go_error option \<Rightarrow> 'p nsx_resource list list \<Rightarrow> 'w \<Rightarrow> 's \<Rightarrow>
   (go_error option \<times> 'w \<times> 's) option" where
  "batchLoop update ctxDone updateFn i nsxErr [] w s = Some (nsxErr, w, s)"
| "batchLoop update ctxDone updateFn i nsxErr (objs # rest) w s =
    (case ctxDone i of
       Some ctxErr \<Rightarrow> Some (Some (OtherError (TimeoutFailed_msg @ [CHR 0x0A] @ ctxErr)), w, s)
     | None \<Rightarrow> (case update objs w of
          None \<Rightarrow> None
        | Some (None, w') \<Rightarrow>
            batchLoop update ctxDone updateFn (Suc i) nsxErr rest w'
              (case updateFn of None \<Rightarrow> s | Some f \<Rightarrow> f objs s)
        | Some (Some e, w') \<Rightarrow> batchLoop update ctxDone updateFn (Suc i) (Some e) rest w' s))"

definition PagingUpdateResources ::
  "('p, 'd) vapi_converter \<Rightarrow> 'd child_order \<Rightarrow> converter \<Rightarrow> ('w, 'd) patch_client \<Rightarrow> PolicyTreeBuilder \<Rightarrow>
   (nat \<Rightarrow> gerror option) \<Rightarrow> 'p nsx_resource list \<Rightarrow> int \<Rightarrow> ('p nsx_resource list \<Rightarrow> 's \<Rightarrow> 's) option \<Rightarrow> 'w \<Rightarrow> 's \<Rightarrow>
   (go_error option \<times> 'w \<times> 's) option" where
  "PagingUpdateResources conv ord api patch b ctxDone objs pageSize updateFn w s =
    (if objs = [] then Some (None, w, s)
     else Option.bind (PagingNSXResources objs pageSize) (\<lambda>pages.
       batchLoop (UpdateMultipleResourcesOnNSX conv ord api patch b) ctxDone updateFn 0 None pages w s))"

definition DefaultHAPIChildrenCount :: int where "DefaultHAPIChildrenCount = 500"

section \<open>Reference definitions\<close>

text \<open>The keys that a path stands for, read from the left; the segments it needs.\<close>

fun pathKeys :: "string list \<Rightarrow> string list \<Rightarrow> hNodeKey list" where
  "pathKeys [] segs = []"
| "pathKeys (t # ts) segs =
    (if t \<noteq> ResourceTypeInfra then \<lparr>resType = t, resID = segs ! 1\<rparr> # pathKeys ts (drop 2 segs)
     else \<lparr>resType = t, resID = []\<rparr> # pathKeys ts (drop 1 segs))"

fun segNeed :: "string list \<Rightarrow> nat" where
  "segNeed [] = 0"
| "segNeed (t # ts) = (if t \<noteq> ResourceTypeInfra then 2 else 1) + segNeed ts"

fun chain :: "hNodeKey list \<Rightarrow> 'd \<Rightarrow> 'd hNode" where
  "chain [] d = HNode \<lparr>resType = [], resID = []\<rparr> (Some d) []"
| "chain [k] d = HNode k (Some d) []"
| "chain (k # k' # ks) d = HNode k None [(k', chain (k' # ks) d)]"

fun lookup :: "'d hNode \<Rightarrow> hNodeKey list \<Rightarrow> 'd option" where
  "lookup n [] = leafData n"
| "lookup n (k # ks) = (case map_of (childNodes n) k of None \<Rightarrow> None | Some c \<Rightarrow> lookup c ks)"

text \<open>A tree whose levels have the given types, with data at the leaves only.\<close>

fun typed :: "string list \<Rightarrow> 'd hNode \<Rightarrow> bool" where
  "typed [] n \<longleftrightarrow> childNodes n = [] \<and> leafData n \<noteq> None"
| "typed (t # ts) n \<longleftrightarrow> leafData n = None \<and> wf_map (childNodes n)
     \<and> (\<forall>(k, c) \<in> set (childNodes n). key c = k \<and> resType k = t \<and> typed ts c)"

text \<open>What every builder of the package satisfies.\<close>

definition builder_ok :: "PolicyTreeBuilder \<Rightarrow> bool" where
  "builder_ok b \<longleftrightarrow> modelFormat b \<noteq> [] \<and> length (pathFormat b) = length (modelFormat b)
     \<and> leafType b = last (modelFormat b) \<and> leafType b \<notin> set (butlast (modelFormat b))
     \<and> leafType b \<noteq> ResourceTypeInfra \<and> rootType b \<notin> set (modelFormat b)
     \<and> segNeed (modelFormat b) + (if hasInnerInfra b then 1 else 0) = 2 * length (modelFormat b)"

definition builder_of :: "PolicyResourcePath \<Rightarrow> PolicyTreeBuilder" where
  "builder_of p = (case NewPolicyTreeBuilder p of Some (Inr b) \<Rightarrow> b)"

text \<open>Where a resource goes in the tree, and its data value; \<open>None\<close> if it is skipped.\<close>

definition placed ::
  "('p, 'd) vapi_converter \<Rightarrow> PolicyTreeBuilder \<Rightarrow> string \<Rightarrow> 'p nsx_resource \<Rightarrow> (hNodeKey list \<times> 'd) option" where
  "placed conv b parentPath res =
    (case resourcePath b parentPath res of
       Some (Some path) \<Rightarrow> (case (parsePathSegments b path, leafWrapper conv res) of
           (Inr segs, Inr d) \<Rightarrow> Some (pathKeys (modelFormat b) segs, d)
         | _ \<Rightarrow> None)
     | _ \<Rightarrow> None)"

text \<open>A value of the PATCH body carries data below a list of keys.\<close>

inductive carried :: "('p, 'd) vapi_converter \<Rightarrow> 'd option \<Rightarrow> hNodeKey list \<Rightarrow> 'd \<Rightarrow> bool" for conv where
  leaf: "carried conv (Some d) [k] d"
| ancestor: "conv (ChildResourceReference (resID k) ''ChildResourceReference'' (resType k) cs) = (v, []) \<Longrightarrow>
    c \<in> set cs \<Longrightarrow> carried conv c ks d \<Longrightarrow> carried conv (Some v) (k # ks) d"

section \<open>Chains and merging\<close>

lemma segNeed_append [simp]: "segNeed (a @ b) = segNeed a + segNeed b"
  by (induction a) auto

lemma pathKeys_snoc:
  "segNeed ts \<le> length segs \<Longrightarrow> pathKeys (ts @ [t]) segs = pathKeys ts segs @
    [if t \<noteq> ResourceTypeInfra then \<lparr>resType = t, resID = segs ! (segNeed ts + 1)\<rparr> else \<lparr>resType = t, resID = []\<rparr>]"
  by (induction ts arbitrary: segs) (auto simp: nth_drop)

lemma pathKeys_types [simp]: "map resType (pathKeys ts segs) = ts"
  by (induction ts arbitrary: segs) auto

lemma key_chain [simp]: "ks \<noteq> [] \<Longrightarrow> key (chain ks d) = hd ks"
  by (induction ks d rule: chain.induct) auto

lemma chain_Cons: "ks \<noteq> [] \<Longrightarrow> chain (k # ks) d = HNode k None [(key (chain ks d), chain ks d)]"
  by (cases ks) auto

lemma chainLoop_chain:
  assumes "i \<le> length fmt" "segNeed (take i fmt) \<le> length segs" "ks \<noteq> []"
  shows "chainLoop segs fmt i (int (segNeed (take i fmt)) - 1) (chain ks d) =
    Some (chain (pathKeys (take i fmt) segs @ ks) d)"
  using assms
proof (induction i arbitrary: ks)
  case (Suc i)
  have t: "take (Suc i) fmt = take i fmt @ [fmt ! i]" using Suc.prems by (simp add: take_Suc_conv_app_nth)
  show ?case
  proof (cases "fmt ! i = ResourceTypeInfra")
    case True
    then show ?thesis
      using Suc.IH [of "\<lparr>resType = fmt ! i, resID = []\<rparr> # ks"] Suc.prems
      by (simp add: t pathKeys_snoc chain_Cons)
  next
    case False
    then have "segment_at segs (int (segNeed (take (Suc i) fmt)) - 1) = Some (segs ! (segNeed (take i fmt) + 1))"
      using Suc.prems by (simp add: t segment_at_def nat_add_distrib)
    moreover have "int (segNeed (take (Suc i) fmt)) - 1 - 2 = int (segNeed (take i fmt)) - 1"
      using False by (simp add: t)
    ultimately show ?thesis
      using False Suc.IH [of "\<lparr>resType = fmt ! i, resID = segs ! (segNeed (take i fmt) + 1)\<rparr> # ks"] Suc.prems
      by (simp add: t pathKeys_snoc chain_Cons)
  qed
qed simp

lemma builder_ok_types:
  assumes "builder_ok b"
  shows "modelFormat b \<noteq> []" "last (modelFormat b) = leafType b" "leafType b \<notin> set (butlast (modelFormat b))"
    "rootType b \<notin> set (modelFormat b)" "rootType b \<noteq> leafType b"
  using assms last_in_set [of "modelFormat b"] by (auto simp: builder_ok_def)

lemma parsePathSegments_length:
  "builder_ok b \<Longrightarrow> parsePathSegments b p = Inr segs \<Longrightarrow> length segs = segNeed (modelFormat b)"
  by (auto simp: parsePathSegments_def builder_ok_def Let_def split: if_splits)

text \<open>No index of \<open>buildHNodeFromResource\<close> is out of range, and the node is the chain of the keys of the path.\<close>

lemma buildHNodeFromResource_chain:
  fixes conv :: "('p, 'd) vapi_converter"
  assumes ok: "builder_ok b"
  shows "buildHNodeFromResource conv b path res =
    Some (case parsePathSegments b path of Inl e \<Rightarrow> Inl (OtherError e)
          | Inr segs \<Rightarrow> (case leafWrapper conv res of Inl e \<Rightarrow> Inl e
                         | Inr d \<Rightarrow> Inr (chain (pathKeys (modelFormat b) segs) d)))"
proof (cases "parsePathSegments b path")
  case (Inr segs)
  let ?m = "modelFormat b" and ?l = "length (modelFormat b) - 1"
  have ne: "?m \<noteq> []" and pf: "length (pathFormat b) = length ?m"
    and lt: "?m ! ?l \<noteq> ResourceTypeInfra" using ok by (auto simp: builder_ok_def last_conv_nth)
  have m: "?m = take ?l ?m @ [?m ! ?l]" using ne by (metis append_butlast_last_id butlast_conv_take last_conv_nth)
  have len: "length segs = segNeed (take ?l ?m) + 2"
    using parsePathSegments_length [OF ok Inr] lt by (subst (asm) m) simp
  have keys: "pathKeys ?m segs = pathKeys (take ?l ?m) segs @ [\<lparr>resType = ?m ! ?l, resID = segs ! (length segs - 1)\<rparr>]"
    using len lt by (subst m) (simp add: pathKeys_snoc)
  have idx: "int (length segs) - 1 - 2 = int (segNeed (take ?l ?m)) - 1" using len by simp
  have seg: "segment_at segs (int (length segs) - 1) = Some (segs ! (length segs - 1))"
    using len by (simp add: segment_at_def nat_add_distrib)
  have loop: "chainLoop segs ?m ?l (int (length segs) - 1 - 2)
      (HNode \<lparr>resType = ?m ! ?l, resID = segs ! (length segs - 1)\<rparr> (Some d) []) = Some (chain (pathKeys ?m segs) d)" for d :: 'd
    unfolding idx keys
    using chainLoop_chain [of ?l ?m segs "[\<lparr>resType = ?m ! ?l, resID = segs ! (length segs - 1)\<rparr>]" d] len by simp
  show ?thesis
    unfolding buildHNodeFromResource_def Inr Let_def pf
    by (cases "leafWrapper conv res") (use loop seg in \<open>simp_all\<close>)
qed (simp add: buildHNodeFromResource_def)

lemma lookup_chain: "ks \<noteq> [] \<Longrightarrow> lookup (chain ks d) p = (if p = tl ks then Some d else None)"
proof (induction ks arbitrary: p)
  case (Cons k ks)
  then show ?case by (cases ks; cases p) (auto simp: chain_Cons)
qed simp

lemma typed_chain: "ks \<noteq> [] \<Longrightarrow> typed (map resType (tl ks)) (chain ks d)"
proof (induction ks)
  case (Cons k ks)
  then show ?case by (cases ks) (auto simp: chain_Cons wf_map_def)
qed simp

lemma key_putChild [simp]: "key (putChild n c) = key n" by (cases n) simp
lemma leafData_putChild [simp]: "leafData (putChild n c) = leafData n" by (cases n) simp
lemma childNodes_putChild [simp]: "childNodes (putChild n c) = AList.update (key c) c (childNodes n)" by (cases n) simp

lemma lookup_putChild:
  "lookup (putChild n c) p =
    (case p of [] \<Rightarrow> leafData n | a # ps \<Rightarrow> if a = key c then lookup c ps else lookup n p)"
  by (cases p) (auto simp: update_conv')

lemma set_update_subset: "set (AList.update k v m) \<subseteq> insert (k, v) (set m)"
  by (induction m) auto

lemma typed_update:
  assumes "typed (t # ts) n" "resType (key c) = t" "typed ts c" "k = key c"
  shows "typed (t # ts) (HNode (key n) (leafData n) (AList.update k c (childNodes n)))"
  using assms set_update_subset [of k c "childNodes n"] by (auto simp: wf_map_update)

lemma typed_putChild:
  assumes "typed (t # ts) n" "resType (key c) = t" "typed ts c"
  shows "typed (t # ts) (putChild n c)"
  using typed_update [OF assms refl] by (cases n) simp

lemma typed_child: "typed (t # ts) n \<Longrightarrow> map_of (childNodes n) k = Some c \<Longrightarrow> typed ts c \<and> key c = k \<and> resType k = t"
  using map_of_SomeD [of "childNodes n" k c] by auto

lemma key_mergeChildNode [simp]: "key (mergeChildNode n c leaf) = key n"
  by (cases c) (auto split: option.splits)

text \<open>Merging a chain keeps the shape of the tree, adds its data and changes no other entry.\<close>

lemma mergeChildNode_chain:
  assumes "typed ts n" "ks \<noteq> []" "map resType ks = ts" "last ts = leaf" "leaf \<notin> set (butlast ts)"
  shows "typed ts (mergeChildNode n (chain ks d) leaf)
    \<and> (\<forall>p. lookup (mergeChildNode n (chain ks d) leaf) p = (if p = ks then Some d else lookup n p))"
  using assms
proof (induction ks arbitrary: n ts)
  case (Cons k ks)
  note prems = Cons.prems
  obtain t us where ts: "ts = t # us" "resType k = t" "us = map resType ks" using prems by auto
  show ?case
  proof (cases "ks = []")
    case True
    then have m: "mergeChildNode n (chain (k # ks) d) leaf = putChild n (chain (k # ks) d)" using prems by auto
    have none: "lookup n (k # a # ps) = None" for a ps
    proof (cases "map_of (childNodes n) k")
      case (Some c)
      then show ?thesis using typed_child [of t us n k c, OF _ Some] prems(1) ts True by simp
    qed simp
    have "lookup (putChild n (chain (k # ks) d)) p = (if p = k # ks then Some d else lookup n p)" for p
    proof (cases p)
      case (Cons a ps)
      have "lookup (chain [k] d) (x # xs) = None" for x xs by simp
      then show ?thesis using Cons True none
        by (cases ps) (auto simp: lookup_putChild simp del: lookup.simps(2))
    qed (simp add: lookup_putChild)
    with m show ?thesis
      using typed_putChild [of t us n "chain (k # ks) d"] typed_chain [of "k # ks" d] prems ts by (auto simp: True)
  next
    case False
    then have nl: "resType k \<noteq> leaf" and leaf: "last us = leaf" "leaf \<notin> set (butlast us)"
      using prems ts by auto
    let ?c = "chain ks d"
    show ?thesis
    proof (cases "map_of (childNodes n) k")
      case None
      then have m: "mergeChildNode n (chain (k # ks) d) leaf = putChild n (chain (k # ks) d)"
        using nl False by (simp add: chain_Cons)
      have "lookup (putChild n (chain (k # ks) d)) p = (if p = k # ks then Some d else lookup n p)" for p
        using None lookup_chain [of "k # ks" d] by (cases p) (auto simp: lookup_putChild)
      with m show ?thesis
        using typed_putChild [of t us n "chain (k # ks) d"] typed_chain [of "k # ks" d] prems ts by auto
    next
      case (Some cn)
      let ?cn = "mergeChildNode cn ?c leaf"
      have m: "mergeChildNode n (chain (k # ks) d) leaf =
          HNode (key n) (leafData n) (AList.update k ?cn (childNodes n))"
        using nl False Some by (simp add: chain_Cons)
      have cn: "typed us cn" "key cn = k" using typed_child [OF _ Some] prems(1) ts by auto
      have IH: "typed us ?cn" "\<And>p. lookup ?cn p = (if p = ks then Some d else lookup cn p)"
        using Cons.IH [OF cn(1) False _ leaf] ts by auto
      have eq: "HNode (key n) (leafData n) (AList.update k ?cn (childNodes n)) = putChild n ?cn"
        using cn(2) by (cases n) simp
      have "lookup (putChild n ?cn) p = (if p = k # ks then Some d else lookup n p)" for p
        using Some cn(2) by (cases p) (simp_all add: lookup_putChild IH(2))
      with m show ?thesis
        using typed_putChild [of t us n ?cn] IH(1) cn(2) prems(1) ts by (simp add: eq)
    qed
  qed
qed simp

lemma addResource_placed:
  assumes ok: "builder_ok b" and ids: "parentPath = [] \<or> getNSXResourceId r \<noteq> None"
  shows "addResource conv b parentPath root r =
    Some (case placed conv b parentPath r of None \<Rightarrow> root
          | Some (ks, d) \<Rightarrow> mergeChildNode root (chain ks d) (leafType b))"
proof -
  have "resourcePath b parentPath r \<noteq> None" using ids by (auto simp: resourcePath_def)
  then show ?thesis
    by (auto simp: addResource_def placed_def buildHNodeFromResource_chain [OF ok] split: option.splits sum.splits)
qed

lemma placed_types: "placed conv b pp r = Some (ks, d) \<Longrightarrow> map resType ks = modelFormat b"
  by (auto simp: placed_def split: option.splits sum.splits)

lemma addResources_lookup:
  assumes ok: "builder_ok b" and ids: "parentPath = [] \<or> (\<forall>r \<in> set rs. getNSXResourceId r \<noteq> None)"
    and root: "typed (modelFormat b) root"
  shows "\<exists>root'. addResources conv b parentPath root rs = Some root' \<and> key root' = key root
    \<and> typed (modelFormat b) root'
    \<and> (\<forall>p. lookup root' p = (case map_of (rev (List.map_filter (placed conv b parentPath) rs)) p of
              Some d \<Rightarrow> Some d | None \<Rightarrow> lookup root p))"
  using ids root
proof (induction rs arbitrary: root)
  case (Cons r rs)
  note prems = Cons.prems
  define root1 where "root1 = (case placed conv b parentPath r of None \<Rightarrow> root
          | Some (ks, d) \<Rightarrow> mergeChildNode root (chain ks d) (leafType b))"
  have add: "addResource conv b parentPath root r = Some root1"
    using addResource_placed [OF ok, of parentPath r conv root] prems(1) by (auto simp: root1_def)
  have step: "typed (modelFormat b) root1 \<and> key root1 = key root \<and>
    (\<forall>p. lookup root1 p = (case placed conv b parentPath r of None \<Rightarrow> lookup root p
                            | Some (ks, d) \<Rightarrow> if p = ks then Some d else lookup root p))"
  proof (cases "placed conv b parentPath r")
    case (Some x)
    obtain ks d where x: "x = (ks, d)" by (cases x)
    have ts: "map resType ks = modelFormat b" using placed_types [of conv b parentPath r ks d] Some x by simp
    moreover from ts have "ks \<noteq> []" using ok by (auto simp: builder_ok_def)
    ultimately show ?thesis
      using mergeChildNode_chain [of "modelFormat b" root ks "leafType b" d] prems(2) Some x builder_ok_types [OF ok]
      by (simp add: root1_def)
  qed (use prems in \<open>simp add: root1_def\<close>)
  have "parentPath = [] \<or> (\<forall>r \<in> set rs. getNSXResourceId r \<noteq> None)" using prems(1) by auto
  from Cons.IH [OF this, of root1] step obtain root' where root':
    "addResources conv b parentPath root1 rs = Some root'" "key root' = key root" "typed (modelFormat b) root'"
    "\<And>p. lookup root' p = (case map_of (rev (List.map_filter (placed conv b parentPath) rs)) p of
              Some d \<Rightarrow> Some d | None \<Rightarrow> lookup root1 p)" by auto
  have "lookup root' p = (case map_of (rev (List.map_filter (placed conv b parentPath) (r # rs))) p of
              Some d \<Rightarrow> Some d | None \<Rightarrow> lookup root p)" for p
    using step root'(4) [of p] by (auto simp: List.map_filter_simps map_add_def split: option.splits prod.splits)
  with root' show ?case by (simp add: add)
qed (auto simp: List.map_filter_simps)

section \<open>The body of the PATCH\<close>

lemma concat_res_Inr:
  "concat_res rs = Inr vs \<longleftrightarrow> (\<forall>(k, r) \<in> set rs. is_ok r) \<and> vs = concat (map (\<lambda>(k, r). projr r) rs)"
proof (induction rs arbitrary: vs)
  case (Cons x rs)
  obtain k r where "x = (k, r)" by (cases x)
  with Cons show ?case by (cases r) (auto simp: bind_res_Inr_iff)
qed auto

lemma buildTree_ok:
  assumes conv: "\<And>m. snd (conv m) = []" and ord: "is_order ord"
  shows "is_ok (buildTree conv ord root leaf n)"
proof (induction n)
  case (HNode k d cs)
  have "\<exists>vs. concat_res (ord (map (\<lambda>(ck, cn). (ck, buildTree conv ord root leaf cn)) cs)) = Inr vs"
    using HNode is_order_set [OF ord] by (fastforce simp: concat_res_Inr)
  moreover have "is_ok (WrapChildResourceReference conv t i vs)" for t i vs
    using conv [of "ChildResourceReference i ''ChildResourceReference'' t vs"]
    by (auto simp: WrapChildResourceReference_def convertOrFail_def split: prod.splits list.splits)
  ultimately show ?case by auto
qed

lemma WrapChildResourceReference_Inr:
  "WrapChildResourceReference conv t i cs = Inr vs \<Longrightarrow>
    \<exists>v. vs = [Some v] \<and> conv (ChildResourceReference i ''ChildResourceReference'' t cs) = (v, [])"
  by (auto simp: WrapChildResourceReference_def convertOrFail_def bind_res_Inr_iff split: prod.splits list.splits)

lemma buildTree_child:
  assumes "buildTree conv ord root leaf (HNode k d cs) = Inr vs" "resType k \<noteq> leaf" "is_order ord"
    "map_of cs ck = Some cn"
  shows "\<exists>ws all. buildTree conv ord root leaf cn = Inr ws \<and> set ws \<subseteq> set all
    \<and> (if resType k = root then vs = all else WrapChildResourceReference conv (resType k) (resID k) all = Inr vs)"
proof -
  let ?rs = "map (\<lambda>(ck, cn). (ck, buildTree conv ord root leaf cn)) cs"
  obtain all where all: "concat_res (ord ?rs) = Inr all"
    and vs: "if resType k = root then vs = all else WrapChildResourceReference conv (resType k) (resID k) all = Inr vs"
    using assms(1,2) by (auto simp: bind_res_Inr_iff split: if_splits)
  have "(ck, buildTree conv ord root leaf cn) \<in> set (ord ?rs)"
    using is_order_set [OF assms(3)] map_of_SomeD [OF assms(4)] by force
  with all have "is_ok (buildTree conv ord root leaf cn)" "set (projr (buildTree conv ord root leaf cn)) \<subseteq> set all"
    by (force simp: concat_res_Inr)+
  then show ?thesis using vs by (cases "buildTree conv ord root leaf cn") auto
qed

lemma buildTree_carried:
  assumes "typed ts n" "ts \<noteq> []" "root \<notin> set ts" "last ts = leaf" "leaf \<notin> set (butlast ts)" "resType (key n) \<noteq> leaf"
    and "is_order ord" "buildTree conv ord root leaf n = Inr vs" "lookup n p = Some d"
  shows "\<exists>v \<in> set vs. carried conv v (if resType (key n) = root then p else key n # p) d"
  using assms
proof (induction ts arbitrary: n p vs)
  case (Cons t ts)
  note prems = Cons.prems
  obtain k cs where n: "n = HNode k None cs" using prems(1) by (cases n) auto
  obtain ck ps cn where p: "p = ck # ps" "map_of cs ck = Some cn" "lookup cn ps = Some d"
    using prems(9) n by (cases p) (auto split: option.splits)
  have cn: "typed ts cn" "key cn = ck" "resType ck = t" using typed_child [of t ts n ck cn] prems(1) n p(2) by auto
  obtain ws all where ws: "buildTree conv ord root leaf cn = Inr ws" "set ws \<subseteq> set all"
    and vs: "if resType k = root then vs = all else WrapChildResourceReference conv (resType k) (resID k) all = Inr vs"
    using buildTree_child [of conv ord root leaf k None cs vs ck cn] prems n p(2) by auto
  have "\<exists>w \<in> set ws. carried conv w (ck # ps) d"
  proof (cases "ts = []")
    case True
    then have "ps = []" "leafData cn = Some d" using cn(1) p(3) by (cases ps; simp)+
    moreover have "resType ck = leaf" using True cn(3) prems(4) by simp
    ultimately have "ws = [Some d]" using ws(1) cn(2) by (cases cn) auto
    then show ?thesis using \<open>ps = []\<close> by (auto intro: carried.leaf)
  next
    case False
    then have "resType (key cn) \<noteq> leaf" "resType (key cn) \<noteq> root" using prems cn by auto
    then show ?thesis using Cons.IH [OF cn(1) False _ _ _ _ prems(7) ws(1) p(3)] prems False cn by auto
  qed
  then obtain w where w: "w \<in> set all" "carried conv w p d" using ws(2) p(1) by blast
  show ?case
  proof (cases "resType k = root")
    case True
    then show ?thesis using vs w n by auto
  next
    case False
    then obtain v where v: "vs = [Some v]"
      "conv (ChildResourceReference (resID k) ''ChildResourceReference'' (resType k) all) = (v, [])"
      using vs WrapChildResourceReference_Inr by fastforce
    then show ?thesis using carried.ancestor [OF v(2) w] False n by auto
  qed
qed simp

lemma typed_rootNode: "modelFormat b \<noteq> [] \<Longrightarrow> typed (modelFormat b) (rootNode b)"
  by (cases "modelFormat b") (auto simp: rootNode_def wf_map_def)

lemma key_rootNode [simp]: "key (rootNode b) = \<lparr>resType = rootType b, resID = []\<rparr>"
  by (simp add: rootNode_def)

lemma lookup_rootNode [simp]: "lookup (rootNode b) p = None"
  by (cases p) (auto simp: rootNode_def)

text \<open>The tree holds, for every list of keys, the last resource placed there.\<close>

lemma BuildRootNode_lookup:
  fixes conv :: "('p, 'd) vapi_converter"
  assumes "builder_ok b" "parentPath = [] \<or> (\<forall>r \<in> set rs. getNSXResourceId r \<noteq> None)"
  shows "\<exists>root. BuildRootNode conv b rs parentPath = Some root \<and> key root = \<lparr>resType = rootType b, resID = []\<rparr>
    \<and> typed (modelFormat b) root
    \<and> (\<forall>p. lookup root p = map_of (rev (List.map_filter (placed conv b parentPath) rs)) p)"
proof -
  have *: "(case x of None \<Rightarrow> None | Some d \<Rightarrow> Some d) = x" for x :: "'d option" by (cases x) auto
  show ?thesis
    using addResources_lookup [OF assms typed_rootNode, of conv] assms(1)
    by (simp add: BuildRootNode_def builder_ok_def * cong: option.case_cong)
qed

lemma policyPaths_ok: "list_all (\<lambda>(m, p). builder_ok (builder_of p)) policyPaths"
  by code_simp

section \<open>Pages and batches\<close>

lemma upto_step: "i \<le> j \<Longrightarrow> [i..j] = i # [i + 1..j]" by (rule upto_rec1)

lemma pageLoop_pages:
  assumes "0 < n" "1 \<le> j" "(j - 1) * n \<le> int (length xs)" "int (length xs) \<le> k * n" "(k - 1) * n < int (length xs) \<or> k = 0"
  shows "\<exists>pages. pageLoop xs n [j..k] = Some pages \<and> concat pages = drop (nat ((j - 1) * n)) xs
    \<and> (\<forall>p \<in> set pages. p \<noteq> [] \<and> int (length p) \<le> n) \<and> (\<forall>p \<in> set (butlast pages). int (length p) = n)"
  using assms(2,3)
proof (induction "nat (k + 1 - j)" arbitrary: j)
  case 0
  then have "k \<le> j - 1" by simp
  then have "k * n \<le> (j - 1) * n" using assms(1) by (intro mult_right_mono) auto
  then have "nat ((j - 1) * n) \<ge> length xs" using assms(4) by simp
  then show ?case using 0 by simp
next
  case (Suc m)
  let ?L = "int (length xs)" and ?s = "(j - 1) * n"
  have jk: "j \<le> k" using Suc(2) by simp
  then have "(j - 1) * n \<le> (k - 1) * n" using assms(1) by (intro mult_right_mono) auto
  then have lt: "?s < ?L" using assms(5) jk Suc.prems(1) by auto
  have s0: "0 \<le> ?s" using Suc.prems(1) assms(1) by simp
  define en where "en = (if ?L < ?s + n then ?L else ?s + n)"
  let ?page = "take (nat (en - ?s)) (drop (nat ?s) xs)"
  have page: "slice xs ?s en = Some ?page" using lt s0 assms(1) by (auto simp: slice_def en_def)
  have loop: "pageLoop xs n (j # rest) = Option.bind (pageLoop xs n rest) (\<lambda>ps. Some (?page # ps))" for rest
    using page by (simp add: Let_def en_def [symmetric])
  have plen: "int (length ?page) = en - ?s" using lt s0 assms(1) by (auto simp: en_def min_def)
  show ?case
  proof (cases "j = k")
    case True
    then have "?L \<le> ?s + n" using assms(4) by (simp add: algebra_simps)
    then have "en = ?L" by (auto simp: en_def)
    then have "?page = drop (nat ?s) xs" using s0 lt by (intro take_all) (simp add: nat_diff_distrib)
    moreover have "pageLoop xs n [j..k] = Some [?page]"
      using loop [of "[]"] True by (simp del: pageLoop.simps(2))
    moreover have "?page \<noteq> []" "int (length ?page) \<le> n"
      using plen lt \<open>?L \<le> ?s + n\<close> \<open>en = ?L\<close> by (auto simp del: length_take length_drop)
    ultimately show ?thesis by (intro exI [of _ "[?page]"]) simp
  next
    case False
    then have j1: "j + 1 \<le> k" using jk by simp
    then have "j * n \<le> (k - 1) * n" using assms(1) by (intro mult_right_mono) auto
    then have jn: "j * n < ?L" using assms(5) jk Suc.prems(1) by auto
    have sn: "?s + n = j * n" by (simp add: algebra_simps)
    have en: "en = j * n" using jn sn by (simp add: en_def)
    obtain pages where pages: "pageLoop xs n [j + 1..k] = Some pages" "concat pages = drop (nat (j * n)) xs"
      "\<forall>p \<in> set pages. p \<noteq> [] \<and> int (length p) \<le> n" "\<forall>p \<in> set (butlast pages). int (length p) = n"
    proof -
      have "m = nat (k + 1 - (j + 1))" using Suc(2) by linarith
      from Suc(1) [OF this] Suc.prems(1) jn that show thesis by auto
    qed
    have "nat en = nat ?s + nat (en - ?s)" using s0 sn en assms(1) by (simp add: nat_add_distrib [symmetric])
    then have "?page @ drop (nat (j * n)) xs = drop (nat ?s) xs"
      unfolding en [symmetric] by (metis append_take_drop_id drop_drop add.commute)
    then have "concat (?page # pages) = drop (nat ?s) xs" using pages(2) by simp
    moreover have "int (length ?page) = n" using plen en sn by simp
    moreover have "pageLoop xs n [j..k] = Some (?page # pages)"
      using pages(1) loop by (simp add: upto_step [OF jk] del: pageLoop.simps(2))
    ultimately show ?thesis using pages assms(1) by (intro exI [of _ "?page # pages"]) auto
  qed
qed

lemma PagingNSXResources_pages:
  assumes "0 < n"
  shows "\<exists>pages. PagingNSXResources xs n = Some pages \<and> concat pages = xs
    \<and> (\<forall>p \<in> set pages. p \<noteq> [] \<and> int (length p) \<le> n) \<and> (\<forall>p \<in> set (butlast pages). int (length p) = n)"
proof -
  let ?L = "int (length xs)" and ?k = "(int (length xs) + n - 1) div n"
  have q: "go_quot (?L + n - 1) n = ?k" using assms by (cases "?L + n - 1 = 0") (auto simp: go_quot_def)
  have k: "?k * n = ?L + n - 1 - (?L + n - 1) mod n" by (simp add: minus_mod_eq_div_mult [symmetric])
  have "(?L + n - 1) mod n < n" "0 \<le> (?L + n - 1) mod n" using assms by auto
  with k have "?L \<le> ?k * n" "?k * n < ?L + n" by linarith+
  then have "?L \<le> ?k * n" "(?k - 1) * n < ?L \<or> ?k = 0" by (auto simp: left_diff_distrib)
  moreover have "0 \<le> ?k" using assms by (simp add: pos_imp_zdiv_nonneg_iff)
  ultimately show ?thesis
    using pageLoop_pages [of n 1 xs ?k] assms q by (simp add: PagingNSXResources_def Let_def)
qed

text \<open>The outcomes of a sequence of writes.\<close>

fun runs :: "('a \<Rightarrow> 'w \<Rightarrow> ('e option \<times> 'w) option) \<Rightarrow> 'a list \<Rightarrow> 'e option list \<Rightarrow> 'w \<Rightarrow> 'w \<Rightarrow> bool" where
  "runs update [] [] w w' \<longleftrightarrow> w' = w"
| "runs update (p # ps) (e # es) w w' \<longleftrightarrow>
    (case update p w of None \<Rightarrow> False | Some (e1, w1) \<Rightarrow> e1 = e \<and> runs update ps es w1 w')"
| "runs update _ _ w w' \<longleftrightarrow> False"

definition succeeded :: "'a list \<Rightarrow> 'e option list \<Rightarrow> 'a list" where
  "succeeded ps es = map fst (filter (\<lambda>(p, e). e = None) (zip ps es))"

definition lastError :: "'e option \<Rightarrow> 'e option list \<Rightarrow> 'e option" where
  "lastError e es = foldl (\<lambda>a x. if x = None then a else x) e es"

lemma batchLoop_runs:
  assumes "\<And>p w. update p w \<noteq> None"
  shows "\<exists>es w'. runs update pages es w w' \<and>
    batchLoop update (\<lambda>_. None) (Some f) i e pages w s = Some (lastError e es, w', fold f (succeeded pages es) s)"
proof (induction pages arbitrary: i e w s)
  case Nil
  have "runs update [] [] w w" by simp
  moreover have "batchLoop update (\<lambda>_. None) (Some f) i e [] w s = Some (lastError e [], w, fold f (succeeded [] []) s)"
    by (simp add: lastError_def succeeded_def)
  ultimately show ?case by blast
next
  case (Cons p ps)
  obtain e1 w1 where u: "update p w = Some (e1, w1)" using assms [of p w] by auto
  obtain es w' where IH: "runs update ps es w1 w'" and
    b: "batchLoop update (\<lambda>_. None) (Some f) (Suc i) (if e1 = None then e else e1) ps w1 (if e1 = None then f p s else s)
      = Some (lastError (if e1 = None then e else e1) es, w', fold f (succeeded ps es) (if e1 = None then f p s else s))"
    using Cons by blast
  have "runs update (p # ps) (e1 # es) w w'" using u IH by simp
  moreover have "batchLoop update (\<lambda>_. None) (Some f) i e (p # ps) w s
      = Some (lastError e (e1 # es), w', fold f (succeeded (p # ps) (e1 # es)) s)"
    using u b by (cases e1) (auto simp: lastError_def succeeded_def)
  ultimately show ?case by blast
qed

lemma lastError_None: "lastError None es = None \<longleftrightarrow> (\<forall>e \<in> set es. e = None)"
proof -
  have "lastError e es = None \<longleftrightarrow> e = None \<and> (\<forall>e \<in> set es. e = None)" for e
    by (induction es arbitrary: e) (auto simp: lastError_def)
  then show ?thesis by simp
qed

lemma builder_of_ok: "(m, path) \<in> set policyPaths \<Longrightarrow> builder_ok (builder_of path)"
  using policyPaths_ok by (auto simp: list_all_iff)

lemma builder_buildTree_root:
  assumes ok: "builder_ok b"
  obtains root where "builder_buildTree conv ord b rs [] = Some (buildTree conv ord (rootType b) (leafType b) root)"
    "key root = \<lparr>resType = rootType b, resID = []\<rparr>" "typed (modelFormat b) root"
    "\<And>p. lookup root p = map_of (rev (List.map_filter (placed conv b []) rs)) p"
  using BuildRootNode_lookup [OF ok, of "[]" rs conv] by (auto simp: builder_buildTree_def)

lemma UpdateMultipleResourcesOnNSX_total:
  assumes "builder_ok b"
  shows "UpdateMultipleResourcesOnNSX conv ord api patch b objs w \<noteq> None"
proof -
  obtain t where "builder_buildTree conv ord b objs [] = Some t" using builder_buildTree_root [OF assms] by metis
  then show ?thesis
    by (cases t) (auto simp: UpdateMultipleResourcesOnNSX_def BuildOrgRoot_def BuildInfra_def split: prod.splits option.splits)
qed

lemma succeeded_subset: "set (succeeded ps es) \<subseteq> set ps"
  unfolding succeeded_def by (auto dest: set_zip_leftD)

lemma succeeded_all: "length es = length ps \<Longrightarrow> \<forall>e \<in> set es. e = None \<Longrightarrow> succeeded ps es = ps"
  unfolding succeeded_def by (induction es ps rule: list_induct2) auto

lemma runs_length: "runs update ps es w w' \<Longrightarrow> length es = length ps"
  by (induction update ps es w w' rule: runs.induct) (auto split: option.splits)

lemma PagingUpdateResources_runs:
  assumes path: "(m, path) \<in> set policyPaths" and n: "0 < n"
  shows "\<exists>pages es w'. concat pages = objs \<and> runs (UpdateMultipleResourcesOnNSX conv ord api patch (builder_of path)) pages es w w'
    \<and> PagingUpdateResources conv ord api patch (builder_of path) (\<lambda>_. None) objs n (Some f) w s
      = Some (lastError None es, w', fold f (succeeded pages es) s)"
proof (cases "objs = []")
  case True
  have "runs (UpdateMultipleResourcesOnNSX conv ord api patch (builder_of path)) [] [] w w" by simp
  with True show ?thesis
    by (intro exI [of _ "[]"]) (auto simp: PagingUpdateResources_def lastError_def succeeded_def intro!: exI [of _ "[]"])
next
  case False
  obtain pages where "PagingNSXResources objs n = Some pages" "concat pages = objs"
    using PagingNSXResources_pages [OF n] by blast
  moreover obtain es w' where
    "runs (UpdateMultipleResourcesOnNSX conv ord api patch (builder_of path)) pages es w w'"
    "batchLoop (UpdateMultipleResourcesOnNSX conv ord api patch (builder_of path)) (\<lambda>_. None) (Some f) 0 None pages w s
      = Some (lastError None es, w', fold f (succeeded pages es) s)"
    using batchLoop_runs [of "UpdateMultipleResourcesOnNSX conv ord api patch (builder_of path)" pages w f 0 None s]
      UpdateMultipleResourcesOnNSX_total [OF builder_of_ok [OF path], of conv ord api patch] by metis
  ultimately show ?thesis using False by (simp add: PagingUpdateResources_def) blast
qed

section \<open>Properties\<close>


text \<open>With a positive page size, paging cuts the list into consecutive non-empty pages: nothing is lost or
  duplicated, and only the last page may be short.\<close>

theorem PagingNSXResources_partition:
  assumes "0 < n"
  shows "\<exists>pages. PagingNSXResources xs n = Some pages \<and> concat pages = xs
    \<and> (\<forall>p \<in> set pages. p \<noteq> [] \<and> int (length p) \<le> n) \<and> (\<forall>p \<in> set (butlast pages). int (length p) = n)"
  using assms by (rule PagingNSXResources_pages)

text \<open>C37. A paged update never panics for a declared path and a positive page size. If the context is not cancelled, the
  pages are written in turn, a failing page does not stop the following ones, the store is updated with exactly the
  pages that were accepted, and the error returned is the one of the last failing page.\<close>

theorem PagingUpdateResources_spec:
  assumes path: "(m, path) \<in> set policyPaths" and n: "0 < n"
  shows "\<exists>pages es w'. concat pages = objs \<and> runs (UpdateMultipleResourcesOnNSX conv ord api patch (builder_of path)) pages es w w'
    \<and> PagingUpdateResources conv ord api patch (builder_of path) (\<lambda>_. None) objs n (Some f) w s
      = Some (lastError None es, w', fold f (succeeded pages es) s)"
  using assms by (rule PagingUpdateResources_runs)

text \<open>Shared resources have a declared path, but no case of \<open>leafWrapper\<close>: whatever the shared resources,
  the write sends an infra root without children, and succeeds when that empty PATCH does. The clean-up of shared resources
  relies on this call to delete them.\<close>

theorem shared_resources_never_written:
  assumes "objs \<noteq> []" "list_all (\<lambda>r. ModelType r = SharedResourceT) objs" "is_order ord"
  shows "UpdateMultipleResourcesOnNSX conv ord api patch
      (builder_of (infra_leaf ''Share'' ''shares'' @ [\<lparr>ModelKey = ''SharedResource'', PathKey = ''resources''\<rparr>])) objs w
    = Some (case patch (Infra ''Infra'' []) False w of (e, w') \<Rightarrow> (TransNSXApiError api e, w'))"
proof -
  let ?b = "builder_of (infra_leaf ''Share'' ''shares'' @ [\<lparr>ModelKey = ''SharedResource'', PathKey = ''resources''\<rparr>])"
  have ok: "builder_ok ?b" by (rule builder_of_ok [of SharedResourceT]) (simp add: policyPaths_def)
  have root: "rootType ?b = ResourceTypeInfra" "rootType ?b \<noteq> leafType ?b" by code_simp+
  have "addResource conv ?b [] n r = Some n" if "r \<in> set objs" for r n
    using that assms(2) addResource_placed [OF ok, of "[]" r conv n]
    by (auto simp: list_all_iff placed_def leafWrapper_def split: option.splits sum.splits)
  then have "addResources conv ?b [] n rs = Some n" if "set rs \<subseteq> set objs" for n rs
    using that by (induction rs) auto
  then have "BuildRootNode conv ?b objs [] = Some (rootNode ?b)" by (simp add: BuildRootNode_def)
  moreover have "ord [] = []" using is_order_set [OF assms(3), of "[]"] by simp
  ultimately have "BuildInfra conv ord ?b objs [] = Some (Inr (Infra ''Infra'' []))"
    using root by (simp add: BuildInfra_def builder_buildTree_def rootNode_def buildInfraFromChildren_def ResourceTypeInfra_def)
  moreover have "rootType ?b \<noteq> ResourceTypeOrgRoot" using root(1) by (simp add: ResourceTypeInfra_def ResourceTypeOrgRoot_def)
  ultimately show ?thesis
    using assms(1) by (auto simp: UpdateMultipleResourcesOnNSX_def TransNSXApiError_def split: prod.splits option.splits)
qed

section \<open>Witnesses\<close>

text \<open>A converter that prints its model, and two subnets of one VPC and one of another.\<close>

definition printConv :: "('p, string) vapi_converter" where
  "printConv m =
    (case m of Child t i d r \<Rightarrow> (t @ ''('' @ (case i of None \<Rightarrow> ''-'' | Some x \<Rightarrow> x) @ '')'', [])
     | ChildResourceReference i _ t cs \<Rightarrow> (t @ ''/'' @ i @ ''{'' @ concat (map (case_option ''nil'' id) cs) @ ''}'', []))"

definition subnetAt :: "string \<Rightarrow> string \<Rightarrow> unit nsx_resource" where
  "subnetAt v i =
    \<lparr>ModelType = VpcSubnetT, ResPath = Some (''/orgs/default/projects/p1/vpcs/'' @ v @ ''/subnets/'' @ i),
     ResId = Some i, ResDisplayName = None, ResMarkedForDelete = Some True, ResResourceType = None, ResFqdn = None, ResBody = ()\<rparr>"

definition exampleSubnets :: "unit nsx_resource list" where
  "exampleSubnets = [subnetAt ''v1'' ''a'', subnetAt ''v2'' ''b'', subnetAt ''v1'' ''c'']"

lemma example_tree:
  "builder_buildTree printConv (\<lambda>xs. xs) (builder_of (vpc_leaf ''VpcSubnet'' ''subnets'')) exampleSubnets [] =
    Some (Inr [Some ''Org/default{Project/p1{Vpc/v1{ChildVpcSubnet(a)ChildVpcSubnet(c)}Vpc/v2{ChildVpcSubnet(b)}}}''])"
  by code_simp

lemma printConv_ok: "snd (printConv x) = []"
  by (cases x) (simp_all add: printConv_def)


theorem PagingNSXResources_partition_witness:
  "PagingNSXResources [1::nat, 2, 3, 4, 5] 2 = Some [[1, 2], [3, 4], [5]]
    \<and> (\<exists>pages. PagingNSXResources [1::nat, 2, 3, 4, 5] 2 = Some pages \<and> concat pages = [1, 2, 3, 4, 5])"
proof -
  have "PagingNSXResources [1::nat, 2, 3, 4, 5] 2 = Some [[1, 2], [3, 4], [5]]" by code_simp
  then show ?thesis using PagingNSXResources_partition [of 2 "[1::nat, 2, 3, 4, 5]"] by auto
qed

definition noApi :: converter where
  "noApi payload = (\<lparr>ApiErrorCode = None, ApiErrorMessage = None, ApiDetails = None, RelatedErrors = None\<rparr>, False)"

text \<open>A server that counts the requests and refuses the second one.\<close>

definition flakyPatch :: "(nat, string) patch_client" where
  "flakyPatch body check w = (if w = 1 then (Some (OtherError ''down''), Suc w) else (None, Suc w))"

theorem PagingUpdateResources_spec_witness:
  "\<exists>pages es w'. concat pages = exampleSubnets
    \<and> runs (UpdateMultipleResourcesOnNSX printConv (\<lambda>xs. xs) noApi flakyPatch (builder_of (vpc_leaf ''VpcSubnet'' ''subnets''))) pages es 0 w'
    \<and> Some (Some (OtherError ''down''), 3, [''a'', ''c'']) = Some (lastError None es, w', fold (\<lambda>rs s. s @ map (the \<circ> ResId) rs) (succeeded pages es) [])"
proof -
  have "(VpcSubnetT, vpc_leaf ''VpcSubnet'' ''subnets'') \<in> set policyPaths" by (simp add: policyPaths_def)
  moreover have "PagingUpdateResources printConv (\<lambda>xs. xs) noApi flakyPatch (builder_of (vpc_leaf ''VpcSubnet'' ''subnets''))
      (\<lambda>_. None) exampleSubnets 1 (Some (\<lambda>rs s. s @ map (the \<circ> ResId) rs)) 0 [] = Some (Some (OtherError ''down''), 3, [''a'', ''c''])"
    by code_simp
  ultimately show ?thesis
    using PagingUpdateResources_spec [of VpcSubnetT "vpc_leaf ''VpcSubnet'' ''subnets''" 1 exampleSubnets printConv "\<lambda>xs. xs"
      noApi flakyPatch 0 "\<lambda>rs s. s @ map (the \<circ> ResId) rs" "[]"] by simp
qed

theorem shared_resources_never_written_witness:
  "UpdateMultipleResourcesOnNSX printConv (\<lambda>xs. xs) noApi (\<lambda>body check w. (None, w @ [body]))
      (builder_of (infra_leaf ''Share'' ''shares'' @ [\<lparr>ModelKey = ''SharedResource'', PathKey = ''resources''\<rparr>]))
      [(subnetAt ''v1'' ''a'')\<lparr>ModelType := SharedResourceT, ResPath := Some ''/infra/shares/s1/resources/r1''\<rparr>] []
    = Some (None, [Infra ''Infra'' []])"
  using shared_resources_never_written
    [of "[(subnetAt ''v1'' ''a'')\<lparr>ModelType := SharedResourceT, ResPath := Some ''/infra/shares/s1/resources/r1''\<rparr>]"
     "\<lambda>xs. xs" printConv noApi "\<lambda>body check w. (None, w @ [body])" "[]"]
  by (simp add: is_order_def TransNSXApiError_def)

end
