(* ===== verification/VlanPool.thy ===== *)
theory VlanPool
  imports Prelude
begin

text \<open>
  The VLAN allocator of \<open>pkg/nsx/services/vlanpool/vlanpool.go\<close>. The service keeps, for every set of
  parent Subnet paths, the VLAN IDs that are allocated and not yet realized (\<open>pending\<close>); the IDs in
  use come from a collector, an interface of the package that the binding service implements.
  An operation is split where the code takes the lock of the pool: the collection happens before it.
\<close>

section \<open>State and interface\<close>

definition poolStart :: int where "poolStart = 1"
definition poolEnd :: int where "poolEnd = 4094"

datatype vlan_error = VlanAllocationError gerror

text \<open>\<open>VlanCollector\<close>: the first argument tells the query of NSX from the one of the cache.\<close>

type_synonym vlan_collector = "bool \<Rightarrow> string list \<Rightarrow> string \<Rightarrow> gerror + int set"

record vlan_service =
  poolStates :: "string \<rightharpoonup> int set"

definition NewService :: vlan_service where
  "NewService = \<lparr>poolStates = Map.empty\<rparr>"

definition poolKey :: "string list \<Rightarrow> string" where
  "poolKey parentSubnetPaths = str_join (sort parentSubnetPaths) [CHR 0x00]"

text \<open>The pending set of a pool, created empty on first use.\<close>

definition getPoolState :: "vlan_service \<Rightarrow> string list \<Rightarrow> int set \<times> vlan_service" where
  "getPoolState s parentSubnetPaths =
    (let key = poolKey parentSubnetPaths in
     case poolStates s key of
       Some pending \<Rightarrow> (pending, s)
     | None \<Rightarrow> ({}, s\<lparr>poolStates := (poolStates s)(key \<mapsto> {})\<rparr>))"

definition setPending :: "vlan_service \<Rightarrow> string list \<Rightarrow> int set \<Rightarrow> vlan_service" where
  "setPending s parentSubnetPaths pending =
    s\<lparr>poolStates := (poolStates s)(poolKey parentSubnetPaths \<mapsto> pending)\<rparr>"

section \<open>Operations\<close>

definition collectUsed ::
  "vlan_collector \<Rightarrow> string list \<Rightarrow> string \<Rightarrow> bool \<Rightarrow> gerror + int set" where
  "collectUsed collector parentSubnetPaths excludeCRUID fromNSX =
    collector fromNSX parentSubnetPaths excludeCRUID"

definition cleanupCommittedPending :: "int set \<Rightarrow> int set \<Rightarrow> int set" where
  "cleanupCommittedPending used pending = pending - used"

definition unavailableVlans :: "int set \<Rightarrow> int set \<Rightarrow> int set" where
  "unavailableVlans used pending = used \<union> pending"

text \<open>The loop \<open>for id := poolStart; id <= poolEnd; id++\<close>.\<close>

function firstFree :: "int set \<Rightarrow> int \<Rightarrow> int option" where
  "firstFree unavailable i =
    (if poolEnd < i then None
     else if i \<notin> unavailable then Some i else firstFree unavailable (i + 1))"
  by pat_completeness auto

termination
  by (relation "measure (\<lambda>(u, i). nat (poolEnd + 1 - i))") auto

declare firstFree.simps [simp del]

definition noVlanError :: vlan_error where
  "noVlanError = VlanAllocationError
    (''no available VLAN in pool ['' @ Itoa poolStart @ '', '' @ Itoa poolEnd
     @ ''] for target Subnet or SubnetSet'')"

text \<open>\<open>Allocate\<close> from the point where the pool is locked, for the IDs collected before.\<close>

definition allocateLocked ::
  "vlan_service \<Rightarrow> string list \<Rightarrow> int set \<Rightarrow> int \<Rightarrow> (vlan_error + int) \<times> vlan_service" where
  "allocateLocked s0 parentSubnetPaths used preferred =
    (let (pending0, s) = getPoolState s0 parentSubnetPaths;
         pending = cleanupCommittedPending used pending0;
         unavailable = unavailableVlans used pending
     in if poolStart \<le> preferred \<and> preferred \<le> poolEnd \<and> preferred \<notin> unavailable
        then (Inr preferred, setPending s parentSubnetPaths (insert preferred pending))
        else (case firstFree unavailable poolStart of
                Some i \<Rightarrow> (Inr i, setPending s parentSubnetPaths (insert i pending))
              | None \<Rightarrow> (Inl noVlanError, setPending s parentSubnetPaths pending)))"

definition Allocate ::
  "vlan_collector \<Rightarrow> vlan_service \<Rightarrow> string list \<Rightarrow> string \<Rightarrow> int \<Rightarrow> bool
    \<Rightarrow> (vlan_error + int) \<times> vlan_service" where
  "Allocate collector s parentSubnetPaths excludeCRUID preferred fromNSX =
    (case collectUsed collector parentSubnetPaths excludeCRUID fromNSX of
       Inl err \<Rightarrow> (Inl (VlanAllocationError err), s)
     | Inr used \<Rightarrow> allocateLocked s parentSubnetPaths used preferred)"

definition CommitPending :: "vlan_service \<Rightarrow> string list \<Rightarrow> int \<Rightarrow> vlan_service" where
  "CommitPending s0 parentSubnetPaths vlan =
    (if vlan = 0 then s0
     else let (pending, s) = getPoolState s0 parentSubnetPaths in
          setPending s parentSubnetPaths (pending - {vlan}))"

definition ReleasePending :: "vlan_service \<Rightarrow> string list \<Rightarrow> int \<Rightarrow> vlan_service" where
  "ReleasePending s parentSubnetPaths vlan = CommitPending s parentSubnetPaths vlan"

definition vlanUsedError :: "int \<Rightarrow> vlan_error" where
  "vlanUsedError vlan = VlanAllocationError
    (''vlanTrafficTag '' @ Itoa vlan @ '' is already used on target Subnet or SubnetSet'')"

definition ValidateManualVlan ::
  "vlan_collector \<Rightarrow> vlan_service \<Rightarrow> string list \<Rightarrow> int \<Rightarrow> string \<Rightarrow> bool
    \<Rightarrow> vlan_error option \<times> vlan_service" where
  "ValidateManualVlan collector s0 parentSubnetPaths vlan excludeCRUID fromNSX =
    (case collectUsed collector parentSubnetPaths excludeCRUID fromNSX of
       Inl err \<Rightarrow> (Some (VlanAllocationError err), s0)
     | Inr used \<Rightarrow>
         let (pending0, s) = getPoolState s0 parentSubnetPaths;
             pending = cleanupCommittedPending used pending0
         in if vlan \<in> unavailableVlans used pending
            then (Some (vlanUsedError vlan), setPending s parentSubnetPaths pending)
            else (None, setPending s parentSubnetPaths (insert vlan pending)))"

section \<open>The pending set of a pool\<close>

definition pendingOf :: "vlan_service \<Rightarrow> string list \<Rightarrow> int set" where
  "pendingOf s paths = fst (getPoolState s paths)"

lemma pendingOf_getPoolState [simp]:
  "fst (getPoolState s p) = pendingOf s p"
  "pendingOf (snd (getPoolState s p)) q = pendingOf s q"
  by (auto simp: pendingOf_def getPoolState_def Let_def split: option.splits)

lemma pendingOf_setPending:
  "pendingOf (setPending s p X) q = (if poolKey p = poolKey q then X else pendingOf s q)"
  by (simp add: pendingOf_def setPending_def getPoolState_def Let_def split: option.splits)

lemma pendingOf_NewService [simp]: "pendingOf NewService p = {}"
  by (simp add: pendingOf_def NewService_def getPoolState_def)

lemma poolKey_perm: "mset p = mset q \<Longrightarrow> poolKey p = poolKey q"
  by (simp add: poolKey_def) (metis properties_for_sort mset_sort sorted_sort)

lemma poolKey_inj:
  assumes "poolKey p = poolKey q" "p \<noteq> []" "q \<noteq> []"
    and "\<And>x. x \<in> set p \<union> set q \<Longrightarrow> CHR 0x00 \<notin> set x"
  shows "mset p = mset q"
proof -
  have "sort p = sort q"
  proof (rule str_join_inj)
    show "str_join (sort p) [CHR 0x00] = str_join (sort q) [CHR 0x00]"
      using assms(1) by (simp add: poolKey_def)
    show "sort p \<noteq> []" "sort q \<noteq> []" using assms(2,3) by (metis set_empty set_sort)+
    show "\<And>x. x \<in> set (sort p) \<union> set (sort q) \<Longrightarrow> CHR 0x00 \<notin> set x" using assms(4) by auto
  qed
  then show ?thesis by (metis mset_sort)
qed

section \<open>The search\<close>

lemma int_le_cases: "(i::int) \<le> w \<longleftrightarrow> w = i \<or> i + 1 \<le> w"
  by auto

lemma firstFree_Some:
  "firstFree u i = Some v \<Longrightarrow> i \<le> v \<and> v \<le> poolEnd \<and> v \<notin> u \<and> (\<forall>w. i \<le> w \<and> w < v \<longrightarrow> w \<in> u)"
proof (induction u i rule: firstFree.induct)
  case (1 u i)
  then have le: "\<not> poolEnd < i" by (subst (asm) (2) firstFree.simps) (auto split: if_splits)
  show ?case
  proof (cases "i \<in> u")
    case True
    with 1(2) le have "firstFree u (i + 1) = Some v"
      by (subst (asm) firstFree.simps) (auto split: if_splits)
    from 1(1) [OF le _ this] True show ?thesis
      by (metis add_le_cancel_left int_le_cases order_trans zero_le_one add.right_neutral)
  next
    case False
    with 1(2) le show ?thesis by (subst (asm) firstFree.simps) auto
  qed
qed

lemma firstFree_None: "firstFree u i = None \<longleftrightarrow> (\<forall>w. i \<le> w \<and> w \<le> poolEnd \<longrightarrow> w \<in> u)"
proof (induction u i rule: firstFree.induct)
  case (1 u i)
  show ?case
  proof (cases "poolEnd < i \<or> i \<notin> u")
    case True
    then show ?thesis by (subst firstFree.simps) auto
  next
    case False
    then have "firstFree u i = firstFree u (i + 1)" by (subst firstFree.simps) simp
    with 1 False show ?thesis by (metis int_le_cases not_less)
  qed
qed

section \<open>Effect of the operations\<close>

lemma allocateLocked_eq:
  "allocateLocked s p used preferred =
    (let pending = pendingOf s p - used; s' = snd (getPoolState s p) in
     if poolStart \<le> preferred \<and> preferred \<le> poolEnd \<and> preferred \<notin> used \<union> pending
     then (Inr preferred, setPending s' p (insert preferred pending))
     else (case firstFree (used \<union> pending) poolStart of
             Some i \<Rightarrow> (Inr i, setPending s' p (insert i pending))
           | None \<Rightarrow> (Inl noVlanError, setPending s' p pending)))"
  by (simp only: allocateLocked_def case_prod_beta cleanupCommittedPending_def unavailableVlans_def
      Let_def pendingOf_getPoolState)

text \<open>The outcome of an allocation: a fresh ID of the pool, the preferred one when it is free and
  the smallest free one otherwise, or an error when the pool is exhausted.\<close>

definition allocated :: "vlan_service \<Rightarrow> string list \<Rightarrow> int set \<Rightarrow> int \<Rightarrow> int \<Rightarrow> bool" where
  "allocated s p used preferred v \<longleftrightarrow>
     poolStart \<le> v \<and> v \<le> poolEnd \<and> v \<notin> used \<union> pendingOf s p
     \<and> (if poolStart \<le> preferred \<and> preferred \<le> poolEnd \<and> preferred \<notin> used \<union> pendingOf s p
        then v = preferred
        else (\<forall>w. poolStart \<le> w \<and> w < v \<longrightarrow> w \<in> used \<union> pendingOf s p))"

lemma allocateLocked_cases:
  obtains (ok) v where "allocateLocked s p used preferred =
       (Inr v, setPending (snd (getPoolState s p)) p (insert v (pendingOf s p - used)))"
     "allocated s p used preferred v"
  | (full) "allocateLocked s p used preferred
       = (Inl noVlanError, setPending (snd (getPoolState s p)) p (pendingOf s p - used))"
     "\<forall>w. poolStart \<le> w \<and> w \<le> poolEnd \<longrightarrow> w \<in> used \<union> pendingOf s p"
proof (cases "poolStart \<le> preferred \<and> preferred \<le> poolEnd \<and> preferred \<notin> used \<union> pendingOf s p")
  case True
  then show ?thesis
    by (intro ok [of preferred]) (simp_all add: allocateLocked_eq allocated_def Let_def)
next
  case False
  show ?thesis
  proof (cases "firstFree (used \<union> pendingOf s p) poolStart")
    case None
    with False have "allocateLocked s p used preferred
       = (Inl noVlanError, setPending (snd (getPoolState s p)) p (pendingOf s p - used))"
      by (auto simp: allocateLocked_eq Let_def)
    moreover have "\<forall>w. poolStart \<le> w \<and> w \<le> poolEnd \<longrightarrow> w \<in> used \<union> pendingOf s p"
      using None by (simp add: firstFree_None)
    ultimately show ?thesis by (rule full)
  next
    case (Some v)
    with False firstFree_Some [OF Some] show ?thesis
      by (intro ok [of v]) (auto simp: allocateLocked_eq allocated_def Let_def)
  qed
qed

lemma pendingOf_CommitPending:
  "pendingOf (CommitPending s p v) q =
    (if v \<noteq> 0 \<and> poolKey p = poolKey q then pendingOf s q - {v} else pendingOf s q)"
proof -
  have "poolKey p = poolKey q \<Longrightarrow> pendingOf s p = pendingOf s q"
    by (simp add: pendingOf_def getPoolState_def)
  then show ?thesis
    by (simp add: CommitPending_def Let_def case_prod_beta pendingOf_setPending)
qed

section \<open>Contract of the collector\<close>

text \<open>What the allocator relies on: for every path the collector returns the tags of the bindings on
  it, except those of the excluded CR. \<open>inuse\<close> names the bindings as pairs of CR UID and tag.\<close>

locale vlan_source =
  fixes collector :: vlan_collector
    and inuse :: "bool \<Rightarrow> string \<Rightarrow> (string \<times> int) set"
  assumes collected: "collector fromNSX paths excl = Inr used \<Longrightarrow>
      used = {v. \<exists>p \<in> set paths. \<exists>u. (u, v) \<in> inuse fromNSX p \<and> \<not> (excl \<noteq> '''' \<and> u = excl)}"
begin

lemma Allocate_fresh:
  assumes "Allocate collector s paths excl preferred fromNSX = (Inr v, s')"
  shows "poolStart \<le> v" "v \<le> poolEnd" "v \<in> pendingOf s' paths" "v \<notin> pendingOf s paths"
    and "p \<in> set paths \<Longrightarrow> (u, v) \<in> inuse fromNSX p \<Longrightarrow> u = excl"
proof -
  from assms obtain used where u: "collector fromNSX paths excl = Inr used"
    and a: "allocateLocked s paths used preferred = (Inr v, s')"
    by (auto simp: Allocate_def collectUsed_def split: sum.splits)
  have all: "allocated s paths used preferred v \<and> v \<in> pendingOf s' paths"
  proof (cases rule: allocateLocked_cases [of s paths used preferred])
    case (ok w)
    with a show ?thesis by (auto simp: pendingOf_setPending)
  next
    case full
    with a show ?thesis by simp
  qed
  then show "poolStart \<le> v" "v \<le> poolEnd" "v \<in> pendingOf s' paths" "v \<notin> pendingOf s paths"
    by (simp_all add: allocated_def)
  have "v \<notin> used" using all by (simp add: allocated_def)
  then show "p \<in> set paths \<Longrightarrow> (u, v) \<in> inuse fromNSX p \<Longrightarrow> u = excl"
    using collected [OF u] by blast
qed

lemma Validate_fresh:
  assumes "ValidateManualVlan collector s paths v excl fromNSX = (None, s')"
  shows "v \<in> pendingOf s' paths"
    and "p \<in> set paths \<Longrightarrow> (u, v) \<in> inuse fromNSX p \<Longrightarrow> u = excl"
proof -
  from assms obtain used where u: "collector fromNSX paths excl = Inr used"
    by (auto simp: ValidateManualVlan_def collectUsed_def split: sum.splits)
  with assms have "v \<notin> used" "v \<in> pendingOf s' paths"
    by (auto simp: ValidateManualVlan_def collectUsed_def unavailableVlans_def pendingOf_setPending
        case_prod_beta Let_def split: if_splits)
  with collected [OF u] show "v \<in> pendingOf s' paths"
    "p \<in> set paths \<Longrightarrow> (u, v) \<in> inuse fromNSX p \<Longrightarrow> u = excl" by auto
qed

end

section \<open>Concurrent reconciles\<close>

text \<open>The CRs bound on one set of parent paths: the VLAN each has realized and the VLAN a reconcile of
  it is working with. A CR is reconciled by one worker at a time; a reconcile obtains a VLAN, creates
  the binding, and commits or releases the VLAN.\<close>

record vlan_system =
  svc :: vlan_service
  realized :: "string \<rightharpoonup> int"
  inflight :: "string \<rightharpoonup> int"

definition realizedVlans :: "(string \<rightharpoonup> int) \<Rightarrow> string \<Rightarrow> int set" where
  "realizedVlans r excl = {v. \<exists>u. r u = Some v \<and> u \<noteq> excl}"

definition storeCollector :: "(string \<rightharpoonup> int) \<Rightarrow> vlan_collector" where
  "storeCollector r fromNSX paths excl = Inr (realizedVlans r excl)"

inductive vstep :: "string list \<Rightarrow> vlan_system \<Rightarrow> vlan_system \<Rightarrow> bool" for paths where
  allocate: "inflight s u = None \<Longrightarrow>
     Allocate (storeCollector (realized s)) (svc s) paths u preferred fromNSX = (Inr v, svc') \<Longrightarrow>
     vstep paths s (s\<lparr>svc := svc', inflight := (inflight s)(u \<mapsto> v)\<rparr>)"
| validate: "inflight s u = None \<Longrightarrow>
     ValidateManualVlan (storeCollector (realized s)) (svc s) paths v u fromNSX = (None, svc') \<Longrightarrow>
     vstep paths s (s\<lparr>svc := svc', inflight := (inflight s)(u \<mapsto> v)\<rparr>)"
| reuse: "inflight s u = None \<Longrightarrow> realized s u = Some v \<Longrightarrow>
     vstep paths s (s\<lparr>inflight := (inflight s)(u \<mapsto> v)\<rparr>)"
| realize: "inflight s u = Some v \<Longrightarrow>
     vstep paths s (s\<lparr>realized := (realized s)(u \<mapsto> v)\<rparr>)"
| commit: "inflight s u = Some v \<Longrightarrow> realized s u = Some v \<Longrightarrow>
     vstep paths s (s\<lparr>svc := CommitPending (svc s) paths v, inflight := (inflight s)(u := None)\<rparr>)"
| release: "inflight s u = Some v \<Longrightarrow>
     vstep paths s (s\<lparr>svc := ReleasePending (svc s) paths v, inflight := (inflight s)(u := None)\<rparr>)"
| delete: "inflight s u = None \<Longrightarrow>
     vstep paths s (s\<lparr>realized := (realized s)(u := None)\<rparr>)"

inductive vreachable :: "string list \<Rightarrow> vlan_system \<Rightarrow> bool" for paths where
  init: "vreachable paths \<lparr>svc = NewService, realized = Map.empty, inflight = Map.empty\<rparr>"
| step: "vreachable paths s \<Longrightarrow> vstep paths s s' \<Longrightarrow> vreachable paths s'"

text \<open>Nothing is shared between CRs, and an in-flight VLAN is pending or already realized by its CR.\<close>

definition vlan_inv :: "string list \<Rightarrow> vlan_system \<Rightarrow> bool" where
  "vlan_inv paths s \<longleftrightarrow>
     (\<forall>u v. inflight s u = Some v \<longrightarrow> v \<in> pendingOf (svc s) paths \<or> realized s u = Some v) \<and>
     (\<forall>u u' v. u \<noteq> u' \<longrightarrow> inflight s u = Some v \<longrightarrow> inflight s u' \<noteq> Some v \<and> realized s u' \<noteq> Some v) \<and>
     (\<forall>u u' v. u \<noteq> u' \<longrightarrow> realized s u = Some v \<longrightarrow> realized s u' \<noteq> Some v)"

lemma vlan_inv_fresh:
  assumes inv: "vlan_inv paths s" and u: "inflight s u = None"
    and v: "v \<notin> realizedVlans (realized s) u \<union> pendingOf (svc s) paths"
    and p: "pendingOf svc' paths = insert v (pendingOf (svc s) paths - realizedVlans (realized s) u)"
  shows "vlan_inv paths (s\<lparr>svc := svc', inflight := (inflight s)(u \<mapsto> v)\<rparr>)"
proof -
  have keep: "w \<in> pendingOf svc' paths \<or> realized s u' = Some w" if "inflight s u' = Some w" for u' w
  proof (cases "w \<in> realizedVlans (realized s) u")
    case True
    then obtain u'' where "realized s u'' = Some w" by (auto simp: realizedVlans_def)
    with inv that show ?thesis unfolding vlan_inv_def by metis
  next
    case False
    with inv that show ?thesis by (auto simp: vlan_inv_def p)
  qed
  have other: "inflight s u' \<noteq> Some v" if "u' \<noteq> u" for u'
  proof
    assume "inflight s u' = Some v"
    with inv v have "realized s u' = Some v" by (auto simp: vlan_inv_def)
    with that v show False by (auto simp: realizedVlans_def)
  qed
  have "realized s u' \<noteq> Some v" if "u' \<noteq> u" for u'
    using that v by (auto simp: realizedVlans_def)
  with other have o: "\<And>u'. u' \<noteq> u \<Longrightarrow> inflight s u' \<noteq> Some v \<and> realized s u' \<noteq> Some v" by blast
  have "\<forall>u' u'' w. u' \<noteq> u'' \<longrightarrow> ((inflight s)(u \<mapsto> v)) u' = Some w \<longrightarrow>
      ((inflight s)(u \<mapsto> v)) u'' \<noteq> Some w \<and> realized s u'' \<noteq> Some w"
    using inv o unfolding vlan_inv_def by (metis fun_upd_apply option.inject)
  moreover have "\<forall>u' w. ((inflight s)(u \<mapsto> v)) u' = Some w \<longrightarrow>
      w \<in> pendingOf svc' paths \<or> realized s u' = Some w"
    using keep by (auto simp: p)
  ultimately show ?thesis using inv unfolding vlan_inv_def by simp
qed

lemma pendingOf_ValidateManualVlan:
  assumes "ValidateManualVlan (storeCollector r) s paths v u fromNSX = (None, s')"
  shows "v \<notin> realizedVlans r u \<union> pendingOf s paths"
    "pendingOf s' paths = insert v (pendingOf s paths - realizedVlans r u)"
  using assms
  by (auto simp: ValidateManualVlan_def collectUsed_def storeCollector_def unavailableVlans_def
      cleanupCommittedPending_def pendingOf_setPending case_prod_beta Let_def split: if_splits)

lemma pendingOf_Allocate:
  assumes "Allocate (storeCollector r) s paths u preferred fromNSX = (Inr v, s')"
  shows "v \<notin> realizedVlans r u \<union> pendingOf s paths"
    "pendingOf s' paths = insert v (pendingOf s paths - realizedVlans r u)"
proof -
  have "allocateLocked s paths (realizedVlans r u) preferred = (Inr v, s')"
    using assms by (simp add: Allocate_def collectUsed_def storeCollector_def)
  then have "v \<notin> realizedVlans r u \<union> pendingOf s paths
    \<and> pendingOf s' paths = insert v (pendingOf s paths - realizedVlans r u)"
    by (cases rule: allocateLocked_cases [of s paths "realizedVlans r u" preferred])
      (auto simp: allocated_def pendingOf_setPending)
  then show "v \<notin> realizedVlans r u \<union> pendingOf s paths"
    "pendingOf s' paths = insert v (pendingOf s paths - realizedVlans r u)" by auto
qed

lemma vlan_inv_drop:
  assumes inv: "vlan_inv paths s" and u: "inflight s u = Some v"
    and p: "pendingOf (svc s) paths - {v} \<subseteq> pendingOf svc' paths"
  shows "vlan_inv paths (s\<lparr>svc := svc', inflight := (inflight s)(u := None)\<rparr>)"
proof -
  have "w \<in> pendingOf svc' paths \<or> realized s u' = Some w"
    if "((inflight s)(u := None)) u' = Some w" for u' w
  proof -
    from that have u': "u' \<noteq> u" "inflight s u' = Some w" by (auto split: if_splits)
    then have "w \<noteq> v" using inv u unfolding vlan_inv_def by metis
    moreover have "w \<in> pendingOf (svc s) paths \<or> realized s u' = Some w"
      using inv u'(2) unfolding vlan_inv_def by blast
    ultimately show ?thesis using p by blast
  qed
  moreover have "inflight s u'' \<noteq> Some w \<and> realized s u'' \<noteq> Some w"
    if "u' \<noteq> u''" "((inflight s)(u := None)) u' = Some w" for u' u'' w
    using inv that unfolding vlan_inv_def by (metis fun_upd_apply option.distinct(1))
  ultimately show ?thesis using inv unfolding vlan_inv_def by simp
qed

lemma vlan_inv_step:
  assumes "vstep paths s s'" "vlan_inv paths s"
  shows "vlan_inv paths s'"
  using assms
proof (induction rule: vstep.induct)
  case (allocate s u preferred fromNSX v svc')
  then show ?case using pendingOf_Allocate [OF allocate(2)] by (intro vlan_inv_fresh) auto
next
  case (validate s u v fromNSX svc')
  then show ?case using pendingOf_ValidateManualVlan [OF validate(2)] by (intro vlan_inv_fresh) auto
next
  case (reuse s u v)
  then show ?case unfolding vlan_inv_def by (auto split: if_splits) metis+
next
  case (realize s u v)
  then show ?case unfolding vlan_inv_def by (auto split: if_splits) metis+
next
  case (commit s u v)
  then show ?case by (intro vlan_inv_drop) (auto simp: pendingOf_CommitPending)
next
  case (release s u v)
  then show ?case by (intro vlan_inv_drop) (auto simp: ReleasePending_def pendingOf_CommitPending)
next
  case (delete s u)
  then show ?case unfolding vlan_inv_def by (auto split: if_splits)
qed

lemma vlan_inv_reachable: "vreachable paths s \<Longrightarrow> vlan_inv paths s"
proof (induction rule: vreachable.induct)
  case init
  show ?case by (simp add: vlan_inv_def)
next
  case (step s s')
  then show ?case using vlan_inv_step by blast
qed

section \<open>Properties\<close>

text \<open>\<open>Allocate\<close> on every branch: a failing collector is reported as an allocation error and nothing
  changes; otherwise the result is an ID of the pool that is neither in use nor pending (the preferred
  one if it is free, the smallest free one if not), recorded as pending, or the error that the pool
  is exhausted, which is returned only when every ID from 1 to 4094 is taken. Pending IDs that
  are realized leave the pending set, and other pools are not touched.\<close>

theorem Allocate_spec:
  "case collector fromNSX paths excl of
     Inl err \<Rightarrow> Allocate collector s paths excl preferred fromNSX = (Inl (VlanAllocationError err), s)
   | Inr used \<Rightarrow> \<exists>r s'. Allocate collector s paths excl preferred fromNSX = (r, s')
       \<and> (\<forall>q. poolKey q \<noteq> poolKey paths \<longrightarrow> pendingOf s' q = pendingOf s q)
       \<and> (case r of
            Inr v \<Rightarrow> allocated s paths used preferred v
              \<and> pendingOf s' paths = insert v (pendingOf s paths - used)
          | Inl e \<Rightarrow> e = noVlanError \<and> (\<forall>w. 1 \<le> w \<and> w \<le> 4094 \<longrightarrow> w \<in> used \<union> pendingOf s paths)
              \<and> pendingOf s' paths = pendingOf s paths - used)"
proof (cases "collector fromNSX paths excl")
  case (Inl err)
  then show ?thesis by (simp add: Allocate_def collectUsed_def)
next
  case (Inr used)
  then have eq: "Allocate collector s paths excl preferred fromNSX = allocateLocked s paths used preferred"
    by (simp add: Allocate_def collectUsed_def)
  show ?thesis
  proof (cases rule: allocateLocked_cases [of s paths used preferred])
    case (ok v)
    then show ?thesis unfolding Inr eq by (auto simp: pendingOf_setPending)
  next
    case full
    then show ?thesis unfolding Inr eq
      by (auto simp: pendingOf_setPending poolStart_def poolEnd_def)
  qed
qed

theorem Allocate_spec_witness:
  "allocated NewService [''a''] {1, 2} 2 3
   \<and> Allocate (\<lambda>_ _ _. Inr {1, 2}) NewService [''a''] ''u'' 2 False
       = (Inr 3, snd (Allocate (\<lambda>_ _ _. Inr {1, 2}) NewService [''a''] ''u'' 2 False))"
proof -
  have three: "fst (Allocate (\<lambda>_ _ _. Inr {1, 2}) NewService [''a''] ''u'' 2 False) = Inr 3"
    by (simp add: Allocate_def collectUsed_def allocateLocked_eq poolStart_def poolEnd_def
        firstFree.simps [of _ 1] firstFree.simps [of _ 2] firstFree.simps [of _ 3])
  obtain r s' where r: "Allocate (\<lambda>_ _ _. Inr {1, 2}) NewService [''a''] ''u'' 2 False = (r, s')"
    "case r of Inr v \<Rightarrow> allocated NewService [''a''] {1, 2} 2 v
        \<and> pendingOf s' [''a''] = insert v (pendingOf NewService [''a''] - {1, 2})
      | Inl e \<Rightarrow> e = noVlanError
        \<and> (\<forall>w. 1 \<le> w \<and> w \<le> 4094 \<longrightarrow> w \<in> {1, 2} \<union> pendingOf NewService [''a''])
        \<and> pendingOf s' [''a''] = pendingOf NewService [''a''] - {1, 2}"
    using Allocate_spec [of "\<lambda>_ _ _. Inr {1, 2}" NewService "[''a'']" "''u''" 2 False]
    unfolding sum.case by blast
  with three show ?thesis by simp
qed

definition holdsVlan :: "vlan_system \<Rightarrow> string \<Rightarrow> int \<Rightarrow> bool" where
  "holdsVlan s u v \<longleftrightarrow> inflight s u = Some v \<or> realized s u = Some v"


lemma witness_reachable:
  "\<exists>s. vreachable [''a''] s \<and> holdsVlan s ''u'' 1"
proof -
  let ?s0 = "\<lparr>svc = NewService, realized = Map.empty, inflight = Map.empty\<rparr>"
  have "fst (Allocate (storeCollector Map.empty) NewService [''a''] ''u'' 0 False) = Inr 1"
    by (simp add: Allocate_def collectUsed_def storeCollector_def realizedVlans_def allocateLocked_eq
        poolStart_def poolEnd_def firstFree.simps [of _ 1])
  then obtain svc' where
    "Allocate (storeCollector (realized ?s0)) (svc ?s0) [''a''] ''u'' 0 False = (Inr 1, svc')"
    by (metis prod.collapse vlan_system.select_convs(1,2))
  from vreachable.step [OF vreachable.init vstep.allocate [OF _ this]] show ?thesis
    by (auto simp: holdsVlan_def intro!: exI)
qed


text \<open>The comment on \<open>Allocate\<close> promises that parallel reconciles do not pick the same VLAN.
  They can: the IDs in use are read before the lock is taken, so a reconcile that read them before
  another one committed is given the committed VLAN; and pools of different but overlapping path
  sets do not see each other's pending VLANs.\<close>

theorem Allocate_parallel_same_vlan:
  "(let (a, s1) = allocateLocked NewService [''p''] {} 0;
        s2 = CommitPending s1 [''p''] 1;
        (b, s3) = allocateLocked s2 [''p''] {} 0
    in a = Inr 1 \<and> b = Inr 1)
   \<and> (let (a, s1) = allocateLocked NewService [''p'', ''q''] {} 0;
          (b, s2) = allocateLocked s1 [''p''] {} 0
      in a = Inr 1 \<and> b = Inr 1)"
proof
  have first: "allocateLocked s p {} 0 = (Inr 1, setPending (snd (getPoolState s p)) p {1})"
    if "pendingOf s p = {}" for s p
    using that by (simp add: allocateLocked_eq poolStart_def poolEnd_def firstFree.simps [of _ 1])
  show "let (a, s1) = allocateLocked NewService [''p''] {} 0;
        s2 = CommitPending s1 [''p''] 1;
        (b, s3) = allocateLocked s2 [''p''] {} 0
    in a = Inr 1 \<and> b = Inr 1"
    by (simp add: first pendingOf_CommitPending pendingOf_setPending)
  have "poolKey [''p'', ''q''] \<noteq> poolKey [''p'']" by code_simp
  then show "let (a, s1) = allocateLocked NewService [''p'', ''q''] {} 0;
          (b, s2) = allocateLocked s1 [''p''] {} 0
      in a = Inr 1 \<and> b = Inr 1"
    by (simp add: first pendingOf_setPending)
qed

text \<open>The key of a pool identifies the multiset of its paths: permuted lists share a pool, and
  different non-empty lists of paths (which contain no NUL byte) never do.\<close>

theorem poolKey_eq_iff:
  assumes "p \<noteq> []" and "q \<noteq> []" and "\<forall>x \<in> set p \<union> set q. CHR 0x00 \<notin> set x"
  shows "poolKey p = poolKey q \<longleftrightarrow> mset p = mset q"
  using poolKey_inj [of p q] poolKey_perm [of p q] assms by blast

theorem poolKey_eq_iff_witness:
  "poolKey [''/b'', ''/a''] = poolKey [''/a'', ''/b''] \<longleftrightarrow> mset [''/b'', ''/a''] = mset [''/a'', ''/b'']"
  by (rule poolKey_eq_iff) auto

end
