(* ===== verification/RealizeState.thy ===== *)
theory RealizeState
  imports Store
begin

text \<open>
  The realization check of \<open>pkg/nsx/services/realizestate/realize_state.go\<close>: the realized entities of an intent are listed
  until all of them are realized, an entity is in error, or the steps of the back-off are used up. The listing client is a parameter on the
  state of NSX; \<open>retry.OnError\<close> of client-go runs a function until it succeeds or fails with an error that is not
  retriable, at most as many times as the back-off has steps, and returns the last error.
\<close>

section \<open>Entities and alarms\<close>

record related_error =
  reMessage :: "string option"
  reCode :: "int option"

record alarm_details =
  adCode :: "int option"
  adRelated :: "related_error list"

record alarm =
  alMessage :: "string option"
  alDetails :: "alarm_details option"

record entity =
  enId :: string
  enState :: string
  enAlarms :: "alarm list"

definition IsRealizeStateError :: "go_error \<Rightarrow> bool" where
  "IsRealizeStateError e = (case e of RealizeStateError _ _ _ \<Rightarrow> True | _ \<Rightarrow> False)"

definition IsRetryRealizeError :: "alarm \<Rightarrow> bool" where
  "IsRetryRealizeError a = (case alDetails a of Some d \<Rightarrow> adCode d = Some ProviderNotReadyErrorCode | None \<Rightarrow> False)"

text \<open>A slice of strings printed with \<open>%s\<close>.\<close>

definition slice_str :: "string list \<Rightarrow> string" where
  "slice_str xs = ''['' @ str_join xs '' '' @ '']''"

section \<open>The check\<close>

text \<open>The loop over the related errors: the messages and the related codes so far.\<close>

fun relatedLoop :: "related_error list \<Rightarrow> string list \<Rightarrow> int list \<Rightarrow> string list \<times> int list" where
  "relatedLoop [] msgs codes = (msgs, codes)"
| "relatedLoop (r # rs) msgs codes =
    relatedLoop rs
      (case reMessage r of
         None \<Rightarrow> msgs
       | Some m \<Rightarrow> msgs @ [case reCode r of Some c \<Rightarrow> ''[error code: '' @ Itoa c @ '', message: '' @ m @ '']'' | None \<Rightarrow> m])
      (case reCode r of Some c \<Rightarrow> codes @ [c] | None \<Rightarrow> codes)"

text \<open>The codes of the details of one alarm: the first code found stays the primary one.\<close>

definition detailsStep :: "alarm_details \<Rightarrow> string list \<times> int \<times> int list \<Rightarrow> string list \<times> int \<times> int list" where
  "detailsStep d = (\<lambda>(msgs, code, codes).
    let code' = (case adCode d of Some c \<Rightarrow> if code = 0 then c else code | None \<Rightarrow> code);
        codes' = (case adCode d of Some c \<Rightarrow> if code = 0 then codes else codes @ [c] | None \<Rightarrow> codes);
        (msgs', codes'') = relatedLoop (adRelated d) msgs codes' in
    (msgs', code', codes''))"

text \<open>The loop over the alarms of an entity in error; \<open>path\<close> is the path of the intent.\<close>

fun alarmLoop :: "string \<Rightarrow> alarm list \<Rightarrow> string list \<times> int \<times> int list \<Rightarrow> go_error" where
  "alarmLoop path [] (msgs, code, codes) = RealizeStateError (path @ '' realized with errors: '' @ slice_str msgs) code codes"
| "alarmLoop path (a # as) (msgs, code, codes) =
    (let st1 = ((case alMessage a of Some m \<Rightarrow> msgs @ [m] | None \<Rightarrow> msgs), code, codes);
         st2 = (case alDetails a of Some d \<Rightarrow> detailsStep d st1 | None \<Rightarrow> st1) in
     if IsRetryRealizeError a then OtherError (path @ '' not realized with errors: '' @ slice_str (fst st2))
     else alarmLoop path as st2)"

text \<open>The loop over the entities: an error, or the numbers of realized entities and of realized extra ids.\<close>

fun entityLoop :: "string \<Rightarrow> string list \<Rightarrow> entity list \<Rightarrow> nat \<Rightarrow> nat \<Rightarrow> go_error + nat \<times> nat" where
  "entityLoop path extraIds [] realized extra = Inr (realized, extra)"
| "entityLoop path extraIds (e # es) realized extra =
    (if enState e = ''REALIZED'' then entityLoop path extraIds es (Suc realized) (extra + length (filter (\<lambda>i. enId e = i) extraIds))
     else if enState e = ''ERROR'' then Inl (alarmLoop path (enAlarms e) ([], 0, []))
     else entityLoop path extraIds es realized extra)"

definition checkEntities :: "string \<Rightarrow> string list \<Rightarrow> entity list \<Rightarrow> go_error option" where
  "checkEntities path extraIds results =
    (case entityLoop path extraIds results 0 0 of
       Inl e \<Rightarrow> Some e
     | Inr (realized, extra) \<Rightarrow>
         if results \<noteq> [] \<and> realized = length results \<and> length extraIds \<le> extra then None
         else Some (OtherError (path @ '' not realized'')))"

text \<open>\<open>retry.OnError\<close>.\<close>

fun OnError :: "nat \<Rightarrow> (go_error \<Rightarrow> bool) \<Rightarrow> ('w \<Rightarrow> go_error option \<times> 'w) \<Rightarrow> go_error option \<Rightarrow> 'w \<Rightarrow> go_error option \<times> 'w" where
  "OnError 0 retriable f lastErr w = (lastErr, w)"
| "OnError (Suc n) retriable f lastErr w =
    (case f w of
       (None, w') \<Rightarrow> (None, w')
     | (Some e, w') \<Rightarrow> if retriable e then OnError n retriable f (Some e) w' else (Some e, w'))"

definition NSXTRealizeRetrySteps :: nat where "NSXTRealizeRetrySteps = 50"

type_synonym 'w entity_client = "string \<Rightarrow> 'w \<Rightarrow> (go_error + entity list) \<times> 'w"

definition checkOnce :: "converter \<Rightarrow> 'w entity_client \<Rightarrow> string \<Rightarrow> string list \<Rightarrow> 'w \<Rightarrow> go_error option \<times> 'w" where
  "checkOnce api lst path extraIds w =
    (case lst path w of
       (Inl e, w') \<Rightarrow> (TransNSXApiError api (Some e), w')
     | (Inr results, w') \<Rightarrow> (checkEntities path extraIds results, w'))"

definition CheckRealizeState :: "converter \<Rightarrow> 'w entity_client \<Rightarrow> nat \<Rightarrow> string \<Rightarrow> string list \<Rightarrow> 'w \<Rightarrow> go_error option \<times> 'w" where
  "CheckRealizeState api lst steps path extraIds w =
    OnError steps (\<lambda>e. \<not> IsRealizeStateError e) (checkOnce api lst path extraIds) None w"

section \<open>Addresses of a realized interface\<close>

definition interfaceIPs :: "(string option \<times> string list) list \<Rightarrow> string list" where
  "interfaceIPs attrs =
    concat (map (\<lambda>(k, vs). if k = Some ''IpAddresses''
      then List.map_filter (\<lambda>ip. let parts = split_char CHR ''/'' ip in if length parts \<noteq> 2 then None else Some (parts ! 0)) vs else []) attrs)"

definition GetPolicyInterfaceIPs ::
  "converter \<Rightarrow> (string \<Rightarrow> 'w \<Rightarrow> (go_error + (string option \<times> string list) list) \<times> 'w) \<Rightarrow> string \<Rightarrow> 'w \<Rightarrow> (go_error + string list) \<times> 'w" where
  "GetPolicyInterfaceIPs api get path w =
    (case get path w of
       (Inl e, w') \<Rightarrow> (Inl (the (TransNSXApiError api (Some e))), w')
     | (Inr attrs, w') \<Rightarrow>
         (case interfaceIPs attrs of
            [] \<Rightarrow> (Inl (OtherError (path @ '' LB SNAT IP not found'')), w')
          | ips \<Rightarrow> (Inr ips, w')))"

section \<open>Every code is reported\<close>

text \<open>The codes of an alarm, related ones included.\<close>

definition alarmCodes :: "alarm \<Rightarrow> int set" where
  "alarmCodes a = (case alDetails a of
     None \<Rightarrow> {}
   | Some d \<Rightarrow> set (List.map_filter reCode (adRelated d)) \<union> (case adCode d of Some c \<Rightarrow> {c} | None \<Rightarrow> {}))"

lemma relatedLoop_codes: "relatedLoop rs msgs codes = (msgs', codes') \<Longrightarrow> set codes' = set codes \<union> set (List.map_filter reCode rs)"
  by (induction rs arbitrary: msgs codes) (auto simp: map_filter_simps split: option.splits)

lemma detailsStep_codes:
  assumes "detailsStep d (msgs, code, codes) = (msgs', code', codes')"
  shows "insert 0 (insert code' (set codes')) = insert 0 (insert code (set codes))
    \<union> set (List.map_filter reCode (adRelated d)) \<union> (case adCode d of Some c \<Rightarrow> {c} | None \<Rightarrow> {})"
proof -
  obtain m cs where r: "relatedLoop (adRelated d) msgs (case adCode d of Some c \<Rightarrow> if code = 0 then codes else codes @ [c] | None \<Rightarrow> codes) = (m, cs)"
    by (cases "relatedLoop (adRelated d) msgs (case adCode d of Some c \<Rightarrow> if code = 0 then codes else codes @ [c] | None \<Rightarrow> codes)")
  have "codes' = cs" "code' = (case adCode d of Some c \<Rightarrow> if code = 0 then c else code | None \<Rightarrow> code)"
    using assms r by (auto simp: detailsStep_def Let_def)
  then show ?thesis using relatedLoop_codes [OF r] by (auto split: option.splits if_splits)
qed

lemma alarmLoop_codes:
  assumes "\<not> list_ex IsRetryRealizeError as"
  shows "\<exists>m c cs. alarmLoop path as (msgs, code, codes) = RealizeStateError m c cs
    \<and> insert 0 (insert c (set cs)) = insert 0 (insert code (set codes)) \<union> (\<Union>a \<in> set as. alarmCodes a)"
  using assms
proof (induction as arbitrary: msgs code codes)
  case (Cons a as)
  let ?msgs = "case alMessage a of Some m \<Rightarrow> msgs @ [m] | None \<Rightarrow> msgs"
  obtain msgs' code' codes' where s: "(case alDetails a of Some d \<Rightarrow> detailsStep d (?msgs, code, codes) | None \<Rightarrow> (?msgs, code, codes)) = (msgs', code', codes')"
    by (metis prod_cases3)
  have "insert 0 (insert code' (set codes')) = insert 0 (insert code (set codes)) \<union> alarmCodes a"
    using s detailsStep_codes [of _ ?msgs code codes msgs' code' codes'] by (auto simp: alarmCodes_def split: option.splits)
  moreover obtain m c cs where "alarmLoop path as (msgs', code', codes') = RealizeStateError m c cs"
    "insert 0 (insert c (set cs)) = insert 0 (insert code' (set codes')) \<union> (\<Union>a \<in> set as. alarmCodes a)"
    using Cons.IH [of msgs' code' codes'] Cons.prems by auto
  ultimately show ?case using s Cons.prems by (auto simp: Let_def)
qed simp

section \<open>When the check succeeds\<close>

lemma entityLoop_counts:
  assumes "\<not> list_ex (\<lambda>e. enState e = ''ERROR'') es"
  shows "entityLoop path extraIds es r x = Inr (r + length (filter (\<lambda>e. enState e = ''REALIZED'') es),
    x + length (concat (map (\<lambda>e. if enState e = ''REALIZED'' then filter (\<lambda>i. enId e = i) extraIds else []) es)))"
  using assms by (induction es arbitrary: r x) auto

lemma entityLoop_error:
  "List.find (\<lambda>e. enState e = ''ERROR'') es = Some e \<Longrightarrow> entityLoop path extraIds es r x = Inl (alarmLoop path (enAlarms e) ([], 0, []))"
  by (induction es arbitrary: r x) (auto split: if_splits)

lemma realized_not_error: "list_all (\<lambda>e. enState e = ''REALIZED'') es \<Longrightarrow> \<not> list_ex (\<lambda>e. enState e = ''ERROR'') es"
  by (induction es) auto

lemma length_filter_all: "length (filter P xs) = length xs \<longleftrightarrow> (\<forall>x \<in> set xs. P x)"
proof (induction xs)
  case (Cons x xs)
  have "length (filter P xs) \<noteq> Suc (length xs)" using length_filter_le [of P xs] by linarith
  with Cons show ?case by auto
qed simp

lemma checkEntities_None:
  "checkEntities path extraIds es = None \<longleftrightarrow> es \<noteq> [] \<and> list_all (\<lambda>e. enState e = ''REALIZED'') es
     \<and> length extraIds \<le> length (concat (map (\<lambda>e. filter (\<lambda>i. enId e = i) extraIds) es))"
proof (cases "list_ex (\<lambda>e. enState e = ''ERROR'') es")
  case True
  then obtain e where "List.find (\<lambda>e. enState e = ''ERROR'') es = Some e"
    by (cases "List.find (\<lambda>e. enState e = ''ERROR'') es") (auto simp: find_None_iff list_ex_iff)
  then show ?thesis using True realized_not_error by (auto simp: checkEntities_def entityLoop_error)
next
  case False
  have all: "length (filter (\<lambda>e. enState e = ''REALIZED'') es) = length es \<longleftrightarrow> list_all (\<lambda>e. enState e = ''REALIZED'') es"
    by (simp add: length_filter_all list_all_iff)
  have "list_all (\<lambda>e. enState e = ''REALIZED'') es \<Longrightarrow>
      length (concat (map (\<lambda>e. if enState e = ''REALIZED'' then filter (\<lambda>i. enId e = i) extraIds else []) es))
      = length (concat (map (\<lambda>e. filter (\<lambda>i. enId e = i) extraIds) es))"
    by (induction es) auto
  then show ?thesis using False all by (auto simp: checkEntities_def entityLoop_counts)
qed

text \<open>The attempts of a retried function: attempt \<open>i\<close> runs on the state that the attempts before it leave.\<close>

definition attemptOf :: "('w \<Rightarrow> go_error option \<times> 'w) \<Rightarrow> 'w \<Rightarrow> nat \<Rightarrow> go_error option" where
  "attemptOf f w i = fst (f (((snd \<circ> f) ^^ i) w))"

lemma attemptOf_0 [simp]: "attemptOf f w 0 = fst (f w)"
  by (simp add: attemptOf_def)

lemma attemptOf_Suc: "attemptOf f w (Suc i) = attemptOf f (snd (f w)) i"
  by (simp add: attemptOf_def funpow_swap1)

lemma OnError_success:
  "fst (OnError n retriable f (Some e0) w) = None
     \<longleftrightarrow> (\<exists>k < n. attemptOf f w k = None \<and> (\<forall>i < k. \<exists>e. attemptOf f w i = Some e \<and> retriable e))"
proof (induction n arbitrary: e0 w)
  case (Suc n)
  obtain r w' where f: "f w = (r, w')" by (cases "f w")
  have ex: "(\<exists>k < Suc n. P k) \<longleftrightarrow> P 0 \<or> (\<exists>k < n. P (Suc k))" and all: "(\<forall>i < Suc m. P i) \<longleftrightarrow> P 0 \<and> (\<forall>i < m. P (Suc i))" for P m
    using less_Suc_eq_0_disj by auto
  show ?case unfolding ex all using f Suc.IH [of _ w'] by (auto simp: attemptOf_Suc split: option.splits)
qed simp

section \<open>Properties\<close>

text \<open>C29. The realization check succeeds exactly when, within the steps of the back-off, a listing that is not empty shows every entity of the
  intent realized, with the extra ids among them, after attempts that failed with errors other than a realization error; an entity in
  error ends it at once.\<close>

theorem CheckRealizeState_spec:
  assumes "0 < steps"
  shows "(fst (CheckRealizeState api lst steps path extraIds w) = None
    \<longleftrightarrow> (\<exists>k < steps. attemptOf (checkOnce api lst path extraIds) w k = None
          \<and> (\<forall>i < k. \<exists>e. attemptOf (checkOnce api lst path extraIds) w i = Some e \<and> \<not> IsRealizeStateError e)))
    \<and> (fst (checkOnce api lst path extraIds v) = None \<longleftrightarrow> (\<exists>es. fst (lst path v) = Inr es \<and> es \<noteq> []
          \<and> list_all (\<lambda>e. enState e = ''REALIZED'') es \<and> length extraIds \<le> length (concat (map (\<lambda>e. filter (\<lambda>i. enId e = i) extraIds) es))))"
proof (intro conjI)
  obtain n where n: "steps = Suc n" using assms by (cases steps) auto
  have "fst (OnError (Suc n) retriable f None w) = None
      \<longleftrightarrow> (\<exists>k < Suc n. attemptOf f w k = None \<and> (\<forall>i < k. \<exists>e. attemptOf f w i = Some e \<and> retriable e))" for retriable f
    using OnError_success [of "Suc n" retriable f "OtherError []" w] by simp
  then show "fst (CheckRealizeState api lst steps path extraIds w) = None
    \<longleftrightarrow> (\<exists>k < steps. attemptOf (checkOnce api lst path extraIds) w k = None
          \<and> (\<forall>i < k. \<exists>e. attemptOf (checkOnce api lst path extraIds) w i = Some e \<and> \<not> IsRealizeStateError e))"
    unfolding CheckRealizeState_def n .
  show "fst (checkOnce api lst path extraIds v) = None \<longleftrightarrow> (\<exists>es. fst (lst path v) = Inr es \<and> es \<noteq> []
      \<and> list_all (\<lambda>e. enState e = ''REALIZED'') es \<and> length extraIds \<le> length (concat (map (\<lambda>e. filter (\<lambda>i. enId e = i) extraIds) es)))"
    by (cases "fst (lst path v)") (auto simp: checkOnce_def checkEntities_None TransNSXApiError_def split: prod.splits option.splits sum.splits)
qed

text \<open>The first listing is still in progress, the second is complete.\<close>

definition demoEntities :: "string \<Rightarrow> nat \<Rightarrow> (go_error + entity list) \<times> nat" where
  "demoEntities path n =
    (Inr [\<lparr>enId = ''a'', enState = ''REALIZED'', enAlarms = []\<rparr>,
          \<lparr>enId = ''b'', enState = (if n = 0 then ''IN_PROGRESS'' else ''REALIZED''), enAlarms = []\<rparr>], Suc n)"

theorem CheckRealizeState_spec_witness:
  "fst (CheckRealizeState noConvert demoEntities 3 ''/p'' [''a''] 0) = None"
proof -
  let ?f = "checkOnce noConvert demoEntities ''/p'' [''a'']"
  have "attemptOf ?f 0 1 = None" "\<exists>e. attemptOf ?f 0 0 = Some e \<and> \<not> IsRealizeStateError e"
    by (simp_all add: attemptOf_def checkOnce_def demoEntities_def checkEntities_def IsRealizeStateError_def)
  then have "\<exists>k < 3. attemptOf ?f 0 k = None \<and> (\<forall>i < k. \<exists>e. attemptOf ?f 0 i = Some e \<and> \<not> IsRealizeStateError e)"
    by (intro exI [of _ 1]) auto
  then show ?thesis using CheckRealizeState_spec [of 3 noConvert demoEntities "''/p''" "[''a'']" 0 0] by simp
qed

text \<open>The error for an entity in error reports every error code of its alarms: none of the codes of the alarms or of their related
  errors is missing among its primary and related codes.\<close>

theorem realization_error_codes:
  assumes "List.find (\<lambda>e. enState e = ''ERROR'') es = Some e" "\<not> list_ex IsRetryRealizeError (enAlarms e)"
  shows "\<exists>m c cs. checkEntities path extraIds es = Some (RealizeStateError m c cs) \<and> insert 0 (insert c (set cs)) = insert 0 (\<Union>a \<in> set (enAlarms e). alarmCodes a)"
  using alarmLoop_codes [OF assms(2), of path "[]" 0 "[]"] entityLoop_error [OF assms(1), of path extraIds 0 0]
  by (auto simp: checkEntities_def)

definition failedEntity :: entity where
  "failedEntity = \<lparr>enId = ''a'', enState = ''ERROR'', enAlarms =
     [\<lparr>alMessage = Some ''m'', alDetails = Some \<lparr>adCode = None, adRelated = [\<lparr>reMessage = None, reCode = Some 7\<rparr>]\<rparr>\<rparr>,
      \<lparr>alMessage = None, alDetails = Some \<lparr>adCode = Some 8, adRelated = []\<rparr>\<rparr>]\<rparr>"

theorem realization_error_codes_witness:
  "\<exists>m c cs. checkEntities ''/p'' [] [failedEntity] = Some (RealizeStateError m c cs) \<and> insert 0 (insert c (set cs)) = {0, 7, 8}"
proof -
  have f: "List.find (\<lambda>e. enState e = ''ERROR'') [failedEntity] = Some failedEntity" by code_simp
  have r: "\<not> list_ex IsRetryRealizeError (enAlarms failedEntity)" by code_simp
  have "insert 0 (\<Union>a \<in> set (enAlarms failedEntity). alarmCodes a) = {0, 7, 8}"
    by (auto simp: failedEntity_def alarmCodes_def map_filter_simps)
  then show ?thesis using realization_error_codes [OF f r, of "''/p''" "[]"] by simp
qed

end
