(* ===== verification/SubnetBinding.thy ===== *)
theory SubnetBinding
  imports PolicyTree VlanPool Naming RealizeState
begin

text \<open>
  The binding service of \<open>pkg/nsx/services/subnetbinding\<close>: the store of the NSX binding maps
  (\<open>store.go\<close>), their construction from a custom resource (\<open>builder.go\<close>), the VLAN of a binding
  (\<open>vlan_allocation.go\<close>) and the operations of the service (\<open>subnetbinding.go\<close>, \<open>cleanup.go\<close>). The state is the
  NSX server, the store and the VLAN pool; the SDK clients, the indexer and the random identifiers are
  parameters. The result \<open>None\<close> is a panic or a loop that does not end.
\<close>

section \<open>Data\<close>

record binding_map =
  bmId :: "string option"
  bmDisplayName :: "string option"
  bmVlanTrafficTag :: "int option"
  bmSubnetPath :: "string option"
  bmParentPath :: "string option"
  bmPath :: "string option"
  bmSubnetAssociation :: "string option"
  bmTags :: "nsx_tag list"
  bmMarkedForDelete :: "bool option"

text \<open>The custom resource: its metadata, the spec's tag and association, and the tag of the status.\<close>

record binding_cr =
  crMeta :: object_meta
  crVLANTrafficTag :: "int option"
  crSubnetAssociation :: string
  crStatusVLANTrafficTag :: "int option"

definition HasVlanTrafficTag :: "binding_cr \<Rightarrow> bool" where
  "HasVlanTrafficTag cr \<longleftrightarrow> crVLANTrafficTag cr \<noteq> None"

definition IsBranchAssociation :: "binding_cr \<Rightarrow> bool" where
  "IsBranchAssociation cr \<longleftrightarrow> crSubnetAssociation cr = ''Branch''"

definition TagScopeNamespace :: string where "TagScopeNamespace = ''nsx-op/namespace''"
definition TagScopeSubnetBindingCRName :: string where "TagScopeSubnetBindingCRName = ''nsx-op/subnetbinding_name''"
definition TagScopeSubnetBindingCRUID :: string where "TagScopeSubnetBindingCRUID = ''nsx-op/subnetbinding_uid''"


section \<open>The store\<close>

text \<open>A nil id, scope or tag makes the key and index functions panic; it is \<open>the None\<close> here.\<close>

definition keyFunc :: "binding_map \<Rightarrow> string" where
  "keyFunc bm = the (bmId bm)"

definition bindingMapCRUIDIndexFunc :: "binding_map \<Rightarrow> string list" where
  "bindingMapCRUIDIndexFunc bm =
    (case List.find (\<lambda>t. the (fst t) = TagScopeSubnetBindingCRUID) (bmTags bm) of
       Some t \<Rightarrow> [the (snd t)] | None \<Rightarrow> [])"

text \<open>The value of the last tag of a scope, the empty string if there is none.\<close>

fun lastTag :: "string \<Rightarrow> string \<Rightarrow> nsx_tag list \<Rightarrow> string" where
  "lastTag scope acc [] = acc"
| "lastTag scope acc ((s, v) # tags) = lastTag scope (if the s = scope then the v else acc) tags"

definition namespacedName :: "string \<Rightarrow> string \<Rightarrow> string" where
  "namespacedName ns name = ns @ ''/'' @ name"

definition bindingMapCRNameIndexFunc :: "binding_map \<Rightarrow> string list" where
  "bindingMapCRNameIndexFunc bm =
    (let crName = lastTag TagScopeSubnetBindingCRName [] (bmTags bm);
         crNamespace = lastTag TagScopeNamespace [] (bmTags bm) in
     if crName \<noteq> [] \<and> crNamespace \<noteq> [] then [namespacedName crNamespace crName] else [])"

definition childSubnetIndexFunc :: "binding_map \<Rightarrow> string list" where
  "childSubnetIndexFunc bm =
    (case (if bmSubnetAssociation bm = Some ''BRANCH'' then bmSubnetPath bm else bmParentPath bm) of
       Some p \<Rightarrow> [p] | None \<Rightarrow> [])"

definition parentSubnetIndexFunc :: "binding_map \<Rightarrow> string list" where
  "parentSubnetIndexFunc bm =
    (case (if bmSubnetAssociation bm = Some ''BRANCH'' then bmParentPath bm else bmSubnetPath bm) of
       Some p \<Rightarrow> [p] | None \<Rightarrow> [])"

text \<open>The indexers of \<open>SetupStore\<close> by name; the indexer panics if the index by VPC gives an error.\<close>

definition bindingIndexers :: "string \<Rightarrow> binding_map \<Rightarrow> string list" where
  "bindingIndexers name bm =
    (if name = ''bindingMapCRUID'' then bindingMapCRUIDIndexFunc bm
     else if name = ''bindingMapCRName'' then bindingMapCRNameIndexFunc bm
     else if name = ''childSubnet'' then childSubnetIndexFunc bm
     else if name = ''parentSubnet'' then parentSubnetIndexFunc bm
     else if name = ''indexedByVPCPath'' then projr (IndexByVPCFunc (IxSubnetConnectionBindingMap (bmPath bm)))
     else [])"

definition SetupStore :: "((string \<times> binding_map) list, binding_map) indexer_ops" where
  "SetupStore = al_ops keyFunc bindingIndexers"

definition BindingStore_Apply :: "('s, binding_map) indexer_ops \<Rightarrow> 's \<Rightarrow> binding_map \<Rightarrow> 's" where
  "BindingStore_Apply ops s bm = (if bmMarkedForDelete bm = Some True then ixDelete ops s bm else ixAdd ops s bm)"

definition GetBindingsByParentSubnet :: "('s, binding_map) indexer_ops \<Rightarrow> 's \<Rightarrow> string \<Rightarrow> binding_map list" where
  "GetBindingsByParentSubnet ops s subnetPath = GetByIndex ops s ''parentSubnet'' subnetPath"

definition GetBindingsByChildSubnet :: "('s, binding_map) indexer_ops \<Rightarrow> 's \<Rightarrow> string \<Rightarrow> binding_map list" where
  "GetBindingsByChildSubnet ops s subnetPath = GetByIndex ops s ''childSubnet'' subnetPath"

definition GetBindingsByBindingMapCRUID :: "('s, binding_map) indexer_ops \<Rightarrow> 's \<Rightarrow> string \<Rightarrow> binding_map list" where
  "GetBindingsByBindingMapCRUID ops s uid = GetByIndex ops s ''bindingMapCRUID'' uid"

definition getBindingsByBindingMapCRName ::
  "('s, binding_map) indexer_ops \<Rightarrow> 's \<Rightarrow> string \<Rightarrow> string \<Rightarrow> binding_map list" where
  "getBindingsByBindingMapCRName ops s bindingName bindingNamespace =
    GetByIndex ops s ''bindingMapCRName'' (namespacedName bindingNamespace bindingName)"

definition DeleteMultipleObjects :: "('s, binding_map) indexer_ops \<Rightarrow> 's \<Rightarrow> binding_map list \<Rightarrow> 's" where
  "DeleteMultipleObjects ops s bms = foldl (ixDelete ops) s bms"

section \<open>Building binding maps\<close>

definition buildSubnetBindingID ::
  "('s, binding_map) indexer_ops \<Rightarrow> (nat \<Rightarrow> string) \<Rightarrow> 's \<Rightarrow> binding_cr \<Rightarrow> string \<Rightarrow> string option" where
  "buildSubnetBindingID ops uuid s binding parentSubnetPath =
    BuildUniqueIDWithRandomUUID uuid \<lparr>Name = Name (crMeta binding), Namespace = [], UID = parentSubnetPath\<rparr>
      GenerateIDByObject (\<lambda>i. GetByKey ops s i \<noteq> None)"

definition nsxAssociation :: "binding_cr \<Rightarrow> string option" where
  "nsxAssociation binding =
    (if crSubnetAssociation binding \<noteq> [] then Some (if IsBranchAssociation binding then ''BRANCH'' else ''TRUNK'') else None)"

text \<open>The loop over the target paths: an entry whose path cannot be parsed stays nil.\<close>

fun bindingsLoop ::
  "('s, binding_map) indexer_ops \<Rightarrow> (nat \<Rightarrow> nat \<Rightarrow> string) \<Rightarrow> 's \<Rightarrow> nsx_tag list \<Rightarrow> binding_cr \<Rightarrow> int \<Rightarrow> nat \<Rightarrow>
   string list \<Rightarrow> binding_map option list option" where
  "bindingsLoop ops uuid s tags binding vlanID i [] = Some []"
| "bindingsLoop ops uuid s tags binding vlanID i (path # paths) =
    Option.bind
      (case ParseVPCResourcePath path of
         Inl err \<Rightarrow> Some None
       | Inr info \<Rightarrow> map_option
           (\<lambda>resId. Some \<lparr>bmId = Some resId, bmDisplayName = Some (Name (crMeta binding)), bmVlanTrafficTag = Some vlanID,
              bmSubnetPath = Some path, bmParentPath = None, bmPath = None, bmSubnetAssociation = nsxAssociation binding,
              bmTags = tags, bmMarkedForDelete = None\<rparr>)
           (buildSubnetBindingID ops (uuid i) s binding (ResID info)))
      (\<lambda>e. map_option (\<lambda>es. e # es) (bindingsLoop ops uuid s tags binding vlanID (Suc i) paths))"

definition buildSubnetBindings ::
  "('s, binding_map) indexer_ops \<Rightarrow> (nat \<Rightarrow> nat \<Rightarrow> string) \<Rightarrow> string \<Rightarrow> 's \<Rightarrow> binding_cr \<Rightarrow> int \<Rightarrow> string list \<Rightarrow>
   binding_map option list option" where
  "buildSubnetBindings ops uuid cluster s binding vlanID targetSubnetPaths =
    bindingsLoop ops uuid s (BuildBasicTags cluster (ObjSubnetConnectionBindingMap (crMeta binding)) []) binding vlanID 0
      targetSubnetPaths"

definition buildSubnetConnectionBindingMapCR :: "binding_map \<Rightarrow> gerror + object_meta" where
  "buildSubnetConnectionBindingMapCR bm =
    (let crNamespace = lastTag TagScopeNamespace [] (bmTags bm);
         crName = lastTag TagScopeSubnetBindingCRName [] (bmTags bm);
         crUID = lastTag TagScopeSubnetBindingCRUID [] (bmTags bm) in
     if crName = [] \<or> crNamespace = [] \<or> crUID = []
     then Inl (''missing tags to convert to CR SubnetConnectionBindingMap, Namespace '' @ crNamespace @ '', Name ''
                @ crName @ '', UID '' @ crUID)
     else Inr \<lparr>Name = crName, Namespace = crNamespace, UID = crUID\<rparr>)"

section \<open>Comparison\<close>

definition binding_Key :: "binding_map \<Rightarrow> string" where
  "binding_Key m = the (bmId m)"

text \<open>The value that is compared: the paths and the deletion mark are left out.\<close>

definition binding_Value :: "binding_map \<Rightarrow> binding_map" where
  "binding_Value m = m\<lparr>bmParentPath := None, bmPath := None, bmMarkedForDelete := None\<rparr>"

text \<open>\<open>bindingMapsToMap\<close> keys the bindings by their Subnet path; a nil binding or a nil path makes it panic.\<close>

fun bindingMapsToMap :: "(string \<times> binding_map) list \<Rightarrow> binding_map option list \<Rightarrow> (string \<times> binding_map) list option" where
  "bindingMapsToMap m [] = Some m"
| "bindingMapsToMap m (b # bs) =
    (case b of None \<Rightarrow> None
     | Some bm \<Rightarrow> (case bmSubnetPath bm of None \<Rightarrow> None | Some p \<Rightarrow> bindingMapsToMap (AList.update p bm m) bs))"

section \<open>State and parameters of the service\<close>

record ('w, 's) binding_state =
  bsNSX :: 'w
  bsStore :: 's
  bsPool :: vlan_service

text \<open>A page of the list client: the bindings and the cursor.\<close>

type_synonym 'w list_client =
  "string \<Rightarrow> string \<Rightarrow> string \<Rightarrow> string \<Rightarrow> string option \<Rightarrow> 'w \<Rightarrow> (go_error + binding_map list \<times> string option) \<times> 'w"

text \<open>The parameters: the indexer, the converter, the order of the tree's maps and of the maps of bindings, the API error
  converter, the PATCH client, the list client, the search client (whose query does not change NSX), its decoder and
  page size, the encoder of compared values, the random identifiers, the cluster name and the restore mode.\<close>

record ('w, 's, 'd, 'v, 'e) binding_env =
  beOps :: "('s, binding_map) indexer_ops"
  beConv :: "(binding_map, 'd) vapi_converter"
  beTreeOrder :: "'d child_order"
  beOrder :: "(string \<times> binding_map) list \<Rightarrow> (string \<times> binding_map) list"
  beApi :: converter
  bePatch :: "('w, 'd) patch_client"
  beList :: "'w list_client"
  beQuery :: "string \<Rightarrow> 'w \<Rightarrow> nat \<Rightarrow> string option \<Rightarrow> int \<Rightarrow> 'v query_page"
  beDecode :: "'v \<Rightarrow> gerror + binding_map"
  bePageSize :: int
  beEnc :: "binding_map \<Rightarrow> 'e"
  beUUID :: "nat \<Rightarrow> nat \<Rightarrow> string"
  beCluster :: string
  beRestoreMode :: bool

definition bindingBuilder :: PolicyTreeBuilder where
  "bindingBuilder = builder_of (subnet_leaf ''SubnetConnectionBindingMap'' ''subnet-connection-binding-maps'')"

definition bm_resource :: "binding_map \<Rightarrow> binding_map nsx_resource" where
  "bm_resource bm =
    \<lparr>ModelType = SubnetConnectionBindingMapT, ResPath = bmPath bm, ResId = bmId bm, ResDisplayName = bmDisplayName bm,
     ResMarkedForDelete = bmMarkedForDelete bm, ResResourceType = None, ResFqdn = None, ResBody = bm\<rparr>"

section \<open>VLAN allocation\<close>

definition bindingMapCRUID :: "binding_map \<Rightarrow> string" where
  "bindingMapCRUID bm =
    (case List.find (\<lambda>t. fst t = Some TagScopeSubnetBindingCRUID \<and> snd t \<noteq> None) (bmTags bm) of
       Some t \<Rightarrow> the (snd t) | None \<Rightarrow> [])"

text \<open>The tags of a list of bindings, without those of the excluded CR.\<close>

definition usedVlans :: "string \<Rightarrow> binding_map list \<Rightarrow> int set" where
  "usedVlans excludeCRUID bms =
    set (List.map_filter (\<lambda>bm. if excludeCRUID \<noteq> [] \<and> bindingMapCRUID bm = excludeCRUID then None else bmVlanTrafficTag bm) bms)"

definition CollectUsedVlansOnParentSubnetsFromCache ::
  "('s, binding_map) indexer_ops \<Rightarrow> 's \<Rightarrow> string list \<Rightarrow> string \<Rightarrow> gerror + int set" where
  "CollectUsedVlansOnParentSubnetsFromCache ops s parentSubnetPaths excludeCRUID =
    Inr (foldl (\<lambda>used p. used \<union> usedVlans excludeCRUID (GetBindingsByParentSubnet ops s p)) {} parentSubnetPaths)"

definition bindingQuery :: "string \<Rightarrow> string" where
  "bindingQuery parentSubnetPath =
    (let e = escape_slash parentSubnetPath in
     ''resource_type:SubnetConnectionBindingMap AND marked_for_delete:false AND ((subnet_path:'' @ e
     @ '' AND NOT subnet_association:BRANCH) OR (parent_path:'' @ e @ '' AND subnet_association:BRANCH))'')"

text \<open>The search fills a local store without indexers.\<close>

definition localOps :: "((string \<times> binding_map) list, binding_map) indexer_ops" where
  "localOps = al_ops keyFunc (\<lambda>name bm. [])"

definition listBindingMapsByParentSubnetPath ::
  "('w, 's, 'd, 'v, 'e) binding_env \<Rightarrow> 'w \<Rightarrow> string \<Rightarrow> (gerror + binding_map list) option" where
  "listBindingMapsByParentSubnetPath env w parentSubnetPath =
    (case SearchResource (beQuery env (bindingQuery parentSubnetPath) w) (beApi env)
            (TransResourceToStore localOps (beDecode env)) [] (bePageSize env) of
       None \<Rightarrow> None
     | Some ((Some err, _), _) \<Rightarrow> Some (Inl err)
     | Some ((None, _), local, _) \<Rightarrow> Some (Inr (ixList localOps local)))"

fun CollectUsedVlansOnParentSubnetsFromNSX ::
  "('w, 's, 'd, 'v, 'e) binding_env \<Rightarrow> 'w \<Rightarrow> string list \<Rightarrow> string \<Rightarrow> (gerror + int set) option" where
  "CollectUsedVlansOnParentSubnetsFromNSX env w [] excludeCRUID = Some (Inr {})"
| "CollectUsedVlansOnParentSubnetsFromNSX env w (p # ps) excludeCRUID =
    (case listBindingMapsByParentSubnetPath env w p of
       None \<Rightarrow> None
     | Some (Inl err) \<Rightarrow> Some (Inl err)
     | Some (Inr bms) \<Rightarrow> map_option (\<lambda>r. bind_res r (\<lambda>used. Inr (usedVlans excludeCRUID bms \<union> used)))
         (CollectUsedVlansOnParentSubnetsFromNSX env w ps excludeCRUID))"

text \<open>The collector that the service hands to the VLAN pool; it is asked once per operation.\<close>

definition collect ::
  "('w, 's, 'd, 'v, 'e) binding_env \<Rightarrow> ('w, 's) binding_state \<Rightarrow> string list \<Rightarrow> string \<Rightarrow> bool \<Rightarrow> (gerror + int set) option" where
  "collect env st paths excludeCRUID fromNSX =
    (if fromNSX then CollectUsedVlansOnParentSubnetsFromNSX env (bsNSX st) paths excludeCRUID
     else Some (CollectUsedVlansOnParentSubnetsFromCache (beOps env) (bsStore st) paths excludeCRUID))"

definition vlan_go_error :: "vlan_error \<Rightarrow> go_error" where
  "vlan_go_error e = (case e of VlanAllocationError m \<Rightarrow> OtherError m)"

definition reconcileFixed ::
  "('w, 's, 'd, 'v, 'e) binding_env \<Rightarrow> ('w, 's) binding_state \<Rightarrow> binding_cr \<Rightarrow> int \<Rightarrow> string list \<Rightarrow> bool \<Rightarrow>
   ((go_error + int) \<times> ('w, 's) binding_state) option" where
  "reconcileFixed env st cr vlan parentSubnetPaths fromNSX =
    map_option (\<lambda>used.
      case ValidateManualVlan (\<lambda>_ _ _. used) (bsPool st) parentSubnetPaths vlan (UID (crMeta cr)) fromNSX of
        (Some e, pool) \<Rightarrow> (Inl (vlan_go_error e), st\<lparr>bsPool := pool\<rparr>)
      | (None, pool) \<Rightarrow> (Inr vlan, st\<lparr>bsPool := pool\<rparr>))
      (collect env st parentSubnetPaths (UID (crMeta cr)) fromNSX)"

definition ReconcileVlanTrafficTag ::
  "('w, 's, 'd, 'v, 'e) binding_env \<Rightarrow> ('w, 's) binding_state \<Rightarrow> binding_cr \<Rightarrow> int \<Rightarrow> string list \<Rightarrow> bool \<Rightarrow>
   ((go_error + int) \<times> ('w, 's) binding_state) option" where
  "ReconcileVlanTrafficTag env st cr preferred parentSubnetPaths fromNSX =
    (case crVLANTrafficTag cr of
       Some vlan \<Rightarrow> reconcileFixed env st cr vlan parentSubnetPaths fromNSX
     | None \<Rightarrow>
       if beRestoreMode env \<and> crStatusVLANTrafficTag cr \<noteq> None
       then reconcileFixed env st cr (the (crStatusVLANTrafficTag cr)) parentSubnetPaths fromNSX
       else
         (let reused = (case (if fromNSX then [] else GetBindingsByBindingMapCRUID (beOps env) (bsStore st) (UID (crMeta cr))) of
            bm # _ \<Rightarrow> bmVlanTrafficTag bm
          | [] \<Rightarrow> None) in
         case reused of
           Some vlan \<Rightarrow> Some (Inr vlan, st)
         | None \<Rightarrow>
             map_option (\<lambda>used.
               case Allocate (\<lambda>_ _ _. used) (bsPool st) parentSubnetPaths (UID (crMeta cr)) preferred fromNSX of
                 (Inl e, pool) \<Rightarrow> (Inl (vlan_go_error e), st\<lparr>bsPool := pool\<rparr>)
               | (Inr vlan, pool) \<Rightarrow> (Inr vlan, st\<lparr>bsPool := pool\<rparr>))
               (collect env st parentSubnetPaths (UID (crMeta cr)) fromNSX)))"

section \<open>Applying binding maps\<close>

text \<open>One listing of the bindings below a Subnet: the cursor and the map of results live outside the loop, so they
  keep their values when it is entered again.\<close>

partial_function (option) listLoop ::
  "('w, 's, 'd, 'v, 'e) binding_env \<Rightarrow> vpc_resource_info \<Rightarrow> string option \<Rightarrow> (string \<times> binding_map) list \<Rightarrow> 'w
    \<Rightarrow> (go_error option \<times> string option \<times> (string \<times> binding_map) list \<times> 'w) option" where
  "listLoop env info cursor found w =
    (case beList env (OrgID info) (ProjectID info) (VPCID info) (ResID info) cursor w of
       (Inl listErr, w') \<Rightarrow> Some (TransNSXApiError (beApi env) (Some listErr), cursor, found, w')
     | (Inr (results, next), w') \<Rightarrow>
         (let found' = foldl (\<lambda>m bm. AList.update (the (bmId bm)) bm m) found results in
          case next of
            None \<Rightarrow> Some (None, cursor, found', w')
          | Some c \<Rightarrow> listLoop env info (Some c) found' w'))"

declare listLoop.simps [code]

definition retriable :: "go_error \<Rightarrow> bool" where
  "retriable err = (case err of NSXApiError _ _ \<Rightarrow> False | _ \<Rightarrow> True)"

definition missingError :: go_error where
  "missingError = OtherError ''Subnet connection binding maps not found in NSX''"

text \<open>\<open>retry.OnError\<close> with the steps of \<open>NSXTRealizeRetry\<close>: the function is run until it succeeds or fails with an
  error that is not retriable, at most that many times; the last error is returned.\<close>

fun realizeLoop ::
  "('w, 's, 'd, 'v, 'e) binding_env \<Rightarrow> vpc_resource_info \<Rightarrow> nat \<Rightarrow> go_error option \<Rightarrow> string option \<Rightarrow>
   (string \<times> binding_map) list \<Rightarrow> binding_map list \<Rightarrow> 'w \<Rightarrow> 's \<Rightarrow> (go_error option \<times> 'w \<times> 's) option" where
  "realizeLoop env info 0 lastErr cursor found pending w s = Some (lastErr, w, s)"
| "realizeLoop env info (Suc n) lastErr cursor found pending w s =
    (case listLoop env info cursor found w of
       None \<Rightarrow> None
     | Some (Some e, cursor', found', w') \<Rightarrow>
         (if retriable e then realizeLoop env info n (Some e) cursor' found' pending w' s else Some (Some e, w', s))
     | Some (None, cursor', found', w') \<Rightarrow>
         (let realized = List.map_filter (\<lambda>bm. map_of found' (the (bmId bm))) pending;
              missing = filter (\<lambda>bm. map_of found' (the (bmId bm)) = None) pending;
              s' = foldl (BindingStore_Apply (beOps env)) s realized in
          if missing = [] then Some (None, w', s')
          else realizeLoop env info n (Some missingError) cursor' found' missing w' s'))"

definition service_Apply ::
  "('w, 's, 'd, 'v, 'e) binding_env \<Rightarrow> ('w, 's) binding_state \<Rightarrow> string \<Rightarrow> binding_map list \<Rightarrow>
   (go_error option \<times> ('w, 's) binding_state) option" where
  "service_Apply env st subnetPath bindingMaps =
    (case ParseVPCResourcePath subnetPath of
       Inl err \<Rightarrow> Some (Some (OtherError err), st)
     | Inr info \<Rightarrow>
        (case BuildOrgRoot (beConv env) (beTreeOrder env) bindingBuilder (map bm_resource bindingMaps) subnetPath of
           None \<Rightarrow> None
         | Some (Inl err) \<Rightarrow> Some (Some err, st)
         | Some (Inr orgRoot) \<Rightarrow>
            (case bePatch env orgRoot False (bsNSX st) of
               (Some e, w) \<Rightarrow> Some (TransNSXApiError (beApi env) (Some e), st\<lparr>bsNSX := w\<rparr>)
             | (None, w) \<Rightarrow>
                (let s1 = foldl (BindingStore_Apply (beOps env)) (bsStore st)
                            (filter (\<lambda>bm. bmMarkedForDelete bm = Some True) bindingMaps);
                     pending = filter (\<lambda>bm. bmMarkedForDelete bm \<noteq> Some True) bindingMaps in
                 map_option (\<lambda>(err, w', s'). (err, st\<lparr>bsNSX := w', bsStore := s'\<rparr>))
                   (realizeLoop env info NSXTRealizeRetrySteps None None [] pending w s1)))))"

section \<open>Creating and updating\<close>

text \<open>The loop over the desired bindings, in the order of the map; a nil id or name of an existing binding is \<open>the None\<close>.\<close>

definition updatedBindings ::
  "('w, 's, 'd, 'v, 'e) binding_env \<Rightarrow> (string \<times> binding_map) list \<Rightarrow> (string \<times> binding_map) list \<Rightarrow> binding_map list" where
  "updatedBindings env desired existing =
    List.map_filter (\<lambda>(k, v). case map_of existing k of
        None \<Rightarrow> Some v
      | Some e \<Rightarrow>
         (let v' = v\<lparr>bmId := Some (the (bmId e)), bmDisplayName := Some (the (bmDisplayName e))\<rparr> in
          if CompareResource (beEnc env) binding_Value e v' then Some v' else None)) (beOrder env desired)
    @ map (\<lambda>(k, v). v\<lparr>bmMarkedForDelete := Some True\<rparr>)
        (filter (\<lambda>(k, v). map_of desired k = None) (beOrder env existing))"

definition createOrUpdateBindingMapInternal ::
  "('w, 's, 'd, 'v, 'e) binding_env \<Rightarrow> ('w, 's) binding_state \<Rightarrow> binding_cr \<Rightarrow> int \<Rightarrow> string \<Rightarrow> string list \<Rightarrow>
   (go_error option \<times> ('w, 's) binding_state) option" where
  "createOrUpdateBindingMapInternal env st cr vlanID subnetPath targetSubnetPaths =
    Option.bind (buildSubnetBindings (beOps env) (beUUID env) (beCluster env) (bsStore st) cr vlanID targetSubnetPaths) (\<lambda>built.
    Option.bind (bindingMapsToMap [] built) (\<lambda>desired.
    Option.bind (bindingMapsToMap [] (map Some (GetBindingsByBindingMapCRUID (beOps env) (bsStore st) (UID (crMeta cr))))) (\<lambda>existing.
    service_Apply env st subnetPath (updatedBindings env desired existing))))"

definition reconcileVlanAndBindingMap ::
  "('w, 's, 'd, 'v, 'e) binding_env \<Rightarrow> ('w, 's) binding_state \<Rightarrow> binding_cr \<Rightarrow> int \<Rightarrow> string list \<Rightarrow> string \<Rightarrow> string list \<Rightarrow> bool \<Rightarrow>
   ((go_error + int) \<times> ('w, 's) binding_state) option" where
  "reconcileVlanAndBindingMap env st cr preferred parentSubnetPaths subnetPath targetSubnetPaths fromNSX =
    (case ReconcileVlanTrafficTag env st cr preferred parentSubnetPaths fromNSX of
       None \<Rightarrow> None
     | Some (Inl err, st1) \<Rightarrow> Some (Inl err, st1)
     | Some (Inr vlanID, st1) \<Rightarrow>
        (case createOrUpdateBindingMapInternal env st1 cr vlanID subnetPath targetSubnetPaths of
           None \<Rightarrow> None
         | Some (None, st2) \<Rightarrow>
             Some (Inr vlanID, st2\<lparr>bsPool := CommitPending (bsPool st2) parentSubnetPaths vlanID\<rparr>)
         | Some (Some err, st2) \<Rightarrow>
             Some (Inl err, st2\<lparr>bsPool := ReleasePending (bsPool st2) parentSubnetPaths vlanID\<rparr>)))"

definition CreateOrUpdateSubnetConnectionBindingMap ::
  "('w, 's, 'd, 'v, 'e) binding_env \<Rightarrow> ('w, 's) binding_state \<Rightarrow> binding_cr \<Rightarrow> int \<Rightarrow> string \<Rightarrow> string list \<Rightarrow>
   ((go_error + int) \<times> ('w, 's) binding_state) option" where
  "CreateOrUpdateSubnetConnectionBindingMap env st cr preferredVlan subnetPath targetSubnetPaths =
    (let parentSubnetPaths = (if IsBranchAssociation cr then [subnetPath] else targetSubnetPaths) in
     case reconcileVlanAndBindingMap env st cr preferredVlan parentSubnetPaths subnetPath targetSubnetPaths False of
       None \<Rightarrow> None
     | Some (Inr vlanID, st1) \<Rightarrow> Some (Inr vlanID, st1)
     | Some (Inl err, st1) \<Rightarrow>
        (if \<not> HasVlanTrafficTag cr \<and> IsVpcOverlapVlanError (Some err)
         then reconcileVlanAndBindingMap env st1 cr preferredVlan parentSubnetPaths subnetPath targetSubnetPaths True
         else Some (Inl err, st1)))"

section \<open>Deleting\<close>

definition deleteBindings ::
  "('w, 's, 'd, 'v, 'e) binding_env \<Rightarrow> (nat \<Rightarrow> gerror option) \<Rightarrow> ('w, 's) binding_state \<Rightarrow> binding_map list \<Rightarrow>
   (go_error option \<times> ('w, 's) binding_state) option" where
  "deleteBindings env ctxDone st bms =
    map_option (\<lambda>(err, w, s). (err, st\<lparr>bsNSX := w, bsStore := s\<rparr>))
      (PagingUpdateResources (beConv env) (beTreeOrder env) (beApi env) (bePatch env) bindingBuilder ctxDone
         (map bm_resource bms) DefaultHAPIChildrenCount
         (Some (\<lambda>objs s. DeleteMultipleObjects (beOps env) s (map ResBody objs))) (bsNSX st) (bsStore st))"

text \<open>The bindings are copied before they are marked; the context is never done.\<close>

definition deleteSubnetConnectionBindingMaps ::
  "('w, 's, 'd, 'v, 'e) binding_env \<Rightarrow> ('w, 's) binding_state \<Rightarrow> binding_map list \<Rightarrow>
   (go_error option \<times> ('w, 's) binding_state) option" where
  "deleteSubnetConnectionBindingMaps env st bindingMaps =
    (if bindingMaps = [] then Some (None, st)
     else deleteBindings env (\<lambda>_. None) st (map (\<lambda>bm. bm\<lparr>bmMarkedForDelete := Some True\<rparr>) bindingMaps))"

definition DeleteSubnetConnectionBindingMapsByCRName ::
  "('w, 's, 'd, 'v, 'e) binding_env \<Rightarrow> ('w, 's) binding_state \<Rightarrow> string \<Rightarrow> string \<Rightarrow>
   (go_error option \<times> ('w, 's) binding_state) option" where
  "DeleteSubnetConnectionBindingMapsByCRName env st bindingName bindingNamespace =
    deleteSubnetConnectionBindingMaps env st
      (getBindingsByBindingMapCRName (beOps env) (bsStore st) bindingName bindingNamespace)"

definition DeleteSubnetConnectionBindingMapsByParentSubnet ::
  "('w, 's, 'd, 'v, 'e) binding_env \<Rightarrow> ('w, 's) binding_state \<Rightarrow> string option \<Rightarrow>
   (go_error option \<times> ('w, 's) binding_state) option" where
  "DeleteSubnetConnectionBindingMapsByParentSubnet env st parentSubnetPath =
    (case parentSubnetPath of
       None \<Rightarrow> Some (None, st)
     | Some p \<Rightarrow> deleteSubnetConnectionBindingMaps env st (GetBindingsByParentSubnet (beOps env) (bsStore st) p))"

text \<open>\<open>crs\<close> is the set of CR UIDs in its iteration order.\<close>

definition DeleteMultiSubnetConnectionBindingMapsByCRs ::
  "('w, 's, 'd, 'v, 'e) binding_env \<Rightarrow> ('w, 's) binding_state \<Rightarrow> string list \<Rightarrow>
   (go_error option \<times> ('w, 's) binding_state) option" where
  "DeleteMultiSubnetConnectionBindingMapsByCRs env st crs =
    (if crs = [] then Some (None, st)
     else deleteSubnetConnectionBindingMaps env st
       (concat (map (GetBindingsByBindingMapCRUID (beOps env) (bsStore st)) crs)))"

text \<open>The clean-up marks the objects of the store themselves, through their pointers.\<close>

definition CleanupBeforeVPCDeletion ::
  "('w, 's, 'd, 'v, 'e) binding_env \<Rightarrow> (nat \<Rightarrow> gerror option) \<Rightarrow> ('w, 's) binding_state \<Rightarrow>
   (go_error option \<times> ('w, 's) binding_state) option" where
  "CleanupBeforeVPCDeletion env ctxDone st =
    (let bms = map (\<lambda>bm. bm\<lparr>bmMarkedForDelete := Some True\<rparr>) (ixList (beOps env) (bsStore st)) in
     if bms = [] then Some (None, st)
     else deleteBindings env ctxDone (st\<lparr>bsStore := foldl (ixAdd (beOps env)) (bsStore st) bms\<rparr>) bms)"

section \<open>Queries\<close>

definition GetSubnetConnectionBindingMapsBySubnet :: "('s, binding_map) indexer_ops \<Rightarrow> 's \<Rightarrow> string \<Rightarrow> binding_map list" where
  "GetSubnetConnectionBindingMapsBySubnet ops s subnetPath =
    (let byChild = GetBindingsByChildSubnet ops s subnetPath in
     if 0 < length byChild then byChild else GetBindingsByParentSubnet ops s subnetPath)"

definition GetSubnetConnectionBindingMapCRsBySubnet :: "('s, binding_map) indexer_ops \<Rightarrow> 's \<Rightarrow> string \<Rightarrow> object_meta list" where
  "GetSubnetConnectionBindingMapCRsBySubnet ops s subnetPath =
    List.map_filter (\<lambda>bm. case buildSubnetConnectionBindingMapCR bm of Inl _ \<Rightarrow> None | Inr m \<Rightarrow> Some m)
      (GetSubnetConnectionBindingMapsBySubnet ops s subnetPath)"

definition ListSubnetConnectionBindingMapCRUIDsInStore :: "('s, binding_map) indexer_ops \<Rightarrow> 's \<Rightarrow> string set" where
  "ListSubnetConnectionBindingMapCRUIDsInStore ops s =
    set (List.map_filter (\<lambda>bm. case buildSubnetConnectionBindingMapCR bm of Inl _ \<Rightarrow> None | Inr m \<Rightarrow> Some (UID m)) (ixList ops s))"

definition GetSubnetConnectionBindingMapCRName :: "binding_map option \<Rightarrow> string" where
  "GetSubnetConnectionBindingMapCRName bindingMap =
    (case bindingMap of None \<Rightarrow> []
     | Some bm \<Rightarrow> (case List.find (\<lambda>t. the (fst t) = TagScopeSubnetBindingCRName) (bmTags bm) of
         Some t \<Rightarrow> the (snd t) | None \<Rightarrow> []))"

section \<open>Interfaces\<close>

text \<open>The store of the service and the local store of the search are indexers; the compared value determines what is
  compared; the cache is a source of the VLAN tags in use.\<close>

interpretation binding_store: indexer SetupStore keyFunc bindingIndexers
  unfolding SetupStore_def by (rule indexer_al_ops)

interpretation local_store: indexer localOps keyFunc "\<lambda>name bm. []"
  unfolding localOps_def by (rule indexer_al_ops)

interpretation binding_compare: comparable binding_Key binding_Value "\<lambda>v. v"
  by unfold_locales

definition cacheInuse :: "('s, binding_map) indexer_ops \<Rightarrow> 's \<Rightarrow> bool \<Rightarrow> string \<Rightarrow> (string \<times> int) set" where
  "cacheInuse ops s fromNSX p =
    {(u, v). \<exists>bm \<in> set (GetBindingsByParentSubnet ops s p). bindingMapCRUID bm = u \<and> bmVlanTrafficTag bm = Some v}"

lemma usedVlans_iff:
  "v \<in> usedVlans e bms \<longleftrightarrow> (\<exists>bm \<in> set bms. bmVlanTrafficTag bm = Some v \<and> \<not> (e \<noteq> [] \<and> bindingMapCRUID bm = e))"
  by (induction bms) (auto simp: usedVlans_def List.map_filter_simps split: option.splits if_splits)

lemma foldl_union: "foldl (\<lambda>used p. used \<union> f p) a ps = a \<union> (\<Union>p \<in> set ps. f p)"
  by (induction ps arbitrary: a) auto

interpretation cache: vlan_source "\<lambda>fromNSX. CollectUsedVlansOnParentSubnetsFromCache ops s" "cacheInuse ops s" for ops s
proof
  show "used = {v. \<exists>p \<in> set paths. \<exists>u. (u, v) \<in> cacheInuse ops s fromNSX p \<and> \<not> (excl \<noteq> '''' \<and> u = excl)}"
    if "CollectUsedVlansOnParentSubnetsFromCache ops s paths excl = Inr used" for fromNSX paths excl used
    using that unfolding CollectUsedVlansOnParentSubnetsFromCache_def foldl_union cacheInuse_def
    by (auto simp: usedVlans_iff) blast+
qed

section \<open>The pool during an update\<close>

lemma service_Apply_pool: "service_Apply env st p bms = Some (e, st') \<Longrightarrow> bsPool st' = bsPool st"
  by (auto simp: service_Apply_def Let_def split: sum.splits option.splits prod.splits)

lemma createOrUpdate_pool:
  "createOrUpdateBindingMapInternal env st cr v p ts = Some (e, st') \<Longrightarrow> bsPool st' = bsPool st"
  by (auto simp: createOrUpdateBindingMapInternal_def bind_eq_Some_conv dest: service_Apply_pool)

lemma pendingOf_key: "poolKey p = poolKey q \<Longrightarrow> pendingOf s p = pendingOf s q"
  by (simp add: pendingOf_def getPoolState_def)

lemma pendingOf_update:
  assumes "X \<subseteq> pendingOf s p \<union> Y"
  shows "pendingOf (setPending (snd (getPoolState s p)) p X) q \<subseteq> pendingOf s q \<union> (if poolKey p = poolKey q then Y else {})"
proof (cases "poolKey p = poolKey q")
  case True
  then show ?thesis using assms unfolding pendingOf_key [OF True] by (simp add: pendingOf_setPending)
qed (simp add: pendingOf_setPending)

lemma pendingOf_reserve:
  "pendingOf (setPending (snd (getPoolState s p)) p (insert v (pendingOf s p - used))) q
    \<subseteq> pendingOf s q \<union> (if poolKey p = poolKey q then {v} else {})"
  by (rule pendingOf_update) blast

lemma pendingOf_clean:
  "pendingOf (setPending (snd (getPoolState s p)) p (pendingOf s p - used)) q \<subseteq> pendingOf s q"
  using pendingOf_update [of "pendingOf s p - used" s p "{}" q] by auto

lemma Allocate_pending:
  assumes "Allocate col s p u pref f = (r, s')"
  shows "pendingOf s' q \<subseteq> pendingOf s q \<union> (case r of Inl _ \<Rightarrow> {} | Inr v \<Rightarrow> if poolKey p = poolKey q then {v} else {})"
proof (cases "col f p u")
  case (Inr used)
  with assms have a: "allocateLocked s p used pref = (r, s')" by (simp add: Allocate_def collectUsed_def)
  show ?thesis
  proof (cases rule: allocateLocked_cases [of s p used pref])
    case (ok v)
    then show ?thesis using a pendingOf_reserve [of s p v used q] by auto
  next
    case full
    then show ?thesis using a pendingOf_clean [of s p used q] by auto
  qed
qed (use assms in \<open>auto simp: Allocate_def collectUsed_def\<close>)

lemma Validate_pending:
  assumes "ValidateManualVlan col s p v u f = (r, s')"
  shows "pendingOf s' q \<subseteq> pendingOf s q \<union> (if r = None \<and> poolKey p = poolKey q then {v} else {})"
proof (cases "col f p u")
  case (Inr used)
  with assms have "r = None \<and> s' = setPending (snd (getPoolState s p)) p (insert v (pendingOf s p - used))
    \<or> r \<noteq> None \<and> s' = setPending (snd (getPoolState s p)) p (pendingOf s p - used)"
    by (auto simp: ValidateManualVlan_def collectUsed_def cleanupCommittedPending_def Let_def case_prod_beta split: if_splits)
  then show ?thesis
    using pendingOf_reserve [of s p v used q] pendingOf_clean [of s p used q] by auto
qed (use assms in \<open>auto simp: ValidateManualVlan_def collectUsed_def\<close>)

lemma reconcileFixed_pending:
  assumes "reconcileFixed env st cr v ps f = Some (r, st')"
  shows "pendingOf (bsPool st') q \<subseteq> pendingOf (bsPool st) q
    \<union> (case r of Inl _ \<Rightarrow> {} | Inr v \<Rightarrow> if poolKey ps = poolKey q then {v} else {})"
proof -
  obtain used e pool where u: "collect env st ps (UID (crMeta cr)) f = Some used"
    "ValidateManualVlan (\<lambda>_ _ _. used) (bsPool st) ps v (UID (crMeta cr)) f = (e, pool)"
    using assms by (auto simp: reconcileFixed_def) (metis surj_pair)
  show ?thesis
    using assms u Validate_pending [OF u(2), of q] by (cases e) (auto simp: reconcileFixed_def split: if_splits)
qed

lemma Reconcile_pending:
  assumes "ReconcileVlanTrafficTag env st cr pref ps f = Some (r, st')"
  shows "pendingOf (bsPool st') q \<subseteq> pendingOf (bsPool st) q
    \<union> (case r of Inl _ \<Rightarrow> {} | Inr v \<Rightarrow> if poolKey ps = poolKey q then {v} else {})"
proof -
  consider (fixed) v where "reconcileFixed env st cr v ps f = Some (r, st')"
    | (reused) v where "r = Inr v" "st' = st"
    | (alloc) used where "collect env st ps (UID (crMeta cr)) f = Some used"
        "(case Allocate (\<lambda>_ _ _. used) (bsPool st) ps (UID (crMeta cr)) pref f of
                 (Inl e, pool) \<Rightarrow> (Inl (vlan_go_error e), st\<lparr>bsPool := pool\<rparr>)
               | (Inr vlan, pool) \<Rightarrow> (Inr vlan, st\<lparr>bsPool := pool\<rparr>)) = (r, st')"
    using assms by (auto simp: ReconcileVlanTrafficTag_def Let_def split: option.splits if_splits)
  then show ?thesis
  proof cases
    case alloc
    obtain a pool where a: "Allocate (\<lambda>_ _ _. used) (bsPool st) ps (UID (crMeta cr)) pref f = (a, pool)"
      by (metis surj_pair)
    with alloc(2) Allocate_pending [OF a, of q] show ?thesis by (cases a) auto
  qed (auto dest: reconcileFixed_pending [THEN subsetD])
qed

lemma reconcileVlanAndBindingMap_pending:
  assumes "reconcileVlanAndBindingMap env st cr pref ps p ts f = Some (r, st')"
  shows "pendingOf (bsPool st') q - {0} \<subseteq> pendingOf (bsPool st) q"
proof (cases "ReconcileVlanTrafficTag env st cr pref ps f")
  case (Some x)
  then obtain r1 st1 where x: "ReconcileVlanTrafficTag env st cr pref ps f = Some (r1, st1)" by (cases x) auto
  note pend = Reconcile_pending [OF x, of q]
  show ?thesis
  proof (cases r1)
    case (Inl e)
    then show ?thesis using assms x pend by (auto simp: reconcileVlanAndBindingMap_def)
  next
    case (Inr v)
    then obtain e st2 where c: "createOrUpdateBindingMapInternal env st1 cr v p ts = Some (e, st2)"
      using assms x by (auto simp: reconcileVlanAndBindingMap_def split: option.splits)
    have "bsPool st' = CommitPending (bsPool st1) ps v"
      using assms x Inr c createOrUpdate_pool [OF c]
      by (auto simp: reconcileVlanAndBindingMap_def ReleasePending_def split: option.splits)
    then show ?thesis using pend Inr by (auto simp: pendingOf_CommitPending split: if_splits)
  qed
qed (use assms in \<open>simp add: reconcileVlanAndBindingMap_def\<close>)

section \<open>Realization\<close>

text \<open>The list API leaves out the resources that are marked for deletion.\<close>

definition lists_live :: "('w, 's, 'd, 'v, 'e) binding_env \<Rightarrow> bool" where
  "lists_live env \<longleftrightarrow> (\<forall>o' p v i c w rs nxt w'. beList env o' p v i c w = (Inr (rs, nxt), w')
     \<longrightarrow> (\<forall>r \<in> set rs. bmMarkedForDelete r \<noteq> Some True))"

definition found_ok :: "(string \<times> binding_map) list \<Rightarrow> bool" where
  "found_ok found \<longleftrightarrow> (\<forall>k r. map_of found k = Some r \<longrightarrow> keyFunc r = k \<and> bmMarkedForDelete r \<noteq> Some True)"

lemma found_ok_fold:
  "found_ok found \<Longrightarrow> \<forall>r \<in> set rs. bmMarkedForDelete r \<noteq> Some True \<Longrightarrow>
    found_ok (foldl (\<lambda>m bm. AList.update (the (bmId bm)) bm m) found rs)"
proof (induction rs arbitrary: found)
  case (Cons r rs)
  have "found_ok (AList.update (the (bmId r)) r found)"
    using Cons.prems unfolding found_ok_def by (simp add: update_conv' keyFunc_def)
  with Cons show ?case by simp
qed simp

lemma listLoop_found:
  assumes "listLoop env info cursor found w = Some (e, cursor', found', w')" "lists_live env" "found_ok found"
  shows "found_ok found'"
proof -
  have "found_ok (fst (snd (snd x)))" if "listLoop env info cursor found w = Some x" "lists_live env" "found_ok found" for x
    using that
  proof (induction rule: listLoop.raw_induct [rotated, consumes 1, case_names step])
    case (step f env info cursor found w x)
    have live: "\<And>rs nxt w1. beList env (OrgID info) (ProjectID info) (VPCID info) (ResID info) cursor w = (Inr (rs, nxt), w1)
        \<Longrightarrow> \<forall>r \<in> set rs. bmMarkedForDelete r \<noteq> Some True"
      using step(3) unfolding lists_live_def by blast
    obtain res w1 where b: "beList env (OrgID info) (ProjectID info) (VPCID info) (ResID info) cursor w = (res, w1)"
      by (metis surj_pair)
    show ?case
    proof (cases res)
      case (Inl e)
      then show ?thesis using step(2,4) b by auto
    next
      case (Inr rn)
      then obtain rs nxt where rn: "res = Inr (rs, nxt)" by (metis surj_pair)
      note ok = found_ok_fold [OF step(4) live [OF b [unfolded rn]]]
      show ?thesis using step(2) b rn ok step(1) [OF _ step(3) ok] by (cases nxt) (auto simp: Let_def)
    qed
  qed
  from this [OF assms] show ?thesis by simp
qed

lemma foldl_apply_live:
  "\<forall>r \<in> set rs. bmMarkedForDelete r \<noteq> Some True \<Longrightarrow> foldl (BindingStore_Apply ops) s rs = foldl (ixAdd ops) s rs"
  by (induction rs arbitrary: s) (auto simp: BindingStore_Apply_def)

lemma foldl_apply_marked:
  "\<forall>r \<in> set rs. bmMarkedForDelete r = Some True \<Longrightarrow> foldl (BindingStore_Apply ops) s rs = foldl (ixDelete ops) s rs"
  by (induction rs arbitrary: s) (auto simp: BindingStore_Apply_def)

lemma get_fold_add:
  assumes "indexer ops keyFunc idx"
  shows "ixGetByKey ops (foldl (ixAdd ops) s rs) k \<noteq> None \<longleftrightarrow> k \<in> keyFunc ` set rs \<or> ixGetByKey ops s k \<noteq> None"
  by (induction rs rule: rev_induct) (auto simp: indexer.get_add [OF assms])

lemma get_fold_add_other:
  assumes "indexer ops keyFunc idx"
  shows "k \<notin> keyFunc ` set rs \<Longrightarrow> ixGetByKey ops (foldl (ixAdd ops) s rs) k = ixGetByKey ops s k"
  by (induction rs rule: rev_induct) (auto simp: indexer.get_add [OF assms])

lemma realizeLoop_success:
  assumes ix: "indexer (beOps env) keyFunc idx" and live: "lists_live env"
    and "realizeLoop env info n le cursor found pending w s = Some (None, w', s')" "le \<noteq> None \<or> n \<noteq> 0" "found_ok found"
  shows "(\<forall>bm \<in> set pending. ixGetByKey (beOps env) s' (keyFunc bm) \<noteq> None)
    \<and> (\<forall>k. ixGetByKey (beOps env) s k \<noteq> None \<longrightarrow> ixGetByKey (beOps env) s' k \<noteq> None)
    \<and> (\<forall>k. k \<notin> keyFunc ` set pending \<longrightarrow> ixGetByKey (beOps env) s' k = ixGetByKey (beOps env) s k)"
  using assms(3-)
proof (induction n arbitrary: le cursor found pending w s)
  case (Suc n)
  obtain e cursor1 found1 w1 where l: "listLoop env info cursor found w = Some (e, cursor1, found1, w1)"
    using Suc.prems(1) by (auto split: option.splits)
  have ok: "found_ok found1" by (rule listLoop_found [OF l live Suc.prems(3)])
  show ?case
  proof (cases e)
    case (Some err)
    then show ?thesis using Suc.prems l ok Suc.IH [of "Some err" cursor1 found1 pending w1 s] by (auto split: if_splits)
  next
    case None
    define realized where "realized = List.map_filter (\<lambda>bm. map_of found1 (the (bmId bm))) pending"
    define missing where "missing = filter (\<lambda>bm. map_of found1 (the (bmId bm)) = None) pending"
    define s1 where "s1 = foldl (BindingStore_Apply (beOps env)) s realized"
    have rl: "\<forall>r \<in> set realized. bmMarkedForDelete r \<noteq> Some True"
      using ok by (auto simp: realized_def found_ok_def List.map_filter_def)
    have keys: "keyFunc ` set realized = keyFunc ` (set pending - set missing)"
      using ok by (force simp: realized_def missing_def found_ok_def List.map_filter_def keyFunc_def image_iff)
    have s1: "s1 = foldl (ixAdd (beOps env)) s realized" unfolding s1_def by (rule foldl_apply_live [OF rl])
    note get = get_fold_add [OF ix, where s = s and rs = realized, folded s1]
      get_fold_add_other [OF ix, where s = s and rs = realized, folded s1]
    have sub: "keyFunc ` set realized \<subseteq> keyFunc ` set pending" "set missing \<subseteq> set pending"
      using keys by (auto simp: missing_def)
    show ?thesis
    proof (cases "missing = []")
      case True
      then have "s' = s1" using Suc.prems(1) l None
        by (simp add: realized_def [symmetric] missing_def [symmetric] s1_def [symmetric] Let_def)
      then show ?thesis using get keys sub True by auto
    next
      case False
      then have r: "realizeLoop env info n (Some missingError) cursor1 found1 missing w1 s1 = Some (None, w', s')"
        using Suc.prems(1) l None
        by (simp add: realized_def [symmetric] missing_def [symmetric] s1_def [symmetric] Let_def)
      from Suc.IH [OF r _ ok] have IH:
        "\<forall>bm \<in> set missing. ixGetByKey (beOps env) s' (keyFunc bm) \<noteq> None"
        "\<forall>k. ixGetByKey (beOps env) s1 k \<noteq> None \<longrightarrow> ixGetByKey (beOps env) s' k \<noteq> None"
        "\<forall>k. k \<notin> keyFunc ` set missing \<longrightarrow> ixGetByKey (beOps env) s' k = ixGetByKey (beOps env) s1 k" by auto
      have "ixGetByKey (beOps env) s' (keyFunc bm) \<noteq> None" if bm: "bm \<in> set pending" for bm
      proof (cases "bm \<in> set missing")
        case True
        then show ?thesis using IH(1) by blast
      next
        case False
        then have "keyFunc bm \<in> keyFunc ` set realized" using keys bm by blast
        then show ?thesis using IH(2) get(1) by blast
      qed
      moreover have "ixGetByKey (beOps env) s' k = ixGetByKey (beOps env) s k" if "k \<notin> keyFunc ` set pending" for k
      proof -
        have "k \<notin> keyFunc ` set missing" "k \<notin> keyFunc ` set realized" using that sub by auto
        then show ?thesis using IH(3) get(2) by metis
      qed
      moreover have "ixGetByKey (beOps env) s' k \<noteq> None" if "ixGetByKey (beOps env) s k \<noteq> None" for k
        using that IH(2) get(1) [where k = k] by metis
      ultimately show ?thesis by simp
    qed
  qed
qed simp

section \<open>Deletion\<close>

lemma fold_delete_pages:
  "fold (\<lambda>objs s. DeleteMultipleObjects ops s (map ResBody objs)) pages s
    = foldl (ixDelete ops) s (map ResBody (concat pages))"
  unfolding DeleteMultipleObjects_def by (induction pages arbitrary: s) auto

lemma bindingBuilder_path:
  "(SubnetConnectionBindingMapT, subnet_leaf ''SubnetConnectionBindingMap'' ''subnet-connection-binding-maps'') \<in> set policyPaths"
  by (simp add: policyPaths_def)

lemma keyFunc_mark [simp]: "keyFunc (bm\<lparr>bmMarkedForDelete := m\<rparr>) = keyFunc bm"
  by (simp add: keyFunc_def)

lemma ResBody_bm_resource [simp]: "ResBody (bm_resource bm) = bm"
  by (simp add: bm_resource_def)

lemma deleteBindings_cases:
  obtains es pages w' where "concat pages = map bm_resource bms" "length es = length pages"
    "deleteBindings env (\<lambda>_. None) st bms = Some (lastError None es, st\<lparr>bsNSX := w',
       bsStore := foldl (ixDelete (beOps env)) (bsStore st) (map ResBody (concat (succeeded pages es)))\<rparr>)"
proof -
  obtain pages es w' where r: "concat pages = map bm_resource bms"
    "runs (UpdateMultipleResourcesOnNSX (beConv env) (beTreeOrder env) (beApi env) (bePatch env) bindingBuilder) pages es (bsNSX st) w'"
    "PagingUpdateResources (beConv env) (beTreeOrder env) (beApi env) (bePatch env) bindingBuilder (\<lambda>_. None)
       (map bm_resource bms) DefaultHAPIChildrenCount
       (Some (\<lambda>objs s. DeleteMultipleObjects (beOps env) s (map ResBody objs))) (bsNSX st) (bsStore st)
      = Some (lastError None es, w', fold (\<lambda>objs s. DeleteMultipleObjects (beOps env) s (map ResBody objs)) (succeeded pages es) (bsStore st))"
    using PagingUpdateResources_runs [OF bindingBuilder_path, of DefaultHAPIChildrenCount "map bm_resource bms"
        "beConv env" "beTreeOrder env" "beApi env" "bePatch env" "bsNSX st"
        "\<lambda>objs s. DeleteMultipleObjects (beOps env) s (map ResBody objs)" "bsStore st", folded bindingBuilder_def]
    by (auto simp: DefaultHAPIChildrenCount_def)
  show thesis
    by (rule that [OF r(1) runs_length [OF r(2)]]) (simp add: deleteBindings_def r(3) fold_delete_pages)
qed

section \<open>Properties\<close>

text \<open>C7. Creating or updating a binding never leaves a VLAN reserved in the pool: whatever happens (success, allocation error,
  refused PATCH, missing realization, fallback to NSX), every pending VLAN of every pool was pending before. VLAN 0, which
  is not a valid tag, is the only exception.\<close>

theorem CreateOrUpdate_leaves_no_pending:
  assumes "CreateOrUpdateSubnetConnectionBindingMap env st cr preferredVlan subnetPath targets = Some (r, st')"
  shows "pendingOf (bsPool st') q - {0} \<subseteq> pendingOf (bsPool st) q"
proof -
  let ?ps = "if IsBranchAssociation cr then [subnetPath] else targets"
  obtain r1 st1 where f: "reconcileVlanAndBindingMap env st cr preferredVlan ?ps subnetPath targets False = Some (r1, st1)"
    using assms by (auto simp: CreateOrUpdateSubnetConnectionBindingMap_def Let_def split: option.splits)
  note first = reconcileVlanAndBindingMap_pending [OF f, of q]
  have "st' = st1 \<or> reconcileVlanAndBindingMap env st1 cr preferredVlan ?ps subnetPath targets True = Some (r, st')"
    using assms f by (cases r1) (auto simp: CreateOrUpdateSubnetConnectionBindingMap_def Let_def split: if_splits)
  then show ?thesis using first reconcileVlanAndBindingMap_pending [of env st1 cr preferredVlan ?ps subnetPath targets True r st' q] by auto
qed

text \<open>C8. A VLAN that is allocated from the cache lies in the pool's range, is reserved, was not reserved before, and no binding of
  another CR that the store holds on one of the parent Subnets uses it.\<close>

theorem Reconcile_allocates_unused_vlan:
  assumes ops: "beOps env = SetupStore" and "crVLANTrafficTag cr = None" "\<not> beRestoreMode env"
    and new: "GetBindingsByBindingMapCRUID SetupStore (bsStore st) (UID (crMeta cr)) = []"
    and r: "ReconcileVlanTrafficTag env st cr preferred paths False = Some (Inr v, st')"
  shows "poolStart \<le> v \<and> v \<le> poolEnd \<and> v \<in> pendingOf (bsPool st') paths \<and> v \<notin> pendingOf (bsPool st) paths
    \<and> (\<forall>bm p. ixGetByKey SetupStore (bsStore st) (keyFunc bm) = Some bm \<longrightarrow> p \<in> set paths \<longrightarrow> p \<in> set (parentSubnetIndexFunc bm)
         \<longrightarrow> bmVlanTrafficTag bm = Some v \<longrightarrow> bindingMapCRUID bm = UID (crMeta cr))"
proof -
  let ?c = "\<lambda>fromNSX. CollectUsedVlansOnParentSubnetsFromCache SetupStore (bsStore st)" and ?u = "UID (crMeta cr)"
  obtain a pool where a: "Allocate ?c (bsPool st) paths ?u preferred False = (a, pool)" by (metis surj_pair)
  have "Allocate (\<lambda>_ _ _. ?c False paths ?u) (bsPool st) paths ?u preferred False = (a, pool)"
    using a by (simp add: Allocate_def collectUsed_def)
  then have a': "a = Inr v" "bsPool st' = pool"
    using assms by (auto simp: ReconcileVlanTrafficTag_def collect_def Let_def split: sum.splits)
  note fresh = cache.Allocate_fresh [OF a [unfolded a']]
  have "bindingMapCRUID bm = ?u" if "ixGetByKey SetupStore (bsStore st) (keyFunc bm) = Some bm" "p \<in> set paths"
    "p \<in> set (parentSubnetIndexFunc bm)" "bmVlanTrafficTag bm = Some v" for bm p
  proof -
    have "bm \<in> set (GetBindingsByParentSubnet SetupStore (bsStore st) p)"
      using that by (simp add: GetBindingsByParentSubnet_def GetByIndex_def binding_store.by_index_iff bindingIndexers_def)
    then have "(bindingMapCRUID bm, v) \<in> cacheInuse SetupStore (bsStore st) False p"
      using that by (auto simp: cacheInuse_def)
    then show ?thesis by (rule fresh(5) [OF that(2)])
  qed
  then show ?thesis using fresh(1-4) a'(2) by blast
qed

text \<open>When applying bindings succeeds, every binding that was not marked for deletion is in the store under its id, and every
  marked one has left it.\<close>

theorem service_Apply_stores_realized:
  assumes ix: "indexer (beOps env) keyFunc idx" and live: "lists_live env"
    and r: "service_Apply env st subnetPath bms = Some (None, st')"
  shows "(\<forall>bm \<in> set bms. bmMarkedForDelete bm \<noteq> Some True \<longrightarrow> ixGetByKey (beOps env) (bsStore st') (keyFunc bm) \<noteq> None)
    \<and> (\<forall>bm \<in> set bms. bmMarkedForDelete bm = Some True \<longrightarrow>
         (\<forall>x \<in> set bms. bmMarkedForDelete x \<noteq> Some True \<longrightarrow> keyFunc x \<noteq> keyFunc bm) \<longrightarrow>
         ixGetByKey (beOps env) (bsStore st') (keyFunc bm) = None)"
proof -
  let ?del = "filter (\<lambda>bm. bmMarkedForDelete bm = Some True) bms" and ?pend = "filter (\<lambda>bm. bmMarkedForDelete bm \<noteq> Some True) bms"
  let ?s1 = "foldl (BindingStore_Apply (beOps env)) (bsStore st) ?del"
  obtain info w w' s' where l: "realizeLoop env info NSXTRealizeRetrySteps None None [] ?pend w ?s1 = Some (None, w', s')"
    "bsStore st' = s'"
    using r by (auto simp: service_Apply_def TransNSXApiError_def Let_def split: sum.splits option.splits prod.splits)
  have s1: "?s1 = foldl (ixDelete (beOps env)) (bsStore st) ?del" by (rule foldl_apply_marked) simp
  have gone: "ixGetByKey (beOps env) ?s1 k = (if k \<in> keyFunc ` set ?del then None else ixGetByKey (beOps env) (bsStore st) k)" for k
    unfolding s1 by (rule indexer.fold_delete [OF ix])
  have res: "(\<forall>bm \<in> set ?pend. ixGetByKey (beOps env) s' (keyFunc bm) \<noteq> None)
    \<and> (\<forall>k. k \<notin> keyFunc ` set ?pend \<longrightarrow> ixGetByKey (beOps env) s' k = ixGetByKey (beOps env) ?s1 k)"
    using realizeLoop_success [OF ix live l(1)] by (simp add: NSXTRealizeRetrySteps_def found_ok_def)
  have "ixGetByKey (beOps env) s' (keyFunc bm) = None" if "bm \<in> set bms" "bmMarkedForDelete bm = Some True"
    "\<forall>x \<in> set bms. bmMarkedForDelete x \<noteq> Some True \<longrightarrow> keyFunc x \<noteq> keyFunc bm" for bm
  proof -
    have "keyFunc bm \<notin> keyFunc ` set ?pend" using that(3) by (auto simp: image_iff)
    moreover have "keyFunc bm \<in> keyFunc ` set ?del" using that(1,2) by auto
    ultimately show ?thesis using res gone by metis
  qed
  with res l(2) show ?thesis by auto
qed

text \<open>Deleting bindings always returns. If it reports success, none of them is left in the store; in every case the other
  bindings are untouched.\<close>

theorem deleteSubnetConnectionBindingMaps_spec:
  assumes ix: "indexer (beOps env) keyFunc idx"
  shows "\<exists>err st'. deleteSubnetConnectionBindingMaps env st bms = Some (err, st')
    \<and> (err = None \<longrightarrow> (\<forall>bm \<in> set bms. ixGetByKey (beOps env) (bsStore st') (keyFunc bm) = None))
    \<and> (\<forall>k. k \<notin> keyFunc ` set bms \<longrightarrow> ixGetByKey (beOps env) (bsStore st') k = ixGetByKey (beOps env) (bsStore st) k)"
proof (cases "bms = []")
  case False
  let ?m = "map (\<lambda>bm. bm\<lparr>bmMarkedForDelete := Some True\<rparr>) bms"
  obtain es pages w' where d: "concat pages = map bm_resource ?m" "length es = length pages"
    "deleteBindings env (\<lambda>_. None) st ?m = Some (lastError None es, st\<lparr>bsNSX := w',
       bsStore := foldl (ixDelete (beOps env)) (bsStore st) (map ResBody (concat (succeeded pages es)))\<rparr>)"
    using deleteBindings_cases .
  note get = indexer.fold_delete [OF ix, of "bsStore st" "map ResBody (concat (succeeded pages es))"]
  have all: "keyFunc ` ResBody ` set (concat pages) = keyFunc ` set bms"
    unfolding d(1) by (simp add: image_image)
  have "set (concat (succeeded pages es)) \<subseteq> set (concat pages)" using succeeded_subset [of pages es] by auto
  then have sub: "keyFunc ` set (map ResBody (concat (succeeded pages es))) \<subseteq> keyFunc ` set bms" 
    unfolding all [symmetric] by (simp only: set_map) (blast intro: image_mono [THEN subsetD])
  have eq: "lastError None es = None \<Longrightarrow> keyFunc ` set (map ResBody (concat (succeeded pages es))) = keyFunc ` set bms"
    using d(2) all succeeded_all [of es pages] by (auto simp: lastError_None)
  define K s' where "K = keyFunc ` set (map ResBody (concat (succeeded pages es)))"
    and "s' = foldl (ixDelete (beOps env)) (bsStore st) (map ResBody (concat (succeeded pages es)))"
  have "ixGetByKey (beOps env) s' k = (if k \<in> K then None else ixGetByKey (beOps env) (bsStore st) k)" for k
    using get unfolding K_def s'_def .
  moreover have "K \<subseteq> keyFunc ` set bms" "lastError None es = None \<Longrightarrow> K = keyFunc ` set bms"
    using sub eq unfolding K_def by auto
  moreover have "deleteSubnetConnectionBindingMaps env st bms = Some (lastError None es, st\<lparr>bsNSX := w', bsStore := s'\<rparr>)"
    using False d(3) by (simp add: deleteSubnetConnectionBindingMaps_def s'_def)
  ultimately show ?thesis by auto
qed (simp add: deleteSubnetConnectionBindingMaps_def)

text \<open>Defect: \<open>buildSubnetBindings\<close> announces that it ignores a target path that cannot be parsed, but leaves a nil entry for it,
  which \<open>bindingMapsToMap\<close> dereferences: the reconciliation panics.\<close>

theorem unparsable_target_panics:
  assumes "ParseVPCResourcePath t = Inl e" "t \<in> set targets"
  shows "createOrUpdateBindingMapInternal env st cr vlan subnetPath targets = None"
proof -
  have "None \<in> set built" if "bindingsLoop ops uuid s tags cr vlan i ts = Some built" "t \<in> set ts"
    for ops :: "('b, binding_map) indexer_ops" and uuid s tags i ts built
    using that assms(1) by (induction ts arbitrary: i built) (auto simp: bind_eq_Some_conv split: sum.splits)
  moreover have "bindingMapsToMap m bs = None" if "None \<in> set bs" for m bs
    using that by (induction bs arbitrary: m) (auto split: option.splits)
  ultimately show ?thesis
    using assms(2) by (fastforce simp: createOrUpdateBindingMapInternal_def buildSubnetBindings_def bind_eq_None_conv)
qed

text \<open>The identifier of a binding is made from the last segment of the target's path only, not from the path as the comment of
  \<open>buildSubnetBindingID\<close> says: two targets of the same name in different VPCs get the same identifier.\<close>

theorem same_name_targets_share_id:
  "map_option (map (map_option bmId))
      (buildSubnetBindings SetupStore uuid cluster [] cr vlan
         [''/orgs/default/projects/p1/vpcs/v1/subnets/web'', ''/orgs/default/projects/p1/vpcs/v2/subnets/web''])
    = map_option (\<lambda>i. [Some (Some i), Some (Some i)])
        (GenerateIDByObject \<lparr>Name = Name (crMeta cr), Namespace = [], UID = ''web''\<rparr>)"
proof -
  have p: "ParseVPCResourcePath ''/orgs/default/projects/p1/vpcs/v1/subnets/web'' =
      Inr \<lparr>OrgID = ''default'', ProjectID = ''p1'', VPCID = ''v1'', ResID = ''web'', ParentID = ''v1''\<rparr>"
    "ParseVPCResourcePath ''/orgs/default/projects/p1/vpcs/v2/subnets/web'' =
      Inr \<lparr>OrgID = ''default'', ProjectID = ''p1'', VPCID = ''v2'', ResID = ''web'', ParentID = ''v2''\<rparr>"
    by code_simp+
  have empty: "GetByKey SetupStore [] k = None" for k by (simp add: GetByKey_def SetupStore_def al_ops_def)
  have "buildSubnetBindingID SetupStore (uuid n) [] cr ''web''
      = GenerateIDByObject \<lparr>Name = Name (crMeta cr), Namespace = [], UID = ''web''\<rparr>" for n
    by (cases "GenerateIDByObject \<lparr>Name = Name (crMeta cr), Namespace = [], UID = ''web''\<rparr>")
      (simp_all add: buildSubnetBindingID_def BuildUniqueIDWithRandomUUID_def empty uniqueIdLoop_step)
  then show ?thesis
    by (cases "GenerateIDByObject \<lparr>Name = Name (crMeta cr), Namespace = [], UID = ''web''\<rparr>")
      (simp_all add: buildSubnetBindings_def p)
qed

section \<open>Witnesses\<close>

definition exampleBinding :: "string \<Rightarrow> string \<Rightarrow> int \<Rightarrow> binding_map" where
  "exampleBinding i uid vlan =
    \<lparr>bmId = Some i, bmDisplayName = Some ''b'', bmVlanTrafficTag = Some vlan,
     bmSubnetPath = Some ''/orgs/o/projects/p/vpcs/v/subnets/parent'', bmParentPath = Some ''/orgs/o/projects/p/vpcs/v/subnets/child'',
     bmPath = Some (''/orgs/o/projects/p/vpcs/v/subnets/child/subnet-connection-binding-maps/'' @ i),
     bmSubnetAssociation = None, bmTags = [mk_tag TagScopeSubnetBindingCRUID uid], bmMarkedForDelete = None\<rparr>"

definition exampleCR :: binding_cr where
  "exampleCR = \<lparr>crMeta = \<lparr>Name = ''b'', Namespace = ''ns'', UID = ''u1''\<rparr>, crVLANTrafficTag = None,
     crSubnetAssociation = ''Branch'', crStatusVLANTrafficTag = None\<rparr>"

text \<open>A server that counts its calls, refuses PATCH requests by \<open>refuse\<close> and lists what \<open>listing\<close> says.\<close>

definition exampleEnv ::
  "(nat \<Rightarrow> go_error option) \<Rightarrow> (nat \<Rightarrow> string option \<Rightarrow> binding_map list \<times> string option) \<Rightarrow>
   (nat, (string \<times> binding_map) list, string, binding_map, binding_map) binding_env" where
  "exampleEnv refuse listing =
    \<lparr>beOps = SetupStore, beConv = printConv, beTreeOrder = (\<lambda>xs. xs), beOrder = (\<lambda>xs. xs), beApi = noApi,
     bePatch = (\<lambda>body check w. (refuse w, Suc w)), beList = (\<lambda>o' p v i c w. (Inr (listing w c), Suc w)),
     beQuery = (\<lambda>q w. pageOf []), beDecode = Inr, bePageSize = 1000, beEnc = (\<lambda>v. v), beUUID = (\<lambda>i j. ''uuid''),
     beCluster = ''c'', beRestoreMode = False\<rparr>"

definition exampleState :: "binding_map list \<Rightarrow> (nat, (string \<times> binding_map) list) binding_state" where
  "exampleState bms = \<lparr>bsNSX = 0, bsStore = map (\<lambda>b. (the (bmId b), b)) bms, bsPool = NewService\<rparr>"

definition parentPath1 :: string where "parentPath1 = ''/orgs/o/projects/p/vpcs/v/subnets/parent''"

definition overlapError :: "nat \<Rightarrow> go_error option" where
  "overlapError w = Some (NSXApiError (Some \<lparr>ApiErrorCode = Some 640873, ApiErrorMessage = None, ApiDetails = None, RelatedErrors = None\<rparr>) ''x'')"

theorem CreateOrUpdate_leaves_no_pending_witness:
  "\<exists>st'. CreateOrUpdateSubnetConnectionBindingMap (exampleEnv overlapError (\<lambda>w c. ([], None))) (exampleState []) exampleCR 7 parentPath1 []
      = Some (Inl (the (overlapError 0)), st') \<and> pendingOf (bsPool st') [parentPath1] \<subseteq> {0} \<and> bsNSX st' = 2"
proof -
  let ?X = "CreateOrUpdateSubnetConnectionBindingMap (exampleEnv overlapError (\<lambda>w c. ([], None))) (exampleState []) exampleCR 7 parentPath1 []"
  have "map_option (\<lambda>(r, s). (r, bsNSX s)) ?X = Some (Inl (the (overlapError 0)), 2)" by code_simp
  then obtain st' where x: "?X = Some (Inl (the (overlapError 0)), st')" "bsNSX st' = 2" by auto
  have "pendingOf (bsPool (exampleState [])) [parentPath1] = {}" by (simp add: exampleState_def)
  with x CreateOrUpdate_leaves_no_pending [OF x(1), of "[parentPath1]"] show ?thesis by auto
qed

theorem Reconcile_allocates_unused_vlan_witness:
  "\<exists>st'. ReconcileVlanTrafficTag (exampleEnv (\<lambda>_. None) (\<lambda>w c. ([], None))) (exampleState [exampleBinding ''x'' ''u2'' 1]) exampleCR 1 [parentPath1] False
      = Some (Inr 2, st') \<and> 2 \<in> pendingOf (bsPool st') [parentPath1]"
proof -
  let ?X = "ReconcileVlanTrafficTag (exampleEnv (\<lambda>_. None) (\<lambda>w c. ([], None))) (exampleState [exampleBinding ''x'' ''u2'' 1]) exampleCR 1 [parentPath1] False"
  have "map_option fst ?X = Some (Inr 2)" by code_simp
  then obtain st' where x: "?X = Some (Inr 2, st')" by auto
  have "GetBindingsByBindingMapCRUID SetupStore (bsStore (exampleState [exampleBinding ''x'' ''u2'' 1])) (UID (crMeta exampleCR)) = []"
    by code_simp
  with x Reconcile_allocates_unused_vlan [OF _ _ _ _ x] show ?thesis by (simp add: exampleEnv_def exampleCR_def)
qed

theorem service_Apply_stores_realized_witness:
  "\<exists>st'. service_Apply (exampleEnv (\<lambda>_. None) (\<lambda>w c. ([exampleBinding ''a'' ''u1'' 5], None))) (exampleState [exampleBinding ''old'' ''u1'' 4])
        ''/orgs/o/projects/p/vpcs/v/subnets/child''
        [exampleBinding ''a'' ''u1'' 5, (exampleBinding ''old'' ''u1'' 4)\<lparr>bmMarkedForDelete := Some True\<rparr>]
      = Some (None, st')
    \<and> ixGetByKey SetupStore (bsStore st') ''a'' \<noteq> None \<and> ixGetByKey SetupStore (bsStore st') ''old'' = None"
proof -
  let ?e = "exampleEnv (\<lambda>_. None) (\<lambda>w c. ([exampleBinding ''a'' ''u1'' 5], None))"
    and ?bms = "[exampleBinding ''a'' ''u1'' 5, (exampleBinding ''old'' ''u1'' 4)\<lparr>bmMarkedForDelete := Some True\<rparr>]"
  let ?X = "service_Apply ?e (exampleState [exampleBinding ''old'' ''u1'' 4]) ''/orgs/o/projects/p/vpcs/v/subnets/child'' ?bms"
  have "map_option fst ?X = Some None" by code_simp
  then obtain st' where x: "?X = Some (None, st')" by auto
  have live: "lists_live ?e" by (auto simp: lists_live_def exampleEnv_def exampleBinding_def)
  have ops: "beOps ?e = SetupStore" by (simp add: exampleEnv_def)
  from service_Apply_stores_realized [OF _ live x, unfolded ops, OF binding_store.indexer_axioms] show ?thesis
    using x by (simp add: exampleBinding_def keyFunc_def)
qed

theorem deleteSubnetConnectionBindingMaps_spec_witness:
  "\<exists>err st'. deleteSubnetConnectionBindingMaps (exampleEnv (\<lambda>_. None) (\<lambda>w c. ([], None)))
        (exampleState [exampleBinding ''a'' ''u1'' 4]) [exampleBinding ''a'' ''u1'' 4] = Some (err, st')
    \<and> (err = None \<longrightarrow> ixGetByKey SetupStore (bsStore st') ''a'' = None)"
proof -
  let ?e = "exampleEnv (\<lambda>_. None) (\<lambda>w c. ([], None))"
  have ops: "beOps ?e = SetupStore" by (simp add: exampleEnv_def)
  from deleteSubnetConnectionBindingMaps_spec [where env = ?e and idx = bindingIndexers, unfolded ops, OF binding_store.indexer_axioms,
      of "exampleState [exampleBinding ''a'' ''u1'' 4]" "[exampleBinding ''a'' ''u1'' 4]"]
  show ?thesis by (auto simp: exampleBinding_def keyFunc_def)
qed

theorem unparsable_target_panics_witness:
  "createOrUpdateBindingMapInternal (exampleEnv (\<lambda>_. None) (\<lambda>w c. ([], None))) (exampleState []) exampleCR 5 parentPath1 [''/infra/segments/s''] = None"
proof -
  have "ParseVPCResourcePath ''/infra/segments/s'' = Inl (''invalid path '' @ [CHR 0x27] @ ''/infra/segments/s'' @ [CHR 0x27])" by code_simp
  then show ?thesis by (rule unparsable_target_panics) simp
qed

text \<open>Defect: the cursor of the listing is declared outside the function that is retried, so a retry goes on from the last page.
  A binding that appears on the first page after the first listing is never found: all attempts fail, although a
  listing from the start finds it.\<close>

theorem realize_retry_skips_first_page:
  "map_option fst (realizeLoop
      (exampleEnv (\<lambda>_. None) (\<lambda>w c. if c = None then (if 1 \<le> w then [exampleBinding ''a'' ''u1'' 5] else [], Some ''1'') else ([], None)))
      \<lparr>OrgID = ''o'', ProjectID = ''p'', VPCID = ''v'', ResID = ''child'', ParentID = ''v''\<rparr>
      NSXTRealizeRetrySteps None None [] [exampleBinding ''a'' ''u1'' 5] 0 []) = Some (Some missingError)
   \<and> map_option (\<lambda>(e, c, found, w). map fst found) (listLoop
      (exampleEnv (\<lambda>_. None) (\<lambda>w c. if c = None then (if 1 \<le> w then [exampleBinding ''a'' ''u1'' 5] else [], Some ''1'') else ([], None)))
      \<lparr>OrgID = ''o'', ProjectID = ''p'', VPCID = ''v'', ResID = ''child'', ParentID = ''v''\<rparr> None [] 1) = Some [''a'']"
  by code_simp

end
