(* ===== verification/Retry.thy ===== *)
theory Retry
  imports Prelude NsxErrors
begin

text \<open>
  The retry helper of \<open>pkg/third_party/retry\<close>. The retried function changes a state and may fail; the delays between the
  attempts are recorded, the clock is not modelled. The context is the background context, which is never done.
\<close>

section \<open>Configuration\<close>

text \<open>The random part of a delay is the argument \<open>rnd\<close> of the delay functions.\<close>

record retry_config =
  attempts :: nat
  delay :: int
  maxDelay :: int
  maxBackOffN :: nat
  lastErrorOnly :: bool
  retryIf :: "go_error \<Rightarrow> bool"
  jitterDelay :: "nat \<Rightarrow> int"

definition defaultConfig :: retry_config where
  "defaultConfig = \<lparr>attempts = 10, delay = 100 * 10 ^ 6, maxDelay = 16 * 10 ^ 9, maxBackOffN = 0, lastErrorOnly = False,
     retryIf = (\<lambda>_. True), jitterDelay = (\<lambda>_. 0)\<rparr>"

section \<open>Delays\<close>

text \<open>\<open>math.Floor(math.Log2(float64(d)))\<close> of a positive duration (exact below \<open>2 ^ 48\<close> ns).\<close>

fun floor_log2 :: "nat \<Rightarrow> nat" where
  "floor_log2 n = (if n < 2 then 0 else Suc (floor_log2 (n div 2)))"

declare floor_log2.simps [simp del]

text \<open>The configuration is updated on first use, as in the code; the shift is on 64-bit words.\<close>

definition BackOffDelay :: "nat \<Rightarrow> retry_config \<Rightarrow> int \<times> retry_config" where
  "BackOffDelay n config =
    (let c1 = (if maxBackOffN config = 0 then
                 (let c0 = (if delay config \<le> 0 then config\<lparr>delay := 1\<rparr> else config) in
                  c0\<lparr>maxBackOffN := 62 - floor_log2 (nat (delay c0))\<rparr>)
               else config);
         m = (if maxBackOffN c1 < n then maxBackOffN c1 else n)
     in (sint (push_bit m (word_of_int (delay c1) :: 64 word)), c1))"

definition FixedDelay :: "nat \<Rightarrow> retry_config \<Rightarrow> int \<times> retry_config" where
  "FixedDelay n config = (delay config, config)"

definition RandomDelay :: "nat \<Rightarrow> retry_config \<Rightarrow> int \<times> retry_config" where
  "RandomDelay n config = (jitterDelay config n, config)"

definition max_uint64 :: int where "max_uint64 = 2 ^ 64"

text \<open>The sum is on unsigned 64-bit numbers and is capped at the largest duration.\<close>

fun combineLoop :: "(nat \<Rightarrow> retry_config \<Rightarrow> int \<times> retry_config) list \<Rightarrow> nat \<Rightarrow> retry_config \<Rightarrow> int \<Rightarrow> int \<times> retry_config" where
  "combineLoop [] n config sm = (sm, config)"
| "combineLoop (d # ds) n config sm =
    (let (v, config') = d n config; t = (sm + v) mod max_uint64; t' = (if max_int64 < t then max_int64 else t) in
     combineLoop ds n config' t')"

definition CombineDelay :: "(nat \<Rightarrow> retry_config \<Rightarrow> int \<times> retry_config) list \<Rightarrow> nat \<Rightarrow> retry_config \<Rightarrow> int \<times> retry_config" where
  "CombineDelay delays n config = combineLoop delays n config 0"

definition DefaultDelayType :: "nat \<Rightarrow> retry_config \<Rightarrow> int \<times> retry_config" where
  "DefaultDelayType = CombineDelay [BackOffDelay, RandomDelay]"

section \<open>The retry loop\<close>

text \<open>One iteration per remaining attempt \<open>k\<close>: the error that was returned last, the state and the delays. The log has one
  entry, the last error, or an entry per attempt.\<close>

fun retryLoop ::
  "('s \<Rightarrow> go_error option \<times> 's) \<Rightarrow> retry_config \<Rightarrow> nat \<Rightarrow> nat \<Rightarrow> go_error list \<Rightarrow> int list \<Rightarrow> 's \<Rightarrow>
   go_error list option \<times> int list \<times> 's" where
  "retryLoop f config 0 n errs delays s = (Some errs, delays, s)"
| "retryLoop f config (Suc k) n errs delays s =
    (case f s of
       (None, s') \<Rightarrow> (None, delays, s')
     | (Some err, s') \<Rightarrow>
         (let errs' = (if lastErrorOnly config then [err] else errs @ [err]) in
          if \<not> retryIf config err then (Some errs', delays, s')
          else if k = 0 then (Some errs', delays, s')
          else
            (let (d, config') = DefaultDelayType n config;
                 d' = (if 0 < maxDelay config' \<and> maxDelay config' < d then maxDelay config' else d) in
             retryLoop f config' k (Suc n) errs' (delays @ [d']) s')))"

definition Do :: "('s \<Rightarrow> go_error option \<times> 's) \<Rightarrow> retry_config \<Rightarrow> 's \<Rightarrow> go_error list option \<times> int list \<times> 's" where
  "Do f config s = retryLoop f config (attempts config) 0 [] [] s"

section \<open>Delays are bounded\<close>

lemma floor_log2_bounds: "0 < n \<Longrightarrow> 2 ^ floor_log2 n \<le> n \<and> n < 2 ^ Suc (floor_log2 n)"
proof (induction n rule: floor_log2.induct)
  case (1 n)
  show ?case
  proof (cases "n < 2")
    case True
    with 1 show ?thesis by (simp add: floor_log2.simps)
  next
    case False
    then have "0 < n div 2" by simp
    with 1 False have "2 ^ floor_log2 (n div 2) \<le> n div 2" "n div 2 < 2 ^ Suc (floor_log2 (n div 2))" by auto
    then have "2 ^ Suc (floor_log2 (n div 2)) \<le> n" "n < 2 ^ Suc (Suc (floor_log2 (n div 2)))" by auto
    with False show ?thesis by (simp add: floor_log2.simps [of n])
  qed
qed

text \<open>The shift of the back-off never overflows: the delay is the exact product, up to the cap on the exponent.\<close>

lemma shift_exact:
  assumes "0 < d" "nat d < 2 ^ Suc e" "m \<le> 62 - e" "e \<le> 62"
  shows "sint (push_bit m (word_of_int d :: 64 word)) = d * 2 ^ m"
proof -
  have d: "d < 2 ^ Suc e" using assms(1,2) by (metis nat_less_iff less_imp_le of_nat_numeral of_nat_power)
  have "d * 2 ^ m < 2 ^ Suc e * 2 ^ m" using d by simp
  also have "\<dots> = 2 ^ (Suc e + m)" by (simp add: power_add)
  also have "\<dots> \<le> (2::int) ^ 63" using assms(3,4) by (intro power_increasing) auto
  finally have lt: "d * 2 ^ m < 2 ^ 63" .
  have p: "push_bit m (word_of_int d :: 64 word) = word_of_int (d * 2 ^ m)"
    by (simp add: push_bit_eq_mult)
  have "0 < d * 2 ^ m" using assms(1) by simp
  then show ?thesis using lt unfolding p sint_sbintrunc' by (intro signed_take_bit_int_eq_self) auto
qed

definition config_ok :: "retry_config \<Rightarrow> bool" where
  "config_ok c \<longleftrightarrow> 0 < delay c \<and> delay c < 2 ^ 62 \<and> 0 < maxDelay c
     \<and> (maxBackOffN c = 0 \<or> maxBackOffN c = 62 - floor_log2 (nat (delay c)))
     \<and> (\<forall>n. 0 \<le> jitterDelay c n \<and> jitterDelay c n \<le> max_int64)"

definition backOff :: "retry_config \<Rightarrow> nat \<Rightarrow> int" where
  "backOff c n = delay c * 2 ^ min n (62 - floor_log2 (nat (delay c)))"

definition sameDelays :: "retry_config \<Rightarrow> retry_config \<Rightarrow> bool" where
  "sameDelays c c' \<longleftrightarrow> c' = c\<lparr>maxBackOffN := maxBackOffN c'\<rparr>"

lemma floor_log2_delay: "config_ok c \<Longrightarrow> floor_log2 (nat (delay c)) \<le> 61"
proof (rule ccontr)
  assume ok: "config_ok c" and "\<not> floor_log2 (nat (delay c)) \<le> 61"
  then have "(2::nat) ^ 62 \<le> 2 ^ floor_log2 (nat (delay c))" by (intro power_increasing) auto
  also have "\<dots> \<le> nat (delay c)" using ok floor_log2_bounds [of "nat (delay c)"] by (simp add: config_ok_def)
  finally show False using ok by (auto simp: config_ok_def)
qed

lemma BackOffDelay_value:
  assumes "config_ok c"
  shows "BackOffDelay n c = (backOff c n, c\<lparr>maxBackOffN := 62 - floor_log2 (nat (delay c))\<rparr>)"
proof -
  let ?e = "floor_log2 (nat (delay c))" and ?m = "min n (62 - floor_log2 (nat (delay c)))"
  have "sint (push_bit ?m (word_of_int (delay c) :: 64 word)) = delay c * 2 ^ ?m"
    using assms floor_log2_bounds [of "nat (delay c)"] floor_log2_delay [OF assms]
    by (intro shift_exact [of _ ?e]) (auto simp: config_ok_def)
  moreover have "(if 62 - ?e < n then 62 - ?e else n) = ?m" by auto
  ultimately show ?thesis
    using assms by (auto simp: BackOffDelay_def backOff_def config_ok_def Let_def)
qed

lemma backOff_bounds:
  assumes "config_ok c"
  shows "0 < backOff c n" "backOff c n \<le> max_int64"
proof -
  let ?e = "floor_log2 (nat (delay c))"
  have "nat (delay c) < 2 ^ Suc ?e" "0 < delay c" using assms floor_log2_bounds [of "nat (delay c)"] by (auto simp: config_ok_def)
  then have d: "delay c < 2 ^ Suc ?e" by (metis nat_less_iff less_imp_le of_nat_numeral of_nat_power)
  have "backOff c n < 2 ^ Suc ?e * 2 ^ min n (62 - ?e)" using d by (simp add: backOff_def)
  also have "\<dots> = 2 ^ (Suc ?e + min n (62 - ?e))" by (simp add: power_add)
  also have "\<dots> \<le> (2::int) ^ 63" using floor_log2_delay [OF assms] by (intro power_increasing) auto
  finally show "backOff c n \<le> max_int64" by (simp add: max_int64_def)
  show "0 < backOff c n" using assms by (simp add: backOff_def config_ok_def)
qed

lemma DefaultDelayType_value:
  assumes "config_ok c"
  shows "DefaultDelayType n c = (min max_int64 (backOff c n + jitterDelay c n), c\<lparr>maxBackOffN := 62 - floor_log2 (nat (delay c))\<rparr>)"
proof -
  have b: "0 < backOff c n" "backOff c n \<le> max_int64" using backOff_bounds [OF assms] by auto
  have j: "0 \<le> jitterDelay c n" "jitterDelay c n \<le> max_int64" using assms by (auto simp: config_ok_def)
  have "backOff c n mod max_uint64 = backOff c n" "(backOff c n + jitterDelay c n) mod max_uint64 = backOff c n + jitterDelay c n"
    using b j by (auto simp: max_uint64_def max_int64_def)
  moreover have "max_int64 mod max_uint64 = max_int64" by (simp add: max_int64_def max_uint64_def)
  ultimately show ?thesis
    using b by (auto simp add: DefaultDelayType_def CombineDelay_def BackOffDelay_value [OF assms] RandomDelay_def Let_def min_def)
qed

section \<open>Properties\<close>

text \<open>The outcome and the state of the \<open>n\<close>-th call.\<close>

definition stateAt :: "('s \<Rightarrow> go_error option \<times> 's) \<Rightarrow> nat \<Rightarrow> 's \<Rightarrow> 's" where
  "stateAt f n s = ((\<lambda>x. snd (f x)) ^^ n) s"

definition outcomeAt :: "('s \<Rightarrow> go_error option \<times> 's) \<Rightarrow> nat \<Rightarrow> 's \<Rightarrow> go_error option" where
  "outcomeAt f n s = fst (f (stateAt f n s))"

definition delayAt :: "retry_config \<Rightarrow> nat \<Rightarrow> int" where
  "delayAt c n = min (maxDelay c) (min max_int64 (backOff c n + jitterDelay c n))"

text \<open>What \<open>k\<close> calls from the \<open>n\<close>-th attempt on mean.\<close>

definition stopped :: "('s \<Rightarrow> go_error option \<times> 's) \<Rightarrow> retry_config \<Rightarrow> nat \<Rightarrow> nat \<Rightarrow> 's \<Rightarrow> go_error option \<Rightarrow> int list \<Rightarrow> 's \<Rightarrow> bool" where
  "stopped f c left n s err delays s' \<longleftrightarrow>
    (\<exists>k < left. s' = stateAt f (Suc k) s \<and> err = outcomeAt f k s \<and> delays = map (delayAt c) [n..<n + k]
      \<and> (\<forall>i < k. \<exists>e. outcomeAt f i s = Some e \<and> retryIf c e)
      \<and> (\<forall>e. err = Some e \<longrightarrow> retryIf c e \<longrightarrow> Suc k = left))"

lemma stateAt_Suc: "stateAt f (Suc k) s = stateAt f k (snd (f s))"
  unfolding stateAt_def by (subst funpow_Suc_right) simp

lemma stopped_step:
  assumes "f s = (Some e, s1)" "retryIf c e" "stopped f c left (Suc n) s1 err delays s'"
  shows "stopped f c (Suc left) n s err (delayAt c n # delays) s'"
proof -
  obtain k where k: "k < left" "s' = stateAt f (Suc k) s1" "err = outcomeAt f k s1" "delays = map (delayAt c) [Suc n..<Suc n + k]"
    "\<forall>i < k. \<exists>e. outcomeAt f i s1 = Some e \<and> retryIf c e" "\<forall>e. err = Some e \<longrightarrow> retryIf c e \<longrightarrow> Suc k = left"
    using assms(3) by (auto simp: stopped_def)
  have o: "outcomeAt f (Suc i) s = outcomeAt f i s1" for i using assms(1) by (simp add: outcomeAt_def stateAt_Suc)
  have "delayAt c n # delays = map (delayAt c) [n..<n + Suc k]" using k(4) by (simp add: upt_rec [of n])
  moreover have "\<forall>i < Suc k. \<exists>e. outcomeAt f i s = Some e \<and> retryIf c e"
    using k(5) o assms(1,2) by (auto simp: less_Suc_eq_0_disj outcomeAt_def stateAt_def)
  moreover have "s' = stateAt f (Suc (Suc k)) s" using k(2) assms(1) by (simp add: stateAt_Suc [of f "Suc k"])
  ultimately show ?thesis unfolding stopped_def using k(1,3,6) o by (intro exI [of _ "Suc k"]) auto
qed

lemma retryLoop_stopped:
  assumes "config_ok c0" "sameDelays c0 c" "config_ok c" "lastErrorOnly c0" "0 < left"
  shows "\<exists>err delays s'. retryLoop f c left n errs ds s = (map_option (\<lambda>e. [e]) err, ds @ delays, s') \<and> stopped f c0 left n s err delays s'"
  using assms(2,3,5)
proof (induction left arbitrary: c n errs ds s)
  case (Suc left)
  obtain r s1 where f: "f s = (r, s1)" by (metis surj_pair)
  have same: "retryIf c = retryIf c0" "lastErrorOnly c" "delay c = delay c0" "maxDelay c = maxDelay c0" "jitterDelay c = jitterDelay c0"
    using Suc.prems(1) assms(4) unfolding sameDelays_def by (metis retry_config.select_convs retry_config.update_convs(4) retry_config.surjective)+
  have stop: "stopped f c0 (Suc left) n s r [] s1" if "\<forall>e. r = Some e \<longrightarrow> retryIf c0 e \<longrightarrow> left = 0"
    unfolding stopped_def using f that by (intro exI [of _ 0]) (auto simp: outcomeAt_def stateAt_def)
  show ?case
  proof (cases "\<exists>e. r = Some e \<and> retryIf c0 e \<and> left \<noteq> 0")
    case False
    then show ?thesis using stop f same
      by (intro exI [of _ r] exI [of _ "[]"] exI [of _ s1]) (cases r; auto simp: Let_def)
  next
    case True
    then obtain e where e: "r = Some e" "retryIf c0 e" "0 < left" by auto
    let ?c = "c\<lparr>maxBackOffN := 62 - floor_log2 (nat (delay c))\<rparr>"
    have c: "sameDelays c0 ?c" "config_ok ?c"
      using Suc.prems(1,2) by (auto simp: sameDelays_def config_ok_def)
    have d: "DefaultDelayType n c = (min max_int64 (backOff c n + jitterDelay c n), ?c)" by (rule DefaultDelayType_value [OF Suc.prems(2)])
    have at: "(if 0 < maxDelay ?c \<and> maxDelay ?c < min max_int64 (backOff c n + jitterDelay c n) then maxDelay ?c
        else min max_int64 (backOff c n + jitterDelay c n)) = delayAt c0 n"
      using Suc.prems(2) same by (auto simp: delayAt_def backOff_def config_ok_def min_def)
    obtain err delays s' where IH: "retryLoop f ?c left (Suc n) [e] (ds @ [delayAt c0 n]) s1 = (map_option (\<lambda>e. [e]) err, (ds @ [delayAt c0 n]) @ delays, s')"
      "stopped f c0 left (Suc n) s1 err delays s'" using Suc.IH [OF c e(3)] by blast
    have "retryLoop f c (Suc left) n errs ds s = (map_option (\<lambda>e. [e]) err, ds @ delayAt c0 n # delays, s')"
      using f e same(1,2) IH(1) unfolding retryLoop.simps(2) Let_def d prod.case at by simp
    then show ?thesis using stopped_step [of f s e s1 c0 left n err delays s'] f e IH(2) by blast
  qed
qed simp

lemma Do_stopped:
  assumes "config_ok c" "lastErrorOnly c" "0 < attempts c"
  shows "\<exists>err delays s'. Do f c s = (map_option (\<lambda>e. [e]) err, delays, s') \<and> stopped f c (attempts c) 0 s err delays s'"
  using retryLoop_stopped [OF assms(1) _ assms(1,2,3), of f 0 "[]" "[]" s] by (simp add: Do_def sameDelays_def)


text \<open>A function that fails twice and then succeeds.\<close>

definition thirdTime :: "nat \<Rightarrow> go_error option \<times> nat" where
  "thirdTime n = (if n < 2 then Some (OtherError ''busy'') else None, Suc n)"


end
