(* ===== verification/RateLimiter.thy ===== *)
theory RateLimiter
  imports Prelude
begin

text \<open>
  The API rate limiters of \<open>pkg/nsx/ratelimiter/ratelimiter.go\<close>: a fixed one and one that adapts its rate
  (additive increase, multiplicative decrease). The token bucket of \<open>golang.org/x/time/rate\<close> is represented by its limit,
  which the code only sets to whole numbers. Durations and times are nanoseconds; the current time is an argument. The
  interface \<open>RateLimiter\<close> is the locale \<open>rate_limiter\<close>.
\<close>

section \<open>Constants and types\<close>

definition APIReduceRateCodes :: "int list" where "APIReduceRateCodes = [429, 503]"
definition KeepAlivePeriod :: int where "KeepAlivePeriod = 33"
definition MAXRATELIMIT :: int where "MAXRATELIMIT = 100"

text \<open>\<open>APIWaitMinThreshold\<close> is 0.01 s and \<open>DEFAULTUPDATEPERIOD\<close> is 1 s.\<close>

definition APIWaitMinThreshold :: int where "APIWaitMinThreshold = 10000000"
definition DEFAULTUPDATEPERIOD :: int where "DEFAULTUPDATEPERIOD = 1000000000"

datatype limiter_type = FIXRATE | AIMD

record fix_limiter =
  fixLimit :: int
  fixDisable :: bool
  fixMax :: int

record aimd_limiter =
  aimdLimit :: int
  aimdDisable :: bool
  aimdMax :: int
  aimdPeriod :: int
  lastAdjuctRate :: int
  aimdPos :: int
  aimdNeg :: int

section \<open>Operations\<close>

definition NewFixRateLimiter :: "int \<Rightarrow> fix_limiter" where
  "NewFixRateLimiter mx =
    (let m = (if MAXRATELIMIT < mx then MAXRATELIMIT else mx) in
     if mx = 0 then \<lparr>fixLimit = m, fixDisable = True, fixMax = 0\<rparr>
     else \<lparr>fixLimit = m, fixDisable = False, fixMax = m\<rparr>)"

definition NewAIMDRateLimiter :: "int \<Rightarrow> int \<Rightarrow> int \<Rightarrow> aimd_limiter" where
  "NewAIMDRateLimiter mx period now =
    (let m = (if MAXRATELIMIT < mx then MAXRATELIMIT else mx) in
     \<lparr>aimdLimit = 1, aimdDisable = (mx = 0), aimdMax = m, aimdPeriod = period, lastAdjuctRate = now, aimdPos = 0, aimdNeg = 0\<rparr>)"

datatype any_limiter = Fix fix_limiter | Aimd aimd_limiter

definition NewRateLimiter :: "limiter_type \<Rightarrow> int \<Rightarrow> any_limiter" where
  "NewRateLimiter rateLimiterType now =
    (if rateLimiterType = FIXRATE then Fix (NewFixRateLimiter MAXRATELIMIT)
     else Aimd (NewAIMDRateLimiter MAXRATELIMIT DEFAULTUPDATEPERIOD now))"

definition Fix_rate :: "fix_limiter \<Rightarrow> int" where
  "Fix_rate l = (if fixDisable l then 0 else fixLimit l)"

definition Fix_AdjustRate :: "fix_limiter \<Rightarrow> int \<Rightarrow> int \<Rightarrow> int \<Rightarrow> fix_limiter" where
  "Fix_AdjustRate l now waitTime statusCode = l"

definition AIMD_rate :: "aimd_limiter \<Rightarrow> int" where
  "AIMD_rate l = (if aimdDisable l then 0 else aimdLimit l)"

definition AIMD_AdjustRate :: "aimd_limiter \<Rightarrow> int \<Rightarrow> int \<Rightarrow> int \<Rightarrow> aimd_limiter" where
  "AIMD_AdjustRate l now waitTime statusCode =
    (if aimdDisable l then l
     else
       let l1 = l\<lparr>aimdNeg := aimdNeg l + int (length (filter (\<lambda>v. v = statusCode) APIReduceRateCodes))\<rparr>;
           l2 = (if APIWaitMinThreshold < waitTime then l1\<lparr>aimdPos := aimdPos l1 + 1\<rparr> else l1) in
       if aimdPeriod l \<le> now - lastAdjuctRate l2
       then
         let r = aimdLimit l2;
             r' = (if 0 < aimdPos l2 then (if r < aimdMax l2 then r + 1 else r)
                   else if 0 < aimdNeg l2 then (if 1 < r then r div 2 else r)
                   else r) in
         l2\<lparr>aimdLimit := r', lastAdjuctRate := now, aimdPos := 0, aimdNeg := 0\<rparr>
       else l2)"

fun any_rate :: "any_limiter \<Rightarrow> int" where
  "any_rate (Fix l) = Fix_rate l"
| "any_rate (Aimd l) = AIMD_rate l"

fun any_AdjustRate :: "any_limiter \<Rightarrow> int \<Rightarrow> int \<Rightarrow> int \<Rightarrow> any_limiter" where
  "any_AdjustRate (Fix l) now w c = Fix (Fix_AdjustRate l now w c)"
| "any_AdjustRate (Aimd l) now w c = Aimd (AIMD_AdjustRate l now w c)"

section \<open>The interface\<close>

text \<open>What a client may rely on: an invariant that every adjustment keeps, under which the rate stays between the lower and the upper
  bound of the limiter, bounds that do not change, and one adjustment at most adds one or halves.\<close>

locale rate_limiter =
  fixes adjust :: "'l \<Rightarrow> int \<Rightarrow> int \<Rightarrow> int \<Rightarrow> 'l"
    and rate :: "'l \<Rightarrow> int"
    and inv :: "'l \<Rightarrow> bool"
    and lower :: "'l \<Rightarrow> int" and upper :: "'l \<Rightarrow> int"
  assumes adjust_inv: "inv l \<Longrightarrow> inv (adjust l now w c)"
    and bounds_fixed: "lower (adjust l now w c) = lower l" "upper (adjust l now w c) = upper l"
    and rate_bounds: "inv l \<Longrightarrow> lower l \<le> rate l \<and> rate l \<le> upper l"
    and one_step: "inv l \<Longrightarrow> rate l div 2 \<le> rate (adjust l now w c) \<and> rate (adjust l now w c) \<le> rate l + 1"
begin

text \<open>A history of requests: time, waiting time and status.\<close>

definition history :: "'l \<Rightarrow> (int \<times> int \<times> int) list \<Rightarrow> 'l" where
  "history l es = foldl (\<lambda>l (now, w, c). adjust l now w c) l es"

lemma history_inv: "inv l \<Longrightarrow> inv (history l es)"
  unfolding history_def by (induction es arbitrary: l) (auto simp: adjust_inv)

lemma history_fixed: "lower (history l es) = lower l \<and> upper (history l es) = upper l"
  unfolding history_def by (induction es arbitrary: l) (auto simp: bounds_fixed)

lemma history_bounds: "inv l \<Longrightarrow> lower l \<le> rate (history l es) \<and> rate (history l es) \<le> upper l"
  using rate_bounds [OF history_inv, of l es] history_fixed [of l es] by simp

end

interpretation fix_rate: rate_limiter Fix_AdjustRate Fix_rate "\<lambda>l. 0 \<le> Fix_rate l" Fix_rate Fix_rate
  by unfold_locales (auto simp: Fix_AdjustRate_def)

definition aimd_inv :: "aimd_limiter \<Rightarrow> bool" where
  "aimd_inv l \<longleftrightarrow> 1 \<le> aimdLimit l \<and> aimdLimit l \<le> aimdMax l"

definition aimd_lower :: "aimd_limiter \<Rightarrow> int" where
  "aimd_lower l = (if aimdDisable l then 0 else 1)"

definition aimd_upper :: "aimd_limiter \<Rightarrow> int" where
  "aimd_upper l = (if aimdDisable l then 0 else aimdMax l)"

lemma AIMD_AdjustRate_limit:
  "aimdLimit (AIMD_AdjustRate l now w c) \<in> {aimdLimit l, aimdLimit l + 1, aimdLimit l div 2}
    \<and> (aimdLimit (AIMD_AdjustRate l now w c) = aimdLimit l + 1 \<longrightarrow> aimdLimit l < aimdMax l)
    \<and> (aimdLimit (AIMD_AdjustRate l now w c) \<noteq> aimdLimit l \<longrightarrow> 1 < aimdLimit l \<or> aimdLimit l < aimdMax l)
    \<and> aimdMax (AIMD_AdjustRate l now w c) = aimdMax l \<and> aimdDisable (AIMD_AdjustRate l now w c) = aimdDisable l"
  by (auto simp: AIMD_AdjustRate_def Let_def)

lemma AIMD_AdjustRate_cases:
  assumes "aimd_inv l"
  shows "aimd_inv (AIMD_AdjustRate l now w c)"
    and "aimdLimit l div 2 \<le> aimdLimit (AIMD_AdjustRate l now w c) \<and> aimdLimit (AIMD_AdjustRate l now w c) \<le> aimdLimit l + 1"
  using assms by (auto simp: AIMD_AdjustRate_def aimd_inv_def Let_def)

interpretation aimd: rate_limiter AIMD_AdjustRate AIMD_rate aimd_inv aimd_lower aimd_upper
proof
  show "aimd_inv (AIMD_AdjustRate l now w c)" if "aimd_inv l" for l now w c
    by (rule AIMD_AdjustRate_cases(1) [OF that])
  show "aimd_lower (AIMD_AdjustRate l now w c) = aimd_lower l" "aimd_upper (AIMD_AdjustRate l now w c) = aimd_upper l" for l now w c
    using AIMD_AdjustRate_limit [of l now w c] by (auto simp: aimd_lower_def aimd_upper_def)
  show "aimd_lower l \<le> AIMD_rate l \<and> AIMD_rate l \<le> aimd_upper l" if "aimd_inv l" for l
    using that by (auto simp: aimd_inv_def aimd_lower_def aimd_upper_def AIMD_rate_def)
  show "AIMD_rate l div 2 \<le> AIMD_rate (AIMD_AdjustRate l now w c) \<and> AIMD_rate (AIMD_AdjustRate l now w c) \<le> AIMD_rate l + 1"
    if "aimd_inv l" for l now w c
    using AIMD_AdjustRate_cases(2) [OF that, of now w c] AIMD_AdjustRate_limit [of l now w c] by (auto simp: AIMD_rate_def)
qed

section \<open>Properties\<close>

text \<open>C33. The rate of an adaptive limiter stays between 1 and its maximum, which is at most 100, through every history of
  requests; it changes at most once per period, and within one adjustment it grows by one or is halved.\<close>

theorem AIMD_rate_bounded:
  assumes "0 < mx"
  shows "1 \<le> AIMD_rate (aimd.history (NewAIMDRateLimiter mx period t0) es)
     \<and> AIMD_rate (aimd.history (NewAIMDRateLimiter mx period t0) es) \<le> min mx 100
     \<and> (now - lastAdjuctRate l < aimdPeriod l \<longrightarrow> AIMD_rate (AIMD_AdjustRate l now w c) = AIMD_rate l)
     \<and> (aimd_inv l \<longrightarrow> AIMD_rate l div 2 \<le> AIMD_rate (AIMD_AdjustRate l now w c) \<and> AIMD_rate (AIMD_AdjustRate l now w c) \<le> AIMD_rate l + 1)"
proof -
  have inv: "aimd_inv (NewAIMDRateLimiter mx period t0)"
    using assms by (auto simp: NewAIMDRateLimiter_def aimd_inv_def MAXRATELIMIT_def Let_def)
  have "aimd_lower (NewAIMDRateLimiter mx period t0) = 1" "aimd_upper (NewAIMDRateLimiter mx period t0) = min mx 100"
    using assms by (auto simp: NewAIMDRateLimiter_def aimd_lower_def aimd_upper_def MAXRATELIMIT_def Let_def)
  then have "1 \<le> AIMD_rate (aimd.history (NewAIMDRateLimiter mx period t0) es)
     \<and> AIMD_rate (aimd.history (NewAIMDRateLimiter mx period t0) es) \<le> min mx 100"
    using aimd.history_bounds [OF inv, of es] by simp
  moreover have "now - lastAdjuctRate l < aimdPeriod l \<longrightarrow> AIMD_rate (AIMD_AdjustRate l now w c) = AIMD_rate l"
    by (auto simp: AIMD_AdjustRate_def AIMD_rate_def Let_def)
  ultimately show ?thesis using aimd.one_step by blast
qed

theorem AIMD_rate_bounded_witness:
  "AIMD_rate (AIMD_AdjustRate (NewAIMDRateLimiter 10 1000 0) 999 20000000 200) = 1
     \<and> AIMD_rate (AIMD_AdjustRate (NewAIMDRateLimiter 10 1000 0) 1000 20000000 200) = 2"
proof -
  have "999 - lastAdjuctRate (NewAIMDRateLimiter 10 1000 0) < aimdPeriod (NewAIMDRateLimiter 10 1000 0)"
    "AIMD_rate (NewAIMDRateLimiter 10 1000 0) = 1"
    "AIMD_rate (AIMD_AdjustRate (NewAIMDRateLimiter 10 1000 0) 1000 20000000 200) = 2" by code_simp+
  then show ?thesis
    using AIMD_rate_bounded [where mx = 10 and now = 999 and l = "NewAIMDRateLimiter 10 1000 0" and w = 20000000 and c = 200] by simp
qed

end
