(* ===== verification/Transport.thy ===== *)
theory Transport
  imports Retry RateLimiter
begin

text \<open>
  The HTTP transport to the NSX managers: \<open>pkg/nsx/endpoint.go\<close>, \<open>transport.go\<close>, \<open>cookie.go\<close> and \<open>HandleHTTPResponse\<close>
  of \<open>pkg/nsx/util/utils.go\<close>. The HTTP clients, the token provider, the JSON decoders and the clock are parameters. The fields that
  the locks protect are read and written in one step. The mutation of the request (address, headers) is left out, except for
  the choice of the credentials.
\<close>

section \<open>Endpoints\<close>

datatype endpoint_status = UP | DOWN

text \<open>The connection counter is a 32-bit integer, changed atomically; times are in nanoseconds.\<close>

record endpoint =
  epHost :: string
  epScheme :: string
  epStatus :: endpoint_status
  epLastAlive :: int
  epXSRFToken :: string
  epKeepAlivePeriod :: int
  epConn :: "32 word"
  epUser :: string
  epPassword :: string
  epEnvoyUrl :: string

text \<open>\<open>parseURL\<close> is the standard library's parser after the default scheme is added; the parser is a parameter.\<close>

definition parseURL :: "(string \<Rightarrow> gerror + string \<times> string) \<Rightarrow> string \<Rightarrow> gerror + string \<times> string" where
  "parseURL urlParse u = urlParse (if HasPrefix u ''http'' then u else ''https://'' @ u)"

definition NewEndpoint :: "(string \<Rightarrow> gerror + string \<times> string) \<Rightarrow> string \<Rightarrow> gerror + endpoint" where
  "NewEndpoint urlParse url =
    bind_res (parseURL urlParse url) (\<lambda>(host, scheme).
      Inr \<lparr>epHost = host, epScheme = scheme, epStatus = DOWN, epLastAlive = 0, epXSRFToken = [],
           epKeepAlivePeriod = KeepAlivePeriod, epConn = 0, epUser = [], epPassword = [], epEnvoyUrl = []\<rparr>)"

definition setStatus :: "endpoint_status \<Rightarrow> endpoint \<Rightarrow> endpoint" where
  "setStatus s ep = (if epStatus ep \<noteq> s then ep\<lparr>epStatus := s\<rparr> else ep)"

definition setXSRFToken :: "string \<Rightarrow> endpoint \<Rightarrow> endpoint" where
  "setXSRFToken token ep = ep\<lparr>epXSRFToken := token\<rparr>"

definition setAliveTime :: "int \<Rightarrow> endpoint \<Rightarrow> endpoint" where
  "setAliveTime t ep = ep\<lparr>epLastAlive := t\<rparr>"

definition setUserPassword :: "string \<Rightarrow> string \<Rightarrow> endpoint \<Rightarrow> endpoint" where
  "setUserPassword user password ep = ep\<lparr>epUser := user, epPassword := password\<rparr>"

definition SetEnvoyUrl :: "string \<Rightarrow> endpoint \<Rightarrow> endpoint" where
  "SetEnvoyUrl url ep = ep\<lparr>epEnvoyUrl := url\<rparr>"

definition increaseConnNumber :: "endpoint \<Rightarrow> endpoint" where
  "increaseConnNumber ep = ep\<lparr>epConn := epConn ep + 1\<rparr>"

definition decreaseConnNumber :: "endpoint \<Rightarrow> endpoint" where
  "decreaseConnNumber ep = ep\<lparr>epConn := epConn ep - 1\<rparr>"

definition ConnNumber :: "endpoint \<Rightarrow> int" where
  "ConnNumber ep = sint (epConn ep)"

text \<open>\<open>nextInterval\<close> compares a duration in nanoseconds with a period in seconds.\<close>

definition nextInterval :: "int \<Rightarrow> endpoint \<Rightarrow> int" where
  "nextInterval now ep =
    (let i = now - epLastAlive ep in
     if epKeepAlivePeriod ep < i then epKeepAlivePeriod ep else epKeepAlivePeriod ep - i)"

section \<open>Responses\<close>

record http_response =
  rsStatus :: int
  rsReadError :: "gerror option"
  rsBody :: string

text \<open>\<open>HandleHTTPResponse\<close>: the error, the body that is handed on (\<open>[]\<close> for nil) and the decoded result.\<close>

definition HandleHTTPResponse ::
  "http_response \<Rightarrow> (string \<Rightarrow> gerror + 'r) option \<Rightarrow> gerror option \<times> string \<times> 'r option" where
  "HandleHTTPResponse response decode =
    (if rsStatus response \<noteq> 200 \<and> rsStatus response \<noteq> 202 \<and> rsStatus response \<noteq> 201
     then (Some (if rsStatus response = 400 then ''received HTTP Bad Request Error'' else if rsStatus response = 404 then ''received HTTP Not Found Error'' else ''received HTTP Error''), [], None)
     else case rsReadError response of
       Some err \<Rightarrow> (Some err, rsBody response, None)
     | None \<Rightarrow> (case decode of
         None \<Rightarrow> (None, [], None)
       | Some d \<Rightarrow> (case d (rsBody response) of
           Inl err \<Rightarrow> (Some err, rsBody response, None)
         | Inr r \<Rightarrow> (None, rsBody response, Some r))))"

text \<open>The error of a response, with the decoder of error bodies.\<close>

definition responseError :: "(string \<Rightarrow> gerror + response_body) \<Rightarrow> string \<Rightarrow> int \<Rightarrow> string \<Rightarrow> go_error option" where
  "responseError decodeErr host status body =
    InitErrorFromResponse host status (if body = [] then None else Some (decodeErr body))"

section \<open>Cookies and credentials\<close>

type_synonym jar = "string \<rightharpoonup> string list"

definition NewJar :: jar where "NewJar = Map.empty"

definition SetCookies :: "jar \<Rightarrow> string \<Rightarrow> string list \<Rightarrow> jar" where
  "SetCookies j host cookies = j(host \<mapsto> cookies)"

definition Cookies :: "jar \<Rightarrow> string \<Rightarrow> string list" where
  "Cookies j host = (case j host of None \<Rightarrow> [] | Some cs \<Rightarrow> cs)"

text \<open>The credentials that are put into a request.\<close>

datatype credentials = Bearer string | Xsrf string "string list" | Basic string string

text \<open>A token provider: asked to refresh or not, it gives a token or an error.\<close>

type_synonym 'w token_provider = "bool \<Rightarrow> 'w \<Rightarrow> (go_error + string) \<times> 'w"

definition tokenConfig :: retry_config where
  "tokenConfig = defaultConfig\<lparr>lastErrorOnly := True, delay := 120 * 10 ^ 9, maxDelay := 120 * 10 ^ 9\<rparr>"

definition fetchToken :: "'w token_provider \<Rightarrow> string \<times> 'w \<Rightarrow> go_error option \<times> string \<times> 'w" where
  "fetchToken getToken = (\<lambda>(token, w).
    case getToken False w of (Inl e, w') \<Rightarrow> (Some e, [], w') | (Inr t, w') \<Rightarrow> (None, t, w'))"

definition UpdateHttpRequestAuth ::
  "'w token_provider option \<Rightarrow> jar \<Rightarrow> endpoint \<Rightarrow> 'w \<Rightarrow> (go_error + credentials) \<times> 'w" where
  "UpdateHttpRequestAuth tokenProvider j ep w =
    (case tokenProvider of
       Some getToken \<Rightarrow>
         (case Do (fetchToken getToken) tokenConfig ([], w) of
            (Some errs, _, _, w') \<Rightarrow> (Inl (last errs), w')
          | (None, _, token, w') \<Rightarrow> (Inr (Bearer token), w'))
     | None \<Rightarrow>
         (if 0 < length (epXSRFToken ep) then (Inr (Xsrf (epXSRFToken ep) (Cookies j (epHost ep))), w)
          else (Inr (Basic (epUser ep) (epPassword ep)), w)))"

text \<open>The answer to the creation of a session: status, tokens and cookies.\<close>

record session_response =
  ssStatus :: int
  ssReadError :: "gerror option"
  ssTokens :: "string list option"
  ssCookies :: "string list"

definition createAuthSession ::
  "bool \<Rightarrow> bool \<Rightarrow> (endpoint \<Rightarrow> 'w \<Rightarrow> (gerror + session_response) \<times> 'w) \<Rightarrow> endpoint \<Rightarrow> jar \<Rightarrow> 'w \<Rightarrow>
   gerror option \<times> endpoint \<times> jar \<times> 'w" where
  "createAuthSession hasCert hasToken post ep j w =
    (if hasCert \<or> hasToken then (None, ep, j, w)
     else case post ep w of
       (Inl err, w') \<Rightarrow> (Some err, ep, j, w')
     | (Inr resp, w') \<Rightarrow>
         (if ssStatus resp \<noteq> 200 \<and> ssStatus resp \<noteq> 201
          then (Some (''session creation failed, unexpected status code '' @ Itoa (ssStatus resp)), ep, j, w')
          else case ssReadError resp of
            Some err \<Rightarrow> (Some err, ep, j, w')
          | None \<Rightarrow> (case ssTokens resp of
              None \<Rightarrow> (Some ''no token in response'', ep, j, w')
            | Some tokens \<Rightarrow>
                (None, setStatus UP (setXSRFToken (hd tokens) ep), SetCookies j (epHost ep) (ssCookies resp), w'))))"

section \<open>Keep-alive\<close>

text \<open>\<open>get\<close> is the HTTP client without balancing; \<open>decodeHealth\<close> decodes the health report.\<close>

definition keepAlive ::
  "'w token_provider option \<Rightarrow> (endpoint \<Rightarrow> 'w \<Rightarrow> (gerror + http_response) \<times> 'w) \<Rightarrow> (string \<Rightarrow> gerror + bool) \<Rightarrow>
   (string \<Rightarrow> gerror + response_body) \<Rightarrow> jar \<Rightarrow> endpoint \<Rightarrow> 'w \<Rightarrow> go_error option \<times> endpoint \<times> 'w" where
  "keepAlive tokenProvider get decodeHealth decodeErr j ep w =
    (case UpdateHttpRequestAuth tokenProvider j ep w of
       (Inl err, w1) \<Rightarrow> (Some err, setStatus DOWN ep, w1)
     | (Inr _, w1) \<Rightarrow>
        (case get ep w1 of
           (Inl err, w2) \<Rightarrow> (Some (OtherError err), ep, w2)
         | (Inr resp, w2) \<Rightarrow>
            (let (err, body, healthy) = HandleHTTPResponse resp (Some decodeHealth) in
             if err = None \<and> healthy = Some True then (None, setStatus UP ep, w2)
             else
               let e = responseError decodeErr (epHost ep) (rsStatus resp) body in
               if ShouldRegenerate e then (e, setStatus DOWN (setXSRFToken [] ep), w2)
               else if ShouldRetry e then (e, setStatus UP ep, w2)
               else (e, setStatus DOWN ep, w2))))"

section \<open>The transport\<close>

text \<open>The variables \<open>resp\<close> and \<open>resul\<close> of \<open>RoundTrip\<close> are captured by the retried function; they are part of the state.\<close>

record 'w transport_state =
  tsEndpoints :: "endpoint list"
  tsLimiter :: any_limiter
  tsJar :: jar
  tsWorld :: 'w
  tsResp :: "http_response option"
  tsResul :: "gerror option"

record 'w transport_env =
  teBase :: "endpoint \<Rightarrow> 'w \<Rightarrow> (gerror + http_response) \<times> 'w"
  tePost :: "endpoint \<Rightarrow> 'w \<Rightarrow> (gerror + session_response) \<times> 'w"
  teToken :: "'w token_provider option"
  teHasCert :: bool
  teWait :: "'w \<Rightarrow> int"
  teNow :: "'w \<Rightarrow> int"
  teDecodeErr :: "string \<Rightarrow> gerror + response_body"
  teJitter :: "nat \<Rightarrow> int"

text \<open>The loop of \<open>selectEndpoint\<close>: the smallest connection number so far and its index.\<close>

fun selectLoop :: "nat \<Rightarrow> endpoint list \<Rightarrow> int \<Rightarrow> nat option \<Rightarrow> nat option" where
  "selectLoop i [] small index = index"
| "selectLoop i (ep # eps) small index =
    (if epStatus ep = DOWN then selectLoop (Suc i) eps small index
     else if ConnNumber ep < small then selectLoop (Suc i) eps (ConnNumber ep) (Some i)
     else selectLoop (Suc i) eps small index)"

definition emptyDetail :: error_detail where
  "emptyDetail = \<lparr>StatusCode = 0, ErrorCode = 0, RelatedErrorCodes = [], RelatedStatusCodes = [], Details = []\<rparr>"

definition CreateServiceClusterUnavailable :: "string \<Rightarrow> go_error" where
  "CreateServiceClusterUnavailable clusterID = NsxErr ServiceClusterUnavailable emptyDetail
    (''Service cluster: '' @ [CHR 0x27] @ clusterID @ [CHR 0x27] @ '' is unavailable. Please, check NSX setup and/or configuration'')"

definition CreateTimeout :: "string \<Rightarrow> go_error" where
  "CreateTimeout host = NsxErr Timeout emptyDetail (''Connect to '' @ host @ '' timeout'')"

definition CreateConnectionError :: "string \<Rightarrow> go_error" where
  "CreateConnectionError host = NsxErr ConnectionError emptyDetail (''Connect to '' @ host @ '' error'')"

definition selectEndpoint :: "endpoint list \<Rightarrow> go_error + nat" where
  "selectEndpoint eps =
    (case selectLoop 0 eps 100 None of
       None \<Rightarrow> Inl (CreateServiceClusterUnavailable (str_join (map epHost eps) '',''))
     | Some i \<Rightarrow> Inr i)"

text \<open>The error and the endpoint of a failed request; the endpoint is already down.\<close>

definition handleRoundTripError :: "gerror \<Rightarrow> endpoint \<Rightarrow> go_error \<times> endpoint" where
  "handleRoundTripError err ep =
    (if HasSuffix err ''connection refused'' then (CreateConnectionError (epHost ep), setStatus DOWN ep)
     else if HasSuffix err ''i/o timeout'' then (CreateTimeout (epHost ep), ep)
     else (CreateGeneralManagerError (epHost ep) ''RoundTrip'' err, ep))"

definition putEndpoint :: "nat \<Rightarrow> endpoint \<Rightarrow> 'w transport_state \<Rightarrow> 'w transport_state" where
  "putEndpoint i ep st = st\<lparr>tsEndpoints := (tsEndpoints st)[i := ep]\<rparr>"

text \<open>What happens to a response: the rate is adjusted, the body is read, and an error of NSX may renew the credentials.\<close>

definition handleResponse ::
  "'w transport_env \<Rightarrow> nat \<Rightarrow> endpoint \<Rightarrow> http_response \<Rightarrow> 'w transport_state \<Rightarrow> go_error option \<times> 'w transport_state" where
  "handleResponse env i ep resp st0 =
    (let w = tsWorld st0;
         st = st0\<lparr>tsLimiter := any_AdjustRate (tsLimiter st0) (teNow env w) (teWait env w) (rsStatus resp)\<rparr> in
     case rsReadError resp of
       Some err \<Rightarrow> (Some (CreateGeneralManagerError (epHost ep) ''extract http'' err), putEndpoint i ep st)
     | None \<Rightarrow>
        (case responseError (teDecodeErr env) (epHost ep) (rsStatus resp) (rsBody resp) of
           None \<Rightarrow> (None, putEndpoint i (setAliveTime (teNow env w) ep) st)
         | Some err \<Rightarrow>
             (if ShouldRegenerate (Some err) then
                (case teToken env of
                   Some getToken \<Rightarrow> (Some err, putEndpoint i ep (st\<lparr>tsWorld := snd (getToken True w)\<rparr>))
                 | None \<Rightarrow>
                     (let (_, ep', j', w') = createAuthSession (teHasCert env) False (tePost env) ep (tsJar st) w in
                      (Some err, putEndpoint i ep' (st\<lparr>tsJar := j', tsWorld := w'\<rparr>))))
              else (Some err, putEndpoint i ep st))))"

text \<open>The function that is retried: the connection number is decreased when it returns, whatever the outcome. The error of the
  authentication is ignored.\<close>

definition attempt :: "'w transport_env \<Rightarrow> 'w transport_state \<Rightarrow> go_error option \<times> 'w transport_state" where
  "attempt env st =
    (case selectEndpoint (tsEndpoints st) of
       Inl err \<Rightarrow> (Some err, st)
     | Inr i \<Rightarrow>
        (let ep = increaseConnNumber (tsEndpoints st ! i);
             w1 = snd (UpdateHttpRequestAuth (teToken env) (tsJar st) ep (tsWorld st));
             (err, st') =
               (case teBase env ep w1 of
                  (Inl e, w2) \<Rightarrow>
                    (let (err, ep') = handleRoundTripError e (setStatus DOWN ep) in
                     (Some err, putEndpoint i ep' (st\<lparr>tsWorld := w2, tsResp := None, tsResul := Some e\<rparr>)))
                | (Inr resp, w2) \<Rightarrow>
                    handleResponse env i ep resp (st\<lparr>tsWorld := w2, tsResp := Some resp, tsResul := None\<rparr>))
         in (err, putEndpoint i (decreaseConnNumber (tsEndpoints st' ! i)) st')))"

definition roundTripConfig :: "'w transport_env \<Rightarrow> retry_config" where
  "roundTripConfig env = defaultConfig\<lparr>lastErrorOnly := True, jitterDelay := teJitter env,
     retryIf := (\<lambda>err. ShouldGroundPoint (Some err) \<or> ShouldRetry (Some err))\<rparr>"

text \<open>\<open>RoundTrip\<close> drops the error of the retry and returns the two variables.\<close>

definition RoundTrip :: "'w transport_env \<Rightarrow> 'w transport_state \<Rightarrow> (http_response option \<times> gerror option) \<times> 'w transport_state" where
  "RoundTrip env st =
    (let (_, _, st') = Do (attempt env) (roundTripConfig env) (st\<lparr>tsResp := None, tsResul := None\<rparr>) in
     ((tsResp st', tsResul st'), st'))"

section \<open>Selection\<close>

text \<open>An endpoint that may be selected.\<close>

definition selectable :: "endpoint \<Rightarrow> bool" where
  "selectable ep \<longleftrightarrow> epStatus ep = UP \<and> ConnNumber ep < 100"

lemma not_DOWN [simp]: "s \<noteq> DOWN \<longleftrightarrow> s = UP" by (cases s) auto

definition least_conn :: "endpoint list \<Rightarrow> nat \<Rightarrow> bool" where
  "least_conn eps k \<longleftrightarrow> k < length eps \<and> epStatus (eps ! k) = UP
     \<and> (\<forall>j < length eps. epStatus (eps ! j) = UP \<longrightarrow> ConnNumber (eps ! k) \<le> ConnNumber (eps ! j))
     \<and> (\<forall>j < k. epStatus (eps ! j) = UP \<longrightarrow> ConnNumber (eps ! k) < ConnNumber (eps ! j))"

lemma least_conn_Cons:
  assumes "least_conn eps k" "epStatus ep = UP \<longrightarrow> ConnNumber (eps ! k) < ConnNumber ep"
  shows "least_conn (ep # eps) (Suc k)"
  using assms by (auto simp: least_conn_def nth_Cons split: nat.splits)

lemma least_conn_first:
  assumes "epStatus ep = UP" "\<forall>e \<in> set eps. epStatus e = UP \<longrightarrow> \<not> ConnNumber e < ConnNumber ep"
  shows "least_conn (ep # eps) 0"
  using assms by (fastforce simp: least_conn_def nth_Cons split: nat.splits)

lemma selectLoop_spec:
  "selectLoop i eps small index = index \<and> (\<forall>e \<in> set eps. epStatus e = UP \<longrightarrow> \<not> ConnNumber e < small)
   \<or> (\<exists>k. selectLoop i eps small index = Some (i + k) \<and> least_conn eps k \<and> ConnNumber (eps ! k) < small)"
proof (induction eps arbitrary: i small index)
  case (Cons ep eps)
  show ?case
  proof (cases "epStatus ep = UP \<and> ConnNumber ep < small")
    case False
    then have eq: "selectLoop i (ep # eps) small index = selectLoop (Suc i) eps small index" by auto
    show ?thesis
    proof (cases "\<forall>e \<in> set eps. epStatus e = UP \<longrightarrow> \<not> ConnNumber e < small")
      case True
      then show ?thesis using Cons [of "Suc i" small index] False eq by (auto simp: least_conn_def)
    next
      case small: False
      then obtain k where k: "selectLoop (Suc i) eps small index = Some (Suc i + k)" "least_conn eps k" "ConnNumber (eps ! k) < small"
        using Cons [of "Suc i" small index] by blast
      then have "least_conn (ep # eps) (Suc k)" using False by (intro least_conn_Cons) auto
      with k eq show ?thesis by (intro disjI2 exI [of _ "Suc k"]) auto
    qed
  next
    case True
    then have eq: "selectLoop i (ep # eps) small index = selectLoop (Suc i) eps (ConnNumber ep) (Some i)" by auto
    from Cons [of "Suc i" "ConnNumber ep" "Some i"] show ?thesis
    proof (elim disjE exE conjE)
      assume "selectLoop (Suc i) eps (ConnNumber ep) (Some i) = Some i"
        "\<forall>e \<in> set eps. epStatus e = UP \<longrightarrow> \<not> ConnNumber e < ConnNumber ep"
      then show ?thesis using True eq least_conn_first [of ep eps] by (intro disjI2 exI [of _ 0]) auto
    next
      fix k assume k: "selectLoop (Suc i) eps (ConnNumber ep) (Some i) = Some (Suc i + k)" "least_conn eps k"
        "ConnNumber (eps ! k) < ConnNumber ep"
      then have "least_conn (ep # eps) (Suc k)" by (intro least_conn_Cons) auto
      with k eq True show ?thesis by (intro disjI2 exI [of _ "Suc k"]) auto
    qed
  qed
qed simp

lemma selectEndpoint_cases:
  "(\<exists>e. selectEndpoint eps = Inl e) \<and> (\<forall>ep \<in> set eps. \<not> selectable ep)
   \<or> (\<exists>k. selectEndpoint eps = Inr k \<and> least_conn eps k \<and> selectable (eps ! k))"
proof -
  have "selectLoop 0 eps 100 None = None \<and> (\<forall>e \<in> set eps. epStatus e = UP \<longrightarrow> \<not> ConnNumber e < 100)
     \<or> (\<exists>k. selectLoop 0 eps 100 None = Some k \<and> least_conn eps k \<and> ConnNumber (eps ! k) < 100)"
    using selectLoop_spec [of 0 eps 100 None] by simp
  then show ?thesis
    by (auto simp: selectEndpoint_def selectable_def least_conn_def)
qed

section \<open>Connections\<close>

text \<open>What a request keeps of the endpoints: how many there are, their hosts and their connection numbers.\<close>

definition connections :: "'w transport_state \<Rightarrow> (string \<times> 32 word) list" where
  "connections st = map (\<lambda>ep. (epHost ep, epConn ep)) (tsEndpoints st)"

definition sameConn :: "endpoint \<Rightarrow> endpoint \<Rightarrow> bool" where
  "sameConn ep ep' \<longleftrightarrow> epHost ep' = epHost ep \<and> epConn ep' = epConn ep"

lemma sameConn_set [simp]:
  "sameConn ep (setStatus s ep')  = sameConn ep ep'" "sameConn ep (setXSRFToken t ep') = sameConn ep ep'"
  "sameConn ep (setAliveTime x ep') = sameConn ep ep'" "sameConn ep ep"
  by (auto simp: sameConn_def setStatus_def setXSRFToken_def setAliveTime_def)

lemma handleRoundTripError_conn: "handleRoundTripError e ep = (err, ep') \<Longrightarrow> sameConn x ep' = sameConn x ep"
  by (auto simp: handleRoundTripError_def split: if_splits)

lemma createAuthSession_conn: "createAuthSession a b post ep j w = (e, ep', j', w') \<Longrightarrow> sameConn x ep' = sameConn x ep"
  by (auto simp: createAuthSession_def split: if_splits sum.splits option.splits prod.splits)

lemma handleResponse_conn:
  assumes "handleResponse env i ep resp st = (e, st')"
  shows "\<exists>ep'. tsEndpoints st' = (tsEndpoints st)[i := ep'] \<and> sameConn ep ep'"
proof -
  obtain e1 ep1 j1 w1 where c: "createAuthSession (teHasCert env) False (tePost env) ep (tsJar st) (tsWorld st) = (e1, ep1, j1, w1)"
    by (metis surj_pair)
  have "sameConn ep ep1" using createAuthSession_conn [OF c, of ep] by simp
  then show ?thesis
    using assms c by (auto simp: handleResponse_def putEndpoint_def Let_def split: option.splits if_splits)
qed

lemma attempt_connections:
  assumes "attempt env st = (e, st')"
  shows "connections st' = connections st"
proof (cases "selectEndpoint (tsEndpoints st)")
  case (Inl err)
  then show ?thesis using assms by (simp add: attempt_def)
next
  case (Inr i)
  let ?ep = "increaseConnNumber (tsEndpoints st ! i)"
  let ?w1 = "snd (UpdateHttpRequestAuth (teToken env) (tsJar st) ?ep (tsWorld st))"
  have i: "i < length (tsEndpoints st)" using Inr selectEndpoint_cases [of "tsEndpoints st"] by (auto simp: least_conn_def)
  obtain r w2 where b: "teBase env ?ep ?w1 = (r, w2)" by (metis surj_pair)
  have "\<exists>ep1 st1. tsEndpoints st1 = (tsEndpoints st)[i := ep1] \<and> sameConn ?ep ep1
    \<and> st' = putEndpoint i (decreaseConnNumber (tsEndpoints st1 ! i)) st1"
  proof (cases r)
    case (Inl x)
    obtain err ep1 where h: "handleRoundTripError x (setStatus DOWN ?ep) = (err, ep1)" by (metis surj_pair)
    show ?thesis using assms Inr b Inl h handleRoundTripError_conn [OF h, of ?ep]
      by (intro exI [of _ ep1] exI [of _ "putEndpoint i ep1 (st\<lparr>tsWorld := w2, tsResp := None, tsResul := Some x\<rparr>)"])
         (auto simp: attempt_def Let_def putEndpoint_def)
  next
    case (Inr resp)
    obtain e1 st1 where h: "handleResponse env i ?ep resp (st\<lparr>tsWorld := w2, tsResp := Some resp, tsResul := None\<rparr>) = (e1, st1)"
      by (metis surj_pair)
    show ?thesis using assms \<open>selectEndpoint (tsEndpoints st) = Inr i\<close> b Inr h handleResponse_conn [OF h]
      by (auto simp: attempt_def Let_def)
  qed
  then obtain ep1 where "tsEndpoints st' = (tsEndpoints st)[i := decreaseConnNumber ep1]" "sameConn ?ep ep1"
    using i by (auto simp: putEndpoint_def)
  then show ?thesis using i
    by (auto simp: connections_def map_update sameConn_def decreaseConnNumber_def increaseConnNumber_def intro!: list_update_same_conv [THEN iffD2])
qed

lemma stateAt_inv:
  assumes "\<And>s e s'. f s = (e, s') \<Longrightarrow> P s' = P s"
  shows "P (stateAt f n s) = P s"
proof (induction n)
  case (Suc n)
  have "stateAt f (Suc n) s = snd (f (stateAt f n s))" by (simp add: stateAt_def)
  then show ?case using assms [of "stateAt f n s"] Suc by (metis prod.collapse)
qed (simp add: stateAt_def)

lemma roundTripConfig_ok: "(\<forall>n. 0 \<le> teJitter env n \<and> teJitter env n \<le> max_int64) \<Longrightarrow> config_ok (roundTripConfig env)"
  by (simp add: config_ok_def roundTripConfig_def defaultConfig_def)

text \<open>A round trip as its sequence of attempts.\<close>

lemma RoundTrip_attempts:
  assumes "\<forall>n. 0 \<le> teJitter env n \<and> teJitter env n \<le> max_int64"
  obtains err delays st' where "RoundTrip env st = ((tsResp st', tsResul st'), st')"
    "stopped (attempt env) (roundTripConfig env) 10 0 (st\<lparr>tsResp := None, tsResul := None\<rparr>) err delays st'"
proof -
  have c: "lastErrorOnly (roundTripConfig env)" "attempts (roundTripConfig env) = 10"
    by (simp_all add: roundTripConfig_def defaultConfig_def)
  obtain err delays st' where "Do (attempt env) (roundTripConfig env) (st\<lparr>tsResp := None, tsResul := None\<rparr>) = (map_option (\<lambda>e. [e]) err, delays, st')"
    "stopped (attempt env) (roundTripConfig env) 10 0 (st\<lparr>tsResp := None, tsResul := None\<rparr>) err delays st'"
    using Do_stopped [OF roundTripConfig_ok [OF assms] c(1), of "attempt env" "st\<lparr>tsResp := None, tsResul := None\<rparr>"] c(2) by auto
  then show thesis by (intro that) (simp_all add: RoundTrip_def)
qed

section \<open>What the transport guarantees\<close>

text \<open>\<open>selectEndpoint\<close> picks, among the endpoints that are up, the first of those with the fewest connections, provided it has
  less than 100; it fails exactly when every endpoint is down or has 100 connections or more.\<close>

theorem selectEndpoint_spec:
  "(selectEndpoint eps = Inr k \<longleftrightarrow> least_conn eps k \<and> selectable (eps ! k))
   \<and> ((\<exists>e. selectEndpoint eps = Inl e) \<longleftrightarrow> \<not> (\<exists>ep \<in> set eps. selectable ep))"
proof -
  have uniq: "k = k'" if "least_conn eps k" "least_conn eps k'" for k'
    using that unfolding least_conn_def by (metis less_le_not_le linorder_neqE_nat)
  show ?thesis
  proof (cases "selectEndpoint eps")
    case (Inl e)
    then have "\<forall>ep \<in> set eps. \<not> selectable ep" using selectEndpoint_cases [of eps] by auto
    then show ?thesis using Inl by (auto simp: least_conn_def)
  next
    case (Inr k')
    then have k': "least_conn eps k'" "selectable (eps ! k')" using selectEndpoint_cases [of eps] by auto
    then have "\<exists>ep \<in> set eps. selectable ep" by (auto simp: least_conn_def)
    then show ?thesis using Inr k' uniq by auto
  qed
qed

text \<open>A retried function that keeps an observation keeps it through all attempts.\<close>

lemma retryLoop_keeps:
  assumes "\<And>s. P (snd (f s)) = P s"
  shows "P (snd (snd (retryLoop f c left n errs ds s))) = P s"
proof (induction left arbitrary: c n errs ds s)
  case (Suc left)
  obtain r s1 where f: "f s = (r, s1)" by (metis surj_pair)
  have "P s1 = P s" using assms [of s] f by simp
  then show ?case using f Suc.IH [where s = s1] by (auto simp: Let_def split: option.splits prod.splits)
qed simp

lemma RoundTrip_keeps:
  assumes "\<And>s. P (snd (attempt env s)) = P s"
  shows "P (snd (RoundTrip env st)) = P (st\<lparr>tsResp := None, tsResul := None\<rparr>)"
  using retryLoop_keeps [of P "attempt env", OF assms] by (simp add: RoundTrip_def Do_def split: prod.splits) (metis snd_conv)

text \<open>C30. Every round trip gives back the connections that it took: the hosts and the connection numbers of all endpoints are
  the same before and after it, whatever the requests, the errors and the number of attempts (no counter leaks on an error path).\<close>

theorem RoundTrip_connections: "connections (snd (RoundTrip env st)) = connections st"
proof -
  have "connections (snd (attempt env s)) = connections s" for s
    by (cases "attempt env s") (simp add: attempt_connections)
  from RoundTrip_keeps [of connections, OF this] show ?thesis by (simp add: connections_def)
qed

lemma attempt_none: "\<not> (\<exists>ep \<in> set (tsEndpoints st). selectable ep) \<Longrightarrow> snd (attempt env st) = st"
  using selectEndpoint_cases [of "tsEndpoints st"] by (auto simp: attempt_def least_conn_def)

lemma retryLoop_fixed:
  assumes "snd (f s) = s"
  shows "snd (snd (retryLoop f c left n errs ds s)) = s"
proof (induction left arbitrary: c n errs ds)
  case (Suc left)
  obtain r where f: "f s = (r, s)" using assms by (metis surj_pair snd_conv)
  then show ?case using Suc.IH by (auto simp: Let_def split: option.splits prod.splits)
qed simp

text \<open>C31. A round trip makes at least one and at most ten attempts. Every attempt but the last fails with an error that asks for another
  endpoint or a retry; the last one succeeds, fails with an error that does not, or is the tenth. The caller gets the response and the
  error of the last request that was sent, and when no endpoint can be selected at the start it gets neither a response nor an error.\<close>

theorem RoundTrip_spec:
  assumes "\<forall>n. 0 \<le> teJitter env n \<and> teJitter env n \<le> max_int64"
  shows "(\<exists>k < 10. RoundTrip env st = ((tsResp (stateAt (attempt env) (Suc k) (st\<lparr>tsResp := None, tsResul := None\<rparr>)),
             tsResul (stateAt (attempt env) (Suc k) (st\<lparr>tsResp := None, tsResul := None\<rparr>))),
             stateAt (attempt env) (Suc k) (st\<lparr>tsResp := None, tsResul := None\<rparr>))
       \<and> (\<forall>i < k. \<exists>e. outcomeAt (attempt env) i (st\<lparr>tsResp := None, tsResul := None\<rparr>) = Some e \<and> (ShouldGroundPoint (Some e) \<or> ShouldRetry (Some e)))
       \<and> (\<forall>e. outcomeAt (attempt env) k (st\<lparr>tsResp := None, tsResul := None\<rparr>) = Some e \<longrightarrow> ShouldGroundPoint (Some e) \<or> ShouldRetry (Some e) \<longrightarrow> k = 9))
     \<and> (\<not> (\<exists>ep \<in> set (tsEndpoints st). selectable ep) \<longrightarrow> fst (RoundTrip env st) = (None, None))"
proof
  let ?st = "st\<lparr>tsResp := None, tsResul := None\<rparr>"
  obtain err delays st' where st': "RoundTrip env st = ((tsResp st', tsResul st'), st')"
    "stopped (attempt env) (roundTripConfig env) 10 0 ?st err delays st'"
    by (rule RoundTrip_attempts [OF assms])
  have retry: "retryIf (roundTripConfig env) e \<longleftrightarrow> ShouldGroundPoint (Some e) \<or> ShouldRetry (Some e)" for e
    by (simp add: roundTripConfig_def)
  from st' show "\<exists>k < 10. RoundTrip env st = ((tsResp (stateAt (attempt env) (Suc k) ?st), tsResul (stateAt (attempt env) (Suc k) ?st)), stateAt (attempt env) (Suc k) ?st)
       \<and> (\<forall>i < k. \<exists>e. outcomeAt (attempt env) i ?st = Some e \<and> (ShouldGroundPoint (Some e) \<or> ShouldRetry (Some e)))
       \<and> (\<forall>e. outcomeAt (attempt env) k ?st = Some e \<longrightarrow> ShouldGroundPoint (Some e) \<or> ShouldRetry (Some e) \<longrightarrow> k = 9)"
    unfolding stopped_def retry by auto
  have "fst (RoundTrip env st) = (None, None)" if "\<not> (\<exists>ep \<in> set (tsEndpoints st). selectable ep)"
  proof -
    obtain r ds s where d: "Do (attempt env) (roundTripConfig env) ?st = (r, ds, s)" by (metis surj_pair)
    have "snd (snd (Do (attempt env) (roundTripConfig env) ?st)) = ?st"
      using that by (simp add: Do_def retryLoop_fixed attempt_none)
    with d have "s = ?st" by simp
    with d show ?thesis by (simp add: RoundTrip_def)
  qed
  then show "\<not> (\<exists>ep \<in> set (tsEndpoints st). selectable ep) \<longrightarrow> fst (RoundTrip env st) = (None, None)" by blast
qed

section \<open>Witness\<close>

text \<open>Two managers, the first of which refuses the connection: the second answers.\<close>

definition managerA :: endpoint where
  "managerA = \<lparr>epHost = ''10.0.0.1'', epScheme = ''https'', epStatus = UP, epLastAlive = 0, epXSRFToken = [],
     epKeepAlivePeriod = KeepAlivePeriod, epConn = 0, epUser = ''admin'', epPassword = ''secret'', epEnvoyUrl = []\<rparr>"

definition managerB :: endpoint where
  "managerB = managerA\<lparr>epHost := ''10.0.0.2'', epConn := 3\<rparr>"

definition okResponse :: http_response where
  "okResponse = \<lparr>rsStatus = 200, rsReadError = None, rsBody = []\<rparr>"

definition demoEnv :: "nat transport_env" where
  "demoEnv = \<lparr>teBase = (\<lambda>ep n. (if epHost ep = ''10.0.0.1'' then Inl ''dial tcp: connection refused'' else Inr okResponse, Suc n)),
     tePost = (\<lambda>ep n. (Inl ''no session'', n)), teToken = None, teHasCert = True, teWait = (\<lambda>_. 0), teNow = (\<lambda>n. int n),
     teDecodeErr = (\<lambda>_. Inl ''no error''), teJitter = (\<lambda>_. 0)\<rparr>"

definition demoState :: "nat transport_state" where
  "demoState = \<lparr>tsEndpoints = [managerA, managerB], tsLimiter = NewRateLimiter FIXRATE 0, tsJar = NewJar, tsWorld = 0,
     tsResp = None, tsResul = None\<rparr>"

theorem RoundTrip_spec_witness:
  "fst (RoundTrip demoEnv demoState) = (Some okResponse, None)
   \<and> (\<exists>k < 10. fst (RoundTrip demoEnv demoState) = (tsResp (stateAt (attempt demoEnv) (Suc k) demoState), tsResul (stateAt (attempt demoEnv) (Suc k) demoState))
        \<and> (\<forall>i < k. \<exists>e. outcomeAt (attempt demoEnv) i demoState = Some e \<and> (ShouldGroundPoint (Some e) \<or> ShouldRetry (Some e))))"
proof
  show "fst (RoundTrip demoEnv demoState) = (Some okResponse, None)" by code_simp
next
  have st: "demoState\<lparr>tsResp := None, tsResul := None\<rparr> = demoState" by (simp add: demoState_def)
  have "\<forall>n. 0 \<le> teJitter demoEnv n \<and> teJitter demoEnv n \<le> max_int64" by (simp add: demoEnv_def max_int64_def)
  from RoundTrip_spec [OF this, of demoState, unfolded st]
  show "\<exists>k < 10. fst (RoundTrip demoEnv demoState) = (tsResp (stateAt (attempt demoEnv) (Suc k) demoState), tsResul (stateAt (attempt demoEnv) (Suc k) demoState))
      \<and> (\<forall>i < k. \<exists>e. outcomeAt (attempt demoEnv) i demoState = Some e \<and> (ShouldGroundPoint (Some e) \<or> ShouldRetry (Some e)))"
    by (elim conjE exE) (metis fst_conv)
qed

end
