(* ===== verification/Cluster.thy ===== *)
theory Cluster
  imports Transport "HOL-Library.Product_Lexorder"
begin

text \<open>
  The cluster of NSX managers and the client on top of it: \<open>pkg/nsx/cluster.go\<close>, the version and license checks of
  \<open>pkg/nsx/client.go\<close>, the feature gates of \<open>pkg/nsx/feature.go\<close>, \<open>NewConfig\<close> of \<open>pkg/nsx/config.go\<close> and
  \<open>pkg/nsx/util/license.go\<close>. The HTTP clients, the decoders of JSON bodies, the certificate files and the clock are
  parameters; the TLS dialer is not modelled. \<open>None\<close> is the run-time panic of an index out of range.
\<close>

section \<open>Strings\<close>

text \<open>\<open>s[:strings.Index(s, c)]\<close>: the prefix before the first \<open>c\<close>, a panic without one.\<close>

definition before_char :: "char \<Rightarrow> string \<Rightarrow> string option" where
  "before_char c s = (if c \<in> set s then Some (takeWhile (\<lambda>x. x \<noteq> c) s) else None)"

section \<open>Configuration\<close>

record nsx_config =
  APIManagers :: "string list"
  Username :: string
  Password :: string
  CAFile :: "string list"
  Thumbprint :: "string list"
  EnvoyHost :: string
  EnvoyPort :: int

definition NewConfig :: "string \<Rightarrow> string \<Rightarrow> string \<Rightarrow> string list \<Rightarrow> string list \<Rightarrow> nsx_config" where
  "NewConfig apiManagers username password caFile thumbprint =
    \<lparr>APIManagers = map TrimSpace (split_char CHR '','' apiManagers), Username = username, Password = password,
     CAFile = caFile, Thumbprint = thumbprint, EnvoyHost = [], EnvoyPort = 0\<rparr>"

section \<open>Health\<close>

datatype ClusterHealth = RED | ORANGE | GREEN

fun healthLoop :: "endpoint list \<Rightarrow> nat \<Rightarrow> nat \<Rightarrow> nat \<times> nat" where
  "healthLoop [] up down = (up, down)"
| "healthLoop (ep # eps) up down =
    (if epStatus ep = UP then healthLoop eps (Suc up) down else healthLoop eps up (Suc down))"

definition Health :: "endpoint list \<Rightarrow> ClusterHealth" where
  "Health eps =
    (let (up, down) = healthLoop eps 0 0 in
     if down = length eps then RED else if up = length eps then GREEN else ORANGE)"

definition CheckNSXHealth :: "endpoint list \<Rightarrow> gerror option" where
  "CheckNSXHealth eps =
    (if GREEN = Health eps \<or> ORANGE = Health eps then None else Some ''NSX Current Status is down'')"

section \<open>Addresses\<close>

definition UsingEnvoy :: "nsx_config \<Rightarrow> bool" where
  "UsingEnvoy cf \<longleftrightarrow> EnvoyPort cf \<noteq> 0"

definition thumbprintToUrlPath :: "string \<Rightarrow> string" where
  "thumbprintToUrlPath thumbprint = replace_char CHR '':'' [] (map upper_char thumbprint)"

definition CreateServerUrl :: "nsx_config \<Rightarrow> string \<Rightarrow> string \<Rightarrow> string" where
  "CreateServerUrl cf host scheme =
    (if UsingEnvoy cf then
       (let mgrIP = (if CHR '':'' \<notin> set host then host @ ''/443'' else replace_char CHR '':'' ''/'' host) in
        if 0 < length (CAFile cf)
        then ''http://'' @ EnvoyHost cf @ '':'' @ Itoa (EnvoyPort cf) @ ''/external-cert/http1/'' @ mgrIP
        else if 0 < length (Thumbprint cf)
        then ''http://'' @ EnvoyHost cf @ '':'' @ Itoa (EnvoyPort cf) @ ''/external-tp/http1/'' @ mgrIP @ ''/''
               @ thumbprintToUrlPath (Thumbprint cf ! 0)
        else [])
     else scheme @ ''://'' @ host)"

text \<open>The host of an endpoint without its port; a leading colon is kept.\<close>

definition bareHost :: "string \<Rightarrow> string" where
  "bareHost h = (case before_char CHR '':'' h of Some (c # s) \<Rightarrow> c # s | _ \<Rightarrow> h)"

text \<open>The loop that \<open>getThumbprint\<close> and \<open>getCaFile\<close> share: the entry at the position of the first endpoint with the host;
  fewer entries than endpoints may give an index out of range.\<close>

fun entryOfHost :: "string list \<Rightarrow> string \<Rightarrow> nat \<Rightarrow> endpoint list \<Rightarrow> string option" where
  "entryOfHost entries host i [] = Some []"
| "entryOfHost entries host i (ep # eps) =
    (if bareHost (epHost ep) = host then (if i < length entries then Some (entries ! i) else None)
     else entryOfHost entries host (Suc i) eps)"

definition pickEntry :: "string list \<Rightarrow> endpoint list \<Rightarrow> string \<Rightarrow> string option" where
  "pickEntry entries eps addr =
    (case before_char CHR '':'' addr of
       None \<Rightarrow> None
     | Some host \<Rightarrow>
         (if length entries = 1 then Some (entries ! 0)
          else if 1 < length entries then entryOfHost entries host 0 eps
          else Some []))"

definition getThumbprint :: "nsx_config \<Rightarrow> endpoint list \<Rightarrow> string \<Rightarrow> string option" where
  "getThumbprint cf eps addr = pickEntry (Thumbprint cf) eps addr"

definition getCaFile :: "nsx_config \<Rightarrow> endpoint list \<Rightarrow> string \<Rightarrow> string option" where
  "getCaFile cf eps addr = pickEntry (CAFile cf) eps addr"

text \<open>The certificates and the thumbprints of the endpoints for the sidecar; the first certificate that can be read ends the
  loading. \<open>cert\<close> reads a file into a header, empty when it cannot. The two lists are the fields \<open>caFile\<close> and
  \<open>Thumbprint\<close> of the endpoints.\<close>

fun loadCerts :: "(string \<Rightarrow> string) \<Rightarrow> nat \<Rightarrow> string list \<Rightarrow> string list \<Rightarrow> (bool \<times> string list) option" where
  "loadCerts cert i [] cas = Some (False, cas)"
| "loadCerts cert i (f # fs) cas =
    (if cert f \<noteq> [] then (if i < length cas then Some (True, cas[i := cert f]) else None)
     else loadCerts cert (Suc i) fs cas)"

definition loadCAforEnvoy ::
  "(string \<Rightarrow> string) \<Rightarrow> nsx_config \<Rightarrow> string list \<times> string list \<Rightarrow> (string list \<times> string list) option" where
  "loadCAforEnvoy cert cf = (\<lambda>(cas, tps).
    if \<not> UsingEnvoy cf then Some (cas, tps)
    else case loadCerts cert 0 (CAFile cf) cas of
      None \<Rightarrow> None
    | Some (True, cas') \<Rightarrow> Some (cas', tps)
    | Some (False, cas') \<Rightarrow>
        (if length tps < length (Thumbprint cf) then None
         else Some (cas', map (map lower_char \<circ> TrimSpace \<circ> replace_char CHR '':'' []) (Thumbprint cf) @ drop (length (Thumbprint cf)) tps)))"

definition createEndpoints :: "(string \<Rightarrow> gerror + string \<times> string) \<Rightarrow> string list \<Rightarrow> gerror + endpoint list" where
  "createEndpoints urlParse apiManagers = map_res (NewEndpoint urlParse) apiManagers"

section \<open>The cluster\<close>

text \<open>\<open>'c\<close> is the state that the callback of a version change works on.\<close>

record 'c nsx_cluster =
  clConfig :: nsx_config
  clEndpoints :: "endpoint list"
  clCaFiles :: "string list"
  clThumbprints :: "string list"
  clJar :: jar
  clVersion :: string
  clLastTime :: int
  clOnChanged :: "(string \<Rightarrow> string \<Rightarrow> 'c \<Rightarrow> 'c) option"

text \<open>\<open>ceDo\<close> is the balancing client (method, address, body), \<open>ceGet\<close> the client without balancing; \<open>ceDecodeVersion\<close> decodes a
  body into an existing value, which keeps it when the field is missing.\<close>

record 'w cluster_env =
  ceUrlParse :: "string \<Rightarrow> gerror + string \<times> string"
  ceCert :: "string \<Rightarrow> string"
  ceNewRequest :: "string \<Rightarrow> gerror option"
  ceToken :: "'w token_provider option"
  ceHasCert :: bool
  cePost :: "endpoint \<Rightarrow> 'w \<Rightarrow> (gerror + session_response) \<times> 'w"
  ceGet :: "endpoint \<Rightarrow> string \<Rightarrow> 'w \<Rightarrow> (gerror + http_response) \<times> 'w"
  ceDo :: "string \<Rightarrow> string \<Rightarrow> string option \<Rightarrow> 'w \<Rightarrow> (gerror + http_response) \<times> 'w"
  ceDecodeHealth :: "string \<Rightarrow> gerror + bool"
  ceDecodeErr :: "string \<Rightarrow> gerror + response_body"
  ceDecodeVersion :: "string \<Rightarrow> string \<Rightarrow> gerror + string"
  ceNow :: "'w \<Rightarrow> int"

fun createAuthSessions :: "'w cluster_env \<Rightarrow> endpoint list \<Rightarrow> jar \<Rightarrow> 'w \<Rightarrow> endpoint list \<times> jar \<times> 'w" where
  "createAuthSessions env [] j w = ([], j, w)"
| "createAuthSessions env (ep # eps) j w =
    (let (_, ep', j1, w1) = createAuthSession (ceHasCert env) (ceToken env \<noteq> None) (cePost env) ep j w;
         (eps', j2, w2) = createAuthSessions env eps j1 w1 in
     (ep' # eps', j2, w2))"

definition healthUrl :: "endpoint \<Rightarrow> string" where
  "healthUrl ep =
    (if epEnvoyUrl ep \<noteq> [] then epEnvoyUrl ep @ ''/api/v1/reverse-proxy/node/health''
     else epScheme ep @ ''://'' @ epHost ep @ ''/api/v1/reverse-proxy/node/health'')"

definition setupEndpoint :: "'w cluster_env \<Rightarrow> jar \<Rightarrow> endpoint \<Rightarrow> 'w \<Rightarrow> endpoint \<times> 'w" where
  "setupEndpoint env j ep w =
    (let (_, ep', w') =
       keepAlive (ceToken env) (\<lambda>ep. ceGet env ep (healthUrl ep)) (ceDecodeHealth env) (ceDecodeErr env) j ep w in
     (ep', w'))"

text \<open>The endpoints are set up until one is up.\<close>

fun setupLoop :: "'w cluster_env \<Rightarrow> nsx_config \<Rightarrow> jar \<Rightarrow> endpoint list \<Rightarrow> 'w \<Rightarrow> endpoint list \<times> 'w" where
  "setupLoop env cf j [] w = ([], w)"
| "setupLoop env cf j (ep # eps) w =
    (let (ep', w1) = setupEndpoint env j (setUserPassword (Username cf) (Password cf) ep) w in
     if epStatus ep' = UP then (ep' # eps, w1)
     else let (eps', w2) = setupLoop env cf j eps w1 in (ep' # eps', w2))"

definition NewCluster :: "'w cluster_env \<Rightarrow> nsx_config \<Rightarrow> jar \<Rightarrow> 'w \<Rightarrow> ((gerror + 'c nsx_cluster) \<times> 'w) option" where
  "NewCluster env cf j w =
    (case createEndpoints (ceUrlParse env) (APIManagers cf) of
       Inl err \<Rightarrow> Some (Inl err, w)
     | Inr eps0 \<Rightarrow>
        (case loadCAforEnvoy (ceCert env) cf (replicate (length eps0) [], replicate (length eps0) []) of
           None \<Rightarrow> None
         | Some (cas, tps) \<Rightarrow>
             (let eps1 = map (\<lambda>ep. SetEnvoyUrl (CreateServerUrl cf (epHost ep) (epScheme ep)) ep) eps0;
                  (eps2, j', w1) = createAuthSessions env eps1 j w;
                  (eps3, w2) = setupLoop env cf j' eps2 w1 in
              Some (Inr \<lparr>clConfig = cf, clEndpoints = eps3, clCaFiles = cas, clThumbprints = tps, clJar = j',
                         clVersion = [], clLastTime = 0, clOnChanged = None\<rparr>, w2))))"

definition SetOnProductVersionChanged :: "(string \<Rightarrow> string \<Rightarrow> 'c \<Rightarrow> 'c) option \<Rightarrow> 'c nsx_cluster \<Rightarrow> 'c nsx_cluster" where
  "SetOnProductVersionChanged f cl = cl\<lparr>clOnChanged := f\<rparr>"

section \<open>Versions\<close>

text \<open>30 minutes, in nanoseconds.\<close>

definition GetNsxVersionInterval :: int where "GetNsxVersionInterval = 30 * 60 * 10 ^ 9"

definition GetVersion ::
  "'w cluster_env \<Rightarrow> 'c nsx_cluster \<Rightarrow> 'c \<Rightarrow> 'w \<Rightarrow> ((go_error + string) \<times> 'c nsx_cluster \<times> 'c \<times> 'w) option" where
  "GetVersion env cl c w =
    (if 0 < length (clVersion cl) \<and> ceNow env w - clLastTime cl < GetNsxVersionInterval
     then Some (Inr (clVersion cl), cl, c, w)
     else case clEndpoints cl of
       [] \<Rightarrow> None
     | ep # _ \<Rightarrow>
        (let url = CreateServerUrl (clConfig cl) (epHost ep) (epScheme ep) @ ''/api/v1/node/version'' in
         case ceNewRequest env url of
           Some err \<Rightarrow> Some (Inl (OtherError err), cl, c, w)
         | None \<Rightarrow>
            (case UpdateHttpRequestAuth (ceToken env) (clJar cl) ep w of
               (Inl err, w1) \<Rightarrow> Some (Inl err, cl, c, w1)
             | (Inr _, w1) \<Rightarrow>
                (case ceGet env ep url w1 of
                   (Inl err, w2) \<Rightarrow> Some (Inl (OtherError err), cl, c, w2)
                 | (Inr resp, w2) \<Rightarrow>
                    (case HandleHTTPResponse resp (Some (\<lambda>body. ceDecodeVersion env body (clVersion cl))) of
                       (Some err, _, _) \<Rightarrow> Some (Inl (OtherError err), cl\<lparr>clVersion := []\<rparr>, c, w2)
                     | (None, _, v) \<Rightarrow>
                        (let old = clVersion cl; new = the v;
                             c' = (if old \<noteq> [] \<and> new \<noteq> [] \<and> old \<noteq> new
                                   then (case clOnChanged cl of None \<Rightarrow> c | Some f \<Rightarrow> f old new c) else c) in
                         Some (Inr new, cl\<lparr>clVersion := new, clLastTime := ceNow env w2\<rparr>, c', w2)))))))"

text \<open>The regular expression of \<open>Validate\<close>, whose dots match any character but a line feed: what may remain after the match of each part.\<close>

definition afterDigits :: "string \<Rightarrow> string list" where
  "afterDigits s = map (\<lambda>i. drop i s) [1..<Suc (length (takeWhile is_digit s))]"

definition afterAny :: "string \<Rightarrow> string list" where
  "afterAny s = (case s of [] \<Rightarrow> [] | c # r \<Rightarrow> if c = CHR 0x0A then [] else [r])"

definition Validate :: "string \<Rightarrow> gerror option" where
  "Validate v =
    (if concat (map afterDigits (concat (map afterAny (concat (map afterDigits (concat (map afterAny (afterDigits v)))))))) = []
     then Some ''error version format'' else None)"

datatype feature = VPC | SecurityPolicy | ServiceAccount | ServiceAccountRestore | ServiceAccountCertRotation | StaticRoute
  | VPCPreferredDefaultSNATIP | SubnetIPReservation | SubnetMinimalSize8 | VTEPLessMode | RestoreVIF | StaticIPReservation
  | StatefulSetPod | IPv6 | SubnetAssociation | NamespaceGroup | SubnetPortSetting

fun minVersion :: "feature \<Rightarrow> int \<times> int \<times> int" where
  "minVersion VPC = (4, 1, 1)"
| "minVersion SecurityPolicy = (3, 2, 0)"
| "minVersion ServiceAccount = (4, 0, 1)"
| "minVersion StaticRoute = (4, 0, 1)"
| "minVersion ServiceAccountRestore = (4, 1, 2)"
| "minVersion ServiceAccountCertRotation = (4, 1, 3)"
| "minVersion VPCPreferredDefaultSNATIP = (9, 1, 0)"
| "minVersion SubnetIPReservation = (9, 1, 0)"
| "minVersion SubnetMinimalSize8 = (9, 1, 0)"
| "minVersion VTEPLessMode = (9, 1, 0)"
| "minVersion RestoreVIF = (9, 2, 0)"
| "minVersion StaticIPReservation = (9, 2, 0)"
| "minVersion StatefulSetPod = (9, 1, 2)"
| "minVersion IPv6 = (9, 2, 0)"
| "minVersion SubnetAssociation = (9, 2, 0)"
| "minVersion NamespaceGroup = (9, 2, 0)"
| "minVersion SubnetPortSetting = (9, 2, 0)"

text \<open>\<open>strconv.ParseInt(s, 10, 64)\<close> is \<^const>\<open>Atoi\<close>; the comparison goes section by section.\<close>

fun compareSections :: "(int \<times> int) list \<Rightarrow> bool" where
  "compareSections [] = True"
| "compareSections ((s, m) # ps) = (if m < s then True else if s < m then False else compareSections ps)"

definition featureSupported :: "string \<Rightarrow> feature \<Rightarrow> bool" where
  "featureSupported v f =
    (let buff = split_char CHR ''.'' v; (m1, m2, m3) = minVersion f in
     if length buff < 3 then False
     else if list_ex (\<lambda>s. Atoi s = None) buff then False
     else let sections = map (the \<circ> Atoi) buff in
       compareSections [(sections ! 0, m1), (sections ! 1, m2), (sections ! 2, m3)])"

section \<open>The client\<close>

text \<open>The cache of the features that were found supported.\<close>

type_synonym feature_cache = "feature \<Rightarrow> bool"

record nsx_client =
  ncCluster :: "feature_cache nsx_cluster"
  ncSupported :: feature_cache

definition resetNSXVersionFeatureCache :: "feature_cache \<Rightarrow> feature_cache" where
  "resetNSXVersionFeatureCache c = (\<lambda>_. False)"

definition NSXCheckVersion :: "'w cluster_env \<Rightarrow> nsx_client option \<Rightarrow> feature \<Rightarrow> 'w \<Rightarrow> (bool \<times> nsx_client option \<times> 'w) option" where
  "NSXCheckVersion env client f w =
    (case client of
       None \<Rightarrow> Some (False, None, w)
     | Some cl \<Rightarrow>
        (if ncSupported cl f then Some (True, client, w)
         else case GetVersion env (ncCluster cl) (ncSupported cl) w of
           None \<Rightarrow> None
         | Some (Inl err, cluster, c, w') \<Rightarrow> Some (False, Some \<lparr>ncCluster = cluster, ncSupported = c\<rparr>, w')
         | Some (Inr v, cluster, c, w') \<Rightarrow>
             (if Validate v \<noteq> None then Some (False, Some \<lparr>ncCluster = cluster, ncSupported = c\<rparr>, w')
              else if \<not> featureSupported v f then Some (False, Some \<lparr>ncCluster = cluster, ncSupported = c\<rparr>, w')
              else Some (True, Some \<lparr>ncCluster = cluster, ncSupported = c(f := True)\<rparr>, w'))))"

definition FeatureEnabled :: "nsx_client \<Rightarrow> feature \<Rightarrow> bool" where
  "FeatureEnabled cl f = ncSupported cl f"

text \<open>What \<open>GetClient\<close> does to a new cluster: the callback of a version change clears the cache, and four features are checked.\<close>

definition GetClient :: "'w cluster_env \<Rightarrow> feature_cache nsx_cluster \<Rightarrow> 'w \<Rightarrow> (nsx_client option \<times> 'w) option" where
  "GetClient env cluster w =
    fold (\<lambda>f r. case r of None \<Rightarrow> None | Some (cl, w) \<Rightarrow> map_option snd (NSXCheckVersion env cl f w))
      [SecurityPolicy, ServiceAccount, ServiceAccountRestore, ServiceAccountCertRotation]
      (Some (Some \<lparr>ncCluster = SetOnProductVersionChanged (Some (\<lambda>_ _. resetNSXVersionFeatureCache)) cluster,
                   ncSupported = (\<lambda>_. False)\<rparr>, w))"

text \<open>The settings of the client of the manager API; the user and the password are exchanged.\<close>

record nsxt_configuration =
  nsxtHost :: string
  nsxtUserName :: string
  nsxtPassword :: string

definition CreateNsxtApiClient :: "nsx_config \<Rightarrow> nsxt_configuration option" where
  "CreateNsxtApiClient cf =
    (case APIManagers cf of
       [] \<Rightarrow> None
     | h # _ \<Rightarrow> Some \<lparr>nsxtHost = h, nsxtUserName = Password cf, nsxtPassword = Username cf\<rparr>)"

section \<open>Feature gates\<close>

text \<open>The optional switches of the configuration.\<close>

record operator_switches =
  VpcWcpEnhance :: "bool option"
  RestoreVif :: "bool option"
  PodV2 :: "bool option"

definition enabled :: "bool option \<Rightarrow> bool" where
  "enabled b = (case b of None \<Rightarrow> False | Some v \<Rightarrow> v)"

text \<open>The gates that need a version and a switch.\<close>

definition gate ::
  "feature \<Rightarrow> (operator_switches \<Rightarrow> bool option) \<Rightarrow> 'w cluster_env \<Rightarrow> nsx_client option \<Rightarrow> operator_switches option \<Rightarrow> 'w \<Rightarrow>
   (bool \<times> nsx_client option \<times> 'w) option" where
  "gate f sw env client cf w =
    (case client of
       None \<Rightarrow> Some (False, None, w)
     | Some _ \<Rightarrow>
        (case NSXCheckVersion env client f w of
           None \<Rightarrow> None
         | Some (ok, client', w') \<Rightarrow>
             (if \<not> ok then Some (False, client', w')
              else case cf of None \<Rightarrow> Some (False, client', w') | Some c \<Rightarrow> Some (enabled (sw c), client', w'))))"

definition SubnetPortSettingFeatureEnabled :: "'w cluster_env \<Rightarrow> nsx_client option \<Rightarrow> operator_switches option \<Rightarrow> 'w \<Rightarrow> (bool \<times> nsx_client option \<times> 'w) option" where
  "SubnetPortSettingFeatureEnabled = gate SubnetPortSetting VpcWcpEnhance"

definition StatefulSetPodSubnetPortFeatureEnabled :: "'w cluster_env \<Rightarrow> nsx_client option \<Rightarrow> operator_switches option \<Rightarrow> 'w \<Rightarrow> (bool \<times> nsx_client option \<times> 'w) option" where
  "StatefulSetPodSubnetPortFeatureEnabled = gate StatefulSetPod VpcWcpEnhance"

definition MacPoolDHCPFeatureEnabled :: "'w cluster_env \<Rightarrow> nsx_client option \<Rightarrow> operator_switches option \<Rightarrow> 'w \<Rightarrow> (bool \<times> nsx_client option \<times> 'w) option" where
  "MacPoolDHCPFeatureEnabled = gate IPv6 VpcWcpEnhance"

definition NamespaceGroupFeatureEnabled :: "'w cluster_env \<Rightarrow> nsx_client option \<Rightarrow> operator_switches option \<Rightarrow> 'w \<Rightarrow> (bool \<times> nsx_client option \<times> 'w) option" where
  "NamespaceGroupFeatureEnabled = gate NamespaceGroup VpcWcpEnhance"

definition RestoreVifFeatureEnabled :: "'w cluster_env \<Rightarrow> nsx_client option \<Rightarrow> operator_switches option \<Rightarrow> 'w \<Rightarrow> (bool \<times> nsx_client option \<times> 'w) option" where
  "RestoreVifFeatureEnabled = gate RestoreVIF RestoreVif"

definition PodV2FeatureEnabled :: "nsx_client option \<Rightarrow> operator_switches option \<Rightarrow> bool" where
  "PodV2FeatureEnabled client cf =
    (case client of None \<Rightarrow> False | Some _ \<Rightarrow> (case cf of None \<Rightarrow> False | Some c \<Rightarrow> enabled (PodV2 c)))"

section \<open>Licenses\<close>

text \<open>The result of the license API: names and whether they are licensed.\<close>

type_synonym nsx_license = "(string \<times> bool) list"

type_synonym license_map = "string \<Rightarrow> bool"

definition FeatureLicenseMap :: "(string \<times> string list) list" where
  "FeatureLicenseMap =
    [(''CONTAINER'', [''CONTAINER_NETWORKING'', ''CONTAINER'']), (''DFW'', [''DFW'']),
     (''VPC_SECURITY'', [''VPC_SECURITY'']), (''VPC'', [''VPC_NETWORKING''])]"

definition IsLicensed :: "license_map \<Rightarrow> string \<Rightarrow> bool" where
  "IsLicensed m f = m f"

definition UpdateLicense :: "string \<Rightarrow> bool \<Rightarrow> license_map \<Rightarrow> license_map" where
  "UpdateLicense f b m = m(f := b)"

definition GetDFWLicense :: "bool \<Rightarrow> license_map \<Rightarrow> bool" where
  "GetDFWLicense hasVPC m = (if hasVPC then IsLicensed m ''VPC_SECURITY'' else IsLicensed m ''DFW'')"

definition UpdateDFWLicense :: "bool \<Rightarrow> bool \<Rightarrow> license_map \<Rightarrow> license_map" where
  "UpdateDFWLicense hasVPC b m = (if hasVPC then UpdateLicense ''VPC_SECURITY'' b m else UpdateLicense ''DFW'' b m)"

fun searchLicense :: "nsx_license \<Rightarrow> string list \<Rightarrow> bool" where
  "searchLicense licenses [] = False"
| "searchLicense licenses (n # ns) =
    (case map_of licenses n of Some b \<Rightarrow> b | None \<Rightarrow> searchLicense licenses ns)"

text \<open>\<open>ord\<close> is the order in which the features were collected.\<close>

definition UpdateFeatureLicense ::
  "((string \<times> string list) list \<Rightarrow> (string \<times> string list) list) \<Rightarrow> nsx_license \<Rightarrow> license_map \<Rightarrow> license_map" where
  "UpdateFeatureLicense ord licenses m =
    (if licenses = [] then m
     else fold (\<lambda>(f, names) m. UpdateLicense f (searchLicense licenses names) m) (ord FeatureLicenseMap) m)"

text \<open>\<open>httpAction\<close> gives the response of the balancing client on the first endpoint's address.\<close>

definition httpAction ::
  "'w cluster_env \<Rightarrow> 'c nsx_cluster \<Rightarrow> string \<Rightarrow> string \<Rightarrow> (gerror + string) option \<Rightarrow> 'w \<Rightarrow> ((gerror + http_response) \<times> 'w) option" where
  "httpAction env cl url meth body w =
    (case clEndpoints cl of
       [] \<Rightarrow> None
     | ep # _ \<Rightarrow>
        (let full = CreateServerUrl (clConfig cl) (epHost ep) (epScheme ep) @ ''/'' @ url in
         case body of
           Some (Inl err) \<Rightarrow> Some (Inl (''failed to marshal request body: '' @ err), w)
         | _ \<Rightarrow>
            (case ceNewRequest env full of
               Some err \<Rightarrow> Some (Inl err, w)
             | None \<Rightarrow> Some (ceDo env meth full (case body of Some (Inr b) \<Rightarrow> Some b | _ \<Rightarrow> None) w))))"

definition HttpGetAndDecode ::
  "'w cluster_env \<Rightarrow> (string \<Rightarrow> gerror + 'r) \<Rightarrow> 'c nsx_cluster \<Rightarrow> string \<Rightarrow> 'w \<Rightarrow> ((gerror + 'r) \<times> 'w) option" where
  "HttpGetAndDecode env decode cl url w =
    (case httpAction env cl url ''GET'' None w of
       None \<Rightarrow> None
     | Some (Inl err, w') \<Rightarrow> Some (Inl err, w')
     | Some (Inr resp, w') \<Rightarrow>
        (case HandleHTTPResponse resp (Some decode) of
           (Some err, _, _) \<Rightarrow> Some (Inl err, w')
         | (None, _, r) \<Rightarrow> Some (Inr (the r), w')))"

definition HttpDelete :: "'w cluster_env \<Rightarrow> 'c nsx_cluster \<Rightarrow> string \<Rightarrow> 'w \<Rightarrow> (gerror option \<times> 'w) option" where
  "HttpDelete env cl url w =
    (case httpAction env cl url ''DELETE'' None w of
       None \<Rightarrow> None | Some (Inl err, w') \<Rightarrow> Some (Some err, w') | Some (Inr _, w') \<Rightarrow> Some (None, w'))"

text \<open>\<open>HttpPost\<close> and \<open>HttpPatch\<close> differ in the method only.\<close>

definition HttpSend ::
  "string \<Rightarrow> 'w cluster_env \<Rightarrow> (string \<Rightarrow> gerror + 'r) \<Rightarrow> 'c nsx_cluster \<Rightarrow> string \<Rightarrow> gerror + string \<Rightarrow> 'w \<Rightarrow> ((gerror + 'r) \<times> 'w) option" where
  "HttpSend meth env decode cl url body w =
    (case httpAction env cl url meth (Some body) w of
       None \<Rightarrow> None
     | Some (Inl err, w') \<Rightarrow> Some (Inl err, w')
     | Some (Inr resp, w') \<Rightarrow>
        (case HandleHTTPResponse resp (Some decode) of
           (Some err, _, _) \<Rightarrow> Some (Inl err, w')
         | (None, _, r) \<Rightarrow> Some (Inr (the r), w')))"

definition HttpPost :: "'w cluster_env \<Rightarrow> (string \<Rightarrow> gerror + 'r) \<Rightarrow> 'c nsx_cluster \<Rightarrow> string \<Rightarrow> gerror + string \<Rightarrow> 'w \<Rightarrow> ((gerror + 'r) \<times> 'w) option" where
  "HttpPost = HttpSend ''POST''"

definition HttpPatch :: "'w cluster_env \<Rightarrow> (string \<Rightarrow> gerror + 'r) \<Rightarrow> 'c nsx_cluster \<Rightarrow> string \<Rightarrow> gerror + string \<Rightarrow> 'w \<Rightarrow> ((gerror + 'r) \<times> 'w) option" where
  "HttpPatch = HttpSend ''PATCH''"

definition FetchLicense ::
  "'w cluster_env \<Rightarrow> (string \<Rightarrow> gerror + nsx_license) \<Rightarrow> ((string \<times> string list) list \<Rightarrow> (string \<times> string list) list) \<Rightarrow>
   'c nsx_cluster \<Rightarrow> license_map \<Rightarrow> 'w \<Rightarrow> (gerror option \<times> license_map \<times> 'w) option" where
  "FetchLicense env decode ord cl m w =
    (case HttpGetAndDecode env decode cl ''api/v1/licenses/licensed-features'' w of
       None \<Rightarrow> None
     | Some (Inl err, w') \<Rightarrow> Some (Some err, m, w')
     | Some (Inr l, w') \<Rightarrow> Some (None, UpdateFeatureLicense ord l m, w'))"

definition ValidateLicense ::
  "'w cluster_env \<Rightarrow> (string \<Rightarrow> gerror + nsx_license) \<Rightarrow> ((string \<times> string list) list \<Rightarrow> (string \<times> string list) list) \<Rightarrow>
   bool \<Rightarrow> 'c nsx_cluster \<Rightarrow> bool \<Rightarrow> license_map \<Rightarrow> 'w \<Rightarrow> (gerror option \<times> license_map \<times> 'w) option" where
  "ValidateLicense env decode ord hasVPC cl init m w =
    (case FetchLicense env decode ord cl m w of
       None \<Rightarrow> None
     | Some (Some err, m', w') \<Rightarrow> Some (Some err, m', w')
     | Some (None, m', w') \<Rightarrow>
        (if \<not> IsLicensed m' ''CONTAINER'' then Some (Some ''NSX license check failed'', m', w')
         else if hasVPC \<and> \<not> IsLicensed m' ''VPC'' then Some (Some ''NSX license check failed'', m', w')
         else if \<not> init \<and> (IsLicensed m' ''CONTAINER'' \<noteq> IsLicensed m ''CONTAINER'' \<or> GetDFWLicense hasVPC m' \<noteq> GetDFWLicense hasVPC m)
         then Some (Some ''license updated'', m', w')
         else Some (None, m', w')))"

section \<open>Health\<close>

lemma healthLoop_count:
  "healthLoop eps u d = (u + length (filter (\<lambda>ep. epStatus ep = UP) eps), d + length (filter (\<lambda>ep. epStatus ep \<noteq> UP) eps))"
  by (induction eps arbitrary: u d) auto

lemma length_filter_eq: "length (filter P xs) = length xs \<longleftrightarrow> (\<forall>x \<in> set xs. P x)"
  by (metis filter_id_conv length_filter_less less_irrefl filter_True)

text \<open>A cluster is red exactly when no endpoint is up, green when there are endpoints and all are up, and orange otherwise; the health
  check passes exactly when some endpoint is up.\<close>

theorem Health_spec:
  "Health eps = (if \<forall>ep \<in> set eps. epStatus ep \<noteq> UP then RED else if \<forall>ep \<in> set eps. epStatus ep = UP then GREEN else ORANGE)
   \<and> (CheckNSXHealth eps = None \<longleftrightarrow> (\<exists>ep \<in> set eps. epStatus ep = UP))"
proof
  show h: "Health eps = (if \<forall>ep \<in> set eps. epStatus ep \<noteq> UP then RED else if \<forall>ep \<in> set eps. epStatus ep = UP then GREEN else ORANGE)"
    unfolding Health_def healthLoop_count by (simp add: length_filter_eq)
  show "CheckNSXHealth eps = None \<longleftrightarrow> (\<exists>ep \<in> set eps. epStatus ep = UP)"
    unfolding CheckNSXHealth_def h by auto
qed

section \<open>Versions\<close>

lemma compareSections3:
  "compareSections [(a, x), (b, y), (c, z)] \<longleftrightarrow> (x, y, z) \<le> (a, b, c)"
  by (auto simp: less_eq_prod_def)

lemma Atoi_list: "\<not> list_ex (\<lambda>s. Atoi s = None) ss \<longleftrightarrow> (\<exists>vs. map Atoi ss = map Some vs)"
proof
  assume "\<not> list_ex (\<lambda>s. Atoi s = None) ss"
  then have "map Atoi ss = map Some (map (the \<circ> Atoi) ss)" by (induction ss) auto
  then show "\<exists>vs. map Atoi ss = map Some vs" by blast
next
  assume "\<exists>vs. map Atoi ss = map Some vs"
  then obtain vs where "map Atoi ss = map Some vs" by blast
  then show "\<not> list_ex (\<lambda>s. Atoi s = None) ss"
    by (induction ss arbitrary: vs) auto
qed

lemma map_Some_the: "map Atoi ss = map Some vs \<Longrightarrow> map (the \<circ> Atoi) ss = vs"
proof -
  assume "map Atoi ss = map Some vs"
  then have "map the (map Atoi ss) = map the (map Some vs)" by simp
  then show ?thesis by (simp add: comp_def)
qed

text \<open>C35. A feature is supported by a product version exactly when the version has at least three sections, all of them are 64-bit
  decimal integers, and its first three are, in lexicographic order, at least the minimal version of the feature.\<close>

theorem featureSupported_spec:
  "featureSupported v f \<longleftrightarrow>
    (\<exists>a b c rest. map Atoi (split_char CHR ''.'' v) = map Some (a # b # c # rest) \<and> minVersion f \<le> (a, b, c))"
proof -
  obtain m1 m2 m3 where m: "minVersion f = (m1, m2, m3)" by (metis surj_pair)
  show ?thesis
  proof
    assume s: "featureSupported v f"
    then have len: "3 \<le> length (split_char CHR ''.'' v)" and "\<not> list_ex (\<lambda>s. Atoi s = None) (split_char CHR ''.'' v)"
      by (auto simp: featureSupported_def m Let_def split: if_splits)
    then obtain vs where vs: "map Atoi (split_char CHR ''.'' v) = map Some vs" by (auto simp: Atoi_list)
    then have "3 \<le> length vs" using len by (metis length_map)
    then obtain a b c rest where abc: "vs = a # b # c # rest"
      unfolding numeral_3_eq_3 Suc_le_length_iff by auto
    have "compareSections [(a, m1), (b, m2), (c, m3)]"
      using s abc map_Some_the [OF vs] by (simp add: featureSupported_def m Let_def split: if_splits)
    then show "\<exists>a b c rest. map Atoi (split_char CHR ''.'' v) = map Some (a # b # c # rest) \<and> minVersion f \<le> (a, b, c)"
      using vs abc m compareSections3 by auto
  next
    assume "\<exists>a b c rest. map Atoi (split_char CHR ''.'' v) = map Some (a # b # c # rest) \<and> minVersion f \<le> (a, b, c)"
    then obtain a b c rest where abc: "map Atoi (split_char CHR ''.'' v) = map Some (a # b # c # rest)" "(m1, m2, m3) \<le> (a, b, c)"
      using m by auto
    from abc(1) have "length (split_char CHR ''.'' v) = Suc (Suc (Suc (length rest)))" by (metis length_Cons length_map)
    moreover have "\<not> list_ex (\<lambda>s. Atoi s = None) (split_char CHR ''.'' v)" using abc(1) Atoi_list by blast
    ultimately show "featureSupported v f"
      using map_Some_the [OF abc(1)] compareSections3 abc(2) by (simp add: featureSupported_def m Let_def)
  qed
qed

section \<open>The cache of supported features\<close>

definition cache_ok :: "nsx_client \<Rightarrow> bool" where
  "cache_ok cl \<longleftrightarrow> clOnChanged (ncCluster cl) = Some (\<lambda>_ _. resetNSXVersionFeatureCache)
     \<and> (\<forall>f. ncSupported cl f \<longrightarrow> clVersion (ncCluster cl) \<noteq> [] \<and> featureSupported (clVersion (ncCluster cl)) f)"

text \<open>What a call of \<open>GetVersion\<close> can do: nothing to the version, lose it, or set it and report a change.\<close>

lemma GetVersion_cases:
  assumes "GetVersion env cl c w = Some (r, cl', c', w')"
  shows "clOnChanged cl' = clOnChanged cl"
    and "(\<exists>e. r = Inl e) \<and> c' = c \<and> clVersion cl' \<in> {clVersion cl, []}
      \<or> r = Inr (clVersion cl') \<and> c' = (if clVersion cl \<noteq> [] \<and> clVersion cl' \<noteq> [] \<and> clVersion cl \<noteq> clVersion cl'
          then (case clOnChanged cl of None \<Rightarrow> c | Some f \<Rightarrow> f (clVersion cl) (clVersion cl') c) else c)"
  using assms unfolding GetVersion_def Let_def by (auto split: if_splits list.splits option.splits sum.splits prod.splits)


text \<open>A manager that runs 9.2.0, answers with an error an hour later, and then runs 9.1.0. The world is the time.\<close>

definition hour :: int where "hour = 3600 * 10 ^ 9"

definition demoVersionEnv :: "int cluster_env" where
  "demoVersionEnv = \<lparr>ceUrlParse = (\<lambda>u. Inr (u, ''https'')), ceCert = (\<lambda>_. []), ceNewRequest = (\<lambda>_. None), ceToken = None, ceHasCert = True,
     cePost = (\<lambda>ep w. (Inl ''no session'', w)),
     ceGet = (\<lambda>ep url w. (Inr \<lparr>rsStatus = (if w = hour then 503 else 200), rsReadError = None, rsBody = (if w < hour then ''9.2.0'' else ''9.1.0'')\<rparr>, w)),
     ceDo = (\<lambda>_ _ _ w. (Inl ''not used'', w)), ceDecodeHealth = (\<lambda>_. Inr True), ceDecodeErr = (\<lambda>_. Inl ''none''),
     ceDecodeVersion = (\<lambda>body old. Inr body), ceNow = (\<lambda>w. w)\<rparr>"

definition demoClient :: nsx_client where
  "demoClient = \<lparr>ncCluster = \<lparr>clConfig = NewConfig ''10.0.0.1'' ''admin'' ''secret'' [] [], clEndpoints = [managerA], clCaFiles = [], clThumbprints = [],
      clJar = NewJar, clVersion = [], clLastTime = 0, clOnChanged = Some (\<lambda>_ _. resetNSXVersionFeatureCache)\<rparr>, ncSupported = (\<lambda>_. False)\<rparr>"

text \<open>A sequence of checks at given times.\<close>

fun checkRun :: "'w cluster_env \<Rightarrow> nsx_client option \<Rightarrow> (feature \<times> 'w) list \<Rightarrow> (bool list \<times> nsx_client option) option" where
  "checkRun env client [] = Some ([], client)"
| "checkRun env client ((f, w) # fs) =
    (case NSXCheckVersion env client f w of
       None \<Rightarrow> None
     | Some (ok, client', _) \<Rightarrow> map_option (\<lambda>(oks, c). (ok # oks, c)) (checkRun env client' fs))"


text \<open>The hypothesis is needed. When an error response comes between two versions, the change from the old one to the new one goes unnoticed and the
  cache is kept: the client goes on to report a feature as supported that the current product version does not support.\<close>

theorem stale_feature_after_error:
  "map_option (\<lambda>(oks, cl). (oks, clVersion (ncCluster (the cl))))
     (checkRun demoVersionEnv (Some demoClient) [(IPv6, 0), (RestoreVIF, hour), (RestoreVIF, 2 * hour), (IPv6, 2 * hour)])
     = Some ([True, False, False, True], ''9.1.0'')
   \<and> \<not> featureSupported ''9.1.0'' IPv6"
  by code_simp

section \<open>Licenses\<close>

lemma fold_UpdateLicense:
  assumes "distinct (map fst fs)"
  shows "fold (\<lambda>(f, names) m. UpdateLicense f (searchLicense l names) m) fs m g
    = (case map_of fs g of None \<Rightarrow> m g | Some names \<Rightarrow> searchLicense l names)"
  using assms
proof (induction fs arbitrary: m)
  case (Cons x fs)
  obtain f names where x: "x = (f, names)" by (metis surj_pair)
  have "map_of fs f = None" using Cons.prems x by (simp add: map_of_eq_None_iff)
  then show ?case using Cons x by (auto simp: UpdateLicense_def split: option.splits)
qed simp

lemma searchLicense_first:
  "searchLicense l ns \<longleftrightarrow> (\<exists>us n vs. ns = us @ n # vs \<and> map_of l n = Some True \<and> (\<forall>u \<in> set us. map_of l u = None))"
proof (induction ns)
  case (Cons n ns)
  show ?case
  proof (cases "map_of l n")
    case None
    have "(\<exists>us m vs. n # ns = us @ m # vs \<and> map_of l m = Some True \<and> (\<forall>u \<in> set us. map_of l u = None))
        \<longleftrightarrow> (\<exists>us m vs. ns = us @ m # vs \<and> map_of l m = Some True \<and> (\<forall>u \<in> set us. map_of l u = None))" (is "?L \<longleftrightarrow> ?R")
    proof
      assume ?L
      then obtain us m vs where "n # ns = us @ m # vs" "map_of l m = Some True" "\<forall>u \<in> set us. map_of l u = None" by blast
      then show ?R using None by (cases us) auto
    next
      assume ?R
      then obtain us m vs where "ns = us @ m # vs" "map_of l m = Some True" "\<forall>u \<in> set us. map_of l u = None" by blast
      then show ?L using None by (intro exI [of _ "n # us"]) auto
    qed
    then show ?thesis using Cons None by simp
  next
    case (Some b)
    have "(\<exists>us m vs. n # ns = us @ m # vs \<and> map_of l m = Some True \<and> (\<forall>u \<in> set us. map_of l u = None)) \<longleftrightarrow> b"
    proof
      assume "\<exists>us m vs. n # ns = us @ m # vs \<and> map_of l m = Some True \<and> (\<forall>u \<in> set us. map_of l u = None)"
      then obtain us m vs where "n # ns = us @ m # vs" "map_of l m = Some True" "\<forall>u \<in> set us. map_of l u = None" by blast
      then show b using Some by (cases us) auto
    next
      assume b
      then have "n # ns = [] @ n # ns \<and> map_of l n = Some True \<and> (\<forall>u \<in> set []. map_of l u = None)" using Some by simp
      then show "\<exists>us m vs. n # ns = us @ m # vs \<and> map_of l m = Some True \<and> (\<forall>u \<in> set us. map_of l u = None)" by blast
    qed
    then show ?thesis using Some by simp
  qed
qed simp

lemma UpdateFeatureLicense_value:
  assumes "is_order ord"
  shows "IsLicensed (UpdateFeatureLicense ord l m) g =
    (if l = [] then m g else case map_of FeatureLicenseMap g of None \<Rightarrow> m g | Some names \<Rightarrow> searchLicense l names)"
proof -
  have "mset (ord FeatureLicenseMap) = mset FeatureLicenseMap" using assms by (simp add: is_order_def)
  moreover have d: "distinct (map fst FeatureLicenseMap)" by (simp add: FeatureLicenseMap_def)
  ultimately have "distinct (map fst (ord FeatureLicenseMap))" "map_of (ord FeatureLicenseMap) = map_of FeatureLicenseMap"
    by (metis mset_map mset_eq_imp_distinct_iff, metis d map_of_eqI mset_eq_setD mset_map set_map mset_eq_imp_distinct_iff map_of_inject_set set_mset_mset)
  then show ?thesis by (simp add: UpdateFeatureLicense_def IsLicensed_def fold_UpdateLicense)
qed

section \<open>Certificates per endpoint\<close>

lemma entryOfHost_first:
  assumes "k < length eps" "bareHost (epHost (eps ! k)) = host" "\<forall>j < k. bareHost (epHost (eps ! j)) \<noteq> host" "i + k < length entries"
  shows "entryOfHost entries host i eps = Some (entries ! (i + k))"
  using assms
proof (induction eps arbitrary: i k)
  case (Cons ep eps)
  show ?case
  proof (cases k)
    case 0
    then show ?thesis using Cons.prems by simp
  next
    case (Suc k')
    have "\<forall>j < k'. bareHost (epHost (eps ! j)) \<noteq> host" using Cons.prems(3) Suc by auto
    then show ?thesis using Cons.IH [of k' "Suc i"] Cons.prems Suc by auto
  qed
qed simp

text \<open>With one thumbprint per manager, the connection to the address of a manager is checked against the thumbprint of the first
  manager with that host.\<close>

lemma getThumbprint_of_manager:
  assumes "length (Thumbprint cf) = length eps" "1 < length eps" "k < length eps" "CHR '':'' \<notin> set host"
    "bareHost (epHost (eps ! k)) = host" "\<forall>j < k. bareHost (epHost (eps ! j)) \<noteq> host"
  shows "getThumbprint cf eps (host @ '':'' @ port) = Some (Thumbprint cf ! k)"
proof -
  have "takeWhile (\<lambda>x. x \<noteq> CHR '':'') (host @ '':'' @ port) = host"
    using assms(4) by (subst takeWhile_append2) auto
  then show ?thesis
    using assms entryOfHost_first [of k eps host 0 "Thumbprint cf"]
    by (simp add: getThumbprint_def pickEntry_def before_char_def)
qed

section \<open>Creation\<close>

lemma setupEndpoint_host: "setupEndpoint env j ep w = (ep', w') \<Longrightarrow> epHost ep' = epHost ep"
  by (auto simp: setupEndpoint_def keepAlive_def Let_def setStatus_def setXSRFToken_def split: prod.splits sum.splits if_splits)

lemma createAuthSession_host: "createAuthSession a b post ep j w = (e, ep', j', w') \<Longrightarrow> epHost ep' = epHost ep"
  by (auto simp: createAuthSession_def setStatus_def setXSRFToken_def split: if_splits sum.splits option.splits prod.splits)

lemma createAuthSessions_hosts: "createAuthSessions env eps j w = (eps', j', w') \<Longrightarrow> map epHost eps' = map epHost eps"
proof (induction eps arbitrary: j w eps' j' w')
  case (Cons ep eps)
  then show ?case by (auto simp: Let_def createAuthSession_host split: prod.splits)
qed simp

lemma setupLoop_hosts: "setupLoop env cf j eps w = (eps', w') \<Longrightarrow> map epHost eps' = map epHost eps"
proof (induction eps arbitrary: w eps' w')
  case (Cons ep eps)
  obtain ep1 w1 where s: "setupEndpoint env j (setUserPassword (Username cf) (Password cf) ep) w = (ep1, w1)" by (metis surj_pair)
  have "epHost ep1 = epHost ep" using setupEndpoint_host [OF s] by (simp add: setUserPassword_def)
  then show ?case using Cons s by (auto split: if_splits prod.splits)
qed simp

text \<open>A new cluster has one endpoint per configured manager, in the order of the configuration.\<close>

lemma NewCluster_endpoints:
  assumes "NewCluster env cf j w = Some (Inr cl, w')"
  shows "\<exists>eps. createEndpoints (ceUrlParse env) (APIManagers cf) = Inr eps \<and> map epHost (clEndpoints cl) = map epHost eps
    \<and> length (clEndpoints cl) = length (APIManagers cf) \<and> clVersion cl = []"
proof -
  obtain eps0 where eps0: "createEndpoints (ceUrlParse env) (APIManagers cf) = Inr eps0"
    using assms by (auto simp: NewCluster_def split: sum.splits)
  obtain cas tps where ca: "loadCAforEnvoy (ceCert env) cf (replicate (length eps0) [], replicate (length eps0) []) = Some (cas, tps)"
    using assms eps0 by (auto simp: NewCluster_def split: option.splits)
  let ?eps1 = "map (\<lambda>ep. SetEnvoyUrl (CreateServerUrl cf (epHost ep) (epScheme ep)) ep) eps0"
  obtain eps2 j2 w2 where s2: "createAuthSessions env ?eps1 j w = (eps2, j2, w2)" by (metis surj_pair)
  obtain eps3 w3 where s3: "setupLoop env cf j2 eps2 w2 = (eps3, w3)" by (metis surj_pair)
  have cl: "clEndpoints cl = eps3" "clVersion cl = []" using assms eps0 ca s2 s3 by (auto simp: NewCluster_def Let_def)
  have "map epHost eps3 = map epHost ?eps1" using createAuthSessions_hosts [OF s2] setupLoop_hosts [OF s3] by simp
  also have "\<dots> = map epHost eps0" by (simp add: SetEnvoyUrl_def comp_def)
  finally have h: "map epHost eps3 = map epHost eps0" .
  moreover have "length eps0 = length (APIManagers cf)"
    using eps0 by (auto simp: createEndpoints_def map_res_Inr_iff list_all2_lengthD)
  moreover have "length eps3 = length eps0" using h by (metis length_map)
  ultimately show ?thesis using eps0 cl by simp
qed

end
