(* ===== verification/Selectors.thy ===== *)
theory Selectors
  imports Naming KubeUtil "HOL-Library.Product_Lexorder"
begin

text \<open>
  The translation of Kubernetes label selectors into the expressions of NSX groups: the expression builders and the selector
  checks of \<open>pkg/nsx/services/securitypolicy/builder.go\<close> and the tag scopes of \<open>parse.go\<close>. A nested expression is
  appended to a group and then filled through a pointer; here the group is the list of its finished parts together with
  the expressions of the part that is being filled.
\<close>

section \<open>Selectors and expressions\<close>

record requirement =
  rqKey :: string
  rqOp :: string
  rqValues :: "string list"

record label_selector =
  matchLabels :: "(string \<times> string) list"
  matchExpressions :: "requirement list"

record condition =
  cdResource :: string
  cdMember :: string
  cdValue :: string
  cdKey :: string
  cdOperator :: "string option"
  cdScopeOp :: string

datatype expr = Cond condition | Conj string

datatype gexpr = Nested "expr list" | IPAddresses "string list" | GConj string

text \<open>The service: whether it works on VPCs, the name of the cluster, and the UID of a namespace.\<close>

record sp_service =
  svVPC :: bool
  svCluster :: string
  svNamespaceUID :: "string \<Rightarrow> string"

definition getScopeCluserTag :: "sp_service \<Rightarrow> string" where
  "getScopeCluserTag sv = (if svVPC sv then ''nsx-op/cluster'' else ''ncp/cluster'')"

definition getScopePodTag :: "sp_service \<Rightarrow> string" where
  "getScopePodTag sv = (if svVPC sv then ''nsx-op/pod_uid'' else ''ncp/pod'')"

definition getScopeVMInterfaceTag :: "sp_service \<Rightarrow> string" where
  "getScopeVMInterfaceTag sv = (if svVPC sv then ''nsx-op/subnetport_uid'' else ''ncp/vnet_interface'')"

definition getScopeNamespaceUIDTag :: "sp_service \<Rightarrow> bool \<Rightarrow> string" where
  "getScopeNamespaceUIDTag sv isVMNameSpace =
    (if svVPC sv then (if isVMNameSpace then ''nsx-op/vm_namespace_uid'' else ''nsx-op/namespace_uid'')
     else (if isVMNameSpace then ''ncp/vif_project_uid'' else ''ncp/project_uid''))"

definition buildExpression :: "string \<Rightarrow> string \<Rightarrow> string \<Rightarrow> string \<Rightarrow> string \<Rightarrow> string \<Rightarrow> condition" where
  "buildExpression resource_type member_type v key operator scope_op =
    \<lparr>cdResource = resource_type, cdMember = member_type, cdValue = v, cdKey = key,
     cdOperator = (if scope_op = ''NOTEQUALS'' then None else Some operator), cdScopeOp = scope_op\<rparr>"

text \<open>The four conditions on a tag that the builders use.\<close>

definition tagEquals :: "string \<Rightarrow> string \<Rightarrow> string \<Rightarrow> condition" where
  "tagEquals memberType k v = buildExpression ''Condition'' memberType (k @ ''|'' @ v) ''Tag'' ''EQUALS'' ''EQUALS''"

definition tagNotIn :: "string \<Rightarrow> string \<Rightarrow> string list \<Rightarrow> condition" where
  "tagNotIn memberType k vs = buildExpression ''Condition'' memberType (k @ ''|'' @ str_join vs '','') ''Tag'' ''NOTIN'' ''EQUALS''"

definition tagExists :: "string \<Rightarrow> string \<Rightarrow> condition" where
  "tagExists memberType k = buildExpression ''Condition'' memberType (k @ ''|'') ''Tag'' ''EQUALS'' ''EQUALS''"

definition tagAbsent :: "string \<Rightarrow> string \<Rightarrow> condition" where
  "tagAbsent memberType k = buildExpression ''Condition'' memberType (k @ ''|'') ''Tag'' [] ''NOTEQUALS''"

definition appendOperatorIfNeeded :: "gexpr list \<Rightarrow> string \<Rightarrow> gexpr list" where
  "appendOperatorIfNeeded policyExpression op = (if 0 < length policyExpression then policyExpression @ [GConj op] else policyExpression)"

definition addOperatorIfNeeded :: "expr list \<Rightarrow> string \<Rightarrow> expr list" where
  "addOperatorIfNeeded expressions op = (if expressions \<noteq> [] then expressions @ [Conj op] else expressions)"

text \<open>Adding a condition after the conjunction operator.\<close>

definition addAnd :: "expr list \<Rightarrow> condition \<Rightarrow> expr list" where
  "addAnd expressions c = addOperatorIfNeeded expressions ''AND'' @ [Cond c]"

section \<open>Match labels\<close>

text \<open>\<open>ord\<close> is the order in which the map of labels is visited.\<close>

definition normalizedLabels :: "((string \<times> string) list \<Rightarrow> (string \<times> string) list) \<Rightarrow> (string \<times> string) list \<Rightarrow> (string \<times> string) list" where
  "normalizedLabels ord labels = the (NormalizeLabels (ord labels) [])"

definition updateExpressionsMatchLabels ::
  "((string \<times> string) list \<Rightarrow> (string \<times> string) list) \<Rightarrow> (string \<times> string) list \<Rightarrow> string \<Rightarrow> expr list \<Rightarrow> expr list" where
  "updateExpressionsMatchLabels ord labels memberType expressions =
    (let m = normalizedLabels ord labels in
     foldl (\<lambda>es k. addAnd es (tagEquals memberType k (the (map_of m k)))) expressions (sort (map fst m)))"

section \<open>Match expressions\<close>

definition mergeRequirement ::
  "(string list \<Rightarrow> string list) \<Rightarrow> ((string \<times> string) \<times> string list) list \<Rightarrow> requirement \<Rightarrow> ((string \<times> string) \<times> string list) list" where
  "mergeRequirement sord m d =
    (case map_of m (rqOp d, rqKey d) of
       None \<Rightarrow> AList.update (rqOp d, rqKey d) (rqValues d) m
     | Some vs \<Rightarrow>
         (if rqOp d = ''In'' then AList.update (rqOp d, rqKey d) (IntersectStr vs (rqValues d)) m
          else AList.update (rqOp d, rqKey d) (RemoveDuplicateStr sord (vs @ rqValues d)) m))"

definition mergeSelectorMatchExpression :: "(string list \<Rightarrow> string list) \<Rightarrow> requirement list \<Rightarrow> requirement list" where
  "mergeSelectorMatchExpression sord reqs =
    (let m = foldl (mergeRequirement sord) [] reqs;
         operators = sort (remdups (map (fst \<circ> fst) m)) in
     concat (map (\<lambda>op.
       map (\<lambda>k. let v = the (map_of m (op, k)) in
              \<lparr>rqKey = k, rqOp = op, rqValues = (if op = ''NotIn'' then sort v else v)\<rparr>)
         (sort (map (snd \<circ> fst) (filter (\<lambda>e. fst (fst e) = op) m)))) operators))"

definition MaxCriteriaExpressions :: nat where "MaxCriteriaExpressions = 5"
definition MaxMixedCriteriaExpressions :: nat where "MaxMixedCriteriaExpressions = 15"
definition MaxCriteria :: nat where "MaxCriteria = 5"
definition MaxTotalCriteriaExpressions :: nat where "MaxTotalCriteriaExpressions = 35"
definition MaxMatchExpressionInOp :: nat where "MaxMatchExpressionInOp = 1"
definition MaxMatchExpressionInValues :: nat where "MaxMatchExpressionInValues = 5"
definition ClusterTagCount :: nat where "ClusterTagCount = 1"
definition NameSpaceTagCount :: nat where "NameSpaceTagCount = 1"

lemmas selector_limits = MaxCriteriaExpressions_def MaxMixedCriteriaExpressions_def MaxCriteria_def MaxTotalCriteriaExpressions_def
  MaxMatchExpressionInOp_def MaxMatchExpressionInValues_def ClusterTagCount_def NameSpaceTagCount_def

text \<open>The checks return the message of a validation error.\<close>

definition validateSelectorOpIn :: "requirement list \<Rightarrow> (string \<times> string) list \<Rightarrow> nat \<times> gerror option" where
  "validateSelectorOpIn reqs labels =
    (let ins = filter (\<lambda>r. rqOp r = ''In'') reqs;
         opCount = length ins;
         valueCount = sum_list (map (\<lambda>r. length (rqValues r)) ins);
         dup = list_ex (\<lambda>r. case map_of labels (rqKey r) of None \<Rightarrow> False | Some v \<Rightarrow> v \<in> set (rqValues r)) ins in
     (valueCount,
      if MaxMatchExpressionInOp < opCount then Some ''count of operator In expressions exceed maximum limit''
      else if MaxMatchExpressionInValues < valueCount then Some ''count of values list for operator In expressions exceed maximum limit''
      else if dup then Some ''duplicate expression specified in both matchLabels and matchExpressions operator In''
      else None))"

definition validateNsSelectorOpNotIn :: "requirement list \<Rightarrow> gerror option" where
  "validateNsSelectorOpNotIn reqs =
    (if list_ex (\<lambda>r. rqOp r = ''NotIn'') reqs then Some ''operator NotIn for NamespaceSelector is not supported'' else None)"

definition validateSelectorExpressions :: "nat \<Rightarrow> nat \<Rightarrow> nat \<Rightarrow> bool \<Rightarrow> gerror + nat \<times> nat" where
  "validateSelectorExpressions matchLabelsCount matchExpressionsCount opInValueCount mixedCriteria =
    (let totalExprCount = (if matchExpressionsCount \<noteq> 0 then matchLabelsCount + matchExpressionsCount else matchLabelsCount) in
     if \<not> mixedCriteria \<and> MaxCriteriaExpressions < totalExprCount
     then Inl ''total count of labelSelectors expressions exceed NSX limit in one criteria based on the same member type''
     else if mixedCriteria \<and> MaxMixedCriteriaExpressions < totalExprCount
     then Inl ''total count of labelSelectors expressions exceed NSX limit in one criteria inside a mixed member type''
     else if matchLabelsCount \<noteq> 0 \<or> matchExpressionsCount \<noteq> 0
     then (if opInValueCount \<noteq> 0 then Inr (opInValueCount, totalExprCount * opInValueCount) else Inr (1, totalExprCount))
     else Inr (0, totalExprCount))"

definition matchExpressionOpInExist :: "requirement list \<Rightarrow> requirement option" where
  "matchExpressionOpInExist reqs = List.find (\<lambda>r. rqOp r = ''In'') reqs"

text \<open>The loop goes on after an unknown operator; the last one is reported.\<close>

fun buildExpressionsMatchExpression :: "requirement list \<Rightarrow> string \<Rightarrow> expr list \<Rightarrow> gerror option \<Rightarrow> gerror option \<times> expr list" where
  "buildExpressionsMatchExpression [] memberType es err = (err, es)"
| "buildExpressionsMatchExpression (r # rs) memberType es err =
    (if rqOp r = ''In'' then buildExpressionsMatchExpression rs memberType es err
     else if rqOp r = ''NotIn'' then buildExpressionsMatchExpression rs memberType (addAnd es (tagNotIn memberType (rqKey r) (rqValues r))) err
     else if rqOp r = ''Exists'' then buildExpressionsMatchExpression rs memberType (addAnd es (tagExists memberType (rqKey r))) err
     else if rqOp r = ''DoesNotExist'' then buildExpressionsMatchExpression rs memberType (addAnd es (tagAbsent memberType (rqKey r))) err
     else buildExpressionsMatchExpression rs memberType es (Some (''invalid operator '' @ rqOp r @ '' in matchExpressions'')))"

text \<open>The next criteria of the group, which starts with the conditions on the cluster and on the namespace.\<close>

definition startCriteria :: "condition option \<Rightarrow> condition option \<Rightarrow> expr list" where
  "startCriteria clusterExpression tagValueExpression =
    (let es = (case clusterExpression of None \<Rightarrow> [] | Some c \<Rightarrow> [Cond c]) in
     case tagValueExpression of None \<Rightarrow> es
     | Some t \<Rightarrow> (if clusterExpression \<noteq> None then addOperatorIfNeeded es ''AND'' else es) @ [Cond t])"

definition nextFrame :: "gexpr list \<Rightarrow> expr list \<Rightarrow> gexpr list" where
  "nextFrame pe es = appendOperatorIfNeeded (pe @ [Nested es]) ''OR''"

text \<open>One criteria per value of the operator In. \<open>start\<close> fills a new criteria, \<open>fill\<close> adds what follows its start.\<close>

fun valuesLoop ::
  "expr list \<Rightarrow> (string \<Rightarrow> expr list \<Rightarrow> gerror option \<times> expr list) \<Rightarrow> bool \<Rightarrow> string list \<Rightarrow> gexpr list \<Rightarrow> expr list \<Rightarrow>
   gerror + gexpr list \<times> expr list" where
  "valuesLoop start fill notFirst [] pe es = Inr (pe, es)"
| "valuesLoop start fill notFirst (v # vs) pe es =
    (let (pe', es') = (if notFirst then (nextFrame pe es, start) else (pe, es)) in
     case fill v es' of
       (Some err, _) \<Rightarrow> Inl err
     | (None, es'') \<Rightarrow> valuesLoop start fill True vs pe' es'')"

definition updateExpressionsMatchExpression ::
  "((string \<times> string) list \<Rightarrow> (string \<times> string) list) \<Rightarrow> requirement list \<Rightarrow> (string \<times> string) list \<Rightarrow> condition option \<Rightarrow>
   condition option \<Rightarrow> string \<Rightarrow> gexpr list \<Rightarrow> expr list \<Rightarrow> gerror + gexpr list \<times> expr list" where
  "updateExpressionsMatchExpression ord reqs labels clusterExpression tagValueExpression memberType pe es =
    (case matchExpressionOpInExist reqs of
       None \<Rightarrow> (case buildExpressionsMatchExpression reqs memberType es None of (Some err, _) \<Rightarrow> Inl err | (None, es') \<Rightarrow> Inr (pe, es'))
     | Some r \<Rightarrow>
         valuesLoop (updateExpressionsMatchLabels ord labels memberType (startCriteria clusterExpression tagValueExpression))
           (\<lambda>v es. buildExpressionsMatchExpression reqs memberType (addAnd es (tagEquals memberType (rqKey r) v)) None)
           False (rqValues r) pe es)"

definition updateMixedExpressionsMatchExpression ::
  "((string \<times> string) list \<Rightarrow> (string \<times> string) list) \<Rightarrow> requirement list \<Rightarrow> (string \<times> string) list \<Rightarrow> requirement list \<Rightarrow>
   (string \<times> string) list \<Rightarrow> condition option \<Rightarrow> condition option \<Rightarrow> gexpr list \<Rightarrow> expr list \<Rightarrow> gerror + gexpr list \<times> expr list" where
  "updateMixedExpressionsMatchExpression ord nsReqs nsLabels reqs labels clusterExpression tagValueExpression pe es =
    (let start = updateExpressionsMatchLabels ord nsLabels ''Segment''
           (updateExpressionsMatchLabels ord labels ''SegmentPort'' (startCriteria clusterExpression tagValueExpression));
         fill = (\<lambda>others othersType r opReqs memberType v es.
           case buildExpressionsMatchExpression others othersType es None of
             (Some err, es') \<Rightarrow> (Some err, es')
           | (None, es') \<Rightarrow> buildExpressionsMatchExpression opReqs memberType (addAnd es' (tagEquals memberType (rqKey r) v)) None) in
     case (matchExpressionOpInExist nsReqs, matchExpressionOpInExist reqs) of
       (Some _, Some _) \<Rightarrow> Inl ''operator In is set in both Pod/VM selector and NamespaceSelector''
     | (Some r, None) \<Rightarrow> valuesLoop start (fill reqs ''SegmentPort'' r nsReqs ''Segment'') False (rqValues r) pe es
     | (None, Some r) \<Rightarrow> valuesLoop start (fill nsReqs ''Segment'' r reqs ''SegmentPort'') False (rqValues r) pe es
     | (None, None) \<Rightarrow>
         (case buildExpressionsMatchExpression reqs ''SegmentPort'' es None of
            (Some err, _) \<Rightarrow> Inl err
          | (None, es') \<Rightarrow>
              (case buildExpressionsMatchExpression nsReqs ''Segment'' es' None of
                 (Some err, _) \<Rightarrow> Inl err | (None, es'') \<Rightarrow> Inr (pe, es''))))"

section \<open>Targets and peers\<close>

record target =
  tgPod :: "label_selector option"
  tgVM :: "label_selector option"

record peer =
  prIPBlocks :: "string list"
  prPod :: "label_selector option"
  prVM :: "label_selector option"
  prNamespace :: "label_selector option"

text \<open>The orders in which maps and sets are visited.\<close>

record orders =
  labelOrder :: "(string \<times> string) list \<Rightarrow> (string \<times> string) list"
  valueOrder :: "string list \<Rightarrow> string list"

text \<open>Merging, checking and adding the expressions of a selector that stands alone.\<close>

definition addSelector ::
  "orders \<Rightarrow> label_selector \<Rightarrow> condition option \<Rightarrow> condition option \<Rightarrow> string \<Rightarrow> gexpr list \<Rightarrow> expr list \<Rightarrow>
   gerror + (gexpr list \<times> expr list) \<times> nat \<times> nat" where
  "addSelector od sel clusterExpression tagValueExpression memberType pe es =
    (let merged = mergeSelectorMatchExpression (valueOrder od) (matchExpressions sel) in
     case validateSelectorOpIn merged (matchLabels sel) of
       (_, Some err) \<Rightarrow> Inl err
     | (opInValueCount, None) \<Rightarrow>
         bind_res (updateExpressionsMatchExpression (labelOrder od) merged (matchLabels sel) clusterExpression tagValueExpression memberType pe es)
           (\<lambda>r. Inr (r, length merged, opInValueCount)))"

definition updateTargetExpressions ::
  "orders \<Rightarrow> sp_service \<Rightarrow> string \<Rightarrow> target \<Rightarrow> gexpr list \<Rightarrow> gerror + gexpr list \<times> nat \<times> nat" where
  "updateTargetExpressions od sv ns tg grp =
    (let memberType = (if svVPC sv then ''VpcSubnetPort'' else ''SegmentPort'');
         clusterMemberType = (if svVPC sv then ''VpcSubnetPort'' else ''Segment'');
         clusterExpression = tagEquals clusterMemberType (getScopeCluserTag sv) (svCluster sv);
         pe = appendOperatorIfNeeded grp ''OR'';
         withSelector = (\<lambda>sel isVM.
           let nsExpression = tagEquals memberType (getScopeNamespaceUIDTag sv isVM) (svNamespaceUID sv ns);
               es = updateExpressionsMatchLabels (labelOrder od) (matchLabels sel) memberType (addAnd [Cond clusterExpression] nsExpression) in
           bind_res (addSelector od sel (Some clusterExpression) (Some nsExpression) memberType pe es)
             (\<lambda>((pe', es'), exprCount, opInValueCount).
               bind_res (validateSelectorExpressions (length (matchLabels sel) + ClusterTagCount + NameSpaceTagCount) exprCount opInValueCount (\<not> svVPC sv))
                 (\<lambda>(criteria, exprs). Inr (pe' @ [Nested es'], criteria, exprs)))) in
     case (tgPod tg, tgVM tg) of
       (Some _, Some _) \<Rightarrow> Inl ''PodSelector and VMSelector are not allowed to set in one group''
     | (Some sel, None) \<Rightarrow> withSelector sel False
     | (None, Some sel) \<Rightarrow> withSelector sel True
     | (None, None) \<Rightarrow> Inr (pe @ [Nested [Cond clusterExpression]], 0, 0))"

definition emptySelector :: "label_selector \<Rightarrow> bool" where
  "emptySelector sel \<longleftrightarrow> matchLabels sel = [] \<and> matchExpressions sel = []"

definition updatePeerExpressions ::
  "orders \<Rightarrow> sp_service \<Rightarrow> string \<Rightarrow> peer \<Rightarrow> bool \<Rightarrow> gexpr list \<Rightarrow> gerror + gexpr list \<times> nat \<times> nat" where
  "updatePeerExpressions od sv ns p groupShared grp =
    (let grp1 = (if prIPBlocks p \<noteq> [] then appendOperatorIfNeeded grp ''OR'' @ [IPAddresses (prIPBlocks p)] else grp);
         vpcLevel = (svVPC sv \<and> \<not> groupShared);
         pe = appendOperatorIfNeeded grp1 ''OR'';
         clusterMemberType = (if vpcLevel then ''VpcSubnetPort''
           else if prPod p = None \<and> prVM p = None \<and> (case prNamespace p of Some sel \<Rightarrow> \<not> emptySelector sel | None \<Rightarrow> False) then ''SegmentPort'' else ''Segment'');
         memberType = (if vpcLevel then ''VpcSubnetPort'' else ''SegmentPort'');
         clusterExpression = tagEquals clusterMemberType (getScopeCluserTag sv) (svCluster sv);
         check = (\<lambda>(pe', es') labels exprs ins.
           bind_res (validateSelectorExpressions labels exprs ins (\<not> vpcLevel)) (\<lambda>(c, t). Inr (pe' @ [Nested es'], c, t)));
         member = (\<lambda>sel isVM.
           case prNamespace p of
             None \<Rightarrow>
               (let tagValue = tagEquals memberType (getScopeNamespaceUIDTag sv isVM) (svNamespaceUID sv ns);
                    es = updateExpressionsMatchLabels (labelOrder od) (matchLabels sel) memberType (addAnd [Cond clusterExpression] tagValue) in
                bind_res (addSelector od sel (Some clusterExpression) (Some tagValue) memberType pe es)
                  (\<lambda>(r, n, ins). check r (length (matchLabels sel) + ClusterTagCount + NameSpaceTagCount) n ins))
           | Some nsSel \<Rightarrow>
               (let tagValue = tagExists memberType (if isVM then getScopeVMInterfaceTag sv else getScopePodTag sv);
                    es0 = addAnd [Cond clusterExpression] tagValue in
                case validateNsSelectorOpNotIn (matchExpressions nsSel) of
                  Some err \<Rightarrow> Inl err
                | None \<Rightarrow>
                  (let merged = mergeSelectorMatchExpression (valueOrder od) (matchExpressions sel);
                       nsMerged = mergeSelectorMatchExpression (valueOrder od) (matchExpressions nsSel) in
                   case (validateSelectorOpIn merged (matchLabels sel), validateSelectorOpIn nsMerged (matchLabels nsSel)) of
                     ((_, Some err), _) \<Rightarrow> Inl err
                   | ((_, None), (_, Some err)) \<Rightarrow> Inl err
                   | ((ins, None), (nsIns, None)) \<Rightarrow>
                       (if 0 < ins \<and> 0 < nsIns then Inl ''operator In is set in both Pod/VM selector and NamespaceSelector''
                        else
                          let es = updateExpressionsMatchLabels (labelOrder od) (matchLabels nsSel) ''Segment''
                                (updateExpressionsMatchLabels (labelOrder od) (matchLabels sel) ''SegmentPort'' es0) in
                          bind_res (updateMixedExpressionsMatchExpression (labelOrder od) nsMerged (matchLabels nsSel) merged (matchLabels sel)
                              (Some clusterExpression) (Some tagValue) pe es)
                            (\<lambda>r. check r (length (matchLabels sel) + ClusterTagCount + NameSpaceTagCount + length (matchLabels nsSel))
                               (length merged + length nsMerged) (ins + nsIns)))))) in
     case (prPod p, prVM p, prNamespace p) of
       (None, None, None) \<Rightarrow> Inr (grp1, 0, 0)
     | (Some _, Some _, None) \<Rightarrow> Inl ''PodSelector and VMSelector are not allowed to set in one group''
     | (Some _, Some _, Some _) \<Rightarrow> Inl ''PodSelector, VMSelector and NamespaceSelector are not allowed to set in one group''
     | (Some sel, None, _) \<Rightarrow> member sel False
     | (None, Some sel, _) \<Rightarrow> member sel True
     | (None, None, Some nsSel) \<Rightarrow>
         (if emptySelector nsSel
          then check (pe, addAnd [Cond clusterExpression] (tagEquals ''SegmentPort'' (getScopeCluserTag sv) (svCluster sv))) (ClusterTagCount + 1) 0 0
          else
            let es = updateExpressionsMatchLabels (labelOrder od) (matchLabels nsSel) ''Segment'' [Cond clusterExpression] in
            case validateNsSelectorOpNotIn (matchExpressions nsSel) of
              Some err \<Rightarrow> Inl err
            | None \<Rightarrow>
                bind_res (addSelector od nsSel (Some clusterExpression) None ''Segment'' pe es)
                  (\<lambda>(r, n, ins). check r (length (matchLabels nsSel) + ClusterTagCount) n ins)))"

section \<open>The meaning of expressions\<close>

text \<open>How NSX reads a group: conditions joined by conjunctions inside a part, parts joined by disjunctions. The meaning of a single condition and of
  a list of addresses is a parameter.\<close>

fun evalExprs :: "(condition \<Rightarrow> bool) \<Rightarrow> expr list \<Rightarrow> bool" where
  "evalExprs sat [Cond c] = sat c"
| "evalExprs sat (Cond c # Conj op # es) = (if op = ''AND'' then sat c \<and> evalExprs sat es else sat c \<or> evalExprs sat es)"
| "evalExprs sat _ = False"

fun evalPart :: "(condition \<Rightarrow> bool) \<Rightarrow> (string list \<Rightarrow> bool) \<Rightarrow> gexpr \<Rightarrow> bool" where
  "evalPart sat ips (Nested es) = evalExprs sat es"
| "evalPart sat ips (IPAddresses xs) = ips xs"
| "evalPart sat ips (GConj op) = False"

fun evalGroup :: "(condition \<Rightarrow> bool) \<Rightarrow> (string list \<Rightarrow> bool) \<Rightarrow> gexpr list \<Rightarrow> bool" where
  "evalGroup sat ips [g] = evalPart sat ips g"
| "evalGroup sat ips (g # GConj op # gs) = (if op = ''OR'' then evalPart sat ips g \<or> evalGroup sat ips gs else evalPart sat ips g \<and> evalGroup sat ips gs)"
| "evalGroup sat ips _ = False"

text \<open>The shape that NSX asks for: conditions at even positions, conjunctions between them; parts with disjunctions between them.\<close>

fun andList :: "condition list \<Rightarrow> expr list" where
  "andList [] = []"
| "andList [c] = [Cond c]"
| "andList (c # d # cs) = Cond c # Conj ''AND'' # andList (d # cs)"

fun orList :: "gexpr list \<Rightarrow> gexpr list" where
  "orList [] = []"
| "orList [g] = [g]"
| "orList (g # h # gs) = g # GConj ''OR'' # orList (h # gs)"

lemma andList_empty [simp]: "andList cs = [] \<longleftrightarrow> cs = []" by (cases cs rule: andList.cases) auto
lemma orList_empty [simp]: "orList gs = [] \<longleftrightarrow> gs = []" by (cases gs rule: orList.cases) auto

lemma addAnd_andList [simp]: "addAnd (andList cs) c = andList (cs @ [c])"
  unfolding addAnd_def addOperatorIfNeeded_def by (induction cs rule: andList.induct) auto

lemma addAnd_single [simp]: "addAnd [Cond c] d = andList [c, d]"
  by (simp add: addAnd_def addOperatorIfNeeded_def)

definition opened :: "gexpr list \<Rightarrow> gexpr list" where
  "opened parts = appendOperatorIfNeeded (orList parts) ''OR''"

lemma opened_snoc [simp]: "opened parts @ [g] = orList (parts @ [g])"
  unfolding opened_def appendOperatorIfNeeded_def by (induction parts rule: orList.induct) auto

lemma nextFrame_opened [simp]: "nextFrame (opened parts) es = opened (parts @ [Nested es])"
  by (simp add: nextFrame_def opened_def [of "parts @ [Nested es]"])

lemma evalExprs_andList: "evalExprs sat (andList cs) \<longleftrightarrow> cs \<noteq> [] \<and> (\<forall>c \<in> set cs. sat c)"
  by (induction cs rule: andList.induct) auto

lemma evalGroup_orList: "evalGroup sat ips (orList gs) \<longleftrightarrow> (\<exists>g \<in> set gs. evalPart sat ips g)"
  by (induction gs rule: orList.induct) auto

section \<open>What the builders produce\<close>

definition labelConds :: "((string \<times> string) list \<Rightarrow> (string \<times> string) list) \<Rightarrow> (string \<times> string) list \<Rightarrow> string \<Rightarrow> condition list" where
  "labelConds ord labels mt =
    (let m = normalizedLabels ord labels in map (\<lambda>k. tagEquals mt k (the (map_of m k))) (sort (map fst m)))"

lemma updateExpressionsMatchLabels_andList:
  "updateExpressionsMatchLabels ord labels mt (andList cs) = andList (cs @ labelConds ord labels mt)"
proof -
  have "foldl (\<lambda>es k. addAnd es (f k)) (andList cs) ks = andList (cs @ map f ks)" for f :: "string \<Rightarrow> condition" and ks
    by (induction ks arbitrary: cs) auto
  then show ?thesis by (simp add: updateExpressionsMatchLabels_def labelConds_def Let_def)
qed

definition knownOp :: "requirement \<Rightarrow> bool" where
  "knownOp r \<longleftrightarrow> rqOp r \<in> {''In'', ''NotIn'', ''Exists'', ''DoesNotExist''}"

definition reqConds :: "string \<Rightarrow> requirement \<Rightarrow> condition list" where
  "reqConds mt r =
    (if rqOp r = ''NotIn'' then [tagNotIn mt (rqKey r) (rqValues r)]
     else if rqOp r = ''Exists'' then [tagExists mt (rqKey r)]
     else if rqOp r = ''DoesNotExist'' then [tagAbsent mt (rqKey r)] else [])"

lemma buildExpressions_error: "buildExpressionsMatchExpression rs mt es (Some e) = (None, es') \<Longrightarrow> False"
  by (induction rs arbitrary: es e) (auto split: if_splits)

lemma buildExpressions_andList:
  "buildExpressionsMatchExpression rs mt (andList cs) None = (None, es) \<longleftrightarrow>
     (\<forall>r \<in> set rs. knownOp r) \<and> es = andList (cs @ concat (map (reqConds mt) rs))"
proof (induction rs arbitrary: cs)
  case (Cons r rs)
  consider "rqOp r = ''In''" | "rqOp r = ''NotIn''" | "rqOp r = ''Exists''" | "rqOp r = ''DoesNotExist''" | "\<not> knownOp r"
    by (auto simp: knownOp_def)
  then show ?case
  proof cases
    case 5
    then show ?thesis using buildExpressions_error by (fastforce simp: knownOp_def)
  qed (auto simp: Cons.IH knownOp_def reqConds_def)
qed auto

lemma valuesLoop_rest:
  assumes "\<And>v e. fill v (andList s) = (None, e) \<Longrightarrow> e = andList (s @ m v)"
    and "valuesLoop (andList s) fill True vs (opened parts) es = Inr (pe, es')"
  shows "pe @ [Nested es'] = orList (parts @ Nested es # map (\<lambda>v. Nested (andList (s @ m v))) vs)"
  using assms(2)
proof (induction vs arbitrary: parts es)
  case (Cons v vs)
  then obtain e where e: "fill v (andList s) = (None, e)" "valuesLoop (andList s) fill True vs (opened (parts @ [Nested es])) e = Inr (pe, es')"
    by (auto split: prod.splits option.splits)
  then show ?case using Cons.IH [OF e(2)] assms(1) [OF e(1)] by simp
qed auto

lemma valuesLoop_frames:
  assumes "\<And>v e. fill v (andList s) = (None, e) \<Longrightarrow> e = andList (s @ m v)"
    and "valuesLoop (andList s) fill False vs (opened parts) (andList s) = Inr (pe, es')"
  shows "pe @ [Nested es'] = orList (parts @ (if vs = [] then [Nested (andList s)] else map (\<lambda>v. Nested (andList (s @ m v))) vs))"
proof (cases vs)
  case (Cons v vs')
  then obtain e where e: "fill v (andList s) = (None, e)" "valuesLoop (andList s) fill True vs' (opened parts) e = Inr (pe, es')"
    using assms(2) by (auto split: prod.splits option.splits)
  then show ?thesis using valuesLoop_rest [OF assms(1) e(2)] assms(1) [OF e(1)] Cons by simp
qed (use assms(2) in auto)

text \<open>The parts that a list of merged requirements adds after the conditions \<open>s\<close>.\<close>

definition reqParts :: "string \<Rightarrow> requirement list \<Rightarrow> condition list \<Rightarrow> gexpr list" where
  "reqParts mt reqs s =
    (case matchExpressionOpInExist reqs of
       None \<Rightarrow> [Nested (andList (s @ concat (map (reqConds mt) reqs)))]
     | Some r \<Rightarrow>
         (if rqValues r = [] then [Nested (andList s)]
          else map (\<lambda>v. Nested (andList (s @ tagEquals mt (rqKey r) v # concat (map (reqConds mt) reqs)))) (rqValues r)))"

definition baseConds :: "condition \<Rightarrow> condition option \<Rightarrow> condition list" where
  "baseConds c t = c # (case t of None \<Rightarrow> [] | Some t \<Rightarrow> [t])"

lemma startCriteria_andList: "startCriteria (Some c) t = andList (baseConds c t)"
  by (simp add: startCriteria_def baseConds_def addOperatorIfNeeded_def split: option.split)

lemma updateExpressions_parts:
  assumes "updateExpressionsMatchExpression ord reqs labels (Some c) t mt (opened parts) (andList (baseConds c t @ labelConds ord labels mt)) = Inr (pe, es)"
  shows "pe @ [Nested es] = orList (parts @ reqParts mt reqs (baseConds c t @ labelConds ord labels mt))"
    and "(\<forall>r. matchExpressionOpInExist reqs = Some r \<longrightarrow> rqValues r \<noteq> []) \<longrightarrow> (\<forall>r \<in> set reqs. knownOp r)"
proof -
  let ?s = "baseConds c t @ labelConds ord labels mt"
  have "pe @ [Nested es] = orList (parts @ reqParts mt reqs ?s)
    \<and> ((\<forall>r. matchExpressionOpInExist reqs = Some r \<longrightarrow> rqValues r \<noteq> []) \<longrightarrow> (\<forall>r \<in> set reqs. knownOp r))"
  proof (cases "matchExpressionOpInExist reqs")
    case None
    then obtain es' where b: "buildExpressionsMatchExpression reqs mt (andList ?s) None = (None, es')" and "pe = opened parts" "es = es'"
      using assms by (auto simp: updateExpressionsMatchExpression_def split: prod.splits option.splits)
    then show ?thesis using None by (simp add: buildExpressions_andList reqParts_def)
  next
    case (Some r)
    let ?fill = "\<lambda>v es. buildExpressionsMatchExpression reqs mt (addAnd es (tagEquals mt (rqKey r) v)) None"
    let ?m = "\<lambda>v. tagEquals mt (rqKey r) v # concat (map (reqConds mt) reqs)"
    have fill: "e = andList (?s @ ?m v)" if "?fill v (andList ?s) = (None, e)" for v e
      using that by (simp add: buildExpressions_andList)
    have vl: "valuesLoop (andList ?s) ?fill False (rqValues r) (opened parts) (andList ?s) = Inr (pe, es)"
      using assms Some by (simp add: updateExpressionsMatchExpression_def startCriteria_andList updateExpressionsMatchLabels_andList)
    have "\<forall>r \<in> set reqs. knownOp r" if ne: "rqValues r \<noteq> []"
    proof -
      obtain v vs where "rqValues r = v # vs" using ne by (meson neq_Nil_conv)
      then obtain e where "?fill v (andList ?s) = (None, e)" using vl by (auto split: prod.splits option.splits)
      then show ?thesis by (simp add: buildExpressions_andList)
    qed
    with valuesLoop_frames [OF fill vl] Some show ?thesis by (simp add: reqParts_def)
  qed
  then show "pe @ [Nested es] = orList (parts @ reqParts mt reqs ?s)"
    "(\<forall>r. matchExpressionOpInExist reqs = Some r \<longrightarrow> rqValues r \<noteq> []) \<longrightarrow> (\<forall>r \<in> set reqs. knownOp r)"
    by auto
qed

definition reqSat :: "(condition \<Rightarrow> bool) \<Rightarrow> string \<Rightarrow> requirement \<Rightarrow> bool" where
  "reqSat sat mt r =
    (if rqOp r = ''In'' then \<exists>v \<in> set (rqValues r). sat (tagEquals mt (rqKey r) v) else \<forall>c \<in> set (reqConds mt r). sat c)"

lemma reqConds_In [simp]: "rqOp r = ''In'' \<Longrightarrow> reqConds mt r = []"
  by (simp add: reqConds_def)

lemma single_In:
  assumes "length (filter (\<lambda>r. rqOp r = ''In'') reqs) \<le> 1" "r \<in> set reqs" "r' \<in> set reqs" "rqOp r = ''In''" "rqOp r' = ''In''"
  shows "r = r'"
proof -
  have "r \<in> set (filter (\<lambda>r. rqOp r = ''In'') reqs)" "r' \<in> set (filter (\<lambda>r. rqOp r = ''In'') reqs)" using assms by auto
  then show ?thesis using assms(1) by (cases "filter (\<lambda>r. rqOp r = ''In'') reqs") auto
qed

lemma reqParts_sem:
  assumes "length (filter (\<lambda>r. rqOp r = ''In'') reqs) \<le> 1" "\<forall>r \<in> set reqs. rqOp r = ''In'' \<longrightarrow> rqValues r \<noteq> []" "s \<noteq> []"
  shows "(\<exists>p \<in> set (reqParts mt reqs s). evalPart sat ips p) \<longleftrightarrow> (\<forall>c \<in> set s. sat c) \<and> (\<forall>r \<in> set reqs. reqSat sat mt r)"
proof (cases "matchExpressionOpInExist reqs")
  case None
  then have "\<forall>r \<in> set reqs. rqOp r \<noteq> ''In''" by (simp add: matchExpressionOpInExist_def find_None_all)
  then show ?thesis using None assms(3) by (auto simp: reqParts_def evalExprs_andList reqSat_def)
next
  case (Some r)
  then have r: "r \<in> set reqs" "rqOp r = ''In''"
    using find_Some_in [of "\<lambda>r. rqOp r = ''In''" reqs r] by (simp_all add: matchExpressionOpInExist_def)
  have all: "(\<forall>r' \<in> set reqs. reqSat sat mt r') \<longleftrightarrow>
      (\<exists>v \<in> set (rqValues r). sat (tagEquals mt (rqKey r) v)) \<and> (\<forall>r' \<in> set reqs. \<forall>c \<in> set (reqConds mt r'). sat c)"
  proof -
    have "reqSat sat mt r' \<longleftrightarrow> (r' = r \<longrightarrow> (\<exists>v \<in> set (rqValues r). sat (tagEquals mt (rqKey r) v))) \<and> (\<forall>c \<in> set (reqConds mt r'). sat c)"
      if "r' \<in> set reqs" for r'
    proof (cases "rqOp r' = ''In''")
      case True
      then have "r = r'" using single_In [OF assms(1) r(1) that r(2)] by simp
      then show ?thesis using True by (simp add: reqSat_def)
    next
      case False
      then show ?thesis using r(2) by (auto simp: reqSat_def)
    qed
    then show ?thesis using r(1) by blast
  qed
  have "rqValues r \<noteq> []" using assms(2) r by blast
  then show ?thesis using Some all by (auto simp: reqParts_def evalExprs_andList)
qed

section \<open>Merging\<close>

text \<open>What a requirement asks of the labels of an object, as Kubernetes defines it.\<close>

definition k8sMatch :: "(string \<rightharpoonup> string) \<Rightarrow> requirement \<Rightarrow> bool" where
  "k8sMatch lab r =
    (if rqOp r = ''In'' then \<exists>v \<in> set (rqValues r). lab (rqKey r) = Some v
     else if rqOp r = ''NotIn'' then \<forall>v \<in> set (rqValues r). lab (rqKey r) \<noteq> Some v
     else if rqOp r = ''Exists'' then lab (rqKey r) \<noteq> None
     else lab (rqKey r) = None)"

definition entryReq :: "(string \<times> string) \<times> string list \<Rightarrow> requirement" where
  "entryReq e = \<lparr>rqKey = snd (fst e), rqOp = fst (fst e), rqValues = snd e\<rparr>"

lemma set_RemoveDuplicateStr [simp]: "is_order sord \<Longrightarrow> set (RemoveDuplicateStr sord xs) = set xs"
  by (simp add: RemoveDuplicateStr_def)

lemma set_IntersectStr [simp]: "set (IntersectStr a b) = set a \<inter> set b"
  by (auto simp: IntersectStr_def)

lemma update_set:
  assumes "wf_map m"
  shows "set (AList.update k v m) = insert (k, v) {e \<in> set m. fst e \<noteq> k}"
  using assms
proof (induction m)
  case (Cons x m)
  then show ?case by (cases x) (auto simp: wf_map_def image_iff)
qed simp

lemma wf_mergeRequirement: "wf_map m \<Longrightarrow> wf_map (mergeRequirement sord m d)"
  by (simp add: mergeRequirement_def split: option.split)

lemma k8sMatch_values:
  "k8sMatch lab \<lparr>rqKey = k, rqOp = op, rqValues = vs\<rparr> =
    (if op = ''In'' then \<exists>v \<in> set vs. lab k = Some v
     else if op = ''NotIn'' then \<forall>v \<in> set vs. lab k \<noteq> Some v
     else if op = ''Exists'' then lab k \<noteq> None else lab k = None)"
  by (simp add: k8sMatch_def)

lemma mergeRequirement_sem:
  assumes "wf_map m" "is_order sord"
  shows "(\<forall>e \<in> set (mergeRequirement sord m d). k8sMatch lab (entryReq e)) \<longleftrightarrow> (\<forall>e \<in> set m. k8sMatch lab (entryReq e)) \<and> k8sMatch lab d"
proof -
  obtain k op vs where d: "d = \<lparr>rqKey = k, rqOp = op, rqValues = vs\<rparr>" by (cases d) auto
  show ?thesis
  proof (cases "map_of m (op, k)")
    case None
    then have "\<forall>e \<in> set m. fst e \<noteq> (op, k)" by (metis map_of_eq_None_iff image_eqI)
    then show ?thesis using None d update_set [OF assms(1), of "(op, k)" vs] by (auto simp: mergeRequirement_def entryReq_def)
  next
    case (Some ws)
    let ?new = "if op = ''In'' then IntersectStr ws vs else RemoveDuplicateStr sord (ws @ vs)"
    have in_m: "((op, k), ws) \<in> set m" using Some by (rule map_of_SomeD)
    have uniq: "e = ((op, k), ws)" if "e \<in> set m" "fst e = (op, k)" for e
      using that in_m assms(1) by (metis Some map_of_is_SomeI option.inject prod.collapse wf_map_def)
    have "set (mergeRequirement sord m d) = insert ((op, k), ?new) {e \<in> set m. fst e \<noteq> (op, k)}"
      using Some d update_set [OF assms(1)] by (simp add: mergeRequirement_def)
    moreover have "k8sMatch lab (entryReq ((op, k), ?new)) \<longleftrightarrow> k8sMatch lab (entryReq ((op, k), ws)) \<and> k8sMatch lab d"
      using assms(2) by (auto simp: entryReq_def d k8sMatch_values)
    moreover have "(\<forall>e \<in> set m. k8sMatch lab (entryReq e)) \<longleftrightarrow>
        (\<forall>e \<in> {e \<in> set m. fst e \<noteq> (op, k)}. k8sMatch lab (entryReq e)) \<and> k8sMatch lab (entryReq ((op, k), ws))"
      using in_m uniq by blast
    ultimately show ?thesis by auto
  qed
qed

lemma mergeFold_sem:
  assumes "wf_map m" "is_order sord"
  shows "wf_map (foldl (mergeRequirement sord) m reqs) \<and>
    ((\<forall>e \<in> set (foldl (mergeRequirement sord) m reqs). k8sMatch lab (entryReq e)) \<longleftrightarrow> (\<forall>e \<in> set m. k8sMatch lab (entryReq e)) \<and> (\<forall>d \<in> set reqs. k8sMatch lab d))"
  using assms(1)
proof (induction reqs arbitrary: m)
  case (Cons d reqs)
  then show ?case using mergeRequirement_sem [OF Cons.prems assms(2)] wf_mergeRequirement [OF Cons.prems] by simp
qed simp

lemma set_merge:
  assumes "m = foldl (mergeRequirement sord) [] reqs" "wf_map m"
  shows "set (mergeSelectorMatchExpression sord reqs) =
    (\<lambda>((op, k), v). \<lparr>rqKey = k, rqOp = op, rqValues = (if op = ''NotIn'' then sort v else v)\<rparr>) ` set m" (is "_ = ?f ` set m")
proof -
  have mo: "map_of m a = Some v" if "(a, v) \<in> set m" for a v using that assms(2) by (simp add: wf_map_def)
  have "set (mergeSelectorMatchExpression sord reqs) =
    {\<lparr>rqKey = k, rqOp = op, rqValues = (if op = ''NotIn'' then sort (the (map_of m (op, k))) else the (map_of m (op, k)))\<rparr> | op k. \<exists>v. ((op, k), v) \<in> set m}"
    unfolding mergeSelectorMatchExpression_def Let_def assms(1) [symmetric] by (force simp: image_iff)
  also have "\<dots> = ?f ` set m" using mo by (force simp: image_iff)
  finally show ?thesis .
qed

text \<open>Merging keeps the meaning of the requirements: the values of In are intersected, those of NotIn united.\<close>

lemma merge_sem:
  assumes "is_order sord"
  shows "(\<forall>r \<in> set (mergeSelectorMatchExpression sord reqs). k8sMatch lab r) \<longleftrightarrow> (\<forall>r \<in> set reqs. k8sMatch lab r)"
proof -
  let ?m = "foldl (mergeRequirement sord) [] reqs"
  have wf: "wf_map ?m" and sem: "(\<forall>e \<in> set ?m. k8sMatch lab (entryReq e)) \<longleftrightarrow> (\<forall>d \<in> set reqs. k8sMatch lab d)"
    using mergeFold_sem [OF wf_map_Nil assms] by auto
  have "k8sMatch lab \<lparr>rqKey = k, rqOp = op, rqValues = (if op = ''NotIn'' then sort v else v)\<rparr> = k8sMatch lab (entryReq ((op, k), v))" for op k v
    by (simp add: entryReq_def k8sMatch_values)
  then show ?thesis unfolding set_merge [OF refl wf] sem [symmetric] by force
qed

section \<open>The meaning of conditions\<close>

text \<open>A condition on a tag holds as the NSX documentation says, for keys and values that its textual form can carry: a key has no bar, a value
  is not empty and has no comma.\<close>

definition valid_key :: "string \<Rightarrow> bool" where "valid_key k \<longleftrightarrow> CHR ''|'' \<notin> set k"
definition valid_value :: "string \<Rightarrow> bool" where "valid_value v \<longleftrightarrow> v \<noteq> [] \<and> CHR '','' \<notin> set v"

definition valid_req :: "requirement \<Rightarrow> bool" where
  "valid_req r \<longleftrightarrow> valid_key (rqKey r) \<and> (\<forall>v \<in> set (rqValues r). valid_value v) \<and> knownOp r \<and> (rqOp r = ''NotIn'' \<longrightarrow> rqValues r \<noteq> [])"

locale tag_semantics =
  fixes sat :: "condition \<Rightarrow> bool" and tags :: "string \<rightharpoonup> string" and mt :: string
  assumes sat_equals: "valid_key k \<Longrightarrow> valid_value v \<Longrightarrow> sat (tagEquals mt k v) \<longleftrightarrow> tags k = Some v"
    and sat_exists: "valid_key k \<Longrightarrow> sat (tagExists mt k) \<longleftrightarrow> tags k \<noteq> None"
    and sat_absent: "valid_key k \<Longrightarrow> sat (tagAbsent mt k) \<longleftrightarrow> tags k = None"
    and sat_not_in: "valid_key k \<Longrightarrow> vs \<noteq> [] \<Longrightarrow> \<forall>v \<in> set vs. valid_value v \<Longrightarrow> sat (tagNotIn mt k vs) \<longleftrightarrow> (\<forall>v \<in> set vs. tags k \<noteq> Some v)"
begin

lemma reqSat_k8s:
  assumes "valid_req r"
  shows "reqSat sat mt r \<longleftrightarrow> k8sMatch tags r"
proof -
  have v: "valid_key (rqKey r)" "\<forall>v \<in> set (rqValues r). valid_value v" "knownOp r" using assms by (auto simp: valid_req_def)
  consider "rqOp r = ''In''" | "rqOp r = ''NotIn''" "rqValues r \<noteq> []" | "rqOp r = ''Exists''" | "rqOp r = ''DoesNotExist''"
    using assms by (auto simp: valid_req_def knownOp_def)
  then show ?thesis
  proof cases
    case 1
    then show ?thesis using v sat_equals by (auto simp: reqSat_def k8sMatch_def)
  next
    case 2
    then show ?thesis using v sat_not_in by (auto simp: reqSat_def k8sMatch_def reqConds_def)
  next
    case 3
    then show ?thesis using v sat_exists by (auto simp: reqSat_def k8sMatch_def reqConds_def)
  next
    case 4
    then show ?thesis using v sat_absent by (auto simp: reqSat_def k8sMatch_def reqConds_def)
  qed
qed

lemma labelConds_tags:
  assumes "wf_map (normalizedLabels ord labels)" "\<forall>(k, v) \<in> set (normalizedLabels ord labels). valid_key k \<and> valid_value v"
  shows "(\<forall>c \<in> set (labelConds ord labels mt). sat c) \<longleftrightarrow> (\<forall>(k, v) \<in> set (normalizedLabels ord labels). tags k = Some v)"
proof -
  let ?m = "normalizedLabels ord labels"
  have mo: "map_of ?m k = Some v" if "(k, v) \<in> set ?m" for k v using that assms(1) by (simp add: wf_map_def)
  have "(\<forall>c \<in> set (labelConds ord labels mt). sat c) \<longleftrightarrow> (\<forall>(k, v) \<in> set ?m. sat (tagEquals mt k v))"
    using mo by (force simp: labelConds_def Let_def)
  also have "\<dots> \<longleftrightarrow> (\<forall>(k, v) \<in> set ?m. tags k = Some v)" using assms(2) sat_equals by fastforce
  finally show ?thesis .
qed

end

text \<open>An evaluation of conditions that follows the documentation: the value of a condition is split at its first bar.\<close>

definition tagSat :: "(string \<rightharpoonup> string) \<Rightarrow> condition \<Rightarrow> bool" where
  "tagSat tags c =
    (let k = takeWhile (\<lambda>x. x \<noteq> CHR ''|'') (cdValue c); v = drop (Suc (length k)) (cdValue c) in
     if cdOperator c = None then tags k = None
     else if cdOperator c = Some ''NOTIN'' then tags k \<notin> Some ` set (split_char CHR '','' v)
     else if v = [] then tags k \<noteq> None else tags k = Some v)"

lemma bar_key: "valid_key k \<Longrightarrow> takeWhile (\<lambda>x. x \<noteq> CHR ''|'') (k @ CHR ''|'' # v) = k"
  unfolding valid_key_def by (subst takeWhile_append2) auto

interpretation tagSat: tag_semantics "tagSat tags" tags mt for tags mt
proof
  fix k v :: string assume "valid_key k" "valid_value v"
  then show "tagSat tags (tagEquals mt k v) \<longleftrightarrow> tags k = Some v"
    by (simp add: tagSat_def tagEquals_def buildExpression_def bar_key valid_value_def)
next
  fix k :: string assume "valid_key k"
  then show "tagSat tags (tagExists mt k) \<longleftrightarrow> tags k \<noteq> None"
    by (simp add: tagSat_def tagExists_def buildExpression_def bar_key)
next
  fix k :: string assume "valid_key k"
  then show "tagSat tags (tagAbsent mt k) \<longleftrightarrow> tags k = None"
    by (simp add: tagSat_def tagAbsent_def buildExpression_def bar_key)
next
  fix k :: string and vs assume "valid_key k" "vs \<noteq> []" "\<forall>v \<in> set vs. valid_value v"
  then show "tagSat tags (tagNotIn mt k vs) \<longleftrightarrow> (\<forall>v \<in> set vs. tags k \<noteq> Some v)"
    by (auto simp: tagSat_def tagNotIn_def buildExpression_def bar_key split_join valid_value_def)
qed

section \<open>Groups select what the selectors select\<close>

lemma truncateLabelHash_Some: "\<exists>h. truncateLabelHash s = Some h \<and> length h = 8"
  by (simp add: truncateLabelHash_def slice_to_def HashLength_def)

lemma NormalizeLabels_total: "wf_map acc \<Longrightarrow> \<exists>m. NormalizeLabels labels acc = Some m \<and> wf_map m"
proof (induction labels arbitrary: acc)
  case (Cons x labels)
  obtain k v where x: "x = (k, v)" by (metis surj_pair)
  have n: "\<exists>r. normalizeNameByLimit s [] l truncateLabelHash = Some r" if "9 \<le> l" for s l
    using truncateLabelHash_Some [of s] that by (auto simp: normalize_no_suffix)
  have "\<exists>k'. NormalizeLabelKey k truncateLabelHash = Some k'"
    using n [of 128] by (simp add: NormalizeLabelKey_def MaxTagScopeLength_def)
  moreover have "\<exists>v'. NormalizeLabelValue v truncateLabelHash = Some v'"
    using n [of 256] by (simp add: NormalizeLabelValue_def MaxTagValueLength_def)
  ultimately obtain k' v' where "NormalizeLabelKey k truncateLabelHash = Some k'" "NormalizeLabelValue v truncateLabelHash = Some v'" by blast
  then show ?case using Cons.IH [of "AList.update k' v' acc"] Cons.prems x by simp
qed simp

lemma wf_normalizedLabels [simp]: "wf_map (normalizedLabels ord labels)"
  using NormalizeLabels_total [of "[]" "ord labels"] by (auto simp: normalizedLabels_def)

lemma mergeRequirement_valid:
  assumes "wf_map m" "is_order sord" "\<forall>e \<in> set m. valid_req (entryReq e)" "valid_req d"
  shows "\<forall>e \<in> set (mergeRequirement sord m d). valid_req (entryReq e)"
proof (cases "map_of m (rqOp d, rqKey d)")
  case None
  have "valid_req (entryReq ((rqOp d, rqKey d), rqValues d))" using assms(4) by (simp add: entryReq_def valid_req_def knownOp_def)
  then show ?thesis using None assms by (auto simp: mergeRequirement_def update_set)
next
  case (Some ws)
  then have ws: "valid_req (entryReq ((rqOp d, rqKey d), ws))" using assms(3) map_of_SomeD by fastforce
  have ne: "RemoveDuplicateStr sord (ws @ rqValues d) \<noteq> []" if "ws \<noteq> []"
    using set_RemoveDuplicateStr [OF assms(2), of "ws @ rqValues d"] that by force
  have "valid_req (entryReq ((rqOp d, rqKey d), if rqOp d = ''In'' then IntersectStr ws (rqValues d) else RemoveDuplicateStr sord (ws @ rqValues d)))"
    using ws assms(2,4) ne by (auto simp: valid_req_def entryReq_def knownOp_def)
  then show ?thesis using assms Some by (auto simp: mergeRequirement_def update_set split: if_splits)
qed

lemma merge_valid:
  assumes "is_order sord" "\<forall>r \<in> set reqs. valid_req r"
  shows "\<forall>r \<in> set (mergeSelectorMatchExpression sord reqs). valid_req r"
proof -
  have "wf_map (foldl (mergeRequirement sord) m reqs) \<and> (\<forall>e \<in> set (foldl (mergeRequirement sord) m reqs). valid_req (entryReq e))"
    if "wf_map m" "\<forall>e \<in> set m. valid_req (entryReq e)" for m
    using that assms(2)
  proof (induction reqs arbitrary: m)
    case (Cons d reqs)
    have "\<forall>e \<in> set (mergeRequirement sord m d). valid_req (entryReq e)" using mergeRequirement_valid [OF Cons.prems(1) assms(1) Cons.prems(2), of d] Cons.prems(3) by simp
    then show ?case using Cons.IH [OF wf_mergeRequirement [OF Cons.prems(1)]] Cons.prems(3) by simp
  qed simp
  from this [of "[]"] have m: "wf_map (foldl (mergeRequirement sord) [] reqs)" "\<forall>e \<in> set (foldl (mergeRequirement sord) [] reqs). valid_req (entryReq e)" by auto
  have "sort v = [] \<longleftrightarrow> v = []" for v :: "string list" by (metis length_0_conv length_sort)
  with m show ?thesis unfolding set_merge [OF refl m(1)] by (auto simp: valid_req_def entryReq_def knownOp_def)
qed

text \<open>The merged requirements of a selector; its In values may be an empty intersection.\<close>

definition merged :: "orders \<Rightarrow> label_selector \<Rightarrow> requirement list" where
  "merged od sel = mergeSelectorMatchExpression (valueOrder od) (matchExpressions sel)"

definition nonempty_in :: "requirement list \<Rightarrow> bool" where
  "nonempty_in reqs \<longleftrightarrow> (\<forall>r \<in> set reqs. rqOp r = ''In'' \<longrightarrow> rqValues r \<noteq> [])"

lemma validateSelectorOpIn_ok:
  assumes "validateSelectorOpIn reqs labels = (n, None)"
  shows "length (filter (\<lambda>r. rqOp r = ''In'') reqs) \<le> 1" "n \<le> 5"
    "n = sum_list (map (\<lambda>r. length (rqValues r)) (filter (\<lambda>r. rqOp r = ''In'') reqs))"
  using assms by (auto simp: validateSelectorOpIn_def selector_limits Let_def split: if_splits)

lemma reqParts_length:
  assumes "validateSelectorOpIn reqs labels = (n, None)" "nonempty_in reqs"
  shows "length (reqParts mt reqs s) = (if n = 0 then 1 else n)"
proof (cases "matchExpressionOpInExist reqs")
  case None
  then have "filter (\<lambda>r. rqOp r = ''In'') reqs = []" by (simp add: matchExpressionOpInExist_def find_None_all filter_empty_conv)
  then show ?thesis using None validateSelectorOpIn_ok(3) [OF assms(1)] by (simp add: reqParts_def)
next
  case (Some r)
  have r: "r \<in> set reqs" "rqOp r = ''In''"
    using find_Some_in [of "\<lambda>r. rqOp r = ''In''" reqs r] Some by (simp_all add: matchExpressionOpInExist_def)
  then have "r \<in> set (filter (\<lambda>r. rqOp r = ''In'') reqs)" by simp
  then have "filter (\<lambda>r. rqOp r = ''In'') reqs = [r]"
    using validateSelectorOpIn_ok(1) [OF assms(1)] by (cases "filter (\<lambda>r. rqOp r = ''In'') reqs") auto
  then have "n = length (rqValues r)" using validateSelectorOpIn_ok(3) [OF assms(1)] by simp
  moreover have "rqValues r \<noteq> []" using assms(2) r by (auto simp: nonempty_in_def)
  ultimately show ?thesis using Some by (simp add: reqParts_def)
qed

lemma addSelector_parts:
  assumes "addSelector od sel (Some c) t mt (opened parts) (andList (baseConds c t @ labelConds (labelOrder od) (matchLabels sel) mt)) = Inr ((pe, es), n, ins)"
  shows "validateSelectorOpIn (merged od sel) (matchLabels sel) = (ins, None)" "n = length (merged od sel)"
    "pe @ [Nested es] = orList (parts @ reqParts mt (merged od sel) (baseConds c t @ labelConds (labelOrder od) (matchLabels sel) mt))"
  using assms updateExpressions_parts(1)
  by (auto simp: addSelector_def merged_def Let_def split: prod.splits option.splits)

text \<open>A selector with its labels.\<close>

definition valid_selector :: "orders \<Rightarrow> label_selector \<Rightarrow> bool" where
  "valid_selector od sel \<longleftrightarrow> (\<forall>r \<in> set (matchExpressions sel). valid_req r)
     \<and> (\<forall>(k, v) \<in> set (normalizedLabels (labelOrder od) (matchLabels sel)). valid_key k \<and> valid_value v)"

definition selects :: "orders \<Rightarrow> (string \<rightharpoonup> string) \<Rightarrow> label_selector \<Rightarrow> bool" where
  "selects od tags sel \<longleftrightarrow> (\<forall>(k, v) \<in> set (normalizedLabels (labelOrder od) (matchLabels sel)). tags k = Some v)
     \<and> (\<forall>r \<in> set (matchExpressions sel). k8sMatch tags r)"

context tag_semantics
begin

lemma reqParts_selects:
  assumes "is_order (valueOrder od)" "valid_selector od sel" "nonempty_in (merged od sel)"
    and "validateSelectorOpIn (merged od sel) (matchLabels sel) = (ins, None)"
  shows "(\<exists>p \<in> set (reqParts mt (merged od sel) (baseConds c t @ labelConds (labelOrder od) (matchLabels sel) mt)). evalPart sat ips p)
    \<longleftrightarrow> (\<forall>b \<in> set (baseConds c t). sat b) \<and> selects od tags sel"
proof -
  have "(\<forall>r \<in> set (merged od sel). reqSat sat mt r) \<longleftrightarrow> (\<forall>r \<in> set (merged od sel). k8sMatch tags r)"
    using reqSat_k8s merge_valid [OF assms(1)] assms(2) by (auto simp: merged_def valid_selector_def)
  also have "\<dots> \<longleftrightarrow> (\<forall>r \<in> set (matchExpressions sel). k8sMatch tags r)" unfolding merged_def by (rule merge_sem [OF assms(1)])
  finally have reqs: "(\<forall>r \<in> set (merged od sel). reqSat sat mt r) \<longleftrightarrow> (\<forall>r \<in> set (matchExpressions sel). k8sMatch tags r)" .
  have "(\<forall>c \<in> set (labelConds (labelOrder od) (matchLabels sel) mt). sat c)
      \<longleftrightarrow> (\<forall>(k, v) \<in> set (normalizedLabels (labelOrder od) (matchLabels sel)). tags k = Some v)"
    using labelConds_tags [OF wf_normalizedLabels] assms(2) by (simp add: valid_selector_def)
  then show ?thesis
    using reqParts_sem [OF validateSelectorOpIn_ok(1) [OF assms(4)], of "baseConds c t @ labelConds (labelOrder od) (matchLabels sel) mt" mt sat ips]
      assms(3) reqs by (auto simp: selects_def nonempty_in_def baseConds_def ball_Un)
qed

end

text \<open>The namespace condition of a target.\<close>

definition targetMember :: "sp_service \<Rightarrow> string" where
  "targetMember sv = (if svVPC sv then ''VpcSubnetPort'' else ''SegmentPort'')"

definition clusterCond :: "sp_service \<Rightarrow> condition" where
  "clusterCond sv = tagEquals (if svVPC sv then ''VpcSubnetPort'' else ''Segment'') (getScopeCluserTag sv) (svCluster sv)"

definition nsCond :: "sp_service \<Rightarrow> string \<Rightarrow> bool \<Rightarrow> condition" where
  "nsCond sv ns isVM = tagEquals (targetMember sv) (getScopeNamespaceUIDTag sv isVM) (svNamespaceUID sv ns)"

definition targetSelector :: "target \<Rightarrow> (label_selector \<times> bool) option" where
  "targetSelector tg =
    (case (tgPod tg, tgVM tg) of (Some sel, None) \<Rightarrow> Some (sel, False) | (None, Some sel) \<Rightarrow> Some (sel, True) | _ \<Rightarrow> None)"

lemma updateTarget_parts:
  assumes "updateTargetExpressions od sv ns tg (orList parts) = Inr (g, criteria, exprs)" "targetSelector tg = Some (sel, isVM)"
  shows "\<exists>ins. validateSelectorOpIn (merged od sel) (matchLabels sel) = (ins, None)
    \<and> g = orList (parts @ reqParts (targetMember sv) (merged od sel)
        (baseConds (clusterCond sv) (Some (nsCond sv ns isVM)) @ labelConds (labelOrder od) (matchLabels sel) (targetMember sv)))
    \<and> validateSelectorExpressions (length (matchLabels sel) + 2) (length (merged od sel)) ins (\<not> svVPC sv) = Inr (criteria, exprs)"
proof -
  let ?mt = "targetMember sv" and ?c = "clusterCond sv" and ?t = "nsCond sv ns isVM"
  let ?base = "baseConds ?c (Some ?t) @ labelConds (labelOrder od) (matchLabels sel) ?mt"
  have "updateExpressionsMatchLabels (labelOrder od) (matchLabels sel) ?mt (addAnd [Cond ?c] ?t) = andList ?base"
    using updateExpressionsMatchLabels_andList [of "labelOrder od" "matchLabels sel" ?mt "[?c, ?t]"] by (simp add: baseConds_def)
  then obtain pe es n ins where a: "addSelector od sel (Some ?c) (Some ?t) ?mt (opened parts) (andList ?base) = Inr ((pe, es), n, ins)"
    and v: "validateSelectorExpressions (length (matchLabels sel) + 2) n ins (\<not> svVPC sv) = Inr (criteria, exprs)" "g = pe @ [Nested es]"
    using assms by (auto simp: updateTargetExpressions_def targetSelector_def Let_def clusterCond_def nsCond_def targetMember_def opened_def selector_limits
      simp del: andList.simps addAnd_single split: option.splits)
  from addSelector_parts [OF a] v show ?thesis by auto
qed

lemma nsCond_tags:
  assumes "tag_semantics sat tags (targetMember sv)" "valid_value (svNamespaceUID sv ns)"
  shows "sat (nsCond sv ns isVM) \<longleftrightarrow> tags (getScopeNamespaceUIDTag sv isVM) = Some (svNamespaceUID sv ns)"
proof -
  have "valid_key (getScopeNamespaceUIDTag sv isVM)" by (simp add: valid_key_def getScopeNamespaceUIDTag_def)
  then show ?thesis unfolding nsCond_def by (rule tag_semantics.sat_equals [OF assms(1) _ assms(2)])
qed


text \<open>When two requirements with the operator In on the same key have no value in common, no object matches the selector, but the group that is built
  carries none of the requirements of the selector: it selects every Pod (or virtual machine) of the namespace with the match labels.\<close>

theorem empty_in_selects_all:
  assumes "tag_semantics sat tags (targetMember sv)" "is_order (valueOrder od)"
    "targetSelector tg = Some (sel, isVM)" "valid_selector od sel" "\<not> nonempty_in (merged od sel)" "valid_value (svNamespaceUID sv ns)"
    "updateTargetExpressions od sv ns tg (orList parts) = Inr (g, criteria, exprs)"
  shows "\<not> selects od tags sel \<and>
    (evalGroup sat ips g \<longleftrightarrow> evalGroup sat ips (orList parts)
      \<or> sat (clusterCond sv) \<and> tags (getScopeNamespaceUIDTag sv isVM) = Some (svNamespaceUID sv ns)
        \<and> (\<forall>(k, v) \<in> set (normalizedLabels (labelOrder od) (matchLabels sel)). tags k = Some v))"
proof -
  obtain ins where ins: "validateSelectorOpIn (merged od sel) (matchLabels sel) = (ins, None)"
    "g = orList (parts @ reqParts (targetMember sv) (merged od sel)
        (baseConds (clusterCond sv) (Some (nsCond sv ns isVM)) @ labelConds (labelOrder od) (matchLabels sel) (targetMember sv)))"
    using updateTarget_parts [OF assms(7,3)] by blast
  obtain r where r: "r \<in> set (merged od sel)" "rqOp r = ''In''" "rqValues r = []" using assms(5) by (auto simp: nonempty_in_def)
  have "\<not> k8sMatch tags r" using r by (simp add: k8sMatch_def)
  then have ns: "\<not> selects od tags sel"
    using r(1) merge_sem [OF assms(2), of "matchExpressions sel" tags] by (auto simp: selects_def merged_def)
  have "matchExpressionOpInExist (merged od sel) \<noteq> None" using r by (auto simp: matchExpressionOpInExist_def find_None_all)
  then obtain r' where r': "matchExpressionOpInExist (merged od sel) = Some r'" by auto
  then have "r' \<in> set (merged od sel)" "rqOp r' = ''In''"
    using find_Some_in [of "\<lambda>r. rqOp r = ''In''" "merged od sel" r'] by (simp_all add: matchExpressionOpInExist_def)
  then have "r' = r" using single_In [OF validateSelectorOpIn_ok(1) [OF ins(1)]] r by blast
  then have "g = orList (parts @ [Nested (andList (baseConds (clusterCond sv) (Some (nsCond sv ns isVM)) @ labelConds (labelOrder od) (matchLabels sel) (targetMember sv)))])"
    using ins(2) r' r(3) by (simp add: reqParts_def)
  then show ?thesis
    using ns nsCond_tags [OF assms(1,6)] tag_semantics.labelConds_tags [OF assms(1) wf_normalizedLabels] assms(4)
    by (auto simp: evalGroup_orList evalExprs_andList bex_Un baseConds_def valid_selector_def ball_Un)
qed

section \<open>Witnesses\<close>

definition plainOrders :: orders where
  "plainOrders = \<lparr>labelOrder = id, valueOrder = id\<rparr>"

definition demoService :: sp_service where
  "demoService = \<lparr>svVPC = True, svCluster = ''k8s-1'', svNamespaceUID = (\<lambda>_. ''uid-1'')\<rparr>"

definition webSelector :: label_selector where
  "webSelector = \<lparr>matchLabels = [(''tier'', ''front'')],
     matchExpressions = [\<lparr>rqKey = ''app'', rqOp = ''In'', rqValues = [''web'', ''api'']\<rparr>, \<lparr>rqKey = ''env'', rqOp = ''NotIn'', rqValues = [''test'']\<rparr>]\<rparr>"

definition disjointSelector :: label_selector where
  "disjointSelector = \<lparr>matchLabels = [],
     matchExpressions = [\<lparr>rqKey = ''app'', rqOp = ''In'', rqValues = [''web'']\<rparr>, \<lparr>rqKey = ''app'', rqOp = ''In'', rqValues = [''db'']\<rparr>]\<rparr>"

definition demoTags :: "string \<rightharpoonup> string" where
  "demoTags = [''nsx-op/cluster'' \<mapsto> ''k8s-1'', ''nsx-op/namespace_uid'' \<mapsto> ''uid-1'', ''tier'' \<mapsto> ''front'', ''app'' \<mapsto> ''api'']"

definition podTarget :: "label_selector \<Rightarrow> target" where
  "podTarget sel = \<lparr>tgPod = Some sel, tgVM = None\<rparr>"

definition targetGroup :: "label_selector \<Rightarrow> gexpr list" where
  "targetGroup sel = (case updateTargetExpressions plainOrders demoService ''ns'' (podTarget sel) [] of Inr (g, _) \<Rightarrow> g | Inl _ \<Rightarrow> [])"


theorem empty_in_selects_all_witness:
  "\<not> selects plainOrders demoTags disjointSelector \<and>
   (evalGroup (tagSat demoTags) (\<lambda>_. False) (targetGroup disjointSelector) \<longleftrightarrow>
     tagSat demoTags (clusterCond demoService) \<and> demoTags ''nsx-op/namespace_uid'' = Some ''uid-1'')"
proof -
  have sel: "targetSelector (podTarget disjointSelector) = Some (disjointSelector, False)" by (simp add: targetSelector_def podTarget_def)
  have ord: "is_order (valueOrder plainOrders)" by (simp add: plainOrders_def is_order_id)
  have ok: "valid_selector plainOrders disjointSelector" "\<not> nonempty_in (merged plainOrders disjointSelector)" "valid_value (svNamespaceUID demoService ''ns'')"
    by code_simp+
  have run: "updateTargetExpressions plainOrders demoService ''ns'' (podTarget disjointSelector) (orList []) = Inr (targetGroup disjointSelector, 1, 3)"
    by code_simp
  have "getScopeNamespaceUIDTag demoService False = ''nsx-op/namespace_uid''" "svNamespaceUID demoService ''ns'' = ''uid-1''"
    "normalizedLabels (labelOrder plainOrders) (matchLabels disjointSelector) = []"
    by (simp_all add: demoService_def getScopeNamespaceUIDTag_def normalizedLabels_def plainOrders_def disjointSelector_def)
  then show ?thesis
    using empty_in_selects_all [OF tagSat.tag_semantics_axioms ord sel ok run, of demoTags "\<lambda>_. False"] by auto
qed

section \<open>The shape of groups\<close>

text \<open>The shape that NSX accepts: parts separated by disjunctions, each a list of addresses or conditions separated by conjunctions, none of them empty.\<close>

definition part_ok :: "gexpr \<Rightarrow> bool" where
  "part_ok p \<longleftrightarrow> (\<exists>cs. p = Nested (andList cs) \<and> cs \<noteq> []) \<or> (\<exists>xs. p = IPAddresses xs \<and> xs \<noteq> [])"

definition wf_group :: "gexpr list \<Rightarrow> bool" where
  "wf_group g \<longleftrightarrow> (\<exists>parts. g = orList parts \<and> (\<forall>p \<in> set parts. part_ok p))"

text \<open>A part that is being filled.\<close>

definition wf_open :: "gexpr list \<Rightarrow> expr list \<Rightarrow> bool" where
  "wf_open pe es \<longleftrightarrow> (\<exists>parts cs. pe = opened parts \<and> (\<forall>p \<in> set parts. part_ok p) \<and> es = andList cs \<and> cs \<noteq> [])"

lemma wf_openI: "wf_group g \<Longrightarrow> cs \<noteq> [] \<Longrightarrow> wf_open (appendOperatorIfNeeded g ''OR'') (andList cs)"
  by (auto simp: wf_group_def wf_open_def opened_def)

lemma wf_open_close: "wf_open pe es \<Longrightarrow> wf_group (pe @ [Nested es])"
proof -
  assume "wf_open pe es"
  then obtain parts cs where "pe = opened parts" "\<forall>p \<in> set parts. part_ok p" "es = andList cs" "cs \<noteq> []" by (auto simp: wf_open_def)
  then show ?thesis unfolding wf_group_def by (intro exI [of _ "parts @ [Nested es]"]) (auto simp: part_ok_def)
qed

lemma wf_open_next: "wf_open pe es \<Longrightarrow> cs \<noteq> [] \<Longrightarrow> wf_open (nextFrame pe es) (andList cs)"
proof -
  assume "wf_open pe es" "cs \<noteq> []"
  then obtain parts ds where "pe = opened parts" "\<forall>p \<in> set parts. part_ok p" "es = andList ds" "ds \<noteq> []" by (auto simp: wf_open_def)
  then show ?thesis unfolding wf_open_def using \<open>cs \<noteq> []\<close>
    by (intro exI [of _ "parts @ [Nested es]"] exI [of _ cs]) (auto simp: part_ok_def)
qed

lemma wf_open_addresses: "wf_group g \<Longrightarrow> xs \<noteq> [] \<Longrightarrow> wf_group (appendOperatorIfNeeded g ''OR'' @ [IPAddresses xs])"
proof -
  assume "wf_group g" "xs \<noteq> []"
  then obtain parts where "g = orList parts" "\<forall>p \<in> set parts. part_ok p" by (auto simp: wf_group_def)
  then have "appendOperatorIfNeeded g ''OR'' @ [IPAddresses xs] = orList (parts @ [IPAddresses xs])" by (simp flip: opened_def)
  then show ?thesis unfolding wf_group_def using \<open>\<forall>p \<in> set parts. part_ok p\<close> \<open>xs \<noteq> []\<close>
    by (intro exI [of _ "parts @ [IPAddresses xs]"]) (auto simp: part_ok_def)
qed

text \<open>Steps that fill a part keep it a list of conditions.\<close>

definition fills :: "(expr list \<Rightarrow> gerror option \<times> expr list) \<Rightarrow> bool" where
  "fills f \<longleftrightarrow> (\<forall>cs e. cs \<noteq> [] \<longrightarrow> f (andList cs) = (None, e) \<longrightarrow> (\<exists>ds. e = andList ds \<and> ds \<noteq> []))"

lemma fills_build: "fills (\<lambda>es. buildExpressionsMatchExpression reqs mt es None)"
  unfolding fills_def by (auto simp: buildExpressions_andList)

lemma wf_open_fill:
  assumes "wf_open pe es" "fills f" "f es = (None, e)"
  shows "wf_open pe e"
proof -
  obtain parts cs where p: "pe = opened parts" "\<forall>p \<in> set parts. part_ok p" "es = andList cs" "cs \<noteq> []" using assms(1) unfolding wf_open_def by blast
  then obtain ds where "e = andList ds" "ds \<noteq> []" using assms(2,3) unfolding fills_def by blast
  with p show ?thesis unfolding wf_open_def by blast
qed

lemma wf_valuesLoop:
  assumes "\<And>v. fills (fill v)" "s \<noteq> []" "wf_open pe es" "valuesLoop (andList s) fill nf vs pe es = Inr (pe', es')"
  shows "wf_open pe' es'"
  using assms(3,4)
proof (induction vs arbitrary: nf pe es)
  case (Cons v vs)
  let ?pe = "if nf then nextFrame pe es else pe" and ?es = "if nf then andList s else es"
  have o: "wf_open ?pe ?es" using Cons.prems(1) wf_open_next [OF Cons.prems(1) assms(2)] by simp
  obtain e where e: "fill v ?es = (None, e)" "valuesLoop (andList s) fill True vs ?pe e = Inr (pe', es')"
    using Cons.prems(2) by (auto split: prod.splits option.splits if_splits)
  have "wf_open ?pe e" by (rule wf_open_fill [OF o assms(1) e(1)])
  then show ?case using Cons.IH e(2) by blast
qed simp

lemma startCriteria_ne: "\<exists>cs. startCriteria (Some c) t = andList cs \<and> cs \<noteq> []"
  unfolding startCriteria_andList by (intro exI [of _ "baseConds c t"]) (simp add: baseConds_def)

lemma wf_open_labels: "wf_open pe es \<Longrightarrow> wf_open pe (updateExpressionsMatchLabels ord labels mt es)"
  by (auto simp: wf_open_def updateExpressionsMatchLabels_andList) (metis append_is_Nil_conv)

lemma wf_open_build: "wf_open pe es \<Longrightarrow> buildExpressionsMatchExpression reqs mt es None = (None, es') \<Longrightarrow> wf_open pe es'"
  by (rule wf_open_fill [OF _ fills_build])

lemma wf_updateExpressions:
  assumes "wf_open pe es" "updateExpressionsMatchExpression ord reqs labels (Some c) t mt pe es = Inr (pe', es')"
  shows "wf_open pe' es'"
proof (cases "matchExpressionOpInExist reqs")
  case None
  then show ?thesis using assms wf_open_build [OF assms(1)]
    by (auto simp: updateExpressionsMatchExpression_def split: prod.splits option.splits)
next
  case (Some r)
  let ?fill = "\<lambda>v es. buildExpressionsMatchExpression reqs mt (addAnd es (tagEquals mt (rqKey r) v)) None"
  obtain cs where cs: "updateExpressionsMatchLabels ord labels mt (startCriteria (Some c) t) = andList cs" "cs \<noteq> []"
  proof -
    obtain ds where ds: "startCriteria (Some c) t = andList ds" "ds \<noteq> []" using startCriteria_ne by blast
    then show thesis by (intro that [of "ds @ labelConds ord labels mt"]) (simp_all add: updateExpressionsMatchLabels_andList)
  qed
  have f: "fills (?fill v)" for v unfolding fills_def by (auto simp: buildExpressions_andList)
  have "valuesLoop (andList cs) ?fill False (rqValues r) pe es = Inr (pe', es')"
    using assms(2) Some cs(1) by (simp add: updateExpressionsMatchExpression_def)
  then show ?thesis by (rule wf_valuesLoop [OF f cs(2) assms(1)])
qed

lemma wf_updateMixed:
  assumes "wf_open pe es" "updateMixedExpressionsMatchExpression ord nsReqs nsLabels reqs labels (Some c) t pe es = Inr (pe', es')"
  shows "wf_open pe' es'"
proof -
  obtain s where s: "updateExpressionsMatchLabels ord nsLabels ''Segment''
      (updateExpressionsMatchLabels ord labels ''SegmentPort'' (startCriteria (Some c) t)) = andList s" "s \<noteq> []"
  proof -
    obtain ds where ds: "startCriteria (Some c) t = andList ds" "ds \<noteq> []" using startCriteria_ne by blast
    then show thesis
      by (intro that [of "(ds @ labelConds ord labels ''SegmentPort'') @ labelConds ord nsLabels ''Segment''"]) (simp_all add: updateExpressionsMatchLabels_andList)
  qed
  have f: "fills (\<lambda>es. case buildExpressionsMatchExpression others ot es None of
       (None, es') \<Rightarrow> buildExpressionsMatchExpression rs mt (addAnd es' d) None | (Some err, es') \<Rightarrow> (Some err, es'))" for others ot rs mt d
    unfolding fills_def by (auto simp: buildExpressions_andList split: prod.splits option.splits)
  note u = assms(2) [unfolded updateMixedExpressionsMatchExpression_def Let_def s(1)]
  show ?thesis
  proof (cases "matchExpressionOpInExist nsReqs")
    case None
    show ?thesis
    proof (cases "matchExpressionOpInExist reqs")
      case none: None
      then obtain e1 where "buildExpressionsMatchExpression reqs ''SegmentPort'' es None = (None, e1)"
        "buildExpressionsMatchExpression nsReqs ''Segment'' e1 None = (None, es')" "pe' = pe"
        using u None by (auto split: prod.splits option.splits)
      then show ?thesis using wf_open_build assms(1) by blast
    next
      case (Some r)
      note vl = u [unfolded None Some prod.case option.case]
      show ?thesis by (rule wf_valuesLoop [OF _ s(2) assms(1) vl]) (rule f)
    qed
  next
    case (Some r)
    then have none: "matchExpressionOpInExist reqs = None" using u by (auto split: option.splits)
    note vl = u [unfolded none Some prod.case option.case]
    show ?thesis by (rule wf_valuesLoop [OF _ s(2) assms(1) vl]) (rule f)
  qed
qed

lemma wf_addSelector:
  assumes "wf_open pe es" "addSelector od sel (Some c) t mt pe es = Inr ((pe', es'), n, ins)"
  shows "wf_open pe' es'"
  using assms wf_updateExpressions [OF assms(1)] by (auto simp: addSelector_def Let_def split: prod.splits option.splits)

lemma wf_open_pair: "wf_group g \<Longrightarrow> wf_open (appendOperatorIfNeeded g ''OR'') (addAnd [Cond c] d)"
  using wf_openI [of g "[c, d]"] by simp

lemma wf_open_single: "wf_group g \<Longrightarrow> wf_open (appendOperatorIfNeeded g ''OR'') [Cond c]"
  using wf_openI [of g "[c]"] by simp

lemma updateTarget_wf:
  assumes "wf_group g" "updateTargetExpressions od sv ns tg g = Inr (g', c, t)"
  shows "wf_group g'"
proof -
  note o = wf_open_labels [OF wf_open_pair [OF assms(1)]]
  show ?thesis
  proof (cases "tgPod tg = None \<and> tgVM tg = None")
    case True
    then show ?thesis using assms(2) wf_open_close [OF wf_open_single [OF assms(1)]] by (auto simp: updateTargetExpressions_def Let_def)
  next
    case False
    then show ?thesis using assms(2) wf_open_close wf_addSelector [OF o]
      by (auto simp: updateTargetExpressions_def Let_def simp del: addAnd_single andList.simps split: option.splits)
  qed
qed

lemma wf_group_Nil: "wf_group []"
  unfolding wf_group_def by (intro exI [of _ "[]"]) simp

lemma updatePeer_wf:
  assumes "wf_group g" "updatePeerExpressions od sv ns p shared g = Inr (g', c, t)"
  shows "wf_group g'"
proof -
  let ?g1 = "if prIPBlocks p \<noteq> [] then appendOperatorIfNeeded g ''OR'' @ [IPAddresses (prIPBlocks p)] else g"
  have g1: "wf_group ?g1" using assms(1) wf_open_addresses by simp
  note opens = wf_open_close wf_open_labels wf_open_pair [OF g1] wf_open_single [OF g1]
  note adds = wf_addSelector [OF wf_open_labels [OF wf_open_pair [OF g1]]] wf_addSelector [OF wf_open_labels [OF wf_open_single [OF g1]]]
    wf_updateMixed [OF wf_open_labels [OF wf_open_labels [OF wf_open_pair [OF g1]]]]
  consider "prPod p = None" "prVM p = None" "prNamespace p = None" | "prPod p = None" "prVM p = None" "prNamespace p \<noteq> None"
    | "prPod p \<noteq> None \<or> prVM p \<noteq> None" by blast
  then show ?thesis
  proof cases
    case 1
    then show ?thesis using assms(2) g1 by (auto simp: updatePeerExpressions_def Let_def)
  next
    case 2
    then show ?thesis using assms(2) opens adds(2)
      by (auto simp: updatePeerExpressions_def Let_def simp del: addAnd_single andList.simps split: if_splits option.splits)
  next
    case 3
    then show ?thesis using assms(2) wf_open_close adds(1,3)
      by (auto simp: updatePeerExpressions_def Let_def simp del: addAnd_single andList.simps split: if_splits option.splits prod.splits)
  qed
qed

end
