(* ===== verification/SecurityPolicy.thy ===== *)
theory SecurityPolicy
  imports Selectors NsxErrors ResourcePath
begin

text \<open>
  The translation of a SecurityPolicy into NSX rules and groups: \<open>builder.go\<close>, \<open>expand.go\<close> and \<open>parse.go\<close> of
  \<open>pkg/nsx/services/securitypolicy\<close> (the builder for the releases without namespace groups). The stores are lists of what they hold, in the order
  in which an index returns it; JSON encoding, the Kubernetes client and the random UUIDs are parameters. An error of the builder is
  a value; a run-time panic of a naming function is the error \<open>Panic\<close>.
\<close>

section \<open>Data\<close>

datatype sp_error = Failed string | Panic

definition orPanic :: "'a option \<Rightarrow> sp_error + 'a" where
  "orPanic x = (case x of None \<Rightarrow> Inl Panic | Some v \<Rightarrow> Inr v)"

definition orFailed :: "gerror + 'a \<Rightarrow> sp_error + 'a" where
  "orFailed r = (case r of Inl e \<Rightarrow> Inl (Failed e) | Inr v \<Rightarrow> Inr v)"

datatype int_or_string = IntPort int | StrPort string

fun port_String :: "int_or_string \<Rightarrow> string" where
  "port_String (IntPort i) = Itoa i"
| "port_String (StrPort s) = s"

fun port_IntValue :: "int_or_string \<Rightarrow> int" where
  "port_IntValue (IntPort i) = i"
| "port_IntValue (StrPort s) = Atoi_val s"

record sp_port =
  ptProtocol :: string
  ptPort :: int_or_string
  ptEndPort :: int

record sp_rule =
  rlAction :: string
  rlAppliedTo :: "target list"
  rlDirection :: string
  rlSources :: "peer list"
  rlDestinations :: "peer list"
  rlFrom :: "peer list"
  rlTo :: "peer list"
  rlPorts :: "sp_port list"
  rlName :: string

record sp_policy =
  spName :: string
  spNamespace :: string
  spUID :: string
  spPriority :: int
  spAppliedTo :: "target list"
  spRules :: "sp_rule list"

record service_entry =
  sePorts :: "string list"
  seProtocol :: string

record nsx_rule =
  nrId :: string
  nrDisplayName :: string
  nrDirection :: string
  nrSequence :: int
  nrAction :: string
  nrTags :: "nsx_tag list"
  nrServiceEntries :: "service_entry list"
  nrSourceGroups :: "string list"
  nrDestinationGroups :: "string list"
  nrScope :: "string list"

record nsx_group =
  ngId :: string
  ngDisplayName :: string
  ngTags :: "nsx_tag list"
  ngPath :: "string option"
  ngExpression :: "gexpr list"

record nsx_share =
  nsId :: string
  nsDisplayName :: string
  nsTags :: "nsx_tag list"
  nsSharedWith :: "string list"
  nsSharedPaths :: "string list"
  nsAllDescendants :: bool

record nsx_policy =
  npId :: string
  npDisplayName :: string
  npSequence :: int
  npScope :: "string list"
  npTags :: "nsx_tag list"
  npRules :: "nsx_rule list"

datatype GroupScope = VPCScopeGroup | ProjectInfraScopeGroup | InfraScopeGroup

text \<open>A Pod as the resolution of named ports sees it: its phase, its address and the ports of its containers (name, number, protocol).\<close>

record pod =
  pdPhase :: string
  pdIP :: string
  pdPorts :: "(string \<times> int \<times> string) list list"

record sp_env =
  evService :: sp_service
  evOrders :: orders
  evPolicies :: "nsx_policy list"
  evRules :: "nsx_rule list"
  evGroups :: "nsx_group list"
  evInfraGroups :: "nsx_group list"
  evProjectGroups :: "nsx_group list"
  evMarshalRule :: "sp_rule \<Rightarrow> string"
  evMarshalTargets :: "target list \<Rightarrow> string"
  evMarshalPeers :: "peer list \<Rightarrow> string"
  evSelectorError :: "label_selector \<Rightarrow> gerror option"
  evListPods :: "string \<Rightarrow> label_selector option \<Rightarrow> gerror + pod list"
  evListNamespaces :: "label_selector \<Rightarrow> gerror + string list"
  evUUID :: "nat \<Rightarrow> string"

definition hasTag :: "string \<Rightarrow> string \<Rightarrow> nsx_tag list \<Rightarrow> bool" where
  "hasTag scope v tags \<longleftrightarrow> (Some scope, Some v) \<in> set tags"

section \<open>Actions, directions and peers\<close>

definition getRuleAction :: "sp_rule \<Rightarrow> gerror + string" where
  "getRuleAction rule =
    (let a = ToUpper (rlAction rule) in if a \<in> {''ALLOW'', ''DROP'', ''REJECT''} then Inr a else Inl ''invalid rule action'')"

definition getRuleDirection :: "sp_rule \<Rightarrow> gerror + string" where
  "getRuleDirection rule =
    (let d = ToUpper (rlDirection rule) in
     if d \<in> {''INGRESS'', ''IN''} then Inr ''IN'' else if d \<in> {''EGRESS'', ''OUT''} then Inr ''OUT'' else Inl ''invalid rule direction'')"

definition getRuleSourcePeers :: "sp_rule \<Rightarrow> peer list" where
  "getRuleSourcePeers rule = (if rlFrom rule \<noteq> [] then rlFrom rule else rlSources rule)"

definition getRuleDestinationPeers :: "sp_rule \<Rightarrow> peer list" where
  "getRuleDestinationPeers rule = (if rlTo rule \<noteq> [] then rlTo rule else rlDestinations rule)"

section \<open>Ports\<close>

definition buildRulePortNumberString :: "sp_port \<Rightarrow> string" where
  "buildRulePortNumberString p =
    (if ptEndPort p \<noteq> 0 then port_String (ptPort p) @ ''.'' @ Itoa (ptEndPort p) else port_String (ptPort p))"

definition buildRulePortString :: "sp_port \<Rightarrow> string" where
  "buildRulePortString p = ptProtocol p @ ''.'' @ buildRulePortNumberString p"

definition buildRulePortsString :: "sp_port list \<Rightarrow> string" where
  "buildRulePortsString ports = (if ports = [] then ''all'' else str_join (map buildRulePortString ports) ''_'')"

definition buildRulePortsNumberString :: "sp_port list \<Rightarrow> string" where
  "buildRulePortsNumberString ports = (if ports = [] then ''all'' else str_join (map buildRulePortNumberString ports) ''_'')"

definition buildRuleServiceEntries :: "sp_port \<Rightarrow> service_entry" where
  "buildRuleServiceEntries p =
    \<lparr>sePorts = (if ptPort p \<noteq> IntPort 0 \<or> ptEndPort p \<noteq> 0
       then [if ptEndPort p = 0 \<or> ptEndPort p = port_IntValue (ptPort p) then port_String (ptPort p)
             else port_String (ptPort p) @ ''-'' @ Itoa (ptEndPort p)] else []),
     seProtocol = ptProtocol p\<rparr>"

record port_info =
  piPort :: sp_port
  piIPs :: "string list"
  piSuffix :: string

definition newPortInfo :: "sp_port \<Rightarrow> port_info" where
  "newPortInfo p = \<lparr>piPort = p, piIPs = [], piSuffix = ''0_0''\<rparr>"

text \<open>The port number is cut to 32 bits.\<close>

definition newPortInfoForNamedPort :: "port_address \<Rightarrow> string \<Rightarrow> port_info" where
  "newPortInfoForNamedPort pa protocol =
    \<lparr>piPort = \<lparr>ptProtocol = protocol, ptPort = IntPort (sint (of_int (fst pa) :: 32 word)), ptEndPort = 0\<rparr>, piIPs = snd pa, piSuffix = ''0_0''\<rparr>"

definition isNamed :: "sp_port \<Rightarrow> bool" where
  "isNamed p = (case ptPort p of StrPort _ \<Rightarrow> True | IntPort _ \<Rightarrow> False)"

definition hasNamedPort :: "sp_rule \<Rightarrow> bool" where
  "hasNamedPort rule = list_ex isNamed (rlPorts rule)"

definition validateNamedPortRule :: "sp_rule \<Rightarrow> gerror option" where
  "validateNamedPortRule rule =
    (case getRuleDirection rule of
       Inl err \<Rightarrow> Some err
     | Inr d \<Rightarrow>
        (if d \<noteq> ''OUT'' then None
         else if getRuleDestinationPeers rule = [] then Some ''Allow-all egress rules are not supported with named port''
         else if list_ex (\<lambda>p. prIPBlocks p \<noteq> []) (getRuleDestinationPeers rule)
         then Some ''ipBlock selectors in egress rules are not supported with named port''
         else None))"

text \<open>The ports of a running Pod with an address; the search ends at the first match of one that is not ready.\<close>

fun podPortLoop :: "pod \<Rightarrow> sp_port \<Rightarrow> (string \<times> int \<times> string) list \<Rightarrow> port_address list \<Rightarrow> port_address list" where
  "podPortLoop pd sp [] addr = addr"
| "podPortLoop pd sp ((name, num, proto) # ports) addr =
    (if name = port_String (ptPort sp) \<and> proto = ptProtocol sp then
       (if pdPhase pd \<noteq> ''Running'' then addr
        else if pdIP pd = [] then addr
        else podPortLoop pd sp ports (addr @ [(num, [pdIP pd])]))
     else podPortLoop pd sp ports addr)"

definition resolvePodPort :: "pod \<Rightarrow> sp_port \<Rightarrow> port_address list" where
  "resolvePodPort pd sp = podPortLoop pd sp (concat (pdPorts pd)) []"

text \<open>The selectors of the Pods that receive the traffic: a namespace and, optionally, labels.\<close>

definition podSelectorsIn :: "sp_env \<Rightarrow> string \<Rightarrow> target list \<Rightarrow> gerror + (string \<times> label_selector option) list" where
  "podSelectorsIn env ns targets =
    map_res (\<lambda>sel. case evSelectorError env sel of Some err \<Rightarrow> Inl err | None \<Rightarrow> Inr (ns, Some sel))
      (List.map_filter tgPod targets)"

definition peerSelectors :: "sp_env \<Rightarrow> string \<Rightarrow> peer \<Rightarrow> gerror + (string \<times> label_selector option) list" where
  "peerSelectors env ns p =
    (if prPod p = None \<and> prNamespace p = None then Inr []
     else case (case prPod p of None \<Rightarrow> None | Some sel \<Rightarrow> evSelectorError env sel) of
       Some err \<Rightarrow> Inl err
     | None \<Rightarrow>
        (case prNamespace p of
           None \<Rightarrow> Inr [(ns, prPod p)]
         | Some nsSel \<Rightarrow>
             (case evSelectorError env nsSel of
                Some err \<Rightarrow> Inl err
              | None \<Rightarrow> bind_res (evListNamespaces env nsSel) (\<lambda>nss. Inr (map (\<lambda>n. (n, prPod p)) nss)))))"

definition getPodSelectors :: "sp_env \<Rightarrow> sp_policy \<Rightarrow> sp_rule \<Rightarrow> gerror + (string \<times> label_selector option) list" where
  "getPodSelectors env obj rule =
    bind_res (getRuleDirection rule) (\<lambda>d.
      if d = ''IN'' then
        (if spAppliedTo obj \<noteq> [] then podSelectorsIn env (spNamespace obj) (spAppliedTo obj)
         else podSelectorsIn env (spNamespace obj) (rlAppliedTo rule))
      else bind_res (map_res (peerSelectors env (spNamespace obj)) (getRuleDestinationPeers rule)) (\<lambda>xs. Inr (concat xs)))"

definition resolveNamedPort :: "sp_env \<Rightarrow> sp_policy \<Rightarrow> sp_rule \<Rightarrow> sp_port \<Rightarrow> gerror + port_address list" where
  "resolveNamedPort env obj rule sp =
    bind_res (getPodSelectors env obj rule) (\<lambda>sels.
      bind_res (map_res (\<lambda>(ns, sel). evListPods env ns sel) sels) (\<lambda>pods.
        Inr (MergeAddressByPort (concat (map (\<lambda>pd. resolvePodPort pd sp) (concat pods))))))"

section \<open>Tags and identifiers\<close>

definition securityPolicyUIDTagScope :: "sp_service \<Rightarrow> string" where
  "securityPolicyUIDTagScope sv = (if svVPC sv then ''nsx-op/security_policy_uid'' else ''nsx-op/security_policy_cr_uid'')"

definition securityPolicyNameTagScope :: "sp_service \<Rightarrow> string" where
  "securityPolicyNameTagScope sv = (if svVPC sv then ''nsx-op/security_policy_name'' else ''nsx-op/security_policy_cr_name'')"

text \<open>\<open>createdFor\<close> tells a NetworkPolicy from a SecurityPolicy.\<close>

definition forNetworkPolicy :: "string \<Rightarrow> bool" where
  "forNetworkPolicy createdFor \<longleftrightarrow> createdFor = ''NetworkPolicy''"

definition buildBasicTags :: "sp_env \<Rightarrow> sp_policy \<Rightarrow> string \<Rightarrow> nsx_tag list" where
  "buildBasicTags env obj createdFor =
    (let sv = evService env;
         nameScope = (if forNetworkPolicy createdFor then ''nsx-op/network_policy_name'' else securityPolicyNameTagScope sv);
         uidScope = (if forNetworkPolicy createdFor then ''nsx-op/network_policy_uid'' else securityPolicyUIDTagScope sv) in
     BuildBasicTags (svCluster sv) (ObjSecurityPolicy \<lparr>Name = spName obj, Namespace = spNamespace obj, UID = spUID obj\<rparr>)
       (svNamespaceUID sv (spNamespace obj))
     @ [mk_tag nameScope (spName obj), mk_tag uidScope (spUID obj)])"

definition buildTargetTags :: "sp_env \<Rightarrow> sp_policy \<Rightarrow> target list \<Rightarrow> string \<Rightarrow> string \<Rightarrow> nsx_tag list" where
  "buildTargetTags env obj targets ruleBaseID createdFor =
    [mk_tag ''nsx-op/group_type'' ''scope'', mk_tag ''nsx-op/selector_hash'' (Sha1 (evMarshalTargets env targets))]
    @ buildBasicTags env obj createdFor
    @ (if svVPC (evService env) then [mk_tag ''nsx-op/nsx_share_created_for'' ''notShared''] else [])
    @ (if ruleBaseID \<noteq> [] then [mk_tag ''nsx-op/rule_id'' ruleBaseID] else [])"

definition buildPeerTags :: "sp_env \<Rightarrow> sp_policy \<Rightarrow> sp_rule \<Rightarrow> string \<Rightarrow> bool \<Rightarrow> GroupScope \<Rightarrow> string \<Rightarrow> nsx_tag list" where
  "buildPeerTags env obj rule ruleBaseID isSource groupScope createdFor =
    [mk_tag ''nsx-op/group_type'' (if isSource then ''source'' else ''destination''), mk_tag ''nsx-op/rule_id'' ruleBaseID,
     mk_tag ''nsx-op/selector_hash'' (Sha1 (evMarshalPeers env (if isSource then getRuleSourcePeers rule else getRuleDestinationPeers rule)))]
    @ buildBasicTags env obj createdFor
    @ (if svVPC (evService env)
       then [mk_tag ''nsx-op/nsx_share_created_for''
               (case groupScope of InfraScopeGroup \<Rightarrow> ''infra'' | ProjectInfraScopeGroup \<Rightarrow> ''project'' | VPCScopeGroup \<Rightarrow> ''notShared'')]
       else [])"

definition parseSuffixInUid :: "string \<Rightarrow> string \<times> string" where
  "parseSuffixInUid uid =
    (let parts = split_char CHR ''_'' uid in (hd parts, if 1 < length parts then parts ! 1 else []))"

definition buildRuleHashString :: "sp_env \<Rightarrow> sp_rule \<Rightarrow> string" where
  "buildRuleHashString env rule = Sha1 (evMarshalRule env rule)"

text \<open>A unique identifier from the name and the UID of the policy and a list of suffixes.\<close>

definition uniqueID :: "sp_env \<Rightarrow> sp_policy \<Rightarrow> string list \<Rightarrow> (string \<Rightarrow> bool) \<Rightarrow> sp_error + string" where
  "uniqueID env obj suffixes taken =
    (let (uid, suffixInUid) = parseSuffixInUid (spUID obj);
         suffix = str_join (filter (\<lambda>s. s \<noteq> []) [suffixInUid] @ suffixes) ''-'' in
     orPanic (BuildUniqueIDWithSuffix (evUUID env) \<lparr>Name = spName obj, Namespace = [], UID = uid\<rparr> suffix MaxIdLength GenerateIDByObject taken))"

definition buildVpcGroupIdByRuleAndGroupType :: "sp_env \<Rightarrow> sp_policy \<Rightarrow> string \<Rightarrow> string \<Rightarrow> sp_error + string" where
  "buildVpcGroupIdByRuleAndGroupType env obj ruleHash groupType =
    uniqueID env obj (filter (\<lambda>s. s \<noteq> []) [ruleHash] @ [groupType]) (\<lambda>i. \<exists>g \<in> set (evGroups env). ngId g = i)"

definition buildVPCRuleID :: "sp_env \<Rightarrow> sp_policy \<Rightarrow> string \<Rightarrow> sp_error + string" where
  "buildVPCRuleID env obj ruleHash =
    uniqueID env obj (filter (\<lambda>s. s \<noteq> []) [ruleHash]) (\<lambda>i. \<exists>r \<in> set (evRules env). hasTag ''nsx-op/rule_id'' i (nrTags r))"

text \<open>The index of rules by policy and hash: the rules with both tags, the first of which gives the identifier.\<close>

definition getRuleIDByUUIDAndRuleHash :: "sp_env \<Rightarrow> string \<Rightarrow> string \<Rightarrow> string \<Rightarrow> string option" where
  "getRuleIDByUUIDAndRuleHash env uid ruleHash createdFor =
    (let scope = (if forNetworkPolicy createdFor then ''nsx-op/network_policy_uid'' else securityPolicyUIDTagScope (evService env)) in
     case filter (\<lambda>r. hasTag scope uid (nrTags r) \<and> hasTag ''nsx-op/rule_hash'' ruleHash (nrTags r)) (evRules env) of
       [] \<Rightarrow> None
     | r # _ \<Rightarrow> (case List.find (\<lambda>t. fst t = Some ''nsx-op/rule_id'') (nrTags r) of None \<Rightarrow> None | Some t \<Rightarrow> snd t))"

definition buildRuleID :: "sp_env \<Rightarrow> sp_policy \<Rightarrow> sp_rule \<Rightarrow> nat \<Rightarrow> string \<Rightarrow> sp_error + string" where
  "buildRuleID env obj rule ruleIdx createdFor =
    (let h = buildRuleHashString env rule in
     if svVPC (evService env) then
       (case getRuleIDByUUIDAndRuleHash env (spUID obj) h createdFor of
          Some i \<Rightarrow> Inr i
        | None \<Rightarrow> buildVPCRuleID env obj h)
     else Inr (str_join [''sp'', spUID obj, h, nat_str ruleIdx] ''_''))"

definition buildExpandedRuleID :: "sp_env \<Rightarrow> sp_rule \<Rightarrow> string \<Rightarrow> port_info option \<Rightarrow> sp_error + string" where
  "buildExpandedRuleID env rule ruleBaseID namedPort =
    (if svVPC (evService env) then
       orPanic (NormalizeId (str_join [ruleBaseID,
         (case namedPort of Some p \<Rightarrow> buildRulePortNumberString (piPort p) | None \<Rightarrow> buildRulePortsNumberString (rlPorts rule))] ''_''))
     else orPanic (NormalizeId (str_join [ruleBaseID, (case namedPort of Some p \<Rightarrow> piSuffix p | None \<Rightarrow> ''0_0'')] ''_'')))"

definition buildRuleDisplayName :: "sp_rule \<Rightarrow> string \<Rightarrow> port_info option \<Rightarrow> sp_error + string" where
  "buildRuleDisplayName rule createdFor namedPort =
    bind_res (orFailed (getRuleDirection rule)) (\<lambda>d.
    bind_res (orFailed (getRuleAction rule)) (\<lambda>a.
      let act = (if a = ''ALLOW'' then ''allow'' else if a = ''DROP'' then ''isolation'' else ''reject'');
          suffix0 = str_join [if d = ''IN'' then ''ingress'' else ''egress'', act] ''_'';
          suffix = (if rlName rule \<noteq> [] \<and> forNetworkPolicy createdFor then [] else suffix0);
          ruleName = (if rlName rule \<noteq> [] then rlName rule else buildRulePortsString (rlPorts rule)) in
      orPanic (GenerateTruncName 255
        (case namedPort of None \<Rightarrow> ruleName | Some p \<Rightarrow> ruleName @ ''.'' @ buildRulePortString (piPort p)) [] suffix [] [])))"

section \<open>Rules\<close>

definition buildRuleBasicInfo :: "sp_env \<Rightarrow> sp_policy \<Rightarrow> sp_rule \<Rightarrow> nat \<Rightarrow> string \<Rightarrow> string \<Rightarrow> port_info option \<Rightarrow> sp_error + nsx_rule" where
  "buildRuleBasicInfo env obj rule ruleIdx ruleBaseID createdFor namedPort =
    bind_res (orFailed (getRuleAction rule)) (\<lambda>action.
    bind_res (orFailed (getRuleDirection rule)) (\<lambda>direction.
    bind_res (buildRuleDisplayName rule createdFor namedPort) (\<lambda>displayName.
    bind_res (buildExpandedRuleID env rule ruleBaseID namedPort) (\<lambda>i.
      Inr \<lparr>nrId = i, nrDisplayName = displayName, nrDirection = direction, nrSequence = int ruleIdx, nrAction = action,
           nrTags = buildBasicTags env obj createdFor
             @ (if svVPC (evService env)
                then [mk_tag ''nsx-op/rule_hash'' (buildRuleHashString env rule), mk_tag ''nsx-op/rule_id'' ruleBaseID] else []),
           nrServiceEntries = [], nrSourceGroups = [], nrDestinationGroups = [], nrScope = []\<rparr>))))"

definition buildRuleIPSetGroupID :: "nsx_rule \<Rightarrow> string" where
  "buildRuleIPSetGroupID r = GenerateID (nrId r) [] ''ipset'' []"

definition buildRuleIPSetGroupName :: "nsx_rule \<Rightarrow> sp_error + string" where
  "buildRuleIPSetGroupName r = orPanic (GenerateTruncName 255 (nrDisplayName r) [] ''ipset'' [] [])"

text \<open>The path of a group in its VPC, or in the domain of the cluster.\<close>

definition vpcGroupPath :: "vpc_resource_info \<Rightarrow> string \<Rightarrow> string" where
  "vpcGroupPath v i = ''/orgs/'' @ OrgID v @ ''/projects/'' @ ProjectID v @ ''/vpcs/'' @ VPCID v @ ''/groups/'' @ i"

definition domainGroupPath :: "string \<Rightarrow> string \<Rightarrow> string" where
  "domainGroupPath domain i = ''/infra/domains/'' @ domain @ ''/groups/'' @ i"

definition buildRuleIPSetGroupPath :: "sp_env \<Rightarrow> nsx_rule \<Rightarrow> vpc_resource_info option \<Rightarrow> sp_error + string" where
  "buildRuleIPSetGroupPath env r vpcInfo =
    (if svVPC (evService env) then
       (case vpcInfo of
          None \<Rightarrow> Inl (Failed (''vpcInfo is nil when building ruleIPSetGroupPath for rule '' @ nrId r))
        | Some v \<Rightarrow> Inr (vpcGroupPath v (buildRuleIPSetGroupID r)))
     else Inr (domainGroupPath (svCluster (evService env)) (buildRuleIPSetGroupID r)))"

definition buildRuleIPSetGroup :: "sp_env \<Rightarrow> sp_policy \<Rightarrow> sp_rule \<Rightarrow> nsx_rule \<Rightarrow> string list \<Rightarrow> string \<Rightarrow> string \<Rightarrow> sp_error + nsx_group" where
  "buildRuleIPSetGroup env obj rule r ips ruleBaseID createdFor =
    bind_res (buildRuleIPSetGroupName r) (\<lambda>name.
      Inr \<lparr>ngId = buildRuleIPSetGroupID r, ngDisplayName = name, ngTags = buildPeerTags env obj rule ruleBaseID False VPCScopeGroup createdFor,
           ngPath = None, ngExpression = [IPAddresses ips]\<rparr>)"

definition expandRuleByService ::
  "sp_env \<Rightarrow> sp_policy \<Rightarrow> sp_rule \<Rightarrow> nat \<Rightarrow> string \<Rightarrow> string \<Rightarrow> port_info \<Rightarrow> vpc_resource_info option \<Rightarrow> sp_error + nsx_group list \<times> nsx_rule" where
  "expandRuleByService env obj rule ruleIdx ruleBaseID createdFor namedPort vpcInfo =
    bind_res (buildRuleBasicInfo env obj rule ruleIdx ruleBaseID createdFor (Some namedPort)) (\<lambda>r0.
      let r = r0\<lparr>nrServiceEntries := [buildRuleServiceEntries (piPort namedPort)]\<rparr> in
      if piIPs namedPort = [] then Inr ([], r)
      else
        bind_res (buildRuleIPSetGroup env obj rule r (piIPs namedPort) ruleBaseID createdFor) (\<lambda>g.
        bind_res (buildRuleIPSetGroupPath env r vpcInfo) (\<lambda>path.
          Inr ([g\<lparr>ngPath := Some path\<rparr>], r\<lparr>nrDestinationGroups := [path]\<rparr>))))"

text \<open>The resolved ports of an entry of the rule; a named port has one per port number that its name stands for.\<close>

definition portInfosOf :: "sp_env \<Rightarrow> sp_policy \<Rightarrow> sp_rule \<Rightarrow> sp_port \<Rightarrow> nat \<Rightarrow> sp_error + port_info list" where
  "portInfosOf env obj rule p portIdx =
    (if \<not> isNamed p then Inr [(newPortInfo p)\<lparr>piSuffix := nat_str portIdx @ ''_0''\<rparr>]
     else if ptEndPort p \<noteq> 0 then Inl (Failed ''endPort can only be defined if port is also numeric.'')
     else bind_res (orFailed (resolveNamedPort env obj rule p)) (\<lambda>addrs.
       Inr (map (\<lambda>(i, pa). (newPortInfoForNamedPort pa (ptProtocol p))\<lparr>piSuffix := nat_str portIdx @ ''_'' @ nat_str i\<rparr>)
              (zip [0..<length addrs] addrs))))"

definition expandRuleByPort ::
  "sp_env \<Rightarrow> sp_policy \<Rightarrow> sp_rule \<Rightarrow> nat \<Rightarrow> sp_port \<Rightarrow> nat \<Rightarrow> string \<Rightarrow> string \<Rightarrow> vpc_resource_info option \<Rightarrow> sp_error + nsx_group list \<times> nsx_rule list" where
  "expandRuleByPort env obj rule ruleIdx p portIdx ruleBaseID createdFor vpcInfo =
    bind_res (portInfosOf env obj rule p portIdx) (\<lambda>infos.
    bind_res (map_res (\<lambda>i. expandRuleByService env obj rule ruleIdx ruleBaseID createdFor i vpcInfo) infos) (\<lambda>rs.
      Inr (concat (map fst rs), map snd rs)))"

definition expandRule ::
  "sp_env \<Rightarrow> sp_policy \<Rightarrow> sp_rule \<Rightarrow> nat \<Rightarrow> string \<Rightarrow> string \<Rightarrow> vpc_resource_info option \<Rightarrow> sp_error + nsx_group list \<times> nsx_rule list" where
  "expandRule env obj rule ruleIdx ruleBaseID createdFor vpcInfo =
    (if \<not> hasNamedPort rule then
       bind_res (buildRuleBasicInfo env obj rule ruleIdx ruleBaseID createdFor None) (\<lambda>r.
         Inr ([], [if rlPorts rule = [] then r else r\<lparr>nrServiceEntries := map buildRuleServiceEntries (rlPorts rule)\<rparr>]))
     else case validateNamedPortRule rule of
       Some err \<Rightarrow> Inl (Failed err)
     | None \<Rightarrow>
        bind_res (map_res (\<lambda>(portIdx, p). expandRuleByPort env obj rule ruleIdx p portIdx ruleBaseID createdFor vpcInfo)
            (zip [0..<length (rlPorts rule)] (rlPorts rule))) (\<lambda>rs.
          Inr (concat (map fst rs), concat (map snd rs))))"

section \<open>Groups\<close>

definition getPolicyAppliedGroupByCRUID :: "sp_env \<Rightarrow> string \<Rightarrow> string \<Rightarrow> nsx_group option" where
  "getPolicyAppliedGroupByCRUID env scope uid =
    List.find (\<lambda>g. \<not> (\<exists>t \<in> set (ngTags g). fst t = Some ''nsx-op/rule_id'')) (filter (\<lambda>g. hasTag scope uid (ngTags g)) (evGroups env))"

definition groupOfType :: "nsx_group list \<Rightarrow> string \<Rightarrow> string \<Rightarrow> nsx_group option" where
  "groupOfType groups ruleID groupType =
    List.find (\<lambda>g. hasTag ''nsx-op/group_type'' groupType (ngTags g)) (filter (\<lambda>g. hasTag ''nsx-op/rule_id'' ruleID (ngTags g)) groups)"

definition getAppliedGroupByRuleID :: "sp_env \<Rightarrow> string \<Rightarrow> string \<Rightarrow> string \<Rightarrow> nsx_group option" where
  "getAppliedGroupByRuleID env createdFor uid ruleID =
    (let scope = (if forNetworkPolicy createdFor then ''nsx-op/network_policy_uid'' else securityPolicyUIDTagScope (evService env)) in
     if ruleID = [] then getPolicyAppliedGroupByCRUID env scope uid
     else groupOfType (evGroups env) ruleID ''scope'')"

definition getPeerGroupByRuleID :: "sp_env \<Rightarrow> string \<Rightarrow> bool \<Rightarrow> GroupScope \<Rightarrow> nsx_group option" where
  "getPeerGroupByRuleID env ruleID isSource groupScope =
    groupOfType (case groupScope of InfraScopeGroup \<Rightarrow> evInfraGroups env | ProjectInfraScopeGroup \<Rightarrow> evProjectGroups env | VPCScopeGroup \<Rightarrow> evGroups env)
      ruleID (if isSource then ''source'' else ''destination'')"

text \<open>\<open>rule\<close> is the rule with its index, or none for the group of the policy.\<close>

definition buildAppliedGroupName :: "sp_env \<Rightarrow> sp_policy \<Rightarrow> (nat \<times> sp_rule) option \<Rightarrow> sp_error + string" where
  "buildAppliedGroupName env obj rule =
    orPanic (GenerateTruncName 255 (spName obj) []
      (case rule of Some (_, r) \<Rightarrow> str_join [buildRuleHashString env r, ''scope''] ''_'' | None \<Rightarrow> ''scope'') [] [])"

definition buildAppliedGroupIDAndName :: "sp_env \<Rightarrow> sp_policy \<Rightarrow> (nat \<times> sp_rule) option \<Rightarrow> string \<Rightarrow> string \<Rightarrow> sp_error + string \<times> string" where
  "buildAppliedGroupIDAndName env obj rule ruleBaseID createdFor =
    (if svVPC (evService env) then
       (case getAppliedGroupByRuleID env createdFor (spUID obj) ruleBaseID of
          Some g \<Rightarrow> Inr (ngId g, ngDisplayName g)
        | None \<Rightarrow>
            bind_res (buildVpcGroupIdByRuleAndGroupType env obj (case rule of Some (_, r) \<Rightarrow> buildRuleHashString env r | None \<Rightarrow> []) ''scope'') (\<lambda>i.
            bind_res (buildAppliedGroupName env obj rule) (\<lambda>n. Inr (i, n))))
     else
       bind_res (buildAppliedGroupName env obj rule) (\<lambda>n.
         Inr (GenerateID (spUID obj) ''sp'' ''scope'' (case rule of Some (i, _) \<Rightarrow> nat_str i | None \<Rightarrow> []), n)))"

text \<open>A nil pointer to the VPC is dereferenced.\<close>

definition buildAppliedGroupPath :: "sp_env \<Rightarrow> string \<Rightarrow> vpc_resource_info option \<Rightarrow> sp_error + string" where
  "buildAppliedGroupPath env i vpcInfo =
    (if svVPC (evService env) then (case vpcInfo of None \<Rightarrow> Inl Panic | Some v \<Rightarrow> Inr (vpcGroupPath v i))
     else Inr (domainGroupPath (svCluster (evService env)) i))"

text \<open>The loop over the targets: the expression so far with the counts of criteria and expressions.\<close>

definition targetsLoop :: "sp_env \<Rightarrow> string \<Rightarrow> target list \<Rightarrow> gerror + gexpr list \<times> nat \<times> nat" where
  "targetsLoop env ns targets =
    fold_res (\<lambda>(g, c, t) tg. bind_res (updateTargetExpressions (evOrders env) (evService env) ns tg g) (\<lambda>(g', c', t'). Inr (g', c + c', t + t')))
      ([], 0, 0) targets"

definition peersLoop :: "sp_env \<Rightarrow> string \<Rightarrow> bool \<Rightarrow> peer list \<Rightarrow> gerror + gexpr list \<times> nat \<times> nat" where
  "peersLoop env ns shared peers =
    fold_res (\<lambda>(g, c, t) p. bind_res (updatePeerExpressions (evOrders env) (evService env) ns p shared g) (\<lambda>(g', c', t'). Inr (g', c + c', t + t')))
      ([], 0, 0) peers"

definition checkLimits :: "string \<Rightarrow> string \<Rightarrow> gexpr list \<times> nat \<times> nat \<Rightarrow> gerror + gexpr list" where
  "checkLimits what exprWhat = (\<lambda>(g, criteria, exprs).
    if MaxCriteria < criteria
    then Inl (''total counts of '' @ what @ '' group criteria '' @ nat_str criteria @ '' exceed NSX limit of '' @ nat_str MaxCriteria)
    else if MaxTotalCriteriaExpressions < exprs
    then Inl (''total expression counts in '' @ exprWhat @ '' group criteria '' @ nat_str exprs @ '' exceed NSX limit of '' @ nat_str MaxTotalCriteriaExpressions)
    else Inr g)"

definition buildPolicyGroup :: "sp_env \<Rightarrow> sp_policy \<Rightarrow> string \<Rightarrow> vpc_resource_info option \<Rightarrow> sp_error + nsx_group option \<times> string" where
  "buildPolicyGroup env obj createdFor vpcInfo =
    bind_res (buildAppliedGroupIDAndName env obj None [] createdFor) (\<lambda>(i, name).
      if spAppliedTo obj = [] then Inr (None, ''ANY'')
      else
        bind_res (orFailed (bind_res (targetsLoop env (spNamespace obj) (spAppliedTo obj)) (checkLimits ''policy target'' ''policy target''))) (\<lambda>g.
        bind_res (buildAppliedGroupPath env i vpcInfo) (\<lambda>path.
          Inr (Some \<lparr>ngId = i, ngDisplayName = name, ngTags = buildTargetTags env obj (spAppliedTo obj) [] createdFor, ngPath = Some path, ngExpression = g\<rparr>, path))))"

definition buildRuleAppliedGroupByRule ::
  "sp_env \<Rightarrow> sp_policy \<Rightarrow> sp_rule \<Rightarrow> nat \<Rightarrow> string \<Rightarrow> string \<Rightarrow> vpc_resource_info option \<Rightarrow> sp_error + nsx_group \<times> string" where
  "buildRuleAppliedGroupByRule env obj rule ruleIdx ruleBaseID createdFor vpcInfo =
    bind_res (buildAppliedGroupIDAndName env obj (Some (ruleIdx, rule)) ruleBaseID createdFor) (\<lambda>(i, name).
    bind_res (buildAppliedGroupPath env i vpcInfo) (\<lambda>path.
    bind_res (orFailed (bind_res (targetsLoop env (spNamespace obj) (rlAppliedTo rule)) (checkLimits ''rule applied'' ''rule applied''))) (\<lambda>g.
      Inr (\<lparr>ngId = i, ngDisplayName = name, ngTags = buildTargetTags env obj (rlAppliedTo rule) ruleBaseID createdFor, ngPath = Some path, ngExpression = g\<rparr>, path))))"

definition buildRuleAppliedGroupByPolicy :: "sp_policy \<Rightarrow> string \<Rightarrow> string \<Rightarrow> string \<Rightarrow> sp_error + string" where
  "buildRuleAppliedGroupByPolicy obj src dst policyPath =
    (if spAppliedTo obj = [] then Inl (Failed ''appliedTo needs to be set in either spec or rules'')
     else if src = ''ANY'' \<and> dst = ''ANY'' then Inr policyPath else Inr ''ANY'')"

definition buildRuleAppliedToGroup ::
  "sp_env \<Rightarrow> sp_policy \<Rightarrow> sp_rule \<Rightarrow> nat \<Rightarrow> string \<Rightarrow> string \<Rightarrow> string \<Rightarrow> string \<Rightarrow> string \<Rightarrow> vpc_resource_info option \<Rightarrow>
   sp_error + nsx_group option \<times> string" where
  "buildRuleAppliedToGroup env obj rule ruleIdx src dst createdFor policyPath ruleBaseID vpcInfo =
    (if rlAppliedTo rule \<noteq> []
     then bind_res (buildRuleAppliedGroupByRule env obj rule ruleIdx ruleBaseID createdFor vpcInfo) (\<lambda>(g, p). Inr (Some g, p))
     else bind_res (buildRuleAppliedGroupByPolicy obj src dst policyPath) (\<lambda>p. Inr (None, p)))"

fun blockLoop :: "string list \<Rightarrow> string list \<Rightarrow> string list \<Rightarrow> string list \<times> string list" where
  "blockLoop cached blocks [] = (cached, blocks)"
| "blockLoop cached blocks (c # cs) =
    (if c = [] then blockLoop cached blocks cs
     else if c \<notin> set cached then blockLoop (c # cached) (blocks @ [c]) cs
     else blockLoop cached blocks cs)"

fun dedupLoop :: "string list \<Rightarrow> peer list \<Rightarrow> peer list" where
  "dedupLoop cached [] = []"
| "dedupLoop cached (p # ps) =
    (if prIPBlocks p = [] then p # dedupLoop cached ps
     else let (cached', blocks) = blockLoop cached [] (prIPBlocks p) in p\<lparr>prIPBlocks := blocks\<rparr> # dedupLoop cached' ps)"

definition dedupBlocks :: "peer list \<Rightarrow> peer list" where
  "dedupBlocks rulePeers = dedupLoop [] rulePeers"

definition buildRulePeerGroupID :: "sp_env \<Rightarrow> sp_policy \<Rightarrow> sp_rule \<Rightarrow> nat \<Rightarrow> string \<Rightarrow> bool \<Rightarrow> GroupScope \<Rightarrow> sp_error + string" where
  "buildRulePeerGroupID env obj rule ruleIdx ruleBaseID isSource groupScope =
    (let suffix = (if isSource then ''src'' else ''dst'') in
     if svVPC (evService env) then
       (case getPeerGroupByRuleID env ruleBaseID isSource groupScope of
          Some g \<Rightarrow> Inr (ngId g)
        | None \<Rightarrow> buildVpcGroupIdByRuleAndGroupType env obj (buildRuleHashString env rule) suffix)
     else Inr (GenerateID (spUID obj) ''sp'' suffix (nat_str ruleIdx)))"

definition buildRulePeerGroupName :: "sp_env \<Rightarrow> sp_policy \<Rightarrow> sp_rule \<Rightarrow> bool \<Rightarrow> sp_error + string" where
  "buildRulePeerGroupName env obj rule isSource =
    orPanic (GenerateTruncName 255 (spName obj) [] (str_join [buildRuleHashString env rule, if isSource then ''src'' else ''dst''] ''_'') [] [])"

definition buildRulePeerGroupPath :: "sp_env \<Rightarrow> string \<Rightarrow> GroupScope \<Rightarrow> vpc_resource_info option \<Rightarrow> sp_error + string" where
  "buildRulePeerGroupPath env i groupScope vpcInfo =
    (if svVPC (evService env) then
       (case groupScope of
          InfraScopeGroup \<Rightarrow> Inr (domainGroupPath ''default'' i)
        | ProjectInfraScopeGroup \<Rightarrow>
            (case vpcInfo of None \<Rightarrow> Inl Panic
             | Some v \<Rightarrow> Inr (''/orgs/'' @ OrgID v @ ''/projects/'' @ ProjectID v @ domainGroupPath ''default'' i))
        | VPCScopeGroup \<Rightarrow> (case vpcInfo of None \<Rightarrow> Inl Panic | Some v \<Rightarrow> Inr (vpcGroupPath v i)))
     else Inr (domainGroupPath (svCluster (evService env)) i))"

definition buildSharedWith :: "vpc_resource_info \<Rightarrow> GroupScope \<Rightarrow> string list option" where
  "buildSharedWith v groupScope =
    (case groupScope of
       InfraScopeGroup \<Rightarrow> Some [''/orgs/'' @ OrgID v @ ''/projects/'' @ ProjectID v]
     | ProjectInfraScopeGroup \<Rightarrow> Some [GetVPCPath v]
     | VPCScopeGroup \<Rightarrow> None)"

definition buildShareTags :: "sp_env \<Rightarrow> sp_policy \<Rightarrow> GroupScope \<Rightarrow> string \<Rightarrow> nsx_tag list" where
  "buildShareTags env obj groupScope createdFor =
    buildBasicTags env obj createdFor
    @ (case groupScope of
         InfraScopeGroup \<Rightarrow> [mk_tag ''nsx-op/nsx_share_created_for'' ''infra'']
       | ProjectInfraScopeGroup \<Rightarrow> [mk_tag ''nsx-op/nsx_share_created_for'' ''project'']
       | VPCScopeGroup \<Rightarrow> [])"

definition buildShareID :: "string \<Rightarrow> string \<Rightarrow> string" where
  "buildShareID projectID groupID = GenerateID (str_join [projectID, ''group'', groupID] ''_'') [] ''share'' []"

definition buildShareName :: "string \<Rightarrow> string \<Rightarrow> sp_error + string" where
  "buildShareName projectID groupName = orPanic (GenerateTruncName 255 (str_join [projectID, ''group'', groupName] ''_'') [] ''share'' [] [])"

text \<open>The conversion of the shared resource into a data value is left to the SDK.\<close>

definition buildGroupShare ::
  "sp_env \<Rightarrow> sp_policy \<Rightarrow> nsx_group \<Rightarrow> string list \<Rightarrow> string list \<Rightarrow> vpc_resource_info \<Rightarrow> GroupScope \<Rightarrow> string \<Rightarrow> sp_error + nsx_share" where
  "buildGroupShare env obj g sharedGroupPath sharedWith v groupScope createdFor =
    bind_res (buildShareName (ProjectID v) (ngDisplayName g)) (\<lambda>name.
      Inr \<lparr>nsId = buildShareID (ProjectID v) (ngId g), nsDisplayName = name, nsTags = buildShareTags env obj groupScope createdFor,
           nsSharedWith = sharedWith, nsSharedPaths = sharedGroupPath, nsAllDescendants = (groupScope = InfraScopeGroup)\<rparr>)"

type_synonym group_share = "nsx_group \<times> nsx_share"

text \<open>A peer group stays in the VPC unless a peer selects namespaces; then it is put into the project, or into the infra of the default project,
  and shared.\<close>

definition peersShared :: "peer list \<Rightarrow> bool" where
  "peersShared peers = list_ex (\<lambda>p. prNamespace p \<noteq> None) peers"

definition peerScope :: "sp_env \<Rightarrow> bool \<Rightarrow> peer list \<Rightarrow> GroupScope" where
  "peerScope env isDefaultProject peers =
    (if svVPC (evService env) \<and> peersShared peers then (if isDefaultProject then InfraScopeGroup else ProjectInfraScopeGroup) else VPCScopeGroup)"

definition buildRulePeerGroup ::
  "sp_env \<Rightarrow> sp_policy \<Rightarrow> sp_rule \<Rightarrow> nat \<Rightarrow> string \<Rightarrow> bool \<Rightarrow> string \<Rightarrow> vpc_resource_info option \<Rightarrow> bool \<Rightarrow>
   sp_error + nsx_group option \<times> string \<times> group_share option" where
  "buildRulePeerGroup env obj rule ruleIdx ruleBaseID isSource createdFor vpcInfo isDefaultProject =
    (let peers = (if isSource then getRuleSourcePeers rule else getRuleDestinationPeers rule);
         shared = peersShared peers;
         scope = peerScope env isDefaultProject peers in
     bind_res (buildRulePeerGroupID env obj rule ruleIdx ruleBaseID isSource scope) (\<lambda>i.
     bind_res (buildRulePeerGroupName env obj rule isSource) (\<lambda>name.
     bind_res (buildRulePeerGroupPath env i scope vpcInfo) (\<lambda>path.
     bind_res (orFailed (bind_res (peersLoop env (spNamespace obj) shared (dedupBlocks peers))
         (checkLimits (if isSource then ''rule source'' else ''rule destination'') (if isSource then ''source'' else ''destination'')))) (\<lambda>g.
       let grp = \<lparr>ngId = i, ngDisplayName = name, ngTags = buildPeerTags env obj rule ruleBaseID isSource scope createdFor,
                  ngPath = Some path, ngExpression = g\<rparr> in
       if svVPC (evService env) \<and> shared then
         (case vpcInfo of
            None \<Rightarrow> Inl Panic
          | Some v \<Rightarrow>
              bind_res (buildGroupShare env obj grp [path] (the (buildSharedWith v scope)) v scope createdFor) (\<lambda>sh.
                Inr (None, path, Some (grp, sh))))
       else Inr (Some grp, path, None))))))"

definition buildRuleInGroup ::
  "sp_env \<Rightarrow> sp_policy \<Rightarrow> sp_rule \<Rightarrow> nsx_rule \<Rightarrow> nat \<Rightarrow> string \<Rightarrow> string \<Rightarrow> vpc_resource_info option \<Rightarrow> bool \<Rightarrow>
   sp_error + nsx_group option \<times> string \<times> string \<times> group_share option" where
  "buildRuleInGroup env obj rule r ruleIdx ruleBaseID createdFor vpcInfo isDefaultProject =
    (let dst = (case nrDestinationGroups r of [] \<Rightarrow> ''ANY'' | d # _ \<Rightarrow> d) in
     if getRuleSourcePeers rule \<noteq> []
     then bind_res (buildRulePeerGroup env obj rule ruleIdx ruleBaseID True createdFor vpcInfo isDefaultProject) (\<lambda>(g, path, sh). Inr (g, path, dst, sh))
     else Inr (None, ''ANY'', dst, None))"

definition buildRuleOutGroup ::
  "sp_env \<Rightarrow> sp_policy \<Rightarrow> sp_rule \<Rightarrow> nsx_rule \<Rightarrow> nat \<Rightarrow> string \<Rightarrow> string \<Rightarrow> vpc_resource_info option \<Rightarrow> bool \<Rightarrow>
   sp_error + nsx_group option \<times> string \<times> string \<times> group_share option" where
  "buildRuleOutGroup env obj rule r ruleIdx ruleBaseID createdFor vpcInfo isDefaultProject =
    (case nrDestinationGroups r of
       d # _ \<Rightarrow> Inr (None, ''ANY'', d, None)
     | [] \<Rightarrow>
        (if getRuleDestinationPeers rule \<noteq> []
         then bind_res (buildRulePeerGroup env obj rule ruleIdx ruleBaseID False createdFor vpcInfo isDefaultProject) (\<lambda>(g, path, sh). Inr (g, ''ANY'', path, sh))
         else Inr (None, ''ANY'', ''ANY'', None)))"

text \<open>The variables of the loop of \<open>buildRuleAndGroups\<close> keep their values between the expanded rules; every pass sets all of them.\<close>

definition buildRuleAndGroups ::
  "sp_env \<Rightarrow> sp_policy \<Rightarrow> sp_rule \<Rightarrow> nat \<Rightarrow> string \<Rightarrow> string \<Rightarrow> vpc_resource_info option \<Rightarrow> bool \<Rightarrow>
   sp_error + nsx_rule list \<times> nsx_group list \<times> group_share list" where
  "buildRuleAndGroups env obj rule ruleIdx createdFor policyPath vpcInfo isDefaultProject =
    bind_res (orFailed (getRuleDirection rule)) (\<lambda>direction.
    bind_res (buildRuleID env obj rule ruleIdx createdFor) (\<lambda>ruleBaseID.
    bind_res (expandRule env obj rule ruleIdx ruleBaseID createdFor vpcInfo) (\<lambda>(ipSetGroups, rules).
    bind_res (map_res (\<lambda>r.
        bind_res (if direction = ''IN'' then buildRuleInGroup env obj rule r ruleIdx ruleBaseID createdFor vpcInfo isDefaultProject
                  else buildRuleOutGroup env obj rule r ruleIdx ruleBaseID createdFor vpcInfo isDefaultProject) (\<lambda>(g, src, dst, sh).
        bind_res (buildRuleAppliedToGroup env obj rule ruleIdx src dst createdFor policyPath ruleBaseID vpcInfo) (\<lambda>(ag, scope).
          Inr (r\<lparr>nrSourceGroups := [src], nrDestinationGroups := [dst], nrScope := [scope]\<rparr>,
               (case g of None \<Rightarrow> [] | Some g \<Rightarrow> [g]) @ (case ag of None \<Rightarrow> [] | Some g \<Rightarrow> [g]),
               (case sh of None \<Rightarrow> [] | Some s \<Rightarrow> [s]))))) rules) (\<lambda>rs.
      Inr (map fst rs, ipSetGroups @ concat (map (fst \<circ> snd) rs), concat (map (snd \<circ> snd) rs))))))"

section \<open>The policy\<close>

definition buildSecurityPolicyName :: "sp_policy \<Rightarrow> sp_error + string" where
  "buildSecurityPolicyName obj = orPanic (GenerateTruncName 255 (spName obj) [] [] [] [])"

definition buildSecurityPolicyIDAndName :: "sp_env \<Rightarrow> sp_policy \<Rightarrow> string \<Rightarrow> sp_error + string \<times> string" where
  "buildSecurityPolicyIDAndName env obj createdFor =
    (let scope = (if forNetworkPolicy createdFor then ''nsx-op/network_policy_uid'' else securityPolicyUIDTagScope (evService env)) in
     case List.find (\<lambda>p. hasTag scope (spUID obj) (npTags p)) (evPolicies env) of
       Some p \<Rightarrow> Inr (npId p, npDisplayName p)
     | None \<Rightarrow>
        (if svVPC (evService env) then
           bind_res (uniqueID env obj [] (\<lambda>i. \<exists>p \<in> set (evPolicies env). npId p = i)) (\<lambda>i.
           bind_res (buildSecurityPolicyName obj) (\<lambda>n. Inr (i, n)))
         else
           bind_res (buildSecurityPolicyName obj) (\<lambda>n.
             Inr (GenerateID (spUID obj) (if createdFor \<noteq> ''SecurityPolicy'' then ''np'' else ''sp'') [] [], n))))"

text \<open>The loops that keep the first of the objects with the same identifier: the set \<open>currentSet\<close>, which lasts from the shares of a rule to the rules
  of the next one, and the list so far.\<close>

fun addNew :: "('a \<Rightarrow> string) \<Rightarrow> 'a list \<Rightarrow> string list \<Rightarrow> 'a list \<Rightarrow> string list \<times> 'a list" where
  "addNew key [] seen out = (seen, out)"
| "addNew key (x # xs) seen out =
    (if key x \<in> set seen then addNew key xs seen out else addNew key xs (key x # seen) (out @ [x]))"

definition addRule ::
  "sp_env \<Rightarrow> sp_policy \<Rightarrow> string \<Rightarrow> string \<Rightarrow> vpc_resource_info option \<Rightarrow> bool \<Rightarrow>
   string list \<times> nsx_rule list \<times> nsx_group list \<times> group_share list \<Rightarrow> nat \<times> sp_rule \<Rightarrow>
   sp_error + string list \<times> nsx_rule list \<times> nsx_group list \<times> group_share list" where
  "addRule env obj createdFor policyPath vpcInfo isDefaultProject = (\<lambda>(seen, rules, groups, shares) (ruleIdx, rule).
    bind_res (buildRuleAndGroups env obj rule ruleIdx createdFor policyPath vpcInfo isDefaultProject) (\<lambda>(newRules, newGroups, newShares).
      let (_, rules') = addNew nrId newRules seen rules;
          (_, groups') = addNew ngId newGroups [] groups;
          (seen', shares') = addNew (nsId \<circ> snd) newShares [] shares in
      Inr (seen', rules', groups', shares')))"

definition buildSecurityPolicy ::
  "sp_env \<Rightarrow> sp_policy \<Rightarrow> string \<Rightarrow> vpc_resource_info option \<Rightarrow> bool \<Rightarrow> sp_error + nsx_policy \<times> nsx_group list \<times> group_share list" where
  "buildSecurityPolicy env obj createdFor vpcInfo isDefaultProject =
    (if svVPC (evService env) \<and> vpcInfo = None then Inl (Failed (''vpcInfo is nil when building SecurityPolicy '' @ spName obj))
     else
       bind_res (buildSecurityPolicyIDAndName env obj createdFor) (\<lambda>(i, name).
       bind_res (buildPolicyGroup env obj createdFor vpcInfo) (\<lambda>(policyGroup, policyPath).
       bind_res (fold_res (addRule env obj createdFor policyPath vpcInfo isDefaultProject)
           ([], [], (case policyGroup of None \<Rightarrow> [] | Some g \<Rightarrow> [g]), []) (zip [0..<length (spRules obj)] (spRules obj))) (\<lambda>(_, rules, groups, shares).
         Inr (\<lparr>npId = i, npDisplayName = name, npSequence = spPriority obj, npScope = [policyPath], npTags = buildBasicTags env obj createdFor,
               npRules = rules\<rparr>, groups, shares)))))"

section \<open>Rules that NSX accepts\<close>

lemma orPanic_Inr [simp]: "orPanic x = Inr v \<longleftrightarrow> x = Some v"
  by (cases x) (auto simp: orPanic_def)

lemma orFailed_Inr [simp]: "orFailed r = Inr v \<longleftrightarrow> r = Inr v"
  by (cases r) (auto simp: orFailed_def)

lemma map_res_in:
  assumes "map_res f xs = Inr ys" "y \<in> set ys"
  shows "\<exists>x \<in> set xs. f x = Inr y"
proof -
  have "list_all2 (\<lambda>x y. f x = Inr y) xs ys" using assms(1) by (simp add: map_res_Inr_iff)
  then show ?thesis using assms(2) by (induction rule: list_all2_induct) auto
qed

text \<open>What every rule carries from its policy rule.\<close>

definition fromRule :: "sp_rule \<Rightarrow> nsx_rule \<Rightarrow> bool" where
  "fromRule rule r \<longleftrightarrow> getRuleDirection rule = Inr (nrDirection r) \<and> getRuleAction rule = Inr (nrAction r)"

lemma buildRuleBasicInfo_from:
  "buildRuleBasicInfo env obj rule ruleIdx base cf np = Inr r \<Longrightarrow> fromRule rule r"
  by (auto simp: buildRuleBasicInfo_def fromRule_def)

lemma expandRuleByService_from:
  assumes "expandRuleByService env obj rule ruleIdx base cf p v = Inr (gs, r)"
  shows "fromRule rule r" "\<forall>g \<in> set gs. wf_group (ngExpression g)"
proof -
  have "wf_group [IPAddresses xs]" if "xs \<noteq> []" for xs
    using wf_open_addresses [OF wf_group_Nil that] by (simp add: appendOperatorIfNeeded_def)
  then have wf: "piIPs p \<noteq> [] \<Longrightarrow> wf_group [IPAddresses (piIPs p)]" .
  obtain r0 where r0: "buildRuleBasicInfo env obj rule ruleIdx base cf (Some p) = Inr r0"
    using assms by (auto simp: expandRuleByService_def)
  have "nrDirection r = nrDirection r0 \<and> nrAction r = nrAction r0 \<and> (\<forall>g \<in> set gs. wf_group (ngExpression g))"
    using assms r0 wf by (auto simp: expandRuleByService_def buildRuleIPSetGroup_def Let_def split: if_splits)
  with buildRuleBasicInfo_from [OF r0] show "fromRule rule r" "\<forall>g \<in> set gs. wf_group (ngExpression g)" by (auto simp: fromRule_def)
qed

lemma expandRuleByPort_from:
  assumes "expandRuleByPort env obj rule ruleIdx p portIdx base cf v = Inr (gs, rs)"
  shows "\<forall>r \<in> set rs. fromRule rule r" "\<forall>g \<in> set gs. wf_group (ngExpression g)"
proof -
  obtain infos xs where x: "map_res (\<lambda>i. expandRuleByService env obj rule ruleIdx base cf i v) infos = Inr xs"
    "gs = concat (map fst xs)" "rs = map snd xs"
    using assms by (auto simp: expandRuleByPort_def)
  have "\<exists>i. expandRuleByService env obj rule ruleIdx base cf i v = Inr y" if "y \<in> set xs" for y
    using map_res_in [OF x(1) that] by blast
  then show "\<forall>r \<in> set rs. fromRule rule r" "\<forall>g \<in> set gs. wf_group (ngExpression g)"
    using x(2,3) expandRuleByService_from by (fastforce)+
qed

lemma expandRule_from:
  assumes "expandRule env obj rule ruleIdx base cf v = Inr (gs, rs)"
  shows "\<forall>r \<in> set rs. fromRule rule r" "\<forall>g \<in> set gs. wf_group (ngExpression g)"
proof -
  have "(\<forall>r \<in> set rs. fromRule rule r) \<and> (\<forall>g \<in> set gs. wf_group (ngExpression g))"
  proof (cases "hasNamedPort rule")
    case False
    then show ?thesis using assms by (auto simp: expandRule_def fromRule_def dest!: buildRuleBasicInfo_from)
  next
    case True
    let ?f = "\<lambda>(portIdx, p). expandRuleByPort env obj rule ruleIdx p portIdx base cf v"
    obtain xs where x: "map_res ?f (zip [0..<length (rlPorts rule)] (rlPorts rule)) = Inr xs" "gs = concat (map fst xs)" "rs = concat (map snd xs)"
      using assms True by (auto simp: expandRule_def split: option.splits)
    have "\<exists>i p. expandRuleByPort env obj rule ruleIdx p i base cf v = Inr y" if "y \<in> set xs" for y
      using map_res_in [OF x(1) that] by auto
    then show ?thesis using x(2,3) expandRuleByPort_from by fastforce
  qed
  then show "\<forall>r \<in> set rs. fromRule rule r" "\<forall>g \<in> set gs. wf_group (ngExpression g)" by auto
qed

lemma fold_res_wf:
  assumes "fold_res (\<lambda>(g, c, t) x. bind_res (f x g) (\<lambda>(g', c', t'). Inr (g', c + c', t + t'))) (g, c, t) xs = Inr (g', c', t' :: nat)"
    and "\<And>x g g' c t. wf_group g \<Longrightarrow> f x g = Inr (g', c, t) \<Longrightarrow> wf_group g'" "wf_group g"
  shows "wf_group g'"
  using assms(1,3)
proof (induction xs arbitrary: g c t)
  case (Cons x xs)
  then obtain g1 c1 t1 where "f x g = Inr (g1, c1, t1)"
    "fold_res (\<lambda>(g, c, t) x. bind_res (f x g) (\<lambda>(g', c', t'). Inr (g', c + c', t + t'))) (g1, c + c1, t + t1) xs = Inr (g', c', t')"
    by (auto split: sum.splits prod.splits)
  then show ?case using Cons.IH Cons.prems(2) assms(2) by blast
qed simp

lemma targetsLoop_wf: "targetsLoop env ns targets = Inr (g, c, t) \<Longrightarrow> wf_group g"
  unfolding targetsLoop_def using updateTarget_wf wf_group_Nil
  by (elim fold_res_wf [where f = "\<lambda>tg. updateTargetExpressions (evOrders env) (evService env) ns tg"]) auto

lemma peersLoop_wf: "peersLoop env ns shared peers = Inr (g, c, t) \<Longrightarrow> wf_group g"
  unfolding peersLoop_def using updatePeer_wf wf_group_Nil
  by (elim fold_res_wf [where f = "\<lambda>p. updatePeerExpressions (evOrders env) (evService env) ns p shared"]) auto

lemma checkLimits_Inr: "checkLimits what exprWhat x = Inr g \<longleftrightarrow> fst x = g \<and> fst (snd x) \<le> 5 \<and> snd (snd x) \<le> 35"
  by (cases x) (auto simp: checkLimits_def selector_limits)

text \<open>No path of a group is the word for everything.\<close>

lemma paths_not_ANY [simp]: "vpcGroupPath v i \<noteq> ''ANY''" "domainGroupPath d i \<noteq> ''ANY''"
  by (simp_all add: vpcGroupPath_def domainGroupPath_def)

lemma buildAppliedGroupPath_not_ANY: "buildAppliedGroupPath env i v = Inr p \<Longrightarrow> p \<noteq> ''ANY''"
  by (auto simp: buildAppliedGroupPath_def split: if_splits option.splits)

lemma buildPolicyGroup_props:
  assumes "buildPolicyGroup env obj cf v = Inr (g, path)"
  shows "spAppliedTo obj \<noteq> [] \<longrightarrow> path \<noteq> ''ANY''" "\<forall>x. g = Some x \<longrightarrow> wf_group (ngExpression x)"
  using assms
  by (auto simp: buildPolicyGroup_def checkLimits_Inr split: if_splits dest!: targetsLoop_wf buildAppliedGroupPath_not_ANY)

lemma buildRulePeerGroup_wf:
  assumes "buildRulePeerGroup env obj rule ruleIdx base isSource cf v dp = Inr (g, path, sh)"
  shows "(\<forall>x. g = Some x \<longrightarrow> wf_group (ngExpression x)) \<and> (\<forall>x y. sh = Some (x, y) \<longrightarrow> wf_group (ngExpression x))"
  using assms by (auto simp: buildRulePeerGroup_def Let_def checkLimits_Inr split: if_splits option.splits dest!: peersLoop_wf)

lemma buildRuleAppliedToGroup_props:
  assumes "buildRuleAppliedToGroup env obj rule ruleIdx src dst cf policyPath base v = Inr (g, scope)"
    "spAppliedTo obj \<noteq> [] \<longrightarrow> policyPath \<noteq> ''ANY''"
  shows "\<not> (src = ''ANY'' \<and> dst = ''ANY'' \<and> scope = ''ANY'')" "\<forall>x. g = Some x \<longrightarrow> wf_group (ngExpression x)"
  using assms
  by (auto simp: buildRuleAppliedToGroup_def buildRuleAppliedGroupByRule_def buildRuleAppliedGroupByPolicy_def checkLimits_Inr
    split: if_splits dest!: targetsLoop_wf buildAppliedGroupPath_not_ANY)

text \<open>A rule that NSX accepts: an action, a direction, and one source, destination and scope that are not all unrestricted.\<close>

definition rule_ok :: "nsx_rule \<Rightarrow> bool" where
  "rule_ok r \<longleftrightarrow> nrAction r \<in> {''ALLOW'', ''DROP'', ''REJECT''} \<and> nrDirection r \<in> {''IN'', ''OUT''}
     \<and> (\<exists>src dst scope. nrSourceGroups r = [src] \<and> nrDestinationGroups r = [dst] \<and> nrScope r = [scope]
          \<and> \<not> (src = ''ANY'' \<and> dst = ''ANY'' \<and> scope = ''ANY''))"

lemma fromRule_values: "fromRule rule r \<Longrightarrow> nrAction r \<in> {''ALLOW'', ''DROP'', ''REJECT''} \<and> nrDirection r \<in> {''IN'', ''OUT''}"
  by (auto simp: fromRule_def getRuleAction_def getRuleDirection_def Let_def split: if_splits)

lemma buildInOut_wf:
  assumes "(if d = ''IN'' then buildRuleInGroup env obj rule r i base cf v dp else buildRuleOutGroup env obj rule r i base cf v dp) = Inr (g, src, dst, sh)"
  shows "(\<forall>x. g = Some x \<longrightarrow> wf_group (ngExpression x)) \<and> (\<forall>x y. sh = Some (x, y) \<longrightarrow> wf_group (ngExpression x))"
  using assms by (auto simp: buildRuleInGroup_def buildRuleOutGroup_def Let_def split: if_splits list.splits dest!: buildRulePeerGroup_wf)

lemma buildRuleAndGroups_props:
  assumes "buildRuleAndGroups env obj rule ruleIdx cf policyPath v dp = Inr (rules, groups, shares)"
    "spAppliedTo obj \<noteq> [] \<longrightarrow> policyPath \<noteq> ''ANY''"
  shows "\<forall>r \<in> set rules. rule_ok r" "\<forall>g \<in> set groups \<union> set (map fst shares). wf_group (ngExpression g)"
proof -
  obtain d base ips rs xs where d: "getRuleDirection rule = Inr d"
    and e: "expandRule env obj rule ruleIdx base cf v = Inr (ips, rs)"
    and xs: "map_res (\<lambda>r. bind_res (if d = ''IN'' then buildRuleInGroup env obj rule r ruleIdx base cf v dp
          else buildRuleOutGroup env obj rule r ruleIdx base cf v dp) (\<lambda>(g, src, dst, sh).
        bind_res (buildRuleAppliedToGroup env obj rule ruleIdx src dst cf policyPath base v) (\<lambda>(ag, scope).
          Inr (r\<lparr>nrSourceGroups := [src], nrDestinationGroups := [dst], nrScope := [scope]\<rparr>,
               (case g of None \<Rightarrow> [] | Some g \<Rightarrow> [g]) @ (case ag of None \<Rightarrow> [] | Some g \<Rightarrow> [g]),
               (case sh of None \<Rightarrow> [] | Some s \<Rightarrow> [s]))))) rs = Inr xs"
    and out: "rules = map fst xs" "groups = ips @ concat (map (fst \<circ> snd) xs)" "shares = concat (map (snd \<circ> snd) xs)"
    using assms(1) by (auto simp: buildRuleAndGroups_def)
  have step: "rule_ok (fst x) \<and> (\<forall>g \<in> set (fst (snd x)) \<union> fst ` set (snd (snd x)). wf_group (ngExpression g))" if "x \<in> set xs" for x
  proof -
    from map_res_in [OF xs that] obtain r g src dst sh ag scope where r: "r \<in> set rs"
      and io: "(if d = ''IN'' then buildRuleInGroup env obj rule r ruleIdx base cf v dp else buildRuleOutGroup env obj rule r ruleIdx base cf v dp) = Inr (g, src, dst, sh)"
      and ap: "buildRuleAppliedToGroup env obj rule ruleIdx src dst cf policyPath base v = Inr (ag, scope)"
      and x: "x = (r\<lparr>nrSourceGroups := [src], nrDestinationGroups := [dst], nrScope := [scope]\<rparr>,
               (case g of None \<Rightarrow> [] | Some g \<Rightarrow> [g]) @ (case ag of None \<Rightarrow> [] | Some g \<Rightarrow> [g]), (case sh of None \<Rightarrow> [] | Some s \<Rightarrow> [s]))"
      by auto
    have "fromRule rule r" using expandRule_from(1) [OF e] r by blast
    then have "rule_ok (fst x)" using fromRule_values buildRuleAppliedToGroup_props(1) [OF ap assms(2)] x by (simp add: rule_ok_def)
    moreover have "\<forall>g \<in> set (fst (snd x)) \<union> fst ` set (snd (snd x)). wf_group (ngExpression g)"
      using buildInOut_wf [OF io] buildRuleAppliedToGroup_props(2) [OF ap assms(2)] x by (cases g; cases ag; cases sh) (auto split: prod.splits)
    ultimately show ?thesis by blast
  qed
  then show "\<forall>r \<in> set rules. rule_ok r" using out(1) by auto
  show "\<forall>g \<in> set groups \<union> set (map fst shares). wf_group (ngExpression g)"
    using step expandRule_from(2) [OF e] out(2,3) by fastforce
qed

lemma addNew_subset: "addNew key xs seen out = (seen', out') \<Longrightarrow> set out' \<subseteq> set out \<union> set xs"
  by (induction xs arbitrary: seen out) (fastforce split: if_splits)+

lemma addRule_props:
  assumes "addRule env obj cf policyPath v dp (seen, rules, groups, shares) ir = Inr (seen', rules', groups', shares')"
    "spAppliedTo obj \<noteq> [] \<longrightarrow> policyPath \<noteq> ''ANY''"
    "\<forall>r \<in> set rules. rule_ok r" "\<forall>g \<in> set groups \<union> set (map fst shares). wf_group (ngExpression g)"
  shows "(\<forall>r \<in> set rules'. rule_ok r) \<and> (\<forall>g \<in> set groups' \<union> set (map fst shares'). wf_group (ngExpression g))"
proof -
  obtain i rule where ir: "ir = (i, rule)" by (metis surj_pair)
  obtain nr ng ns where b: "buildRuleAndGroups env obj rule i cf policyPath v dp = Inr (nr, ng, ns)"
    and r: "rules' = snd (addNew nrId nr seen rules)" "groups' = snd (addNew ngId ng [] groups)" "shares' = snd (addNew (nsId \<circ> snd) ns [] shares)"
    using assms(1) ir by (auto simp: addRule_def Let_def case_prod_unfold)
  have "set rules' \<subseteq> set rules \<union> set nr" "set groups' \<subseteq> set groups \<union> set ng" "set shares' \<subseteq> set shares \<union> set ns"
    unfolding r by (rule addNew_subset [OF surjective_pairing])+
  then have sub: "set rules' \<subseteq> set rules \<union> set nr"
    "set groups' \<union> set (map fst shares') \<subseteq> (set groups \<union> set (map fst shares)) \<union> (set ng \<union> set (map fst ns))" by auto
  show ?thesis
  proof
    show "\<forall>r \<in> set rules'. rule_ok r" using sub(1) buildRuleAndGroups_props(1) [OF b assms(2)] assms(3) by blast
    show "\<forall>g \<in> set groups' \<union> set (map fst shares'). wf_group (ngExpression g)"
      using sub(2) buildRuleAndGroups_props(2) [OF b assms(2)] assms(4) by blast
  qed
qed

lemma addRules_props:
  assumes "fold_res (addRule env obj cf policyPath v dp) st xs = Inr st'" "spAppliedTo obj \<noteq> [] \<longrightarrow> policyPath \<noteq> ''ANY''"
    "(\<forall>r \<in> set (fst (snd st)). rule_ok r) \<and> (\<forall>g \<in> set (fst (snd (snd st))) \<union> set (map fst (snd (snd (snd st)))). wf_group (ngExpression g))"
  shows "(\<forall>r \<in> set (fst (snd st')). rule_ok r) \<and> (\<forall>g \<in> set (fst (snd (snd st'))) \<union> set (map fst (snd (snd (snd st')))). wf_group (ngExpression g))"
proof (rule fold_res_inv [OF assms(1), where P = "\<lambda>st. (\<forall>r \<in> set (fst (snd st)). rule_ok r)
    \<and> (\<forall>g \<in> set (fst (snd (snd st))) \<union> set (map fst (snd (snd (snd st)))). wf_group (ngExpression g))", OF assms(3)])
  fix s x s'
  assume P: "(\<forall>r \<in> set (fst (snd s)). rule_ok r) \<and> (\<forall>g \<in> set (fst (snd (snd s))) \<union> set (map fst (snd (snd (snd s)))). wf_group (ngExpression g))"
    and step: "addRule env obj cf policyPath v dp s x = Inr s'"
  obtain a b c d where s: "s = (a, b, c, d)" by (metis surj_pair)
  obtain a' b' c' d' where s': "s' = (a', b', c', d')" by (metis surj_pair)
  show "(\<forall>r \<in> set (fst (snd s')). rule_ok r) \<and> (\<forall>g \<in> set (fst (snd (snd s'))) \<union> set (map fst (snd (snd (snd s')))). wf_group (ngExpression g))"
    using addRule_props [OF step [unfolded s s'] assms(2)] P by (simp add: s s')
qed


text \<open>In a VPC, the identifier of an expanded rule carries the number of its port but not the protocol. Two expanded rules of the same policy rule whose ports
  have the same number and different protocols get the same identifier, and only the first of them enters the policy: the traffic of the second
  protocol is not covered.\<close>

theorem same_port_number_dropped:
  assumes "svVPC (evService env)"
    "expandRuleByService env obj rule ruleIdx base createdFor p v = Inr (gp, rp)"
    "expandRuleByService env obj rule ruleIdx base createdFor q v = Inr (gq, rq)"
    "buildRulePortNumberString (piPort p) = buildRulePortNumberString (piPort q)" "ptProtocol (piPort p) \<noteq> ptProtocol (piPort q)"
  shows "nrId rp = nrId rq \<and> nrServiceEntries rp \<noteq> nrServiceEntries rq \<and> addNew nrId (rp # rq # rs) [] out = addNew nrId (rp # rs) [] out"
proof -
  obtain r where r: "buildRuleBasicInfo env obj rule ruleIdx base createdFor (Some p) = Inr r" "nrId rp = nrId r"
    "nrServiceEntries rp = [buildRuleServiceEntries (piPort p)]"
    using assms(2) by (auto simp: expandRuleByService_def Let_def split: if_splits)
  obtain r' where r': "buildRuleBasicInfo env obj rule ruleIdx base createdFor (Some q) = Inr r'" "nrId rq = nrId r'"
    "nrServiceEntries rq = [buildRuleServiceEntries (piPort q)]"
    using assms(3) by (auto simp: expandRuleByService_def Let_def split: if_splits)
  have "buildExpandedRuleID env rule base (Some p) = Inr (nrId r)" "buildExpandedRuleID env rule base (Some q) = Inr (nrId r')"
    using r(1) r'(1) by (auto simp: buildRuleBasicInfo_def)
  then have "nrId rp = nrId rq" using assms(1,4) r(2) r'(2) by (simp add: buildExpandedRuleID_def)
  moreover have "nrServiceEntries rp \<noteq> nrServiceEntries rq" using assms(5) r(3) r'(3) by (simp add: buildRuleServiceEntries_def)
  ultimately show ?thesis by simp
qed

section \<open>Witnesses\<close>

definition demoSpEnv :: sp_env where
  "demoSpEnv = \<lparr>evService = \<lparr>svVPC = False, svCluster = ''k8s-1'', svNamespaceUID = (\<lambda>_. ''uid-1'')\<rparr>, evOrders = plainOrders,
     evPolicies = [], evRules = [], evGroups = [], evInfraGroups = [], evProjectGroups = [],
     evMarshalRule = (\<lambda>_. ''rule''), evMarshalTargets = (\<lambda>_. ''targets''), evMarshalPeers = (\<lambda>_. ''peers''),
     evSelectorError = (\<lambda>_. None), evListPods = (\<lambda>_ _. Inr []), evListNamespaces = (\<lambda>_. Inr []), evUUID = nat_str\<rparr>"

definition demoRule :: sp_rule where
  "demoRule = \<lparr>rlAction = ''Allow'', rlAppliedTo = [], rlDirection = ''Ingress'', rlSources = [], rlDestinations = [], rlFrom = [], rlTo = [],
     rlPorts = [\<lparr>ptProtocol = ''TCP'', ptPort = IntPort 80, ptEndPort = 0\<rparr>], rlName = ''web''\<rparr>"

definition demoPolicy :: sp_policy where
  "demoPolicy = \<lparr>spName = ''policy'', spNamespace = ''ns'', spUID = ''uid-2'', spPriority = 10, spAppliedTo = [podTarget webSelector], spRules = [demoRule]\<rparr>"

lemma demo_group: "targetsLoop demoSpEnv ''ns'' [podTarget webSelector] =
    (case updateTargetExpressions plainOrders (evService demoSpEnv) ''ns'' (podTarget webSelector) [] of Inr (g, _) \<Rightarrow> Inr (g, 2, 10) | Inl e \<Rightarrow> Inl e)"
  "is_ok (updateTargetExpressions plainOrders (evService demoSpEnv) ''ns'' (podTarget webSelector) [])"
  by code_simp+

lemma NormalizeId_short: "length s \<le> 255 \<Longrightarrow> \<exists>i. NormalizeId s = Some i"
  by (simp add: NormalizeId_def MaxIdLength_def length_replace_char)

lemma GenerateTruncName_short:
  "length (generateDisplayName ConnectorUnderline n [] [] [] []) + length sfx \<le> 250 \<Longrightarrow> \<exists>r. GenerateTruncName 255 n [] sfx [] [] = Some r"
  by (simp add: GenerateTruncName_def Let_def)

lemma demo_rule: "\<exists>r. buildRuleAndGroups demoSpEnv demoPolicy demoRule 0 ''SecurityPolicy'' path None False = Inr ([r], [], [])"
proof -
  let ?base = "str_join [''sp'', ''uid-2'', Sha1 ''rule'', nat_str 0] ''_''"
  have parts: "getRuleDirection demoRule = Inr ''IN''" "getRuleAction demoRule = Inr ''ALLOW''" "\<not> hasNamedPort demoRule" "getRuleSourcePeers demoRule = []"
    "buildRuleDisplayName demoRule ''SecurityPolicy'' None = Inr ''web_ingress_allow''"
    by code_simp+
  have base: "buildRuleID demoSpEnv demoPolicy demoRule 0 ''SecurityPolicy'' = Inr ?base"
    by (simp add: buildRuleID_def buildRuleHashString_def demoSpEnv_def demoPolicy_def)
  have "length (nat_str 0) = 1" by (simp add: nat_str.simps)
  then obtain i where "NormalizeId (str_join [?base, ''0_0''] ''_'') = Some i"
    using NormalizeId_short [of "str_join [?base, ''0_0''] ''_''"] by (auto simp: length_str_join)
  then have i: "buildExpandedRuleID demoSpEnv demoRule ?base None = Inr i"
    by (simp add: buildExpandedRuleID_def orPanic_def demoSpEnv_def)
  obtain r where r: "buildRuleBasicInfo demoSpEnv demoPolicy demoRule 0 ?base ''SecurityPolicy'' None = Inr r" "nrDestinationGroups r = []"
    using parts i by (auto simp: buildRuleBasicInfo_def orFailed_def)
  have "rlAppliedTo demoRule = []" "spAppliedTo demoPolicy \<noteq> []" "rlPorts demoRule \<noteq> []" by (simp_all add: demoRule_def demoPolicy_def)
  then show ?thesis
    using parts base r
    by (simp add: buildRuleAndGroups_def expandRule_def buildRuleInGroup_def buildRuleAppliedToGroup_def buildRuleAppliedGroupByPolicy_def orFailed_def)
qed


definition vpcEnv :: sp_env where
  "vpcEnv = demoSpEnv\<lparr>evService := \<lparr>svVPC = True, svCluster = ''k8s-1'', svNamespaceUID = (\<lambda>_. ''uid-1'')\<rparr>\<rparr>"

definition dnsPort :: "string \<Rightarrow> port_info" where
  "dnsPort protocol = newPortInfo \<lparr>ptProtocol = protocol, ptPort = IntPort 53, ptEndPort = 0\<rparr>"

lemma dns_rule:
  assumes "protocol = ''TCP'' \<or> protocol = ''UDP''"
  shows "\<exists>r. expandRuleByService vpcEnv demoPolicy demoRule 0 ''web'' ''SecurityPolicy'' (dnsPort protocol) None = Inr ([], r)"
proof -
  have a: "getRuleDirection demoRule = Inr ''IN''" "getRuleAction demoRule = Inr ''ALLOW''" by code_simp+
  have "\<exists>n. buildRuleDisplayName demoRule ''SecurityPolicy'' (Some (dnsPort ''TCP'')) = Inr n"
    "\<exists>n. buildRuleDisplayName demoRule ''SecurityPolicy'' (Some (dnsPort ''UDP'')) = Inr n"
    by (rule exI [of _ "''web.TCP.53_ingress_allow''"], code_simp, rule exI [of _ "''web.UDP.53_ingress_allow''"], code_simp)
  then obtain n where n: "buildRuleDisplayName demoRule ''SecurityPolicy'' (Some (dnsPort protocol)) = Inr n" using assms by auto
  have "Itoa 53 = ''53''" by code_simp
  then have "buildRulePortNumberString (piPort (dnsPort protocol)) = ''53''" by (simp add: dnsPort_def newPortInfo_def buildRulePortNumberString_def)
  then obtain i where "buildExpandedRuleID vpcEnv demoRule ''web'' (Some (dnsPort protocol)) = Inr i"
    using NormalizeId_short [of "str_join [''web'', ''53''] ''_''"] by (auto simp: buildExpandedRuleID_def vpcEnv_def orPanic_def)
  then show ?thesis using a n by (simp add: expandRuleByService_def buildRuleBasicInfo_def orFailed_def dnsPort_def newPortInfo_def)
qed

theorem same_port_number_dropped_witness:
  "\<exists>(rp :: nsx_rule) rq. nrId rp = nrId rq \<and> nrServiceEntries rp \<noteq> nrServiceEntries rq \<and> snd (addNew nrId [rp, rq] [] []) = [rp]"
proof -
  obtain rp where rp: "expandRuleByService vpcEnv demoPolicy demoRule 0 ''web'' ''SecurityPolicy'' (dnsPort ''TCP'') None = Inr ([], rp)" using dns_rule by blast
  obtain rq where rq: "expandRuleByService vpcEnv demoPolicy demoRule 0 ''web'' ''SecurityPolicy'' (dnsPort ''UDP'') None = Inr ([], rq)" using dns_rule by blast
  have "svVPC (evService vpcEnv)" "buildRulePortNumberString (piPort (dnsPort ''TCP'')) = buildRulePortNumberString (piPort (dnsPort ''UDP''))"
    "ptProtocol (piPort (dnsPort ''TCP'')) \<noteq> ptProtocol (piPort (dnsPort ''UDP''))"
    by (simp_all add: vpcEnv_def dnsPort_def newPortInfo_def buildRulePortNumberString_def)
  from same_port_number_dropped [OF this(1) rp rq this(2,3), of "[]" "[]"]
  have "nrId rp = nrId rq \<and> nrServiceEntries rp \<noteq> nrServiceEntries rq \<and> snd (addNew nrId [rp, rq] [] []) = [rp]" by simp
  then show ?thesis by blast
qed

end
