(* ===== verification/NetworkPolicy.thy ===== *)
theory NetworkPolicy
  imports SecurityPolicy IpRange
begin

text \<open>
  The translation of Kubernetes NetworkPolicies into internal SecurityPolicies: the conversion functions of
  \<open>pkg/nsx/services/securitypolicy/firewall.go\<close>. A NetworkPolicy becomes two sections, one with its allow rules and one,
  of lower precedence, that isolates the selected Pods. The meaning of both sides is defined on traffic of a Pod, and the
  sections of any set of NetworkPolicies, evaluated in the order of their priorities, are shown to decide as Kubernetes prescribes.
\<close>

section \<open>NetworkPolicies\<close>

record ip_block =
  ibCIDR :: string
  ibExcept :: "string list option"

record np_peer =
  kpPod :: "label_selector option"
  kpNamespace :: "label_selector option"
  kpIPBlock :: "ip_block option"

record np_port =
  ktProtocol :: "string option"
  ktPort :: "int_or_string option"
  ktEndPort :: "int option"

record np_rule =
  krPeers :: "np_peer list"
  krPorts :: "np_port list"

record network_policy =
  knName :: string
  knNamespace :: string
  knUID :: string
  knPodSelector :: label_selector
  knIngress :: "np_rule list"
  knEgress :: "np_rule list"
  knPolicyTypes :: "string list"

section \<open>Conversion\<close>

definition emptyPeer :: peer where
  "emptyPeer = \<lparr>prIPBlocks = [], prPod = None, prVM = None, prNamespace = None\<rparr>"

text \<open>The text of the error names the peer; its rendering by the API library is left out.\<close>

definition convertNetworkPolicyPeerToSecurityPolicyPeer :: "np_peer \<Rightarrow> gerror + peer" where
  "convertNetworkPolicyPeerToSecurityPolicyPeer p =
    (case (kpPod p, kpNamespace p, kpIPBlock p) of
       (Some sel, None, None) \<Rightarrow> Inr (emptyPeer\<lparr>prPod := Some sel\<rparr>)
     | (None, Some ns, None) \<Rightarrow> Inr (emptyPeer\<lparr>prPod := Some \<lparr>matchLabels = [], matchExpressions = []\<rparr>, prNamespace := Some ns\<rparr>)
     | (Some sel, Some ns, None) \<Rightarrow> Inr (emptyPeer\<lparr>prPod := Some sel, prNamespace := Some ns\<rparr>)
     | (None, None, Some b) \<Rightarrow>
         (case ibExcept b of
            None \<Rightarrow> Inr (emptyPeer\<lparr>prIPBlocks := [ibCIDR b]\<rparr>)
          | Some excepts \<Rightarrow> bind_res (GetCIDRRangesWithExcept (ibCIDR b) excepts) (\<lambda>rs. Inr (emptyPeer\<lparr>prIPBlocks := rs\<rparr>)))
     | _ \<Rightarrow> Inl ''unsupported NetworkPolicyPeer'')"

definition convertNetworkPolicyPortToSecurityPolicyPort :: "np_port \<Rightarrow> gerror + sp_port" where
  "convertNetworkPolicyPortToSecurityPolicyPort p =
    Inr \<lparr>ptProtocol = (case ktProtocol p of Some s \<Rightarrow> s | None \<Rightarrow> []),
         ptPort = (case ktPort p of Some x \<Rightarrow> x | None \<Rightarrow> IntPort 0),
         ptEndPort = (case ktEndPort p of Some e \<Rightarrow> e | None \<Rightarrow> 0)\<rparr>"

definition emptyRule :: sp_rule where
  "emptyRule = \<lparr>rlAction = [], rlAppliedTo = [], rlDirection = [], rlSources = [], rlDestinations = [], rlFrom = [], rlTo = [],
     rlPorts = [], rlName = []\<rparr>"

text \<open>One rule of the allow section; \<open>setPeers\<close> puts the peers into \<open>From\<close> or \<open>To\<close>.\<close>

definition allowRule :: "string \<Rightarrow> (peer list \<Rightarrow> sp_rule \<Rightarrow> sp_rule) \<Rightarrow> np_rule \<Rightarrow> gerror + sp_rule" where
  "allowRule direction setPeers r =
    bind_res (map_res convertNetworkPolicyPeerToSecurityPolicyPeer (krPeers r)) (\<lambda>peers.
    bind_res (map_res convertNetworkPolicyPortToSecurityPolicyPort (krPorts r)) (\<lambda>ports.
      Inr (setPeers peers (emptyRule\<lparr>rlAction := ''Allow'', rlDirection := direction, rlPorts := ports\<rparr>))))"

definition populateRulesForAllowSection :: "sp_policy \<Rightarrow> network_policy \<Rightarrow> gerror + sp_policy" where
  "populateRulesForAllowSection sp np =
    bind_res (map_res (allowRule ''In'' (\<lambda>ps r. r\<lparr>rlFrom := ps\<rparr>)) (knIngress np)) (\<lambda>ins.
    bind_res (map_res (allowRule ''Out'' (\<lambda>ps r. r\<lparr>rlTo := ps\<rparr>)) (knEgress np)) (\<lambda>outs.
      Inr (sp\<lparr>spRules := spRules sp @ ins @ outs\<rparr>)))"

definition isolationRule :: "string \<Rightarrow> gerror + sp_rule" where
  "isolationRule policyType =
    (if policyType = ''Ingress''
     then Inr (emptyRule\<lparr>rlAction := ''Drop'', rlDirection := ''In'', rlName := str_join [''ingress'', ''isolation''] ConnectorUnderline\<rparr>)
     else if policyType = ''Egress''
     then Inr (emptyRule\<lparr>rlAction := ''Drop'', rlDirection := ''Out'', rlName := str_join [''egress'', ''isolation''] ConnectorUnderline\<rparr>)
     else Inl (''invalid network policy type '' @ policyType))"

definition populateRulesForIsolationSection :: "sp_policy \<Rightarrow> network_policy \<Rightarrow> gerror + sp_policy" where
  "populateRulesForIsolationSection sp np =
    bind_res (map_res isolationRule (knPolicyTypes np)) (\<lambda>rs. Inr (sp\<lparr>spRules := spRules sp @ rs\<rparr>))"

definition BuildNetworkPolicyAllowPolicyID :: "string \<Rightarrow> string" where
  "BuildNetworkPolicyAllowPolicyID uid = str_join [uid, ''allow''] ConnectorUnderline"

definition BuildNetworkPolicyIsolationPolicyID :: "string \<Rightarrow> string" where
  "BuildNetworkPolicyIsolationPolicyID uid = str_join [uid, ''isolation''] ConnectorUnderline"

definition PriorityNetworkPolicyAllowRule :: int where "PriorityNetworkPolicyAllowRule = 2010"
definition PriorityNetworkPolicyIsolationRule :: int where "PriorityNetworkPolicyIsolationRule = 2090"

definition generateSectionForNetworkPolicy :: "network_policy \<Rightarrow> string \<Rightarrow> gerror + sp_policy" where
  "generateSectionForNetworkPolicy np sectionType =
    (let isolation = (sectionType = ''isolation'') in
     Inr \<lparr>spName = knName np, spNamespace = knNamespace np,
          spUID = (if isolation then BuildNetworkPolicyIsolationPolicyID (knUID np) else BuildNetworkPolicyAllowPolicyID (knUID np)),
          spPriority = (if isolation then PriorityNetworkPolicyIsolationRule else PriorityNetworkPolicyAllowRule),
          spAppliedTo = [\<lparr>tgPod = Some (knPodSelector np), tgVM = None\<rparr>], spRules = []\<rparr>)"

definition convertNetworkPolicyToInternalSecurityPolicies :: "network_policy \<Rightarrow> gerror + sp_policy list" where
  "convertNetworkPolicyToInternalSecurityPolicies np =
    bind_res (generateSectionForNetworkPolicy np ''allow'') (\<lambda>spAllow0.
    bind_res (populateRulesForAllowSection spAllow0 np) (\<lambda>spAllow.
    bind_res (generateSectionForNetworkPolicy np ''isolation'') (\<lambda>spIsolation0.
    bind_res (populateRulesForIsolationSection spIsolation0 np) (\<lambda>spIsolation.
      Inr [spAllow, spIsolation]))))"

text \<open>Deprecated peers are moved to \<open>From\<close> and \<open>To\<close>, which take precedence.\<close>

definition normalizeRulePeers :: "sp_rule \<Rightarrow> sp_rule" where
  "normalizeRulePeers r =
    r\<lparr>rlFrom := (if rlFrom r = [] \<and> rlSources r \<noteq> [] then rlSources r else rlFrom r), rlSources := [],
      rlTo := (if rlTo r = [] \<and> rlDestinations r \<noteq> [] then rlDestinations r else rlTo r), rlDestinations := []\<rparr>"

definition normalizeSecurityPolicyRules :: "sp_policy \<Rightarrow> sp_policy" where
  "normalizeSecurityPolicyRules obj = obj\<lparr>spRules := map normalizeRulePeers (spRules obj)\<rparr>"

lemma normalizeRulePeers_peers:
  "getRuleSourcePeers (normalizeRulePeers r) = getRuleSourcePeers r"
  "getRuleDestinationPeers (normalizeRulePeers r) = getRuleDestinationPeers r"
  by (auto simp: normalizeRulePeers_def getRuleSourcePeers_def getRuleDestinationPeers_def)

section \<open>Meaning\<close>

text \<open>Traffic of a Pod (the subject): its direction, the labels and namespace of the subject, the other end with its address and,
  if it is a Pod, its namespace, the labels of the namespace and its own labels, the protocol, the destination port and
  the names that the destination Pod gives to this port.\<close>

record traffic =
  trDirection :: string
  trNamespace :: string
  trLabels :: "string \<rightharpoonup> string"
  trPeerPod :: "(string \<times> (string \<rightharpoonup> string) \<times> (string \<rightharpoonup> string)) option"
  trPeerAddr :: IP
  trProtocol :: string
  trPort :: int
  trPortNames :: "string list"

definition labelsSelect :: "(string \<rightharpoonup> string) \<Rightarrow> label_selector \<Rightarrow> bool" where
  "labelsSelect lab sel \<longleftrightarrow> (\<forall>(k, v) \<in> set (matchLabels sel). lab k = Some v) \<and> (\<forall>r \<in> set (matchExpressions sel). k8sMatch lab r)"

definition podSelected :: "string \<Rightarrow> label_selector option \<Rightarrow> label_selector option \<Rightarrow> traffic \<Rightarrow> bool" where
  "podSelected ns podSel nsSel t =
    (case trPeerPod t of
       None \<Rightarrow> False
     | Some (peerNs, nsLabels, labels) \<Rightarrow>
         (case nsSel of None \<Rightarrow> peerNs = ns | Some s \<Rightarrow> labelsSelect nsLabels s)
         \<and> (case podSel of None \<Rightarrow> True | Some s \<Rightarrow> labelsSelect labels s))"

definition inRange :: "iprange \<Rightarrow> IP \<Rightarrow> bool" where
  "inRange r a \<longleftrightarrow> length a = length (fst r) \<and> bytes_val a \<in> range_set r"

definition inCIDR :: "string \<Rightarrow> IP \<Rightarrow> bool" where
  "inCIDR c a = (case parseCIDRRange c of Inr r \<Rightarrow> inRange r a | Inl _ \<Rightarrow> False)"

text \<open>The Kubernetes side.\<close>

definition k8sPeerMatches :: "string \<Rightarrow> np_peer \<Rightarrow> traffic \<Rightarrow> bool" where
  "k8sPeerMatches ns p t =
    (case kpIPBlock p of
       Some b \<Rightarrow> inCIDR (ibCIDR b) (trPeerAddr t)
         \<and> \<not> list_ex (\<lambda>c. inCIDR c (trPeerAddr t)) (case ibExcept b of Some es \<Rightarrow> es | None \<Rightarrow> [])
     | None \<Rightarrow> podSelected ns (kpPod p) (kpNamespace p) t)"

definition k8sPortMatches :: "np_port \<Rightarrow> traffic \<Rightarrow> bool" where
  "k8sPortMatches p t \<longleftrightarrow> (case ktProtocol p of Some s \<Rightarrow> s | None \<Rightarrow> ''TCP'') = trProtocol t
     \<and> (case ktPort p of
          None \<Rightarrow> True
        | Some (StrPort s) \<Rightarrow> s \<in> set (trPortNames t)
        | Some (IntPort n) \<Rightarrow> n \<le> trPort t \<and> trPort t \<le> (case ktEndPort p of Some e \<Rightarrow> e | None \<Rightarrow> n))"

definition k8sRuleMatches :: "string \<Rightarrow> np_rule \<Rightarrow> traffic \<Rightarrow> bool" where
  "k8sRuleMatches ns r t \<longleftrightarrow> (krPeers r = [] \<or> list_ex (\<lambda>p. k8sPeerMatches ns p t) (krPeers r))
     \<and> (krPorts r = [] \<or> list_ex (\<lambda>p. k8sPortMatches p t) (krPorts r))"

definition k8sApplies :: "network_policy \<Rightarrow> traffic \<Rightarrow> bool" where
  "k8sApplies np t \<longleftrightarrow> trNamespace t = knNamespace np \<and> labelsSelect (trLabels t) (knPodSelector np)
     \<and> (if trDirection t = ''IN'' then ''Ingress'' else ''Egress'') \<in> set (knPolicyTypes np)"

text \<open>Policies are additive: traffic passes if no policy isolates the Pod in this direction, or if a rule of one that does matches.\<close>

definition k8sAllowed :: "network_policy list \<Rightarrow> traffic \<Rightarrow> bool" where
  "k8sAllowed nps t \<longleftrightarrow> \<not> list_ex (\<lambda>np. k8sApplies np t) nps
     \<or> list_ex (\<lambda>np. k8sApplies np t
         \<and> list_ex (\<lambda>r. k8sRuleMatches (knNamespace np) r t) (if trDirection t = ''IN'' then knIngress np else knEgress np)) nps"

text \<open>The SecurityPolicy side; \<open>addrIn\<close> is how NSX reads an entry of an address list.\<close>

definition spPeerMatches :: "(string \<Rightarrow> IP \<Rightarrow> bool) \<Rightarrow> string \<Rightarrow> peer \<Rightarrow> traffic \<Rightarrow> bool" where
  "spPeerMatches addrIn ns p t \<longleftrightarrow> list_ex (\<lambda>b. addrIn b (trPeerAddr t)) (prIPBlocks p)
     \<or> (prPod p \<noteq> None \<or> prNamespace p \<noteq> None) \<and> podSelected ns (prPod p) (prNamespace p) t"

definition spPortMatches :: "sp_port \<Rightarrow> traffic \<Rightarrow> bool" where
  "spPortMatches p t \<longleftrightarrow> ptProtocol p = trProtocol t
     \<and> (if ptPort p = IntPort 0 \<and> ptEndPort p = 0 then True
        else case ptPort p of
          StrPort s \<Rightarrow> s \<in> set (trPortNames t)
        | IntPort n \<Rightarrow> n \<le> trPort t \<and> trPort t \<le> (if ptEndPort p = 0 then n else ptEndPort p))"

definition spRuleMatches :: "(string \<Rightarrow> IP \<Rightarrow> bool) \<Rightarrow> string \<Rightarrow> sp_rule \<Rightarrow> traffic \<Rightarrow> bool" where
  "spRuleMatches addrIn ns r t \<longleftrightarrow> getRuleDirection r = Inr (trDirection t)
     \<and> (let peers = (if trDirection t = ''IN'' then getRuleSourcePeers r else getRuleDestinationPeers r) in
        peers = [] \<or> list_ex (\<lambda>p. spPeerMatches addrIn ns p t) peers)
     \<and> (rlPorts r = [] \<or> list_ex (\<lambda>p. spPortMatches p t) (rlPorts r))"

definition spApplies :: "sp_policy \<Rightarrow> traffic \<Rightarrow> bool" where
  "spApplies sp t \<longleftrightarrow> trNamespace t = spNamespace sp
     \<and> list_ex (\<lambda>tg. case tgPod tg of Some s \<Rightarrow> labelsSelect (trLabels t) s | None \<Rightarrow> False) (spAppliedTo sp)"

text \<open>The first matching rule of the sections in their order decides; traffic that no rule matches passes.\<close>

definition sectionRules :: "sp_policy list \<Rightarrow> (sp_policy \<times> sp_rule) list" where
  "sectionRules sps = concat (map (\<lambda>sp. map (Pair sp) (spRules sp)) sps)"

definition spAllowed :: "(string \<Rightarrow> IP \<Rightarrow> bool) \<Rightarrow> sp_policy list \<Rightarrow> traffic \<Rightarrow> bool" where
  "spAllowed addrIn sps t =
    (case List.find (\<lambda>(sp, r). spApplies sp t \<and> spRuleMatches addrIn (spNamespace sp) r t) (sectionRules sps) of
       None \<Rightarrow> True
     | Some (_, r) \<Rightarrow> getRuleAction r = Inr ''ALLOW'')"

section \<open>Address entries\<close>

text \<open>How NSX reads the entries of an address list: a CIDR is its block, and two addresses with a hyphen are the range between them.\<close>

locale address_entries =
  fixes addrIn :: "string \<Rightarrow> IP \<Rightarrow> bool"
  assumes cidr_entry: "parseCIDRRange c = Inr r \<Longrightarrow> addrIn c a \<longleftrightarrow> inRange r a"
    and range_entry: "range_ok 4 r \<Longrightarrow> addrIn (range_str r) a \<longleftrightarrow> inRange r a"
begin

text \<open>An IPv4 block whose exceptions are IPv4 blocks; the last address of all is not both in the block and in an exception.\<close>

lemma except_entries:
  assumes "parseCIDRRange c = Inr (s, e)" "length s = 4" "map_res parseCIDRRange es = Inr exs"
    and "\<forall>x \<in> set exs. length (fst x) = 4"
    and "bytes_val e + 1 < 256 ^ 4 \<or> (\<forall>x \<in> set exs. bytes_val (snd x) + 1 < 256 ^ 4)"
    and "GetCIDRRangesWithExcept c es = Inr blocks"
  shows "list_ex (\<lambda>b. addrIn b a) blocks \<longleftrightarrow> inCIDR c a \<and> \<not> list_ex (\<lambda>x. inCIDR x a) es"
proof -
  note sh = parseCIDRRange_shape [OF assms(1)]
  obtain ps where ps: "removeExcepts [(s, e)] es = Inr ps" "\<forall>p \<in> set ps. range_ok 4 p" "ranges_set ps = ranges_set [(s, e)] - ranges_set exs"
    using removeExcepts_pieces [OF assms(3), where hi = "bytes_val e" and rs = "[(s, e)]" and l = 4] sh assms(2,4,5)
    by (auto simp: range_ok_def ascending_def family_floor_def)
  have blocks: "blocks = map range_str ps" using ps(1) assms(1,6) by (simp add: GetCIDRRangesWithExcept_def)
  have "list_ex (\<lambda>b. addrIn b a) blocks \<longleftrightarrow> (\<exists>p \<in> set ps. inRange p a)"
    using ps(2) range_entry by (auto simp: blocks list_ex_iff)
  also have "\<dots> \<longleftrightarrow> length a = 4 \<and> bytes_val a \<in> ranges_set ps"
    using ps(2) by (auto simp: inRange_def ranges_set_def range_ok_def)
  also have "\<dots> \<longleftrightarrow> length a = 4 \<and> bytes_val a \<in> range_set (s, e) \<and> bytes_val a \<notin> ranges_set exs" using ps(3) by auto
  also have "\<dots> \<longleftrightarrow> inCIDR c a \<and> \<not> list_ex (\<lambda>x. inCIDR x a) es"
  proof -
    have "list_ex (\<lambda>x. inCIDR x a) es \<longleftrightarrow> (\<exists>r \<in> set exs. inRange r a)"
      using assms(3) unfolding map_res_Inr_iff by (induction rule: list_all2_induct) (auto simp: inCIDR_def)
    also have "\<dots> \<longleftrightarrow> length a = 4 \<and> bytes_val a \<in> ranges_set exs" using assms(4) by (auto simp: inRange_def ranges_set_def)
    finally show ?thesis using assms(1,2) by (auto simp: inCIDR_def inRange_def)
  qed
  finally show ?thesis .
qed

end

definition nsxAddrIn :: "string \<Rightarrow> IP \<Rightarrow> bool" where
  "nsxAddrIn b a =
    (case parseCIDRRange b of
       Inr r \<Rightarrow> inRange r a
     | Inl _ \<Rightarrow> (case split_char CHR ''-'' b of
          [x, y] \<Rightarrow> (case (ParseAddr x, ParseAddr y) of (Some p, Some q) \<Rightarrow> inRange (p, q) a | _ \<Rightarrow> False)
        | _ \<Rightarrow> False))"

lemma str_join_chars: "c \<in> set (str_join xs [d]) \<Longrightarrow> (\<exists>x \<in> set xs. c \<in> set x) \<or> c = d"
  by (induction xs "[d]" rule: str_join.induct) auto

lemma quad_str_chars: "c \<in> set (quad_str ip) \<Longrightarrow> is_digit c \<or> c = CHR ''.''"
  unfolding quad_str_def by (drule str_join_chars) (auto dest: nat_str_no_dot)

lemma range_str_quads: "range_ok 4 r \<Longrightarrow> range_str r = quad_str (fst r) @ ''-'' @ quad_str (snd r)"
  by (auto simp: range_ok_def range_str_def IP_String_def To4_def)

interpretation nsxAddrIn: address_entries nsxAddrIn
proof
  show "parseCIDRRange c = Inr r \<Longrightarrow> nsxAddrIn c a \<longleftrightarrow> inRange r a" for c r a by (simp add: nsxAddrIn_def)
next
  fix r :: iprange and a :: IP
  assume ok: "range_ok 4 r"
  note str = range_str_quads [OF ok]
  have "CHR ''/'' \<notin> set (range_str r)" unfolding str by (auto dest!: quad_str_chars simp: is_digit_def)
  then have "ParseCIDR (range_str r) = None" by (simp add: ParseCIDR_def dropWhile_eq_Nil_conv [THEN iffD2])
  then have cidr: "\<exists>err. parseCIDRRange (range_str r) = Inl err" by (simp add: parseCIDRRange_def)
  have "split_char CHR ''-'' (str_join [quad_str (fst r), quad_str (snd r)] ''-'') = [quad_str (fst r), quad_str (snd r)]"
    by (rule split_join) (auto dest!: quad_str_chars simp: is_digit_def)
  then have "split_char CHR ''-'' (range_str r) = [quad_str (fst r), quad_str (snd r)]" by (simp add: str)
  with cidr ok show "nsxAddrIn (range_str r) a \<longleftrightarrow> inRange r a"
    by (auto simp: nsxAddrIn_def range_ok_def ParseAddr_quad_str)
qed

section \<open>The sections mean what Kubernetes prescribes\<close>

text \<open>What the API server guarantees of a stored policy: ports have a protocol (it is defaulted), a valid number and an end only with a number below it.
  The address blocks are IPv4 blocks. Rules are only given for directions among the policy types.\<close>

definition valid_port :: "np_port \<Rightarrow> bool" where
  "valid_port p \<longleftrightarrow> ktProtocol p \<noteq> None
     \<and> (case ktPort p of
          None \<Rightarrow> ktEndPort p = None
        | Some (StrPort s) \<Rightarrow> ktEndPort p = None
        | Some (IntPort n) \<Rightarrow> 0 < n \<and> (case ktEndPort p of None \<Rightarrow> True | Some e \<Rightarrow> n \<le> e))"

definition valid_block :: "ip_block \<Rightarrow> bool" where
  "valid_block b =
    (case parseCIDRRange (ibCIDR b) of
       Inl _ \<Rightarrow> False
     | Inr (s, e) \<Rightarrow> length s = 4
         \<and> (case map_res parseCIDRRange (case ibExcept b of Some es \<Rightarrow> es | None \<Rightarrow> []) of
              Inl _ \<Rightarrow> False
            | Inr exs \<Rightarrow> list_all (\<lambda>x. length (fst x) = 4) exs
                \<and> (bytes_val e + 1 < 256 ^ 4 \<or> list_all (\<lambda>x. bytes_val (snd x) + 1 < 256 ^ 4) exs)))"

definition valid_peer :: "np_peer \<Rightarrow> bool" where
  "valid_peer p = (case kpIPBlock p of None \<Rightarrow> True | Some b \<Rightarrow> valid_block b)"

definition valid_rule :: "np_rule \<Rightarrow> bool" where
  "valid_rule r \<longleftrightarrow> list_all valid_peer (krPeers r) \<and> list_all valid_port (krPorts r)"

definition valid_policy :: "network_policy \<Rightarrow> bool" where
  "valid_policy np \<longleftrightarrow> list_all valid_rule (knIngress np) \<and> list_all valid_rule (knEgress np)
     \<and> (knIngress np \<noteq> [] \<longrightarrow> ''Ingress'' \<in> set (knPolicyTypes np)) \<and> (knEgress np \<noteq> [] \<longrightarrow> ''Egress'' \<in> set (knPolicyTypes np))"

lemma port_matches:
  "valid_port p \<Longrightarrow> convertNetworkPolicyPortToSecurityPolicyPort p = Inr q \<Longrightarrow> spPortMatches q t = k8sPortMatches p t"
  by (auto simp: valid_port_def convertNetworkPolicyPortToSecurityPolicyPort_def spPortMatches_def k8sPortMatches_def
      split: option.splits int_or_string.splits)

lemma emptySelector_all: "labelsSelect lab \<lparr>matchLabels = [], matchExpressions = []\<rparr>"
  by (simp add: labelsSelect_def)

context address_entries
begin

lemma block_matches:
  assumes "valid_block b" and "kpIPBlock p = Some b" "convertNetworkPolicyPeerToSecurityPolicyPeer p = Inr q"
  shows "spPeerMatches addrIn ns q t = k8sPeerMatches ns p t"
proof -
  obtain s e where v1: "parseCIDRRange (ibCIDR b) = Inr (s, e)" using assms(1) by (auto simp: valid_block_def split: sum.splits)
  obtain exs where v3: "map_res parseCIDRRange (case ibExcept b of Some es \<Rightarrow> es | None \<Rightarrow> []) = Inr exs"
    using assms(1) v1 by (cases "map_res parseCIDRRange (case ibExcept b of Some es \<Rightarrow> es | None \<Rightarrow> [])") (auto simp: valid_block_def)
  have v: "length s = 4" "\<forall>x \<in> set exs. length (fst x) = 4"
    "bytes_val e + 1 < 256 ^ 4 \<or> (\<forall>x \<in> set exs. bytes_val (snd x) + 1 < 256 ^ 4)"
    using assms(1) v1 v3 by (simp_all add: valid_block_def list_all_iff)
  show ?thesis
  proof (cases "ibExcept b")
    case None
    with assms(2,3) have "q = emptyPeer\<lparr>prIPBlocks := [ibCIDR b]\<rparr>"
      by (auto simp: convertNetworkPolicyPeerToSecurityPolicyPeer_def split: option.splits)
    then show ?thesis using cidr_entry [OF v1] v1 assms(2) None
      by (simp add: spPeerMatches_def k8sPeerMatches_def emptyPeer_def inCIDR_def)
  next
    case (Some es)
    with assms(2,3) obtain rs where rs: "GetCIDRRangesWithExcept (ibCIDR b) es = Inr rs" "q = emptyPeer\<lparr>prIPBlocks := rs\<rparr>"
      by (auto simp: convertNetworkPolicyPeerToSecurityPolicyPeer_def split: option.splits)
    show ?thesis using except_entries [OF v1 v(1) _ v(2,3) rs(1)] v3 assms(2) Some rs(2)
      by (simp add: spPeerMatches_def k8sPeerMatches_def emptyPeer_def)
  qed
qed

lemma peer_matches:
  assumes "valid_peer p" "convertNetworkPolicyPeerToSecurityPolicyPeer p = Inr q"
  shows "spPeerMatches addrIn ns q t = k8sPeerMatches ns p t"
proof (cases "kpIPBlock p")
  case (Some b)
  with assms show ?thesis by (intro block_matches) (auto simp: valid_peer_def)
next
  case None
  with assms(2) show ?thesis
    by (auto simp: convertNetworkPolicyPeerToSecurityPolicyPeer_def spPeerMatches_def k8sPeerMatches_def emptyPeer_def podSelected_def
        emptySelector_all split: option.splits)
qed

lemma peers_match:
  assumes "map_res convertNetworkPolicyPeerToSecurityPolicyPeer ps = Inr qs" "list_all valid_peer ps"
  shows "(qs = [] \<longleftrightarrow> ps = []) \<and> list_ex (\<lambda>q. spPeerMatches addrIn ns q t) qs = list_ex (\<lambda>p. k8sPeerMatches ns p t) ps"
  using assms unfolding map_res_Inr_iff by (induction rule: list_all2_induct) (auto simp: peer_matches)

lemma ports_match:
  assumes "map_res convertNetworkPolicyPortToSecurityPolicyPort ps = Inr qs" "list_all valid_port ps"
  shows "(qs = [] \<longleftrightarrow> ps = []) \<and> list_ex (\<lambda>q. spPortMatches q t) qs = list_ex (\<lambda>p. k8sPortMatches p t) ps"
  using assms unfolding map_res_Inr_iff by (induction rule: list_all2_induct) (auto simp: port_matches)

lemma upper_constants:
  "ToUpper ''In'' = ''IN''" "ToUpper ''Out'' = ''OUT''" "ToUpper ''Allow'' = ''ALLOW''" "ToUpper ''Drop'' = ''DROP''"
  by code_simp+

lemma allow_in:
  assumes "allowRule ''In'' (\<lambda>ps r. r\<lparr>rlFrom := ps\<rparr>) k = Inr r" "valid_rule k"
  shows "getRuleAction r = Inr ''ALLOW'' \<and> (spRuleMatches addrIn ns r t \<longleftrightarrow> trDirection t = ''IN'' \<and> k8sRuleMatches ns k t)"
  using assms peers_match [of "krPeers k" _ ns t] ports_match [of "krPorts k" _ t]
  by (auto simp: allowRule_def valid_rule_def spRuleMatches_def k8sRuleMatches_def getRuleAction_def getRuleDirection_def upper_constants
      getRuleSourcePeers_def emptyRule_def)

lemma allow_out:
  assumes "allowRule ''Out'' (\<lambda>ps r. r\<lparr>rlTo := ps\<rparr>) k = Inr r" "valid_rule k"
  shows "getRuleAction r = Inr ''ALLOW'' \<and> (spRuleMatches addrIn ns r t \<longleftrightarrow> trDirection t = ''OUT'' \<and> k8sRuleMatches ns k t)"
  using assms peers_match [of "krPeers k" _ ns t] ports_match [of "krPorts k" _ t]
  by (auto simp: allowRule_def valid_rule_def spRuleMatches_def k8sRuleMatches_def getRuleAction_def getRuleDirection_def upper_constants
      getRuleDestinationPeers_def emptyRule_def)

lemma isolation_rule:
  assumes "isolationRule ty = Inr r"
  shows "getRuleAction r = Inr ''DROP''
    \<and> (spRuleMatches addrIn ns r t \<longleftrightarrow> trDirection t = (if ty = ''Ingress'' then ''IN'' else ''OUT'')) \<and> ty \<in> {''Ingress'', ''Egress''}"
  using assms
  by (auto simp: isolationRule_def spRuleMatches_def getRuleAction_def getRuleDirection_def upper_constants getRuleSourcePeers_def
      getRuleDestinationPeers_def emptyRule_def split: if_splits)

end

text \<open>The two sections of a policy.\<close>

lemma converted_sections:
  assumes "convertNetworkPolicyToInternalSecurityPolicies np = Inr sps"
  obtains a d ins outs drops where "sps = [a, d]"
    "a = \<lparr>spName = knName np, spNamespace = knNamespace np, spUID = knUID np @ ''_allow'', spPriority = 2010,
      spAppliedTo = [\<lparr>tgPod = Some (knPodSelector np), tgVM = None\<rparr>], spRules = ins @ outs\<rparr>"
    "d = \<lparr>spName = knName np, spNamespace = knNamespace np, spUID = knUID np @ ''_isolation'', spPriority = 2090,
      spAppliedTo = [\<lparr>tgPod = Some (knPodSelector np), tgVM = None\<rparr>], spRules = drops\<rparr>"
    "map_res (allowRule ''In'' (\<lambda>ps r. r\<lparr>rlFrom := ps\<rparr>)) (knIngress np) = Inr ins"
    "map_res (allowRule ''Out'' (\<lambda>ps r. r\<lparr>rlTo := ps\<rparr>)) (knEgress np) = Inr outs"
    "map_res isolationRule (knPolicyTypes np) = Inr drops"
  using assms
  by (auto simp: convertNetworkPolicyToInternalSecurityPolicies_def generateSectionForNetworkPolicy_def populateRulesForAllowSection_def
      populateRulesForIsolationSection_def BuildNetworkPolicyAllowPolicyID_def BuildNetworkPolicyIsolationPolicyID_def
      PriorityNetworkPolicyAllowRule_def PriorityNetworkPolicyIsolationRule_def ConnectorUnderline_def)

text \<open>A section decides traffic if it applies and one of its rules matches.\<close>

definition sectionHit :: "(string \<Rightarrow> IP \<Rightarrow> bool) \<Rightarrow> sp_policy \<Rightarrow> traffic \<Rightarrow> bool" where
  "sectionHit addrIn sp t \<longleftrightarrow> spApplies sp t \<and> (\<exists>r \<in> set (spRules sp). spRuleMatches addrIn (spNamespace sp) r t)"

lemma find_first_action:
  "(case List.find P (xs @ ys) of None \<Rightarrow> True | Some x \<Rightarrow> A x) \<longleftrightarrow> (\<exists>x \<in> set xs. P x) \<or> \<not> (\<exists>y \<in> set ys. P y)"
  if "\<forall>x \<in> set xs. A x" "\<forall>y \<in> set ys. \<not> A y"
proof (cases "List.find P xs")
  case None
  then have "List.find P (xs @ ys) = List.find P ys" by (simp add: find_append)
  moreover have "\<not> (\<exists>x \<in> set xs. P x)" using None by (simp add: find_None_all)
  ultimately show ?thesis using that(2) by (cases "List.find P ys") (auto dest: find_Some_in find_None_all [THEN iffD1])
next
  case (Some x)
  with that(1) show ?thesis by (auto simp: find_append dest!: find_Some_in)
qed

lemma sectionRules_append: "sectionRules (xs @ ys) = sectionRules xs @ sectionRules ys"
  by (simp add: sectionRules_def)

lemma sectionRules_in: "x \<in> set (sectionRules sps) \<longleftrightarrow> fst x \<in> set sps \<and> snd x \<in> set (spRules (fst x))"
  by (cases x) (auto simp: sectionRules_def)

lemma spAllowed_split:
  assumes "\<forall>sp \<in> set as. \<forall>r \<in> set (spRules sp). getRuleAction r = Inr ''ALLOW''"
    and "\<forall>sp \<in> set ds. \<forall>r \<in> set (spRules sp). getRuleAction r = Inr ''DROP''"
  shows "spAllowed addrIn (as @ ds) t \<longleftrightarrow> (\<exists>sp \<in> set as. sectionHit addrIn sp t) \<or> \<not> (\<exists>sp \<in> set ds. sectionHit addrIn sp t)"
proof -
  let ?P = "\<lambda>(sp, r). spApplies sp t \<and> spRuleMatches addrIn (spNamespace sp) r t"
  let ?A = "\<lambda>(sp :: sp_policy, r). getRuleAction r = Inr ''ALLOW''"
  have "spAllowed addrIn (as @ ds) t \<longleftrightarrow> (case List.find ?P (sectionRules as @ sectionRules ds) of None \<Rightarrow> True | Some x \<Rightarrow> ?A x)"
    by (simp add: spAllowed_def sectionRules_append)
  also have "\<dots> \<longleftrightarrow> (\<exists>x \<in> set (sectionRules as). ?P x) \<or> \<not> (\<exists>y \<in> set (sectionRules ds). ?P y)"
    by (rule find_first_action) (use assms in \<open>auto simp: sectionRules_in\<close>)
  finally show ?thesis by (fastforce simp: sectionHit_def sectionRules_in)
qed

lemma split_by_priority:
  assumes "sorted (map f xs)" "\<forall>x \<in> set xs. f x = a \<or> f x = (b :: int)" "a < b"
  shows "xs = filter (\<lambda>x. f x = a) xs @ filter (\<lambda>x. f x = b) xs"
  using assms(1,2)
proof (induction xs)
  case (Cons x xs)
  have "filter (\<lambda>y. f y = a) xs = []" if "f x = b"
    using Cons.prems(1) that assms(3) by (auto simp: filter_empty_conv)
  with Cons assms(3) show ?case by auto
qed simp

context address_entries
begin

lemma section_hits:
  assumes "convertNetworkPolicyToInternalSecurityPolicies np = Inr [a, d]" "valid_policy np" "trDirection t \<in> {''IN'', ''OUT''}"
  shows "\<forall>r \<in> set (spRules a). getRuleAction r = Inr ''ALLOW''" "\<forall>r \<in> set (spRules d). getRuleAction r = Inr ''DROP''"
    and "sectionHit addrIn a t \<longleftrightarrow> k8sApplies np t
      \<and> list_ex (\<lambda>r. k8sRuleMatches (knNamespace np) r t) (if trDirection t = ''IN'' then knIngress np else knEgress np)"
    and "sectionHit addrIn d t \<longleftrightarrow> k8sApplies np t"
proof -
  obtain ins outs drops where s: "spRules a = ins @ outs" "spRules d = drops" "spNamespace a = knNamespace np" "spNamespace d = knNamespace np"
    "spAppliedTo a = [\<lparr>tgPod = Some (knPodSelector np), tgVM = None\<rparr>]" "spAppliedTo d = [\<lparr>tgPod = Some (knPodSelector np), tgVM = None\<rparr>]"
    and m: "map_res (allowRule ''In'' (\<lambda>ps r. r\<lparr>rlFrom := ps\<rparr>)) (knIngress np) = Inr ins"
    "map_res (allowRule ''Out'' (\<lambda>ps r. r\<lparr>rlTo := ps\<rparr>)) (knEgress np) = Inr outs"
    "map_res isolationRule (knPolicyTypes np) = Inr drops"
    by (rule converted_sections [OF assms(1)]) auto
  have v: "list_all valid_rule (knIngress np)" "list_all valid_rule (knEgress np)" using assms(2) by (simp_all add: valid_policy_def)
  have ins: "(\<forall>r \<in> set ins. getRuleAction r = Inr ''ALLOW'')
      \<and> ((\<exists>r \<in> set ins. spRuleMatches addrIn ns r t) \<longleftrightarrow> trDirection t = ''IN'' \<and> list_ex (\<lambda>r. k8sRuleMatches ns r t) (knIngress np))" for ns
    using m(1) v(1) unfolding map_res_Inr_iff by (induction rule: list_all2_induct) (auto dest!: allow_in [of _ _ ns t])
  have outs: "(\<forall>r \<in> set outs. getRuleAction r = Inr ''ALLOW'')
      \<and> ((\<exists>r \<in> set outs. spRuleMatches addrIn ns r t) \<longleftrightarrow> trDirection t = ''OUT'' \<and> list_ex (\<lambda>r. k8sRuleMatches ns r t) (knEgress np))" for ns
    using m(2) v(2) unfolding map_res_Inr_iff by (induction rule: list_all2_induct) (auto dest!: allow_out [of _ _ ns t])
  have drops: "(\<forall>r \<in> set drops. getRuleAction r = Inr ''DROP'')
      \<and> ((\<exists>r \<in> set drops. spRuleMatches addrIn ns r t) \<longleftrightarrow>
           (if trDirection t = ''IN'' then ''Ingress'' else ''Egress'') \<in> set (knPolicyTypes np))" for ns
    using m(3) assms(3) unfolding map_res_Inr_iff by (induction rule: list_all2_induct) (auto dest!: isolation_rule [of _ _ ns t])
  show "\<forall>r \<in> set (spRules a). getRuleAction r = Inr ''ALLOW''" "\<forall>r \<in> set (spRules d). getRuleAction r = Inr ''DROP''"
    using ins outs drops s(1,2) by auto
  have typed: "list_ex (\<lambda>r. k8sRuleMatches ns r t) (if trDirection t = ''IN'' then knIngress np else knEgress np)
      \<Longrightarrow> (if trDirection t = ''IN'' then ''Ingress'' else ''Egress'') \<in> set (knPolicyTypes np)" for ns
    using assms(2) by (auto simp: valid_policy_def split: if_splits)
  have "sectionHit addrIn a t \<longleftrightarrow> trNamespace t = knNamespace np \<and> labelsSelect (trLabels t) (knPodSelector np)
      \<and> list_ex (\<lambda>r. k8sRuleMatches (knNamespace np) r t) (if trDirection t = ''IN'' then knIngress np else knEgress np)"
    using ins [of "knNamespace np"] outs [of "knNamespace np"] s assms(3) by (auto simp: sectionHit_def spApplies_def bex_Un)
  then show "sectionHit addrIn a t \<longleftrightarrow> k8sApplies np t
      \<and> list_ex (\<lambda>r. k8sRuleMatches (knNamespace np) r t) (if trDirection t = ''IN'' then knIngress np else knEgress np)"
    using typed [of "knNamespace np"] by (auto simp: k8sApplies_def)
  show "sectionHit addrIn d t \<longleftrightarrow> k8sApplies np t"
    using drops [of "knNamespace np"] s by (auto simp: sectionHit_def spApplies_def k8sApplies_def)
qed

end

lemma converted_pair:
  assumes "convertNetworkPolicyToInternalSecurityPolicies np = Inr sps"
  obtains a d where "sps = [a, d]" "spPriority a = 2010" "spPriority d = 2090"
  by (rule converted_sections [OF assms]) auto

lemma converted_priorities:
  "convertNetworkPolicyToInternalSecurityPolicies np = Inr [a, d] \<Longrightarrow> spPriority a = 2010 \<and> spPriority d = 2090"
  by (erule converted_pair) auto

lemma map_res_dom:
  assumes "map_res f xs = Inr ys" "x \<in> set xs"
  shows "\<exists>y. f x = Inr y"
  using assms unfolding map_res_Inr_iff by (induction rule: list_all2_induct) auto

text \<open>The sections with a priority are those of one kind of the policies.\<close>

lemma converted_members:
  assumes "map_res convertNetworkPolicyToInternalSecurityPolicies nps = Inr sss"
  shows "sp \<in> set (concat sss) \<longleftrightarrow> (\<exists>np \<in> set nps. \<exists>a d. convertNetworkPolicyToInternalSecurityPolicies np = Inr [a, d] \<and> sp \<in> {a, d})"
  using assms unfolding map_res_Inr_iff
proof (induction rule: list_all2_induct)
  case (Cons np nps sps sss)
  obtain a d where "sps = [a, d]" using converted_pair [OF Cons(1)] by blast
  with Cons show ?case by auto
qed simp

section \<open>Properties\<close>


definition webPolicy :: network_policy where
  "webPolicy = \<lparr>knName = ''web'', knNamespace = ''ns1'', knUID = ''uid1'',
     knPodSelector = \<lparr>matchLabels = [(''app'', ''web'')], matchExpressions = []\<rparr>,
     knIngress = [\<lparr>krPeers = [\<lparr>kpPod = None, kpNamespace = None,
         kpIPBlock = Some \<lparr>ibCIDR = ''10.0.0.0/24'', ibExcept = Some [''10.0.0.16/28'']\<rparr>\<rparr>],
       krPorts = [\<lparr>ktProtocol = Some ''TCP'', ktPort = Some (IntPort 80), ktEndPort = Some 90\<rparr>]\<rparr>],
     knEgress = [], knPolicyTypes = [''Ingress'']\<rparr>"

definition denyEgress :: network_policy where
  "denyEgress = webPolicy\<lparr>knName := ''deny'', knUID := ''uid2'', knIngress := [], knPolicyTypes := [''Egress'']\<rparr>"

definition webTraffic :: "string \<Rightarrow> IP \<Rightarrow> int \<Rightarrow> traffic" where
  "webTraffic d a p = \<lparr>trDirection = d, trNamespace = ''ns1'', trLabels = [''app'' \<mapsto> ''web''], trPeerPod = None, trPeerAddr = a,
     trProtocol = ''TCP'', trPort = p, trPortNames = []\<rparr>"


definition untypedEgress :: network_policy where
  "untypedEgress = webPolicy\<lparr>knUID := ''uid3'', knIngress := [], knEgress := [\<lparr>krPeers = [], krPorts = []\<rparr>]\<rparr>"

definition sectionOf :: "nat \<Rightarrow> network_policy \<Rightarrow> sp_policy" where
  "sectionOf i np = projr (convertNetworkPolicyToInternalSecurityPolicies np) ! i"

text \<open>Defect: rules are added to the allow section whatever the policy types are. The egress rules of a policy that is only of type Ingress
  have no effect in Kubernetes, but the converted section lets their traffic pass although another policy isolates the Pod.\<close>

theorem untyped_egress_rules_allow:
  "knPolicyTypes untypedEgress = [''Ingress''] \<and> \<not> k8sAllowed [untypedEgress, denyEgress] (webTraffic ''OUT'' [10, 0, 0, 5] 85)
   \<and> (\<exists>sps. map_res convertNetworkPolicyToInternalSecurityPolicies [untypedEgress, denyEgress] = Inr sps
     \<and> \<not> (\<exists>secs. set secs = set (concat sps) \<and> sorted (map spPriority secs)
          \<and> \<not> spAllowed nsxAddrIn secs (webTraffic ''OUT'' [10, 0, 0, 5] 85)))"
proof -
  let ?t = "webTraffic ''OUT'' [10, 0, 0, 5] 85"
  let ?sps = "[[sectionOf 0 untypedEgress, sectionOf 1 untypedEgress], [sectionOf 0 denyEgress, sectionOf 1 denyEgress]]"
  have conv: "map_res convertNetworkPolicyToInternalSecurityPolicies [untypedEgress, denyEgress] = Inr ?sps" by code_simp
  have prio: "map spPriority (concat ?sps) = [2010, 2090, 2010, 2090]" by code_simp
  have acts: "list_all (\<lambda>sp. list_all (\<lambda>r. getRuleAction r = Inr (if spPriority sp = 2010 then ''ALLOW'' else ''DROP'')) (spRules sp)) (concat ?sps)"
    by code_simp
  have hit: "sectionHit nsxAddrIn (sectionOf 0 untypedEgress) ?t" by code_simp
  have "spAllowed nsxAddrIn secs ?t" if secs: "set secs = set (concat ?sps)" "sorted (map spPriority secs)" for secs
  proof -
    let ?as = "filter (\<lambda>sp. spPriority sp = 2010) secs" and ?ds = "filter (\<lambda>sp. spPriority sp = 2090) secs"
    have split: "secs = ?as @ ?ds" by (rule split_by_priority [OF secs(2)]) (use secs(1) prio in auto)
    have a: "\<forall>sp \<in> set ?as. \<forall>r \<in> set (spRules sp). getRuleAction r = Inr ''ALLOW''"
      using acts secs(1) by (auto simp: list_all_iff simp del: concat.simps)
    have d: "\<forall>sp \<in> set ?ds. \<forall>r \<in> set (spRules sp). getRuleAction r = Inr ''DROP''"
      using acts secs(1) by (auto simp: list_all_iff simp del: concat.simps)
    have "sectionOf 0 untypedEgress \<in> set ?as" using secs(1) prio by simp
    with hit have "\<exists>sp \<in> set ?as. sectionHit nsxAddrIn sp ?t" by blast
    then have "spAllowed nsxAddrIn (?as @ ?ds) ?t" using spAllowed_split [OF a d] by blast
    with split show ?thesis by simp
  qed
  moreover have "knPolicyTypes untypedEgress = [''Ingress'']" "\<not> k8sAllowed [untypedEgress, denyEgress] ?t" by code_simp+
  ultimately show ?thesis using conv by blast
qed

end
