(* ===== verification/Firewall.thy ===== *)
theory Firewall
  imports NetworkPolicy RealizeState
begin

text \<open>
  The security policy service: its stores (\<open>pkg/nsx/services/securitypolicy/store.go\<close>), the comparison of built with stored objects
  (\<open>compare.go\<close>), the hierarchical bodies it sends (\<open>wrap.go\<close>) and the creation, update and deletion of policies
  (\<open>firewall.go\<close>). The state has the seven stores of the service and the state of NSX, on which the API clients act. The indexers, the API
  clients, the converter of the SDK, the encoders of compared values and the VPC service are parameters. A stored object has a
  body, the path NSX gave it and its deletion mark; the rules of a policy are handed beside it, since the store of policies does not
  use them.
\<close>

section \<open>Stored objects\<close>

record 'a nsx_object =
  obBody :: 'a
  obPath :: "string option"
  obMarked :: "bool option"

type_synonym policy_obj = "nsx_policy nsx_object"
type_synonym rule_obj = "nsx_rule nsx_object"
type_synonym group_obj = "nsx_group nsx_object"
type_synonym share_obj = "nsx_share nsx_object"

definition fresh :: "'a \<Rightarrow> 'a nsx_object" where
  "fresh b = \<lparr>obBody = b, obPath = None, obMarked = None\<rparr>"

definition marked :: "'a nsx_object \<Rightarrow> 'a nsx_object" where
  "marked ob = ob\<lparr>obMarked := Some True\<rparr>"

section \<open>The stores\<close>

definition policyKey :: "policy_obj \<Rightarrow> string" where "policyKey p = npId (obBody p)"
definition ruleKey :: "rule_obj \<Rightarrow> string" where "ruleKey r = nrId (obBody r)"
definition groupKey :: "group_obj \<Rightarrow> string" where "groupKey g = ngId (obBody g)"
definition shareKey :: "share_obj \<Rightarrow> string" where "shareKey s = nsId (obBody s)"

text \<open>A nil scope or value of a tag is dereferenced.\<close>

definition filterTag :: "nsx_tag list \<Rightarrow> string \<Rightarrow> string list" where
  "filterTag tags scope = map (\<lambda>t. the (snd t)) (filter (\<lambda>t. the (fst t) = scope) tags)"

definition filterRuleTag :: "nsx_tag list \<Rightarrow> string list" where
  "filterRuleTag tags = filterTag tags ''nsx-op/rule_id''"

text \<open>The loop of \<open>filterRuleHash\<close> stops at the first tag after which both the owner and the hash are known.\<close>

fun filterRuleHash :: "nsx_tag list \<Rightarrow> string \<Rightarrow> string \<Rightarrow> string \<Rightarrow> string list" where
  "filterRuleHash [] scope uid hash = []"
| "filterRuleHash ((Some s, Some v) # tags) scope uid hash =
    (let uid' = (if s = scope then v else uid);
         hash' = (if s \<noteq> scope \<and> s = ''nsx-op/rule_hash'' then v else hash) in
     if uid' \<noteq> [] \<and> hash' \<noteq> [] then [uid' @ '':'' @ hash'] else filterRuleHash tags scope uid' hash')"
| "filterRuleHash (_ # tags) scope uid hash = filterRuleHash tags scope uid hash"

text \<open>The indexers that \<open>setUpStore\<close> gives to the stores, by name; \<open>indexScope\<close> is the scope of the owner's UID of this service.\<close>

definition ownerIndex :: "string \<Rightarrow> string \<Rightarrow> nsx_tag list \<Rightarrow> string list" where
  "ownerIndex indexScope name tags =
    (if name = indexScope then filterTag tags indexScope
     else if name = ''nsx-op/network_policy_uid'' then filterTag tags ''nsx-op/network_policy_uid'' else [])"

definition policyIndexers :: "string \<Rightarrow> string \<Rightarrow> policy_obj \<Rightarrow> string list" where
  "policyIndexers indexScope name p =
    (if name = ''nsx-op/namespace'' then filterTag (npTags (obBody p)) ''nsx-op/namespace'' else ownerIndex indexScope name (npTags (obBody p)))"

definition ruleIndexers :: "string \<Rightarrow> string \<Rightarrow> rule_obj \<Rightarrow> string list" where
  "ruleIndexers indexScope name r =
    (let tags = nrTags (obBody r) in
     if name = ''SPIndexByUUIDRuleHash'' then filterRuleHash tags indexScope [] []
     else if name = ''NPIndexByUUIDRuleHash'' then filterRuleHash tags ''nsx-op/network_policy_uid'' [] []
     else if name = ''nsx-op/rule_id'' then filterRuleTag tags
     else ownerIndex indexScope name tags)"

definition groupIndexers :: "string \<Rightarrow> string \<Rightarrow> group_obj \<Rightarrow> string list" where
  "groupIndexers indexScope name g =
    (if name = ''nsx-op/rule_id'' then filterRuleTag (ngTags (obBody g)) else ownerIndex indexScope name (ngTags (obBody g)))"

definition shareIndexers :: "string \<Rightarrow> string \<Rightarrow> share_obj \<Rightarrow> string list" where
  "shareIndexers indexScope name s = ownerIndex indexScope name (nsTags (obBody s))"

record ('p, 'r, 'g, 'h) fw_ops =
  foPolicy :: "('p, policy_obj) indexer_ops"
  foRule :: "('r, rule_obj) indexer_ops"
  foGroup :: "('g, group_obj) indexer_ops"
  foShare :: "('h, share_obj) indexer_ops"

text \<open>The \<open>Apply\<close> of a store deletes an object that is marked for deletion and adds or replaces any other.\<close>

definition applyObject :: "('s, 'a nsx_object) indexer_ops \<Rightarrow> 's \<Rightarrow> 'a nsx_object \<Rightarrow> 's" where
  "applyObject ops s ob = (if obMarked ob = Some True then ixDelete ops s ob else ixAdd ops s ob)"

definition SecurityPolicyStore_Apply :: "('p, policy_obj) indexer_ops \<Rightarrow> 'p \<Rightarrow> policy_obj \<Rightarrow> 'p" where
  "SecurityPolicyStore_Apply = applyObject"

definition RuleStore_Apply :: "('r, rule_obj) indexer_ops \<Rightarrow> 'r \<Rightarrow> rule_obj list \<Rightarrow> 'r" where
  "RuleStore_Apply ops = foldl (applyObject ops)"

definition GroupStore_Apply :: "('g, group_obj) indexer_ops \<Rightarrow> 'g \<Rightarrow> group_obj list \<Rightarrow> 'g" where
  "GroupStore_Apply ops = foldl (applyObject ops)"

definition ShareStore_Apply :: "('h, share_obj) indexer_ops \<Rightarrow> 'h \<Rightarrow> share_obj list \<Rightarrow> 'h" where
  "ShareStore_Apply ops = foldl (applyObject ops)"

section \<open>Comparison\<close>

text \<open>What is compared of the objects. The value of a group has its id in place of its display name.\<close>

definition policy_Value :: "policy_obj \<Rightarrow> nsx_policy" where
  "policy_Value p = (obBody p)\<lparr>npRules := []\<rparr>"

definition rule_Value :: "rule_obj \<Rightarrow> nsx_rule" where
  "rule_Value r = obBody r"

definition group_Value :: "group_obj \<Rightarrow> nsx_group" where
  "group_Value g = (obBody g)\<lparr>ngDisplayName := ngId (obBody g), ngPath := None\<rparr>"

definition share_Value :: "share_obj \<Rightarrow> nsx_share" where
  "share_Value s = (obBody s)\<lparr>nsAllDescendants := False\<rparr>"

text \<open>Stale objects are marked for deletion and come before the changed ones.\<close>

definition getUpdate ::
  "((string \<times> 'a nsx_object) list \<Rightarrow> (string \<times> 'a nsx_object) list) \<Rightarrow> ('a nsx_object \<Rightarrow> string) \<Rightarrow> ('a nsx_object \<Rightarrow> 'v) \<Rightarrow> ('v \<Rightarrow> 'e)
    \<Rightarrow> 'a nsx_object list \<Rightarrow> 'a nsx_object list \<Rightarrow> 'a nsx_object list" where
  "getUpdate ord key val enc existing expected =
    (case CompareResources ord key val enc existing expected of (changed, stale) \<Rightarrow> map marked stale @ changed)"

definition getMarkDelete :: "'a nsx_object list \<Rightarrow> 'a nsx_object list" where
  "getMarkDelete existing = map marked existing"

definition getStaleUpdate :: "'a nsx_object list \<Rightarrow> 'a nsx_object list \<times> 'a nsx_object list" where
  "getStaleUpdate obs = (filter (\<lambda>ob. obMarked ob = Some True) (rev obs), filter (\<lambda>ob. obMarked ob \<noteq> Some True) (rev obs))"

section \<open>Hierarchical bodies\<close>

text \<open>The children that the SDK converts into data values: an object with its deletion mark (for a policy with its rules, converted before), or
  a reference of a target type with an id and children.\<close>

datatype 'd fw_child =
    ChildRule nsx_rule "bool option"
  | ChildGroup nsx_group "bool option"
  | ChildShare nsx_share "bool option"
  | ChildSecurityPolicy nsx_policy "bool option" "'d list"
  | ChildReference "string option" string "'d list"

type_synonym 'd to_vapi = "'d fw_child \<Rightarrow> gerror + 'd"

definition wrapRules :: "'d to_vapi \<Rightarrow> rule_obj list \<Rightarrow> gerror + 'd list" where
  "wrapRules conv rules = map_res (\<lambda>r. conv (ChildRule (obBody r) (obMarked r))) rules"

definition wrapGroups :: "'d to_vapi \<Rightarrow> group_obj list \<Rightarrow> gerror + 'd list" where
  "wrapGroups conv groups = map_res (\<lambda>g. conv (ChildGroup (obBody g) (obMarked g))) groups"

definition wrapShares :: "'d to_vapi \<Rightarrow> share_obj list \<Rightarrow> gerror + 'd list" where
  "wrapShares conv shares = map_res (\<lambda>s. conv (ChildShare (obBody s) (obMarked s))) shares"

definition wrapSecurityPolicy :: "'d to_vapi \<Rightarrow> policy_obj \<Rightarrow> 'd list \<Rightarrow> gerror + 'd list" where
  "wrapSecurityPolicy conv sp ruleChildren =
    bind_res (conv (ChildSecurityPolicy ((obBody sp)\<lparr>npRules := []\<rparr>) (obMarked sp) ruleChildren)) (\<lambda>d. Inr [d])"

definition wrapReference :: "'d to_vapi \<Rightarrow> string option \<Rightarrow> string \<Rightarrow> 'd list \<Rightarrow> gerror + 'd list" where
  "wrapReference conv i targetType children = bind_res (conv (ChildReference i targetType children)) (\<lambda>d. Inr [d])"

definition wrapDomainResource :: "'d to_vapi \<Rightarrow> 'd list \<Rightarrow> string \<Rightarrow> gerror + 'd list" where
  "wrapDomainResource conv children domainId = wrapReference conv (Some domainId) ''Domain'' children"

definition wrapChildTargetInfra :: "'d to_vapi \<Rightarrow> 'd list \<Rightarrow> gerror + 'd list" where
  "wrapChildTargetInfra conv children = wrapReference conv None ''Infra'' children"

text \<open>An infra body and an org root are given by their children.\<close>

definition WrapHierarchySecurityPolicy :: "'d to_vapi \<Rightarrow> string \<Rightarrow> policy_obj \<Rightarrow> rule_obj list \<Rightarrow> group_obj list \<Rightarrow> gerror + 'd list" where
  "WrapHierarchySecurityPolicy conv domainId sp rules gs =
    bind_res (wrapRules conv rules) (\<lambda>rs.
    bind_res (wrapSecurityPolicy conv sp rs) (\<lambda>ps.
    bind_res (wrapGroups conv gs) (\<lambda>groups.
      wrapDomainResource conv (ps @ groups) domainId)))"

definition wrapVPC :: "'d to_vapi \<Rightarrow> (policy_obj \<times> rule_obj list) option \<Rightarrow> group_obj list \<Rightarrow> string \<Rightarrow> gerror + 'd list" where
  "wrapVPC conv sp vpcGroups vpcID =
    bind_res (case sp of None \<Rightarrow> Inr [] | Some (p, rules) \<Rightarrow> bind_res (wrapRules conv rules) (wrapSecurityPolicy conv p)) (\<lambda>ps.
    bind_res (wrapGroups conv vpcGroups) (\<lambda>gs.
      wrapReference conv (Some vpcID) ''Vpc'' (ps @ gs)))"

definition wrapProject ::
  "'d to_vapi \<Rightarrow> (policy_obj \<times> rule_obj list) option \<Rightarrow> group_obj list \<Rightarrow> 'd list \<Rightarrow> string \<Rightarrow> string \<Rightarrow> gerror + 'd list" where
  "wrapProject conv sp vpcGroups projectInfraChildren projectID vpcID =
    bind_res (wrapVPC conv sp vpcGroups vpcID) (\<lambda>vpcChildren.
      wrapReference conv (Some projectID) ''Project'' (projectInfraChildren @ vpcChildren))"

definition wrapOrg ::
  "'d to_vapi \<Rightarrow> (policy_obj \<times> rule_obj list) option \<Rightarrow> group_obj list \<Rightarrow> 'd list \<Rightarrow> string \<Rightarrow> string \<Rightarrow> string \<Rightarrow> gerror + 'd list" where
  "wrapOrg conv sp vpcGroups projectInfraChildren orgID projectID vpcID =
    bind_res (wrapProject conv sp vpcGroups projectInfraChildren projectID vpcID) (wrapReference conv (Some orgID) ''Org'')"

definition wrapHierarchyVpcSecurityPolicy ::
  "'d to_vapi \<Rightarrow> (policy_obj \<times> rule_obj list) option \<Rightarrow> group_obj list \<Rightarrow> 'd list \<Rightarrow> vpc_resource_info \<Rightarrow> gerror + 'd list" where
  "wrapHierarchyVpcSecurityPolicy conv sp vpcGroups projectInfraChildren v =
    wrapOrg conv sp vpcGroups projectInfraChildren (OrgID v) (ProjectID v) (VPCID v)"

definition wrapSharedChildren :: "'d to_vapi \<Rightarrow> share_obj list \<Rightarrow> group_obj list \<Rightarrow> gerror + 'd list" where
  "wrapSharedChildren conv shares groups =
    bind_res (wrapShares conv shares) (\<lambda>shs.
    bind_res (wrapGroups conv groups) (\<lambda>gs.
    bind_res (wrapDomainResource conv gs ''default'') (\<lambda>ds. Inr (shs @ ds))))"

definition wrapHierarchyProjectResources :: "'d to_vapi \<Rightarrow> share_obj list \<Rightarrow> group_obj list \<Rightarrow> gerror + 'd list" where
  "wrapHierarchyProjectResources conv shares groups =
    bind_res (wrapSharedChildren conv shares groups) (wrapChildTargetInfra conv)"

definition wrapHierarchyInfraResources :: "'d to_vapi \<Rightarrow> share_obj list \<Rightarrow> group_obj list \<Rightarrow> gerror + 'd list" where
  "wrapHierarchyInfraResources conv shares groups = wrapSharedChildren conv shares groups"

section \<open>State and parameters of the service\<close>

record ('w, 'p, 'r, 'g, 'h) fw_state =
  fwNSX :: 'w
  fwPolicies :: 'p
  fwRules :: 'r
  fwGroups :: 'g
  fwInfraGroups :: 'g
  fwInfraShares :: 'h
  fwProjectGroups :: 'g
  fwProjectShares :: 'h

datatype fw_error = BuildFailed sp_error | CallFailed go_error | FwFailed gerror | FwPanic

text \<open>The parameters: the service and what its builder uses, the indexers, the converter of the SDK, the PATCH clients of infra and of the org root, the
  clients of policies (of a VPC by org, project, VPC and id, or of a domain), of groups and of realized entities, the API error
  converter, the VPC service, the orders of the compared maps, the encoders of the compared values and the license.\<close>

record ('w, 'p, 'r, 'g, 'h, 'd, 'e) fw_env =
  feSp :: sp_env
  feOps :: "('p, 'r, 'g, 'h) fw_ops"
  feConv :: "'d to_vapi"
  fePatchInfra :: "'d list \<Rightarrow> 'w \<Rightarrow> go_error option \<times> 'w"
  fePatchOrgRoot :: "'d list \<Rightarrow> 'w \<Rightarrow> go_error option \<times> 'w"
  feGetVpcPolicy :: "string \<Rightarrow> string \<Rightarrow> string \<Rightarrow> string \<Rightarrow> 'w \<Rightarrow> (go_error + policy_obj) \<times> 'w"
  feGetPolicy :: "string \<Rightarrow> string \<Rightarrow> 'w \<Rightarrow> (go_error + policy_obj) \<times> 'w"
  feDeleteVpcPolicy :: "string \<Rightarrow> string \<Rightarrow> string \<Rightarrow> string \<Rightarrow> 'w \<Rightarrow> go_error option \<times> 'w"
  fePatchVpcGroup :: "string \<Rightarrow> string \<Rightarrow> string \<Rightarrow> group_obj \<Rightarrow> 'w \<Rightarrow> go_error option \<times> 'w"
  fePatchGroup :: "string \<Rightarrow> group_obj \<Rightarrow> 'w \<Rightarrow> go_error option \<times> 'w"
  feEntities :: "'w entity_client"
  feApi :: converter
  feListVPCInfo :: "string \<Rightarrow> vpc_resource_info list"
  feIsDefaultProject :: "string \<Rightarrow> string \<Rightarrow> gerror + bool"
  feRuleOrder :: "(string \<times> rule_obj) list \<Rightarrow> (string \<times> rule_obj) list"
  feGroupOrder :: "(string \<times> group_obj) list \<Rightarrow> (string \<times> group_obj) list"
  feShareOrder :: "(string \<times> share_obj) list \<Rightarrow> (string \<times> share_obj) list"
  fePolicyEnc :: "nsx_policy \<Rightarrow> 'e"
  feRuleEnc :: "nsx_rule \<Rightarrow> 'e"
  feGroupEnc :: "nsx_group \<Rightarrow> 'e"
  feShareEnc :: "nsx_share \<Rightarrow> 'e"
  feDFWLicense :: bool

text \<open>The builder sees what the stores hold.\<close>

definition builderEnv :: "('w, 'p, 'r, 'g, 'h, 'd, 'e) fw_env \<Rightarrow> ('w, 'p, 'r, 'g, 'h) fw_state \<Rightarrow> sp_env" where
  "builderEnv env st = (feSp env)
    \<lparr>evPolicies := map obBody (ixList (foPolicy (feOps env)) (fwPolicies st)), evRules := map obBody (ixList (foRule (feOps env)) (fwRules st)),
     evGroups := map obBody (ixList (foGroup (feOps env)) (fwGroups st)), evInfraGroups := map obBody (ixList (foGroup (feOps env)) (fwInfraGroups st)),
     evProjectGroups := map obBody (ixList (foGroup (feOps env)) (fwProjectGroups st))\<rparr>"

definition ownerScope :: "('w, 'p, 'r, 'g, 'h, 'd, 'e) fw_env \<Rightarrow> string \<Rightarrow> string" where
  "ownerScope env createdFor =
    (if createdFor = ''NetworkPolicy'' then ''nsx-op/network_policy_uid'' else securityPolicyUIDTagScope (evService (feSp env)))"

definition getUpdateRules :: "('w, 'p, 'r, 'g, 'h, 'd, 'e) fw_env \<Rightarrow> rule_obj list \<Rightarrow> rule_obj list \<Rightarrow> rule_obj list" where
  "getUpdateRules env = getUpdate (feRuleOrder env) ruleKey rule_Value (feRuleEnc env)"

definition getUpdateGroups :: "('w, 'p, 'r, 'g, 'h, 'd, 'e) fw_env \<Rightarrow> group_obj list \<Rightarrow> group_obj list \<Rightarrow> group_obj list" where
  "getUpdateGroups env = getUpdate (feGroupOrder env) groupKey group_Value (feGroupEnc env)"

definition getUpdateShares :: "('w, 'p, 'r, 'g, 'h, 'd, 'e) fw_env \<Rightarrow> share_obj list \<Rightarrow> share_obj list \<Rightarrow> share_obj list" where
  "getUpdateShares env = getUpdate (feShareOrder env) shareKey share_Value (feShareEnc env)"

section \<open>The resources of a policy\<close>

definition getFinalVPCShareResources ::
  "('w, 'p, 'r, 'g, 'h, 'd, 'e) fw_env \<Rightarrow> ('w, 'p, 'r, 'g, 'h) fw_state \<Rightarrow> string \<Rightarrow> string \<Rightarrow> group_share list \<Rightarrow> bool \<Rightarrow> share_obj list \<times> group_obj list" where
  "getFinalVPCShareResources env st uid indexScope groupShares isDefaultProject =
    (let shareGroups = map (fresh \<circ> fst) (rev groupShares);
         shares = map (fresh \<circ> snd) (rev groupShares);
         (groupStore, shareStore) = (if isDefaultProject then (fwInfraGroups st, fwInfraShares st) else (fwProjectGroups st, fwProjectShares st)) in
     (getUpdateShares env (GetByIndex (foShare (feOps env)) shareStore indexScope uid) shares,
      getUpdateGroups env (GetByIndex (foGroup (feOps env)) groupStore indexScope uid) shareGroups))"

text \<open>The final policy is the stored one when nothing that is compared has changed.\<close>

definition getFinalSecurityPolicyResource ::
  "('w, 'p, 'r, 'g, 'h, 'd, 'e) fw_env \<Rightarrow> ('w, 'p, 'r, 'g, 'h) fw_state \<Rightarrow> sp_policy \<Rightarrow> string \<Rightarrow> vpc_resource_info option \<Rightarrow> bool \<Rightarrow>
   fw_error + policy_obj \<times> rule_obj list \<times> group_obj list \<times> share_obj list \<times> group_obj list \<times> bool" where
  "getFinalSecurityPolicyResource env st obj0 createdFor vpcInfo isDefaultProject =
    (let obj = normalizeSecurityPolicyRules obj0 in
     case buildSecurityPolicy (builderEnv env st) obj createdFor vpcInfo isDefaultProject of
       Inl e \<Rightarrow> Inl (BuildFailed e)
     | Inr (built, groups, groupShares) \<Rightarrow>
        (let scope = ownerScope env createdFor; uid = spUID obj; ops = feOps env;
             (isChanged, final) = (case GetByIndex (foPolicy ops) (fwPolicies st) scope uid of
                [] \<Rightarrow> (True, fresh built)
              | e # _ \<Rightarrow> if CompareResource (fePolicyEnc env) policy_Value e (fresh built) then (True, fresh built) else (False, e));
             rules = getUpdateRules env (GetByIndex (foRule ops) (fwRules st) scope uid) (map fresh (npRules built));
             finalGroups = getUpdateGroups env (GetByIndex (foGroup ops) (fwGroups st) scope uid) (map fresh groups);
             (shares, shareGroups) = (if svVPC (evService (feSp env)) then getFinalVPCShareResources env st uid scope groupShares isDefaultProject else ([], [])) in
         Inr (final, rules, finalGroups, shares, shareGroups, isChanged)))"

section \<open>Writing a policy to NSX\<close>

definition apiFailed :: "('w, 'p, 'r, 'g, 'h, 'd, 'e) fw_env \<Rightarrow> go_error \<Rightarrow> fw_error" where
  "apiFailed env e = CallFailed (the (TransNSXApiError (feApi env) (Some e)))"

text \<open>A call after a wrapped body, and the continuation after a call without an error.\<close>

definition sendBody ::
  "('w, 'p, 'r, 'g, 'h, 'd, 'e) fw_env \<Rightarrow> gerror + 'd list \<Rightarrow> ('d list \<Rightarrow> 'w \<Rightarrow> go_error option \<times> 'w) \<Rightarrow> 'w \<Rightarrow> fw_error option \<times> 'w" where
  "sendBody env body patch w =
    (case body of
       Inl err \<Rightarrow> (Some (FwFailed err), w)
     | Inr ds \<Rightarrow> (case patch ds w of (None, w') \<Rightarrow> (None, w') | (Some e, w') \<Rightarrow> (Some (apiFailed env e), w')))"

fun thenCall :: "fw_error option \<times> 'w \<Rightarrow> ('w \<Rightarrow> (fw_error + 'a) \<times> 'w) \<Rightarrow> (fw_error + 'a) \<times> 'w" where
  "thenCall (None, w) f = f w"
| "thenCall (Some e, w) f = (Inl e, w)"

definition checkSecurityPolicyRealizationState :: "('w, 'p, 'r, 'g, 'h, 'd, 'e) fw_env \<Rightarrow> string \<Rightarrow> 'w \<Rightarrow> fw_error option \<times> 'w" where
  "checkSecurityPolicyRealizationState env path w =
    (case CheckRealizeState (feApi env) (feEntities env) NSXTRealizeRetrySteps path [] w of
       (None, w') \<Rightarrow> (None, w') | (Some e, w') \<Rightarrow> (Some (CallFailed e), w'))"

text \<open>The policy as NSX returns it, once it is realized; a nil path is dereferenced.\<close>

definition getRealizedPolicy :: "('w, 'p, 'r, 'g, 'h, 'd, 'e) fw_env \<Rightarrow> string \<Rightarrow> vpc_resource_info \<Rightarrow> 'w \<Rightarrow> (fw_error + policy_obj) \<times> 'w" where
  "getRealizedPolicy env i v w =
    (case feGetVpcPolicy env (OrgID v) (ProjectID v) (VPCID v) i w of
       (Inl e, w') \<Rightarrow> (Inl (apiFailed env e), w')
     | (Inr p, w') \<Rightarrow>
         (case obPath p of
            None \<Rightarrow> (Inl FwPanic, w')
          | Some path \<Rightarrow> thenCall (checkSecurityPolicyRealizationState env path w') (\<lambda>w''. (Inr p, w''))))"

definition createOrUpdateNSXSecurityPolicy ::
  "('w, 'p, 'r, 'g, 'h, 'd, 'e) fw_env \<Rightarrow> policy_obj \<Rightarrow> rule_obj list \<Rightarrow> group_obj list \<Rightarrow> share_obj list \<Rightarrow> group_obj list \<Rightarrow> vpc_resource_info \<Rightarrow> 'w \<Rightarrow>
   (fw_error + policy_obj) \<times> 'w" where
  "createOrUpdateNSXSecurityPolicy env sp rules groups shares shareGroups v w =
    (let body = bind_res (if shares \<noteq> [] then wrapHierarchyProjectResources (feConv env) shares shareGroups else Inr []) (\<lambda>projectInfra.
           wrapHierarchyVpcSecurityPolicy (feConv env) (Some (sp, rules)) groups projectInfra v) in
     thenCall (sendBody env body (fePatchOrgRoot env) w) (getRealizedPolicy env (npId (obBody sp)) v))"

text \<open>In the default project, changed infra groups and shares are written before the policy that refers to them, stale ones are deleted after it.\<close>

definition createOrUpdateNSXSecurityPolicyForDefaultProject ::
  "('w, 'p, 'r, 'g, 'h, 'd, 'e) fw_env \<Rightarrow> policy_obj \<Rightarrow> rule_obj list \<Rightarrow> group_obj list \<Rightarrow> share_obj list \<Rightarrow> group_obj list \<Rightarrow> vpc_resource_info \<Rightarrow> 'w \<Rightarrow>
   (fw_error + policy_obj) \<times> 'w" where
  "createOrUpdateNSXSecurityPolicyForDefaultProject env sp rules groups shares shareGroups v w =
    (let (staleShares, changedShares) = getStaleUpdate shares;
         (staleGroups, changedGroups) = getStaleUpdate shareGroups;
         infra = (\<lambda>shs gs w. if shs \<noteq> [] \<or> gs \<noteq> [] then sendBody env (wrapHierarchyInfraResources (feConv env) shs gs) (fePatchInfra env) w else (None, w)) in
     thenCall (infra changedShares changedGroups w) (\<lambda>w1.
     thenCall (sendBody env (wrapHierarchyVpcSecurityPolicy (feConv env) (Some (sp, rules)) groups [] v) (fePatchOrgRoot env) w1) (\<lambda>w2.
     thenCall (infra staleShares staleGroups w2) (getRealizedPolicy env (npId (obBody sp)) v))))"

section \<open>Keeping the stores\<close>

definition applySecurityPolicyStore ::
  "('p, 'r, 'g, 'h) fw_ops \<Rightarrow> policy_obj \<Rightarrow> rule_obj list \<Rightarrow> bool \<Rightarrow> ('w, 'p, 'r, 'g, 'h) fw_state \<Rightarrow> ('w, 'p, 'r, 'g, 'h) fw_state" where
  "applySecurityPolicyStore ops p rules isChanged st =
    st\<lparr>fwPolicies := (if isChanged then SecurityPolicyStore_Apply (foPolicy ops) (fwPolicies st) p else fwPolicies st),
       fwRules := RuleStore_Apply (foRule ops) (fwRules st) rules\<rparr>"

definition applyVPCGroupShareStore ::
  "('p, 'r, 'g, 'h) fw_ops \<Rightarrow> group_obj list \<Rightarrow> share_obj list \<Rightarrow> group_obj list \<Rightarrow> bool \<Rightarrow> ('w, 'p, 'r, 'g, 'h) fw_state \<Rightarrow> ('w, 'p, 'r, 'g, 'h) fw_state" where
  "applyVPCGroupShareStore ops groups shares shareGroups isDefaultProject st =
    (let st1 = st\<lparr>fwGroups := GroupStore_Apply (foGroup ops) (fwGroups st) groups\<rparr> in
     if isDefaultProject
     then st1\<lparr>fwInfraGroups := GroupStore_Apply (foGroup ops) (fwInfraGroups st) shareGroups, fwInfraShares := ShareStore_Apply (foShare ops) (fwInfraShares st) shares\<rparr>
     else st1\<lparr>fwProjectGroups := GroupStore_Apply (foGroup ops) (fwProjectGroups st) shareGroups,
              fwProjectShares := ShareStore_Apply (foShare ops) (fwProjectShares st) shares\<rparr>)"

section \<open>Creating and updating\<close>

definition getVPCInfo :: "('w, 'p, 'r, 'g, 'h, 'd, 'e) fw_env \<Rightarrow> string \<Rightarrow> fw_error + vpc_resource_info" where
  "getVPCInfo env ns =
    (case feListVPCInfo env ns of [] \<Rightarrow> Inl (FwFailed (''there is no VPC info found for namespace '' @ ns)) | v # _ \<Rightarrow> Inr v)"

definition createOrUpdateVPCSecurityPolicy ::
  "('w, 'p, 'r, 'g, 'h, 'd, 'e) fw_env \<Rightarrow> ('w, 'p, 'r, 'g, 'h) fw_state \<Rightarrow> sp_policy \<Rightarrow> string \<Rightarrow> fw_error option \<times> ('w, 'p, 'r, 'g, 'h) fw_state" where
  "createOrUpdateVPCSecurityPolicy env st obj createdFor =
    (case bind_res (getVPCInfo env (spNamespace obj)) (\<lambda>v.
          bind_res (case feIsDefaultProject env (OrgID v) (ProjectID v) of Inl e \<Rightarrow> Inl (FwFailed e) | Inr b \<Rightarrow> Inr b) (\<lambda>isDefault.
          bind_res (getFinalSecurityPolicyResource env st obj createdFor (Some v) isDefault) (\<lambda>final. Inr (v, isDefault, final)))) of
       Inl e \<Rightarrow> (Some e, st)
     | Inr (v, isDefault, sp, rules, groups, shares, shareGroups, isChanged) \<Rightarrow>
        if \<not> isChanged \<and> rules = [] \<and> groups = [] \<and> shares = [] then (None, st)
        else
          (case (if isDefault then createOrUpdateNSXSecurityPolicyForDefaultProject else createOrUpdateNSXSecurityPolicy)
                  env sp rules groups shares shareGroups v (fwNSX st) of
             (Inl e, w) \<Rightarrow> (Some e, st\<lparr>fwNSX := w\<rparr>)
           | (Inr p, w) \<Rightarrow>
               (None, applyVPCGroupShareStore (feOps env) groups shares shareGroups isDefault
                 (applySecurityPolicyStore (feOps env) p rules isChanged (st\<lparr>fwNSX := w\<rparr>)))))"

definition createOrUpdateT1SecurityPolicy ::
  "('w, 'p, 'r, 'g, 'h, 'd, 'e) fw_env \<Rightarrow> ('w, 'p, 'r, 'g, 'h) fw_state \<Rightarrow> sp_policy \<Rightarrow> string \<Rightarrow> fw_error option \<times> ('w, 'p, 'r, 'g, 'h) fw_state" where
  "createOrUpdateT1SecurityPolicy env st obj createdFor =
    (case getFinalSecurityPolicyResource env st obj createdFor None False of
       Inl e \<Rightarrow> (Some e, st)
     | Inr (sp, rules, groups, _, _, isChanged) \<Rightarrow>
        if \<not> isChanged \<and> rules = [] \<and> groups = [] then (None, st)
        else
          (let domain = svCluster (evService (feSp env)) in
           case thenCall (sendBody env (WrapHierarchySecurityPolicy (feConv env) domain sp rules groups) (fePatchInfra env) (fwNSX st)) (\<lambda>w.
                  case feGetPolicy env domain (npId (obBody sp)) w of (Inl e, w') \<Rightarrow> (Inl (apiFailed env e), w') | (Inr p, w') \<Rightarrow> (Inr p, w')) of
             (Inl e, w) \<Rightarrow> (Some e, st\<lparr>fwNSX := w\<rparr>)
           | (Inr p, w) \<Rightarrow>
               (let st1 = applySecurityPolicyStore (feOps env) p rules isChanged (st\<lparr>fwNSX := w\<rparr>) in
                (None, st1\<lparr>fwGroups := GroupStore_Apply (foGroup (feOps env)) (fwGroups st1) groups\<rparr>))))"

datatype policy_obj_in = InNetworkPolicy network_policy | InSecurityPolicy sp_policy

text \<open>The sections of a NetworkPolicy are written one after the other until one fails.\<close>

fun createSections ::
  "('w, 'p, 'r, 'g, 'h, 'd, 'e) fw_env \<Rightarrow> sp_policy list \<Rightarrow> ('w, 'p, 'r, 'g, 'h) fw_state \<Rightarrow> fw_error option \<times> ('w, 'p, 'r, 'g, 'h) fw_state" where
  "createSections env [] st = (None, st)"
| "createSections env (sp # sps) st =
    (case createOrUpdateVPCSecurityPolicy env st sp ''NetworkPolicy'' of
       (Some e, st') \<Rightarrow> (Some e, st') | (None, st') \<Rightarrow> createSections env sps st')"

definition CreateOrUpdateSecurityPolicy ::
  "('w, 'p, 'r, 'g, 'h, 'd, 'e) fw_env \<Rightarrow> ('w, 'p, 'r, 'g, 'h) fw_state \<Rightarrow> policy_obj_in \<Rightarrow> fw_error option \<times> ('w, 'p, 'r, 'g, 'h) fw_state" where
  "CreateOrUpdateSecurityPolicy env st obj =
    (if \<not> feDFWLicense env then (Some (FwFailed ''no DFW license''), st)
     else case obj of
       InNetworkPolicy np \<Rightarrow>
         (case convertNetworkPolicyToInternalSecurityPolicies np of Inl e \<Rightarrow> (Some (FwFailed e), st) | Inr sps \<Rightarrow> createSections env sps st)
     | InSecurityPolicy sp \<Rightarrow>
         (if svVPC (evService (feSp env)) then createOrUpdateVPCSecurityPolicy env st sp ''SecurityPolicy''
          else createOrUpdateT1SecurityPolicy env st sp ''SecurityPolicy''))"

text \<open>Every group is written; the error of the last one decides whether the store is updated.\<close>

fun patchGroups ::
  "('w, 'p, 'r, 'g, 'h, 'd, 'e) fw_env \<Rightarrow> string \<Rightarrow> group_obj list \<Rightarrow> fw_error option \<Rightarrow> 'w \<Rightarrow> fw_error option \<times> bool \<times> 'w" where
  "patchGroups env ns [] err w = (err, True, w)"
| "patchGroups env ns (g # gs) err w =
    (let g' = g\<lparr>obMarked := None\<rparr>;
         step = (\<lambda>(e, w'). patchGroups env ns gs (case e of None \<Rightarrow> None | Some e \<Rightarrow> Some (apiFailed env e)) w') in
     if svVPC (evService (feSp env)) then
       (case getVPCInfo env ns of
          Inl e \<Rightarrow> (Some e, False, w)
        | Inr v \<Rightarrow> step (fePatchVpcGroup env (OrgID v) (ProjectID v) (VPCID v) g' w))
     else step (fePatchGroup env (svCluster (evService (feSp env))) g' w))"

definition createOrUpdateGroups ::
  "('w, 'p, 'r, 'g, 'h, 'd, 'e) fw_env \<Rightarrow> ('w, 'p, 'r, 'g, 'h) fw_state \<Rightarrow> string \<Rightarrow> group_obj list \<Rightarrow> fw_error option \<times> ('w, 'p, 'r, 'g, 'h) fw_state" where
  "createOrUpdateGroups env st ns groups =
    (case patchGroups env ns groups None (fwNSX st) of
       (Some e, _, w) \<Rightarrow> (Some e, st\<lparr>fwNSX := w\<rparr>)
     | (None, _, w) \<Rightarrow>
         (None, st\<lparr>fwNSX := w, fwGroups := GroupStore_Apply (foGroup (feOps env)) (fwGroups st) (map (\<lambda>g. g\<lparr>obMarked := None\<rparr>) groups)\<rparr>))"

section \<open>Deleting\<close>

definition noVPC :: vpc_resource_info where
  "noVPC = \<lparr>OrgID = [], ProjectID = [], VPCID = [], ResID = [], ParentID = []\<rparr>"

definition vpcOfPath :: "string \<Rightarrow> vpc_resource_info" where
  "vpcOfPath path = (case ParseVPCResourcePath path of Inr v \<Rightarrow> v | Inl _ \<Rightarrow> noVPC)"

record delete_set =
  dsPolicy :: "policy_obj option"
  dsRules :: "rule_obj list"
  dsGroups :: "group_obj list"
  dsInfraShares :: "share_obj list"
  dsInfraGroups :: "group_obj list"
  dsProjectShares :: "share_obj list"
  dsProjectGroups :: "group_obj list"
  dsVPC :: vpc_resource_info

text \<open>The objects of the owner are copied and marked; the stored policy itself is marked in place, which changes the store.\<close>

definition markSecurityPolicyResourcesDelete ::
  "('w, 'p, 'r, 'g, 'h, 'd, 'e) fw_env \<Rightarrow> ('w, 'p, 'r, 'g, 'h) fw_state \<Rightarrow> string \<Rightarrow> string \<Rightarrow> fw_error + delete_set \<times> ('w, 'p, 'r, 'g, 'h) fw_state" where
  "markSecurityPolicyResourcesDelete env st indexScope uid =
    (let ops = feOps env;
         groupsOf = (\<lambda>s. GetByIndex (foGroup ops) s indexScope uid);
         sharesOf = (\<lambda>s. GetByIndex (foShare ops) s indexScope uid);
         rest = (\<lambda>p v st'. Inr (\<lparr>dsPolicy = p, dsRules = getMarkDelete (GetByIndex (foRule ops) (fwRules st) indexScope uid),
             dsGroups = getMarkDelete (groupsOf (fwGroups st)), dsInfraShares = getMarkDelete (sharesOf (fwInfraShares st)),
             dsInfraGroups = getMarkDelete (groupsOf (fwInfraGroups st)), dsProjectShares = getMarkDelete (sharesOf (fwProjectShares st)),
             dsProjectGroups = getMarkDelete (groupsOf (fwProjectGroups st)), dsVPC = v\<rparr>, st')) in
     case GetByIndex (foPolicy ops) (fwPolicies st) indexScope uid of
       p # _ \<Rightarrow>
         (case obPath p of
            None \<Rightarrow> Inl (FwFailed ''nsxSecurityPolicy path is empty'')
          | Some path \<Rightarrow> rest (Some (marked p)) (vpcOfPath path) (st\<lparr>fwPolicies := ixAdd (foPolicy ops) (fwPolicies st) (marked p)\<rparr>))
     | [] \<Rightarrow> rest None (case List.find (\<lambda>g. ngPath (obBody g) \<noteq> None) (groupsOf (fwGroups st)) of
                 Some g \<Rightarrow> vpcOfPath (the (ngPath (obBody g))) | None \<Rightarrow> noVPC) st)"

definition deleteNSXSecurityPolicyGroupShare ::
  "('w, 'p, 'r, 'g, 'h, 'd, 'e) fw_env \<Rightarrow> group_obj list \<Rightarrow> share_obj list \<Rightarrow> group_obj list \<Rightarrow> vpc_resource_info \<Rightarrow> 'w \<Rightarrow> fw_error option \<times> 'w" where
  "deleteNSXSecurityPolicyGroupShare env groups shares shareGroups v w =
    sendBody env (bind_res (if shares \<noteq> [] then wrapHierarchyProjectResources (feConv env) shares shareGroups else Inr []) (\<lambda>projectInfra.
        wrapHierarchyVpcSecurityPolicy (feConv env) None groups projectInfra v)) (fePatchOrgRoot env) w"

definition deleteNSXSecurityPolicyGroupShareForDefaultProject ::
  "('w, 'p, 'r, 'g, 'h, 'd, 'e) fw_env \<Rightarrow> group_obj list \<Rightarrow> share_obj list \<Rightarrow> group_obj list \<Rightarrow> vpc_resource_info \<Rightarrow> 'w \<Rightarrow> fw_error option \<times> 'w" where
  "deleteNSXSecurityPolicyGroupShareForDefaultProject env groups shares shareGroups v w =
    (case (if groups \<noteq> [] then sendBody env (wrapHierarchyVpcSecurityPolicy (feConv env) None groups [] v) (fePatchOrgRoot env) w else (None, w)) of
       (Some e, w') \<Rightarrow> (Some e, w')
     | (None, w') \<Rightarrow>
         (if shares \<noteq> [] then sendBody env (wrapHierarchyInfraResources (feConv env) shares shareGroups) (fePatchInfra env) w' else (None, w')))"

text \<open>The deletion of the policy with its rules, and their removal from the stores.\<close>

definition deletePolicyAndRules ::
  "('w, 'p, 'r, 'g, 'h, 'd, 'e) fw_env \<Rightarrow> delete_set \<Rightarrow> ('w, 'p, 'r, 'g, 'h) fw_state \<Rightarrow> fw_error option \<times> ('w, 'p, 'r, 'g, 'h) fw_state" where
  "deletePolicyAndRules env ds st =
    (case dsPolicy ds of
       None \<Rightarrow> (None, st)
     | Some p \<Rightarrow>
         (case feDeleteVpcPolicy env (OrgID (dsVPC ds)) (ProjectID (dsVPC ds)) (VPCID (dsVPC ds)) (npId (obBody p)) (fwNSX st) of
            (Some e, w) \<Rightarrow> (Some (apiFailed env e), st\<lparr>fwNSX := w\<rparr>)
          | (None, w) \<Rightarrow> (None, applySecurityPolicyStore (feOps env) p (dsRules ds) True (st\<lparr>fwNSX := w\<rparr>))))"

text \<open>An error while the groups and shares are deleted is only logged: they are left to the garbage collection.\<close>

definition deleteGroupsAndShares ::
  "('w, 'p, 'r, 'g, 'h, 'd, 'e) fw_env \<Rightarrow> delete_set \<Rightarrow> bool \<Rightarrow> ('w, 'p, 'r, 'g, 'h) fw_state \<Rightarrow> ('w, 'p, 'r, 'g, 'h) fw_state" where
  "deleteGroupsAndShares env ds isDefaultProject st =
    (let (shares, shareGroups) = (if isDefaultProject then (dsInfraShares ds, dsInfraGroups ds) else (dsProjectShares ds, dsProjectGroups ds)) in
     case (if isDefaultProject then deleteNSXSecurityPolicyGroupShareForDefaultProject else deleteNSXSecurityPolicyGroupShare)
            env (dsGroups ds) shares shareGroups (dsVPC ds) (fwNSX st) of
       (Some _, w) \<Rightarrow> st\<lparr>fwNSX := w\<rparr>
     | (None, w) \<Rightarrow> applyVPCGroupShareStore (feOps env) (dsGroups ds) shares shareGroups isDefaultProject (st\<lparr>fwNSX := w\<rparr>))"

definition deleteVPCSecurityPolicy ::
  "('w, 'p, 'r, 'g, 'h, 'd, 'e) fw_env \<Rightarrow> ('w, 'p, 'r, 'g, 'h) fw_state \<Rightarrow> string \<Rightarrow> bool \<Rightarrow> string \<Rightarrow> fw_error option \<times> ('w, 'p, 'r, 'g, 'h) fw_state" where
  "deleteVPCSecurityPolicy env st uid isGC createdFor =
    (case markSecurityPolicyResourcesDelete env st (ownerScope env createdFor) uid of
       Inl e \<Rightarrow> (Some e, st)
     | Inr (ds, st1) \<Rightarrow>
        (case (if isGC \<and> (dsInfraShares ds \<noteq> [] \<or> dsInfraGroups ds \<noteq> []) then Inr True
               else if VPCID (dsVPC ds) = [] then Inl (FwFailed ''vpcID is empty'')
               else (case feIsDefaultProject env (OrgID (dsVPC ds)) (ProjectID (dsVPC ds)) of Inl e \<Rightarrow> Inl (FwFailed e) | Inr b \<Rightarrow> Inr b)) of
           Inl e \<Rightarrow> (Some e, st1)
         | Inr isDefaultProject \<Rightarrow>
            (case deletePolicyAndRules env ds st1 of
               (Some e, st2) \<Rightarrow> (Some e, st2)
             | (None, st2) \<Rightarrow> (None, deleteGroupsAndShares env ds isDefaultProject st2))))"

definition deleteT1SecurityPolicy ::
  "('w, 'p, 'r, 'g, 'h, 'd, 'e) fw_env \<Rightarrow> ('w, 'p, 'r, 'g, 'h) fw_state \<Rightarrow> string \<Rightarrow> fw_error option \<times> ('w, 'p, 'r, 'g, 'h) fw_state" where
  "deleteT1SecurityPolicy env st uid =
    (let ops = feOps env; scope = securityPolicyUIDTagScope (evService (feSp env)) in
     case GetByIndex (foPolicy ops) (fwPolicies st) scope uid of
       [] \<Rightarrow> (None, st)
     | p # _ \<Rightarrow>
        if obPath p = None then (Some (FwFailed ''nsxSecurityPolicy path is empty''), st)
        else
          (let st1 = st\<lparr>fwPolicies := ixAdd (foPolicy ops) (fwPolicies st) (marked p)\<rparr>;
               groups = getMarkDelete (GetByIndex (foGroup ops) (fwGroups st) scope uid);
               rules = getMarkDelete (GetByIndex (foRule ops) (fwRules st) scope uid) in
           case sendBody env (WrapHierarchySecurityPolicy (feConv env) (svCluster (evService (feSp env))) (marked p) rules groups) (fePatchInfra env) (fwNSX st) of
             (Some e, w) \<Rightarrow> (Some e, st1\<lparr>fwNSX := w\<rparr>)
           | (None, w) \<Rightarrow>
               (let st2 = applySecurityPolicyStore ops (marked p) rules True (st1\<lparr>fwNSX := w\<rparr>) in
                (None, st2\<lparr>fwGroups := GroupStore_Apply (foGroup ops) (fwGroups st2) groups\<rparr>))))"

definition DeleteSecurityPolicy ::
  "('w, 'p, 'r, 'g, 'h, 'd, 'e) fw_env \<Rightarrow> ('w, 'p, 'r, 'g, 'h) fw_state \<Rightarrow> string \<Rightarrow> bool \<Rightarrow> string \<Rightarrow> fw_error option \<times> ('w, 'p, 'r, 'g, 'h) fw_state" where
  "DeleteSecurityPolicy env st uid isGC createdFor =
    (if svVPC (evService (feSp env)) then deleteVPCSecurityPolicy env st uid isGC createdFor else deleteT1SecurityPolicy env st uid)"

section \<open>Listing\<close>

definition getGCSecurityPolicyIDSet :: "('w, 'p, 'r, 'g, 'h, 'd, 'e) fw_env \<Rightarrow> ('w, 'p, 'r, 'g, 'h) fw_state \<Rightarrow> string \<Rightarrow> string set" where
  "getGCSecurityPolicyIDSet env st indexScope =
    (let ops = feOps env; sc = securityPolicyUIDTagScope (evService (feSp env)) in
     indexValues (foGroup ops) (groupIndexers sc) (fwGroups st) indexScope
     \<union> indexValues (foPolicy ops) (policyIndexers sc) (fwPolicies st) indexScope
     \<union> indexValues (foShare ops) (shareIndexers sc) (fwProjectShares st) indexScope
     \<union> indexValues (foGroup ops) (groupIndexers sc) (fwProjectGroups st) indexScope
     \<union> indexValues (foShare ops) (shareIndexers sc) (fwInfraShares st) indexScope
     \<union> indexValues (foGroup ops) (groupIndexers sc) (fwInfraGroups st) indexScope)"

definition ListSecurityPolicyID :: "('w, 'p, 'r, 'g, 'h, 'd, 'e) fw_env \<Rightarrow> ('w, 'p, 'r, 'g, 'h) fw_state \<Rightarrow> string set" where
  "ListSecurityPolicyID env st = getGCSecurityPolicyIDSet env st (securityPolicyUIDTagScope (evService (feSp env)))"

definition ListNetworkPolicyID :: "('w, 'p, 'r, 'g, 'h, 'd, 'e) fw_env \<Rightarrow> ('w, 'p, 'r, 'g, 'h) fw_state \<Rightarrow> string set" where
  "ListNetworkPolicyID env st = getGCSecurityPolicyIDSet env st ''nsx-op/network_policy_uid''"

text \<open>A stored tag without a scope would make the search for the name panic.\<close>

definition policiesByName :: "('w, 'p, 'r, 'g, 'h, 'd, 'e) fw_env \<Rightarrow> ('w, 'p, 'r, 'g, 'h) fw_state \<Rightarrow> string \<Rightarrow> string \<Rightarrow> string \<Rightarrow> policy_obj list" where
  "policiesByName env st scope ns name =
    filter (\<lambda>p. FindTag (npTags (obBody p)) scope = Some name) (GetByIndex (foPolicy (feOps env)) (fwPolicies st) ''nsx-op/namespace'' ns)"

definition ListSecurityPolicyByName :: "('w, 'p, 'r, 'g, 'h, 'd, 'e) fw_env \<Rightarrow> ('w, 'p, 'r, 'g, 'h) fw_state \<Rightarrow> string \<Rightarrow> string \<Rightarrow> policy_obj list" where
  "ListSecurityPolicyByName env st = policiesByName env st (securityPolicyNameTagScope (evService (feSp env)))"

definition ListNetworkPolicyByName :: "('w, 'p, 'r, 'g, 'h, 'd, 'e) fw_env \<Rightarrow> ('w, 'p, 'r, 'g, 'h) fw_state \<Rightarrow> string \<Rightarrow> string \<Rightarrow> policy_obj list" where
  "ListNetworkPolicyByName env st = policiesByName env st ''nsx-op/network_policy_name''"

definition GetSecurityPolicyUID :: "('w, 'p, 'r, 'g, 'h, 'd, 'e) fw_env \<Rightarrow> policy_obj option \<Rightarrow> string option" where
  "GetSecurityPolicyUID env p =
    (case p of None \<Rightarrow> Some [] | Some p \<Rightarrow> FindTag (npTags (obBody p)) (securityPolicyUIDTagScope (evService (feSp env))))"

section \<open>Queries that fill the stores\<close>

definition tagFiltersWithOwnerScope :: "nsx_tag list \<Rightarrow> string \<Rightarrow> nsx_tag list" where
  "tagFiltersWithOwnerScope tagFilters scope = tagFilters @ [(Some scope, None)]"

text \<open>The store that a query fills is given by its name in the service.\<close>

definition storeInitializations :: "sp_service \<Rightarrow> (string \<times> nsx_tag list \<times> string) list" where
  "storeInitializations sv =
    (let shareTag = (\<lambda>v. [mk_tag ''nsx-op/nsx_share_created_for'' v]);
         ownerScopes = securityPolicyUIDTagScope sv # (if svVPC sv then [''nsx-op/network_policy_uid''] else []) in
     concat (map (\<lambda>sc.
       [(''Group'', tagFiltersWithOwnerScope (if svVPC sv then shareTag ''notShared'' else []) sc, ''groupStore''),
        (''SecurityPolicy'', tagFiltersWithOwnerScope [] sc, ''securityPolicyStore''),
        (''Rule'', tagFiltersWithOwnerScope [] sc, ''ruleStore'')]
       @ (if svVPC sv then
            [(''Group'', tagFiltersWithOwnerScope (shareTag ''infra'') sc, ''infraGroupStore''),
             (''Share'', tagFiltersWithOwnerScope (shareTag ''infra'') sc, ''infraShareStore''),
             (''Group'', tagFiltersWithOwnerScope (shareTag ''project'') sc, ''projectGroupStore''),
             (''Share'', tagFiltersWithOwnerScope (shareTag ''project'') sc, ''projectShareStore'')] else [])) ownerScopes))"

section \<open>Reconciling a store\<close>

text \<open>A store of comparable objects whose key does not depend on the deletion mark.\<close>

locale reconciled_store = indexer ops key idx + comparable key val enc
  for ops :: "('s, 'a nsx_object) indexer_ops" and key and idx and val :: "'a nsx_object \<Rightarrow> 'v" and enc :: "'v \<Rightarrow> 'e" +
  assumes key_marked: "key (marked x) = key x"
begin

lemma applies_get:
  "ixGetByKey ops (foldl (applyObject ops) s obs) k =
    (case List.find (\<lambda>ob. key ob = k) (rev obs) of
       None \<Rightarrow> ixGetByKey ops s k | Some ob \<Rightarrow> if obMarked ob = Some True then None else Some ob)"
  by (induction obs rule: rev_induct) (auto simp: applyObject_def get_add get_delete)

lemma index_keys: "inj_on key (set (ixByIndex ops s name uid))"
  by (rule inj_onI) (metis by_index_iff option.inject)

lemma keyed_index:
  "map_of (keyedMap key (ixByIndex ops s name uid)) k = Some e \<longleftrightarrow> ixGetByKey ops s k = Some e \<and> uid \<in> set (idx name e)"
proof
  assume "map_of (keyedMap key (ixByIndex ops s name uid)) k = Some e"
  then show "ixGetByKey ops s k = Some e \<and> uid \<in> set (idx name e)" by (auto dest!: keyedMap_key simp: by_index_iff)
next
  assume e: "ixGetByKey ops s k = Some e \<and> uid \<in> set (idx name e)"
  then have mem: "e \<in> set (ixByIndex ops s name uid)" "key e = k" using get_key by (auto simp: by_index_iff)
  then have "map_of (keyedMap key (ixByIndex ops s name uid)) k \<noteq> None" by (auto simp: keyedMap_lookup find_None_iff)
  then obtain q where q: "map_of (keyedMap key (ixByIndex ops s name uid)) k = Some q" by blast
  with mem index_keys have "q = e" by (auto dest!: keyedMap_key dest: inj_onD)
  with q show "map_of (keyedMap key (ixByIndex ops s name uid)) k = Some e" by simp
qed

lemma update_members:
  assumes "is_order ord"
  shows "ob \<in> set (getUpdate ord key val enc existing expected) \<longleftrightarrow>
    (\<exists>e. ob = marked e \<and> map_of (keyedMap key existing) (key e) = Some e \<and> map_of (keyedMap key expected) (key e) = None)
    \<or> map_of (keyedMap key expected) (key ob) = Some ob
       \<and> (case map_of (keyedMap key existing) (key ob) of None \<Rightarrow> True | Some e \<Rightarrow> val e \<noteq> val ob)"
proof -
  have entry: "(k, x) \<in> set (keyedMap key xs) \<longleftrightarrow> k = key x \<and> map_of (keyedMap key xs) (key x) = Some x" for k x xs
    using keyedMap_key [of key xs k x] by (auto simp: keyedMap_entry)
  show ?thesis
    using assms
    by (auto simp: getUpdate_def CompareResources_def Let_def image_iff entry compare_iff split: option.splits)
qed

lemma reconcile:
  assumes "is_order ord" and "\<forall>x \<in> set expected. obMarked x = None"
    and "s' = foldl (applyObject ops) s (getUpdate ord key val enc (ixByIndex ops s name uid) expected)"
  shows "map_of (keyedMap key expected) k = Some r \<Longrightarrow> \<exists>ob. ixGetByKey ops s' k = Some ob \<and> val ob = val r"
    and "k \<notin> key ` set expected \<Longrightarrow> ixGetByKey ops s' k =
      (case ixGetByKey ops s k of Some e \<Rightarrow> if uid \<in> set (idx name e) then None else Some e | None \<Rightarrow> None)"
proof -
  let ?upd = "getUpdate ord key val enc (ixByIndex ops s name uid) expected"
  note mem = update_members [OF assms(1), of _ "ixByIndex ops s name uid" expected, unfolded keyed_index]
  have get: "ixGetByKey ops s' k = (case List.find (\<lambda>ob. key ob = k) (rev ?upd) of
       None \<Rightarrow> ixGetByKey ops s k | Some ob \<Rightarrow> if obMarked ob = Some True then None else Some ob)"
    unfolding assms(3) by (rule applies_get)
  have found: "List.find (\<lambda>ob. key ob = k) (rev ?upd) = Some ob \<Longrightarrow> ob \<in> set ?upd \<and> key ob = k" for ob
    by (drule find_Some_in) simp
  have missing: "List.find (\<lambda>ob. key ob = k) (rev ?upd) = None \<Longrightarrow> \<forall>ob \<in> set ?upd. key ob \<noteq> k"
    by (auto simp: find_None_all)
  show "\<exists>ob. ixGetByKey ops s' k = Some ob \<and> val ob = val r" if r: "map_of (keyedMap key expected) k = Some r"
  proof (cases "List.find (\<lambda>ob. key ob = k) (rev ?upd)")
    case None
    have "key r = k" using keyedMap_key [OF r] by simp
    with missing [OF None] mem [of r] r obtain e where "ixGetByKey ops s k = Some e" "val e = val r"
      by (fastforce simp: keyed_index split: option.splits)
    with get None show ?thesis by simp
  next
    case (Some ob)
    with found have ob: "ob \<in> set ?upd" "key ob = k" by auto
    then have "ob = r" using mem [of ob] r key_marked by auto
    moreover have "obMarked r = None" using assms(2) keyedMap_key [OF r] by auto
    ultimately show ?thesis using get Some by simp
  qed
  show "ixGetByKey ops s' k = (case ixGetByKey ops s k of Some e \<Rightarrow> if uid \<in> set (idx name e) then None else Some e | None \<Rightarrow> None)"
    if k: "k \<notin> key ` set expected"
  proof -
    have none: "map_of (keyedMap key expected) k = None" using k by (auto simp: keyedMap_lookup find_None_all)
    show ?thesis
    proof (cases "List.find (\<lambda>ob. key ob = k) (rev ?upd)")
      case None
      have "uid \<notin> set (idx name e)" if e: "ixGetByKey ops s k = Some e" for e
        using missing [OF None] mem [of "marked e"] e none get_key [OF e] key_marked [of e] by auto
      with get None show ?thesis by (auto split: option.splits)
    next
      case (Some ob)
      with found have ob: "ob \<in> set ?upd" "key ob = k" by auto
      then obtain e where "ob = marked e" "ixGetByKey ops s k = Some e" "uid \<in> set (idx name e)"
        using mem [of ob] none key_marked by auto
      with get Some show ?thesis by (simp add: marked_def)
    qed
  qed
qed

text \<open>Applying marked copies of all objects of an owner removes them, and only them.\<close>

lemma delete_owner:
  assumes "s' = foldl (applyObject ops) s (getMarkDelete (ixByIndex ops s name uid))"
  shows "ixGetByKey ops s' k = (case ixGetByKey ops s k of Some e \<Rightarrow> if uid \<in> set (idx name e) then None else Some e | None \<Rightarrow> None)"
    and "ixByIndex ops s' name uid = []"
proof -
  let ?del = "getMarkDelete (ixByIndex ops s name uid)"
  have del: "ob \<in> set ?del \<and> key ob = k \<longleftrightarrow> (\<exists>e. ob = marked e \<and> ixGetByKey ops s k = Some e \<and> uid \<in> set (idx name e))" for ob k
    using get_key by (auto simp: getMarkDelete_def by_index_iff key_marked image_iff)
  show get: "ixGetByKey ops s' k = (case ixGetByKey ops s k of Some e \<Rightarrow> if uid \<in> set (idx name e) then None else Some e | None \<Rightarrow> None)" for k
  proof (cases "List.find (\<lambda>ob. key ob = k) (rev ?del)")
    case None
    then have "\<forall>ob \<in> set ?del. key ob \<noteq> k" by (auto simp: find_None_all)
    with del have "\<not> (\<exists>e. ixGetByKey ops s k = Some e \<and> uid \<in> set (idx name e))" by blast
    with None show ?thesis by (auto simp: assms applies_get split: option.splits)
  next
    case (Some ob)
    then have "ob \<in> set ?del \<and> key ob = k" by (auto dest: find_Some_in)
    with del obtain e where "ob = marked e" "ixGetByKey ops s k = Some e" "uid \<in> set (idx name e)" by blast
    with Some show ?thesis by (simp add: assms applies_get marked_def)
  qed
  have "x \<notin> set (ixByIndex ops s' name uid)" for x
    using get [of "key x"] by (auto simp: by_index_iff split: option.splits if_splits)
  then show "ixByIndex ops s' name uid = []" by (metis list.set_intros(1) neq_Nil_conv)
qed

end

text \<open>The stores of the service, on the reference indexer and with values compared as they are.\<close>

lemma reconciled_al:
  assumes "\<And>x. key (marked x) = key x" "inj enc"
  shows "reconciled_store (al_ops key idx) key idx val enc"
  by (intro reconciled_store.intro indexer_al_ops comparable.intro reconciled_store_axioms.intro) (use assms in \<open>auto dest: injD\<close>)

lemma keys_marked [simp]:
  "policyKey (marked p) = policyKey p" "ruleKey (marked r) = ruleKey r" "groupKey (marked g) = groupKey g" "shareKey (marked s) = shareKey s"
  by (simp_all add: policyKey_def ruleKey_def groupKey_def shareKey_def marked_def)

interpretation policyStore: reconciled_store "al_ops policyKey (policyIndexers sc)" policyKey "policyIndexers sc" policy_Value id for sc
  by (rule reconciled_al) simp_all

interpretation ruleStore: reconciled_store "al_ops ruleKey (ruleIndexers sc)" ruleKey "ruleIndexers sc" rule_Value id for sc
  by (rule reconciled_al) simp_all

interpretation groupStore: reconciled_store "al_ops groupKey (groupIndexers sc)" groupKey "groupIndexers sc" group_Value id for sc
  by (rule reconciled_al) simp_all

interpretation shareStore: reconciled_store "al_ops shareKey (shareIndexers sc)" shareKey "shareIndexers sc" share_Value id for sc
  by (rule reconciled_al) simp_all

section \<open>The service keeps its stores in step with what it builds\<close>

definition uidScope :: "('w, 'p, 'r, 'g, 'h, 'd, 'e) fw_env \<Rightarrow> string" where
  "uidScope env = securityPolicyUIDTagScope (evService (feSp env))"

text \<open>What the service relies on: its stores are indexers with its key and index functions, the encoders lose nothing, and the maps
  of compared objects are visited completely.\<close>

locale firewall =
  fixes env :: "('w, 'p, 'r, 'g, 'h, 'd, 'e) fw_env"
  assumes policies: "reconciled_store (foPolicy (feOps env)) policyKey (policyIndexers (uidScope env)) policy_Value (fePolicyEnc env)"
    and rules: "reconciled_store (foRule (feOps env)) ruleKey (ruleIndexers (uidScope env)) rule_Value (feRuleEnc env)"
    and groups: "reconciled_store (foGroup (feOps env)) groupKey (groupIndexers (uidScope env)) group_Value (feGroupEnc env)"
    and shares: "reconciled_store (foShare (feOps env)) shareKey (shareIndexers (uidScope env)) share_Value (feShareEnc env)"
    and orders: "is_order (feRuleOrder env)" "is_order (feGroupOrder env)" "is_order (feShareOrder env)"

text \<open>A store after an update: every expected object is there with its value, every other object of the owner is gone, the rest is untouched.\<close>

definition inStep ::
  "('s, 'a nsx_object) indexer_ops \<Rightarrow> ('a nsx_object \<Rightarrow> string) \<Rightarrow> (string \<Rightarrow> 'a nsx_object \<Rightarrow> string list) \<Rightarrow> ('a nsx_object \<Rightarrow> 'v) \<Rightarrow>
   string \<Rightarrow> string \<Rightarrow> 'a list \<Rightarrow> 's \<Rightarrow> 's \<Rightarrow> bool" where
  "inStep ops key idx val scope uid expected s s' \<longleftrightarrow>
    (\<forall>k r. map_of (keyedMap key (map fresh expected)) k = Some r \<longrightarrow> (\<exists>ob. ixGetByKey ops s' k = Some ob \<and> val ob = val r))
    \<and> (\<forall>k. k \<notin> (key \<circ> fresh) ` set expected \<longrightarrow> ixGetByKey ops s' k =
         (case ixGetByKey ops s k of Some e \<Rightarrow> if uid \<in> set (idx scope e) then None else Some e | None \<Rightarrow> None))"


context reconciled_store
begin

lemma inStep_update:
  assumes "is_order ord"
  shows "inStep ops key idx val name uid expected s (foldl (applyObject ops) s (getUpdate ord key val enc (GetByIndex ops s name uid) (map fresh expected)))"
  unfolding inStep_def GetByIndex_def
  using reconcile [OF assms _ refl, where expected = "map fresh expected" and s = s and name = name and uid = uid]
  by (auto simp: fresh_def image_image)

end

context firewall
begin

lemma rules_update:
  "inStep (foRule (feOps env)) ruleKey (ruleIndexers (uidScope env)) rule_Value scope uid expected s
     (RuleStore_Apply (foRule (feOps env)) s (getUpdateRules env (GetByIndex (foRule (feOps env)) s scope uid) (map fresh expected)))"
  unfolding RuleStore_Apply_def getUpdateRules_def by (rule reconciled_store.inStep_update [OF rules orders(1)])

lemma groups_update:
  "inStep (foGroup (feOps env)) groupKey (groupIndexers (uidScope env)) group_Value scope uid expected s
     (GroupStore_Apply (foGroup (feOps env)) s (getUpdateGroups env (GetByIndex (foGroup (feOps env)) s scope uid) (map fresh expected)))"
  unfolding GroupStore_Apply_def getUpdateGroups_def by (rule reconciled_store.inStep_update [OF groups orders(2)])

lemma shares_update:
  "inStep (foShare (feOps env)) shareKey (shareIndexers (uidScope env)) share_Value scope uid expected s
     (ShareStore_Apply (foShare (feOps env)) s (getUpdateShares env (GetByIndex (foShare (feOps env)) s scope uid) (map fresh expected)))"
  unfolding ShareStore_Apply_def getUpdateShares_def by (rule reconciled_store.inStep_update [OF shares orders(3)])

end

lemma apply_stores [simp]:
  "fwRules (applySecurityPolicyStore ops p rs ch st) = RuleStore_Apply (foRule ops) (fwRules st) rs"
  "fwGroups (applySecurityPolicyStore ops p rs ch st) = fwGroups st"
  "fwProjectShares (applySecurityPolicyStore ops p rs ch st) = fwProjectShares st"
  "fwInfraShares (applySecurityPolicyStore ops p rs ch st) = fwInfraShares st"
  "fwProjectGroups (applySecurityPolicyStore ops p rs ch st) = fwProjectGroups st"
  "fwInfraGroups (applySecurityPolicyStore ops p rs ch st) = fwInfraGroups st"
  "fwPolicies (applyVPCGroupShareStore ops gs shs sgs d st) = fwPolicies st"
  "fwRules (applyVPCGroupShareStore ops gs shs sgs d st) = fwRules st"
  "fwGroups (applyVPCGroupShareStore ops gs shs sgs d st) = GroupStore_Apply (foGroup ops) (fwGroups st) gs"
  "fwProjectShares (applyVPCGroupShareStore ops gs shs sgs d st) = (if d then fwProjectShares st else ShareStore_Apply (foShare ops) (fwProjectShares st) shs)"
  "fwInfraShares (applyVPCGroupShareStore ops gs shs sgs d st) = (if d then ShareStore_Apply (foShare ops) (fwInfraShares st) shs else fwInfraShares st)"
  "fwProjectGroups (applyVPCGroupShareStore ops gs shs sgs d st) = (if d then fwProjectGroups st else GroupStore_Apply (foGroup ops) (fwProjectGroups st) sgs)"
  "fwInfraGroups (applyVPCGroupShareStore ops gs shs sgs d st) = (if d then GroupStore_Apply (foGroup ops) (fwInfraGroups st) sgs else fwInfraGroups st)"
  by (simp_all add: applySecurityPolicyStore_def applyVPCGroupShareStore_def Let_def)

lemma apply_nothing [simp]: "RuleStore_Apply ops s [] = s" "GroupStore_Apply ops' s' [] = s'" "ShareStore_Apply ops'' s'' [] = s''"
  by (simp_all add: RuleStore_Apply_def GroupStore_Apply_def ShareStore_Apply_def)

lemma final_resources:
  assumes "getFinalSecurityPolicyResource env st obj cf v d = Inr (sp, rs, gs, shs, sgs, ch)"
  obtains built groups gshares where
    "buildSecurityPolicy (builderEnv env st) (normalizeSecurityPolicyRules obj) cf v d = Inr (built, groups, gshares)"
    "rs = getUpdateRules env (GetByIndex (foRule (feOps env)) (fwRules st) (ownerScope env cf) (spUID obj)) (map fresh (npRules built))"
    "gs = getUpdateGroups env (GetByIndex (foGroup (feOps env)) (fwGroups st) (ownerScope env cf) (spUID obj)) (map fresh groups)"
    "svVPC (evService (feSp env)) \<Longrightarrow> shs = getUpdateShares env (GetByIndex (foShare (feOps env))
        (if d then fwInfraShares st else fwProjectShares st) (ownerScope env cf) (spUID obj)) (map fresh (map snd (rev gshares)))"
    "\<not> ch \<Longrightarrow> sp \<in> set (GetByIndex (foPolicy (feOps env)) (fwPolicies st) (ownerScope env cf) (spUID obj))"
proof -
  have uid: "spUID (normalizeSecurityPolicyRules obj) = spUID obj" by (simp add: normalizeSecurityPolicyRules_def)
  obtain built groups gshares where b: "buildSecurityPolicy (builderEnv env st) (normalizeSecurityPolicyRules obj) cf v d = Inr (built, groups, gshares)"
    using assms by (cases "buildSecurityPolicy (builderEnv env st) (normalizeSecurityPolicyRules obj) cf v d")
      (auto simp: getFinalSecurityPolicyResource_def Let_def)
  show thesis
    by (rule that [OF b]) (use assms b uid in \<open>auto simp: getFinalSecurityPolicyResource_def getFinalVPCShareResources_def Let_def
        split: prod.splits list.splits if_splits\<close>)
qed

lemma VPC_update_result:
  assumes "createOrUpdateVPCSecurityPolicy env st obj createdFor = (None, st')"
  obtains v d sp rs gs shs sgs ch where "getVPCInfo env (spNamespace obj) = Inr v"
    "getFinalSecurityPolicyResource env st obj createdFor (Some v) d = Inr (sp, rs, gs, shs, sgs, ch)"
    "\<not> ch \<and> rs = [] \<and> gs = [] \<and> shs = [] \<and> st' = st
      \<or> (\<exists>p w. st' = applyVPCGroupShareStore (feOps env) gs shs sgs d (applySecurityPolicyStore (feOps env) p rs ch (st\<lparr>fwNSX := w\<rparr>)))"
proof -
  obtain v where v: "getVPCInfo env (spNamespace obj) = Inr v"
    using assms by (cases "getVPCInfo env (spNamespace obj)") (auto simp: createOrUpdateVPCSecurityPolicy_def)
  obtain d where d: "feIsDefaultProject env (OrgID v) (ProjectID v) = Inr d"
    using assms v by (cases "feIsDefaultProject env (OrgID v) (ProjectID v)") (auto simp: createOrUpdateVPCSecurityPolicy_def)
  obtain sp rs gs shs sgs ch where f: "getFinalSecurityPolicyResource env st obj createdFor (Some v) d = Inr (sp, rs, gs, shs, sgs, ch)"
    using assms v d by (cases "getFinalSecurityPolicyResource env st obj createdFor (Some v) d") (auto simp: createOrUpdateVPCSecurityPolicy_def)
  show thesis
    by (rule that [OF v f]) (use assms v d f in \<open>auto simp: createOrUpdateVPCSecurityPolicy_def split: sum.splits prod.splits if_splits\<close>)
qed

section \<open>Properties\<close>


lemma marked_deleted: "applyObject ops s (marked ob) = ixDelete ops s (marked ob)"
  by (simp add: applyObject_def marked_def)

text \<open>What a deletion leaves: the policy marked in place and the objects of the owner marked for deletion.\<close>

lemma mark_result:
  assumes "markSecurityPolicyResourcesDelete env st scope uid = Inr (ds, st1)"
  shows "dsRules ds = getMarkDelete (GetByIndex (foRule (feOps env)) (fwRules st) scope uid)"
    "dsGroups ds = getMarkDelete (GetByIndex (foGroup (feOps env)) (fwGroups st) scope uid)"
    "dsInfraShares ds = getMarkDelete (GetByIndex (foShare (feOps env)) (fwInfraShares st) scope uid)"
    "dsInfraGroups ds = getMarkDelete (GetByIndex (foGroup (feOps env)) (fwInfraGroups st) scope uid)"
    "dsProjectShares ds = getMarkDelete (GetByIndex (foShare (feOps env)) (fwProjectShares st) scope uid)"
    "dsProjectGroups ds = getMarkDelete (GetByIndex (foGroup (feOps env)) (fwProjectGroups st) scope uid)"
    "(GetByIndex (foPolicy (feOps env)) (fwPolicies st) scope uid = [] \<and> dsPolicy ds = None \<and> st1 = st)
     \<or> (\<exists>p ps. GetByIndex (foPolicy (feOps env)) (fwPolicies st) scope uid = p # ps \<and> dsPolicy ds = Some (marked p)
         \<and> st1 = st\<lparr>fwPolicies := ixAdd (foPolicy (feOps env)) (fwPolicies st) (marked p)\<rparr>)"
  using assms by (auto simp: markSecurityPolicyResourcesDelete_def Let_def split: list.splits option.splits)

lemma VPC_delete_steps:
  assumes "deleteVPCSecurityPolicy env st uid isGC createdFor = (None, st')"
  obtains ds st1 st2 d where "markSecurityPolicyResourcesDelete env st (ownerScope env createdFor) uid = Inr (ds, st1)"
    "deletePolicyAndRules env ds st1 = (None, st2)" "st' = deleteGroupsAndShares env ds d st2"
proof -
  obtain ds st1 where m: "markSecurityPolicyResourcesDelete env st (ownerScope env createdFor) uid = Inr (ds, st1)"
    using assms by (cases "markSecurityPolicyResourcesDelete env st (ownerScope env createdFor) uid") (auto simp: deleteVPCSecurityPolicy_def)
  then show thesis using assms that
    by (auto simp: deleteVPCSecurityPolicy_def split: sum.splits prod.splits option.splits if_splits)
qed

context firewall
begin

lemma policy_deleted:
  assumes "\<forall>q. ixGetByKey (foPolicy (feOps env)) s (policyKey q) = Some q \<longrightarrow> uid \<in> set (policyIndexers (uidScope env) scope q) \<longrightarrow> q = p"
  shows "ixByIndex (foPolicy (feOps env)) (ixDelete (foPolicy (feOps env)) (ixAdd (foPolicy (feOps env)) s (marked p)) (marked p)) scope uid = []"
proof -
  note ix = reconciled_store.axioms(1) [OF policies]
  note rules = indexer.by_index_iff [OF ix] indexer.get_add [OF ix] indexer.get_delete [OF ix]
  have "x \<notin> set (ixByIndex (foPolicy (feOps env)) (ixDelete (foPolicy (feOps env)) (ixAdd (foPolicy (feOps env)) s (marked p)) (marked p)) scope uid)" for x
    using assms by (auto simp: rules split: if_splits)
  then show ?thesis by (metis list.set_intros(1) neq_Nil_conv)
qed

lemma rules_deleted: "GetByIndex (foRule (feOps env)) (RuleStore_Apply (foRule (feOps env)) s (getMarkDelete (GetByIndex (foRule (feOps env)) s scope uid))) scope uid = []"
  unfolding RuleStore_Apply_def GetByIndex_def by (rule reconciled_store.delete_owner(2) [OF rules refl])

lemma groups_deleted: "GetByIndex (foGroup (feOps env)) (GroupStore_Apply (foGroup (feOps env)) s (getMarkDelete (GetByIndex (foGroup (feOps env)) s scope uid))) scope uid = []"
  unfolding GroupStore_Apply_def GetByIndex_def by (rule reconciled_store.delete_owner(2) [OF groups refl])

lemma shares_deleted: "GetByIndex (foShare (feOps env)) (ShareStore_Apply (foShare (feOps env)) s (getMarkDelete (GetByIndex (foShare (feOps env)) s scope uid))) scope uid = []"
  unfolding ShareStore_Apply_def GetByIndex_def by (rule reconciled_store.delete_owner(2) [OF shares refl])

text \<open>Whatever an index query of a store of groups or shares returns is listed for the garbage collection.\<close>

lemma leftovers_listed:
  assumes "GetByIndex (foGroup (feOps env)) (fwGroups st) scope uid \<noteq> [] \<or> GetByIndex (foGroup (feOps env)) (fwInfraGroups st) scope uid \<noteq> []
     \<or> GetByIndex (foShare (feOps env)) (fwInfraShares st) scope uid \<noteq> [] \<or> GetByIndex (foGroup (feOps env)) (fwProjectGroups st) scope uid \<noteq> []
     \<or> GetByIndex (foShare (feOps env)) (fwProjectShares st) scope uid \<noteq> []"
  shows "uid \<in> getGCSecurityPolicyIDSet env st scope"
proof -
  note gx = reconciled_store.axioms(1) [OF groups] and hx = reconciled_store.axioms(1) [OF shares]
  have g: "uid \<in> indexValues (foGroup (feOps env)) (groupIndexers (uidScope env)) s scope" if "GetByIndex (foGroup (feOps env)) s scope uid \<noteq> []" for s
    using that list.set_sel(1) [OF that] by (auto simp: GetByIndex_def indexValues_def indexer.by_index_iff [OF gx] indexer.list_iff [OF gx])
  have h: "uid \<in> indexValues (foShare (feOps env)) (shareIndexers (uidScope env)) s scope" if "GetByIndex (foShare (feOps env)) s scope uid \<noteq> []" for s
    using that list.set_sel(1) [OF that] by (auto simp: GetByIndex_def indexValues_def indexer.by_index_iff [OF hx] indexer.list_iff [OF hx])
  show ?thesis using assms g h unfolding getGCSecurityPolicyIDSet_def uidScope_def by (auto simp: Let_def)
qed

end

text \<open>The groups and shares of an owner after a deletion: gone, with those of the project or of infra, or untouched.\<close>

definition groupsGone :: "('p, 'r, 'g, 'h) fw_ops \<Rightarrow> string \<Rightarrow> string \<Rightarrow> ('w, 'p, 'r, 'g, 'h) fw_state \<Rightarrow> bool \<Rightarrow> bool" where
  "groupsGone ops scope uid st isDefault \<longleftrightarrow> GetByIndex (foGroup ops) (fwGroups st) scope uid = []
     \<and> GetByIndex (foGroup ops) (if isDefault then fwInfraGroups st else fwProjectGroups st) scope uid = []
     \<and> GetByIndex (foShare ops) (if isDefault then fwInfraShares st else fwProjectShares st) scope uid = []"

definition groupsSame :: "('w, 'p, 'r, 'g, 'h) fw_state \<Rightarrow> ('w, 'p, 'r, 'g, 'h) fw_state \<Rightarrow> bool" where
  "groupsSame st st' \<longleftrightarrow> fwGroups st' = fwGroups st \<and> fwInfraGroups st' = fwInfraGroups st \<and> fwInfraShares st' = fwInfraShares st
     \<and> fwProjectGroups st' = fwProjectGroups st \<and> fwProjectShares st' = fwProjectShares st"

lemma policies_gone:
  assumes "firewall env" "markSecurityPolicyResourcesDelete env st scope uid = Inr (ds, st1)" "deletePolicyAndRules env ds st1 = (None, st2)"
    and "length (GetByIndex (foPolicy (feOps env)) (fwPolicies st) scope uid) \<le> 1"
  shows "GetByIndex (foPolicy (feOps env)) (fwPolicies st2) scope uid = []"
    and "GetByIndex (foPolicy (feOps env)) (fwPolicies st) scope uid \<noteq> [] \<Longrightarrow> GetByIndex (foRule (feOps env)) (fwRules st2) scope uid = []"
    and "groupsSame st st2"
proof -
  note ix = reconciled_store.axioms(1) [OF firewall.policies [OF assms(1)]]
  have "GetByIndex (foPolicy (feOps env)) (fwPolicies st2) scope uid = []
    \<and> (GetByIndex (foPolicy (feOps env)) (fwPolicies st) scope uid \<noteq> [] \<longrightarrow> GetByIndex (foRule (feOps env)) (fwRules st2) scope uid = [])
    \<and> groupsSame st st2"
    using mark_result(7) [OF assms(2)]
  proof
    assume "GetByIndex (foPolicy (feOps env)) (fwPolicies st) scope uid = [] \<and> dsPolicy ds = None \<and> st1 = st"
    with assms(3) show ?thesis by (simp add: deletePolicyAndRules_def groupsSame_def)
  next
    assume "\<exists>p ps. GetByIndex (foPolicy (feOps env)) (fwPolicies st) scope uid = p # ps \<and> dsPolicy ds = Some (marked p)
      \<and> st1 = st\<lparr>fwPolicies := ixAdd (foPolicy (feOps env)) (fwPolicies st) (marked p)\<rparr>"
    then obtain p where p: "GetByIndex (foPolicy (feOps env)) (fwPolicies st) scope uid = [p]" "dsPolicy ds = Some (marked p)"
      "st1 = st\<lparr>fwPolicies := ixAdd (foPolicy (feOps env)) (fwPolicies st) (marked p)\<rparr>" using assms(4) by auto
    obtain w where st2: "st2 = applySecurityPolicyStore (feOps env) (marked p) (dsRules ds) True (st1\<lparr>fwNSX := w\<rparr>)"
      using assms(3) p(2) by (auto simp: deletePolicyAndRules_def split: prod.splits option.splits)
    have only: "\<forall>q. ixGetByKey (foPolicy (feOps env)) (fwPolicies st) (policyKey q) = Some q \<longrightarrow> uid \<in> set (policyIndexers (uidScope env) scope q) \<longrightarrow> q = p"
      using p(1) indexer.by_index_iff [OF ix, of _ "fwPolicies st" scope uid] by (auto simp: GetByIndex_def)
    have "GetByIndex (foPolicy (feOps env)) (fwPolicies st2) scope uid = []"
      using firewall.policy_deleted [OF assms(1) only] p(3)
      by (simp add: st2 applySecurityPolicyStore_def SecurityPolicyStore_Apply_def marked_deleted GetByIndex_def)
    moreover have "GetByIndex (foRule (feOps env)) (fwRules st2) scope uid = []"
      using firewall.rules_deleted [OF assms(1)] p(3) by (simp add: st2 mark_result(1) [OF assms(2)])
    ultimately show ?thesis using p(3) by (simp add: st2 groupsSame_def)
  qed
  then show "GetByIndex (foPolicy (feOps env)) (fwPolicies st2) scope uid = []"
    "GetByIndex (foPolicy (feOps env)) (fwPolicies st) scope uid \<noteq> [] \<Longrightarrow> GetByIndex (foRule (feOps env)) (fwRules st2) scope uid = []"
    "groupsSame st st2" by blast+
qed

lemma groups_gone:
  assumes "firewall env" "markSecurityPolicyResourcesDelete env st scope uid = Inr (ds, st1)" "groupsSame st st2" "st' = deleteGroupsAndShares env ds d st2"
  shows "fwPolicies st' = fwPolicies st2 \<and> fwRules st' = fwRules st2 \<and> (groupsGone (feOps env) scope uid st' d \<or> groupsSame st st')"
proof -
  note m = mark_result [OF assms(2)]
  have "(\<exists>w. st' = st2\<lparr>fwNSX := w\<rparr>) \<or> (\<exists>w. st' = applyVPCGroupShareStore (feOps env) (dsGroups ds)
      (if d then dsInfraShares ds else dsProjectShares ds) (if d then dsInfraGroups ds else dsProjectGroups ds) d (st2\<lparr>fwNSX := w\<rparr>))"
    using assms(4) by (cases d) (auto simp: deleteGroupsAndShares_def split: prod.splits option.splits)
  then show ?thesis
    using assms(3) firewall.groups_deleted [OF assms(1)] firewall.shares_deleted [OF assms(1)] by (auto simp: groupsSame_def groupsGone_def m)
qed

text \<open>C13. When the deletion of a policy of a VPC returns without an error, the policy and its rules have left the stores. Its groups and shares have left
  them too, or, when their deletion failed, are all still there; and as long as any group or share of the policy is stored, the policy is
  listed for the garbage collection.\<close>

theorem VPC_delete_spec:
  assumes "firewall env" "deleteVPCSecurityPolicy env st uid isGC createdFor = (None, st')"
    and "length (GetByIndex (foPolicy (feOps env)) (fwPolicies st) (ownerScope env createdFor) uid) \<le> 1"
  shows "GetByIndex (foPolicy (feOps env)) (fwPolicies st') (ownerScope env createdFor) uid = []
    \<and> (GetByIndex (foPolicy (feOps env)) (fwPolicies st) (ownerScope env createdFor) uid \<noteq> []
        \<longrightarrow> GetByIndex (foRule (feOps env)) (fwRules st') (ownerScope env createdFor) uid = [])
    \<and> ((\<exists>d. groupsGone (feOps env) (ownerScope env createdFor) uid st' d) \<or> groupsSame st st')
    \<and> ((\<exists>d. \<not> groupsGone (feOps env) (ownerScope env createdFor) uid st' d) \<longrightarrow> uid \<in> getGCSecurityPolicyIDSet env st' (ownerScope env createdFor))"
proof -
  obtain ds st1 st2 d where s: "markSecurityPolicyResourcesDelete env st (ownerScope env createdFor) uid = Inr (ds, st1)"
    "deletePolicyAndRules env ds st1 = (None, st2)" "st' = deleteGroupsAndShares env ds d st2"
    by (rule VPC_delete_steps [OF assms(2)])
  note p = policies_gone [OF assms(1) s(1,2) assms(3)]
  note g = groups_gone [OF assms(1) s(1) p(3) s(3)]
  have "uid \<in> getGCSecurityPolicyIDSet env st' (ownerScope env createdFor)" if "\<not> groupsGone (feOps env) (ownerScope env createdFor) uid st' b" for b
    using that by (intro firewall.leftovers_listed [OF assms(1)]) (auto simp: groupsGone_def split: if_splits)
  then show ?thesis using p g by auto
qed

text \<open>Defect: the deletion marks the stored policy itself before NSX is called. When NSX rejects the deletion the policy stays marked in the store, and a
  later update of the same policy that changes only rules or groups sends the stored policy with its mark, which deletes it.\<close>

theorem failed_delete_keeps_mark:
  assumes "firewall env" "GetByIndex (foPolicy (feOps env)) (fwPolicies st) (ownerScope env createdFor) uid = [p]"
    and "obPath p = Some path" "VPCID (vpcOfPath path) \<noteq> []" "feIsDefaultProject env (OrgID (vpcOfPath path)) (ProjectID (vpcOfPath path)) = Inr isDefault"
    and "feDeleteVpcPolicy env (OrgID (vpcOfPath path)) (ProjectID (vpcOfPath path)) (VPCID (vpcOfPath path)) (npId (obBody p)) (fwNSX st) = (Some e, w)"
    and "deleteVPCSecurityPolicy env st uid False createdFor = (err, st')"
  shows "err = Some (apiFailed env e)
    \<and> (\<forall>obj v d sp rs gs shs sgs. spUID obj = uid \<longrightarrow>
         getFinalSecurityPolicyResource env st' obj createdFor v d = Inr (sp, rs, gs, shs, sgs, False) \<longrightarrow> obMarked sp = Some True)"
proof -
  note ix = reconciled_store.axioms(1) [OF firewall.policies [OF assms(1)]]
  let ?st1 = "st\<lparr>fwPolicies := ixAdd (foPolicy (feOps env)) (fwPolicies st) (marked p)\<rparr>"
  obtain ds where m: "markSecurityPolicyResourcesDelete env st (ownerScope env createdFor) uid = Inr (ds, ?st1)"
    "dsPolicy ds = Some (marked p)" "dsVPC ds = vpcOfPath path"
    using assms(2,3) by (auto simp: markSecurityPolicyResourcesDelete_def Let_def)
  have body: "obBody (marked p) = obBody p" by (simp add: marked_def)
  have r: "err = Some (apiFailed env e)" "st' = ?st1\<lparr>fwNSX := w\<rparr>"
    using assms(4-7) m by (auto simp: deleteVPCSecurityPolicy_def deletePolicyAndRules_def body)
  have only: "q = marked p" if "q \<in> set (GetByIndex (foPolicy (feOps env)) (fwPolicies st') (ownerScope env createdFor) uid)" for q
  proof -
    have q: "ixGetByKey (foPolicy (feOps env)) (ixAdd (foPolicy (feOps env)) (fwPolicies st) (marked p)) (policyKey q) = Some q"
      "uid \<in> set (policyIndexers (uidScope env) (ownerScope env createdFor) q)"
      using that by (auto simp: r(2) GetByIndex_def indexer.by_index_iff [OF ix])
    show ?thesis
    proof (rule ccontr)
      assume "q \<noteq> marked p"
      with q have "ixGetByKey (foPolicy (feOps env)) (fwPolicies st) (policyKey q) = Some q" "policyKey q \<noteq> policyKey p"
        by (auto simp: indexer.get_add [OF ix] split: if_splits)
      with q(2) have "q \<in> set (GetByIndex (foPolicy (feOps env)) (fwPolicies st) (ownerScope env createdFor) uid)"
        by (simp add: GetByIndex_def indexer.by_index_iff [OF ix])
      with assms(2) \<open>policyKey q \<noteq> policyKey p\<close> show False by auto
    qed
  qed
  have "obMarked sp = Some True" if "spUID obj = uid" "getFinalSecurityPolicyResource env st' obj createdFor v d = Inr (sp, rs, gs, shs, sgs, False)"
    for obj v d sp rs gs shs sgs
    using final_resources [OF that(2)] only that(1) by (metis marked_def nsx_object.select_convs(3) nsx_object.surjective nsx_object.update_convs(3))
  with r(1) show ?thesis by blast
qed

section \<open>A service with a stored policy\<close>

datatype fw_value = PolicyV nsx_policy | RuleV nsx_rule | GroupV nsx_group | ShareV nsx_share

definition demoOps ::
  "((string \<times> policy_obj) list, (string \<times> rule_obj) list, (string \<times> group_obj) list, (string \<times> share_obj) list) fw_ops" where
  "demoOps = (let sc = ''nsx-op/security_policy_uid'' in
    \<lparr>foPolicy = al_ops policyKey (policyIndexers sc), foRule = al_ops ruleKey (ruleIndexers sc),
     foGroup = al_ops groupKey (groupIndexers sc), foShare = al_ops shareKey (shareIndexers sc)\<rparr>)"

definition demoTagsOf :: "nsx_tag list" where
  "demoTagsOf = [mk_tag ''nsx-op/security_policy_uid'' ''uid-2'']"

definition storedPolicy :: policy_obj where
  "storedPolicy = \<lparr>obBody = \<lparr>npId = ''p1'', npDisplayName = ''policy'', npSequence = 5, npScope = [''ANY''], npTags = demoTagsOf, npRules = []\<rparr>,
     obPath = Some ''/orgs/o/projects/q/vpcs/v/security-policies/p1'', obMarked = None\<rparr>"

definition storedRule :: rule_obj where
  "storedRule = fresh \<lparr>nrId = ''r1'', nrDisplayName = ''r'', nrDirection = ''IN'', nrSequence = 0, nrAction = ''DROP'', nrTags = demoTagsOf,
     nrServiceEntries = [], nrSourceGroups = [''ANY''], nrDestinationGroups = [''ANY''], nrScope = [''ANY'']\<rparr>"

definition storedGroup :: group_obj where
  "storedGroup = fresh \<lparr>ngId = ''g1'', ngDisplayName = ''g'', ngTags = demoTagsOf, ngPath = None, ngExpression = []\<rparr>"

definition demoVPC :: vpc_resource_info where
  "demoVPC = \<lparr>OrgID = ''o'', ProjectID = ''q'', VPCID = ''v'', ResID = [], ParentID = []\<rparr>"

text \<open>Calls are counted; \<open>deletes\<close> tells whether NSX accepts the deletion of a policy.\<close>

definition demoFwEnv :: "bool \<Rightarrow> (nat, (string \<times> policy_obj) list, (string \<times> rule_obj) list, (string \<times> group_obj) list, (string \<times> share_obj) list, string, fw_value) fw_env" where
  "demoFwEnv deletes =
    \<lparr>feSp = vpcEnv, feOps = demoOps, feConv = (\<lambda>_. Inr ''d''), fePatchInfra = (\<lambda>_ n. (None, Suc n)), fePatchOrgRoot = (\<lambda>_ n. (None, Suc n)),
     feGetVpcPolicy = (\<lambda>_ _ _ _ n. (Inr storedPolicy, Suc n)), feGetPolicy = (\<lambda>_ _ n. (Inr storedPolicy, Suc n)),
     feDeleteVpcPolicy = (\<lambda>_ _ _ _ n. (if deletes then None else Some (OtherError ''busy''), Suc n)),
     fePatchVpcGroup = (\<lambda>_ _ _ _ n. (None, Suc n)), fePatchGroup = (\<lambda>_ _ n. (None, Suc n)),
     feEntities = (\<lambda>_ n. (Inr [\<lparr>enId = ''e'', enState = ''REALIZED'', enAlarms = []\<rparr>], Suc n)), feApi = noConvert,
     feListVPCInfo = (\<lambda>_. [demoVPC]), feIsDefaultProject = (\<lambda>_ _. Inr False),
     feRuleOrder = id, feGroupOrder = id, feShareOrder = id,
     fePolicyEnc = PolicyV, feRuleEnc = RuleV, feGroupEnc = GroupV, feShareEnc = ShareV, feDFWLicense = True\<rparr>"

definition demoFwState :: "(nat, (string \<times> policy_obj) list, (string \<times> rule_obj) list, (string \<times> group_obj) list, (string \<times> share_obj) list) fw_state" where
  "demoFwState = \<lparr>fwNSX = 0, fwPolicies = [(''p1'', storedPolicy)], fwRules = [(''r1'', storedRule)], fwGroups = [(''g1'', storedGroup)],
     fwInfraGroups = [], fwInfraShares = [], fwProjectGroups = [], fwProjectShares = []\<rparr>"

lemma demo_firewall: "firewall (demoFwEnv b)"
  by (intro firewall.intro)
    (simp_all add: demoFwEnv_def demoOps_def uidScope_def vpcEnv_def securityPolicyUIDTagScope_def Let_def reconciled_al inj_def is_order_id)

interpretation demoFw: firewall "demoFwEnv b" for b by (rule demo_firewall)

definition emptiedPolicy :: sp_policy where
  "emptiedPolicy = \<lparr>spName = ''policy'', spNamespace = ''ns'', spUID = ''uid-2'', spPriority = 10, spAppliedTo = [], spRules = []\<rparr>"

definition emptiedBuilt :: nsx_policy where
  "emptiedBuilt = \<lparr>npId = ''p1'', npDisplayName = ''policy'', npSequence = 10, npScope = [''ANY''],
     npTags = buildBasicTags vpcEnv emptiedPolicy ''SecurityPolicy'', npRules = []\<rparr>"

lemmas demo_defs = builderEnv_def demoFwEnv_def demoOps_def demoFwState_def al_ops_def vpcEnv_def Let_def

lemma demo_built:
  "buildSecurityPolicy (builderEnv (demoFwEnv True) demoFwState) (normalizeSecurityPolicyRules emptiedPolicy) ''SecurityPolicy'' (Some demoVPC) False
     = Inr (emptiedBuilt, [], [])"
proof -
  let ?e = "builderEnv (demoFwEnv True) demoFwState"
  have n: "normalizeSecurityPolicyRules emptiedPolicy = emptiedPolicy" by code_simp
  have "buildSecurityPolicyIDAndName ?e emptiedPolicy ''SecurityPolicy'' = Inr (''p1'', ''policy'')"
    by (simp add: buildSecurityPolicyIDAndName_def forNetworkPolicy_def demo_defs emptiedPolicy_def
        storedPolicy_def demoTagsOf_def hasTag_def mk_tag_def securityPolicyUIDTagScope_def policyKey_def)
  moreover have "getAppliedGroupByRuleID ?e ''SecurityPolicy'' ''uid-2'' [] = Some (obBody storedGroup)"
    by code_simp
  then have "buildPolicyGroup ?e emptiedPolicy ''SecurityPolicy'' (Some demoVPC) = Inr (None, ''ANY'')"
    by (simp add: buildPolicyGroup_def buildAppliedGroupIDAndName_def demo_defs emptiedPolicy_def)
  moreover have "buildBasicTags ?e emptiedPolicy ''SecurityPolicy'' = buildBasicTags vpcEnv emptiedPolicy ''SecurityPolicy''"
    by (simp add: buildBasicTags_def demo_defs)
  ultimately show ?thesis unfolding n by (simp add: buildSecurityPolicy_def emptiedBuilt_def) (simp add: emptiedPolicy_def)
qed

lemma map_res_const: "map_res (\<lambda>_. Inr d) xs = Inr (map (\<lambda>_. d) xs)"
  by (induction xs) auto

lemma demo_written: "\<exists>w. createOrUpdateNSXSecurityPolicy (demoFwEnv True) sp rs gs shs sgs v n = (Inr storedPolicy, w)"
proof -
  have c: "feConv (demoFwEnv True) = (\<lambda>_. Inr ''d'')" by (simp add: demoFwEnv_def)
  obtain ds where "bind_res (if shs \<noteq> [] then wrapHierarchyProjectResources (feConv (demoFwEnv True)) shs sgs else Inr []) (\<lambda>projectInfra.
      wrapHierarchyVpcSecurityPolicy (feConv (demoFwEnv True)) (Some (sp, rs)) gs projectInfra v) = Inr ds"
    by (simp add: c map_res_const wrapHierarchyProjectResources_def wrapSharedChildren_def wrapShares_def wrapGroups_def wrapDomainResource_def wrapReference_def
        wrapChildTargetInfra_def wrapHierarchyVpcSecurityPolicy_def wrapOrg_def wrapProject_def wrapVPC_def wrapRules_def wrapSecurityPolicy_def)
  moreover have "\<exists>w. getRealizedPolicy (demoFwEnv True) i v m = (Inr storedPolicy, w)" for i m
  proof -
    have "checkOnce noConvert (feEntities (demoFwEnv True)) path [] m = (None, Suc m)" for path and m :: nat
      by (simp add: checkOnce_def demoFwEnv_def checkEntities_def)
    then have "CheckRealizeState noConvert (feEntities (demoFwEnv True)) NSXTRealizeRetrySteps path [] m = (None, Suc m)" for path and m :: nat
      by (simp add: CheckRealizeState_def NSXTRealizeRetrySteps_def numeral_eq_Suc)
    then show ?thesis
      by (simp add: getRealizedPolicy_def checkSecurityPolicyRealizationState_def storedPolicy_def demoFwEnv_def)
  qed
  moreover have "fePatchOrgRoot (demoFwEnv True) = (\<lambda>_ n. (None, Suc n))" by (simp add: demoFwEnv_def)
  ultimately show ?thesis unfolding createOrUpdateNSXSecurityPolicy_def Let_def sendBody_def
    by (auto split: if_splits)
qed

lemma demo_created: "fst (createOrUpdateVPCSecurityPolicy (demoFwEnv True) demoFwState emptiedPolicy ''SecurityPolicy'') = None"
proof -
  let ?env = "demoFwEnv True"
  have v: "getVPCInfo ?env (spNamespace emptiedPolicy) = Inr demoVPC" "feIsDefaultProject ?env (OrgID demoVPC) (ProjectID demoVPC) = Inr False" by code_simp+
  show ?thesis
  proof (cases "getFinalSecurityPolicyResource ?env demoFwState emptiedPolicy ''SecurityPolicy'' (Some demoVPC) False")
    case (Inl e)
    then show ?thesis by (simp add: getFinalSecurityPolicyResource_def demo_built Let_def split: prod.splits)
  next
    case (Inr f)
    obtain sp rs gs shs sgs ch where f: "f = (sp, rs, gs, shs, sgs, ch)" by (cases f)
    obtain w where "createOrUpdateNSXSecurityPolicy ?env sp rs gs shs sgs demoVPC (fwNSX demoFwState) = (Inr storedPolicy, w)"
      using demo_written by blast
    with v Inr f show ?thesis by (simp add: createOrUpdateVPCSecurityPolicy_def)
  qed
qed

lemma no_rules_built:
  "buildSecurityPolicy env obj createdFor v d = Inr (built, gs, shs) \<Longrightarrow> spRules obj = [] \<Longrightarrow> npRules built = []"
  by (auto simp: buildSecurityPolicy_def split: if_splits)


lemma demo_deleted: "fst (deleteVPCSecurityPolicy (demoFwEnv True) demoFwState ''uid-2'' False ''SecurityPolicy'') = None"
  by code_simp

theorem VPC_delete_spec_witness:
  "\<exists>st'. deleteVPCSecurityPolicy (demoFwEnv True) demoFwState ''uid-2'' False ''SecurityPolicy'' = (None, st')
     \<and> GetByIndex (foPolicy demoOps) (fwPolicies st') ''nsx-op/security_policy_uid'' ''uid-2'' = []
     \<and> GetByIndex (foRule demoOps) (fwRules st') ''nsx-op/security_policy_uid'' ''uid-2'' = []"
proof -
  obtain st' where st': "deleteVPCSecurityPolicy (demoFwEnv True) demoFwState ''uid-2'' False ''SecurityPolicy'' = (None, st')"
    using demo_deleted by (cases "deleteVPCSecurityPolicy (demoFwEnv True) demoFwState ''uid-2'' False ''SecurityPolicy''") auto
  have one: "length (GetByIndex (foPolicy (feOps (demoFwEnv True))) (fwPolicies demoFwState) (ownerScope (demoFwEnv True) ''SecurityPolicy'') ''uid-2'') \<le> 1"
    "GetByIndex (foPolicy (feOps (demoFwEnv True))) (fwPolicies demoFwState) (ownerScope (demoFwEnv True) ''SecurityPolicy'') ''uid-2'' \<noteq> []"
    by code_simp+
  have "ownerScope (demoFwEnv True) ''SecurityPolicy'' = ''nsx-op/security_policy_uid''" by code_simp
  then show ?thesis using VPC_delete_spec [OF demo_firewall st' one(1)] one(2) st' by (simp add: demoFwEnv_def)
qed

theorem failed_delete_keeps_mark_witness:
  "\<exists>err st'. deleteVPCSecurityPolicy (demoFwEnv False) demoFwState ''uid-2'' False ''SecurityPolicy'' = (err, st')
     \<and> err = Some (CallFailed (OtherError ''busy''))
     \<and> (\<forall>obj v d sp rs gs shs sgs. spUID obj = ''uid-2'' \<longrightarrow>
         getFinalSecurityPolicyResource (demoFwEnv False) st' obj ''SecurityPolicy'' v d = Inr (sp, rs, gs, shs, sgs, False) \<longrightarrow> obMarked sp = Some True)"
proof -
  let ?path = "''/orgs/o/projects/q/vpcs/v/security-policies/p1''"
  have h: "GetByIndex (foPolicy (feOps (demoFwEnv False))) (fwPolicies demoFwState) (ownerScope (demoFwEnv False) ''SecurityPolicy'') ''uid-2'' = [storedPolicy]"
    "obPath storedPolicy = Some ?path" "VPCID (vpcOfPath ?path) \<noteq> []"
    "feIsDefaultProject (demoFwEnv False) (OrgID (vpcOfPath ?path)) (ProjectID (vpcOfPath ?path)) = Inr False"
    "feDeleteVpcPolicy (demoFwEnv False) (OrgID (vpcOfPath ?path)) (ProjectID (vpcOfPath ?path)) (VPCID (vpcOfPath ?path))
       (npId (obBody storedPolicy)) (fwNSX demoFwState) = (Some (OtherError ''busy''), 1)"
    by code_simp+
  obtain err st' where d: "deleteVPCSecurityPolicy (demoFwEnv False) demoFwState ''uid-2'' False ''SecurityPolicy'' = (err, st')"
    by (cases "deleteVPCSecurityPolicy (demoFwEnv False) demoFwState ''uid-2'' False ''SecurityPolicy''")
  have "apiFailed (demoFwEnv False) (OtherError ''busy'') = CallFailed (OtherError ''busy'')" by code_simp
  then show ?thesis using failed_delete_keeps_mark [OF demo_firewall h d] d by simp
qed

end
