(* ===== verification/HashVector.thy ===== *)
theory HashVector
  imports Naming
begin

text \<open>
  The SHA-1 of the three bytes \<open>abc\<close>, the test vector of FIPS 180-4, evaluated by the kernel, and the suffix of identifiers that comes from it. The
  rounds are computed on integers below \<open>2 ^ 32\<close>.
\<close>

unbundle bit_operations_syntax

section \<open>Rounds on integers\<close>

definition rotl_int :: "nat \<Rightarrow> int \<Rightarrow> int" where
  "rotl_int n a = push_bit n a OR drop_bit (32 - n) a"

definition fk_int :: "nat \<Rightarrow> int \<Rightarrow> int \<Rightarrow> int \<Rightarrow> int" where
  "fk_int t b c d =
    (if t < 20 then ((b AND c) OR (NOT b AND d)) + 0x5A827999
     else if t < 40 then (b XOR c XOR d) + 0x6ED9EBA1
     else if t < 60 then (((b OR c) AND d) OR (b AND c)) + 0x8F1BBCDC
     else (b XOR c XOR d) + 0xCA62C1D6)"

type_synonym int_state = "int \<times> int \<times> int \<times> int \<times> int"

definition round_int :: "int_state \<Rightarrow> nat \<times> int \<Rightarrow> int_state" where
  "round_int st tw =
    (let (a, b, c, d, e) = st; (t, w) = tw in
     ((rotl_int 5 a + fk_int t b c d + e + w) mod 4294967296, a, rotl_int 30 b mod 4294967296, c, d))"

definition small :: "int \<Rightarrow> bool" where "small x \<longleftrightarrow> 0 \<le> x \<and> x < 4294967296"

definition state_word :: "int_state \<Rightarrow> sha1_state" where
  "state_word st = (let (a, b, c, d, e) = st in (word_of_int a, word_of_int b, word_of_int c, word_of_int d, word_of_int e))"

lemma word_rotl_32:
  assumes "0 < n" "n < 32"
  shows "word_rotl n (w :: 32 word) = push_bit n w OR drop_bit (32 - n) w"
proof (rule bit_word_eqI)
  fix k assume "k < LENGTH(32)"
  then have k: "k < 32" by simp
  have "(k + (32 - n mod 32)) mod 32 = (if k < n then k + (32 - n) else k - n)" using assms k by (auto simp: mod_if)
  then show "bit (word_rotl n w) k \<longleftrightarrow> bit (push_bit n w OR drop_bit (32 - n) w) k"
    using assms k bit_imp_le_length [of w "32 - n + k"] by (auto simp: bit_word_rotl_iff bit_simps add.commute [of 32 k])
qed

lemma word_of_int_mod: "(word_of_int (x mod 4294967296) :: 32 word) = word_of_int x"
  by (simp add: word_of_int_eq_iff take_bit_eq_mod)

lemma small_take_bit: "small x \<Longrightarrow> take_bit 32 x = x"
  by (simp add: small_def take_bit_eq_mod)

lemma word_of_int_bits:
  "word_of_int (a AND b) = (word_of_int a AND word_of_int b :: 32 word)" "word_of_int (a OR b) = (word_of_int a OR word_of_int b :: 32 word)"
  "word_of_int (a XOR b) = (word_of_int a XOR word_of_int b :: 32 word)" "word_of_int (NOT a) = (NOT (word_of_int a) :: 32 word)"
  "word_of_int (push_bit n a) = (push_bit n (word_of_int a) :: 32 word)"
  by (rule bit_word_eqI; auto simp: bit_simps)+

lemma word_of_int_drop:
  assumes "small a"
  shows "word_of_int (drop_bit n a) = (drop_bit n (word_of_int a) :: 32 word)"
proof -
  have "j < 32" if "bit a j" for j using small_take_bit [OF assms] that by (metis bit_take_bit_iff)
  then show ?thesis by (intro bit_word_eqI) (auto simp: bit_simps)
qed

lemma rotl_word: "0 < n \<Longrightarrow> n < 32 \<Longrightarrow> small a \<Longrightarrow> word_rotl n (word_of_int a :: 32 word) = word_of_int (rotl_int n a)"
  by (simp add: word_rotl_32 rotl_int_def word_of_int_bits word_of_int_drop)

lemma round_word: "small a \<Longrightarrow> small b \<Longrightarrow> sha1_round (state_word (a, b, c, d, e)) (t, word_of_int w) = state_word (round_int (a, b, c, d, e) (t, w))"
  by (simp add: sha1_round_def round_int_def state_word_def sha1_fk_def fk_int_def rotl_word word_of_int_mod word_of_int_bits)

lemma rounds_word: "small a \<Longrightarrow> small b
    \<Longrightarrow> foldl sha1_round (state_word (a, b, c, d, e)) (map (\<lambda>(t, w). (t, word_of_int w)) xs) = state_word (foldl round_int (a, b, c, d, e) xs)"
proof (induction xs arbitrary: a b c d e)
  case (Cons x xs)
  obtain t w where x: "x = (t, w)" by (cases x)
  have "small (n mod 4294967296)" for n by (simp add: small_def)
  with Cons x show ?case by (simp add: round_word round_int_def)
qed simp

section \<open>The vector\<close>

lemma pad_abc: "be_words (sha1_pad ''abc'') = [0x61626380, 0x0, 0x0, 0x0, 0x0, 0x0, 0x0, 0x0, 0x0, 0x0, 0x0, 0x0, 0x0, 0x0, 0x0, 0x18]"
proof -
  have z: "replicate 52 (0 :: 8 word) = [0, 0, 0, 0, 0, 0, 0, 0, 0, 0, 0, 0, 0, 0, 0, 0, 0, 0, 0, 0, 0, 0, 0, 0, 0, 0, 0, 0, 0, 0, 0, 0, 0, 0, 0, 0, 0, 0, 0, 0, 0, 0, 0, 0, 0, 0, 0, 0, 0, 0, 0, 0]" by (simp add: eval_nat_numeral)
  have "sha1_pad ''abc'' = [0x61, 0x62, 0x63, 0x80] @ [0, 0, 0, 0, 0, 0, 0, 0, 0, 0, 0, 0, 0, 0, 0, 0, 0, 0, 0, 0, 0, 0, 0, 0, 0, 0, 0, 0, 0, 0, 0, 0, 0, 0, 0, 0, 0, 0, 0, 0, 0, 0, 0, 0, 0, 0, 0, 0, 0, 0, 0, 0] @ [0, 0, 0, 0, 0, 0, 0, 24]"
    unfolding z [symmetric] by (simp add: sha1_pad_def byte_of_char_def upt_rec Let_def)
  then show ?thesis by simp
qed

lemma sha1_expand_numeral:
  "sha1_expand (numeral k) r = sha1_expand (pred_numeral k) (word_rotl 1 (r ! 2 XOR r ! 7 XOR r ! 13 XOR r ! 15) # r)"
  by (simp add: numeral_eq_Suc)

definition schedule_0 :: "int list" where
  "schedule_0 = [0x61626380, 0x0, 0x0, 0x0, 0x0, 0x0, 0x0, 0x0, 0x0, 0x0, 0x0, 0x0, 0x0, 0x0, 0x0, 0x18, 0xC2C4C700, 0x0, 0x30, 0x85898E01]"

definition schedule_1 :: "int list" where
  "schedule_1 = [0x0, 0x60, 0xB131C03, 0x30, 0x85898EC1, 0x16263806, 0x0, 0x180, 0x2C4C700C, 0xF0, 0x93AFB507, 0x5898E048, 0x8E9A9202, 0x600, 0xB131C0F0, 0x16263BC6, 0x4EBED41E, 0x626380A1, 0x16263806, 0x18C0]"

definition schedule_2 :: "int list" where
  "schedule_2 = [0xD2E138C4, 0xF00, 0x3AFB5079, 0x898E04E5, 0xE2BA3C2B, 0x60C0, 0x53A37CD, 0x74458547, 0xDA9415ED, 0x26380A16, 0x626383A1, 0x4EBF54DE, 0x3835B44B, 0xF600, 0x1E84C7A3, 0x98E04D98, 0x651D16A0, 0x62658CA1, 0x458544D6, 0x44584CB7]"

definition schedule_3 :: "int list" where
  "schedule_3 = [0x7BA06619, 0x6380AEA2, 0xAE55269, 0x627B49A1, 0x7CD45C9D, 0xF0000, 0xFB50753A, 0xEC6765E8, 0xBA3C2BE2, 0x60C000, 0x3A37CD05, 0x458546F4, 0xB8599DD6, 0x380A1A26, 0x1E02203, 0xE7CC3456, 0xE6E60B69, 0xF60A00, 0x5795EF4F, 0x822E0879]"

lemma rounds_0: "foldl round_int (0x67452301, 0xEFCDAB89, 0x98BADCFE, 0x10325476, 0xC3D2E1F0) (zip [0..<20] schedule_0) = (0xFD9E1D7D, 0xDC64901D, 0x20AA99CA, 0xD3A49608, 0xC82F758B)"
proof -
  have u: "[0..<20] = (0 :: nat) # 1 # [2..<20]" by (simp add: upt_rec)
  show ?thesis unfolding u schedule_0_def by (simp add: round_int_def rotl_int_def fk_int_def)
qed

lemma rounds_1: "foldl round_int (0xFD9E1D7D, 0xDC64901D, 0x20AA99CA, 0xD3A49608, 0xC82F758B) (zip [20..<40] schedule_1) = (0x32DE1CBA, 0x4C986405, 0xF718E5CF, 0x3D447F6, 0xF72EEC32)"
  unfolding schedule_1_def by (simp add: round_int_def rotl_int_def fk_int_def)

lemma rounds_2: "foldl round_int (0x32DE1CBA, 0x4C986405, 0xF718E5CF, 0x3D447F6, 0xF72EEC32) (zip [40..<60] schedule_2) = (0x3F52DE5A, 0x9D785FD, 0x3498BFD4, 0xF211824F, 0xD79915AB)"
  unfolding schedule_2_def by (simp add: round_int_def rotl_int_def fk_int_def)

lemma rounds_3: "foldl round_int (0x3F52DE5A, 0x9D785FD, 0x3498BFD4, 0xF211824F, 0xD79915AB) (zip [60..<80] schedule_3) = (0x42541B35, 0x5738D5E1, 0x21834873, 0x681E6DF6, 0xD8FDF6AD)"
  unfolding schedule_3_def by (simp add: round_int_def rotl_int_def fk_int_def)

lemma expand_abc:
  "rev (sha1_expand 64 (rev [0x61626380, 0x0, 0x0, 0x0, 0x0, 0x0, 0x0, 0x0, 0x0, 0x0, 0x0, 0x0, 0x0, 0x0, 0x0, 0x18])) = map word_of_int (schedule_0 @ schedule_1 @ schedule_2 @ schedule_3)"
  by (simp add: sha1_expand_numeral word_rotl_32 schedule_0_def schedule_1_def schedule_2_def schedule_3_def)

lemma zip_upt_append: "length xs = k \<Longrightarrow> zip [n..<n + k + m] (xs @ ys) = zip [n..<n + k] xs @ zip [n + k..<n + k + m] ys"
  by (simp add: upt_add_eq_append [of n "n + k" m] zip_append)

lemma rounds_all:
  "foldl round_int (0x67452301, 0xEFCDAB89, 0x98BADCFE, 0x10325476, 0xC3D2E1F0) (zip [0..<80] (schedule_0 @ schedule_1 @ schedule_2 @ schedule_3)) = (0x42541B35, 0x5738D5E1, 0x21834873, 0x681E6DF6, 0xD8FDF6AD)"
proof -
  have l: "length schedule_0 = 20" "length schedule_1 = 20" "length schedule_2 = 20"
    by (simp_all add: schedule_0_def schedule_1_def schedule_2_def)
  have "zip [0..<80] (schedule_0 @ schedule_1 @ schedule_2 @ schedule_3)
    = zip [0..<20] schedule_0 @ zip [20..<40] schedule_1 @ zip [40..<60] schedule_2 @ zip [60..<80] schedule_3"
    using zip_upt_append [OF l(1), of 0 60] zip_upt_append [OF l(2), of 20 40] zip_upt_append [OF l(3), of 40 20]
    by (simp del: upt_rec_numeral)
  then show ?thesis by (simp only: foldl_append rounds_0 rounds_1 rounds_2 rounds_3)
qed

theorem sha1_abc: "sha1_sum ''abc'' = [0xA9, 0x99, 0x3E, 0x36, 0x47, 0x6, 0x81, 0x6A, 0xBA, 0x3E, 0x25, 0x71, 0x78, 0x50, 0xC2, 0x6C, 0x9C, 0xD0, 0xD8, 0x9D]"
proof -
  let ?h = "(0x67452301, 0xEFCDAB89, 0x98BADCFE, 0x10325476, 0xC3D2E1F0)" and ?ws = "schedule_0 @ schedule_1 @ schedule_2 @ schedule_3"
  have "state_word ?h = (0x67452301, 0xEFCDAB89, 0x98BADCFE, 0x10325476, 0xC3D2E1F0)" by (simp add: state_word_def)
  moreover have "zip [0..<80 :: nat] (map word_of_int ?ws :: 32 word list) = map (\<lambda>(t, w). (t, word_of_int w)) (zip [0..<80] ?ws)" by (rule zip_map2)
  ultimately have "foldl sha1_round (0x67452301, 0xEFCDAB89, 0x98BADCFE, 0x10325476, 0xC3D2E1F0) (zip [0..<80] (map word_of_int ?ws)) = state_word (0x42541B35, 0x5738D5E1, 0x21834873, 0x681E6DF6, 0xD8FDF6AD)"
    using rounds_word [of "0x67452301" "0xEFCDAB89" "0x98BADCFE" "0x10325476" "0xC3D2E1F0" "zip [0..<80] ?ws", unfolded rounds_all]
    by (simp only: small_def) (simp del: map_append upt_rec_numeral)
  then have "sha1_block (0x67452301, 0xEFCDAB89, 0x98BADCFE, 0x10325476, 0xC3D2E1F0) [0x61626380, 0x0, 0x0, 0x0, 0x0, 0x0, 0x0, 0x0, 0x0, 0x0, 0x0, 0x0, 0x0, 0x0, 0x0, 0x18] = (0xA9993E36, 0x4706816A, 0xBA3E2571, 0x7850C26C, 0x9CD0D89D)"
    unfolding sha1_block_def expand_abc by (simp add: state_word_def)
  then show ?thesis unfolding sha1_sum_def pad_abc by (simp add: word_bytes_def)
qed

text \<open>The suffix of the identifiers of resources in a namespace whose UID is \<open>abc\<close>.\<close>

lemma TruncateUIDHash_abc: "TruncateUIDHash ''abc'' = Some ''jt72f''"
proof -
  have "Sha1WithCustomizedCharset ''abc'' = ''jt72fo5t4yobf0qugwuczbwj07max7h''"
    unfolding Sha1WithCustomizedCharset_def getSha1Bytes_def sha1_abc by (simp add: charsetDigits.simps HashCharset_def)
  then show ?thesis by (simp add: TruncateUIDHash_def UUIDHashLength_def slice_to_def)
qed

lemma GenerateIDByObject_abc: "n \<noteq> [] \<Longrightarrow> length n \<le> 200 \<Longrightarrow> GenerateIDByObject \<lparr>Name = n, Namespace = ns, UID = ''abc''\<rparr> = Some (n @ ''_jt72f'')"
  by (simp add: GenerateIDByObject_def TruncateUIDHash_abc Let_def connect_two limit_defs)

end
