(* ===== verification/VpcChild.thy ===== *)
theory VpcChild
  imports PolicyTree RealizeState KubeUtil HashVector
begin

text \<open>
  What the services for the children of a VPC share: the NSX client of one type of resource, the index of a store by a tag, the
  identifier and name of a resource built for a namespaced object, and the deletion of all stored resources page by page
  (\<open>CleanupVPCChildResources\<close> of the services).
\<close>

section \<open>The NSX client of one type of resource\<close>

text \<open>The identifiers of the parents (organization, project, VPC and, for a child of a subnet, the subnet) and the identifier of the
  resource are given.\<close>

record ('w, 'o) child_client =
  ccPatch :: "string list \<Rightarrow> string \<Rightarrow> 'o \<Rightarrow> 'w \<Rightarrow> go_error option \<times> 'w"
  ccGet :: "string list \<Rightarrow> string \<Rightarrow> 'w \<Rightarrow> (go_error + 'o) \<times> 'w"
  ccDelete :: "string list \<Rightarrow> string \<Rightarrow> 'w \<Rightarrow> go_error option \<times> 'w"

text \<open>The documented behaviour of the NSX policy API on the resources of one type: \<open>held\<close> is what NSX holds, \<open>intent\<close> the part of a
  resource that the caller sets and NSX keeps. A rejected call may leave any state.\<close>

locale nsx_child =
  fixes client :: "('w, 'o) child_client"
    and held :: "'w \<Rightarrow> string list \<Rightarrow> string \<Rightarrow> 'o option"
    and intent :: "'o \<Rightarrow> 'v"
  assumes patched: "ccPatch client ids i x w = (None, w') \<Longrightarrow> \<exists>y. held w' ids i = Some y \<and> intent y = intent x"
    and patch_others: "ccPatch client ids i x w = (None, w') \<Longrightarrow> (ids', i') \<noteq> (ids, i) \<Longrightarrow> held w' ids' i' = held w ids' i'"
    and got: "ccGet client ids i w = (Inr y, w') \<Longrightarrow> held w ids i = Some y"
    and get_keeps: "ccGet client ids i w = (r, w') \<Longrightarrow> held w' = held w"
    and deleted: "ccDelete client ids i w = (None, w') \<Longrightarrow> held w' ids i = None"
    and delete_others: "ccDelete client ids i w = (None, w') \<Longrightarrow> (ids', i') \<noteq> (ids, i) \<Longrightarrow> held w' ids' i' = held w ids' i'"
begin

lemma patch_get:
  assumes "ccPatch client ids i x w = (None, w1)" "ccGet client ids i w1 = (Inr y, w2)"
  shows "intent y = intent x \<and> held w2 ids i = Some y"
  using patched [OF assms(1)] got [OF assms(2)] get_keeps [OF assms(2)] by auto

end

text \<open>A client over an association list.\<close>

definition al_client :: "((string list \<times> string) \<times> 'o) list \<Rightarrow> string list \<Rightarrow> string \<Rightarrow> 'o option" where
  "al_client w ids i = map_of w (ids, i)"

definition al_child :: "('o \<Rightarrow> string list \<Rightarrow> string \<Rightarrow> 'o) \<Rightarrow> (((string list \<times> string) \<times> 'o) list, 'o) child_client" where
  "al_child place =
    \<lparr>ccPatch = (\<lambda>ids i x w. (None, AList.update (ids, i) (place x ids i) w)),
     ccGet = (\<lambda>ids i w. (case map_of w (ids, i) of None \<Rightarrow> Inl (OtherError ''not found'') | Some y \<Rightarrow> Inr y, w)),
     ccDelete = (\<lambda>ids i w. (None, AList.delete (ids, i) w))\<rparr>"

lemma nsx_child_al: "(\<And>x ids i. intent (place x ids i) = intent x) \<Longrightarrow> nsx_child (al_child place) al_client intent"
  by unfold_locales (auto simp: al_child_def al_client_def fun_eq_iff split: option.splits)

lemma CheckRealizeState_realized:
  assumes "lst path w = (Inr es, w')" "checkEntities path ids es = None"
  shows "CheckRealizeState api lst NSXTRealizeRetrySteps path ids w = (None, w')"
proof -
  have s: "NSXTRealizeRetrySteps = Suc 49" by (simp add: NSXTRealizeRetrySteps_def)
  show ?thesis unfolding CheckRealizeState_def s OnError.simps by (simp add: checkOnce_def assms)
qed

text \<open>The check of the realization only reads: what a listing keeps, it keeps.\<close>

lemma CheckRealizeState_keeps:
  assumes "\<And>path w r w'. lst path w = (r, w') \<Longrightarrow> h w' = h w"
  shows "h (snd (CheckRealizeState api lst n path ids w)) = h w"
proof -
  have once: "h (snd (checkOnce api lst path ids w)) = h w" for w
    using assms by (cases "lst path w") (auto simp: checkOnce_def split: sum.splits)
  have "h (snd (OnError n ret (checkOnce api lst path ids) e w)) = h w" for ret e
  proof (induction n arbitrary: e w)
    case (Suc n)
    then show ?case using once [of w] by (auto split: prod.splits option.splits)
  qed simp
  then show ?thesis by (simp add: CheckRealizeState_def)
qed

text \<open>Errors of the Kubernetes client, told apart by \<open>IsNotFound\<close>.\<close>

datatype k8s_error = K8sNotFound gerror | K8sError gerror

section \<open>Stores\<close>

text \<open>\<open>filterTag\<close> of the services: the values of the tags of one scope.\<close>

definition tagValues :: "nsx_tag list \<Rightarrow> string \<Rightarrow> string list" where
  "tagValues tags scope = map (\<lambda>t. the (snd t)) (filter (\<lambda>t. the (fst t) = scope) tags)"

lemma tagValues_simps [simp]:
  "tagValues [] scope = []" "tagValues (a @ b) scope = tagValues a scope @ tagValues b scope"
  "tagValues (mk_tag sc v # tags) scope = (if sc = scope then v # tagValues tags scope else tagValues tags scope)"
  by (simp_all add: tagValues_def mk_tag_def)

text \<open>The functions that return the value of the first tag of a scope, or the empty string.\<close>

definition firstTag :: "nsx_tag list \<Rightarrow> string \<Rightarrow> string" where
  "firstTag tags scope = (case tagValues tags scope of [] \<Rightarrow> [] | v # _ \<Rightarrow> v)"

definition GetNamespaceUIDFromTag :: "nsx_tag list \<Rightarrow> string" where
  "GetNamespaceUIDFromTag tags = firstTag tags ''nsx-op/namespace_uid''"

definition MaxNameLength :: int where "MaxNameLength = 255"

text \<open>The identifier of a resource for a namespaced object: it is built from the object's name and the UID of the namespace, and is
  fresh in the store. \<open>None\<close> is a panic, or a loop without end.\<close>

definition namespacedID :: "(nat \<Rightarrow> string) \<Rightarrow> (string \<Rightarrow> bool) \<Rightarrow> string \<Rightarrow> nsx_tag list \<Rightarrow> string option" where
  "namespacedID uuid exists name tags =
    BuildUniqueIDWithRandomUUID uuid \<lparr>Name = name, Namespace = [], UID = GetNamespaceUIDFromTag tags\<rparr> GenerateIDByObject exists"

definition truncatedName :: "string \<Rightarrow> string option" where
  "truncatedName name = GenerateTruncName MaxNameLength name [] [] [] []"

lemma namespacedID_abc:
  assumes "GetNamespaceUIDFromTag tags = ''abc''" "n \<noteq> []" "length n \<le> 200" "\<not> exists (n @ ''_jt72f'')"
  shows "namespacedID uuid exists n tags = Some (n @ ''_jt72f'')"
  using assms by (simp add: namespacedID_def BuildUniqueIDWithRandomUUID_def GenerateIDByObject_abc uniqueIdLoop.simps)

lemma truncatedName_short: "n \<noteq> [] \<Longrightarrow> length n \<le> 255 \<Longrightarrow> truncatedName n = Some n"
  by (simp add: truncatedName_def GenerateTruncName_def MaxNameLength_def connectStrings_def generateDisplayName_def Let_def)

section \<open>Deletion of all resources\<close>

record ('w, 'o, 'd) tree_client =
  tcConv :: "('o, 'd) vapi_converter"
  tcOrder :: "'d child_order"
  tcApi :: converter
  tcPatch :: "('w, 'd) patch_client"

text \<open>The deletion of resources that are marked, in pages of \<open>DefaultHAPIChildrenCount\<close>; the resources of a page that NSX has accepted leave
  the store.\<close>

definition pagedDelete ::
  "('w, 'o, 'd) tree_client \<Rightarrow> PolicyResourcePath \<Rightarrow> ('s, 'o) indexer_ops \<Rightarrow> ('o \<Rightarrow> 'o nsx_resource) \<Rightarrow> (nat \<Rightarrow> gerror option) \<Rightarrow> 'o list \<Rightarrow> 'w \<Rightarrow> 's \<Rightarrow>
   (go_error option \<times> 'w \<times> 's) option" where
  "pagedDelete tc path ops res ctxDone objs w s =
    PagingUpdateResources (tcConv tc) (tcOrder tc) (tcApi tc) (tcPatch tc) (builder_of path) ctxDone (map res objs) DefaultHAPIChildrenCount
      (Some (\<lambda>rs s. foldl (ixDelete ops) s (map ResBody rs))) w s"

lemma fold_delete_resources:
  "fold (\<lambda>rs s. foldl (ixDelete ops) s (map ResBody rs)) pages s = foldl (ixDelete ops) s (map ResBody (concat pages))"
  by (induction pages arbitrary: s) auto

lemma pagedDelete_spec:
  assumes path: "(m, path) \<in> set policyPaths" and body: "\<And>x. ResBody (res x) = x" and ix: "indexer ops kf idx"
  shows "\<exists>err w' s'. pagedDelete tc path ops res (\<lambda>_. None) objs w s = Some (err, w', s')
    \<and> (err = None \<longrightarrow> (\<forall>x \<in> set objs. ixGetByKey ops s' (kf x) = None))
    \<and> (\<forall>k. k \<notin> kf ` set objs \<longrightarrow> ixGetByKey ops s' k = ixGetByKey ops s k)
    \<and> (\<forall>k. ixGetByKey ops s' k \<noteq> None \<longrightarrow> ixGetByKey ops s' k = ixGetByKey ops s k)"
proof -
  obtain pages es w' where r: "concat pages = map res objs"
    "runs (UpdateMultipleResourcesOnNSX (tcConv tc) (tcOrder tc) (tcApi tc) (tcPatch tc) (builder_of path)) pages es w w'"
    "pagedDelete tc path ops res (\<lambda>_. None) objs w s
      = Some (lastError None es, w', foldl (ixDelete ops) s (map ResBody (concat (succeeded pages es))))"
    using PagingUpdateResources_runs [OF path, of DefaultHAPIChildrenCount "map res objs" "tcConv tc" "tcOrder tc" "tcApi tc" "tcPatch tc" w
        "\<lambda>rs s. foldl (ixDelete ops) s (map ResBody rs)" s]
    by (auto simp: DefaultHAPIChildrenCount_def pagedDelete_def fold_delete_resources)
  define K where "K = kf ` set (map ResBody (concat (succeeded pages es)))"
  note get = indexer.fold_delete [OF ix, of s "map ResBody (concat (succeeded pages es))", folded K_def]
  have all: "kf ` ResBody ` set (concat pages) = kf ` set objs" unfolding r(1) by (simp add: image_image body)
  have "K \<subseteq> kf ` set objs" using succeeded_subset [of pages es] unfolding K_def all [symmetric] by auto
  moreover have "K = kf ` set objs" if "lastError None es = None"
    using that all succeeded_all [of es pages] runs_length [OF r(2)] unfolding K_def by (auto simp: lastError_None)
  ultimately show ?thesis using r(3) get by auto
qed

text \<open>Marking the stored resources and deleting all of them empties the store, when it succeeds.\<close>

definition markAll :: "('s, 'o) indexer_ops \<Rightarrow> ('o \<Rightarrow> 'o) \<Rightarrow> 's \<Rightarrow> 'o list \<times> 's" where
  "markAll ops mark s = (let objs = map mark (ixList ops s) in (objs, foldl (ixAdd ops) s objs))"

lemma markAll_keys:
  assumes ix: "indexer ops kf idx" and mark: "\<And>x. kf (mark x) = kf x" and m: "markAll ops mark s = (objs, s')"
    and k: "ixGetByKey ops s' k \<noteq> None"
  shows "k \<in> kf ` set objs"
proof (cases "List.find (\<lambda>x. kf x = k) (rev objs)")
  case None
  have "s' = foldl (ixAdd ops) s objs" and objs: "objs = map mark (ixList ops s)" using m by (auto simp: markAll_def Let_def)
  then obtain x where x: "ixGetByKey ops s k = Some x" using k None indexer.fold_add [OF ix] by auto
  then have "x \<in> set (ixList ops s)" "kf (mark x) = k" using indexer.list_all [OF ix] indexer.get_key [OF ix] mark by auto
  then show ?thesis unfolding objs by force
next
  case (Some y)
  then show ?thesis using find_Some_in by fastforce
qed

lemma pagedDelete_marked:
  assumes path: "(m, path) \<in> set policyPaths" and body: "\<And>x. ResBody (res x) = x" and ix: "indexer ops kf idx"
    and mark: "\<And>x. kf (mark x) = kf x" and objs: "markAll ops mark s = (objs, s1)"
  shows "\<exists>err w' s'. pagedDelete tc path ops res (\<lambda>_. None) objs w s1 = Some (err, w', s') \<and> (err = None \<longrightarrow> (\<forall>k. ixGetByKey ops s' k = None))"
proof -
  obtain err w' s' where d: "pagedDelete tc path ops res (\<lambda>_. None) objs w s1 = Some (err, w', s')"
    "err = None \<longrightarrow> (\<forall>x \<in> set objs. ixGetByKey ops s' (kf x) = None)"
    "\<forall>k. ixGetByKey ops s' k \<noteq> None \<longrightarrow> ixGetByKey ops s' k = ixGetByKey ops s1 k"
    using pagedDelete_spec [OF path body ix, where tc = tc and objs = objs and w = w and s = s1] by blast
  have "ixGetByKey ops s' k = None" if "err = None" for k
    using that d(2,3) markAll_keys [OF ix mark objs, of k] by (metis imageE)
  with d(1) show ?thesis by blast
qed

end
