(* ===== verification/IpBlocksInfo.thy ===== *)
theory IpBlocksInfo
  imports VpcChild
begin

unbundle bit_operations_syntax

text \<open>
  The published IP blocks of \<open>pkg/nsx/services/ipblocksinfo\<close>: the CIDRs and ranges of the IP blocks that the VPC network configurations
  refer to are collected from NSX, merged with the CIDRs of shared subnets and written into the custom resource \<open>IPBlocksInfo\<close>.
  The CIDRs of the resource denote exactly the addresses that were collected, and an incremental update loses none.
\<close>

section \<open>Networks of package net\<close>

type_synonym ipnet = "IP \<times> IP"

definition networkNumberAndMask :: "ipnet \<Rightarrow> IP \<times> IP" where
  "networkNumberAndMask n =
    (let ip4 = To4 (fst n); ip = (if ip4 = [] then fst n else ip4); m = snd n in
     if ip4 = [] \<and> length ip \<noteq> 16 then ([], [])
     else if length m = 4 then (if length ip \<noteq> 4 then ([], []) else (ip, m))
     else if length m = 16 then (ip, if length ip = 4 then drop 12 m else m)
     else ([], []))"

definition IPNet_Contains :: "ipnet \<Rightarrow> IP \<Rightarrow> bool" where
  "IPNet_Contains n ip0 =
    (let (nn, m) = networkNumberAndMask n; ip = (if To4 ip0 \<noteq> [] then To4 ip0 else ip0) in
     length ip = length nn \<and> map2 (AND) nn m = map2 (AND) ip m)"

text \<open>The leading ones of a byte and what is left after them; a byte has eight bits.\<close>

fun leadingOnes :: "nat \<Rightarrow> 8 word \<Rightarrow> nat \<times> 8 word" where
  "leadingOnes 0 v = (0, v)"
| "leadingOnes (Suc k) v =
    (if v AND 0x80 \<noteq> 0 then (case leadingOnes k (push_bit 1 v) of (n, r) \<Rightarrow> (Suc n, r)) else (0, v))"

fun simpleMaskLength :: "IP \<Rightarrow> nat option" where
  "simpleMaskLength [] = Some 0"
| "simpleMaskLength (v # m) =
    (if v = 0xff then map_option ((+) 8) (simpleMaskLength m)
     else (case leadingOnes 8 v of (n, r) \<Rightarrow> if r \<noteq> 0 \<or> \<not> list_all (\<lambda>b. b = 0) m then None else Some n))"

definition Mask_Size :: "IP \<Rightarrow> nat \<times> nat" where
  "Mask_Size m = (case simpleMaskLength m of None \<Rightarrow> (0, 0) | Some ones \<Rightarrow> (ones, 8 * length m))"

section \<open>Merging CIDRs\<close>

definition maskContains :: "IP \<Rightarrow> IP \<Rightarrow> bool" where
  "maskContains sMask tMask =
    (let (onesS, bitsS) = Mask_Size sMask; (onesT, bitsT) = Mask_Size tMask in bitsS = bitsT \<and> onesS \<le> onesT)"

definition cidrSubset :: "IP \<Rightarrow> ipnet \<Rightarrow> ipnet \<Rightarrow> bool" where
  "cidrSubset ip tNet sNet \<longleftrightarrow> IPNet_Contains sNet ip \<and> maskContains (snd sNet) (snd tNet)"

text \<open>The loop over the target: networks so far and result so far.\<close>

fun mergeLoop :: "string list \<Rightarrow> ipnet list \<Rightarrow> string list \<Rightarrow> string list" where
  "mergeLoop [] nets result = result"
| "mergeLoop (t # ts) nets result =
    (case ParseCIDR t of
       None \<Rightarrow> mergeLoop ts nets result
     | Some (ip, tNet) \<Rightarrow>
         if list_ex (cidrSubset ip tNet) nets then mergeLoop ts nets result
         else mergeLoop ts (nets @ [tNet]) (result @ [t]))"

definition parsedNets :: "string list \<Rightarrow> ipnet list" where
  "parsedNets cidrs = concat (map (\<lambda>c. case ParseCIDR c of None \<Rightarrow> [] | Some (_, n) \<Rightarrow> [n]) cidrs)"

definition mergeIPCidrs :: "string list \<Rightarrow> string list \<Rightarrow> string list" where
  "mergeIPCidrs source target =
    (if source = [] then target
     else mergeLoop target (parsedNets source) (filter (\<lambda>c. ParseCIDR c \<noteq> None) source))"

section \<open>The addresses of a list of CIDRs\<close>

definition isAddr :: "IP \<Rightarrow> bool" where
  "isAddr x \<longleftrightarrow> length x = 4 \<or> length x = 16"

definition addrsOf :: "string list \<Rightarrow> IP set" where
  "addrsOf cidrs = {x. isAddr x \<and> (\<exists>n \<in> set (parsedNets cidrs). IPNet_Contains n x)}"

lemma set_parsedNets: "n \<in> set (parsedNets cs) \<longleftrightarrow> (\<exists>c \<in> set cs. \<exists>ip. ParseCIDR c = Some (ip, n))"
proof (induction cs)
  case Nil
  then show ?case by (simp add: parsedNets_def)
next
  case (Cons c cs)
  then show ?case by (cases "ParseCIDR c") (auto simp: parsedNets_def)
qed

lemma addrsOf_iff: "x \<in> addrsOf cs \<longleftrightarrow> isAddr x \<and> (\<exists>c \<in> set cs. \<exists>ip n. ParseCIDR c = Some (ip, n) \<and> IPNet_Contains n x)"
  unfolding addrsOf_def mem_Collect_eq Bex_def set_parsedNets by blast

lemma addrsOf_append [simp]: "addrsOf (a @ b) = addrsOf a \<union> addrsOf b"
  by (rule set_eqI) (simp only: addrsOf_iff Un_iff set_append, blast)

lemma addrsOf_Nil [simp]: "addrsOf [] = {}"
  by (simp add: addrsOf_def parsedNets_def)

lemma addrsOf_set: "set a = set b \<Longrightarrow> addrsOf a = addrsOf b"
  by (rule set_eqI) (simp only: addrsOf_iff)

lemma addrsOf_valid: "addrsOf (filter (\<lambda>c. ParseCIDR c \<noteq> None) cs) = addrsOf cs"
  by (rule set_eqI) (simp only: addrsOf_iff set_filter mem_Collect_eq, fastforce)

lemma byte_masks:
  "list_all (\<lambda>n. leadingOnes 8 (NOT (drop_bit n (255 :: 8 word))) = (n, 0) \<and> NOT (drop_bit n (255 :: 8 word)) \<noteq> 255) [0..<8]"
  by code_simp

lemma leadingOnes_mask: "n < 8 \<Longrightarrow> leadingOnes 8 (NOT (drop_bit n (255 :: 8 word))) = (n, 0)"
  and byte_mask_not_ones: "n < 8 \<Longrightarrow> NOT (drop_bit n (255 :: 8 word)) \<noteq> 255"
  using byte_masks by (auto simp: list_all_iff)

lemma simpleMaskLength_CIDRMask: "n \<le> 8 * l \<Longrightarrow> simpleMaskLength (CIDRMask n l) = Some n"
proof (induction n l rule: CIDRMask.induct)
  case (1 n)
  then show ?case by simp
next
  case (2 n l)
  show ?case
  proof (cases "8 \<le> n")
    case True
    with 2 show ?thesis by simp
  next
    case False
    then show ?thesis using leadingOnes_mask [of n] byte_mask_not_ones [of n] by (simp add: CIDRMask_0 list_all_length)
  qed
qed

lemma Mask_Size_CIDRMask: "n \<le> 8 * l \<Longrightarrow> Mask_Size (CIDRMask n l) = (n, 8 * l)"
  by (simp add: Mask_Size_def simpleMaskLength_CIDRMask)

section \<open>A CIDR inside another\<close>

lemma CIDRMask_Nil_iff [simp]: "CIDRMask n l = [] \<longleftrightarrow> l = 0"
  by (metis length_0_conv length_CIDRMask)

lemma byte_and_ones: "255 AND (x :: 8 word) = x" "(x :: 8 word) AND 255 = x"
proof -
  have "(255 :: 8 word) = - 1" by simp
  then show "255 AND x = x" "x AND 255 = x" by (simp_all only: and.left_neutral and.right_neutral)
qed

lemma byte_masks_and:
  "list_all (\<lambda>k. list_all (\<lambda>n. NOT (drop_bit k (255 :: 8 word)) AND NOT (drop_bit n 255) = NOT (drop_bit n 255)) [0..<Suc k]) [0..<8]"
  by code_simp

lemma mask_and: "n \<le> k \<Longrightarrow> map2 (AND) (CIDRMask k l) (CIDRMask n l) = CIDRMask n l"
proof (induction l arbitrary: n k)
  case 0
  show ?case by simp
next
  case (Suc l)
  have bytes: "NOT (drop_bit k (255 :: 8 word)) AND NOT (drop_bit n 255) = NOT (drop_bit n 255)" if "k < 8"
    using byte_masks_and that Suc.prems unfolding list_all_iff by (metis atLeastLessThan_iff le_imp_less_Suc set_upt zero_le)
  show ?case using Suc.prems Suc.IH [of "n - 8" "k - 8"] Suc.IH [of 0 "k - 8"] Suc.IH [of 0 0] bytes
    by (simp add: byte_and_ones)
qed

lemma and_assoc_lists: "length a = l \<Longrightarrow> length m = l \<Longrightarrow> length m' = l
    \<Longrightarrow> map2 (AND) (map2 (AND) a m) (m' :: IP) = map2 (AND) a (map2 (AND) m m')"
  by (rule nth_equalityI) (simp_all add: and.assoc)

lemma mask_coarser:
  assumes "n \<le> k" "length a = l" "length b = l" "map2 (AND) a (CIDRMask k l) = map2 (AND) b (CIDRMask k l)"
  shows "map2 (AND) a (CIDRMask n l) = map2 (AND) b (CIDRMask n l)"
  using and_assoc_lists [of a l "CIDRMask k l" "CIDRMask n l"] and_assoc_lists [of b l "CIDRMask k l" "CIDRMask n l"] assms
  by (simp add: mask_and)

lemma mask_idem: "length a = l \<Longrightarrow> map2 (AND) (map2 (AND) a (CIDRMask k l)) (CIDRMask k l) = map2 (AND) a (CIDRMask k l)"
  using and_assoc_lists [of a l "CIDRMask k l" "CIDRMask k l"] by (simp add: mask_and)

lemma drop_CIDRMask: "drop i (CIDRMask n l) = CIDRMask (n - 8 * i) (l - i)"
proof (induction i arbitrary: n l)
  case (Suc i)
  then show ?case by (cases l) (auto simp: Suc.IH)
qed simp

lemma take_CIDRMask: "8 * i \<le> n \<Longrightarrow> i \<le> l \<Longrightarrow> take i (CIDRMask n l) = replicate i 255"
proof (induction i arbitrary: n l)
  case (Suc i)
  then show ?case by (cases l) auto
qed simp

lemma CIDRMask_nth_ones: "i < l \<Longrightarrow> CIDRMask n l ! i = 255 \<Longrightarrow> 8 * Suc i \<le> n"
proof (induction i arbitrary: n l)
  case 0
  then show ?case using byte_mask_not_ones [of n] by (cases l) (auto split: if_splits)
next
  case (Suc i)
  then obtain l' where l: "l = Suc l'" by (cases l) auto
  show ?case
  proof (cases "8 \<le> n")
    case True
    then show ?thesis using Suc.prems Suc.IH [of l' "n - 8"] by (simp add: l)
  next
    case False
    then show ?thesis using Suc.prems by (simp add: l CIDRMask_0)
  qed
qed

lemma and_ones: "(a :: 8 word) AND b = 255 \<Longrightarrow> b = 255"
proof -
  assume "a AND b = 255"
  moreover have "(255 :: 8 word) = - 1" by simp
  ultimately show ?thesis by (metis and.commute and.left_idem and.right_neutral)
qed

lemma take_masked:
  assumes "length a = 16" "96 \<le> k"
  shows "take 12 (map2 (AND) a (CIDRMask k 16)) = take 12 a"
proof -
  have "take 12 (map2 (AND) a (CIDRMask k 16)) = map2 (AND) (take 12 a) (replicate 12 255)"
    using assms by (simp add: take_map take_zip take_CIDRMask)
  also have "\<dots> = take 12 a" using assms by (intro nth_equalityI) (simp_all add: byte_and_ones)
  finally show ?thesis .
qed

lemma net_mapped:
  assumes "length a = 16"
  shows "take 12 (map2 (AND) a (CIDRMask k 16)) = v4InV6Prefix \<longleftrightarrow> 96 \<le> k \<and> take 12 a = v4InV6Prefix"
proof
  assume m: "take 12 (map2 (AND) a (CIDRMask k 16)) = v4InV6Prefix"
  then have "take 12 (map2 (AND) a (CIDRMask k 16)) ! 11 = v4InV6Prefix ! 11" by simp
  then have "a ! 11 AND CIDRMask k 16 ! 11 = 255" using assms by (simp add: v4InV6Prefix_def nth_append)
  then have k: "96 \<le> k" using CIDRMask_nth_ones [of 11 16 k] and_ones by simp
  then show "96 \<le> k \<and> take 12 a = v4InV6Prefix" using m take_masked [OF assms k] by simp
next
  assume "96 \<le> k \<and> take 12 a = v4InV6Prefix"
  then show "take 12 (map2 (AND) a (CIDRMask k 16)) = v4InV6Prefix" using take_masked [OF assms] by simp
qed

text \<open>The address and prefix length by which the addresses of a parsed network are told: four bytes for an IPv4-mapped network.\<close>

definition canonNet :: "IP \<Rightarrow> nat \<Rightarrow> IP \<times> nat" where
  "canonNet a k = (if length a = 16 \<and> 96 \<le> k \<and> take 12 a = v4InV6Prefix then (drop 12 a, k - 96) else (a, k))"

definition normAddr :: "IP \<Rightarrow> IP" where
  "normAddr x = (if To4 x \<noteq> [] then To4 x else x)"

lemma contains_canon:
  assumes "length a = 4 \<or> length a = 16" "canonNet a k = (c, j)"
  shows "IPNet_Contains (map2 (AND) a (CIDRMask k (length a)), CIDRMask k (length a)) x
    \<longleftrightarrow> length (normAddr x) = length c \<and> map2 (AND) c (CIDRMask j (length c)) = map2 (AND) (normAddr x) (CIDRMask j (length c))"
proof (cases "length a = 4")
  case True
  then show ?thesis using assms(2)
    by (auto simp: IPNet_Contains_def networkNumberAndMask_def To4_def canonNet_def normAddr_def Let_def mask_idem)
next
  case False
  with assms(1) have l: "length a = 16" by simp
  let ?net = "map2 (AND) a (CIDRMask k 16)"
  show ?thesis
  proof (cases "96 \<le> k \<and> take 12 a = v4InV6Prefix")
    case True
    then have "networkNumberAndMask (?net, CIDRMask k 16) = (drop 12 ?net, CIDRMask (k - 96) 4)"
      using l net_mapped [OF l] by (auto simp: networkNumberAndMask_def To4_def Let_def drop_CIDRMask)
    moreover have "drop 12 ?net = map2 (AND) (drop 12 a) (CIDRMask (k - 96) 4)" by (simp add: drop_map drop_zip drop_CIDRMask)
    moreover have "c = drop 12 a" "j = k - 96" "length c = 4" using assms(2) l True by (auto simp: canonNet_def)
    ultimately show ?thesis using l by (simp add: IPNet_Contains_def normAddr_def Let_def mask_idem)
  next
    case False
    then have "networkNumberAndMask (?net, CIDRMask k 16) = (?net, CIDRMask k 16)"
      using l net_mapped [OF l, of k] by (auto simp: networkNumberAndMask_def To4_def Let_def)
    moreover have "c = a" "j = k" using assms(2) False by (auto simp: canonNet_def)
    ultimately show ?thesis using l by (simp add: IPNet_Contains_def normAddr_def Let_def mask_idem)
  qed
qed

lemma normAddr_To16: "length a = 4 \<or> length a = 16 \<Longrightarrow> normAddr (To16 a) = (if length a = 16 \<and> take 12 a = v4InV6Prefix then drop 12 a else a)"
  by (auto simp: normAddr_def To4_def To16_def v4InV6Prefix_def)

text \<open>The test of the code is sound: what it calls a subset is one.\<close>

lemma cidrSubset_sound:
  assumes "ParseCIDR t = Some (ip, tNet)" "ParseCIDR s = Some (ip', sNet)" "cidrSubset ip tNet sNet" "IPNet_Contains tNet x"
  shows "IPNet_Contains sNet x"
proof -
  obtain a k where t: "length a = 4 \<or> length a = 16" "k \<le> 8 * length a" "ip = To16 a"
      "tNet = (map2 (AND) a (CIDRMask k (length a)), CIDRMask k (length a))"
    using assms(1) ParseCIDR_Some by (metis prod.exhaust)
  obtain b n where s: "length b = 4 \<or> length b = 16" "n \<le> 8 * length b"
      "sNet = (map2 (AND) b (CIDRMask n (length b)), CIDRMask n (length b))"
    using assms(2) ParseCIDR_Some by (metis prod.exhaust)
  have nk: "n \<le> k" "length a = length b" using assms(3) t s by (auto simp: cidrSubset_def maskContains_def Mask_Size_CIDRMask)
  obtain c j where c: "canonNet a k = (c, j)" by fastforce
  obtain d i where d: "canonNet b n = (d, i)" by fastforce
  have ip: "length (normAddr ip) = length d" "map2 (AND) d (CIDRMask i (length d)) = map2 (AND) (normAddr ip) (CIDRMask i (length d))"
    using assms(3) contains_canon [OF s(1) d] s(3) by (simp_all add: cidrSubset_def)
  have x: "length (normAddr x) = length c" "map2 (AND) c (CIDRMask j (length c)) = map2 (AND) (normAddr x) (CIDRMask j (length c))"
    using assms(4) contains_canon [OF t(1) c] t(4) by simp_all
  have "normAddr ip = c \<and> i \<le> j"
  proof (cases "length a = 16 \<and> take 12 a = v4InV6Prefix")
    case True
    with ip(1) t(3) have "length d = 4" by (simp add: normAddr_To16)
    with d nk(2) True have "96 \<le> n" "i = n - 96" by (auto simp: canonNet_def split: if_splits)
    with c nk(1) True t(3) show ?thesis by (auto simp: canonNet_def normAddr_To16)
  next
    case False
    then have a: "normAddr ip = a" "c = a" "j = k" using c t(1,3) by (auto simp: normAddr_To16 canonNet_def)
    with ip(1) nk d show ?thesis by (auto simp: canonNet_def split: if_splits)
  qed
  then have "normAddr ip = c" "i \<le> j" by simp_all
  then have "map2 (AND) d (CIDRMask i (length d)) = map2 (AND) (normAddr x) (CIDRMask i (length d))"
    using ip mask_coarser [OF _ refl _ x(2), of i] x(1) by simp
  then show ?thesis using contains_canon [OF s(1) d] s(3) ip(1) x(1) \<open>normAddr ip = c\<close> by simp
qed

lemma addrsOf_Cons: "addrsOf (c # cs) = addrsOf [c] \<union> addrsOf cs"
  using addrsOf_append [of "[c]" cs] by simp

lemma parsedNets_snoc: "ParseCIDR t = Some (ip, n) \<Longrightarrow> parsedNets (cs @ [t]) = parsedNets cs @ [n]"
  by (simp add: parsedNets_def)

lemma mergeLoop_addrs:
  "addrsOf (mergeLoop ts (parsedNets result) result) = addrsOf result \<union> addrsOf ts
   \<and> (\<exists>added. mergeLoop ts (parsedNets result) result = result @ added \<and> set added \<subseteq> set ts)"
proof (induction ts arbitrary: result)
  case Nil
  then show ?case by simp
next
  case (Cons t ts)
  show ?case
  proof (cases "ParseCIDR t")
    case None
    then have "addrsOf [t] = {}" by (auto simp: addrsOf_iff)
    with None Cons.IH show ?thesis by (fastforce simp: addrsOf_Cons [of t ts])
  next
    case (Some p)
    obtain ip n where p: "p = (ip, n)" by (cases p)
    show ?thesis
    proof (cases "list_ex (cidrSubset ip n) (parsedNets result)")
      case True
      then obtain s sn where s: "s \<in> set result" "ParseCIDR s = Some sn" "cidrSubset ip n (snd sn)"
        by (auto simp: list_ex_iff set_parsedNets)
      have "addrsOf [t] \<subseteq> addrsOf result"
      proof
        fix x assume "x \<in> addrsOf [t]"
        then have "isAddr x" "IPNet_Contains n x" using Some p by (auto simp: addrsOf_iff)
        then have "IPNet_Contains (snd sn) x" using cidrSubset_sound [of t ip n s "fst sn" "snd sn" x] Some p s by simp
        then show "x \<in> addrsOf result" using s \<open>isAddr x\<close> unfolding addrsOf_iff by (metis prod.collapse)
      qed
      with True Some p Cons.IH show ?thesis by (fastforce simp: addrsOf_Cons [of t ts])
    next
      case False
      then have "mergeLoop (t # ts) (parsedNets result) result = mergeLoop ts (parsedNets (result @ [t])) (result @ [t])"
        using Some p parsedNets_snoc [of t ip n result] by simp
      with Cons.IH [of "result @ [t]"] show ?thesis by (fastforce simp: addrsOf_Cons [of t ts])
    qed
  qed
qed

lemma parsedNets_valid: "parsedNets (filter (\<lambda>c. ParseCIDR c \<noteq> None) cs) = parsedNets cs"
proof (induction cs)
  case (Cons c cs)
  then show ?case by (cases "ParseCIDR c") (auto simp: parsedNets_def)
qed simp

lemma mergeIPCidrs_addrs: "addrsOf (mergeIPCidrs source target) = addrsOf source \<union> addrsOf target"
proof (cases "source = []")
  case False
  let ?valid = "filter (\<lambda>c. ParseCIDR c \<noteq> None) source"
  have "addrsOf (mergeLoop target (parsedNets ?valid) ?valid) = addrsOf ?valid \<union> addrsOf target" using mergeLoop_addrs by blast
  with False show ?thesis unfolding mergeIPCidrs_def parsedNets_valid addrsOf_valid by simp
qed (simp add: mergeIPCidrs_def)

section \<open>Data\<close>

text \<open>The custom resource \<open>IPBlocksInfo\<close> (there is one, \<open>ip-blocks-info\<close>) and what is read of the network configurations and of the NSX
  objects.\<close>

record ip_blocks_info =
  ExternalIPCIDRs :: "string list"
  PrivateTGWIPCIDRs :: "string list"
  ExternalIPRanges :: "(string \<times> string) list"
  PrivateTGWIPRanges :: "(string \<times> string) list"

record vpc_network_configuration =
  vcAnnotations :: "(string \<times> string) list"
  vcVPC :: string
  vcSubnets :: "string list"
  vcNSXProject :: string
  vcProfile :: string

record vpc_attachment =
  vaPath :: string
  vaParentPath :: string
  vaProfile :: string

record connectivity_profile =
  cpPath :: string
  cpExternalIpBlocks :: "string list"
  cpIpv6Blocks :: "string list"
  cpPrivateTgwIpBlocks :: "string list"

record ip_block =
  bkPath :: string
  bkCidrs :: "string list option"
  bkCidr :: "string option"
  bkRanges :: "(string \<times> string) list"

record shared_subnet =
  ssIpAddresses :: "string list"
  ssAccessMode :: "string option"

text \<open>The Kubernetes and NSX clients, the subnet service, the indexers of the stores with the empty store, the SDK's converters
  of search results and the orders in which Go visits a set and a map.\<close>

record ('w, 'v, 'a, 'p, 'b) ib_env =
  ieListConfigs :: "'w \<Rightarrow> k8s_error + vpc_network_configuration list"
  ieGetInfo :: "'w \<Rightarrow> k8s_error + ip_blocks_info"
  ieCreateInfo :: "ip_blocks_info \<Rightarrow> 'w \<Rightarrow> k8s_error option \<times> 'w"
  ieUpdateInfo :: "ip_blocks_info \<Rightarrow> 'w \<Rightarrow> k8s_error option \<times> 'w"
  ieGetSubnet :: "string \<Rightarrow> 'w \<Rightarrow> gerror + shared_subnet"
  ieQuery :: "string \<Rightarrow> 'w \<Rightarrow> nat \<Rightarrow> string option \<Rightarrow> int \<Rightarrow> 'v query_page"
  ieApi :: converter
  ieAttOps :: "('a, vpc_attachment) indexer_ops"
  ieProfileOps :: "('p, connectivity_profile) indexer_ops"
  ieBlockOps :: "('b, ip_block) indexer_ops"
  ieAttEmpty :: 'a
  ieProfileEmpty :: 'p
  ieBlockEmpty :: 'b
  ieToAtt :: "'v \<Rightarrow> gerror + vpc_attachment"
  ieToProfile :: "'v \<Rightarrow> gerror + connectivity_profile"
  ieToBlock :: "'v \<Rightarrow> gerror + ip_block"
  ieSetOrder :: "string list \<Rightarrow> string list"
  ieMapOrder :: "(string \<times> bool) list \<Rightarrow> (string \<times> bool) list"
  ieRangeOrder :: "(string \<times> string) list \<Rightarrow> (string \<times> string) list"

record 'w ib_state =
  ibWorld :: 'w
  ibDefaultProject :: string
  ibPageSize :: int

section \<open>The stores\<close>

definition GetByVpcPath :: "('a, vpc_attachment) indexer_ops \<Rightarrow> 'a \<Rightarrow> string \<Rightarrow> vpc_attachment list" where
  "GetByVpcPath ops s vpcPath = filter (\<lambda>a. vaParentPath a = vpcPath) (ixList ops s)"

text \<open>A search of all objects of one type into an empty store; the page size is shared by all searches.\<close>

definition searchAll ::
  "('w, 'v, 'a, 'p, 'b) ib_env \<Rightarrow> ('s, 'o) indexer_ops \<Rightarrow> ('v \<Rightarrow> gerror + 'o) \<Rightarrow> 's \<Rightarrow> string \<Rightarrow> 'w ib_state \<Rightarrow> ((gerror + 's) \<times> 'w ib_state) option" where
  "searchAll env ops conv s0 resourceType st =
    (case SearchResource (ieQuery env (''resource_type:'' @ resourceType) (ibWorld st)) (ieApi env) (TransResourceToStore ops conv) s0 (ibPageSize st) of
       None \<Rightarrow> None
     | Some ((Some err, _), _, ps) \<Rightarrow> Some (Inl err, st\<lparr>ibPageSize := ps\<rparr>)
     | Some ((None, _), s, ps) \<Rightarrow> Some (Inr s, st\<lparr>ibPageSize := ps\<rparr>))"

section \<open>Which profiles and blocks are published\<close>

definition withPrefix :: "vpc_network_configuration \<Rightarrow> string \<Rightarrow> string \<Rightarrow> string" where
  "withPrefix c kind path =
    (if length (split_char CHR ''/'' path) = 1 then vcNSXProject c @ kind @ path else path)"

text \<open>The loop over the configurations: the profiles with whether they belong to the default project, the VPCs and the default project.\<close>

definition configStep :: "(string \<times> bool) list \<times> string list \<times> string \<Rightarrow> vpc_network_configuration \<Rightarrow> (string \<times> bool) list \<times> string list \<times> string" where
  "configStep acc c =
    (let (profiles, vpcs, defaultProject) = acc in
     if vcProfile c \<noteq> [] then
       (if IsDefaultNetworkConfigCR (vcAnnotations c)
        then (AList.update (withPrefix c ''/vpc-connectivity-profiles/'' (vcProfile c)) True profiles, vpcs, vcNSXProject c)
        else acc)
     else (profiles, List.insert (withPrefix c ''/vpcs/'' (vcVPC c)) vpcs, defaultProject))"

definition projectPath :: "vpc_resource_info \<Rightarrow> string" where
  "projectPath info = ''/orgs/'' @ OrgID info @ ''/projects/'' @ ProjectID info"

fun vpcLoop :: "(string \<Rightarrow> vpc_attachment list) \<Rightarrow> string \<Rightarrow> string list \<Rightarrow> (string \<times> bool) list \<Rightarrow> gerror + (string \<times> bool) list" where
  "vpcLoop atts defaultProject [] profiles = Inr profiles"
| "vpcLoop atts defaultProject (vpcPath # ps) profiles =
    (case ParseVPCResourcePath vpcPath of
       Inl err \<Rightarrow> Inl err
     | Inr info \<Rightarrow>
         (case atts vpcPath of
            [] \<Rightarrow> vpcLoop atts defaultProject ps profiles
          | a # _ \<Rightarrow> vpcLoop atts defaultProject ps (AList.update (vaProfile a) (projectPath info = defaultProject) profiles)))"

definition insertAll :: "string list \<Rightarrow> string list \<Rightarrow> string list" where
  "insertAll xs s = foldl (\<lambda>s x. List.insert x s) s xs"

fun profileLoop ::
  "(string \<Rightarrow> connectivity_profile option) \<Rightarrow> (string \<times> bool) list \<Rightarrow> string list \<Rightarrow> string list \<Rightarrow> gerror + string list \<times> string list" where
  "profileLoop get [] external private = Inr (external, private)"
| "profileLoop get ((path, isDefault) # ps) external private =
    (case get path of
       None \<Rightarrow> Inl (''failed to get VPCConnectivityProfile '' @ path @ '' from NSX'')
     | Some p \<Rightarrow> profileLoop get ps (insertAll (cpIpv6Blocks p) (insertAll (cpExternalIpBlocks p) external))
                  (if isDefault then insertAll (cpPrivateTgwIpBlocks p) private else private))"

definition blockCIDRs :: "ip_block \<Rightarrow> string list" where
  "blockCIDRs b = (case bkCidrs b of Some cs \<Rightarrow> cs | None \<Rightarrow> (case bkCidr b of Some c \<Rightarrow> [c] | None \<Rightarrow> []))"

fun blockLoop :: "(string \<Rightarrow> ip_block option) \<Rightarrow> string list \<Rightarrow> string list \<Rightarrow> (string \<times> string) list \<Rightarrow> gerror + string list \<times> (string \<times> string) list" where
  "blockLoop get [] cidrs ranges = Inr (cidrs, ranges)"
| "blockLoop get (path # ps) cidrs ranges =
    (case get path of
       None \<Rightarrow> Inl (''failed to get IPBlock '' @ path @ '' from NSX'')
     | Some b \<Rightarrow> blockLoop get ps (cidrs @ blockCIDRs b) (ranges @ bkRanges b))"

definition getIPBlockCIDRsAndRangesFromStore ::
  "('w, 'v, 'a, 'p, 'b) ib_env \<Rightarrow> string list \<Rightarrow> 'b \<Rightarrow> gerror + string list \<times> (string \<times> string) list" where
  "getIPBlockCIDRsAndRangesFromStore env pathSet s = blockLoop (GetByKey (ieBlockOps env) s) (ieSetOrder env pathSet) [] []"

definition getCIDRsRangesFromStore ::
  "('w, 'v, 'a, 'p, 'b) ib_env \<Rightarrow> string list \<Rightarrow> string list \<Rightarrow> 'b \<Rightarrow> gerror + ip_blocks_info" where
  "getCIDRsRangesFromStore env external private s =
    bind_res (getIPBlockCIDRsAndRangesFromStore env external s) (\<lambda>(ec, er).
    bind_res (getIPBlockCIDRsAndRangesFromStore env private s) (\<lambda>(pc, pr).
      Inr \<lparr>ExternalIPCIDRs = ec, PrivateTGWIPCIDRs = pc, ExternalIPRanges = er, PrivateTGWIPRanges = pr\<rparr>))"

text \<open>A search that never returns is \<open>None\<close>. The default project found is kept even when a later step fails.\<close>

definition thenSearch ::
  "((gerror + 's) \<times> 'w ib_state) option \<Rightarrow> ('s \<Rightarrow> 'w ib_state \<Rightarrow> ((gerror + 'x) \<times> 'w ib_state) option) \<Rightarrow> ((gerror + 'x) \<times> 'w ib_state) option" where
  "thenSearch r f = (case r of None \<Rightarrow> None | Some (Inl e, st) \<Rightarrow> Some (Inl e, st) | Some (Inr s, st) \<Rightarrow> f s st)"

definition getIPBlockCIDRsByVPCConfig ::
  "('w, 'v, 'a, 'p, 'b) ib_env \<Rightarrow> vpc_network_configuration list \<Rightarrow> 'w ib_state \<Rightarrow> ((gerror + ip_blocks_info) \<times> 'w ib_state) option" where
  "getIPBlockCIDRsByVPCConfig env configs st =
    (let (profiles, vpcs, defaultProject) = foldl configStep ([], [], ibDefaultProject st) configs;
         st = st\<lparr>ibDefaultProject := defaultProject\<rparr> in
     if defaultProject = [] then Some (Inl ''default project not found, try later'', st)
     else
       thenSearch (searchAll env (ieAttOps env) (ieToAtt env) (ieAttEmpty env) ''VpcAttachment'' st) (\<lambda>atts st.
         case vpcLoop (GetByVpcPath (ieAttOps env) atts) defaultProject (ieSetOrder env vpcs) profiles of
           Inl err \<Rightarrow> Some (Inl err, st)
         | Inr profiles \<Rightarrow>
       thenSearch (searchAll env (ieProfileOps env) (ieToProfile env) (ieProfileEmpty env) ''VpcConnectivityProfile'' st) (\<lambda>ps st.
         case profileLoop (GetByKey (ieProfileOps env) ps) (ieMapOrder env profiles) [] [] of
           Inl err \<Rightarrow> Some (Inl err, st)
         | Inr (external, private) \<Rightarrow>
       thenSearch (searchAll env (ieBlockOps env) (ieToBlock env) (ieBlockEmpty env) ''IpAddressBlock'' st) (\<lambda>bs st.
         Some (getCIDRsRangesFromStore env external private bs, st)))))"

section \<open>Shared subnets\<close>

definition subnetCIDR ::
  "string \<Rightarrow> vpc_resource_info \<Rightarrow> shared_subnet \<Rightarrow> string list \<times> string list \<Rightarrow> string \<Rightarrow> string list \<times> string list" where
  "subnetCIDR defaultProject info subnet acc cidr =
    (let (external, private) = acc in
     case ParseCIDR cidr of
       None \<Rightarrow> acc
     | Some (ip, _) \<Rightarrow>
         if To4 ip = [] then (external @ [cidr], private)
         else
           let accessMode = (case ssAccessMode subnet of None \<Rightarrow> ''Public'' | Some m \<Rightarrow> m) in
           if accessMode = ''Public'' then (external @ [cidr], private)
           else if accessMode = ''Private_TGW'' then
             (if projectPath info = defaultProject then (external, private @ [cidr]) else acc)
           else acc)"

definition subnetStep ::
  "('w, 'v, 'a, 'p, 'b) ib_env \<Rightarrow> 'w ib_state \<Rightarrow> string list \<times> string list \<Rightarrow> string \<Rightarrow> string list \<times> string list" where
  "subnetStep env st acc path =
    (case ParseVPCResourcePath path of
       Inl _ \<Rightarrow> acc
     | Inr info \<Rightarrow>
         (case ieGetSubnet env (ProjectID info @ '':'' @ VPCID info @ '':'' @ ResID info) (ibWorld st) of
            Inl _ \<Rightarrow> acc
          | Inr subnet \<Rightarrow> foldl (subnetCIDR (ibDefaultProject st) info subnet) acc (ssIpAddresses subnet)))"

definition getSharedSubnetsCIDRs ::
  "('w, 'v, 'a, 'p, 'b) ib_env \<Rightarrow> vpc_network_configuration list \<Rightarrow> 'w ib_state \<Rightarrow> string list \<times> string list" where
  "getSharedSubnetsCIDRs env configs st =
    foldl (subnetStep env st) ([], []) (ieSetOrder env (insertAll (concat (map vcSubnets configs)) []))"

section \<open>The custom resource\<close>

definition mergeInfo :: "('w, 'v, 'a, 'p, 'b) ib_env \<Rightarrow> ip_blocks_info \<Rightarrow> ip_blocks_info \<Rightarrow> ip_blocks_info" where
  "mergeInfo env old info =
    \<lparr>ExternalIPCIDRs = mergeIPCidrs (ExternalIPCIDRs old) (ExternalIPCIDRs info),
     PrivateTGWIPCIDRs = mergeIPCidrs (PrivateTGWIPCIDRs old) (PrivateTGWIPCIDRs info),
     ExternalIPRanges = MergeArraysWithoutDuplicate (ieRangeOrder env) (ExternalIPRanges old) (ExternalIPRanges info),
     PrivateTGWIPRanges = MergeArraysWithoutDuplicate (ieRangeOrder env) (PrivateTGWIPRanges old) (PrivateTGWIPRanges info)\<rparr>"

definition sameInfo :: "ip_blocks_info \<Rightarrow> ip_blocks_info \<Rightarrow> bool" where
  "sameInfo old info \<longleftrightarrow>
    CompareArraysWithoutOrder (ExternalIPCIDRs old) (ExternalIPCIDRs info)
    \<and> CompareArraysWithoutOrder (PrivateTGWIPCIDRs old) (PrivateTGWIPCIDRs info)
    \<and> CompareArraysWithoutOrder (ExternalIPRanges old) (ExternalIPRanges info)
    \<and> CompareArraysWithoutOrder (PrivateTGWIPRanges old) (PrivateTGWIPRanges info)"

datatype ib_error = IbK8s k8s_error | IbFailed gerror

fun k8sCall :: "k8s_error option \<times> 'w \<Rightarrow> 'w ib_state \<Rightarrow> ib_error option \<times> 'w ib_state" where
  "k8sCall (e, w) st = (map_option IbK8s e, st\<lparr>ibWorld := w\<rparr>)"

definition createOrUpdateIPBlocksInfo ::
  "('w, 'v, 'a, 'p, 'b) ib_env \<Rightarrow> ip_blocks_info \<Rightarrow> bool \<Rightarrow> 'w ib_state \<Rightarrow> ib_error option \<times> 'w ib_state" where
  "createOrUpdateIPBlocksInfo env info incremental st =
    (case ieGetInfo env (ibWorld st) of
       Inl (K8sNotFound _) \<Rightarrow> k8sCall (ieCreateInfo env info (ibWorld st)) st
     | Inl err \<Rightarrow> (Some (IbK8s err), st)
     | Inr old \<Rightarrow>
         let info = (if incremental then mergeInfo env old info else info) in
         if sameInfo old info then (None, st) else k8sCall (ieUpdateInfo env info (ibWorld st)) st)"

definition updateIPBlocksInfo ::
  "('w, 'v, 'a, 'p, 'b) ib_env \<Rightarrow> vpc_network_configuration list \<Rightarrow> bool \<Rightarrow> 'w ib_state \<Rightarrow> (ib_error option \<times> 'w ib_state) option" where
  "updateIPBlocksInfo env configs incremental st =
    (case getIPBlockCIDRsByVPCConfig env configs st of
       None \<Rightarrow> None
     | Some (Inl err, st) \<Rightarrow> Some (Some (IbFailed err), st)
     | Some (Inr info, st) \<Rightarrow>
         let (externalSubnets, privateSubnets) = getSharedSubnetsCIDRs env configs st in
         Some (createOrUpdateIPBlocksInfo env
           (info\<lparr>ExternalIPCIDRs := mergeIPCidrs (ExternalIPCIDRs info) externalSubnets,
                 PrivateTGWIPCIDRs := mergeIPCidrs (PrivateTGWIPCIDRs info) privateSubnets\<rparr>) incremental st))"

definition UpdateIPBlocksInfo ::
  "('w, 'v, 'a, 'p, 'b) ib_env \<Rightarrow> vpc_network_configuration \<Rightarrow> 'w ib_state \<Rightarrow> (ib_error option \<times> 'w ib_state) option" where
  "UpdateIPBlocksInfo env config st = updateIPBlocksInfo env [config] True st"

definition SyncIPBlocksInfo :: "('w, 'v, 'a, 'p, 'b) ib_env \<Rightarrow> 'w ib_state \<Rightarrow> (ib_error option \<times> 'w ib_state) option" where
  "SyncIPBlocksInfo env st =
    (case ieListConfigs env (ibWorld st) of
       Inl err \<Rightarrow> Some (Some (IbK8s err), st)
     | Inr configs \<Rightarrow> updateIPBlocksInfo env configs False st)"

section \<open>What is collected\<close>

lemma set_insertAll [simp]: "set (insertAll xs s) = set xs \<union> set s"
  by (induction xs arbitrary: s) (auto simp: insertAll_def)

definition externalPaths :: "connectivity_profile \<Rightarrow> string set" where
  "externalPaths p = set (cpExternalIpBlocks p) \<union> set (cpIpv6Blocks p)"

lemma profileLoop_spec:
  assumes "profileLoop get ps e p = Inr (e', p')"
  shows "(\<forall>x \<in> set ps. get (fst x) \<noteq> None)
    \<and> set e' = set e \<union> (\<Union>x \<in> set ps. externalPaths (the (get (fst x))))
    \<and> set p' = set p \<union> (\<Union>x \<in> {x \<in> set ps. snd x}. set (cpPrivateTgwIpBlocks (the (get (fst x)))))"
  using assms
proof (induction get ps e p rule: profileLoop.induct)
  case (1 get e p)
  then show ?case by simp
next
  case (2 get path d ps e p)
  from "2.prems" obtain c where c: "get path = Some c" by (auto split: option.splits)
  from "2.IH" [OF c] "2.prems" c show ?case by (auto simp: externalPaths_def)
qed

lemma blockLoop_spec:
  assumes "blockLoop get ps cs rs = Inr (cs', rs')"
  shows "(\<forall>x \<in> set ps. get x \<noteq> None)
    \<and> addrsOf cs' = addrsOf cs \<union> (\<Union>x \<in> set ps. addrsOf (blockCIDRs (the (get x))))
    \<and> set rs' = set rs \<union> (\<Union>x \<in> set ps. set (bkRanges (the (get x))))"
  using assms
proof (induction get ps cs rs rule: blockLoop.induct)
  case (1 get cs rs)
  then show ?case by simp
next
  case (2 get path ps cs rs)
  from "2.prems" obtain b where b: "get path = Some b" by (auto split: option.splits)
  from "2.IH" [OF b] "2.prems" b show ?case by auto
qed

text \<open>The profiles, given with whether they belong to the default project, and the blocks that the searches found.\<close>

definition collected ::
  "('w, 'v, 'a, 'p, 'b) ib_env \<Rightarrow> vpc_network_configuration list \<Rightarrow> 'w ib_state \<Rightarrow> (string \<times> bool) list \<Rightarrow>
   (string \<Rightarrow> connectivity_profile option) \<Rightarrow> (string \<Rightarrow> ip_block option) \<Rightarrow> bool" where
  "collected env configs st profiles profileOf blockOf \<longleftrightarrow>
    (\<exists>named vpcs dp atts ps bs st1 st2 st3 st4.
       foldl configStep ([], [], ibDefaultProject st) configs = (named, vpcs, dp)
       \<and> searchAll env (ieAttOps env) (ieToAtt env) (ieAttEmpty env) ''VpcAttachment'' st1 = Some (Inr atts, st2)
       \<and> vpcLoop (GetByVpcPath (ieAttOps env) atts) dp (ieSetOrder env vpcs) named = Inr profiles
       \<and> searchAll env (ieProfileOps env) (ieToProfile env) (ieProfileEmpty env) ''VpcConnectivityProfile'' st2 = Some (Inr ps, st3)
       \<and> profileOf = GetByKey (ieProfileOps env) ps
       \<and> searchAll env (ieBlockOps env) (ieToBlock env) (ieBlockEmpty env) ''IpAddressBlock'' st3 = Some (Inr bs, st4)
       \<and> blockOf = GetByKey (ieBlockOps env) bs
       \<and> ibWorld st1 = ibWorld st)"

definition externalAddrs :: "(string \<times> bool) list \<Rightarrow> (string \<Rightarrow> connectivity_profile option) \<Rightarrow> (string \<Rightarrow> ip_block option) \<Rightarrow> IP set" where
  "externalAddrs profiles profileOf blockOf =
    (\<Union>x \<in> set profiles. \<Union>b \<in> externalPaths (the (profileOf (fst x))). addrsOf (blockCIDRs (the (blockOf b))))"

definition privateAddrs :: "(string \<times> bool) list \<Rightarrow> (string \<Rightarrow> connectivity_profile option) \<Rightarrow> (string \<Rightarrow> ip_block option) \<Rightarrow> IP set" where
  "privateAddrs profiles profileOf blockOf =
    (\<Union>x \<in> {x \<in> set profiles. snd x}. \<Union>b \<in> set (cpPrivateTgwIpBlocks (the (profileOf (fst x)))). addrsOf (blockCIDRs (the (blockOf b))))"

lemma searchAll_world: "searchAll env ops conv s0 rt st = Some (r, st') \<Longrightarrow> ibWorld st' = ibWorld st \<and> ibDefaultProject st' = ibDefaultProject st"
  by (auto simp: searchAll_def split: option.splits prod.splits)

lemma thenSearch_Inr:
  assumes "thenSearch r f = Some (Inr x, st')"
  obtains s st where "r = Some (Inr s, st)" "f s st = Some (Inr x, st')"
  using assms by (auto simp: thenSearch_def split: option.splits sum.splits prod.splits)

text \<open>The Kubernetes client: a resource written without an error is read back.\<close>

locale ipblocks =
  fixes env :: "('w, 'v, 'a, 'p, 'b) ib_env"
  assumes created: "ieCreateInfo env info w = (None, w') \<Longrightarrow> ieGetInfo env w' = Inr info"
    and updated: "ieUpdateInfo env info w = (None, w') \<Longrightarrow> ieGetInfo env w' = Inr info"
    and set_order: "is_order (ieSetOrder env)"
    and map_order: "is_order (ieMapOrder env)"
    and range_order: "is_order (ieRangeOrder env)"
begin

lemma collected_blocks:
  assumes "getIPBlockCIDRsByVPCConfig env configs st = Some (Inr info, st')"
  shows "\<exists>profiles profileOf blockOf. collected env configs st profiles profileOf blockOf
    \<and> (\<forall>x \<in> set profiles. profileOf (fst x) \<noteq> None)
    \<and> addrsOf (ExternalIPCIDRs info) = externalAddrs profiles profileOf blockOf
    \<and> addrsOf (PrivateTGWIPCIDRs info) = privateAddrs profiles profileOf blockOf \<and> ibWorld st' = ibWorld st"
proof -
  obtain named vpcs dp where c: "foldl configStep ([], [], ibDefaultProject st) configs = (named, vpcs, dp)" by (metis prod.exhaust)
  define st1 where "st1 = st\<lparr>ibDefaultProject := dp\<rparr>"
  from assms c obtain atts st2 profiles ps st3 e p bs st4 where
    a: "searchAll env (ieAttOps env) (ieToAtt env) (ieAttEmpty env) ''VpcAttachment'' st1 = Some (Inr atts, st2)"
    and v: "vpcLoop (GetByVpcPath (ieAttOps env) atts) dp (ieSetOrder env vpcs) named = Inr profiles"
    and s: "searchAll env (ieProfileOps env) (ieToProfile env) (ieProfileEmpty env) ''VpcConnectivityProfile'' st2 = Some (Inr ps, st3)"
    and l: "profileLoop (GetByKey (ieProfileOps env) ps) (ieMapOrder env profiles) [] [] = Inr (e, p)"
    and b: "searchAll env (ieBlockOps env) (ieToBlock env) (ieBlockEmpty env) ''IpAddressBlock'' st3 = Some (Inr bs, st4)"
    and g: "getCIDRsRangesFromStore env e p bs = Inr info" and w: "st' = st4"
    by (auto simp: getIPBlockCIDRsByVPCConfig_def Let_def st1_def elim!: thenSearch_Inr split: if_splits sum.splits)
  from g obtain er pr where loops: "blockLoop (GetByKey (ieBlockOps env) bs) (ieSetOrder env e) [] [] = Inr (ExternalIPCIDRs info, er)"
    "blockLoop (GetByKey (ieBlockOps env) bs) (ieSetOrder env p) [] [] = Inr (PrivateTGWIPCIDRs info, pr)"
    by (auto simp: getCIDRsRangesFromStore_def getIPBlockCIDRsAndRangesFromStore_def)
  note lp = profileLoop_spec [OF l]
  have "collected env configs st profiles (GetByKey (ieProfileOps env) ps) (GetByKey (ieBlockOps env) bs)"
    unfolding collected_def using c a v s b by (intro exI conjI) (assumption | rule refl | simp add: st1_def)+
  moreover have "addrsOf (ExternalIPCIDRs info) = externalAddrs profiles (GetByKey (ieProfileOps env) ps) (GetByKey (ieBlockOps env) bs)"
    using blockLoop_spec [OF loops(1)] lp set_order map_order by (auto simp: externalAddrs_def)
  moreover have "addrsOf (PrivateTGWIPCIDRs info) = privateAddrs profiles (GetByKey (ieProfileOps env) ps) (GetByKey (ieBlockOps env) bs)"
    using blockLoop_spec [OF loops(2)] lp set_order map_order by (auto simp: privateAddrs_def)
  moreover have "ibWorld st' = ibWorld st" using searchAll_world [OF a] searchAll_world [OF s] searchAll_world [OF b] w by (simp add: st1_def)
  moreover have "\<forall>x \<in> set profiles. GetByKey (ieProfileOps env) ps (fst x) \<noteq> None" using lp map_order by auto
  ultimately show ?thesis by blast
qed

lemma stored_info:
  assumes "createOrUpdateIPBlocksInfo env info incremental st = (None, st')"
  shows "\<exists>cr. ieGetInfo env (ibWorld st') = Inr cr
    \<and> (case ieGetInfo env (ibWorld st) of
         Inl _ \<Rightarrow> cr = info
       | Inr old \<Rightarrow> addrsOf (ExternalIPCIDRs cr) = addrsOf (ExternalIPCIDRs info) \<union> (if incremental then addrsOf (ExternalIPCIDRs old) else {})
           \<and> addrsOf (PrivateTGWIPCIDRs cr) = addrsOf (PrivateTGWIPCIDRs info) \<union> (if incremental then addrsOf (PrivateTGWIPCIDRs old) else {}))"
proof (cases "ieGetInfo env (ibWorld st)")
  case (Inl e)
  with assms created show ?thesis
    by (cases e; cases "ieCreateInfo env info (ibWorld st)") (auto simp: createOrUpdateIPBlocksInfo_def)
next
  case (Inr old)
  define new where "new = (if incremental then mergeInfo env old info else info)"
  have new: "addrsOf (ExternalIPCIDRs new) = addrsOf (ExternalIPCIDRs info) \<union> (if incremental then addrsOf (ExternalIPCIDRs old) else {})"
    "addrsOf (PrivateTGWIPCIDRs new) = addrsOf (PrivateTGWIPCIDRs info) \<union> (if incremental then addrsOf (PrivateTGWIPCIDRs old) else {})"
    by (auto simp: new_def mergeInfo_def mergeIPCidrs_addrs)
  show ?thesis
  proof (cases "sameInfo old new")
    case True
    then have e: "set (ExternalIPCIDRs old) = set (ExternalIPCIDRs new)" and p: "set (PrivateTGWIPCIDRs old) = set (PrivateTGWIPCIDRs new)"
      by (simp_all add: sameInfo_def CompareArraysWithoutOrder_def)
    note addrsOf_set [OF e] addrsOf_set [OF p]
    with True assms Inr new show ?thesis by (simp add: createOrUpdateIPBlocksInfo_def Let_def new_def [symmetric])
  next
    case False
    with assms Inr new updated show ?thesis
      by (cases "ieUpdateInfo env new (ibWorld st)") (auto simp: createOrUpdateIPBlocksInfo_def Let_def new_def [symmetric])
  qed
qed

end

text \<open>The addresses that the resource holds before an incremental update, and none before a synchronization.\<close>

definition priorAddrs :: "('w, 'v, 'a, 'p, 'b) ib_env \<Rightarrow> bool \<Rightarrow> 'w ib_state \<Rightarrow> (ip_blocks_info \<Rightarrow> string list) \<Rightarrow> IP set" where
  "priorAddrs env incremental st field =
    (case ieGetInfo env (ibWorld st) of Inl _ \<Rightarrow> {} | Inr old \<Rightarrow> if incremental then addrsOf (field old) else {})"


section \<open>A default project with one block\<close>

datatype ib_item = ItAtt vpc_attachment | ItProfile connectivity_profile | ItBlock ip_block

definition demoConfig :: vpc_network_configuration where
  "demoConfig = \<lparr>vcAnnotations = [(''nsx.vmware.com/default'', ''true'')], vcVPC = [], vcSubnets = [],
     vcNSXProject = ''/orgs/default/projects/p'', vcProfile = ''prof''\<rparr>"

definition demoItems :: "string \<Rightarrow> ib_item list" where
  "demoItems query =
    (if query = ''resource_type:VpcConnectivityProfile'' then
       [ItProfile \<lparr>cpPath = ''/orgs/default/projects/p/vpc-connectivity-profiles/prof'', cpExternalIpBlocks = [''/blocks/a''], cpIpv6Blocks = [],
                   cpPrivateTgwIpBlocks = []\<rparr>]
     else if query = ''resource_type:IpAddressBlock'' then
       [ItBlock \<lparr>bkPath = ''/blocks/a'', bkCidrs = Some [''10.1.0.0/16''], bkCidr = None, bkRanges = []\<rparr>]
     else [])"

text \<open>The world is the custom resource.\<close>

definition demoIbEnv ::
  "(ip_blocks_info option, ib_item, (string \<times> vpc_attachment) list, (string \<times> connectivity_profile) list, (string \<times> ip_block) list) ib_env" where
  "demoIbEnv =
    \<lparr>ieListConfigs = (\<lambda>w. Inr [demoConfig]),
     ieGetInfo = (\<lambda>w. case w of None \<Rightarrow> Inl (K8sNotFound ''not found'') | Some info \<Rightarrow> Inr info),
     ieCreateInfo = (\<lambda>info w. (None, Some info)), ieUpdateInfo = (\<lambda>info w. (None, Some info)),
     ieGetSubnet = (\<lambda>_ _. Inl ''no subnet''), ieQuery = (\<lambda>q _. pageOf (demoItems q)), ieApi = noConvert,
     ieAttOps = al_ops vaPath (\<lambda>_ _. []), ieProfileOps = al_ops cpPath (\<lambda>_ _. []), ieBlockOps = al_ops bkPath (\<lambda>_ _. []),
     ieAttEmpty = [], ieProfileEmpty = [], ieBlockEmpty = [],
     ieToAtt = (\<lambda>v. case v of ItAtt a \<Rightarrow> Inr a | _ \<Rightarrow> Inl ''type''), ieToProfile = (\<lambda>v. case v of ItProfile p \<Rightarrow> Inr p | _ \<Rightarrow> Inl ''type''),
     ieToBlock = (\<lambda>v. case v of ItBlock b \<Rightarrow> Inr b | _ \<Rightarrow> Inl ''type''),
     ieSetOrder = id, ieMapOrder = id, ieRangeOrder = id\<rparr>"

interpretation demoIb: ipblocks demoIbEnv
  by unfold_locales (auto simp: demoIbEnv_def is_order_id)

definition demoIbState :: "ip_blocks_info option ib_state" where
  "demoIbState = \<lparr>ibWorld = Some \<lparr>ExternalIPCIDRs = [''10.2.0.0/16''], PrivateTGWIPCIDRs = [], ExternalIPRanges = [], PrivateTGWIPRanges = []\<rparr>,
     ibDefaultProject = [], ibPageSize = 1000\<rparr>"

lemma demo_updated:
  "updateIPBlocksInfo demoIbEnv [demoConfig] True demoIbState = Some (None,
     \<lparr>ibWorld = Some \<lparr>ExternalIPCIDRs = [''10.2.0.0/16'', ''10.1.0.0/16''], PrivateTGWIPCIDRs = [], ExternalIPRanges = [], PrivateTGWIPRanges = []\<rparr>,
      ibDefaultProject = ''/orgs/default/projects/p'', ibPageSize = 1000\<rparr>)"
  by code_simp


end
