(* ===== verification/PortCount.thy ===== *)
theory PortCount
  imports VpcChild
begin

text \<open>
  The ports of the Subnets and the addresses they take: the store and the counters of \<open>pkg/nsx/services/subnetport\<close>. A SubnetPort reserves addresses in the static or the
  DHCP pool of its Subnet before it is created on NSX; the reservation is released when the port is in the store or its creation has failed.
\<close>

section \<open>Ports\<close>

record port_attachment =
  paAllocateAddresses :: "string option"
  paAppId :: "string option"
  paContextId :: "string option"
  paId :: "string option"
  paTrafficTag :: "int option"
  paType :: "string option"

text \<open>An address binding is an IP and a MAC address. An external address binding has the path of its allocation, if any.\<close>

record nsx_port =
  ptId :: string
  ptDisplayName :: string
  ptTags :: "nsx_tag list"
  ptAttachment :: "port_attachment option"
  ptAddressBindings :: "(string option \<times> string option) list"
  ptExternalAddressBinding :: "string option option"
  ptStaticIpAllocationType :: "string option"
  ptPath :: "string option"
  ptParentPath :: "string option"
  ptMarkedForDelete :: "bool option"

section \<open>The store\<close>

definition portKey :: "nsx_port \<Rightarrow> string" where "portKey p = ptId p"

definition subnetPortIndexBySubnetPath :: "nsx_port \<Rightarrow> string list" where
  "subnetPortIndexBySubnetPath p = (case ptParentPath p of None \<Rightarrow> [] | Some path \<Rightarrow> [path])"

definition subnetPortIndexBySts :: "nsx_port \<Rightarrow> string list" where
  "subnetPortIndexBySts p = (if FindTag (ptTags p) ''nsx-op/sts_uid'' \<noteq> Some [] then [''allStsPorts''] else [])"

text \<open>A port without a parent path makes the indexer of client-go panic; here it is in no index.\<close>

definition portIndexers :: "string \<Rightarrow> nsx_port \<Rightarrow> string list" where
  "portIndexers name p =
    (if name = ''IndexKeySubnetPath'' then subnetPortIndexBySubnetPath p
     else if name = ''IndexKeyAllStsPorts'' then subnetPortIndexBySts p
     else if name \<in> {''nsx-op/subnetport_uid'', ''nsx-op/pod_uid'', ''nsx-op/vm_namespace'', ''nsx-op/namespace'', ''nsx-op/sts_uid'', ''nsx-op/sts_name''}
       then tagValues (ptTags p) name
     else [])"

section \<open>Counters\<close>

record CountInfo =
  dirtyDhcpCount :: int
  dirtyStaticCount :: int
  dirtyDhcpCountIPv6 :: int
  dirtyStaticCountIPv6 :: int
  totalDhcpIP :: int
  totalStaticIP :: int
  totalDhcpIPv6 :: "int option"
  totalStaticIPv6 :: int
  exhaustedCheckTime :: "int option"

definition newInfo :: CountInfo where
  "newInfo = \<lparr>dirtyDhcpCount = 0, dirtyStaticCount = 0, dirtyDhcpCountIPv6 = 0, dirtyStaticCountIPv6 = 0, totalDhcpIP = 0, totalStaticIP = 0,
    totalDhcpIPv6 = None, totalStaticIPv6 = 0, exhaustedCheckTime = None\<rparr>"

text \<open>The answers of NSX: the usage of an address pool, and the statistics of a DHCP server, whose sizes for IPv6 are decimal strings.\<close>

record pool_usage =
  TotalIps :: "int option"
  RequestedIpAllocations :: "int option"

record dhcp_stats =
  IpPoolStats :: "(int option \<times> int option) list"
  DhcpIpv6 :: "(string option \<times> string option) list option"

record vpc_subnet = nsx_subnet_ip +
  snPath :: string
  snIpv4SubnetSize :: "int option"
  snIpAddresses :: "string list"
  snAccessMode :: "string option"

text \<open>\<open>peIPv6\<close> tells whether the NSX version supports IPv6; \<open>peAddressCount\<close> is the address count of the package go-cidr.\<close>

record ('w, 's) pc_env =
  peOps :: "('s, nsx_port) indexer_ops"
  pePool :: "string list \<Rightarrow> string \<Rightarrow> 'w \<Rightarrow> (go_error + pool_usage option) \<times> 'w"
  peDhcpStats :: "string list \<Rightarrow> 'w \<Rightarrow> (go_error + dhcp_stats) \<times> 'w"
  peIPv6 :: bool
  peAddressCount :: "IP \<Rightarrow> IP \<Rightarrow> 64 word"

record ('w, 's) pc_state =
  pcNSX :: 'w
  pcStore :: 's
  pcCounts :: "string \<rightharpoonup> CountInfo"

definition GetPortsOfSubnet :: "('w, 's) pc_env \<Rightarrow> 's \<Rightarrow> string \<Rightarrow> nsx_port list" where
  "GetPortsOfSubnet env s path = GetByIndex (peOps env) s ''IndexKeySubnetPath'' path"

definition isPortStaticAllocated :: "nsx_port \<Rightarrow> bool" where
  "isPortStaticAllocated p =
    (case ptAttachment p of None \<Rightarrow> False
     | Some a \<Rightarrow> paAllocateAddresses a = Some ''BOTH'' \<or> paAllocateAddresses a = Some ''IP_POOL'')"

fun countNSXAddressBindingsByFamily :: "(string option \<times> string option) list \<Rightarrow> nat \<times> nat" where
  "countNSXAddressBindingsByFamily [] = (0, 0)"
| "countNSXAddressBindingsByFamily ((ip, mac) # bs) =
    (let (v4, v6) = countNSXAddressBindingsByFamily bs in
     if ip = None \<or> ip = Some [] then (v4 + 1, v6)
     else (case ParseIP (the ip) of
             Some a \<Rightarrow> if To4 a = [] then (v4, v6 + 1) else (v4 + 1, v6)
           | None \<Rightarrow> (v4 + 1, v6)))"

text \<open>The addresses that one port takes from a pool.\<close>

definition portIPs :: "bool \<Rightarrow> bool \<Rightarrow> nsx_port \<Rightarrow> int" where
  "portIPs useStaticPool useIPv6 p =
    (if isPortStaticAllocated p \<noteq> useStaticPool then 0
     else if ptAddressBindings p = [] then 1
     else let (v4, v6) = countNSXAddressBindingsByFamily (ptAddressBindings p) in if useIPv6 then int v6 else int v4)"

definition countExistingIPsForPool :: "('w, 's) pc_env \<Rightarrow> 's \<Rightarrow> string \<Rightarrow> bool \<Rightarrow> bool \<Rightarrow> int" where
  "countExistingIPsForPool env s path useStaticPool useIPv6 = sum_list (map (portIPs useStaticPool useIPv6) (GetPortsOfSubnet env s path))"

text \<open>Two minutes, in nanoseconds.\<close>

definition IPReleaseTime :: int where "IPReleaseTime = 120 * 10 ^ 9"

definition exhausted :: "CountInfo \<Rightarrow> int \<Rightarrow> bool" where
  "exhausted info now = (case exhaustedCheckTime info of None \<Rightarrow> False | Some t \<Rightarrow> now - t < IPReleaseTime)"

text \<open>\<open>SetString\<close> of \<open>big.Int\<close> with base 10.\<close>

definition bigInt :: "string \<Rightarrow> int option" where
  "bigInt s =
    (let body = (if s \<noteq> [] \<and> (hd s = CHR ''-'' \<or> hd s = CHR ''+'') then tl s else s) in
     if body = [] \<or> \<not> list_all is_digit body then None
     else Some (if hd s = CHR ''-'' then - int (dec_val body) else int (dec_val body)))"

section \<open>Capacity\<close>

definition dhcpModeOf :: "string option \<Rightarrow> string" where
  "dhcpModeOf m = (case m of None \<Rightarrow> ''DHCP_DEACTIVATED'' | Some x \<Rightarrow> x)"

text \<open>The size of the IPv4 pool is read where the code reads it; the result is the number of addresses that NSX counts as allocated.\<close>

definition relayTotal :: "('w, 's) pc_env \<Rightarrow> vpc_subnet \<Rightarrow> int" where
  "relayTotal env subnet =
    (let subnetSize = (case snIpv4SubnetSize subnet of None \<Rightarrow> 0 | Some n \<Rightarrow> n);
         tot = (if snIpAddresses subnet \<noteq> []
           then (case CalculateIPFromCIDRs (peAddressCount env) (snIpAddresses subnet) 0 of Inl _ \<Rightarrow> - 1 | Inr n \<Rightarrow> sint n) else subnetSize) in
     tot - 4)"

definition sizeIPv4 ::
  "('w, 's) pc_env \<Rightarrow> vpc_subnet \<Rightarrow> bool \<Rightarrow> CountInfo \<Rightarrow> bool \<Rightarrow> string list \<Rightarrow> bool \<Rightarrow> 'w \<Rightarrow> (go_error + int) \<times> CountInfo \<times> 'w" where
  "sizeIPv4 env subnet shared info existedEntry ids useStaticPool w =
    (let mode = dhcpModeOf (dhcpMode subnet) in
     if useStaticPool then
       (if \<not> existedEntry \<or> totalStaticIP info = 0 \<or> shared then
          (case pePool env ids ''static-ipv4-default'' w of
             (Inl e, w) \<Rightarrow> (Inl e, info, w)
           | (Inr usage, w) \<Rightarrow>
               (Inr (case usage of Some u \<Rightarrow> if shared then (case RequestedIpAllocations u of Some n \<Rightarrow> n | None \<Rightarrow> 0) else 0 | None \<Rightarrow> 0),
                (case usage of Some u \<Rightarrow> (case TotalIps u of Some n \<Rightarrow> info\<lparr>totalStaticIP := n\<rparr> | None \<Rightarrow> info) | None \<Rightarrow> info), w))
        else (Inr 0, info, w))
     else if mode = ''DHCP_SERVER'' then
       (case peDhcpStats env ids w of
          (Inl e, w) \<Rightarrow> (Inl e, info, w)
        | (Inr stats, w) \<Rightarrow>
            (case IpPoolStats stats of
               [] \<Rightarrow> (Inr 0, info, w)
             | (poolSize, allocated) # _ \<Rightarrow>
                 (Inr (if shared then (case allocated of Some n \<Rightarrow> n | None \<Rightarrow> 0) else 0),
                  (case poolSize of Some n \<Rightarrow> info\<lparr>totalDhcpIP := n\<rparr> | None \<Rightarrow> info), w)))
     else if \<not> existedEntry \<and> mode = ''DHCP_RELAY'' then (Inr 0, info\<lparr>totalDhcpIP := relayTotal env subnet\<rparr>, w)
     else (Inr 0, info, w))"

definition checkIPv4Capacity ::
  "('w, 's) pc_env \<Rightarrow> vpc_subnet \<Rightarrow> bool \<Rightarrow> CountInfo \<Rightarrow> bool \<Rightarrow> string list \<Rightarrow> bool \<Rightarrow> int \<Rightarrow> int \<Rightarrow> 's \<Rightarrow> 'w \<Rightarrow>
   (go_error + bool) \<times> CountInfo \<times> 'w" where
  "checkIPv4Capacity env subnet shared info existedEntry ids useStaticPool ipCount now s w =
    (if dhcpModeOf (dhcpMode subnet) = ''DHCP_DEACTIVATED'' \<and> staticEnabled subnet \<noteq> Some True then (Inr True, info, w)
     else
       case sizeIPv4 env subnet shared info existedEntry ids useStaticPool w of
         (Inl e, info, w) \<Rightarrow> (Inl e, info, w)
       | (Inr allocated, info, w) \<Rightarrow>
           if exhausted info now then (Inr False, info, w)
           else
             let existing = countExistingIPsForPool env s (snPath subnet) useStaticPool False;
                 existing = (if shared then max existing allocated else existing) in
             (Inr (if useStaticPool then dirtyStaticCount info + existing + ipCount \<le> totalStaticIP info
                   else dirtyDhcpCount info + existing + ipCount \<le> totalDhcpIP info), info, w))"

definition checkDhcpIPv6 ::
  "('w, 's) pc_env \<Rightarrow> vpc_subnet \<Rightarrow> bool \<Rightarrow> CountInfo \<Rightarrow> string list \<Rightarrow> int \<Rightarrow> int \<Rightarrow> 's \<Rightarrow> 'w \<Rightarrow> (go_error + bool) \<times> CountInfo \<times> 'w" where
  "checkDhcpIPv6 env subnet shared info ids ipCount now s w =
    (if \<not> peIPv6 env then (Inr True, info, w)
     else
       case peDhcpStats env ids w of
         (Inl e, w) \<Rightarrow> (Inl e, info, w)
       | (Inr stats, w) \<Rightarrow>
           (case DhcpIpv6 stats of
              None \<Rightarrow> (Inr True, info, w)
            | Some [] \<Rightarrow> (Inr True, info, w)
            | Some ((poolSize, allocated) # _) \<Rightarrow>
                let info = (case Option.bind poolSize bigInt of Some n \<Rightarrow> info\<lparr>totalDhcpIPv6 := Some n\<rparr> | None \<Rightarrow> info);
                    allocatedIPs = (if shared then (case Option.bind allocated bigInt of Some n \<Rightarrow> n | None \<Rightarrow> 0) else 0) in
                if exhausted info now then (Inr False, info, w)
                else
                  let existing = countExistingIPsForPool env s (snPath subnet) False True;
                      existing = (if shared \<and> existing < allocatedIPs then allocatedIPs else existing) in
                  (Inr (dirtyDhcpCountIPv6 info + ipCount + existing \<le> (case totalDhcpIPv6 info of Some n \<Rightarrow> n | None \<Rightarrow> 0)), info, w)))"

definition checkIPv6Capacity ::
  "('w, 's) pc_env \<Rightarrow> vpc_subnet \<Rightarrow> bool \<Rightarrow> CountInfo \<Rightarrow> bool \<Rightarrow> string list \<Rightarrow> bool \<Rightarrow> int \<Rightarrow> int \<Rightarrow> 's \<Rightarrow> 'w \<Rightarrow>
   (go_error + bool) \<times> CountInfo \<times> 'w" where
  "checkIPv6Capacity env subnet shared info isNewEntry ids useStaticPool ipCount now s w =
    (if dhcpModeOf (dhcpv6Mode subnet) = ''DHCP_DEACTIVATED'' \<and> staticEnabled subnet \<noteq> Some True then (Inr True, info, w)
     else if \<not> useStaticPool then checkDhcpIPv6 env subnet shared info ids ipCount now s w
     else
       let (allocated, info, w) =
         (if \<not> isNewEntry \<or> totalStaticIPv6 info = 0 \<or> shared then
            (case pePool env ids ''static-ipv6-default'' w of
               (Inl e, w) \<Rightarrow> (Inl e, info, w)
             | (Inr usage, w) \<Rightarrow>
                 (Inr (case usage of Some u \<Rightarrow> if shared then (case RequestedIpAllocations u of Some n \<Rightarrow> n | None \<Rightarrow> 0) else 0 | None \<Rightarrow> 0),
                  (case usage of Some u \<Rightarrow> (case TotalIps u of Some n \<Rightarrow> info\<lparr>totalStaticIPv6 := n\<rparr> | None \<Rightarrow> info) | None \<Rightarrow> info), w))
          else (Inr 0, info, w)) in
       case allocated of
         Inl e \<Rightarrow> (Inl e, info, w)
       | Inr allocated \<Rightarrow>
           if exhausted info now then (Inr False, info, w)
           else
             let existing = countExistingIPsForPool env s (snPath subnet) True True;
                 existing = (if shared then max existing allocated else existing) in
             (Inr (dirtyStaticCountIPv6 info + existing + ipCount \<le> totalStaticIPv6 info), info, w))"

text \<open>The numbers of addresses that a port asks for.\<close>

definition requestedCounts :: "ip_address_type \<Rightarrow> string list \<Rightarrow> int \<times> int" where
  "requestedCounts ipType bindings =
    (let (v4, v6) = CountAddressBindingsByFamily bindings in
     (if IPAddressTypeIncludesIPv4 ipType \<and> v4 = 0 then 1 else int v4, if IPAddressTypeIncludesIPv6 ipType \<and> v6 = 0 then 1 else int v6))"

text \<open>The four identifiers of a Subnet path; an error of the parser is ignored.\<close>

definition subnetIds :: "string \<Rightarrow> string list" where
  "subnetIds path = (case ParseVPCResourcePath path of Inl _ \<Rightarrow> [[], [], [], []] | Inr i \<Rightarrow> [OrgID i, ProjectID i, VPCID i, ResID i])"

definition reserve :: "ip_address_type \<Rightarrow> static_ip_type \<Rightarrow> int \<Rightarrow> int \<Rightarrow> CountInfo \<Rightarrow> CountInfo" where
  "reserve ipType staticType v4 v6 info =
    (let info = (if IPAddressTypeIncludesIPv4 ipType then
           (if StaticIPAllocationTypeIncludesIPv4 staticType then info\<lparr>dirtyStaticCount := dirtyStaticCount info + v4\<rparr>
            else info\<lparr>dirtyDhcpCount := dirtyDhcpCount info + v4\<rparr>) else info) in
     if IPAddressTypeIncludesIPv6 ipType then
       (if StaticIPAllocationTypeIncludesIPv6 staticType then info\<lparr>dirtyStaticCountIPv6 := dirtyStaticCountIPv6 info + v6\<rparr>
        else info\<lparr>dirtyDhcpCountIPv6 := dirtyDhcpCountIPv6 info + v6\<rparr>) else info)"

text \<open>The counters of a Subnet, new ones if it has none.\<close>

definition infoAt :: "('w, 's) pc_state \<Rightarrow> string \<Rightarrow> CountInfo" where
  "infoAt st path = (case pcCounts st path of None \<Rightarrow> newInfo | Some i \<Rightarrow> i)"

definition AllocatePortFromSubnet ::
  "('w, 's) pc_env \<Rightarrow> vpc_subnet \<Rightarrow> bool \<Rightarrow> ip_address_type \<Rightarrow> static_ip_type \<Rightarrow> string list \<Rightarrow> int \<Rightarrow> ('w, 's) pc_state \<Rightarrow>
   (go_error + bool) \<times> ('w, 's) pc_state" where
  "AllocatePortFromSubnet env subnet shared ipType staticType bindings now st =
    (let path = snPath subnet; ids = subnetIds path; existed = (pcCounts st path \<noteq> None);
         info = infoAt st path;
         (v4, v6) = requestedCounts ipType bindings;
         finish = (\<lambda>r info w. (r, st\<lparr>pcNSX := w, pcCounts := (pcCounts st)(path \<mapsto> info)\<rparr>));
         (r4, info, w) = (if IPAddressTypeIncludesIPv4 ipType
           then checkIPv4Capacity env subnet shared info existed ids (StaticIPAllocationTypeIncludesIPv4 staticType) v4 now (pcStore st) (pcNSX st)
           else (Inr True, info, pcNSX st)) in
     if r4 \<noteq> Inr True then finish r4 info w
     else
       let (r6, info, w) = (if IPAddressTypeIncludesIPv6 ipType
           then checkIPv6Capacity env subnet shared info existed ids (StaticIPAllocationTypeIncludesIPv6 staticType) v6 now (pcStore st) w
           else (Inr True, info, w)) in
       if r6 \<noteq> Inr True then finish r6 info w
       else finish (Inr True) (reserve ipType staticType v4 v6 info) w)"

definition decreased :: "int \<Rightarrow> int \<Rightarrow> int" where
  "decreased c n = (if c < n then c else c - n)"

definition release :: "ip_address_type \<Rightarrow> static_ip_type \<Rightarrow> int \<Rightarrow> int \<Rightarrow> CountInfo \<Rightarrow> CountInfo" where
  "release ipType staticType v4 v6 info =
    (let info = (if IPAddressTypeIncludesIPv4 ipType then
           (if StaticIPAllocationTypeIncludesIPv4 staticType then info\<lparr>dirtyStaticCount := decreased (dirtyStaticCount info) v4\<rparr>
            else info\<lparr>dirtyDhcpCount := decreased (dirtyDhcpCount info) v4\<rparr>) else info) in
     if IPAddressTypeIncludesIPv6 ipType then
       (if StaticIPAllocationTypeIncludesIPv6 staticType then info\<lparr>dirtyStaticCountIPv6 := decreased (dirtyStaticCountIPv6 info) v6\<rparr>
        else info\<lparr>dirtyDhcpCountIPv6 := decreased (dirtyDhcpCountIPv6 info) v6\<rparr>) else info)"

definition ReleasePortInSubnet ::
  "string \<Rightarrow> ip_address_type \<Rightarrow> static_ip_type \<Rightarrow> string list \<Rightarrow> ('w, 's) pc_state \<Rightarrow> ('w, 's) pc_state" where
  "ReleasePortInSubnet path ipType staticType bindings st =
    (case pcCounts st path of
       None \<Rightarrow> st
     | Some info \<Rightarrow>
         let (v4, v6) = requestedCounts ipType bindings in st\<lparr>pcCounts := (pcCounts st)(path \<mapsto> release ipType staticType v4 v6 info)\<rparr>)"

definition ResetSubnetTotalIP :: "string \<Rightarrow> ('w, 's) pc_state \<Rightarrow> ('w, 's) pc_state" where
  "ResetSubnetTotalIP path st =
    (case pcCounts st path of
       None \<Rightarrow> st
     | Some info \<Rightarrow> st\<lparr>pcCounts := (pcCounts st)(path \<mapsto> info\<lparr>totalStaticIP := 0, totalDhcpIP := 0, totalStaticIPv6 := 0, totalDhcpIPv6 := None\<rparr>)\<rparr>)"

definition updateExhaustedSubnet :: "string \<Rightarrow> int \<Rightarrow> ('w, 's) pc_state \<Rightarrow> ('w, 's) pc_state" where
  "updateExhaustedSubnet path now st =
    (case pcCounts st path of
       None \<Rightarrow> st
     | Some info \<Rightarrow> st\<lparr>pcCounts := (pcCounts st)(path \<mapsto> info\<lparr>exhaustedCheckTime := Some now\<rparr>)\<rparr>)"

definition IsEmptySubnet :: "('w, 's) pc_env \<Rightarrow> string \<Rightarrow> ('w, 's) pc_state \<Rightarrow> bool" where
  "IsEmptySubnet env path st \<longleftrightarrow>
    int (length (GetPortsOfSubnet env (pcStore st) path))
      + (case pcCounts st path of None \<Rightarrow> 0
         | Some i \<Rightarrow> dirtyStaticCount i + dirtyDhcpCount i + dirtyStaticCountIPv6 i + dirtyDhcpCountIPv6 i) < 1"

definition DeletePortCount :: "string \<Rightarrow> ('w, 's) pc_state \<Rightarrow> ('w, 's) pc_state" where
  "DeletePortCount path st = st\<lparr>pcCounts := (pcCounts st)(path := None)\<rparr>"


section \<open>Reservations in flight\<close>

text \<open>The stored ports of a Subnet.\<close>

definition portsAt :: "('s, nsx_port) indexer_ops \<Rightarrow> 's \<Rightarrow> string \<Rightarrow> nsx_port set" where
  "portsAt ops s path = {p. ixGetByKey ops s (ptId p) = Some p \<and> ptParentPath p = Some path}"

text \<open>The indexer returns each object once, as client-go does.\<close>

locale counted_indexer = indexer ops portKey portIndexers
  for ops :: "('s, nsx_port) indexer_ops" +
  assumes once: "distinct (ixByIndex ops s i v)"
begin

lemma ports_set: "set (ixByIndex ops s ''IndexKeySubnetPath'' path) = portsAt ops s path"
  by (auto simp: portsAt_def by_index_iff portKey_def portIndexers_def subnetPortIndexBySubnetPath_def split: option.splits)

lemma count_sum: "peOps env = ops \<Longrightarrow> countExistingIPsForPool env s path st v6 = (\<Sum>p \<in> portsAt ops s path. portIPs st v6 p)"
  using sum_list_distinct_conv_sum_set [OF once, of "portIPs st v6" s "''IndexKeySubnetPath''" path]
  by (simp add: countExistingIPsForPool_def GetPortsOfSubnet_def GetByIndex_def ports_set)

lemma ports_finite: "finite (portsAt ops s path)"
  unfolding ports_set [symmetric] by simp

lemma ports_add: "ixGetByKey ops s (ptId p) = None \<Longrightarrow> ptParentPath p = Some path \<Longrightarrow> portsAt ops (ixAdd ops s p) path = insert p (portsAt ops s path)"
  by (auto simp: portsAt_def get_add portKey_def split: if_splits)

lemma ports_delete: "portsAt ops (ixDelete ops s p) path \<subseteq> portsAt ops s path"
  by (auto simp: portsAt_def get_delete portKey_def split: if_splits)

end


text \<open>A reservation is the address type, the static allocation type and the bindings of a port; its demand is what it takes from the static IPv4 pool. The flag tells
  whether the port is in the store.\<close>

type_synonym reservation = "ip_address_type \<times> static_ip_type \<times> string list"

definition demand :: "reservation \<Rightarrow> int" where
  "demand r = (case r of (ipType, staticType, bindings) \<Rightarrow>
     if IPAddressTypeIncludesIPv4 ipType \<and> StaticIPAllocationTypeIncludesIPv4 staticType then fst (requestedCounts ipType bindings) else 0)"

type_synonym ('w, 's) port_system = "('w, 's) pc_state \<times> (reservation \<times> bool) list"

text \<open>The steps of concurrent reconciliations that concern one Subnet: a reservation that is granted or refused, a port of a reservation that NSX has created
  and the store gets, the release after a success or a failure, the deletion of a port, the reset of the sizes, the mark of exhaustion, and everything that
  happens elsewhere. Each step holds the lock of the counters.\<close>

inductive port_step :: "('w, 's) pc_env \<Rightarrow> vpc_subnet \<Rightarrow> ('w, 's) port_system \<Rightarrow> ('w, 's) port_system \<Rightarrow> bool"
  for env subnet where
  granted: "AllocatePortFromSubnet env subnet False ipType staticType bindings now st = (Inr True, st')
    \<Longrightarrow> port_step env subnet (st, R) (st', ((ipType, staticType, bindings), False) # R)"
| refused: "AllocatePortFromSubnet env subnet False ipType staticType bindings now st = (res, st') \<Longrightarrow> res \<noteq> Inr True
    \<Longrightarrow> port_step env subnet (st, R) (st', R)"
| created: "ixGetByKey (peOps env) (pcStore st) (ptId p) = None \<Longrightarrow> ptParentPath p = Some (snPath subnet) \<Longrightarrow> portIPs True False p = demand r
    \<Longrightarrow> port_step env subnet (st, A @ (r, False) # B) (st\<lparr>pcStore := ixAdd (peOps env) (pcStore st) p\<rparr>, A @ (r, True) # B)"
| released: "port_step env subnet (st, A @ ((ipType, staticType, bindings), stored) # B) (ReleasePortInSubnet (snPath subnet) ipType staticType bindings st, A @ B)"
| deleted: "port_step env subnet (st, R) (st\<lparr>pcStore := ixDelete (peOps env) (pcStore st) p\<rparr>, R)"
| reset: "port_step env subnet (st, R) (ResetSubnetTotalIP (snPath subnet) st, R)"
| marked: "port_step env subnet (st, R) (updateExhaustedSubnet (snPath subnet) now st, R)"
| elsewhere: "pcCounts st' (snPath subnet) = pcCounts st (snPath subnet) \<Longrightarrow> portsAt (peOps env) (pcStore st') (snPath subnet) = portsAt (peOps env) (pcStore st) (snPath subnet)
    \<Longrightarrow> port_step env subnet (st, R) (st', R)"

inductive port_reachable :: "('w, 's) pc_env \<Rightarrow> vpc_subnet \<Rightarrow> ('w, 's) port_system \<Rightarrow> ('w, 's) port_system \<Rightarrow> bool"
  for env subnet start where
  start: "port_reachable env subnet start start"
| step: "port_reachable env subnet start x \<Longrightarrow> port_step env subnet x y \<Longrightarrow> port_reachable env subnet start y"

text \<open>No answer of NSX gives the static IPv4 pool a size above \<open>T\<close>.\<close>

definition pool_within :: "('w, 's) pc_env \<Rightarrow> int \<Rightarrow> bool" where
  "pool_within env T \<longleftrightarrow> 0 \<le> T
    \<and> (\<forall>ids w u n w'. pePool env ids ''static-ipv4-default'' w = (Inr (Some u), w') \<longrightarrow> TotalIps u = Some n \<longrightarrow> n \<le> T)"

definition demands :: "(reservation \<times> bool) list \<Rightarrow> int" where
  "demands R = sum_list (map (demand \<circ> fst) R)"

definition port_inv :: "('w, 's) pc_env \<Rightarrow> vpc_subnet \<Rightarrow> int \<Rightarrow> ('w, 's) port_system \<Rightarrow> bool" where
  "port_inv env subnet T x \<longleftrightarrow> (case x of (st, R) \<Rightarrow>
     dirtyStaticCount (infoAt st (snPath subnet)) = demands R \<and> totalStaticIP (infoAt st (snPath subnet)) \<le> T
     \<and> countExistingIPsForPool env (pcStore st) (snPath subnet) True False + demands (filter (\<lambda>x. \<not> snd x) R) \<le> T)"

section \<open>The capacity is never exceeded\<close>

lemma demand_nonneg: "0 \<le> demand r"
  by (cases r) (auto simp: demand_def requestedCounts_def split: prod.splits)

lemma demands_simps [simp]:
  "demands [] = 0" "demands (x # R) = demand (fst x) + demands R" "demands (A @ B) = demands A + demands B"
  by (simp_all add: demands_def)

lemma demands_filter: "0 \<le> demands (filter P R)" "demands (filter P R) \<le> demands R"
  using demand_nonneg by (induction R) (auto simp: add_increasing add_mono)

lemma pool_withinD: "pool_within env T \<Longrightarrow> pePool env ids ''static-ipv4-default'' w = (Inr (Some u), w') \<Longrightarrow> TotalIps u = Some n \<Longrightarrow> n \<le> T"
  unfolding pool_within_def by blast

lemma size_keeps:
  assumes "sizeIPv4 env subnet shared info existed ids useStatic w = (res, info', w')" "pool_within env T" "totalStaticIP info \<le> T"
  shows "dirtyStaticCount info' = dirtyStaticCount info \<and> totalStaticIP info' \<le> T"
  using assms(1,3) by (auto simp: sizeIPv4_def Let_def dest: pool_withinD [OF assms(2)] split: if_splits prod.splits sum.splits option.splits list.splits)

lemma check4_keeps:
  assumes "checkIPv4Capacity env subnet False info existed ids useStatic n now s w = (res, info', w')" "pool_within env T" "totalStaticIP info \<le> T"
  shows "dirtyStaticCount info' = dirtyStaticCount info \<and> totalStaticIP info' \<le> T"
    and "staticEnabled subnet = Some True \<Longrightarrow> useStatic \<Longrightarrow> res = Inr True \<Longrightarrow> dirtyStaticCount info + countExistingIPsForPool env s (snPath subnet) True False + n \<le> T"
proof -
  obtain a i v where a: "sizeIPv4 env subnet False info existed ids useStatic w = (a, i, v)" by (metis prod.exhaust)
  note k = size_keeps [OF a assms(2,3)]
  show "dirtyStaticCount info' = dirtyStaticCount info \<and> totalStaticIP info' \<le> T"
    using assms(1,3) k by (auto simp: checkIPv4Capacity_def a Let_def split: if_splits sum.splits)
  show "staticEnabled subnet = Some True \<Longrightarrow> useStatic \<Longrightarrow> res = Inr True \<Longrightarrow> dirtyStaticCount info + countExistingIPsForPool env s (snPath subnet) True False + n \<le> T"
    using assms(1) k a by (auto simp: checkIPv4Capacity_def Let_def split: if_splits sum.splits)
qed

lemma check6_keeps:
  assumes "checkIPv6Capacity env subnet shared info existed ids useStatic n now s w = (res, info', w')"
  shows "dirtyStaticCount info' = dirtyStaticCount info \<and> totalStaticIP info' = totalStaticIP info"
  using assms by (auto simp: checkIPv6Capacity_def checkDhcpIPv6_def Let_def split: if_splits prod.splits sum.splits option.splits list.splits)

lemma reserve_static: "dirtyStaticCount (reserve ipType staticType v4 v6 info)
    = dirtyStaticCount info + (if IPAddressTypeIncludesIPv4 ipType \<and> StaticIPAllocationTypeIncludesIPv4 staticType then v4 else 0)"
  "totalStaticIP (reserve ipType staticType v4 v6 info) = totalStaticIP info"
  by (simp_all add: reserve_def Let_def)

lemma release_static: "dirtyStaticCount (release ipType staticType v4 v6 info)
    = (if IPAddressTypeIncludesIPv4 ipType \<and> StaticIPAllocationTypeIncludesIPv4 staticType then decreased (dirtyStaticCount info) v4 else dirtyStaticCount info)"
  "totalStaticIP (release ipType staticType v4 v6 info) = totalStaticIP info"
  by (simp_all add: release_def Let_def)


lemma allocate_effect:
  assumes run: "AllocatePortFromSubnet env subnet False ipType staticType bindings now st = (res, st')"
    and T: "pool_within env T" "totalStaticIP (infoAt st (snPath subnet)) \<le> T" and static: "staticEnabled subnet = Some True"
  shows "pcStore st' = pcStore st \<and> totalStaticIP (infoAt st' (snPath subnet)) \<le> T
    \<and> dirtyStaticCount (infoAt st' (snPath subnet))
       = dirtyStaticCount (infoAt st (snPath subnet)) + (if res = Inr True then demand (ipType, staticType, bindings) else 0)
    \<and> (res = Inr True \<longrightarrow> 0 < demand (ipType, staticType, bindings) \<longrightarrow>
       dirtyStaticCount (infoAt st (snPath subnet)) + countExistingIPsForPool env (pcStore st) (snPath subnet) True False
         + demand (ipType, staticType, bindings) \<le> T)"
proof -
  let ?path = "snPath subnet" and ?u4 = "StaticIPAllocationTypeIncludesIPv4 staticType" and ?u6 = "StaticIPAllocationTypeIncludesIPv6 staticType"
  let ?ids = "subnetIds ?path" and ?ex = "pcCounts st ?path \<noteq> None" and ?info = "infoAt st ?path"
  obtain v4 v6 where v: "requestedCounts ipType bindings = (v4, v6)" by fastforce
  obtain r4 i4 w4 where c4: "(if IPAddressTypeIncludesIPv4 ipType
      then checkIPv4Capacity env subnet False ?info ?ex ?ids ?u4 v4 now (pcStore st) (pcNSX st) else (Inr True, ?info, pcNSX st)) = (r4, i4, w4)" by (metis prod.exhaust)
  obtain r6 i6 w6 where c6: "(if IPAddressTypeIncludesIPv6 ipType
      then checkIPv6Capacity env subnet False i4 ?ex ?ids ?u6 v6 now (pcStore st) w4 else (Inr True, i4, w4)) = (r6, i6, w6)" by (metis prod.exhaust)
  have k4: "dirtyStaticCount i4 = dirtyStaticCount ?info \<and> totalStaticIP i4 \<le> T"
    using c4 check4_keeps(1) [OF _ T] T(2) by (auto split: if_splits)
  have k6: "dirtyStaticCount i6 = dirtyStaticCount i4 \<and> totalStaticIP i6 = totalStaticIP i4"
    using c6 check6_keeps by (fastforce split: if_splits)
  have cap: "dirtyStaticCount ?info + countExistingIPsForPool env (pcStore st) ?path True False + v4 \<le> T"
    if "r4 = Inr True" "IPAddressTypeIncludesIPv4 ipType" ?u4
    using c4 that check4_keeps(2) [OF _ T static] by auto
  have out: "(res, st') = (let finish = (\<lambda>r info w. (r, st\<lparr>pcNSX := w, pcCounts := (pcCounts st)(?path \<mapsto> info)\<rparr>)) in
      if r4 \<noteq> Inr True then finish r4 i4 w4 else if r6 \<noteq> Inr True then finish r6 i6 w6
      else finish (Inr True) (reserve ipType staticType v4 v6 i6) w6)"
    using run by (simp only: AllocatePortFromSubnet_def Let_def v prod.case c4 c6)
  show ?thesis
    using out k4 k6 cap by (auto simp: Let_def infoAt_def demand_def v reserve_static split: if_splits)
qed


lemma sum_portIPs_mono:
  assumes "finite B" "A \<subseteq> B"
  shows "(\<Sum>p \<in> A. portIPs st v6 p) \<le> (\<Sum>p \<in> B. portIPs st v6 p)"
  using assms by (intro sum_mono2) (auto simp: portIPs_def split: prod.splits)

context counted_indexer
begin

lemma inv_step:
  assumes "peOps env = ops" "pool_within env T" "staticEnabled subnet = Some True" "port_inv env subnet T x" "port_step env subnet x y"
  shows "port_inv env subnet T y"
proof -
  let ?path = "snPath subnet"
  note count = count_sum [OF assms(1)]
  from assms(5,4) show ?thesis
  proof (induction rule: port_step.induct)
    case (granted ipType staticType bindings now st st' R)
    then have i: "dirtyStaticCount (infoAt st ?path) = demands R" "totalStaticIP (infoAt st ?path) \<le> T"
      "countExistingIPsForPool env (pcStore st) ?path True False + demands (filter (\<lambda>x. \<not> snd x) R) \<le> T" by (simp_all add: port_inv_def)
    let ?d = "demand (ipType, staticType, bindings)"
    note e = allocate_effect [OF granted.hyps assms(2) i(2) assms(3)]
    have "?d = 0 \<or> 0 < ?d" using demand_nonneg [of "(ipType, staticType, bindings)"] by auto
    then show ?case using e i demands_filter(2) [of "\<lambda>x. \<not> snd x" R] by (auto simp: port_inv_def)
  next
    case (refused ipType staticType bindings now st res st' R)
    then show ?case using allocate_effect [OF refused.hyps(1) assms(2) _ assms(3)] by (auto simp: port_inv_def)
  next
    case (created st p r A B)
    have "p \<notin> portsAt ops (pcStore st) ?path" using created.hyps(1) assms(1) by (auto simp: portsAt_def)
    then have "countExistingIPsForPool env (ixAdd ops (pcStore st) p) ?path True False
        = countExistingIPsForPool env (pcStore st) ?path True False + demand r"
      using created.hyps assms(1) ports_add [of "pcStore st" p ?path] ports_finite by (simp add: count)
    then show ?case using created.prems assms(1) by (simp add: port_inv_def infoAt_def)
  next
    case (released st A ipType staticType bindings stored B)
    obtain v4 v6 where v: "requestedCounts ipType bindings = (v4, v6)" by fastforce
    note nn = demand_nonneg [of "(ipType, staticType, bindings)"] demands_filter(1) [of "\<lambda>_. True" A] demands_filter(1) [of "\<lambda>_. True" B]
    show ?case using released nn by (auto simp: port_inv_def ReleasePortInSubnet_def infoAt_def v release_static decreased_def demand_def newInfo_def
          split: option.splits if_splits)
  next
    case (deleted st R p)
    have "countExistingIPsForPool env (ixDelete ops (pcStore st) p) ?path True False \<le> countExistingIPsForPool env (pcStore st) ?path True False"
      unfolding count by (rule sum_portIPs_mono [OF ports_finite ports_delete])
    then show ?case using deleted assms(1) by (auto simp: port_inv_def infoAt_def)
  next
    case (reset st R)
    then show ?case using assms(2) by (auto simp: port_inv_def ResetSubnetTotalIP_def infoAt_def pool_within_def split: option.splits)
  next
    case (marked st R now)
    then show ?case by (auto simp: port_inv_def updateExhaustedSubnet_def infoAt_def split: option.splits)
  next
    case (elsewhere st' st R)
    then show ?case using assms(1) by (auto simp: port_inv_def infoAt_def count)
  qed
qed

end


section \<open>Properties\<close>


lemma countExisting_nonneg: "0 \<le> countExistingIPsForPool env s path st v6"
  by (auto simp: countExistingIPsForPool_def portIPs_def intro!: sum_list_nonneg split: prod.splits)

lemma requested_pos: "IPAddressTypeIncludesIPv4 ipType \<Longrightarrow> 1 \<le> fst (requestedCounts ipType bindings)"
  by (auto simp: requestedCounts_def split: prod.splits)

text \<open>C40. Defect: the size of the DHCP pool of a Subnet with a DHCP relay is computed only when the counters are made. Once it is zero, after the reset that follows the creation
  or deletion of a SubnetIPReservation, or because the first port took a static address, every later request for a DHCP address is refused and changes nothing, for ever.\<close>

theorem relay_pool_lost:
  assumes "dhcpMode subnet = Some ''DHCP_RELAY''" "pcCounts st (snPath subnet) = Some info" "totalDhcpIP info = 0" "0 \<le> dirtyDhcpCount info"
    and "IPAddressTypeIncludesIPv4 ipType" "\<not> StaticIPAllocationTypeIncludesIPv4 staticType"
  shows "AllocatePortFromSubnet env subnet shared ipType staticType bindings now st = (Inr False, st)"
proof -
  obtain v4 v6 where v: "requestedCounts ipType bindings = (v4, v6)" by fastforce
  have v4: "1 \<le> v4" using requested_pos [OF assms(5), of bindings] v by simp
  have info: "infoAt st (snPath subnet) = info" using assms(2) by (simp add: infoAt_def)
  have "sizeIPv4 env subnet shared info True ids False w = (Inr 0, info, w)" for ids w
    using assms(1) by (simp add: sizeIPv4_def Let_def dhcpModeOf_def)
  then have "checkIPv4Capacity env subnet shared info True ids False v4 now s w = (Inr False, info, w)" for ids s w
    using assms(1,3,4) v4 countExisting_nonneg [of env s "snPath subnet" False False] by (auto simp: checkIPv4Capacity_def Let_def dhcpModeOf_def)
  then show ?thesis using assms(2,5,6) by (simp add: AllocatePortFromSubnet_def Let_def v info fun_upd_idem)
qed

section \<open>Examples\<close>

definition onceOps :: "((string \<times> nsx_port) list, nsx_port) indexer_ops" where
  "onceOps = (al_ops portKey portIndexers)\<lparr>ixByIndex := (\<lambda>s i v. remdups (ixByIndex (al_ops portKey portIndexers) s i v))\<rparr>"

interpretation once: counted_indexer onceOps
proof (intro counted_indexer.intro counted_indexer_axioms.intro)
  show "indexer onceOps portKey portIndexers"
    using indexer_al_ops [of portKey portIndexers] by (simp add: indexer_def onceOps_def)
qed (simp add: onceOps_def)

definition demoPcEnv :: "(unit, (string \<times> nsx_port) list) pc_env" where
  "demoPcEnv = \<lparr>peOps = onceOps, pePool = (\<lambda>_ _ w. (Inr (Some \<lparr>TotalIps = Some 3, RequestedIpAllocations = None\<rparr>), w)),
    peDhcpStats = (\<lambda>_ w. (Inr \<lparr>IpPoolStats = [], DhcpIpv6 = None\<rparr>, w)), peIPv6 = True, peAddressCount = (\<lambda>_ _. 16)\<rparr>"

definition demoSubnet :: vpc_subnet where
  "demoSubnet = \<lparr>dhcpMode = Some ''DHCP_RELAY'', dhcpv6Mode = None, staticEnabled = Some True, snPath = ''/orgs/o/projects/p/vpcs/v/subnets/s'',
    snIpv4SubnetSize = Some 16, snIpAddresses = [], snAccessMode = None\<rparr>"

definition demoPort :: "string \<Rightarrow> nsx_port" where
  "demoPort i = \<lparr>ptId = i, ptDisplayName = i, ptTags = [], ptAttachment = Some \<lparr>paAllocateAddresses = Some ''BOTH'', paAppId = None, paContextId = None, paId = None,
      paTrafficTag = None, paType = None\<rparr>, ptAddressBindings = [], ptExternalAddressBinding = None, ptStaticIpAllocationType = None, ptPath = None,
    ptParentPath = Some ''/orgs/o/projects/p/vpcs/v/subnets/s'', ptMarkedForDelete = None\<rparr>"

definition demoRequest :: reservation where
  "demoRequest = (IPAddressTypeIPv4, StaticIPAllocationTypeIPv4, [])"


text \<open>The reset of a Subnet with a DHCP relay that has room for twelve ports.\<close>

theorem relay_pool_lost_witness:
  "let st = ResetSubnetTotalIP (snPath demoSubnet) (snd (AllocatePortFromSubnet demoPcEnv demoSubnet False IPAddressTypeIPv4 StaticIPAllocationTypeNone [] 0
      \<lparr>pcNSX = (), pcStore = [], pcCounts = Map.empty\<rparr>)) in
   totalDhcpIP (infoAt (snd (AllocatePortFromSubnet demoPcEnv demoSubnet False IPAddressTypeIPv4 StaticIPAllocationTypeNone [] 0
      \<lparr>pcNSX = (), pcStore = [], pcCounts = Map.empty\<rparr>)) (snPath demoSubnet)) = 12
   \<and> AllocatePortFromSubnet demoPcEnv demoSubnet False IPAddressTypeIPv4 StaticIPAllocationTypeNone [] 5 st = (Inr False, st)"
proof -
  let ?s1 = "snd (AllocatePortFromSubnet demoPcEnv demoSubnet False IPAddressTypeIPv4 StaticIPAllocationTypeNone [] 0 \<lparr>pcNSX = (), pcStore = [], pcCounts = Map.empty\<rparr>)"
  let ?st = "ResetSubnetTotalIP (snPath demoSubnet) ?s1"
  have "map_option (\<lambda>i. (totalDhcpIP i, dirtyDhcpCount i)) (pcCounts ?st (snPath demoSubnet)) = Some (0, 1)" by code_simp
  then obtain info where "pcCounts ?st (snPath demoSubnet) = Some info" "totalDhcpIP info = 0" "0 \<le> dirtyDhcpCount info" by auto
  from relay_pool_lost [OF _ this, of IPAddressTypeIPv4 StaticIPAllocationTypeNone demoPcEnv False "[]" 5]
  have "AllocatePortFromSubnet demoPcEnv demoSubnet False IPAddressTypeIPv4 StaticIPAllocationTypeNone [] 5 ?st = (Inr False, ?st)"
    by (simp add: demoSubnet_def IPAddressTypeIncludesIPv4_def StaticIPAllocationTypeIncludesIPv4_def)
  moreover have "totalDhcpIP (infoAt ?s1 (snPath demoSubnet)) = 12" by code_simp
  ultimately show ?thesis by (simp add: Let_def)
qed

end
