(* ===== verification/SubnetPort.thy ===== *)
theory SubnetPort
  imports PortCount
begin

text \<open>
  The ports of SubnetPorts and Pods: the builder and the service of \<open>pkg/nsx/services/subnetport\<close>. The port of an object is built, written to NSX when it differs from
  the stored one, stored, checked for its realization and read back; a port whose realization fails is deleted again.
\<close>

section \<open>Data\<close>

text \<open>\<open>StaticIPAllocationTypeNone\<close> stands for the empty type too, which the sources treat alike. An owner is its kind, name and UID; an address in the status comes with its gateway, a condition is its reason and whether it is true.\<close>

record subnet_port =
  spMeta :: object_meta
  spInterfaceIPType :: ip_address_type
  spStaticIPAllocationType :: static_ip_type
  spAddressBindings :: "(string \<times> string) list"
  spOwners :: "(string \<times> string \<times> string) list"
  spAnnotations :: "(string \<times> string) list"
  spStatusIPs :: "(string \<times> string) list"
  spStatusMAC :: string
  spStatusAttachment :: string
  spConditions :: "(string \<times> bool) list"

record k8s_pod =
  pdMeta :: object_meta
  pdAnnotations :: "(string \<times> string) list"
  pdPodIPs :: "string list"
  pdPodIP :: string
  pdController :: "(string \<times> string \<times> string) option"

datatype port_object = PortCR subnet_port | PortPod k8s_pod

record vm_binding =
  vbMeta :: object_meta
  vbVMName :: string
  vbInterfaceName :: string
  vbIPAddressAllocationName :: string
  vbStatusIP :: string
  vbCreated :: int

type_synonym port_value =
  "string \<times> string \<times> nsx_tag list \<times> (string option \<times> string option \<times> string option \<times> string option \<times> int option) option
   \<times> string option \<times> (string option \<times> string option) list \<times> string option option"

text \<open>The features are the answers of the feature gates; an allocation is its path and identifier; the generators of attachment identifiers are those of the
  package uuid, seeded by the UID and, in restore mode, by the clock.\<close>

record ('w, 's, 'd, 'e, 't) port_env =
  poCount :: "('w, 's) pc_env"
  poClient :: "('w, nsx_port) child_client"
  poPortState :: "string list \<Rightarrow> string \<Rightarrow> 'w \<Rightarrow> (go_error + 't) \<times> 'w"
  poEntities :: "'w entity_client"
  poApi :: converter
  poTree :: "('w, nsx_port, 'd) tree_client"
  poPodV2 :: bool
  poRestoreVif :: bool
  poStsPod :: bool
  poGetPod :: "string \<Rightarrow> string \<Rightarrow> gerror + k8s_pod"
  poNamespaceUID :: "string \<Rightarrow> gerror + string"
  poGetAllocationCR :: "string \<Rightarrow> string \<Rightarrow> gerror + object_meta"
  poAllocationByOwner :: "object_meta \<Rightarrow> gerror + (string option \<times> string) option"
  poBindingsOfVM :: "string \<Rightarrow> gerror + vm_binding list"
  poPortsOfVM :: "string \<Rightarrow> gerror + nat"
  poListVPCInfo :: "string \<Rightarrow> vpc_resource_info list"
  poListCRs :: "gerror + object_meta list"
  poCluster :: string
  poUUID :: "nat \<Rightarrow> string"
  poAttachmentID :: "string \<Rightarrow> gerror + string"
  poRestoredID :: "string \<Rightarrow> gerror + string"
  poNow :: int
  poEnc :: "port_value \<Rightarrow> 'e"

definition poOps :: "('w, 's, 'd, 'e, 't) port_env \<Rightarrow> ('s, nsx_port) indexer_ops" where
  "poOps env = peOps (poCount env)"

definition getObjectMeta :: "port_object \<Rightarrow> object_meta" where
  "getObjectMeta ob = (case ob of PortCR p \<Rightarrow> spMeta p | PortPod p \<Rightarrow> pdMeta p)"

section \<open>Store and comparison\<close>

definition portStore_Apply :: "('s, nsx_port) indexer_ops \<Rightarrow> nsx_port \<Rightarrow> 's \<Rightarrow> 's" where
  "portStore_Apply ops p s = (if ptMarkedForDelete p = Some True then ixDelete ops s p else ixAdd ops s p)"

definition GetVpcSubnetPortByUID :: "('s, nsx_port) indexer_ops \<Rightarrow> 's \<Rightarrow> string \<Rightarrow> nsx_port option" where
  "GetVpcSubnetPortByUID ops s uid =
    (case concat (map (\<lambda>index. ixByIndex ops s index uid) [''nsx-op/subnetport_uid'', ''nsx-op/pod_uid'']) of [] \<Rightarrow> None | p # _ \<Rightarrow> Some p)"

definition port_DeleteMultipleObjects :: "('s, nsx_port) indexer_ops \<Rightarrow> 's \<Rightarrow> nsx_port list \<Rightarrow> 's" where
  "port_DeleteMultipleObjects ops s ports = foldl (ixDelete ops) s ports"

text \<open>The type of the attachment is filled with its allocation mode, which is already there.\<close>

definition port_Value :: "nsx_port \<Rightarrow> port_value" where
  "port_Value p =
    (ptId p, ptDisplayName p, ptTags p,
     map_option (\<lambda>a. (paAllocateAddresses a, paAppId a, paContextId a, paId a, paTrafficTag a)) (ptAttachment p),
     ptStaticIpAllocationType p, ptAddressBindings p, ptExternalAddressBinding p)"

section \<open>The builder\<close>

definition GetPodNameForSubnetPort :: "subnet_port \<Rightarrow> string" where
  "GetPodNameForSubnetPort sp = (case List.find (\<lambda>(k, n, u). k = ''Pod'') (spOwners sp) of None \<Rightarrow> [] | Some (k, n, u) \<Rightarrow> n)"

definition GetPodForSubnetPort :: "(string \<Rightarrow> string \<Rightarrow> gerror + k8s_pod) \<Rightarrow> subnet_port \<Rightarrow> gerror + k8s_pod option" where
  "GetPodForSubnetPort getPod sp =
    (case List.find (\<lambda>(k, n, u). k = ''Pod'') (spOwners sp) of
       None \<Rightarrow> Inr None
     | Some (k, n, u) \<Rightarrow>
         (case getPod (Namespace (spMeta sp)) n of
            Inl err \<Rightarrow> Inl err
          | Inr pod \<Rightarrow>
              if UID (pdMeta pod) \<noteq> u
              then Inl (''SubnetPort '' @ Namespace (spMeta sp) @ ''/'' @ Name (spMeta sp) @ '' owner Pod '' @ n @ '' UID changed from '' @ u @ '' to '' @ UID (pdMeta pod))
              else Inr (Some pod)))"

definition GetStatefulSetUID :: "k8s_pod \<Rightarrow> string" where
  "GetStatefulSetUID pod = (case pdController pod of Some (k, n, u) \<Rightarrow> if k = ''StatefulSet'' then u else [] | None \<Rightarrow> [])"

definition statefulSetName :: "k8s_pod \<Rightarrow> string" where
  "statefulSetName pod = (case pdController pod of Some (k, n, u) \<Rightarrow> if k = ''StatefulSet'' then n else [] | None \<Rightarrow> [])"

definition GetVirtualMachineNameForSubnetPort :: "subnet_port \<Rightarrow> gerror + string \<times> string" where
  "GetVirtualMachineNameForSubnetPort sp =
    (case map_of (spAnnotations sp) ''nsx.vmware.com/attachment_ref'' of
       None \<Rightarrow> Inr ([], [])
     | Some ref \<Rightarrow>
         let parts = split_char CHR ''/'' ref in
         if length parts \<noteq> 3 \<or> map lower_char (parts ! 0) \<noteq> ''virtualmachine''
         then Inl (''invalid annotation value of nsx.vmware.com/attachment_ref: '' @ ref)
         else Inr (parts ! 1, parts ! 2))"

fun pickBinding :: "(string \<Rightarrow> gerror + nat) \<Rightarrow> string \<Rightarrow> vm_binding list \<Rightarrow> vm_binding option" where
  "pickBinding portsOfVM port [] = None"
| "pickBinding portsOfVM port (ab # rest) =
    (if vbInterfaceName ab = [] then
       (case portsOfVM (Namespace (vbMeta ab) @ ''/'' @ vbVMName ab) of
          Inl _ \<Rightarrow> None
        | Inr n \<Rightarrow> if n = 0 then None else if n = 1 then Some ab else pickBinding portsOfVM port rest)
     else if vbInterfaceName ab = port then Some ab
     else pickBinding portsOfVM port rest)"

text \<open>The bindings are sorted by their creation time.\<close>

definition GetAddressBindingBySubnetPort :: "('w, 's, 'd, 'e, 't) port_env \<Rightarrow> subnet_port \<Rightarrow> vm_binding option" where
  "GetAddressBindingBySubnetPort env sp =
    (case GetVirtualMachineNameForSubnetPort sp of
       Inl _ \<Rightarrow> None
     | Inr (vm, port) \<Rightarrow>
         if vm = [] then None
         else case poBindingsOfVM env (Namespace (spMeta sp) @ ''/'' @ vm) of
           Inl _ \<Rightarrow> None
         | Inr items \<Rightarrow> pickBinding (poPortsOfVM env) port (sort_key vbCreated items))"

text \<open>\<open>None\<close> is a nil pointer: an allocation that is not in the store is dereferenced.\<close>

definition buildExternalAddressBinding ::
  "('w, 's, 'd, 'e, 't) port_env \<Rightarrow> subnet_port \<Rightarrow> vpc_subnet \<Rightarrow> bool \<Rightarrow> (gerror + string option option) option" where
  "buildExternalAddressBinding env sp subnet restoreMode =
    (if spInterfaceIPType sp = IPAddressTypeIPv6 then Some (Inr None)
     else if (case snAccessMode subnet of Some m \<Rightarrow> map lower_char m = ''public'' | None \<Rightarrow> False) then Some (Inr None)
     else
       case GetAddressBindingBySubnetPort env sp of
         None \<Rightarrow> Some (Inr None)
       | Some ab \<Rightarrow>
           if vbIPAddressAllocationName ab \<noteq> [] then
             (case poGetAllocationCR env (Namespace (vbMeta ab)) (vbIPAddressAllocationName ab) of
                Inl err \<Rightarrow> Some (Inl err)
              | Inr meta \<Rightarrow>
                  (case poAllocationByOwner env meta of
                     Inl err \<Rightarrow> Some (Inl err)
                   | Inr None \<Rightarrow> None
                   | Inr (Some (path, i)) \<Rightarrow> Some (Inr (Some path))))
           else if restoreMode \<and> vbStatusIP ab \<noteq> [] then
             (case poListVPCInfo env (Namespace (spMeta sp)) of
                [] \<Rightarrow> Some (Inl ''failed to listVPCInfo for AddressBinding'')
              | v # _ \<Rightarrow>
                  (case poAllocationByOwner env (vbMeta ab) of
                     Inl err \<Rightarrow> Some (Inl (''failed to find an existing external AddressBidning: '' @ err))
                   | Inr None \<Rightarrow> None
                   | Inr (Some (path, i)) \<Rightarrow> Some (Inr (Some (Some (GetVPCPath v @ ''/ip-address-allocations/'' @ i))))))
           else if vbStatusIP ab \<noteq> [] then
             (case poAllocationByOwner env (vbMeta ab) of
                Inl err \<Rightarrow> Some (Inl (''failed to find an existing external AddressBidning: '' @ err))
              | Inr None \<Rightarrow> Some (Inr (Some None))
              | Inr (Some (path, i)) \<Rightarrow> Some (Inr (Some path)))
           else Some (Inr (Some None)))"

definition GetExistingSubnetPortForStatefulSetPod :: "('s, nsx_port) indexer_ops \<Rightarrow> 's \<Rightarrow> string \<Rightarrow> string \<Rightarrow> nsx_port option" where
  "GetExistingSubnetPortForStatefulSetPod ops s podName stsUID =
    (if stsUID = [] then None
     else List.find (\<lambda>p. FindTag (ptTags p) ''nsx-op/pod_name'' = Some podName) (GetByIndex ops s ''nsx-op/sts_uid'' stsUID))"

definition BuildSubnetPortName :: "string \<Rightarrow> string option" where
  "BuildSubnetPortName name = truncatedName name"

definition BuildSubnetPortIdAndName ::
  "('w, 's, 'd, 'e, 't) port_env \<Rightarrow> 's \<Rightarrow> object_meta \<Rightarrow> string \<Rightarrow> string \<Rightarrow> string \<Rightarrow> string \<Rightarrow> (string \<times> string) option" where
  "BuildSubnetPortIdAndName env s meta namespaceUID stsUID podName podUID =
    (let targetPodName = (if podName \<noteq> [] then podName else Name meta);
         byUID = GetVpcSubnetPortByUID (poOps env) s (UID meta);
         byPod = (if podUID \<noteq> [] then GetVpcSubnetPortByUID (poOps env) s podUID else None);
         bySts = (if poStsPod env then GetExistingSubnetPortForStatefulSetPod (poOps env) s targetPodName stsUID else None) in
     case byUID of Some p \<Rightarrow> Some (ptId p, ptDisplayName p)
     | None \<Rightarrow> (case byPod of Some p \<Rightarrow> Some (ptId p, ptDisplayName p)
     | None \<Rightarrow> (case bySts of Some p \<Rightarrow> Some (ptId p, ptDisplayName p)
     | None \<Rightarrow>
         Option.bind (BuildUniqueIDWithRandomUUID (poUUID env) \<lparr>Name = Name meta, Namespace = [], UID = namespaceUID\<rparr> GenerateIDByObject
             (\<lambda>i. GetByKey (poOps env) s i \<noteq> None)) (\<lambda>i.
         Option.bind (BuildSubnetPortName (Name meta)) (\<lambda>n. Some (i, n))))))"


definition ConvertCRStaticIPAddressTypeToNSX :: "static_ip_type \<Rightarrow> string" where
  "ConvertCRStaticIPAddressTypeToNSX t =
    (case t of StaticIPAllocationTypeIPv4 \<Rightarrow> ''IPV4'' | StaticIPAllocationTypeIPv6 \<Rightarrow> ''IPV6'' | StaticIPAllocationTypeIPv4IPv6 \<Rightarrow> ''IPV4_IPV6''
     | StaticIPAllocationTypeNone \<Rightarrow> ''NONE'')"

text \<open>The bindings of a SubnetPort: those of the status in restore mode, else those of the specification; the flag tells whether a MAC address is asked for.\<close>

definition specBinding :: "bool \<Rightarrow> bool \<Rightarrow> string \<Rightarrow> string \<times> string \<Rightarrow> (string option \<times> string option) \<times> bool" where
  "specBinding ipv6 static statusMAC ab =
    (let ip = (if fst ab \<noteq> [] then Some (fst ab) else None);
         setMac = (snd ab \<noteq> [] \<and> (ipv6 \<or> static \<or> fst ab \<noteq> [])) in
     ((ip, if setMac then Some (snd ab) else if static \<and> ip \<noteq> None \<and> statusMAC \<noteq> [] then Some statusMAC else None), setMac))"

definition crBindings :: "bool \<Rightarrow> vpc_subnet \<Rightarrow> subnet_port \<Rightarrow> bool \<Rightarrow> (string option \<times> string option) list \<times> bool" where
  "crBindings ipv6 subnet sp restoreMode =
    (if restoreMode \<and> spStatusIPs sp \<noteq> [] then
       (map (\<lambda>(ip, gw). (Some (hd (split_char CHR ''/'' ip)), Some (spStatusMAC sp))) (filter (\<lambda>(ip, gw). ip \<noteq> []) (spStatusIPs sp)),
        spAddressBindings sp \<noteq> [] \<and> snd (hd (spAddressBindings sp)) \<noteq> [])
     else
       let bs = map (specBinding ipv6 (staticEnabled subnet = Some True) (spStatusMAC sp)) (spAddressBindings sp) in
       (filter (\<lambda>(ip, mac). ip \<noteq> None \<or> mac \<noteq> None) (map fst bs), list_ex snd bs))"

definition GetPodRestoreStatus :: "k8s_pod \<Rightarrow> string \<times> string list" where
  "GetPodRestoreStatus pod =
    ((case map_of (pdAnnotations pod) ''nsx.vmware.com/mac'' of None \<Rightarrow> [] | Some m \<Rightarrow> m),
     (if pdPodIPs pod = [] \<and> pdPodIP pod \<noteq> [] then [pdPodIP pod] else pdPodIPs pod))"

definition podBindings :: "k8s_pod \<Rightarrow> bool \<Rightarrow> (string option \<times> string option) list" where
  "podBindings pod restoreMode =
    (if restoreMode \<and> pdPodIPs pod \<noteq> [] then
       let (mac, ips) = GetPodRestoreStatus pod in map (\<lambda>ip. (Some ip, if mac \<noteq> [] then Some mac else None)) ips
     else [])"

definition allocateAddressesFor :: "string \<Rightarrow> bool \<Rightarrow> string" where
  "allocateAddressesFor staticType hasMac = (if staticType \<noteq> ''NONE'' then (if hasMac then ''IP_POOL'' else ''BOTH'') else ''NONE'')"

text \<open>The tags: VM ports keep the scopes of the VM Namespace, the others those of the Namespace; the ports of Pods by SubnetPorts get the tags of the Pod, and the labels come
  last in the order of their keys.\<close>

definition filterPortTags :: "bool \<Rightarrow> nsx_tag list \<Rightarrow> nsx_tag list" where
  "filterPortTags isVm tags =
    filter (\<lambda>t. the (fst t) \<notin> (if isVm then {''nsx-op/namespace_uid'', ''nsx-op/namespace''} else {''nsx-op/vm_namespace_uid'', ''nsx-op/vm_namespace''})) tags"

definition podTags :: "string \<Rightarrow> string \<Rightarrow> string \<Rightarrow> string \<Rightarrow> nsx_tag list" where
  "podTags podName appId stsName stsUID =
    map (\<lambda>(sc, v). mk_tag sc v) (filter (\<lambda>(sc, v). v \<noteq> [])
      [(''nsx-op/pod_name'', podName), (''nsx-op/pod_uid'', appId), (''nsx-op/sts_name'', stsName), (''nsx-op/sts_uid'', stsUID)])"

definition labelTagList :: "(string \<times> string) list option \<Rightarrow> nsx_tag list" where
  "labelTagList labels = (case labels of None \<Rightarrow> [] | Some l \<Rightarrow> map (\<lambda>k. mk_tag k (the (map_of l k))) (sort (map fst l)))"

text \<open>What the port takes from the object: the Pod, the external binding, the bindings, the MAC flag and the type of static allocation.\<close>

definition podOf :: "('w, 's, 'd, 'e, 't) port_env \<Rightarrow> port_object \<Rightarrow> gerror + k8s_pod option" where
  "podOf env ob = (case ob of PortPod pod \<Rightarrow> Inr (Some pod) | PortCR sp \<Rightarrow> GetPodForSubnetPort (poGetPod env) sp)"

definition portParts :: "('w, 's, 'd, 'e, 't) port_env \<Rightarrow> port_object \<Rightarrow> vpc_subnet \<Rightarrow> bool \<Rightarrow> ip_address_type \<Rightarrow>
   (gerror + string option option \<times> (string option \<times> string option) list \<times> bool \<times> string) option" where
  "portParts env ob subnet restoreMode interfaceIPType =
    (case ob of
       PortCR sp \<Rightarrow>
         (case buildExternalAddressBinding env sp subnet restoreMode of
            None \<Rightarrow> None
          | Some (Inl err) \<Rightarrow> Some (Inl err)
          | Some (Inr ext) \<Rightarrow>
              let (bs, hasMac) = crBindings (peIPv6 (poCount env)) subnet sp restoreMode in
              Some (Inr (ext, bs, hasMac, ConvertCRStaticIPAddressTypeToNSX (spStaticIPAllocationType sp))))
     | PortPod pod \<Rightarrow>
         Some (Inr (None, podBindings pod restoreMode, False,
           ConvertCRStaticIPAddressTypeToNSX (ComputeDefaultStaticIPAllocationType (nsx_subnet_ip.truncate subnet) interfaceIPType))))"

definition k8sObject :: "port_object \<Rightarrow> k8s_object" where
  "k8sObject ob = (case ob of PortCR sp \<Rightarrow> ObjSubnetPort (spMeta sp) | PortPod pod \<Rightarrow> ObjPod (pdMeta pod) (pdController pod))"

definition buildSubnetPort ::
  "('w, 's, 'd, 'e, 't) port_env \<Rightarrow> 's \<Rightarrow> port_object \<Rightarrow> vpc_subnet \<Rightarrow> string \<Rightarrow> (string \<times> string) list option \<Rightarrow> bool \<Rightarrow> bool \<Rightarrow> ip_address_type \<Rightarrow>
   (gerror + nsx_port) option" where
  "buildSubnetPort env s ob subnet contextID labels isVm restoreMode interfaceIPType =
    (let meta = getObjectMeta ob in
     case podOf env ob of
       Inl err \<Rightarrow> Some (Inl err)
     | Inr pod \<Rightarrow>
         let appId = (case pod of None \<Rightarrow> [] | Some p \<Rightarrow> UID (pdMeta p)); podName = (case pod of None \<Rightarrow> [] | Some p \<Rightarrow> Name (pdMeta p));
             stsUID = (case pod of None \<Rightarrow> [] | Some p \<Rightarrow> GetStatefulSetUID p); stsName = (case pod of None \<Rightarrow> [] | Some p \<Rightarrow> statefulSetName p) in
         case portParts env ob subnet restoreMode interfaceIPType of
           None \<Rightarrow> None
         | Some (Inl err) \<Rightarrow> Some (Inl err)
         | Some (Inr (ext, bindings, hasMac, staticType)) \<Rightarrow>
             (case (if restoreMode then poRestoredID env else poAttachmentID env) (UID meta) of
                Inl err \<Rightarrow> Some (Inl err)
              | Inr attachment \<Rightarrow>
                  (case poNamespaceUID env (Namespace meta) of
                     Inl err \<Rightarrow> Some (Inl err)
                   | Inr nsUID \<Rightarrow>
                       Option.bind (BuildSubnetPortIdAndName env s meta nsUID stsUID podName appId) (\<lambda>(i, n).
                         Some (Inr \<lparr>ptId = i, ptDisplayName = n,
                           ptTags = filterPortTags isVm (BuildBasicTags (poCluster env) (k8sObject ob) nsUID)
                             @ (case ob of PortCR _ \<Rightarrow> if isVm then [] else podTags podName appId stsName stsUID | PortPod _ \<Rightarrow> []) @ labelTagList labels,
                           ptAttachment = Some \<lparr>paAllocateAddresses = Some (allocateAddressesFor staticType hasMac),
                             paAppId = (if appId \<noteq> [] then Some appId else None),
                             paContextId = (if appId \<noteq> [] \<and> contextID \<noteq> [] then Some contextID else None),
                             paId = Some attachment, paTrafficTag = Some 0, paType = Some ''INDEPENDENT''\<rparr>,
                           ptAddressBindings = bindings, ptExternalAddressBinding = ext,
                           ptStaticIpAllocationType = (if peIPv6 (poCount env) then Some staticType else None),
                           ptPath = Some (snPath subnet @ ''/ports/'' @ i), ptParentPath = Some (snPath subnet), ptMarkedForDelete = None\<rparr>)))))"


section \<open>The service\<close>

definition allIPAddressesRealized :: "(string \<times> string) list \<Rightarrow> nat \<Rightarrow> bool" where
  "allIPAddressesRealized ips expectedCount \<longleftrightarrow> expectedCount \<le> length ips \<and> list_all (\<lambda>(ip, gw). ip \<noteq> []) ips"

definition expectedIPCount :: "subnet_port \<Rightarrow> nat" where
  "expectedIPCount sp =
    max (case spStaticIPAllocationType sp of
           StaticIPAllocationTypeIPv4IPv6 \<Rightarrow> 2
         | StaticIPAllocationTypeNone \<Rightarrow> if spInterfaceIPType sp = IPAddressTypeIPv4IPv6 then 2 else 1
         | _ \<Rightarrow> 1)
      (length (spAddressBindings sp))"

definition portAlreadyRealized :: "port_object \<Rightarrow> nsx_port \<Rightarrow> bool" where
  "portAlreadyRealized ob p =
    (let mode = paAllocateAddresses (the (ptAttachment p)) in
     case ob of
       PortCR sp \<Rightarrow>
         (mode \<in> {Some ''BOTH'', Some ''IP_POOL''} \<longrightarrow> allIPAddressesRealized (spStatusIPs sp) (expectedIPCount sp))
         \<and> (mode \<in> {Some ''BOTH'', Some ''MAC_POOL''} \<longrightarrow> spStatusMAC sp \<noteq> [])
         \<and> list_ex (\<lambda>(reason, status). reason = ''SubnetPortReady'' \<and> status) (spConditions sp)
         \<and> spStatusAttachment sp \<noteq> [] \<and> spStatusIPs sp \<noteq> [] \<and> snd (hd (spStatusIPs sp)) \<noteq> []
     | PortPod pod \<Rightarrow> map_of (pdAnnotations pod) ''nsx.vmware.com/attachment'' = Some (the (paId (the (ptAttachment p)))))"

text \<open>Address bindings that are missing, or lack an address, are taken from the stored port at the same index.\<close>

fun fillBindings :: "(string option \<times> string option) list \<Rightarrow> (string option \<times> string option) list \<Rightarrow> (string option \<times> string option) list" where
  "fillBindings existing [] = []"
| "fillBindings [] desired = desired"
| "fillBindings ((eip, emac) # es) ((ip, mac) # ds) =
    ((if ip = None then eip else ip), (if mac = None then emac else mac)) # fillBindings es ds"

definition mergeSubnetPortAddressBinding ::
  "(string option \<times> string option) list \<Rightarrow> (string option \<times> string option) list \<Rightarrow> (string option \<times> string option) list" where
  "mergeSubnetPortAddressBinding existing desired = (if existing \<noteq> [] \<and> desired = [] then existing else fillBindings existing desired)"

definition GetSubnetPortState ::
  "('w, 's, 'd, 'e, 't) port_env \<Rightarrow> string \<Rightarrow> string \<Rightarrow> ('w, 's) pc_state \<Rightarrow> (go_error + 't) \<times> ('w, 's) pc_state" where
  "GetSubnetPortState env portID subnetPath st =
    (case poPortState env (subnetIds subnetPath) portID (pcNSX st) of
       (Inl e, w) \<Rightarrow> (Inl (the (TransNSXApiError (poApi env) (Some e))), st\<lparr>pcNSX := w\<rparr>)
     | (Inr t, w) \<Rightarrow> (Inr t, st\<lparr>pcNSX := w\<rparr>))"

text \<open>The identifiers in the path of a port; an error of the parser is ignored.\<close>

definition portIds :: "string \<Rightarrow> string list" where
  "portIds path = (case ParseVPCResourcePath path of Inl _ \<Rightarrow> [[], [], [], []] | Inr i \<Rightarrow> [OrgID i, ProjectID i, VPCID i, ParentID i])"

definition DeleteSubnetPort :: "('w, 's, 'd, 'e, 't) port_env \<Rightarrow> nsx_port \<Rightarrow> ('w, 's) pc_state \<Rightarrow> go_error option \<times> ('w, 's) pc_state" where
  "DeleteSubnetPort env p st =
    (case ptPath p of
       None \<Rightarrow> (Some (OtherError ''subnet port path is nil''), st)
     | Some path \<Rightarrow>
         (case ccDelete (poClient env) (portIds path) (ptId p) (pcNSX st) of
            (Some e, w) \<Rightarrow> (TransNSXApiError (poApi env) (Some e), st\<lparr>pcNSX := w\<rparr>)
          | (None, w) \<Rightarrow> (None, st\<lparr>pcNSX := w, pcStore := ixDelete (poOps env) (pcStore st) p\<rparr>)))"

definition DeleteSubnetPortById :: "('w, 's, 'd, 'e, 't) port_env \<Rightarrow> string \<Rightarrow> ('w, 's) pc_state \<Rightarrow> go_error option \<times> ('w, 's) pc_state" where
  "DeleteSubnetPortById env portID st =
    (case GetByKey (poOps env) (pcStore st) portID of None \<Rightarrow> (None, st) | Some p \<Rightarrow> DeleteSubnetPort env p st)"

definition CheckSubnetPortState ::
  "('w, 's, 'd, 'e, 't) port_env \<Rightarrow> port_object \<Rightarrow> string \<Rightarrow> ('w, 's) pc_state \<Rightarrow> ((go_error + 't) \<times> ('w, 's) pc_state) option" where
  "CheckSubnetPortState env ob subnetPath st =
    (case GetVpcSubnetPortByUID (poOps env) (pcStore st) (UID (getObjectMeta ob)) of
       None \<Rightarrow> Some (Inl (OtherError ''failed to get subnet port from store''), st)
     | Some p \<Rightarrow>
         (case ptPath p of
            None \<Rightarrow> None
          | Some path \<Rightarrow>
              (case CheckRealizeState (poApi env) (poEntities env) NSXTRealizeRetrySteps path [] (pcNSX st) of
                 (Some err, w) \<Rightarrow>
                   let st = st\<lparr>pcNSX := w\<rparr> in
                   if IsRealizeStateError err then
                     let st = (if HasAnyErrorCode (Some err) [8212, 520054] then updateExhaustedSubnet subnetPath (poNow env) st else st) in
                     (case DeleteSubnetPortById env (ptId p) st of
                        (Some e, st) \<Rightarrow> Some (Inl e, st)
                      | (None, st) \<Rightarrow> Some (Inl err, st))
                   else Some (Inl err, st)
               | (None, w) \<Rightarrow> Some (GetSubnetPortState env (ptId p) subnetPath (st\<lparr>pcNSX := w\<rparr>)))))"

text \<open>What the built port takes from the stored one. The context of a Pod is kept when its host is not resolved.\<close>

definition mergePort :: "('w, 's, 'd, 'e, 't) port_env \<Rightarrow> port_object \<Rightarrow> string \<Rightarrow> nsx_port \<Rightarrow> nsx_port \<Rightarrow> nsx_port" where
  "mergePort env ob contextID e p =
    (let keepContext = (case ob of PortCR sp \<Rightarrow> GetPodNameForSubnetPort sp \<noteq> [] \<and> contextID = [] \<and> poPodV2 env | PortPod _ \<Rightarrow> False);
         att = (case ptAttachment e of
             None \<Rightarrow> ptAttachment p
           | Some ea \<Rightarrow> map_option (\<lambda>a. (if keepContext then a\<lparr>paContextId := paContextId ea\<rparr> else a)\<lparr>paId := paId ea\<rparr>) (ptAttachment p)) in
     p\<lparr>ptAttachment := att, ptAddressBindings := mergeSubnetPortAddressBinding (ptAddressBindings e) (ptAddressBindings p),
       ptStaticIpAllocationType := (if ptStaticIpAllocationType e = None then None else ptStaticIpAllocationType p)\<rparr>)"

text \<open>The attachment recorded in the object, which restore mode keeps when NSX supports it.\<close>

definition recordedAttachment :: "port_object \<Rightarrow> string" where
  "recordedAttachment ob =
    (case ob of PortCR sp \<Rightarrow> spStatusAttachment sp
     | PortPod pod \<Rightarrow> (case map_of (pdAnnotations pod) ''nsx.vmware.com/attachment'' of None \<Rightarrow> [] | Some a \<Rightarrow> a))"

definition restoreAttachment :: "('w, 's, 'd, 'e, 't) port_env \<Rightarrow> port_object \<Rightarrow> bool \<Rightarrow> nsx_port \<Rightarrow> nsx_port" where
  "restoreAttachment env ob restoreMode p =
    (if restoreMode \<and> poRestoreVif env \<and> recordedAttachment ob \<noteq> []
     then p\<lparr>ptAttachment := map_option (\<lambda>a. a\<lparr>paId := Some (recordedAttachment ob)\<rparr>) (ptAttachment p)\<rparr> else p)"

text \<open>After the write: the check of the realization, the port as NSX returns it, the store.\<close>

definition finishPort ::
  "('w, 's, 'd, 'e, 't) port_env \<Rightarrow> port_object \<Rightarrow> string \<Rightarrow> string list \<Rightarrow> string \<Rightarrow> ('w, 's) pc_state \<Rightarrow> ((go_error + 't option) \<times> ('w, 's) pc_state) option" where
  "finishPort env ob subnetPath ids portID st =
    (case CheckSubnetPortState env ob subnetPath st of
       None \<Rightarrow> None
     | Some (Inl e, st) \<Rightarrow> Some (Inl e, st)
     | Some (Inr t, st) \<Rightarrow>
         (case ccGet (poClient env) ids portID (pcNSX st) of
            (Inl e, w) \<Rightarrow> Some (Inl e, st\<lparr>pcNSX := w\<rparr>)
          | (Inr p, w) \<Rightarrow> Some (Inr (Some t), st\<lparr>pcNSX := w, pcStore := portStore_Apply (poOps env) p (pcStore st)\<rparr>)))"

definition CreateOrUpdateSubnetPort ::
  "('w, 's, 'd, 'e, 't) port_env \<Rightarrow> port_object \<Rightarrow> vpc_subnet \<Rightarrow> string \<Rightarrow> (string \<times> string) list option \<Rightarrow> bool \<Rightarrow> bool \<Rightarrow> ip_address_type \<Rightarrow>
   ('w, 's) pc_state \<Rightarrow> ((go_error + 't option) \<times> ('w, 's) pc_state) option" where
  "CreateOrUpdateSubnetPort env ob subnet contextID labels isVm restoreMode interfaceIPType st =
    Option.bind (buildSubnetPort env (pcStore st) ob subnet contextID labels isVm restoreMode interfaceIPType) (\<lambda>built.
      case built of
        Inl err \<Rightarrow> Some (Inl (OtherError err), st)
      | Inr p \<Rightarrow>
          let existing = GetByKey (poOps env) (pcStore st) (ptId p);
              p = (case existing of None \<Rightarrow> p | Some e \<Rightarrow> mergePort env ob contextID e p);
              isChanged = (case existing of None \<Rightarrow> True | Some e \<Rightarrow> CompareResource (poEnc env) port_Value e p);
              p = restoreAttachment env ob restoreMode p in
          case ParseVPCResourcePath (snPath subnet) of
            Inl err \<Rightarrow> Some (Inl (OtherError err), st)
          | Inr info \<Rightarrow>
              let ids = [OrgID info, ProjectID info, VPCID info, ResID info] in
              if \<not> isChanged then
                (if \<not> restoreMode \<and> portAlreadyRealized ob p then Some (Inr None, st) else finishPort env ob (snPath subnet) ids (ptId p) st)
              else
                (case ccPatch (poClient env) ids (ptId p) p (pcNSX st) of
                   (Some e, w) \<Rightarrow> Some (Inl (the (TransNSXApiError (poApi env) (Some e))), st\<lparr>pcNSX := w\<rparr>)
                 | (None, w) \<Rightarrow>
                     finishPort env ob (snPath subnet) ids (ptId p) (st\<lparr>pcNSX := w, pcStore := portStore_Apply (poOps env) p (pcStore st)\<rparr>)))"

section \<open>Listing\<close>

text \<open>The identifiers of the stored ports that have a value in an index.\<close>

definition idsWithIndex :: "('w, 's, 'd, 'e, 't) port_env \<Rightarrow> ('w, 's) pc_state \<Rightarrow> string \<Rightarrow> string set" where
  "idsWithIndex env st index =
    (\<Union>v \<in> indexValues (poOps env) portIndexers (pcStore st) index. set (map ptId (ixByIndex (poOps env) (pcStore st) index v)))"

definition ListNSXSubnetPortIDForCR :: "('w, 's, 'd, 'e, 't) port_env \<Rightarrow> ('w, 's) pc_state \<Rightarrow> string set" where
  "ListNSXSubnetPortIDForCR env st = idsWithIndex env st ''nsx-op/subnetport_uid''"

definition ListNSXSubnetPortIDForPod :: "('w, 's, 'd, 'e, 't) port_env \<Rightarrow> ('w, 's) pc_state \<Rightarrow> string set" where
  "ListNSXSubnetPortIDForPod env st = idsWithIndex env st ''nsx-op/pod_uid''"

definition GetSubnetPathForSubnetPortFromStore :: "('w, 's, 'd, 'e, 't) port_env \<Rightarrow> ('w, 's) pc_state \<Rightarrow> string \<Rightarrow> string" where
  "GetSubnetPathForSubnetPortFromStore env st uid =
    (case GetVpcSubnetPortByUID (poOps env) (pcStore st) uid of None \<Rightarrow> []
     | Some p \<Rightarrow> (case ptParentPath p of None \<Rightarrow> [] | Some path \<Rightarrow> path))"

definition ListSubnetPortIDsFromCRs :: "('w, 's, 'd, 'e, 't) port_env \<Rightarrow> ('w, 's) pc_state \<Rightarrow> gerror + string set" where
  "ListSubnetPortIDsFromCRs env st =
    (case poListCRs env of
       Inl err \<Rightarrow> Inl err
     | Inr crs \<Rightarrow> Inr (set (List.map_filter (\<lambda>m. map_option ptId (GetVpcSubnetPortByUID (poOps env) (pcStore st) (UID m))) crs)))"

definition ListSubnetPortByName :: "('w, 's, 'd, 'e, 't) port_env \<Rightarrow> ('w, 's) pc_state \<Rightarrow> string \<Rightarrow> string \<Rightarrow> nsx_port list" where
  "ListSubnetPortByName env st ns name =
    filter (\<lambda>p. FindTag (ptTags p) ''nsx-op/subnetport_name'' = Some name)
      (GetByIndex (poOps env) (pcStore st) ''nsx-op/vm_namespace'' ns @ GetByIndex (poOps env) (pcStore st) ''nsx-op/namespace'' ns)"

definition ListSubnetPortByPodName :: "('w, 's, 'd, 'e, 't) port_env \<Rightarrow> ('w, 's) pc_state \<Rightarrow> string \<Rightarrow> string \<Rightarrow> nsx_port list" where
  "ListSubnetPortByPodName env st ns name =
    filter (\<lambda>p. FindTag (ptTags p) ''nsx-op/pod_name'' = Some name) (GetByIndex (poOps env) (pcStore st) ''nsx-op/namespace'' ns)"

definition ListSubnetPortByStsName :: "('w, 's, 'd, 'e, 't) port_env \<Rightarrow> ('w, 's) pc_state \<Rightarrow> string \<Rightarrow> string \<Rightarrow> nsx_port list" where
  "ListSubnetPortByStsName env st ns stsName =
    filter (\<lambda>p. FindTag (ptTags p) ''nsx-op/namespace'' = Some ns) (GetByIndex (poOps env) (pcStore st) ''nsx-op/sts_name'' stsName)"

definition ListSubnetPortByStsUid :: "('w, 's, 'd, 'e, 't) port_env \<Rightarrow> ('w, 's) pc_state \<Rightarrow> string \<Rightarrow> string \<Rightarrow> nsx_port list" where
  "ListSubnetPortByStsUid env st ns stsUid =
    filter (\<lambda>p. FindTag (ptTags p) ''nsx-op/namespace'' = Some ns) (GetByIndex (poOps env) (pcStore st) ''nsx-op/sts_uid'' stsUid)"

text \<open>The type of the interface; the empty type is \<open>IPAddressTypeOther []\<close>.\<close>

definition IsSupersetIPAddressTypes :: "ip_address_type \<Rightarrow> ip_address_type \<Rightarrow> bool" where
  "IsSupersetIPAddressTypes base target \<longleftrightarrow>
    base = target \<or> base = IPAddressTypeIPv4IPv6 \<and> (target = IPAddressTypeIPv4 \<or> target = IPAddressTypeIPv6)"

definition GetDefaultInterfaceIPType :: "ip_address_type \<Rightarrow> ip_address_type \<Rightarrow> gerror + ip_address_type" where
  "GetDefaultInterfaceIPType interfaceIPType parentIPAddressType =
    (if interfaceIPType \<noteq> IPAddressTypeOther [] then
       (if parentIPAddressType = IPAddressTypeOther [] then Inl ''Subnet/SubnetSet IPAddressType is not determined''
        else if \<not> IsSupersetIPAddressTypes parentIPAddressType interfaceIPType
        then Inl ''Subnet/SubnetSet IPAddressType is not a superset of interfaceIPType''
        else Inr interfaceIPType)
     else if parentIPAddressType = IPAddressTypeIPv6 then Inr IPAddressTypeIPv6
     else Inr IPAddressTypeIPv4)"

section \<open>Interfaces of virtual machines\<close>

text \<open>The list of VIFs, page by page: \<open>None\<close> is a listing that never ends. The store keys are random, so every interface is kept.\<close>

record vif =
  vifAttachmentID :: "string option"
  vifMac :: "string option"

partial_function (option) vifPages ::
  "(string \<Rightarrow> 'w \<Rightarrow> (go_error + vif list \<times> string option) \<times> 'w) \<Rightarrow> string \<Rightarrow> vif list \<Rightarrow> 'w \<Rightarrow> ((gerror + vif list) \<times> 'w) option" where
  "vifPages lst cursor acc w =
    (case lst cursor w of
       (Inl e, w) \<Rightarrow> Some (Inl (''failed to list VIFs: '' @ error_msg e), w)
     | (Inr (results, next), w) \<Rightarrow>
         if next = None \<or> next = Some [] then Some (Inr (acc @ results), w) else vifPages lst (the next) (acc @ results) w)"

definition GetAllVIFs :: "(string \<Rightarrow> 'w \<Rightarrow> (go_error + vif list \<times> string option) \<times> 'w) \<Rightarrow> 'w \<Rightarrow> ((gerror + vif list) \<times> 'w) option" where
  "GetAllVIFs lst w = vifPages lst [] [] w"

definition GetMACByAttachmentID :: "vif list \<Rightarrow> string \<Rightarrow> gerror + string" where
  "GetMACByAttachmentID vifs attachmentID =
    (let found = filter (\<lambda>v. vifAttachmentID v = Some attachmentID) vifs;
         macs = remdups (filter (\<lambda>m. m \<noteq> []) (List.map_filter vifMac found)) in
     if found = [] then Inl (''VIF not found for attachment ID: '' @ attachmentID)
     else case macs of
       [] \<Rightarrow> Inl (''MAC address not found for attachment ID: '' @ attachmentID)
     | [m] \<Rightarrow> Inr m
     | _ \<Rightarrow> Inl (''multiple MAC addresses found for attachment ID: '' @ attachmentID))"

section \<open>Clean-up\<close>

definition port_resource :: "nsx_port \<Rightarrow> nsx_port nsx_resource" where
  "port_resource p =
    \<lparr>ModelType = VpcSubnetPortT, ResPath = ptPath p, ResId = Some (ptId p), ResDisplayName = Some (ptDisplayName p),
     ResMarkedForDelete = ptMarkedForDelete p, ResResourceType = None, ResFqdn = None, ResBody = p\<rparr>"

definition portPath :: PolicyResourcePath where
  "portPath = the (map_of policyPaths VpcSubnetPortT)"

definition port_CleanupBeforeVPCDeletion ::
  "('w, 's, 'd, 'e, 't) port_env \<Rightarrow> (nat \<Rightarrow> gerror option) \<Rightarrow> ('w, 's) pc_state \<Rightarrow> (go_error option \<times> ('w, 's) pc_state) option" where
  "port_CleanupBeforeVPCDeletion env ctxDone st =
    (if ixList (poOps env) (pcStore st) = [] then Some (None, st)
     else
       let (ports, s) = markAll (poOps env) (\<lambda>p. p\<lparr>ptMarkedForDelete := Some True\<rparr>) (pcStore st) in
       map_option (\<lambda>(err, w, s). (err, st\<lparr>pcNSX := w, pcStore := s\<rparr>))
         (pagedDelete (poTree env) portPath (poOps env) port_resource ctxDone ports (pcNSX st) s))"

section \<open>What a successful call leaves behind\<close>

text \<open>What the operator sets and NSX keeps.\<close>

definition port_intent :: "nsx_port \<Rightarrow> string \<times> nsx_tag list \<times> string option option \<times> string option" where
  "port_intent p = (ptDisplayName p, ptTags p, map_option paId (ptAttachment p), ptParentPath p)"

text \<open>The interface of the service: the NSX client of the ports, the store, the comparison, and calls that only read. A port that NSX returns has the identifier it was
  asked for and is not marked for deletion.\<close>

locale subnet_ports =
  api: nsx_child "poClient env" held port_intent + store: indexer "poOps env" portKey portIndexers + compared: comparable portKey port_Value "poEnc env"
  for env :: "('w, 's, 'd, 'e, 't) port_env" and held +
  assumes entities_keep: "poEntities env path w = (r, w') \<Longrightarrow> held w' = held w"
    and state_keep: "poPortState env ids i w = (t, w') \<Longrightarrow> held w' = held w"
    and held_port: "held w ids i = Some p \<Longrightarrow> ptId p = i \<and> ptMarkedForDelete p \<noteq> Some True"
begin

lemma check_ok:
  assumes "CheckSubnetPortState env ob path st = Some (Inr t, st')"
  shows "pcStore st' = pcStore st \<and> held (pcNSX st') = held (pcNSX st)"
proof -
  obtain p :: nsx_port and pp w where p: "ptPath p = Some pp" "CheckRealizeState (poApi env) (poEntities env) NSXTRealizeRetrySteps pp [] (pcNSX st) = (None, w)"
    "GetSubnetPortState env (ptId p) path (st\<lparr>pcNSX := w\<rparr>) = (Inr t, st')"
    using assms by (auto simp: CheckSubnetPortState_def Let_def split: option.splits prod.splits if_splits)
  have "held w = held (pcNSX st)"
    using CheckRealizeState_keeps [of "poEntities env" held "poApi env" NSXTRealizeRetrySteps pp "[]" "pcNSX st"] entities_keep p(2) by simp
  with p(3) show ?thesis using state_keep by (auto simp: GetSubnetPortState_def split: prod.splits sum.splits)
qed

lemma finished:
  assumes "finishPort env ob path ids i st = Some (Inr r, st')"
  shows "\<exists>c. held (pcNSX st) ids i = Some c \<and> ptId c = i \<and> held (pcNSX st') = held (pcNSX st) \<and> ixGetByKey (poOps env) (pcStore st') i = Some c"
proof -
  obtain t st1 c w where c: "CheckSubnetPortState env ob path st = Some (Inr t, st1)" "ccGet (poClient env) ids i (pcNSX st1) = (Inr c, w)"
    "st' = st1\<lparr>pcNSX := w, pcStore := portStore_Apply (poOps env) c (pcStore st1)\<rparr>"
    using assms by (auto simp: finishPort_def split: option.splits prod.splits sum.splits)
  note k = check_ok [OF c(1)]
  have h: "held (pcNSX st) ids i = Some c" using api.got [OF c(2)] k by simp
  then show ?thesis using held_port [OF h] api.get_keeps [OF c(2)] k c(3) store.get_add by (auto simp: portStore_Apply_def portKey_def)
qed

text \<open>An error of the realization comes with the removal of the port, on NSX and from the store.\<close>

lemma unrealized_removed:
  assumes "CheckSubnetPortState env ob path st = Some (Inl e, st')" "IsRealizeStateError e"
    and p: "GetVpcSubnetPortByUID (poOps env) (pcStore st) (UID (getObjectMeta ob)) = Some p" "ptPath p = Some pp"
    and c: "CheckRealizeState (poApi env) (poEntities env) NSXTRealizeRetrySteps pp [] (pcNSX st) = (Some e, w)"
    and d: "ccDelete (poClient env) (portIds pp) (ptId p) w = (None, w')"
  shows "ixGetByKey (poOps env) (pcStore st') (ptId p) = None \<and> held (pcNSX st') (portIds pp) (ptId p) = None"
proof -
  have s: "p \<in> set (ixByIndex (poOps env) (pcStore st) ''nsx-op/subnetport_uid'' (UID (getObjectMeta ob))) \<or>
      p \<in> set (ixByIndex (poOps env) (pcStore st) ''nsx-op/pod_uid'' (UID (getObjectMeta ob)))"
    using p(1) by (auto simp: GetVpcSubnetPortByUID_def split: list.splits) (metis Un_iff list.set_intros(1) set_append)
  then have g: "ixGetByKey (poOps env) (pcStore st) (ptId p) = Some p" using store.by_index_iff by (auto simp: portKey_def)
  have u: "pcNSX (updateExhaustedSubnet a b x) = pcNSX x" "pcStore (updateExhaustedSubnet a b x) = pcStore x" for a b and x :: "('w, 's) pc_state"
    by (simp_all add: updateExhaustedSubnet_def split: option.splits)
  have "DeleteSubnetPortById env (ptId p) x = (None, x\<lparr>pcNSX := w', pcStore := ixDelete (poOps env) (pcStore st) p\<rparr>)"
    if "pcNSX x = w" "pcStore x = pcStore st" for x
    using that g p(2) d by (simp add: DeleteSubnetPortById_def DeleteSubnetPort_def GetByKey_def)
  then show ?thesis
    using assms(1,2) p c u api.deleted [OF d] store.get_delete by (auto simp: CheckSubnetPortState_def Let_def portKey_def split: if_splits)
qed

end

text \<open>The port that is written: the built one, with what is kept of the stored one; it is written when there is no stored one or the values differ.\<close>

definition mergedPort :: "('w, 's, 'd, 'e, 't) port_env \<Rightarrow> port_object \<Rightarrow> string \<Rightarrow> 's \<Rightarrow> nsx_port \<Rightarrow> nsx_port" where
  "mergedPort env ob contextID s p = (case ixGetByKey (poOps env) s (ptId p) of None \<Rightarrow> p | Some e \<Rightarrow> mergePort env ob contextID e p)"

definition portChanged :: "('w, 's, 'd, 'e, 't) port_env \<Rightarrow> port_object \<Rightarrow> string \<Rightarrow> 's \<Rightarrow> nsx_port \<Rightarrow> bool" where
  "portChanged env ob contextID s p \<longleftrightarrow>
    (case ixGetByKey (poOps env) s (ptId p) of None \<Rightarrow> True | Some e \<Rightarrow> port_Value e \<noteq> port_Value (mergePort env ob contextID e p))"

lemma merge_keeps [simp]:
  "ptId (mergePort env ob contextID e p) = ptId p" "ptTags (mergePort env ob contextID e p) = ptTags p" "ptParentPath (mergePort env ob contextID e p) = ptParentPath p"
  "ptDisplayName (mergePort env ob contextID e p) = ptDisplayName p"
  by (simp_all add: mergePort_def Let_def)

lemma merged_keeps [simp]:
  "ptId (mergedPort env ob contextID s p) = ptId p" "ptTags (mergedPort env ob contextID s p) = ptTags p" "ptParentPath (mergedPort env ob contextID s p) = ptParentPath p"
  "ptDisplayName (mergedPort env ob contextID s p) = ptDisplayName p"
  by (simp_all add: mergedPort_def split: option.splits)

lemma restore_keeps [simp]:
  "ptId (restoreAttachment env ob restoreMode p) = ptId p" "ptTags (restoreAttachment env ob restoreMode p) = ptTags p"
  "ptParentPath (restoreAttachment env ob restoreMode p) = ptParentPath p" "ptDisplayName (restoreAttachment env ob restoreMode p) = ptDisplayName p"
  "restoreAttachment env ob False p = p"
  by (simp_all add: restoreAttachment_def)

lemma built_path: "buildSubnetPort env s ob subnet contextID labels isVm restoreMode ipType = Some (Inr p) \<Longrightarrow> ptParentPath p = Some (snPath subnet) \<and> ptAttachment p \<noteq> None"
  by (auto simp: buildSubnetPort_def Let_def bind_eq_Some_conv split: option.splits sum.splits prod.splits)

lemma create_ok:
  assumes cmp: "comparable port_Value (poEnc env)"
    and ok: "CreateOrUpdateSubnetPort env ob subnet contextID labels isVm restoreMode ipType st = Some (Inr r, st')"
  obtains p info where "buildSubnetPort env (pcStore st) ob subnet contextID labels isVm restoreMode ipType = Some (Inr p)"
    "ParseVPCResourcePath (snPath subnet) = Inr info"
    "\<not> portChanged env ob contextID (pcStore st) p \<and> \<not> restoreMode \<and> portAlreadyRealized ob (mergedPort env ob contextID (pcStore st) p) \<and> r = None \<and> st' = st
     \<or> \<not> portChanged env ob contextID (pcStore st) p \<and> finishPort env ob (snPath subnet) [OrgID info, ProjectID info, VPCID info, ResID info] (ptId p) st = Some (Inr r, st')
     \<or> portChanged env ob contextID (pcStore st) p \<and> (\<exists>q w. q = restoreAttachment env ob restoreMode (mergedPort env ob contextID (pcStore st) p)
         \<and> ccPatch (poClient env) [OrgID info, ProjectID info, VPCID info, ResID info] (ptId p) q (pcNSX st) = (None, w)
         \<and> finishPort env ob (snPath subnet) [OrgID info, ProjectID info, VPCID info, ResID info] (ptId p)
             (st\<lparr>pcNSX := w, pcStore := portStore_Apply (poOps env) q (pcStore st)\<rparr>) = Some (Inr r, st'))"
proof -
  obtain p where b: "buildSubnetPort env (pcStore st) ob subnet contextID labels isVm restoreMode ipType = Some (Inr p)"
  proof (cases "buildSubnetPort env (pcStore st) ob subnet contextID labels isVm restoreMode ipType")
    case (Some x)
    with ok that show ?thesis by (cases x) (simp_all add: CreateOrUpdateSubnetPort_def)
  qed (use ok in \<open>simp add: CreateOrUpdateSubnetPort_def\<close>)
  let ?m = "mergedPort env ob contextID (pcStore st) p"
  have m: "(case ixGetByKey (poOps env) (pcStore st) (ptId p) of None \<Rightarrow> p | Some e \<Rightarrow> mergePort env ob contextID e p) = ?m" by (simp add: mergedPort_def)
  have ch: "(case ixGetByKey (poOps env) (pcStore st) (ptId p) of None \<Rightarrow> True | Some e \<Rightarrow> CompareResource (poEnc env) port_Value e ?m)
      \<longleftrightarrow> portChanged env ob contextID (pcStore st) p"
    using comparable.compare_iff [OF cmp] by (simp add: mergedPort_def portChanged_def split: option.splits)
  obtain info where i: "ParseVPCResourcePath (snPath subnet) = Inr info"
    using ok b by (cases "ParseVPCResourcePath (snPath subnet)") (simp_all add: CreateOrUpdateSubnetPort_def Let_def)
  have u: "(if \<not> portChanged env ob contextID (pcStore st) p
      then (if \<not> restoreMode \<and> portAlreadyRealized ob (restoreAttachment env ob restoreMode ?m) then Some (Inr None, st)
            else finishPort env ob (snPath subnet) [OrgID info, ProjectID info, VPCID info, ResID info] (ptId p) st)
      else (case ccPatch (poClient env) [OrgID info, ProjectID info, VPCID info, ResID info] (ptId p) (restoreAttachment env ob restoreMode ?m) (pcNSX st) of
              (Some e, w) \<Rightarrow> Some (Inl (the (TransNSXApiError (poApi env) (Some e))), st\<lparr>pcNSX := w\<rparr>)
            | (None, w) \<Rightarrow> finishPort env ob (snPath subnet) [OrgID info, ProjectID info, VPCID info, ResID info] (ptId p)
                (st\<lparr>pcNSX := w, pcStore := portStore_Apply (poOps env) (restoreAttachment env ob restoreMode ?m) (pcStore st)\<rparr>)))
      = Some (Inr r, st')"
    using ok by (simp only: CreateOrUpdateSubnetPort_def b i Let_def GetByKey_def sum.case bind.bind_lunit m ch restore_keeps merged_keeps)
  show ?thesis using that [OF b i] u by (auto split: if_splits prod.splits option.splits)
qed

text \<open>C16. When the creation or update of a port succeeds with a state, NSX and the store hold the same port under the identifier that was built; a port that had
  to be written has the tags of its object and is counted for its Subnet.\<close>

theorem CreateOrUpdateSubnetPort_stored:
  assumes "subnet_ports env held"
    and "CreateOrUpdateSubnetPort env ob subnet contextID labels isVm restoreMode ipType st = Some (Inr (Some t), st')"
  shows "\<exists>info p c. ParseVPCResourcePath (snPath subnet) = Inr info
    \<and> buildSubnetPort env (pcStore st) ob subnet contextID labels isVm restoreMode ipType = Some (Inr p)
    \<and> held (pcNSX st') [OrgID info, ProjectID info, VPCID info, ResID info] (ptId p) = Some c \<and> ixGetByKey (poOps env) (pcStore st') (ptId p) = Some c
    \<and> (portChanged env ob contextID (pcStore st) p \<longrightarrow> ptTags c = ptTags p \<and> c \<in> set (GetPortsOfSubnet (poCount env) (pcStore st') (snPath subnet)))"
proof -
  note ax = subnet_ports.axioms [OF assms(1)]
  let ?ids = "\<lambda>i. [OrgID i, ProjectID i, VPCID i, ResID i]"
  obtain p info where b: "buildSubnetPort env (pcStore st) ob subnet contextID labels isVm restoreMode ipType = Some (Inr p)"
    and i: "ParseVPCResourcePath (snPath subnet) = Inr info"
    and cs: "\<not> portChanged env ob contextID (pcStore st) p \<and> finishPort env ob (snPath subnet) (?ids info) (ptId p) st = Some (Inr (Some t), st')
     \<or> portChanged env ob contextID (pcStore st) p \<and> (\<exists>q w. q = restoreAttachment env ob restoreMode (mergedPort env ob contextID (pcStore st) p)
         \<and> ccPatch (poClient env) (?ids info) (ptId p) q (pcNSX st) = (None, w)
         \<and> finishPort env ob (snPath subnet) (?ids info) (ptId p)
             (st\<lparr>pcNSX := w, pcStore := portStore_Apply (poOps env) q (pcStore st)\<rparr>) = Some (Inr (Some t), st'))"
    using create_ok [OF ax(3) assms(2)] by (metis option.distinct(1))
  from cs show ?thesis
  proof (elim disjE conjE exE)
    assume "\<not> portChanged env ob contextID (pcStore st) p" "finishPort env ob (snPath subnet) (?ids info) (ptId p) st = Some (Inr (Some t), st')"
    then show ?thesis using subnet_ports.finished [OF assms(1)] b i by metis
  next
    fix q w assume q: "q = restoreAttachment env ob restoreMode (mergedPort env ob contextID (pcStore st) p)"
      and w: "ccPatch (poClient env) (?ids info) (ptId p) q (pcNSX st) = (None, w)"
      and f: "finishPort env ob (snPath subnet) (?ids info) (ptId p) (st\<lparr>pcNSX := w, pcStore := portStore_Apply (poOps env) q (pcStore st)\<rparr>) = Some (Inr (Some t), st')"
    obtain c where c: "held w (?ids info) (ptId p) = Some c" "ptId c = ptId p" "held (pcNSX st') = held w"
      "ixGetByKey (poOps env) (pcStore st') (ptId c) = Some c"
      using subnet_ports.finished [OF assms(1) f] by auto
    have "port_intent c = port_intent q" using nsx_child.patched [OF ax(1) w] c(1) by auto
    then have "ptTags c = ptTags p" "ptParentPath c = Some (snPath subnet)" using q built_path [OF b] by (simp_all add: port_intent_def)
    moreover from this c(4) have "c \<in> set (GetPortsOfSubnet (poCount env) (pcStore st') (snPath subnet))"
      by (simp add: GetPortsOfSubnet_def GetByIndex_def poOps_def [symmetric] indexer.by_index_iff [OF ax(2)] portKey_def portIndexers_def subnetPortIndexBySubnetPath_def)
    ultimately show ?thesis using b i c by auto
  qed
qed

definition attachmentOf :: "nsx_port \<Rightarrow> string option" where
  "attachmentOf p = Option.bind (ptAttachment p) paId"

lemma merge_attachment: "ptAttachment p \<noteq> None \<Longrightarrow> attachmentOf e \<noteq> None \<Longrightarrow> attachmentOf (mergePort env ob contextID e p) = attachmentOf e"
  by (auto simp: attachmentOf_def mergePort_def Let_def split: option.splits)

lemma intent_attachment: "port_intent a = port_intent b \<Longrightarrow> attachmentOf a = attachmentOf b"
  by (cases "ptAttachment a"; cases "ptAttachment b") (auto simp: port_intent_def attachmentOf_def)

text \<open>C17. The attachment of a port never changes outside restore mode: when NSX and the store agree on it, both keep it through every call that succeeds,
  whatever identifier the builder generates.\<close>

theorem attachment_stable:
  assumes "subnet_ports env held"
    and ok: "CreateOrUpdateSubnetPort env ob subnet contextID labels isVm False ipType st = Some (Inr r, st')"
    and b: "buildSubnetPort env (pcStore st) ob subnet contextID labels isVm False ipType = Some (Inr p)"
    and i: "ParseVPCResourcePath (snPath subnet) = Inr info"
    and e: "ixGetByKey (poOps env) (pcStore st) (ptId p) = Some e" "attachmentOf e = Some a"
    and h: "held (pcNSX st) [OrgID info, ProjectID info, VPCID info, ResID info] (ptId p) = Some h" "attachmentOf h = Some a"
  shows "\<exists>e' h'. ixGetByKey (poOps env) (pcStore st') (ptId p) = Some e' \<and> attachmentOf e' = Some a
    \<and> held (pcNSX st') [OrgID info, ProjectID info, VPCID info, ResID info] (ptId p) = Some h' \<and> attachmentOf h' = Some a"
proof -
  note ax = subnet_ports.axioms [OF assms(1)]
  let ?ids = "[OrgID info, ProjectID info, VPCID info, ResID info]"
  have fin: ?thesis if "finishPort env ob (snPath subnet) ?ids (ptId p) st1 = Some (Inr r, st')" "held (pcNSX st1) ?ids (ptId p) = Some h1" "attachmentOf h1 = Some a" for st1 h1
    using subnet_ports.finished [OF assms(1) that(1)] that(2,3) by auto
  consider "st' = st" | "finishPort env ob (snPath subnet) ?ids (ptId p) st = Some (Inr r, st')"
    | w where "ccPatch (poClient env) ?ids (ptId p) (mergePort env ob contextID e p) (pcNSX st) = (None, w)"
        "finishPort env ob (snPath subnet) ?ids (ptId p)
           (st\<lparr>pcNSX := w, pcStore := portStore_Apply (poOps env) (mergePort env ob contextID e p) (pcStore st)\<rparr>) = Some (Inr r, st')"
    by (rule create_ok [OF ax(3) ok]) (use b i e in \<open>auto simp: mergedPort_def\<close>)
  then show ?thesis
  proof cases
    case 1
    then show ?thesis using e h by auto
  next
    case 2
    then show ?thesis using fin h by blast
  next
    case 3
    obtain y where y: "held w ?ids (ptId p) = Some y" "port_intent y = port_intent (mergePort env ob contextID e p)"
      using nsx_child.patched [OF ax(1) 3(1)] by blast
    have "attachmentOf y = Some a" using intent_attachment [OF y(2)] merge_attachment built_path [OF b] e(2) by (metis option.distinct(1))
    with y(1) show ?thesis using fin [OF 3(2)] by simp
  qed
qed

text \<open>An AddressBinding that names an IPAddressAllocation of the cluster which has no allocation in the store makes the builder dereference a nil pointer: the
  operator panics, on every call with such a binding.\<close>

theorem unknown_allocation_panics:
  assumes "spInterfaceIPType sp \<noteq> IPAddressTypeIPv6" "snAccessMode subnet = None" "podOf env (PortCR sp) = Inr pod"
    and "GetAddressBindingBySubnetPort env sp = Some ab" "vbIPAddressAllocationName ab \<noteq> []"
    and "poGetAllocationCR env (Namespace (vbMeta ab)) (vbIPAddressAllocationName ab) = Inr meta" "poAllocationByOwner env meta = Inr None"
  shows "CreateOrUpdateSubnetPort env (PortCR sp) subnet contextID labels isVm restoreMode ipType st = None"
  using assms by (simp add: CreateOrUpdateSubnetPort_def buildSubnetPort_def portParts_def buildExternalAddressBinding_def Let_def)

section \<open>An example\<close>

text \<open>NSX keeps what it is given and returns it under the identifier that is asked for; everything is realized at once.\<close>

definition demoHeld :: "((string list \<times> string) \<times> nsx_port) list \<Rightarrow> string list \<Rightarrow> string \<Rightarrow> nsx_port option" where
  "demoHeld w ids i = map_option (\<lambda>p. p\<lparr>ptId := i, ptMarkedForDelete := None\<rparr>) (map_of w (ids, i))"

definition demoPortClient :: "(((string list \<times> string) \<times> nsx_port) list, nsx_port) child_client" where
  "demoPortClient =
    \<lparr>ccPatch = (\<lambda>ids i x w. (None, AList.update (ids, i) x w)),
     ccGet = (\<lambda>ids i w. (case demoHeld w ids i of None \<Rightarrow> Inl (OtherError ''not found'') | Some y \<Rightarrow> Inr y, w)),
     ccDelete = (\<lambda>ids i w. (None, AList.delete (ids, i) w))\<rparr>"

definition demoEntities :: "'w entity_client" where
  "demoEntities path w = (Inr [\<lparr>enId = ''e'', enState = ''REALIZED'', enAlarms = []\<rparr>], w)"

definition demoPortEnv :: "(((string list \<times> string) \<times> nsx_port) list, (string \<times> nsx_port) list, string, port_value, unit) port_env" where
  "demoPortEnv =
    \<lparr>poCount = \<lparr>peOps = al_ops portKey portIndexers, pePool = (\<lambda>_ _ w. (Inr None, w)), peDhcpStats = (\<lambda>_ w. (Inl (OtherError ''none''), w)), peIPv6 = False,
       peAddressCount = (\<lambda>_ _. 0)\<rparr>,
     poClient = demoPortClient, poPortState = (\<lambda>_ _ w. (Inr (), w)), poEntities = demoEntities, poApi = noConvert,
     poTree = \<lparr>tcConv = printConv, tcOrder = id, tcApi = noConvert, tcPatch = (\<lambda>_ _ w. (None, w))\<rparr>,
     poPodV2 = False, poRestoreVif = True, poStsPod = False, poGetPod = (\<lambda>_ _. Inl ''none''), poNamespaceUID = (\<lambda>_. Inr ''abc''),
     poGetAllocationCR = (\<lambda>ns n. Inr \<lparr>Name = n, Namespace = ns, UID = ''a1''\<rparr>), poAllocationByOwner = (\<lambda>_. Inr None),
     poBindingsOfVM = (\<lambda>vm. Inr [\<lparr>vbMeta = \<lparr>Name = ''ab'', Namespace = ''ns'', UID = ''b1''\<rparr>, vbVMName = ''vm'', vbInterfaceName = ''eth0'',
        vbIPAddressAllocationName = ''alloc'', vbStatusIP = [], vbCreated = 0\<rparr>]),
     poPortsOfVM = (\<lambda>_. Inr 1), poListVPCInfo = (\<lambda>_. []), poListCRs = Inr [], poCluster = ''c'', poUUID = (\<lambda>_. ''u''),
     poAttachmentID = (\<lambda>uid. Inr (''att-'' @ uid)), poRestoredID = (\<lambda>uid. Inr (''restored-'' @ uid)), poNow = 0, poEnc = (\<lambda>v. v)\<rparr>"

interpretation demoPorts: subnet_ports demoPortEnv demoHeld
proof (intro subnet_ports.intro subnet_ports_axioms.intro)
  show "nsx_child (poClient demoPortEnv) demoHeld port_intent"
    by unfold_locales (auto simp: demoPortEnv_def demoPortClient_def demoHeld_def port_intent_def fun_eq_iff split: option.splits)
  show "indexer (poOps demoPortEnv) portKey portIndexers" by (simp add: demoPortEnv_def poOps_def indexer_al_ops)
qed (unfold_locales, auto simp: demoPortEnv_def demoEntities_def demoHeld_def)

definition demoVpcSubnet :: vpc_subnet where
  "demoVpcSubnet = demoSubnet\<lparr>snPath := ''/orgs/o/projects/p/vpcs/v/subnets/s'', snAccessMode := None\<rparr>"

definition demoPortCR :: "(string \<times> string) list \<Rightarrow> subnet_port" where
  "demoPortCR annotations =
    \<lparr>spMeta = \<lparr>Name = ''p'', Namespace = ''ns'', UID = ''u1''\<rparr>, spInterfaceIPType = IPAddressTypeIPv4, spStaticIPAllocationType = StaticIPAllocationTypeIPv4,
     spAddressBindings = [], spOwners = [], spAnnotations = annotations, spStatusIPs = [], spStatusMAC = [], spStatusAttachment = [], spConditions = []\<rparr>"

theorem unknown_allocation_panics_witness:
  "CreateOrUpdateSubnetPort demoPortEnv (PortCR (demoPortCR [(''nsx.vmware.com/attachment_ref'', ''virtualmachine/vm/eth0'')])) demoVpcSubnet [] None True False
     IPAddressTypeIPv4 \<lparr>pcNSX = [], pcStore = [], pcCounts = Map.empty\<rparr> = None"
proof -
  let ?sp = "demoPortCR [(''nsx.vmware.com/attachment_ref'', ''virtualmachine/vm/eth0'')]"
  have vm: "GetVirtualMachineNameForSubnetPort ?sp = Inr (''vm'', ''eth0'')" by code_simp
  have ab: "GetAddressBindingBySubnetPort demoPortEnv ?sp = Some \<lparr>vbMeta = \<lparr>Name = ''ab'', Namespace = ''ns'', UID = ''b1''\<rparr>, vbVMName = ''vm'', vbInterfaceName = ''eth0'',
      vbIPAddressAllocationName = ''alloc'', vbStatusIP = [], vbCreated = 0\<rparr>"
    unfolding GetAddressBindingBySubnetPort_def vm by (simp add: demoPortEnv_def)
  show ?thesis
    by (rule unknown_allocation_panics [OF _ _ _ ab]) (simp_all add: demoPortCR_def demoVpcSubnet_def demoPortEnv_def podOf_def GetPodForSubnetPort_def)
qed

text \<open>The port of the example, built for an empty store and for one that holds it already.\<close>

definition demoBuilt :: "(string \<times> string) list \<Rightarrow> nsx_port" where
  "demoBuilt labels =
    \<lparr>ptId = ''p_jt72f'', ptDisplayName = ''p'',
     ptTags = filterPortTags False (BuildBasicTags ''c'' (ObjSubnetPort \<lparr>Name = ''p'', Namespace = ''ns'', UID = ''u1''\<rparr>) ''abc'') @ labelTagList (Some labels),
     ptAttachment = Some \<lparr>paAllocateAddresses = Some ''BOTH'', paAppId = None, paContextId = None, paId = Some ''att-u1'', paTrafficTag = Some 0, paType = Some ''INDEPENDENT''\<rparr>,
     ptAddressBindings = [], ptExternalAddressBinding = None, ptStaticIpAllocationType = None,
     ptPath = Some ''/orgs/o/projects/p/vpcs/v/subnets/s/ports/p_jt72f'', ptParentPath = Some ''/orgs/o/projects/p/vpcs/v/subnets/s'', ptMarkedForDelete = None\<rparr>"

definition demoStored :: nsx_port where
  "demoStored = (demoBuilt [])\<lparr>ptAttachment := Some \<lparr>paAllocateAddresses = Some ''BOTH'', paAppId = None, paContextId = None, paId = Some ''first'', paTrafficTag = Some 0,
    paType = Some ''INDEPENDENT''\<rparr>\<rparr>"

definition demoPortState :: "bool \<Rightarrow> (((string list \<times> string) \<times> nsx_port) list, (string \<times> nsx_port) list) pc_state" where
  "demoPortState known =
    \<lparr>pcNSX = (if known then [(([''o'', ''p'', ''v'', ''s''], ''p_jt72f''), demoStored)] else []), pcStore = (if known then [(''p_jt72f'', demoStored)] else []),
     pcCounts = Map.empty\<rparr>"

lemma demo_id: "BuildUniqueIDWithRandomUUID uuid \<lparr>Name = ''p'', Namespace = [], UID = ''abc''\<rparr> GenerateIDByObject (\<lambda>_. False) = Some ''p_jt72f''"
  by (simp add: BuildUniqueIDWithRandomUUID_def GenerateIDByObject_abc uniqueIdLoop.simps)

lemma demo_key [simp]: "portKey demoStored = ''p_jt72f''"
  by (simp add: portKey_def demoStored_def demoBuilt_def)

lemma demo_byUID: "GetVpcSubnetPortByUID (poOps demoPortEnv) [] uid = None"
  "GetVpcSubnetPortByUID (poOps demoPortEnv) [(''p_jt72f'', demoStored)] ''u1'' = Some demoStored"
proof -
  show "GetVpcSubnetPortByUID (poOps demoPortEnv) [] uid = None" by (simp add: GetVpcSubnetPortByUID_def poOps_def demoPortEnv_def al_ops_def)
  have i: "portIndexers ''nsx-op/subnetport_uid'' demoStored = [''u1'']" by code_simp
  then show "GetVpcSubnetPortByUID (poOps demoPortEnv) [(''p_jt72f'', demoStored)] ''u1'' = Some demoStored"
    by (simp add: GetVpcSubnetPortByUID_def poOps_def demoPortEnv_def al_ops_def)
qed

lemma demo_idname: "BuildSubnetPortIdAndName demoPortEnv (pcStore (demoPortState known)) \<lparr>Name = ''p'', Namespace = ''ns'', UID = ''u1''\<rparr> ''abc'' [] [] [] = Some (''p_jt72f'', ''p'')"
proof (cases known)
  case True
  have "ptId demoStored = ''p_jt72f''" "ptDisplayName demoStored = ''p''" by (simp_all add: demoStored_def demoBuilt_def)
  with True show ?thesis by (simp add: BuildSubnetPortIdAndName_def demoPortState_def demo_byUID Let_def)
next
  case False
  have s: "poStsPod demoPortEnv = False" "poUUID demoPortEnv = (\<lambda>_. ''u'')" "GetByKey (poOps demoPortEnv) [] i = None" for i
    by (simp_all add: demoPortEnv_def poOps_def GetByKey_def al_ops_def)
  show ?thesis using False by (simp add: BuildSubnetPortIdAndName_def demoPortState_def demo_byUID s demo_id BuildSubnetPortName_def truncatedName_short Let_def)
qed

lemma demoPort_built:
  "buildSubnetPort demoPortEnv (pcStore (demoPortState known)) (PortCR (demoPortCR [])) demoVpcSubnet [] (Some labels) False False IPAddressTypeIPv4 = Some (Inr (demoBuilt labels))"
proof -
  have pod: "podOf demoPortEnv (PortCR (demoPortCR [])) = Inr None" by (simp add: podOf_def GetPodForSubnetPort_def demoPortCR_def)
  have parts: "portParts demoPortEnv (PortCR (demoPortCR [])) demoVpcSubnet False IPAddressTypeIPv4 = Some (Inr (None, [], False, ''IPV4''))"
    by (simp add: portParts_def buildExternalAddressBinding_def GetAddressBindingBySubnetPort_def GetVirtualMachineNameForSubnetPort_def crBindings_def
        ConvertCRStaticIPAddressTypeToNSX_def demoPortCR_def demoVpcSubnet_def Let_def)
  have v: "poAttachmentID demoPortEnv uid = Inr (''att-'' @ uid)" "poNamespaceUID demoPortEnv ns = Inr ''abc''" "poCluster demoPortEnv = ''c''" "peIPv6 (poCount demoPortEnv) = False"
    for uid ns by (simp_all add: demoPortEnv_def)
  have meta: "getObjectMeta (PortCR (demoPortCR [])) = \<lparr>Name = ''p'', Namespace = ''ns'', UID = ''u1''\<rparr>" by (simp add: getObjectMeta_def demoPortCR_def)
  have path: "snPath demoVpcSubnet = ''/orgs/o/projects/p/vpcs/v/subnets/s''" by (simp add: demoVpcSubnet_def)
  show ?thesis
    by (simp add: buildSubnetPort_def pod parts v meta demo_idname path Let_def demoBuilt_def podTags_def k8sObject_def allocateAddressesFor_def) (simp add: demoPortCR_def)
qed

lemma demo_finish:
  assumes "GetVpcSubnetPortByUID (poOps demoPortEnv) (pcStore st) ''u1'' = Some p" "ptPath p = Some pp" "demoHeld (pcNSX st) ids i = Some c"
  shows "\<exists>st'. finishPort demoPortEnv (PortCR (demoPortCR [])) path ids i st = Some (Inr (Some ()), st')"
proof -
  have c: "CheckRealizeState (poApi demoPortEnv) (poEntities demoPortEnv) NSXTRealizeRetrySteps pp [] w = (None, w)" for w
    by (rule CheckRealizeState_realized [where es = "[\<lparr>enId = ''e'', enState = ''REALIZED'', enAlarms = []\<rparr>]"]) (simp_all add: demoPortEnv_def demoEntities_def checkEntities_def)
  have v: "poClient demoPortEnv = demoPortClient" "poPortState demoPortEnv = (\<lambda>_ _ w. (Inr (), w))" by (simp_all add: demoPortEnv_def)
  have u: "UID (getObjectMeta (PortCR (demoPortCR []))) = ''u1''" by (simp add: getObjectMeta_def demoPortCR_def)
  show ?thesis using assms by (simp add: finishPort_def CheckSubnetPortState_def u c GetSubnetPortState_def v demoPortClient_def)
qed

lemma demo_port_path: "ParseVPCResourcePath (snPath demoVpcSubnet) = Inr \<lparr>OrgID = ''o'', ProjectID = ''p'', VPCID = ''v'', ResID = ''s'', ParentID = ''v''\<rparr>"
proof -
  have "snPath demoVpcSubnet = ''/orgs/o/projects/p/vpcs/v/subnets/s''" by (simp add: demoVpcSubnet_def)
  moreover have "ParseVPCResourcePath ''/orgs/o/projects/p/vpcs/v/subnets/s'' = Inr \<lparr>OrgID = ''o'', ProjectID = ''p'', VPCID = ''v'', ResID = ''s'', ParentID = ''v''\<rparr>" by code_simp
  ultimately show ?thesis by simp
qed

definition demoLabels :: "(string \<times> string) list" where "demoLabels = [(''app'', ''web'')]"

lemma demo_uid:
  assumes "ptTags q = ptTags (demoBuilt demoLabels)" "ptId q = ''p_jt72f''"
  shows "GetVpcSubnetPortByUID (poOps demoPortEnv) [(''p_jt72f'', q)] ''u1'' = Some q"
proof -
  have "tagValues (ptTags (demoBuilt demoLabels)) ''nsx-op/subnetport_uid'' = [''u1'']" by code_simp
  then have "portIndexers ''nsx-op/subnetport_uid'' q = [''u1'']" using assms by (simp add: portIndexers_def)
  then show ?thesis using assms by (simp add: GetVpcSubnetPortByUID_def poOps_def demoPortEnv_def al_ops_def portKey_def)
qed

lemma demo_create:
  "\<exists>st'. CreateOrUpdateSubnetPort demoPortEnv (PortCR (demoPortCR [])) demoVpcSubnet [] (Some demoLabels) False False IPAddressTypeIPv4 (demoPortState known)
    = Some (Inr (Some ()), st')"
proof -
  let ?ob = "PortCR (demoPortCR [])" and ?p = "demoBuilt demoLabels" and ?st = "demoPortState known"
  let ?existing = "if known then Some demoStored else None"
  define q where "q = (case ?existing of None \<Rightarrow> ?p | Some e \<Rightarrow> mergePort demoPortEnv ?ob [] e ?p)"
  have q: "ptId q = ''p_jt72f''" "ptTags q = ptTags ?p" "ptMarkedForDelete q = None" "ptPath q = Some ''/orgs/o/projects/p/vpcs/v/subnets/s/ports/p_jt72f''"
    by (simp_all add: q_def) (simp_all add: demoBuilt_def mergePort_def Let_def)
  have g: "ixGetByKey (poOps demoPortEnv) (pcStore ?st) (ptId ?p) = ?existing"
    by (simp add: demoPortState_def poOps_def demoPortEnv_def al_ops_def) (simp add: demoBuilt_def)
  have ne: "ptTags demoStored \<noteq> ptTags ?p" by code_simp
  have ch: "(case ?existing of None \<Rightarrow> True | Some e \<Rightarrow> CompareResource (poEnc demoPortEnv) port_Value e q)"
    using ne q(2) by (cases known) (auto simp: CompareResource_def port_Value_def demoPortEnv_def)
  have c: "ccPatch (poClient demoPortEnv) ids i x w = (None, AList.update (ids, i) x w)" for ids i x w by (simp add: demoPortEnv_def demoPortClient_def)
  have s: "portStore_Apply (poOps demoPortEnv) q (pcStore ?st) = [(''p_jt72f'', q)]"
    using q(1,3) by (simp add: portStore_Apply_def poOps_def demoPortEnv_def al_ops_def demoPortState_def portKey_def)
  have "demoHeld (AList.update (ids, i) q w) ids i \<noteq> None" for ids i w by (simp add: demoHeld_def)
  then obtain h where h: "demoHeld (AList.update ([''o'', ''p'', ''v'', ''s''], ptId q) q (pcNSX ?st)) [''o'', ''p'', ''v'', ''s''] (ptId q) = Some h" by blast
  have "\<exists>st'. finishPort demoPortEnv ?ob (snPath demoVpcSubnet) [''o'', ''p'', ''v'', ''s''] (ptId q)
      (?st\<lparr>pcNSX := AList.update ([''o'', ''p'', ''v'', ''s''], ptId q) q (pcNSX ?st), pcStore := portStore_Apply (poOps demoPortEnv) q (pcStore ?st)\<rparr>)
      = Some (Inr (Some ()), st')"
    unfolding s by (rule demo_finish [OF _ q(4)]) (use h demo_uid q in simp_all)
  then show ?thesis
    by (simp only: CreateOrUpdateSubnetPort_def demoPort_built demo_port_path Let_def GetByKey_def g q_def [symmetric] ch restore_keeps c sum.case option.case prod.case bind.bind_lunit
        vpc_resource_info.simps not_True_eq_False if_False)
qed

theorem CreateOrUpdateSubnetPort_stored_witness:
  "\<exists>st' c. CreateOrUpdateSubnetPort demoPortEnv (PortCR (demoPortCR [])) demoVpcSubnet [] (Some demoLabels) False False IPAddressTypeIPv4 (demoPortState False)
      = Some (Inr (Some ()), st')
    \<and> demoHeld (pcNSX st') [''o'', ''p'', ''v'', ''s''] ''p_jt72f'' = Some c \<and> c \<in> set (GetPortsOfSubnet (poCount demoPortEnv) (pcStore st') (snPath demoVpcSubnet))"
proof -
  obtain st' where s: "CreateOrUpdateSubnetPort demoPortEnv (PortCR (demoPortCR [])) demoVpcSubnet [] (Some demoLabels) False False IPAddressTypeIPv4 (demoPortState False)
      = Some (Inr (Some ()), st')" using demo_create by blast
  have "portChanged demoPortEnv (PortCR (demoPortCR [])) [] (pcStore (demoPortState False)) (demoBuilt demoLabels)"
    by (simp add: portChanged_def demoPortState_def poOps_def demoPortEnv_def al_ops_def)
  moreover have "ptId (demoBuilt demoLabels) = ''p_jt72f''" by (simp add: demoBuilt_def)
  ultimately show ?thesis
    using CreateOrUpdateSubnetPort_stored [OF demoPorts.subnet_ports_axioms s] s by (auto simp: demoPort_built demo_port_path)
qed

theorem attachment_stable_witness:
  "\<exists>st' e'. CreateOrUpdateSubnetPort demoPortEnv (PortCR (demoPortCR [])) demoVpcSubnet [] (Some demoLabels) False False IPAddressTypeIPv4 (demoPortState True)
      = Some (Inr (Some ()), st')
    \<and> ixGetByKey (poOps demoPortEnv) (pcStore st') ''p_jt72f'' = Some e' \<and> attachmentOf e' = Some ''first'' \<and> attachmentOf (demoBuilt demoLabels) = Some ''att-u1''"
proof -
  obtain st' where s: "CreateOrUpdateSubnetPort demoPortEnv (PortCR (demoPortCR [])) demoVpcSubnet [] (Some demoLabels) False False IPAddressTypeIPv4 (demoPortState True)
      = Some (Inr (Some ()), st')" using demo_create by blast
  have i: "ptId (demoBuilt demoLabels) = ''p_jt72f''" "attachmentOf (demoBuilt demoLabels) = Some ''att-u1''" by (simp_all add: demoBuilt_def attachmentOf_def)
  have a: "attachmentOf demoStored = Some ''first''" "attachmentOf (demoStored\<lparr>ptId := ''p_jt72f'', ptMarkedForDelete := None\<rparr>) = Some ''first''"
    by (simp_all add: demoStored_def attachmentOf_def)
  have "ixGetByKey (poOps demoPortEnv) (pcStore (demoPortState True)) (ptId (demoBuilt demoLabels)) = Some demoStored"
    by (simp add: i demoPortState_def poOps_def demoPortEnv_def al_ops_def)
  moreover have "demoHeld (pcNSX (demoPortState True)) [''o'', ''p'', ''v'', ''s''] (ptId (demoBuilt demoLabels)) = Some (demoStored\<lparr>ptId := ''p_jt72f'', ptMarkedForDelete := None\<rparr>)"
    by (simp add: i demoPortState_def demoHeld_def)
  ultimately show ?thesis
    using attachment_stable [OF demoPorts.subnet_ports_axioms s demoPort_built demo_port_path _ a(1) _ a(2)] s i by fastforce
qed

text \<open>Clean-up ends, and when it succeeds the store is empty.\<close>

lemma port_cleanup_spec:
  assumes "subnet_ports env held"
  shows "\<exists>err st'. port_CleanupBeforeVPCDeletion env (\<lambda>_. None) st = Some (err, st')
    \<and> (err = None \<longrightarrow> (\<forall>k. ixGetByKey (poOps env) (pcStore st') k = None))"
proof -
  note ix = subnet_ports.axioms(2) [OF assms]
  obtain objs s1 where m: "markAll (poOps env) (ptMarkedForDelete_update (\<lambda>_. Some True)) (pcStore st) = (objs, s1)" by fastforce
  have p: "(VpcSubnetPortT, portPath) \<in> set policyPaths" unfolding portPath_def by (rule map_of_SomeD) (simp add: policyPaths_def)
  obtain err w' s' where "pagedDelete (poTree env) portPath (poOps env) port_resource (\<lambda>_. None) objs (pcNSX st) s1
      = Some (err, w', s')" "err = None \<longrightarrow> (\<forall>k. ixGetByKey (poOps env) s' k = None)"
    using pagedDelete_marked [OF p _ ix _ m, of port_resource "poTree env" "pcNSX st"] by (auto simp: port_resource_def portKey_def)
  moreover have "ixGetByKey (poOps env) (pcStore st) k = None" if "ixList (poOps env) (pcStore st) = []" for k
    using indexer.list_all [OF ix, of "pcStore st"] that by (cases "ixGetByKey (poOps env) (pcStore st) k") auto
  ultimately show ?thesis using m by (auto simp: port_CleanupBeforeVPCDeletion_def)
qed

end
