(* ===== verification/PathVector.thy ===== *)
theory PathVector
  imports HashVector
begin

text \<open>
  The SHA-1 of the path of one Subnet, evaluated by the kernel, and the suffix of the identifiers of resources in that Subnet that comes from it.
\<close>

unbundle bit_operations_syntax

definition vectorPath :: string where "vectorPath = ''/orgs/o/projects/p/vpcs/v/subnets/s''"

lemma pad_path: "be_words (sha1_pad vectorPath) = [0x2F6F7267, 0x732F6F2F, 0x70726F6A, 0x65637473, 0x2F702F76, 0x7063732F, 0x762F7375, 0x626E6574, 0x732F7380, 0x0, 0x0, 0x0, 0x0, 0x0, 0x0, 0x118]"
proof -
  have z: "replicate 20 (0 :: 8 word) = [0, 0, 0, 0, 0, 0, 0, 0, 0, 0, 0, 0, 0, 0, 0, 0, 0, 0, 0, 0]" by (simp add: eval_nat_numeral)
  have "sha1_pad vectorPath = [0x2F, 0x6F, 0x72, 0x67, 0x73, 0x2F, 0x6F, 0x2F, 0x70, 0x72, 0x6F, 0x6A, 0x65, 0x63, 0x74, 0x73, 0x2F, 0x70, 0x2F, 0x76, 0x70, 0x63, 0x73, 0x2F, 0x76, 0x2F, 0x73, 0x75, 0x62, 0x6E, 0x65, 0x74, 0x73, 0x2F, 0x73, 0x80]
      @ [0, 0, 0, 0, 0, 0, 0, 0, 0, 0, 0, 0, 0, 0, 0, 0, 0, 0, 0, 0] @ [0, 0, 0, 0, 0, 0, 1, 24]"
    unfolding z [symmetric] by (simp add: vectorPath_def sha1_pad_def byte_of_char_def upt_rec Let_def)
  then show ?thesis by simp
qed

definition path_0 :: "int list" where
  "path_0 = [0x2F6F7267, 0x732F6F2F, 0x70726F6A, 0x65637473, 0x2F702F76, 0x7063732F, 0x762F7375, 0x626E6574, 0x732F7380, 0x0, 0x0, 0x0, 0x0, 0x0, 0x0, 0x118, 0x5864DD1A, 0x2C9836B8, 0xBE048208, 0x9AC9B48C]"

definition path_1 :: "int list" where
  "path_1 = [0xEB8ED576, 0x581328A7, 0x3F9368F3, 0x13C16235, 0xE6B10C7A, 0x2616BC96, 0x5B8BC07B, 0xF8F171EC, 0x9B30D3C1, 0x731D388, 0x3E0D880B, 0x48D30CA9, 0xFC101C0, 0x5C956D53, 0x8DA53758, 0x6BD5D80E, 0x2770062E, 0x828D5C85, 0x19F46919, 0xB4E9A848]"

definition path_2 :: "int list" where
  "path_2 = [0x60ED2288, 0x370D9261, 0xF3EF1955, 0xE9F0B1C5, 0x6A819F0B, 0x7D0135E2, 0x8390A22F, 0x945CAD73, 0x3F1043E5, 0x7BB0A27, 0x9ACD0AA1, 0x7F70ED56, 0xA77DF436, 0xA351971D, 0xBF209D1, 0x618AC6D9, 0x1E87DE4A, 0xA56840A5, 0xC452944C, 0xEA0D6E77]"

definition path_3 :: "int list" where
  "path_3 = [0xD609136F, 0x1CBD3781, 0xBAFF0CD8, 0x48C8E5C4, 0x4FCF411F, 0xCEB95618, 0x62551E3F, 0xF3C6AA46, 0x687F7121, 0x7866F0F5, 0xB898E20A, 0xC8AA2533, 0xDAF9F7D9, 0x72893580, 0x7149785F, 0xBF1E08D3, 0xEC00B62C, 0xBAB4B5DE, 0xE56D4E3D, 0x45B64187]"

lemma path_rounds_0: "foldl round_int (0x67452301, 0xEFCDAB89, 0x98BADCFE, 0x10325476, 0xC3D2E1F0) (zip [0..<20] path_0) = (0xEAC8C9D1, 0x855C48E6, 0xE1CCD891, 0xC7A4F17D, 0xCA13F356)"
proof -
  have u: "[0..<20] = (0 :: nat) # 1 # [2..<20]" by (simp add: upt_rec)
  show ?thesis unfolding u path_0_def by (simp add: round_int_def rotl_int_def fk_int_def)
qed

lemma path_rounds_1: "foldl round_int (0xEAC8C9D1, 0x855C48E6, 0xE1CCD891, 0xC7A4F17D, 0xCA13F356) (zip [20..<40] path_1) = (0xC21A21AD, 0x6FA6E1A2, 0xEA3D1D05, 0x2F80A2BA, 0xFD720DC2)"
  unfolding path_1_def by (simp add: round_int_def rotl_int_def fk_int_def)

lemma path_rounds_2: "foldl round_int (0xC21A21AD, 0x6FA6E1A2, 0xEA3D1D05, 0x2F80A2BA, 0xFD720DC2) (zip [40..<60] path_2) = (0xA4CDA5FF, 0x8BC6D305, 0xBCA45EFD, 0xD18698FE, 0x132CFB00)"
  unfolding path_2_def by (simp add: round_int_def rotl_int_def fk_int_def)

lemma path_rounds_3: "foldl round_int (0xA4CDA5FF, 0x8BC6D305, 0xBCA45EFD, 0xD18698FE, 0x132CFB00) (zip [60..<80] path_3) = (0x2581F9DD, 0x1147662E, 0x750A5DF8, 0xDF4A0029, 0xD043CE69)"
  unfolding path_3_def by (simp add: round_int_def rotl_int_def fk_int_def)

lemma path_expand:
  "rev (sha1_expand 64 (rev [0x2F6F7267, 0x732F6F2F, 0x70726F6A, 0x65637473, 0x2F702F76, 0x7063732F, 0x762F7375, 0x626E6574, 0x732F7380, 0x0, 0x0, 0x0, 0x0, 0x0, 0x0, 0x118])) = map word_of_int (path_0 @ path_1 @ path_2 @ path_3)"
  by (simp add: sha1_expand_numeral word_rotl_32 path_0_def path_1_def path_2_def path_3_def)

lemma path_rounds:
  "foldl round_int (0x67452301, 0xEFCDAB89, 0x98BADCFE, 0x10325476, 0xC3D2E1F0) (zip [0..<80] (path_0 @ path_1 @ path_2 @ path_3)) = (0x2581F9DD, 0x1147662E, 0x750A5DF8, 0xDF4A0029, 0xD043CE69)"
proof -
  have l: "length path_0 = 20" "length path_1 = 20" "length path_2 = 20" by (simp_all add: path_0_def path_1_def path_2_def)
  have "zip [0..<80] (path_0 @ path_1 @ path_2 @ path_3) = zip [0..<20] path_0 @ zip [20..<40] path_1 @ zip [40..<60] path_2 @ zip [60..<80] path_3"
    using zip_upt_append [OF l(1), of 0 60] zip_upt_append [OF l(2), of 20 40] zip_upt_append [OF l(3), of 40 20]
    by (simp del: upt_rec_numeral)
  then show ?thesis by (simp only: foldl_append path_rounds_0 path_rounds_1 path_rounds_2 path_rounds_3)
qed

lemma sha1_path: "sha1_sum vectorPath = [0x8C, 0xC7, 0x1C, 0xDE, 0x1, 0x15, 0x11, 0xB7, 0xD, 0xC5, 0x3A, 0xF6, 0xEF, 0x7C, 0x54, 0x9F, 0x94, 0x16, 0xB0, 0x59]"
proof -
  let ?h = "(0x67452301, 0xEFCDAB89, 0x98BADCFE, 0x10325476, 0xC3D2E1F0)" and ?ws = "path_0 @ path_1 @ path_2 @ path_3"
  have "state_word ?h = (0x67452301, 0xEFCDAB89, 0x98BADCFE, 0x10325476, 0xC3D2E1F0)" by (simp add: state_word_def)
  moreover have "zip [0..<80 :: nat] (map word_of_int ?ws :: 32 word list) = map (\<lambda>(t, w). (t, word_of_int w)) (zip [0..<80] ?ws)" by (rule zip_map2)
  ultimately have "foldl sha1_round (0x67452301, 0xEFCDAB89, 0x98BADCFE, 0x10325476, 0xC3D2E1F0) (zip [0..<80] (map word_of_int ?ws)) = state_word (0x2581F9DD, 0x1147662E, 0x750A5DF8, 0xDF4A0029, 0xD043CE69)"
    using rounds_word [of "0x67452301" "0xEFCDAB89" "0x98BADCFE" "0x10325476" "0xC3D2E1F0" "zip [0..<80] ?ws", unfolded path_rounds]
    by (simp only: small_def) (simp del: map_append upt_rec_numeral)
  then have "sha1_block (0x67452301, 0xEFCDAB89, 0x98BADCFE, 0x10325476, 0xC3D2E1F0) [0x2F6F7267, 0x732F6F2F, 0x70726F6A, 0x65637473, 0x2F702F76, 0x7063732F, 0x762F7375, 0x626E6574, 0x732F7380, 0x0, 0x0, 0x0, 0x0, 0x0, 0x0, 0x118] = (0x8CC71CDE, 0x11511B7, 0xDC53AF6, 0xEF7C549F, 0x9416B059)"
    unfolding sha1_block_def path_expand by (simp add: state_word_def)
  then show ?thesis unfolding sha1_sum_def pad_path by (simp add: word_bytes_def)
qed

lemma TruncateUIDHash_path: "TruncateUIDHash vectorPath = Some ''gfzyn''"
proof -
  have "Sha1WithCustomizedCharset vectorPath = ''gfzynhrg3r6qf59kwj17rnq6afus7rt''"
    unfolding Sha1WithCustomizedCharset_def getSha1Bytes_def sha1_path by (simp add: charsetDigits.simps HashCharset_def)
  then show ?thesis by (simp add: TruncateUIDHash_def UUIDHashLength_def slice_to_def)
qed

lemma GenerateIDByObject_path: "n \<noteq> [] \<Longrightarrow> length n \<le> 200 \<Longrightarrow> GenerateIDByObject \<lparr>Name = n, Namespace = ns, UID = vectorPath\<rparr> = Some (n @ ''_gfzyn'')"
  by (simp add: GenerateIDByObject_def TruncateUIDHash_path Let_def connect_two limit_defs)

end
