(* ===== verification/IpReservation.thy ===== *)
theory IpReservation
  imports SubnetPort PathVector
begin

text \<open>
  Reservations of addresses in a Subnet: \<open>pkg/nsx/services/subnetipreservation\<close>. A SubnetIPReservation with a number of addresses becomes a dynamic reservation, one with
  addresses, or any in restore mode, a static one. Every reservation changes the addresses that are left for ports, so the totals of the Subnet are read again.
\<close>

section \<open>Data\<close>

record ip_reservation =
  irMeta :: object_meta
  irNumberOfIPs :: int
  irReservedIPs :: "string list"
  irIPAddressType :: ip_address_type
  irStatusIPs :: "string list"

record dynamic_reservation =
  dyId :: string
  dyDisplayName :: string
  dyTags :: "nsx_tag list"
  dyNumberOfIps :: int
  dyIpAddressType :: "string option"
  dyIps :: "string list"
  dyPath :: "string option"
  dyMarkedForDelete :: "bool option"

record static_reservation =
  stId :: string
  stDisplayName :: string
  stTags :: "nsx_tag list"
  stReservedIps :: "string list"
  stPath :: "string option"
  stMarkedForDelete :: "bool option"

type_synonym static_value = "string \<times> string \<times> nsx_tag list \<times> string list"

record ('w, 's, 'x, 'y, 'd, 'f, 'e) res_env =
  rvDynOps :: "('x, dynamic_reservation) indexer_ops"
  rvStatOps :: "('y, static_reservation) indexer_ops"
  rvDynClient :: "('w, dynamic_reservation) child_client"
  rvStatClient :: "('w, static_reservation) child_client"
  rvDynTree :: "('w, dynamic_reservation, 'd) tree_client"
  rvStatTree :: "('w, static_reservation, 'f) tree_client"
  rvApi :: converter
  rvIPv6 :: bool
  rvCluster :: string
  rvUUID :: "nat \<Rightarrow> string"
  rvEnc :: "static_value \<Rightarrow> 'e"

text \<open>The counters of the Subnets belong to the port service.\<close>

record ('w, 's, 'x, 'y) res_state =
  rvPorts :: "('w, 's) pc_state"
  rvDynamic :: 'x
  rvStatic :: 'y

section \<open>Stores and comparison\<close>

definition dynKey :: "dynamic_reservation \<Rightarrow> string" where "dynKey r = dyId r"

definition statKey :: "static_reservation \<Rightarrow> string" where "statKey r = stId r"

definition uidScope :: string where "uidScope = ''nsx-op/subnetipreservation_uid''"

definition nameScope :: string where "nameScope = ''nsx-op/subnetipreservation_name''"

definition ipReservationCRUIDIndexFunc :: "nsx_tag list \<Rightarrow> string list" where
  "ipReservationCRUIDIndexFunc tags = (case tagValues tags uidScope of [] \<Rightarrow> [] | v # _ \<Rightarrow> [v])"

text \<open>The last tag of a scope counts.\<close>

definition ipReservationCRNameIndexFunc :: "nsx_tag list \<Rightarrow> string list" where
  "ipReservationCRNameIndexFunc tags =
    (let crName = last ([] # tagValues tags nameScope); crNamespace = last ([] # tagValues tags ''nsx-op/namespace'') in
     if crName \<noteq> [] \<and> crNamespace \<noteq> [] then [crNamespace @ ''/'' @ crName] else [])"

definition reservationIndexers :: "string \<Rightarrow> nsx_tag list \<Rightarrow> string list" where
  "reservationIndexers name tags =
    (if name = uidScope then ipReservationCRUIDIndexFunc tags else if name = nameScope then ipReservationCRNameIndexFunc tags else [])"

definition dynIndexers :: "string \<Rightarrow> dynamic_reservation \<Rightarrow> string list" where
  "dynIndexers name r = reservationIndexers name (dyTags r)"

definition statIndexers :: "string \<Rightarrow> static_reservation \<Rightarrow> string list" where
  "statIndexers name r = reservationIndexers name (stTags r)"

definition dynStore_Apply :: "('x, dynamic_reservation) indexer_ops \<Rightarrow> dynamic_reservation \<Rightarrow> 'x \<Rightarrow> 'x" where
  "dynStore_Apply ops r s = (if dyMarkedForDelete r = Some True then ixDelete ops s r else ixAdd ops s r)"

definition statStore_Apply :: "('y, static_reservation) indexer_ops \<Rightarrow> static_reservation \<Rightarrow> 'y \<Rightarrow> 'y" where
  "statStore_Apply ops r s = (if stMarkedForDelete r = Some True then ixDelete ops s r else ixAdd ops s r)"

definition static_Value :: "static_reservation \<Rightarrow> static_value" where
  "static_Value r = (stId r, stDisplayName r, stTags r, stReservedIps r)"

section \<open>The builder\<close>

definition ConvertCRIPAddressTypeToNSX :: "ip_address_type \<Rightarrow> string" where
  "ConvertCRIPAddressTypeToNSX t =
    (case t of IPAddressTypeIPv6 \<Rightarrow> ''IPV6'' | IPAddressTypeIPv4IPv6 \<Rightarrow> ''IPV4_IPV6'' | _ \<Rightarrow> ''IPV4'')"

definition buildIPReservationID ::
  "('w, 's, 'x, 'y, 'd, 'f, 'e) res_env \<Rightarrow> ('w, 's, 'x, 'y) res_state \<Rightarrow> ip_reservation \<Rightarrow> string \<Rightarrow> string option" where
  "buildIPReservationID env st cr subnetPath =
    BuildUniqueIDWithRandomUUID (rvUUID env) \<lparr>Name = Name (irMeta cr), Namespace = [], UID = subnetPath\<rparr> GenerateIDByObject
      (\<lambda>i. GetByKey (rvDynOps env) (rvDynamic st) i \<noteq> None \<or> GetByKey (rvStatOps env) (rvStatic st) i \<noteq> None)"

definition reservationTags :: "('w, 's, 'x, 'y, 'd, 'f, 'e) res_env \<Rightarrow> ip_reservation \<Rightarrow> nsx_tag list" where
  "reservationTags env cr = BuildBasicTags (rvCluster env) (ObjSubnetIPReservation (irMeta cr)) []"

definition buildDynamicIPReservation ::
  "('w, 's, 'x, 'y, 'd, 'f, 'e) res_env \<Rightarrow> ('w, 's, 'x, 'y) res_state \<Rightarrow> ip_reservation \<Rightarrow> string \<Rightarrow> dynamic_reservation option" where
  "buildDynamicIPReservation env st cr subnetPath =
    map_option (\<lambda>i. \<lparr>dyId = i, dyDisplayName = Name (irMeta cr), dyTags = reservationTags env cr, dyNumberOfIps = irNumberOfIPs cr,
        dyIpAddressType = (if irIPAddressType cr \<noteq> IPAddressTypeOther [] \<and> rvIPv6 env then Some (ConvertCRIPAddressTypeToNSX (irIPAddressType cr)) else None),
        dyIps = [], dyPath = None, dyMarkedForDelete = None\<rparr>)
      (buildIPReservationID env st cr subnetPath)"

definition buildStaticIPReservation ::
  "('w, 's, 'x, 'y, 'd, 'f, 'e) res_env \<Rightarrow> ('w, 's, 'x, 'y) res_state \<Rightarrow> ip_reservation \<Rightarrow> string \<Rightarrow> static_reservation option" where
  "buildStaticIPReservation env st cr subnetPath =
    map_option (\<lambda>i. \<lparr>stId = i, stDisplayName = Name (irMeta cr), stTags = reservationTags env cr,
        stReservedIps = (if irReservedIPs cr = [] then irStatusIPs cr else irReservedIPs cr), stPath = None, stMarkedForDelete = None\<rparr>)
      (buildIPReservationID env st cr subnetPath)"

section \<open>Creation\<close>

text \<open>The write, the read and the reset of the totals, which the static and the dynamic reservations share.\<close>

definition writeReservation ::
  "converter \<Rightarrow> ('w, 'o) child_client \<Rightarrow> string \<Rightarrow> string \<Rightarrow> 'o \<Rightarrow> ('w, 's) pc_state \<Rightarrow> (go_error + 'o) \<times> ('w, 's) pc_state" where
  "writeReservation api client subnetPath i r ps =
    (case ParseVPCResourcePath subnetPath of
       Inl err \<Rightarrow> (Inl (OtherError err), ps)
     | Inr info \<Rightarrow>
         let ids = [OrgID info, ProjectID info, VPCID info, ResID info] in
         (case ccPatch client ids i r (pcNSX ps) of
            (Some e, w) \<Rightarrow> (Inl (the (TransNSXApiError api (Some e))), ps\<lparr>pcNSX := w\<rparr>)
          | (None, w) \<Rightarrow>
              (case ccGet client ids i w of
                 (Inl e, w) \<Rightarrow> (Inl (the (TransNSXApiError api (Some e))), ps\<lparr>pcNSX := w\<rparr>)
               | (Inr c, w) \<Rightarrow> (Inr c, ResetSubnetTotalIP subnetPath (ps\<lparr>pcNSX := w\<rparr>)))))"

text \<open>\<open>None\<close> is a panic: the path of an unchanged reservation is dereferenced.\<close>

definition CreateOrUpdateStaticIPReservation ::
  "('w, 's, 'x, 'y, 'd, 'f, 'e) res_env \<Rightarrow> ip_reservation \<Rightarrow> string \<Rightarrow> ('w, 's, 'x, 'y) res_state \<Rightarrow> ((go_error + string list) \<times> ('w, 's, 'x, 'y) res_state) option" where
  "CreateOrUpdateStaticIPReservation env cr subnetPath st =
    Option.bind (buildStaticIPReservation env st cr subnetPath) (\<lambda>built.
      let existing = GetByIndex (rvStatOps env) (rvStatic st) uidScope (UID (irMeta cr));
          r = (case existing of [] \<Rightarrow> built | e # _ \<Rightarrow> built\<lparr>stId := stId e\<rparr>) in
      if existing \<noteq> [] \<and> \<not> CompareResource (rvEnc env) static_Value (hd existing) r
      then (case stPath (hd existing) of None \<Rightarrow> None | Some _ \<Rightarrow> Some (Inr (stReservedIps (hd existing)), st))
      else
        (case writeReservation (rvApi env) (rvStatClient env) subnetPath (stId r) r (rvPorts st) of
           (Inl e, ps) \<Rightarrow> Some (Inl e, st\<lparr>rvPorts := ps\<rparr>)
         | (Inr c, ps) \<Rightarrow> Some (Inr (stReservedIps c), st\<lparr>rvPorts := ps, rvStatic := statStore_Apply (rvStatOps env) c (rvStatic st)\<rparr>)))"

definition GetOrCreateDynamicIPReservation ::
  "('w, 's, 'x, 'y, 'd, 'f, 'e) res_env \<Rightarrow> ip_reservation \<Rightarrow> string \<Rightarrow> ('w, 's, 'x, 'y) res_state \<Rightarrow> ((go_error + string list) \<times> ('w, 's, 'x, 'y) res_state) option" where
  "GetOrCreateDynamicIPReservation env cr subnetPath st =
    Option.bind (buildDynamicIPReservation env st cr subnetPath) (\<lambda>r.
      case GetByIndex (rvDynOps env) (rvDynamic st) uidScope (UID (irMeta cr)) of
        e # _ \<Rightarrow> Some (Inr (dyIps e), st)
      | [] \<Rightarrow>
          (case GetByIndex (rvStatOps env) (rvStatic st) uidScope (UID (irMeta cr)) of
             e # _ \<Rightarrow> Some (Inr (stReservedIps e), st)
           | [] \<Rightarrow>
               (case writeReservation (rvApi env) (rvDynClient env) subnetPath (dyId r) r (rvPorts st) of
                  (Inl e, ps) \<Rightarrow> Some (Inl e, st\<lparr>rvPorts := ps\<rparr>)
                | (Inr c, ps) \<Rightarrow> Some (Inr (dyIps c), st\<lparr>rvPorts := ps, rvDynamic := dynStore_Apply (rvDynOps env) c (rvDynamic st)\<rparr>))))"

definition CreateOrUpdateSubnetIPReservation ::
  "('w, 's, 'x, 'y, 'd, 'f, 'e) res_env \<Rightarrow> ip_reservation \<Rightarrow> string \<Rightarrow> bool \<Rightarrow> ('w, 's, 'x, 'y) res_state \<Rightarrow>
   ((go_error + string list) \<times> ('w, 's, 'x, 'y) res_state) option" where
  "CreateOrUpdateSubnetIPReservation env cr subnetPath restoreMode st =
    (if restoreMode \<or> irReservedIPs cr \<noteq> [] then CreateOrUpdateStaticIPReservation env cr subnetPath st
     else GetOrCreateDynamicIPReservation env cr subnetPath st)"

section \<open>Deletion\<close>

definition subnetPathOf :: "string list \<Rightarrow> string" where
  "subnetPathOf ids = ''/orgs/'' @ ids ! 0 @ ''/projects/'' @ ids ! 1 @ ''/vpcs/'' @ ids ! 2 @ ''/subnets/'' @ ids ! 3"

text \<open>The identifiers in the path, empty ones when it cannot be parsed; \<open>None\<close> is a reservation without a path, which panics.\<close>

definition deleteReservation ::
  "converter \<Rightarrow> ('w, 'o) child_client \<Rightarrow> string option \<Rightarrow> string \<Rightarrow> ('w, 's) pc_state \<Rightarrow> (go_error option \<times> ('w, 's) pc_state) option" where
  "deleteReservation api client path i ps =
    (case path of
       None \<Rightarrow> None
     | Some path \<Rightarrow>
         (case ccDelete client (portIds path) i (pcNSX ps) of
            (Some e, w) \<Rightarrow> Some (TransNSXApiError api (Some e), ps\<lparr>pcNSX := w\<rparr>)
          | (None, w) \<Rightarrow> Some (None, ResetSubnetTotalIP (subnetPathOf (portIds path)) (ps\<lparr>pcNSX := w\<rparr>))))"

definition DeleteStaticIPReservation ::
  "('w, 's, 'x, 'y, 'd, 'f, 'e) res_env \<Rightarrow> static_reservation \<Rightarrow> ('w, 's, 'x, 'y) res_state \<Rightarrow> (go_error option \<times> ('w, 's, 'x, 'y) res_state) option" where
  "DeleteStaticIPReservation env r st =
    (case deleteReservation (rvApi env) (rvStatClient env) (stPath r) (stId r) (rvPorts st) of
       None \<Rightarrow> None
     | Some (Some e, ps) \<Rightarrow> Some (Some e, st\<lparr>rvPorts := ps\<rparr>)
     | Some (None, ps) \<Rightarrow> Some (None, st\<lparr>rvPorts := ps, rvStatic := ixDelete (rvStatOps env) (rvStatic st) r\<rparr>))"

definition DeleteDynamicIPReservation ::
  "('w, 's, 'x, 'y, 'd, 'f, 'e) res_env \<Rightarrow> dynamic_reservation \<Rightarrow> ('w, 's, 'x, 'y) res_state \<Rightarrow> (go_error option \<times> ('w, 's, 'x, 'y) res_state) option" where
  "DeleteDynamicIPReservation env r st =
    (case deleteReservation (rvApi env) (rvDynClient env) (dyPath r) (dyId r) (rvPorts st) of
       None \<Rightarrow> None
     | Some (Some e, ps) \<Rightarrow> Some (Some e, st\<lparr>rvPorts := ps\<rparr>)
     | Some (None, ps) \<Rightarrow> Some (None, st\<lparr>rvPorts := ps, rvDynamic := ixDelete (rvDynOps env) (rvDynamic st) r\<rparr>))"

text \<open>The loops stop at the first error.\<close>

fun deleteReservations :: "('o \<Rightarrow> 'z \<Rightarrow> (go_error option \<times> 'z) option) \<Rightarrow> 'o list \<Rightarrow> 'z \<Rightarrow> (go_error option \<times> 'z) option" where
  "deleteReservations del [] st = Some (None, st)"
| "deleteReservations del (r # rs) st =
    (case del r st of None \<Rightarrow> None | Some (Some e, st) \<Rightarrow> Some (Some e, st) | Some (None, st) \<Rightarrow> deleteReservations del rs st)"

definition deleteByIndex ::
  "('w, 's, 'x, 'y, 'd, 'f, 'e) res_env \<Rightarrow> string \<Rightarrow> string \<Rightarrow> ('w, 's, 'x, 'y) res_state \<Rightarrow> (go_error option \<times> ('w, 's, 'x, 'y) res_state) option" where
  "deleteByIndex env index v st =
    (case deleteReservations (DeleteDynamicIPReservation env) (GetByIndex (rvDynOps env) (rvDynamic st) index v) st of
       None \<Rightarrow> None
     | Some (Some e, st) \<Rightarrow> Some (Some e, st)
     | Some (None, st) \<Rightarrow> deleteReservations (DeleteStaticIPReservation env) (GetByIndex (rvStatOps env) (rvStatic st) index v) st)"

definition DeleteIPReservationByCRName ::
  "('w, 's, 'x, 'y, 'd, 'f, 'e) res_env \<Rightarrow> string \<Rightarrow> string \<Rightarrow> ('w, 's, 'x, 'y) res_state \<Rightarrow> (go_error option \<times> ('w, 's, 'x, 'y) res_state) option" where
  "DeleteIPReservationByCRName env ns name st = deleteByIndex env nameScope (ns @ ''/'' @ name) st"

definition DeleteIPReservationByCRId ::
  "('w, 's, 'x, 'y, 'd, 'f, 'e) res_env \<Rightarrow> string \<Rightarrow> ('w, 's, 'x, 'y) res_state \<Rightarrow> (go_error option \<times> ('w, 's, 'x, 'y) res_state) option" where
  "DeleteIPReservationByCRId env i st = deleteByIndex env uidScope i st"

definition ListSubnetIPReservationCRUIDsInStore :: "('w, 's, 'x, 'y, 'd, 'f, 'e) res_env \<Rightarrow> ('w, 's, 'x, 'y) res_state \<Rightarrow> string set" where
  "ListSubnetIPReservationCRUIDsInStore env st =
    (\<Union>r \<in> set (ixList (rvDynOps env) (rvDynamic st)). set (tagValues (dyTags r) uidScope))
    \<union> (\<Union>r \<in> set (ixList (rvStatOps env) (rvStatic st)). set (tagValues (stTags r) uidScope))"

section \<open>Clean-up\<close>

definition dyn_resource :: "dynamic_reservation \<Rightarrow> dynamic_reservation nsx_resource" where
  "dyn_resource r =
    \<lparr>ModelType = DynamicIpAddressReservationT, ResPath = dyPath r, ResId = Some (dyId r), ResDisplayName = Some (dyDisplayName r),
     ResMarkedForDelete = dyMarkedForDelete r, ResResourceType = None, ResFqdn = None, ResBody = r\<rparr>"

definition stat_resource :: "static_reservation \<Rightarrow> static_reservation nsx_resource" where
  "stat_resource r =
    \<lparr>ModelType = StaticIpAddressReservationT, ResPath = stPath r, ResId = Some (stId r), ResDisplayName = Some (stDisplayName r),
     ResMarkedForDelete = stMarkedForDelete r, ResResourceType = None, ResFqdn = None, ResBody = r\<rparr>"

definition CleanupDynamicIPReservation ::
  "('w, 's, 'x, 'y, 'd, 'f, 'e) res_env \<Rightarrow> (nat \<Rightarrow> gerror option) \<Rightarrow> ('w, 's, 'x, 'y) res_state \<Rightarrow> (go_error option \<times> ('w, 's, 'x, 'y) res_state) option" where
  "CleanupDynamicIPReservation env ctxDone st =
    (if ixList (rvDynOps env) (rvDynamic st) = [] then Some (None, st)
     else
       let (rs, s) = markAll (rvDynOps env) (\<lambda>r. r\<lparr>dyMarkedForDelete := Some True\<rparr>) (rvDynamic st) in
       map_option (\<lambda>(err, w, s). (err, st\<lparr>rvPorts := (rvPorts st)\<lparr>pcNSX := w\<rparr>, rvDynamic := s\<rparr>))
         (pagedDelete (rvDynTree env) (the (map_of policyPaths DynamicIpAddressReservationT)) (rvDynOps env) dyn_resource ctxDone rs (pcNSX (rvPorts st)) s))"

definition CleanupStaticIPReservation ::
  "('w, 's, 'x, 'y, 'd, 'f, 'e) res_env \<Rightarrow> (nat \<Rightarrow> gerror option) \<Rightarrow> ('w, 's, 'x, 'y) res_state \<Rightarrow> (go_error option \<times> ('w, 's, 'x, 'y) res_state) option" where
  "CleanupStaticIPReservation env ctxDone st =
    (if ixList (rvStatOps env) (rvStatic st) = [] then Some (None, st)
     else
       let (rs, s) = markAll (rvStatOps env) (\<lambda>r. r\<lparr>stMarkedForDelete := Some True\<rparr>) (rvStatic st) in
       map_option (\<lambda>(err, w, s). (err, st\<lparr>rvPorts := (rvPorts st)\<lparr>pcNSX := w\<rparr>, rvStatic := s\<rparr>))
         (pagedDelete (rvStatTree env) (the (map_of policyPaths StaticIpAddressReservationT)) (rvStatOps env) stat_resource ctxDone rs (pcNSX (rvPorts st)) s))"

definition res_CleanupBeforeVPCDeletion ::
  "('w, 's, 'x, 'y, 'd, 'f, 'e) res_env \<Rightarrow> (nat \<Rightarrow> gerror option) \<Rightarrow> ('w, 's, 'x, 'y) res_state \<Rightarrow> (go_error option \<times> ('w, 's, 'x, 'y) res_state) option" where
  "res_CleanupBeforeVPCDeletion env ctxDone st =
    (case CleanupDynamicIPReservation env ctxDone st of
       None \<Rightarrow> None
     | Some (Some e, st) \<Rightarrow> Some (Some e, st)
     | Some (None, st) \<Rightarrow> CleanupStaticIPReservation env ctxDone st)"

section \<open>What the operations leave behind\<close>

definition dyn_intent :: "dynamic_reservation \<Rightarrow> string \<times> nsx_tag list \<times> bool" where
  "dyn_intent r = (dyId r, dyTags r, dyMarkedForDelete r = Some True)"

definition stat_intent :: "static_reservation \<Rightarrow> static_value \<times> bool" where
  "stat_intent r = (static_Value r, stMarkedForDelete r = Some True)"

text \<open>The interfaces the service relies on: the NSX clients of both types of reservation, both stores and the comparison.\<close>

locale ip_reservations =
  dyn_api: nsx_child "rvDynClient env" heldD dyn_intent + stat_api: nsx_child "rvStatClient env" heldS stat_intent
  + dyn_store: indexer "rvDynOps env" dynKey dynIndexers + stat_store: indexer "rvStatOps env" statKey statIndexers
  + compared: comparable statKey static_Value "rvEnc env"
  for env :: "('w, 's, 'x, 'y, 'd, 'f, 'e) res_env" and heldD heldS
begin

lemma stat_in_index: "r \<in> set (GetByIndex (rvStatOps env) s uidScope u) \<longleftrightarrow> ixGetByKey (rvStatOps env) s (stId r) = Some r \<and> u \<in> set (ipReservationCRUIDIndexFunc (stTags r))"
  by (simp add: GetByIndex_def stat_store.by_index_iff statKey_def statIndexers_def reservationIndexers_def)

lemma dyn_in_index: "r \<in> set (GetByIndex (rvDynOps env) s uidScope u) \<longleftrightarrow> ixGetByKey (rvDynOps env) s (dyId r) = Some r \<and> u \<in> set (ipReservationCRUIDIndexFunc (dyTags r))"
  by (simp add: GetByIndex_def dyn_store.by_index_iff dynKey_def dynIndexers_def reservationIndexers_def)

lemma index_delete:
  "GetByIndex (rvDynOps env) (foldl (ixDelete (rvDynOps env)) s (GetByIndex (rvDynOps env) s uidScope u)) uidScope u = []"
  "GetByIndex (rvStatOps env) (foldl (ixDelete (rvStatOps env)) t (GetByIndex (rvStatOps env) t uidScope u)) uidScope u = []"
proof -
  have "r \<notin> set (GetByIndex (rvDynOps env) (foldl (ixDelete (rvDynOps env)) s (GetByIndex (rvDynOps env) s uidScope u)) uidScope u)" for r
    using dyn_in_index [of r s u] unfolding dyn_in_index [of r "foldl (ixDelete (rvDynOps env)) s _"] dyn_store.fold_delete by (auto simp: dynKey_def)
  then show "GetByIndex (rvDynOps env) (foldl (ixDelete (rvDynOps env)) s (GetByIndex (rvDynOps env) s uidScope u)) uidScope u = []"
    by (metis list.set_intros(1) neq_Nil_conv)
  have "r \<notin> set (GetByIndex (rvStatOps env) (foldl (ixDelete (rvStatOps env)) t (GetByIndex (rvStatOps env) t uidScope u)) uidScope u)" for r
    using stat_in_index [of r t u] unfolding stat_in_index [of r "foldl (ixDelete (rvStatOps env)) t _"] stat_store.fold_delete by (auto simp: statKey_def)
  then show "GetByIndex (rvStatOps env) (foldl (ixDelete (rvStatOps env)) t (GetByIndex (rvStatOps env) t uidScope u)) uidScope u = []"
    by (metis list.set_intros(1) neq_Nil_conv)
qed

end

definition resetTotals :: "CountInfo \<Rightarrow> CountInfo" where
  "resetTotals info = info\<lparr>totalStaticIP := 0, totalDhcpIP := 0, totalStaticIPv6 := 0, totalDhcpIPv6 := None\<rparr>"

lemma reset_counts: "pcCounts (ResetSubnetTotalIP path ps) path = map_option resetTotals (pcCounts ps path)"
  by (simp add: ResetSubnetTotalIP_def resetTotals_def split: option.splits)

lemma written_reservation:
  assumes "nsx_child client held intent" "writeReservation api client path i r ps = (Inr c, ps')"
  shows "intent c = intent r \<and> pcCounts ps' path = map_option resetTotals (pcCounts ps path)"
proof -
  obtain info :: vpc_resource_info and w w' where w: "ccPatch client [OrgID info, ProjectID info, VPCID info, ResID info] i r (pcNSX ps) = (None, w)"
    "ccGet client [OrgID info, ProjectID info, VPCID info, ResID info] i w = (Inr c, w')" "ps' = ResetSubnetTotalIP path (ps\<lparr>pcNSX := w'\<rparr>)"
    using assms(2) by (auto simp: writeReservation_def Let_def split: sum.splits prod.splits option.splits)
  then show ?thesis using nsx_child.patch_get [OF assms(1) w(1,2)] by (simp add: reset_counts)
qed

lemma uid_indexed: "ipReservationCRUIDIndexFunc (reservationTags env cr) = [UID (irMeta cr)]"
  by (simp add: ipReservationCRUIDIndexFunc_def reservationTags_def BuildBasicTags_def BuildClusterTags_def uidScope_def)

lemma static_stored:
  assumes "ip_reservations env heldD heldS" "CreateOrUpdateStaticIPReservation env cr path st = Some (Inr ips, st')"
  shows "(\<exists>r \<in> set (GetByIndex (rvStatOps env) (rvStatic st') uidScope (UID (irMeta cr))). stReservedIps r = ips)
    \<and> ips = (if irReservedIPs cr = [] then irStatusIPs cr else irReservedIPs cr)
    \<and> (st' = st \<or> pcCounts (rvPorts st') path = map_option resetTotals (pcCounts (rvPorts st) path))"
proof -
  note ax = ip_reservations.axioms [OF assms(1)]
  note idx = ip_reservations.stat_in_index [OF assms(1)]
  obtain built where b: "buildStaticIPReservation env st cr path = Some built"
    using assms(2) by (cases "buildStaticIPReservation env st cr path") (simp_all add: CreateOrUpdateStaticIPReservation_def)
  then have built: "stReservedIps built = (if irReservedIPs cr = [] then irStatusIPs cr else irReservedIPs cr)" "stTags built = reservationTags env cr"
    "stMarkedForDelete built = None" by (auto simp: buildStaticIPReservation_def)
  define existing where "existing = GetByIndex (rvStatOps env) (rvStatic st) uidScope (UID (irMeta cr))"
  define r where "r = (case existing of [] \<Rightarrow> built | e # _ \<Rightarrow> built\<lparr>stId := stId e\<rparr>)"
  have r: "stReservedIps r = stReservedIps built" "stTags r = stTags built" "stMarkedForDelete r = None" using built by (simp_all add: r_def split: list.splits)
  have u: "(if existing \<noteq> [] \<and> \<not> CompareResource (rvEnc env) static_Value (hd existing) r
      then (case stPath (hd existing) of None \<Rightarrow> None | Some _ \<Rightarrow> Some (Inr (stReservedIps (hd existing)), st))
      else (case writeReservation (rvApi env) (rvStatClient env) path (stId r) r (rvPorts st) of
           (Inl e, ps) \<Rightarrow> Some (Inl e, st\<lparr>rvPorts := ps\<rparr>)
         | (Inr c, ps) \<Rightarrow> Some (Inr (stReservedIps c), st\<lparr>rvPorts := ps, rvStatic := statStore_Apply (rvStatOps env) c (rvStatic st)\<rparr>)))
      = Some (Inr ips, st')"
    using assms(2) by (simp only: CreateOrUpdateStaticIPReservation_def b Let_def existing_def [symmetric] r_def [symmetric] bind.bind_lunit)
  show ?thesis
  proof (cases "existing \<noteq> [] \<and> \<not> CompareResource (rvEnc env) static_Value (hd existing) r")
    case True
    then have e: "hd existing \<in> set existing" "ips = stReservedIps (hd existing)" "st' = st" using u by (auto split: option.splits)
    have "static_Value (hd existing) = static_Value r" using True comparable.compare_iff [OF ax(5)] by blast
    then show ?thesis using e r built(1) by (auto simp: existing_def static_Value_def)
  next
    case False
    then obtain c ps where w: "writeReservation (rvApi env) (rvStatClient env) path (stId r) r (rvPorts st) = (Inr c, ps)"
      "ips = stReservedIps c" "st' = st\<lparr>rvPorts := ps, rvStatic := statStore_Apply (rvStatOps env) c (rvStatic st)\<rparr>"
      using u by (auto split: sum.splits prod.splits)
    note wr = written_reservation [OF ax(2) w(1)]
    then have c: "stTags c = reservationTags env cr" "stReservedIps c = stReservedIps r" "stMarkedForDelete c \<noteq> Some True"
      using r built(2) by (simp_all add: stat_intent_def static_Value_def)
    have "ixGetByKey (rvStatOps env) (rvStatic st') (stId c) = Some c"
      using c(3) w(3) indexer.get_add [OF ax(4)] by (simp add: statStore_Apply_def statKey_def)
    then have "c \<in> set (GetByIndex (rvStatOps env) (rvStatic st') uidScope (UID (irMeta cr)))" by (simp add: idx c(1) uid_indexed)
    then show ?thesis using w(2,3) wr c(2) r(1) built(1) by auto
  qed
qed

lemma dynamic_stored:
  assumes "ip_reservations env heldD heldS" "GetOrCreateDynamicIPReservation env cr path st = Some (Inr ips, st')"
  shows "((\<exists>r \<in> set (GetByIndex (rvStatOps env) (rvStatic st') uidScope (UID (irMeta cr))). stReservedIps r = ips)
      \<or> (\<exists>r \<in> set (GetByIndex (rvDynOps env) (rvDynamic st') uidScope (UID (irMeta cr))). dyIps r = ips))
    \<and> (st' = st \<or> pcCounts (rvPorts st') path = map_option resetTotals (pcCounts (rvPorts st) path))"
proof -
  note ax = ip_reservations.axioms [OF assms(1)]
  obtain built where b: "buildDynamicIPReservation env st cr path = Some built"
    using assms(2) by (cases "buildDynamicIPReservation env st cr path") (simp_all add: GetOrCreateDynamicIPReservation_def)
  then have built: "dyTags built = reservationTags env cr" "dyMarkedForDelete built = None" by (auto simp: buildDynamicIPReservation_def)
  show ?thesis
  proof (cases "GetByIndex (rvDynOps env) (rvDynamic st) uidScope (UID (irMeta cr)) = [] \<and> GetByIndex (rvStatOps env) (rvStatic st) uidScope (UID (irMeta cr)) = []")
    case False
    then show ?thesis using assms(2) b by (auto simp: GetOrCreateDynamicIPReservation_def split: list.splits)
  next
    case True
    then obtain c ps where w: "writeReservation (rvApi env) (rvDynClient env) path (dyId built) built (rvPorts st) = (Inr c, ps)"
      "ips = dyIps c" "st' = st\<lparr>rvPorts := ps, rvDynamic := dynStore_Apply (rvDynOps env) c (rvDynamic st)\<rparr>"
      using assms(2) b by (auto simp: GetOrCreateDynamicIPReservation_def split: sum.splits prod.splits)
    note wr = written_reservation [OF ax(1) w(1)]
    then have c: "dyTags c = reservationTags env cr" "dyMarkedForDelete c \<noteq> Some True" using built by (simp_all add: dyn_intent_def)
    have "ixGetByKey (rvDynOps env) (rvDynamic st') (dyId c) = Some c"
      using c(2) w(3) indexer.get_add [OF ax(3)] by (simp add: dynStore_Apply_def dynKey_def)
    then have "c \<in> set (GetByIndex (rvDynOps env) (rvDynamic st') uidScope (UID (irMeta cr)))"
      by (simp add: ip_reservations.dyn_in_index [OF assms(1)] c(1) uid_indexed)
    then show ?thesis using w(2,3) wr by auto
  qed
qed

text \<open>C24. When a SubnetIPReservation is created or updated, a store holds a reservation of it with the addresses that are reported; these are the addresses the specification
  asks for, if it names any; and whenever NSX was written, the totals of the Subnet are forgotten, so that the next port reads them again.\<close>

theorem CreateOrUpdateSubnetIPReservation_stored:
  assumes "ip_reservations env heldD heldS" "CreateOrUpdateSubnetIPReservation env cr path restoreMode st = Some (Inr ips, st')"
  shows "((\<exists>r \<in> set (GetByIndex (rvStatOps env) (rvStatic st') uidScope (UID (irMeta cr))). stReservedIps r = ips)
      \<or> (\<exists>r \<in> set (GetByIndex (rvDynOps env) (rvDynamic st') uidScope (UID (irMeta cr))). dyIps r = ips))
    \<and> (irReservedIPs cr \<noteq> [] \<longrightarrow> ips = irReservedIPs cr)
    \<and> (st' = st \<or> pcCounts (rvPorts st') path = map_option resetTotals (pcCounts (rvPorts st) path))"
proof (cases "restoreMode \<or> irReservedIPs cr \<noteq> []")
  case True
  then have "CreateOrUpdateStaticIPReservation env cr path st = Some (Inr ips, st')" using assms(2) by (simp only: CreateOrUpdateSubnetIPReservation_def if_True)
  from static_stored [OF assms(1) this] show ?thesis by auto
next
  case False
  then have "GetOrCreateDynamicIPReservation env cr path st = Some (Inr ips, st')" using assms(2) by (simp only: CreateOrUpdateSubnetIPReservation_def if_False)
  from dynamic_stored [OF assms(1) this] False show ?thesis by blast
qed

lemma deleteReservations_dynamic:
  "deleteReservations (DeleteDynamicIPReservation env) rs st = Some (None, st')
    \<Longrightarrow> rvDynamic st' = foldl (ixDelete (rvDynOps env)) (rvDynamic st) rs \<and> rvStatic st' = rvStatic st"
proof (induction rs arbitrary: st)
  case (Cons r rs)
  obtain st1 where s: "DeleteDynamicIPReservation env r st = Some (None, st1)" "deleteReservations (DeleteDynamicIPReservation env) rs st1 = Some (None, st')"
    using Cons.prems by (auto split: option.splits)
  then show ?case using Cons.IH [OF s(2)] by (auto simp: DeleteDynamicIPReservation_def split: option.splits)
qed simp

lemma deleteReservations_static:
  "deleteReservations (DeleteStaticIPReservation env) rs st = Some (None, st')
    \<Longrightarrow> rvStatic st' = foldl (ixDelete (rvStatOps env)) (rvStatic st) rs \<and> rvDynamic st' = rvDynamic st"
proof (induction rs arbitrary: st)
  case (Cons r rs)
  obtain st1 where s: "DeleteStaticIPReservation env r st = Some (None, st1)" "deleteReservations (DeleteStaticIPReservation env) rs st1 = Some (None, st')"
    using Cons.prems by (auto split: option.splits)
  then show ?case using Cons.IH [OF s(2)] by (auto simp: DeleteStaticIPReservation_def split: option.splits)
qed simp

text \<open>A deletion that succeeds leaves no reservation of the SubnetIPReservation in either store.\<close>

theorem DeleteIPReservationByCRId_removes:
  assumes "ip_reservations env heldD heldS" "DeleteIPReservationByCRId env u st = Some (None, st')"
  shows "GetByIndex (rvDynOps env) (rvDynamic st') uidScope u = [] \<and> GetByIndex (rvStatOps env) (rvStatic st') uidScope u = []"
proof -
  obtain st1 where s: "deleteReservations (DeleteDynamicIPReservation env) (GetByIndex (rvDynOps env) (rvDynamic st) uidScope u) st = Some (None, st1)"
    "deleteReservations (DeleteStaticIPReservation env) (GetByIndex (rvStatOps env) (rvStatic st1) uidScope u) st1 = Some (None, st')"
    using assms(2) by (auto simp: DeleteIPReservationByCRId_def deleteByIndex_def split: option.splits)
  show ?thesis using deleteReservations_dynamic [OF s(1)] deleteReservations_static [OF s(2)] ip_reservations.index_delete [OF assms(1)] by auto
qed

section \<open>An example\<close>

text \<open>NSX holds the reservations of both types side by side.\<close>

definition child_fst :: "('w, 'o) child_client \<Rightarrow> ('w \<times> 'v, 'o) child_client" where
  "child_fst c =
    \<lparr>ccPatch = (\<lambda>ids i x w. apsnd (\<lambda>v. (v, snd w)) (ccPatch c ids i x (fst w))), ccGet = (\<lambda>ids i w. apsnd (\<lambda>v. (v, snd w)) (ccGet c ids i (fst w))),
     ccDelete = (\<lambda>ids i w. apsnd (\<lambda>v. (v, snd w)) (ccDelete c ids i (fst w)))\<rparr>"

definition child_snd :: "('v, 'o) child_client \<Rightarrow> ('w \<times> 'v, 'o) child_client" where
  "child_snd c =
    \<lparr>ccPatch = (\<lambda>ids i x w. apsnd (Pair (fst w)) (ccPatch c ids i x (snd w))), ccGet = (\<lambda>ids i w. apsnd (Pair (fst w)) (ccGet c ids i (snd w))),
     ccDelete = (\<lambda>ids i w. apsnd (Pair (fst w)) (ccDelete c ids i (snd w)))\<rparr>"

lemma apsnd_eqD: "apsnd f p = (a, b) \<Longrightarrow> p = (a, snd p) \<and> b = f (snd p)"
  by (cases p) auto

lemma nsx_child_fst:
  assumes "nsx_child c held intent"
  shows "nsx_child (child_fst c) (\<lambda>w. held (fst w)) intent"
proof -
  note laws = nsx_child.patched [OF assms] nsx_child.patch_others [OF assms] nsx_child.got [OF assms] nsx_child.get_keeps [OF assms] nsx_child.deleted [OF assms]
    nsx_child.delete_others [OF assms]
  show ?thesis by unfold_locales (auto simp: child_fst_def dest!: apsnd_eqD intro: laws)
qed

lemma nsx_child_snd:
  assumes "nsx_child c held intent"
  shows "nsx_child (child_snd c) (\<lambda>w. held (snd w)) intent"
proof -
  note laws = nsx_child.patched [OF assms] nsx_child.patch_others [OF assms] nsx_child.got [OF assms] nsx_child.get_keeps [OF assms] nsx_child.deleted [OF assms]
    nsx_child.delete_others [OF assms]
  show ?thesis by unfold_locales (auto simp: child_snd_def dest!: apsnd_eqD intro: laws)
qed

definition demoDyn :: "(((string list \<times> string) \<times> dynamic_reservation) list, dynamic_reservation) child_client" where
  "demoDyn = al_child (\<lambda>r ids i. r\<lparr>dyIps := [''10.0.0.5''], dyPath := Some (''/orgs/o/projects/p/vpcs/v/subnets/s/dynamic-ip-reservations/'' @ i)\<rparr>)"

definition demoStat :: "(((string list \<times> string) \<times> static_reservation) list, static_reservation) child_client" where
  "demoStat = al_child (\<lambda>r ids i. r\<lparr>stPath := Some (''/orgs/o/projects/p/vpcs/v/subnets/s/static-ip-reservations/'' @ i)\<rparr>)"

type_synonym demo_nsx = "((string list \<times> string) \<times> dynamic_reservation) list \<times> ((string list \<times> string) \<times> static_reservation) list"

definition demoResEnv :: "(demo_nsx, unit, (string \<times> dynamic_reservation) list, (string \<times> static_reservation) list, string, string, static_value) res_env" where
  "demoResEnv =
    \<lparr>rvDynOps = al_ops dynKey dynIndexers, rvStatOps = al_ops statKey statIndexers, rvDynClient = child_fst demoDyn, rvStatClient = child_snd demoStat,
     rvDynTree = \<lparr>tcConv = printConv, tcOrder = id, tcApi = noConvert, tcPatch = (\<lambda>_ _ w. (None, w))\<rparr>,
     rvStatTree = \<lparr>tcConv = printConv, tcOrder = id, tcApi = noConvert, tcPatch = (\<lambda>_ _ w. (None, w))\<rparr>,
     rvApi = noConvert, rvIPv6 = False, rvCluster = ''c'', rvUUID = (\<lambda>_. ''u''), rvEnc = (\<lambda>v. v)\<rparr>"

interpretation demoReservations: ip_reservations demoResEnv "\<lambda>w. al_client (fst w)" "\<lambda>w. al_client (snd w)"
proof (intro ip_reservations.intro)
  show "nsx_child (rvDynClient demoResEnv) (\<lambda>w. al_client (fst w)) dyn_intent"
    unfolding demoResEnv_def by (simp add: nsx_child_fst nsx_child_al demoDyn_def dyn_intent_def)
  show "nsx_child (rvStatClient demoResEnv) (\<lambda>w. al_client (snd w)) stat_intent"
    unfolding demoResEnv_def by (simp add: nsx_child_snd nsx_child_al demoStat_def stat_intent_def static_Value_def)
  show "indexer (rvDynOps demoResEnv) dynKey dynIndexers" "indexer (rvStatOps demoResEnv) statKey statIndexers" by (simp_all add: demoResEnv_def indexer_al_ops)
qed (unfold_locales, simp add: demoResEnv_def)

definition demoReservation :: ip_reservation where
  "demoReservation = \<lparr>irMeta = \<lparr>Name = ''r'', Namespace = ''ns'', UID = ''u1''\<rparr>, irNumberOfIPs = 0, irReservedIPs = [''10.0.0.8''], irIPAddressType = IPAddressTypeOther [],
    irStatusIPs = []\<rparr>"

definition demoResState :: "(demo_nsx, unit, (string \<times> dynamic_reservation) list, (string \<times> static_reservation) list) res_state" where
  "demoResState = \<lparr>rvPorts = \<lparr>pcNSX = ([], []), pcStore = (), pcCounts = [vectorPath \<mapsto> newInfo\<lparr>totalStaticIP := 28\<rparr>]\<rparr>, rvDynamic = [], rvStatic = []\<rparr>"

lemma vector_path: "ParseVPCResourcePath vectorPath = Inr \<lparr>OrgID = ''o'', ProjectID = ''p'', VPCID = ''v'', ResID = ''s'', ParentID = ''v''\<rparr>"
  by code_simp

theorem CreateOrUpdateSubnetIPReservation_stored_witness:
  "\<exists>st'. CreateOrUpdateSubnetIPReservation demoResEnv demoReservation vectorPath False demoResState = Some (Inr [''10.0.0.8''], st')
    \<and> pcCounts (rvPorts st') vectorPath = Some newInfo"
proof -
  have i: "buildIPReservationID demoResEnv demoResState demoReservation vectorPath = Some ''r_gfzyn''"
    by (simp add: buildIPReservationID_def BuildUniqueIDWithRandomUUID_def demoReservation_def GenerateIDByObject_path uniqueIdLoop.simps GetByKey_def
        demoResEnv_def demoResState_def al_ops_def)
  have n: "GetByIndex (rvStatOps demoResEnv) (rvStatic demoResState) uidScope u = []" for u by (simp add: GetByIndex_def demoResEnv_def demoResState_def al_ops_def)
  have c: "rvStatClient demoResEnv = child_snd demoStat" by (simp add: demoResEnv_def)
  have "\<exists>st'. CreateOrUpdateStaticIPReservation demoResEnv demoReservation vectorPath demoResState = Some (Inr [''10.0.0.8''], st') \<and> st' \<noteq> demoResState"
    unfolding CreateOrUpdateStaticIPReservation_def buildStaticIPReservation_def i n
    by (simp add: Let_def writeReservation_def vector_path c child_snd_def demoStat_def al_child_def demoReservation_def)
       (simp add: demoResState_def ResetSubnetTotalIP_def)
  then obtain st' where s: "CreateOrUpdateSubnetIPReservation demoResEnv demoReservation vectorPath False demoResState = Some (Inr [''10.0.0.8''], st')" "st' \<noteq> demoResState"
    by (auto simp: CreateOrUpdateSubnetIPReservation_def demoReservation_def)
  have "map_option resetTotals (pcCounts (rvPorts demoResState) vectorPath) = Some newInfo" by (simp add: demoResState_def resetTotals_def newInfo_def)
  then show ?thesis using CreateOrUpdateSubnetIPReservation_stored [OF demoReservations.ip_reservations_axioms s(1)] s by auto
qed

text \<open>The stores hold a dynamic reservation of the SubnetIPReservation, and one of another.\<close>

definition demoHeldReservation :: "string \<Rightarrow> dynamic_reservation" where
  "demoHeldReservation u = \<lparr>dyId = u, dyDisplayName = ''r'', dyTags = [mk_tag uidScope u], dyNumberOfIps = 1, dyIpAddressType = None, dyIps = [''10.0.0.5''],
    dyPath = Some (''/orgs/o/projects/p/vpcs/v/subnets/s/dynamic-ip-reservations/'' @ u), dyMarkedForDelete = None\<rparr>"

theorem DeleteIPReservationByCRId_removes_witness:
  "\<exists>st'. DeleteIPReservationByCRId demoResEnv ''u1'' (demoResState\<lparr>rvDynamic := [(''u1'', demoHeldReservation ''u1''), (''u2'', demoHeldReservation ''u2'')]\<rparr>)
      = Some (None, st')
    \<and> GetByIndex (rvDynOps demoResEnv) (rvDynamic st') uidScope ''u1'' = []"
proof -
  let ?st = "demoResState\<lparr>rvDynamic := [(''u1'', demoHeldReservation ''u1''), (''u2'', demoHeldReservation ''u2'')]\<rparr>"
  have d: "GetByIndex (rvDynOps demoResEnv) (rvDynamic ?st) uidScope ''u1'' = [demoHeldReservation ''u1'']"
    by (simp add: GetByIndex_def demoResEnv_def al_ops_def demoHeldReservation_def dynKey_def dynIndexers_def reservationIndexers_def ipReservationCRUIDIndexFunc_def)
  have n: "GetByIndex (rvStatOps demoResEnv) [] uidScope u = []" for u by (simp add: GetByIndex_def demoResEnv_def al_ops_def)
  have s: "rvStatic ?st = []" by (simp add: demoResState_def)
  have c: "rvDynClient demoResEnv = child_fst demoDyn" by (simp add: demoResEnv_def)
  have p: "dyPath (demoHeldReservation ''u1'') \<noteq> None" by (simp add: demoHeldReservation_def)
  obtain st1 where st1: "DeleteDynamicIPReservation demoResEnv (demoHeldReservation ''u1'') ?st = Some (None, st1)" "rvStatic st1 = []"
    using p s by (auto simp: DeleteDynamicIPReservation_def deleteReservation_def c child_fst_def demoDyn_def al_child_def)
  have "DeleteIPReservationByCRId demoResEnv ''u1'' ?st = Some (None, st1)"
    unfolding DeleteIPReservationByCRId_def deleteByIndex_def d by (simp add: st1 n)
  then show ?thesis using DeleteIPReservationByCRId_removes [OF demoReservations.ip_reservations_axioms] by blast
qed

end
