(* ===== verification/SubnetService.thy ===== *)
theory SubnetService
  imports IpReservation
begin

text \<open>
  Subnets and SubnetSets: \<open>pkg/nsx/services/subnet\<close>. A Subnet has one NSX Subnet, a SubnetSet any number of them, which are created on demand. The service builds
  an NSX Subnet, merges it with the stored one, writes it when it differs and checks its realization; shared Subnets are read from NSX through a cache.
\<close>

section \<open>Data\<close>

record dhcp_config =
  dcMode :: "string option"
  dcReserved :: "string list option"

record advanced_config =
  acGateways :: "string list"
  acDhcpServers :: "string list"
  acConnectivity :: "string option"
  acStatic :: "(bool option \<times> string list) option"

record nsx_subnet =
  suId :: string
  suDisplayName :: string
  suTags :: "nsx_tag list"
  suAccessMode :: "string option"
  suAdvanced :: "advanced_config option"
  suDhcp :: "dhcp_config option"
  suDhcpv6 :: "dhcp_config option"
  suIpv4Size :: "int option"
  suIpv6Prefix :: "int option"
  suIpAddresses :: "string list"
  suIpAddressType :: "string option"
  suDescription :: "string option"
  suIpBlocks :: "string list"
  suVlanConnection :: "string option"
  suPath :: "string option"
  suParentPath :: "string option"
  suMarkedForDelete :: "bool option"

text \<open>One entry of the status of an NSX Subnet; the VLAN extension is its VLAN and whether the gateway is connected.\<close>

record subnet_status =
  usNetwork :: "string option"
  usGateway :: "string option"
  usDhcp :: "string option"
  usVlan :: "(int option \<times> bool option) option"

record subnet_cr =
  csMeta :: object_meta
  csLabels :: "(string \<times> string) list"
  csAnnotations :: "(string \<times> string) list option"
  csVPCName :: string
  csAccessMode :: string
  csIPv4SubnetSize :: int
  csIPv6PrefixLength :: int
  csIPAddresses :: "string list"
  csIPAddressType :: ip_address_type
  csDHCPMode :: string
  csDHCPReserved :: "string list"
  csDHCPv6Mode :: string
  csDHCPv6Reserved :: "string list"
  csGateways :: "string list"
  csDhcpServers :: "string list"
  csConnectivity :: string
  csStaticEnabled :: "bool option"
  csPoolRanges :: "string list"
  csDescription :: string
  csIPBlockNames :: "string list"
  csVLANConnectionName :: string
  csNetworkAddresses :: "string list"
  csGatewayAddresses :: "string list"
  csDHCPServerAddresses :: "string list"
  csShared :: bool
  csVLANExtension :: "int \<times> bool"
  csConditions :: "(string \<times> bool) list"

text \<open>The subnets in the status of a SubnetSet are their network, gateway and DHCP server addresses; a condition is its type, message, status and reason.\<close>

type_synonym subnet_info = "string list \<times> string list \<times> string list"

record subnet_set =
  ssMeta :: object_meta
  ssLabels :: "(string \<times> string) list"
  ssAccessMode :: string
  ssIPAddressType :: ip_address_type
  ssDHCPMode :: string
  ssDHCPv6Mode :: string
  ssIPv4SubnetSize :: int
  ssIPv6PrefixLength :: int
  ssSubnetNames :: "string list option"
  ssSubnets :: "subnet_info list"
  ssConditions :: "(string \<times> string \<times> bool \<times> string) list"

datatype subnet_object = ObjSubnetCR subnet_cr | ObjSubnetSetCR subnet_set

definition objMeta :: "subnet_object \<Rightarrow> object_meta" where
  "objMeta ob = (case ob of ObjSubnetCR s \<Rightarrow> csMeta s | ObjSubnetSetCR s \<Rightarrow> ssMeta s)"

definition objLabels :: "subnet_object \<Rightarrow> (string \<times> string) list" where
  "objLabels ob = (case ob of ObjSubnetCR s \<Rightarrow> csLabels s | ObjSubnetSetCR s \<Rightarrow> ssLabels s)"

type_synonym subnet_value =
  "nsx_tag list \<times> (string option \<times> string list option) option \<times> (string option \<times> string list option) option \<times> string option
   \<times> (string list \<times> string list \<times> string option \<times> (bool option \<times> string list) option) option \<times> string option"

text \<open>The network stacks of the VPCs in the NetworkInfos of a Namespace, the UID and labels of a Namespace, and the client of Kubernetes for SubnetSets come from
  the cluster; the random indexes are those of the package uuid, one for every NSX Subnet that a call builds.\<close>

record ('w, 's, 'd, 'e) subnet_env =
  suOps :: "('s, nsx_subnet) indexer_ops"
  suClient :: "('w, nsx_subnet) child_client"
  suStatusClient :: "string list \<Rightarrow> string \<Rightarrow> 'w \<Rightarrow> (go_error + subnet_status list) \<times> 'w"
  suEntities :: "'w entity_client"
  suApi :: converter
  suTree :: "('w, nsx_subnet, 'd) tree_client"
  suIPv6 :: bool
  suCluster :: string
  suUUID :: "nat \<Rightarrow> string"
  suIndex :: "nat \<Rightarrow> string"
  suNetworkInfos :: "string \<Rightarrow> gerror + string list list"
  suNamespace :: "string \<Rightarrow> gerror + string \<times> (string \<times> string) list"
  suGetSet :: "string \<Rightarrow> string \<Rightarrow> 'w \<Rightarrow> (go_error + subnet_set) \<times> 'w"
  suUpdateSetStatus :: "subnet_set \<Rightarrow> 'w \<Rightarrow> go_error option \<times> 'w"
  suConflict :: "go_error \<Rightarrow> bool"
  suEnc :: "subnet_value \<Rightarrow> 'e"

text \<open>An entry of the cache of PortSettings: the token stands for its address, which tells entries apart; no time marks a fetch that is under way.\<close>

record port_settings_entry =
  psToken :: nat
  psIds :: "string list"
  psFetchedAt :: "int option"

text \<open>NSX, Kubernetes and the counters of ports, the store, the cache of shared Subnets and the Subnets that share each of them.\<close>

record ('w, 's, 'p) subnet_state =
  suPorts :: "('w, 'p) pc_state"
  suStore :: 's
  suCache :: "string \<rightharpoonup> nsx_subnet option \<times> subnet_status list"
  suSharing :: "string \<rightharpoonup> (string \<times> string) set"
  suPortSettings :: "string \<rightharpoonup> port_settings_entry"
  suNextToken :: nat

section \<open>Store and comparison\<close>

definition subnetKey :: "nsx_subnet \<Rightarrow> string" where "subnetKey s = suId s"

definition subnetIndexers :: "string \<Rightarrow> nsx_subnet \<Rightarrow> string list" where
  "subnetIndexers name s =
    (if name \<in> {''nsx-op/subnet_uid'', ''nsx-op/subnetset_uid'', ''nsx-op/vm_namespace'', ''nsx-op/namespace''} then tagValues (suTags s) name
     else if name = ''indexedByVPCPath'' then (case IndexByVPCFunc (IxVpcSubnet (suParentPath s)) of Inl _ \<Rightarrow> [] | Inr ps \<Rightarrow> ps)
     else if name = ''nsxSubnetNameIndex'' then [suDisplayName s]
     else [])"

definition subnetStore_Apply :: "('s, nsx_subnet) indexer_ops \<Rightarrow> nsx_subnet \<Rightarrow> 's \<Rightarrow> 's" where
  "subnetStore_Apply ops s st = (if suMarkedForDelete s = Some True then ixDelete ops st s else ixAdd ops st s)"

definition dhcpValue :: "dhcp_config \<Rightarrow> string option \<times> string list option" where
  "dhcpValue c = (dcMode c, dcReserved c)"

definition subnet_Value :: "nsx_subnet \<Rightarrow> subnet_value" where
  "subnet_Value s =
    (suTags s, map_option dhcpValue (suDhcp s), map_option dhcpValue (suDhcpv6 s), suIpAddressType s,
     map_option (\<lambda>a. (acGateways a, acDhcpServers a, acConnectivity a, acStatic a)) (suAdvanced s), suDescription s)"

section \<open>The builder\<close>

definition nsxSubnetIdExists :: "('w, 's, 'd, 'e) subnet_env \<Rightarrow> 's \<Rightarrow> string \<Rightarrow> bool" where
  "nsxSubnetIdExists env s i \<longleftrightarrow> GetByKey (suOps env) s i \<noteq> None"

definition nsxSubnetNameExists :: "('w, 's, 'd, 'e) subnet_env \<Rightarrow> 's \<Rightarrow> string \<Rightarrow> bool" where
  "nsxSubnetNameExists env s n \<longleftrightarrow> GetByIndex (suOps env) s ''nsxSubnetNameIndex'' n \<noteq> []"

definition MaxSubnetNameLength :: int where "MaxSubnetNameLength = 80"

definition BuildSubnetID :: "('w, 's, 'd, 'e) subnet_env \<Rightarrow> 's \<Rightarrow> object_meta \<Rightarrow> string option" where
  "BuildSubnetID env s m = BuildUniqueIDWithRandomUUID (suUUID env) m GenerateIDByObject (nsxSubnetIdExists env s)"

definition BuildSubnetName :: "('w, 's, 'd, 'e) subnet_env \<Rightarrow> 's \<Rightarrow> object_meta \<Rightarrow> string option" where
  "BuildSubnetName env s m = BuildUniqueIDWithSuffix (suUUID env) m [] MaxSubnetNameLength GenerateIDByObject (nsxSubnetNameExists env s)"

definition buildSubnetSetID :: "('w, 's, 'd, 'e) subnet_env \<Rightarrow> 's \<Rightarrow> object_meta \<Rightarrow> string \<Rightarrow> string option" where
  "buildSubnetSetID env s m index = BuildUniqueIDWithSuffix (suUUID env) m index MaxIdLength GenerateIDByObject (nsxSubnetIdExists env s)"

definition buildSubnetSetName :: "('w, 's, 'd, 'e) subnet_env \<Rightarrow> 's \<Rightarrow> object_meta \<Rightarrow> string \<Rightarrow> string option" where
  "buildSubnetSetName env s m index = BuildUniqueIDWithSuffix (suUUID env) m index MaxSubnetNameLength GenerateIDByObject (nsxSubnetNameExists env s)"

definition convertAccessMode :: "string \<Rightarrow> string" where
  "convertAccessMode m = (if m = ''PrivateTGW'' then ''Private_TGW'' else m)"

definition Capitalize :: "string \<Rightarrow> string" where
  "Capitalize s = (case s of [] \<Rightarrow> [] | c # r \<Rightarrow> upper_char c # r)"

definition IsNamespaceInTepLessMode :: "(string \<Rightarrow> gerror + string list list) \<Rightarrow> string \<Rightarrow> gerror + bool" where
  "IsNamespaceInTepLessMode infos ns =
    (case infos ns of
       Inl err \<Rightarrow> Inl (''failed to list NetworkInfo: '' @ err)
     | Inr [] \<Rightarrow> Inl (''no NetworkInfo found in namespace '' @ ns)
     | Inr ([] # _) \<Rightarrow> Inl (''no VPC found in NetworkInfo for namespace '' @ ns)
     | Inr ((stack # _) # _) \<Rightarrow> if stack = [] then Inl ''NetworkStack is not set in NetworkInfo CRD'' else Inr (stack = ''VLANBackedVPC''))"

definition objectOf :: "subnet_object \<Rightarrow> k8s_object" where
  "objectOf ob = (case ob of ObjSubnetCR s \<Rightarrow> ObjSubnet (csMeta s) | ObjSubnetSetCR s \<Rightarrow> ObjSubnetSet (ssMeta s))"

definition buildSubnetTags :: "('w, 's, 'd, 'e) subnet_env \<Rightarrow> subnet_object \<Rightarrow> nsx_tag list \<Rightarrow> gerror + nsx_tag list" where
  "buildSubnetTags env ob tags =
    (case IsNamespaceInTepLessMode (suNetworkInfos env) (Namespace (objMeta ob)) of
       Inl err \<Rightarrow> Inl err
     | Inr tepLess \<Rightarrow>
         let tags = BuildBasicTags (suCluster env) (objectOf ob) [] @ tags
                @ (if tepLess then [mk_tag ''ENABLED'' ''WCP_L3_SUBNET_IN_VLAN_BACKED_VPC_MODE''] else []) @ labelTagList (Some (objLabels ob)) in
         if MaxTagsCount < length tags then Inl (''tags cannot exceed maximum size 26, tags length: '' @ nat_str (length tags)) else Inr tags)"

definition getNamespaceUUID :: "nsx_tag list \<Rightarrow> string" where
  "getNamespaceUUID tags =
    (case tagValues tags ''nsx-op/vm_namespace_uid'' of v # _ \<Rightarrow> v
     | [] \<Rightarrow> (case tagValues tags ''nsx-op/namespace_uid'' of v # _ \<Rightarrow> v | [] \<Rightarrow> []))"

definition buildSubnetDHCPConfig :: "string \<Rightarrow> string list option \<Rightarrow> dhcp_config" where
  "buildSubnetDHCPConfig mode reserved = \<lparr>dcMode = Some (ParseDHCPMode mode), dcReserved = reserved\<rparr>"

definition buildSubnetDHCPv6Config :: "string \<Rightarrow> string list option \<Rightarrow> dhcp_config" where
  "buildSubnetDHCPv6Config mode reserved = \<lparr>dcMode = Some (ParseDHCPMode mode), dcReserved = reserved\<rparr>"

definition orDeactivated :: "string \<Rightarrow> string" where
  "orDeactivated mode = (if mode = [] then ''DHCPDeactivated'' else mode)"

definition positive :: "int \<Rightarrow> int option" where
  "positive n = (if 0 < n then Some n else None)"

definition invalidBlock :: "string \<Rightarrow> gerror" where
  "invalidBlock raw = ''invalid IPBlock name '' @ raw @ '': must not be empty or contain spaces, tabs, or newlines''"

definition blockPath :: "vpc_resource_info \<Rightarrow> string \<Rightarrow> gerror + string" where
  "blockPath info raw =
    (let name = TrimSpace raw in
     if name = [] \<or> list_ex (\<lambda>c. of_char c \<in> {32 :: nat, 9, 10, 13}) name then Inl (invalidBlock raw)
     else if hd name = CHR '':'' then
       (let blockID = TrimSpace (tl name) in
        if blockID = [] then Inl (''invalid infra IPBlock name '' @ raw @ '': block ID after : cannot be empty'')
        else Inr (''/infra/ip-blocks/'' @ blockID))
     else if OrgID info = [] \<or> ProjectID info = [] then Inl (''org or project info is missing to build path for IPBlock '' @ name)
     else Inr (''/orgs/'' @ OrgID info @ ''/projects/'' @ ProjectID info @ ''/infra/ip-blocks/'' @ name))"

fun buildIPBlockPaths :: "string list \<Rightarrow> vpc_resource_info \<Rightarrow> gerror + string list" where
  "buildIPBlockPaths [] info = Inr []"
| "buildIPBlockPaths (raw # rest) info =
    (case blockPath info raw of
       Inl err \<Rightarrow> Inl err
     | Inr p \<Rightarrow> (case buildIPBlockPaths rest info of Inl err \<Rightarrow> Inl err | Inr ps \<Rightarrow> Inr (p # ps)))"

definition emptySubnet :: "string \<Rightarrow> string \<Rightarrow> nsx_tag list \<Rightarrow> nsx_subnet" where
  "emptySubnet i n tags =
    \<lparr>suId = i, suDisplayName = n, suTags = tags, suAccessMode = None, suAdvanced = None, suDhcp = None, suDhcpv6 = None, suIpv4Size = None, suIpv6Prefix = None,
     suIpAddresses = [], suIpAddressType = None, suDescription = None, suIpBlocks = [], suVlanConnection = None, suPath = None, suParentPath = None,
     suMarkedForDelete = None\<rparr>"

definition crType :: "('w, 's, 'd, 'e) subnet_env \<Rightarrow> ip_address_type \<Rightarrow> string option" where
  "crType env t = (if t \<noteq> IPAddressTypeOther [] \<and> suIPv6 env then Some (ConvertCRIPAddressTypeToNSX t) else None)"

definition nonEmptyOption :: "string list \<Rightarrow> string list option" where
  "nonEmptyOption xs = (if xs = [] then None else Some xs)"

definition connectivityOf :: "string \<Rightarrow> string option" where
  "connectivityOf c = (if c = ''Connected'' then Some ''CONNECTED'' else if c = ''Disconnected'' then Some ''DISCONNECTED'' else None)"

text \<open>The NSX Subnet of a Subnet; the blocks of addresses are built last and may fail.\<close>

definition subnetOfCR :: "('w, 's, 'd, 'e) subnet_env \<Rightarrow> subnet_cr \<Rightarrow> string \<Rightarrow> string \<Rightarrow> nsx_tag list \<Rightarrow> nsx_subnet" where
  "subnetOfCR env o' i n tags =
    (let ip = \<lparr>crDHCPMode = csDHCPMode o', crDHCPv6Mode = csDHCPv6Mode o', crIPAddressType = csIPAddressType o'\<rparr>;
         static = (case csStaticEnabled o' of Some b \<Rightarrow> b | None \<Rightarrow> GetDefaultStaticIPAllocation (Some ip));
         v4 = IPAddressTypeIncludesIPv4 (csIPAddressType o'); v6 = IPAddressTypeIncludesIPv6 (csIPAddressType o');
         dhcpServer = (csDHCPMode o' = ''DHCPServer'' \<or> csDHCPv6Mode o' \<in> {''DHCPServer'', ''DHCPServerStateless''}) in
     (emptySubnet i n tags)\<lparr>
       suAccessMode := Some (convertAccessMode (Capitalize (csAccessMode o'))),
       suAdvanced := Some \<lparr>acGateways = csGateways o', acDhcpServers = (if dhcpServer then csDhcpServers o' else []),
         acConnectivity = connectivityOf (csConnectivity o'),
         acStatic = Some (Some static, filter (\<lambda>t. t \<noteq> []) (map TrimSpace (csPoolRanges o')))\<rparr>,
       suDhcp := (if v4 then Some (buildSubnetDHCPConfig (orDeactivated (csDHCPMode o')) (nonEmptyOption (csDHCPReserved o'))) else None),
       suDhcpv6 := (if v6 then Some (buildSubnetDHCPv6Config (orDeactivated (csDHCPv6Mode o')) (nonEmptyOption (csDHCPv6Reserved o'))) else None),
       suIpv4Size := (if v4 then positive (csIPv4SubnetSize o') else None),
       suIpv6Prefix := (if v6 then positive (csIPv6PrefixLength o') else None),
       suIpAddresses := (if csIPAddresses o' \<noteq> [] then csIPAddresses o' else csNetworkAddresses o'),
       suIpAddressType := crType env (csIPAddressType o'),
       suDescription := Some (csDescription o')\<rparr>)"

definition subnetOfSet :: "('w, 's, 'd, 'e) subnet_env \<Rightarrow> subnet_set \<Rightarrow> string list \<Rightarrow> string \<Rightarrow> string \<Rightarrow> nsx_tag list \<Rightarrow> nsx_subnet" where
  "subnetOfSet env o' ipAddresses i n tags =
    (let ip = \<lparr>crDHCPMode = ssDHCPMode o', crDHCPv6Mode = ssDHCPv6Mode o', crIPAddressType = ssIPAddressType o'\<rparr>;
         v4 = IPAddressTypeIncludesIPv4 (ssIPAddressType o'); v6 = IPAddressTypeIncludesIPv6 (ssIPAddressType o') in
     (emptySubnet i n tags)\<lparr>
       suAccessMode := Some (convertAccessMode (Capitalize (ssAccessMode o'))),
       suAdvanced := Some \<lparr>acGateways = [], acDhcpServers = [], acConnectivity = None, acStatic = Some (Some (GetDefaultStaticIPAllocation (Some ip)), [])\<rparr>,
       suIpAddressType := crType env (ssIPAddressType o'),
       suDhcp := (if v4 then Some (buildSubnetDHCPConfig (orDeactivated (ssDHCPMode o')) None) else None),
       suDhcpv6 := (if v6 then Some (buildSubnetDHCPv6Config (orDeactivated (ssDHCPv6Mode o')) None) else None),
       suIpv4Size := (if v4 then positive (ssIPv4SubnetSize o') else None),
       suIpv6Prefix := (if v6 then positive (ssIPv6PrefixLength o') else None),
       suIpAddresses := ipAddresses\<rparr>)"

definition buildSubnet ::
  "('w, 's, 'd, 'e) subnet_env \<Rightarrow> 's \<Rightarrow> subnet_object \<Rightarrow> nsx_tag list \<Rightarrow> string list \<Rightarrow> vpc_resource_info \<Rightarrow> nat \<Rightarrow> (gerror + nsx_subnet) option" where
  "buildSubnet env s ob tags ipAddresses vpcInfo k =
    (case buildSubnetTags env ob tags of
       Inl err \<Rightarrow> Some (Inl err)
     | Inr tags \<Rightarrow>
         let m = \<lparr>Name = Name (objMeta ob), Namespace = [], UID = getNamespaceUUID tags\<rparr> in
         (case ob of
            ObjSubnetCR o' \<Rightarrow>
              Option.bind (BuildSubnetID env s m) (\<lambda>i. Option.bind (BuildSubnetName env s m) (\<lambda>n.
                if csIPBlockNames o' = [] then Some (Inr (subnetOfCR env o' i n tags))
                else case buildIPBlockPaths (csIPBlockNames o') vpcInfo of
                  Inl err \<Rightarrow> Some (Inl err)
                | Inr blocks \<Rightarrow> Some (Inr ((subnetOfCR env o' i n tags)\<lparr>suIpBlocks := blocks\<rparr>))))
          | ObjSubnetSetCR o' \<Rightarrow>
              Option.bind (buildSubnetSetID env s m (suIndex env k)) (\<lambda>i. Option.bind (buildSubnetSetName env s m (suIndex env k)) (\<lambda>n.
                Some (Inr (subnetOfSet env o' ipAddresses i n tags))))))"

section \<open>Merging\<close>

definition isV6Address :: "string \<Rightarrow> bool" where
  "isV6Address addr = (if CHR ''/'' \<in> set addr then IsIPv6CIDR addr else IsIPv6 addr)"

definition splitAddressesByIPType :: "string list \<Rightarrow> string list \<times> string list" where
  "splitAddressesByIPType addresses = (filter (\<lambda>a. \<not> isV6Address a) addresses, filter isV6Address addresses)"

definition mergeAddresses :: "string list \<Rightarrow> string list \<Rightarrow> string list" where
  "mergeAddresses existing building =
    (let (e4, e6) = splitAddressesByIPType existing; (b4, b6) = splitAddressesByIPType building in
     (if b4 \<noteq> [] then b4 else e4) @ (if b6 \<noteq> [] then b6 else e6))"

definition mergeIPBlocks :: "string list \<Rightarrow> string list \<Rightarrow> string list" where
  "mergeIPBlocks existing building =
    (if existing = [] then building else if building = [] then existing else sort (remdups (existing @ building)))"

definition ConvertNSXIPAddressTypeToCR :: "string \<Rightarrow> ip_address_type" where
  "ConvertNSXIPAddressTypeToCR t =
    (if t = ''IPV6'' then IPAddressTypeIPv6 else if t = ''IPV4_IPV6'' then IPAddressTypeIPv4IPv6 else IPAddressTypeIPv4)"

definition getUpdatedSubnetSizesAndPrefixes :: "nsx_subnet \<Rightarrow> int option \<Rightarrow> int option \<Rightarrow> ip_address_type \<Rightarrow> int option \<times> int option" where
  "getUpdatedSubnetSizesAndPrefixes existing newSize newPrefix newType =
    (let oldType = (case suIpAddressType existing of None \<Rightarrow> IPAddressTypeIPv4 | Some t \<Rightarrow> ConvertNSXIPAddressTypeToCR t) in
     if oldType = IPAddressTypeIPv4 \<and> newType = IPAddressTypeIPv4IPv6 then (suIpv4Size existing, newPrefix)
     else if oldType = IPAddressTypeIPv6 \<and> newType = IPAddressTypeIPv4IPv6 then (newSize, suIpv6Prefix existing)
     else (suIpv4Size existing, suIpv6Prefix existing))"

definition isSubnetReady :: "subnet_cr \<Rightarrow> bool" where
  "isSubnetReady s = list_ex (\<lambda>(t, status). t = ''Ready'' \<and> status) (csConditions s)"

definition poolRanges :: "nsx_subnet \<Rightarrow> string list" where
  "poolRanges s = (case suAdvanced s of None \<Rightarrow> [] | Some a \<Rightarrow> (case acStatic a of None \<Rightarrow> [] | Some (_, rs) \<Rightarrow> rs))"

definition gatewaysOf :: "nsx_subnet \<Rightarrow> string list" where
  "gatewaysOf s = (case suAdvanced s of None \<Rightarrow> [] | Some a \<Rightarrow> acGateways a)"

definition dhcpServersOf :: "nsx_subnet \<Rightarrow> string list" where
  "dhcpServersOf s = (case suAdvanced s of None \<Rightarrow> [] | Some a \<Rightarrow> acDhcpServers a)"

text \<open>The built Subnet takes its identifier and name from the stored one, and the addresses of the families it does not set itself.\<close>

definition mergeSubnet :: "nsx_subnet \<Rightarrow> nsx_subnet \<Rightarrow> nsx_subnet" where
  "mergeSubnet e b =
    (let gateways = mergeAddresses (gatewaysOf e) (gatewaysOf b); servers = mergeAddresses (dhcpServersOf e) (dhcpServersOf b);
         adv = (case suAdvanced b of Some a \<Rightarrow> a | None \<Rightarrow> \<lparr>acGateways = [], acDhcpServers = [], acConnectivity = None, acStatic = None\<rparr>) in
     b\<lparr>suId := suId e, suDisplayName := suDisplayName e, suIpAddresses := mergeAddresses (suIpAddresses e) (suIpAddresses b),
       suIpBlocks := mergeIPBlocks (suIpBlocks e) (suIpBlocks b),
       suAdvanced := (if gateways \<noteq> [] \<or> servers \<noteq> [] then Some (adv\<lparr>acGateways := gateways, acDhcpServers := servers\<rparr>) else suAdvanced b)\<rparr>)"

definition updatedSubnet :: "nsx_subnet \<Rightarrow> nsx_subnet \<Rightarrow> ip_address_type \<Rightarrow> nsx_subnet" where
  "updatedSubnet e m newType =
    (let (size4, prefix6) = getUpdatedSubnetSizesAndPrefixes e (suIpv4Size m) (suIpv6Prefix m) newType in
     e\<lparr>suTags := suTags m, suDhcp := suDhcp m, suDhcpv6 := suDhcpv6 m, suIpAddressType := suIpAddressType m, suAccessMode := suAccessMode m,
       suDescription := suDescription m, suIpAddresses := suIpAddresses m, suIpBlocks := suIpBlocks m, suIpv4Size := size4, suIpv6Prefix := prefix6,
       suAdvanced := (case suAdvanced m of None \<Rightarrow> suAdvanced e | Some a \<Rightarrow> Some a)\<rparr>)"

section \<open>Deletion and realization\<close>

abbreviation withNSX :: "('w, 's, 'p) subnet_state \<Rightarrow> 'w \<Rightarrow> ('w, 's, 'p) subnet_state" where
  "withNSX st w \<equiv> st\<lparr>suPorts := (suPorts st)\<lparr>pcNSX := w\<rparr>\<rparr>"

abbreviation nsxOf :: "('w, 's, 'p) subnet_state \<Rightarrow> 'w" where "nsxOf st \<equiv> pcNSX (suPorts st)"

text \<open>The identifiers of the parents and of the Subnet, empty ones when the path cannot be parsed.\<close>

definition vpcIds :: "string \<Rightarrow> string list \<times> string" where
  "vpcIds path = (case ParseVPCResourcePath path of Inl _ \<Rightarrow> ([[], [], []], []) | Inr i \<Rightarrow> ([OrgID i, ProjectID i, VPCID i], ResID i))"

definition DeleteSubnet ::
  "('w, 's, 'd, 'e) subnet_env \<Rightarrow> nsx_subnet \<Rightarrow> ('w, 's, 'p) subnet_state \<Rightarrow> (go_error option \<times> ('w, 's, 'p) subnet_state) option" where
  "DeleteSubnet env s st =
    (case suPath s of
       None \<Rightarrow> None
     | Some path \<Rightarrow>
         (case ccDelete (suClient env) (fst (vpcIds path)) (snd (vpcIds path)) (nsxOf st) of
            (Some e, w) \<Rightarrow> Some (TransNSXApiError (suApi env) (Some e), withNSX st w)
          | (None, w) \<Rightarrow> Some (None, (withNSX st w)\<lparr>suStore := subnetStore_Apply (suOps env) (s\<lparr>suMarkedForDelete := Some True\<rparr>) (suStore st)\<rparr>)))"

definition checkSubnetRealizeState ::
  "('w, 's, 'd, 'e) subnet_env \<Rightarrow> nsx_subnet \<Rightarrow> ('w, 's, 'p) subnet_state \<Rightarrow> (go_error option \<times> ('w, 's, 'p) subnet_state) option" where
  "checkSubnetRealizeState env s st =
    (case suPath s of
       None \<Rightarrow> None
     | Some path \<Rightarrow>
         (case CheckRealizeState (suApi env) (suEntities env) NSXTRealizeRetrySteps path [] (nsxOf st) of
            (None, w) \<Rightarrow> Some (None, withNSX st w)
          | (Some err, w) \<Rightarrow>
              (case DeleteSubnet env s (withNSX st w) of
                 None \<Rightarrow> None
               | Some (Some deleteErr, st) \<Rightarrow>
                   Some (Some (OtherError (''realization check failed: '' @ error_msg err @ ''; deletion failed: '' @ error_msg deleteErr)), st)
               | Some (None, st) \<Rightarrow> Some (Some err, st))))"

section \<open>The status of a SubnetSet\<close>

definition GetSubnetStatus ::
  "('w, 's, 'd, 'e) subnet_env \<Rightarrow> nsx_subnet \<Rightarrow> 'w \<Rightarrow> ((go_error + subnet_status list) \<times> 'w) option" where
  "GetSubnetStatus env s w =
    (case suPath s of
       None \<Rightarrow> None
     | Some path \<Rightarrow>
         (case ParseVPCResourcePath path of
            Inl err \<Rightarrow> Some (Inl (OtherError err), w)
          | Inr i \<Rightarrow>
              (case suStatusClient env [OrgID i, ProjectID i, VPCID i] (suId s) w of
                 (Inl e, w) \<Rightarrow> Some (Inl (the (TransNSXApiError (suApi env) (Some e))), w)
               | (Inr [], w) \<Rightarrow> Some (Inl (OtherError ''empty status result''), w)
               | (Inr (u # us), w) \<Rightarrow>
                   if (usNetwork u = None \<or> usGateway u = None) \<and> suAccessMode s \<noteq> Some ''L2_Only''
                   then Some (Inl (OtherError ''invalid status result''), w) else Some (Inr (u # us), w))))"

text \<open>\<open>None\<close> is a nil pointer: every status is expected to have a network and a gateway address.\<close>

definition subnetInfo :: "subnet_status list \<Rightarrow> subnet_info option" where
  "subnetInfo us =
    (if list_ex (\<lambda>u. usNetwork u = None \<or> usGateway u = None) us then None
     else Some (map (\<lambda>u. the (usNetwork u)) us, map (\<lambda>u. the (usGateway u)) us, List.map_filter usDhcp us))"

fun subnetInfos ::
  "('w, 's, 'd, 'e) subnet_env \<Rightarrow> nsx_subnet list \<Rightarrow> 'w \<Rightarrow> ((go_error + subnet_info list) \<times> 'w) option" where
  "subnetInfos env [] w = Some (Inr [], w)"
| "subnetInfos env (s # ss) w =
    (case GetSubnetStatus env s w of
       None \<Rightarrow> None
     | Some (Inl e, w) \<Rightarrow> Some (Inl e, w)
     | Some (Inr us, w) \<Rightarrow>
         (case subnetInfo us of
            None \<Rightarrow> None
          | Some i \<Rightarrow>
              (case subnetInfos env ss w of
                 None \<Rightarrow> None | Some (Inl e, w) \<Rightarrow> Some (Inl e, w) | Some (Inr is, w) \<Rightarrow> Some (Inr (i # is), w))))"

text \<open>\<open>retry.DefaultRetry\<close> has five steps.\<close>

definition RetryOnConflict :: "('w, 's, 'd, 'e) subnet_env \<Rightarrow> ('w \<Rightarrow> go_error option \<times> 'w) \<Rightarrow> 'w \<Rightarrow> go_error option \<times> 'w" where
  "RetryOnConflict env f w = OnError 5 (suConflict env) f None w"

definition publishSubnets :: "('w, 's, 'd, 'e) subnet_env \<Rightarrow> object_meta \<Rightarrow> subnet_info list \<Rightarrow> 'w \<Rightarrow> go_error option \<times> 'w" where
  "publishSubnets env m is w =
    (case suGetSet env (Namespace m) (Name m) w of
       (Inl e, w) \<Rightarrow> (Some e, w)
     | (Inr latest, w) \<Rightarrow> if ssSubnets latest = is then (None, w) else suUpdateSetStatus env (latest\<lparr>ssSubnets := is\<rparr>) w)"

definition UpdateSubnetSetStatus ::
  "('w, 's, 'd, 'e) subnet_env \<Rightarrow> subnet_set \<Rightarrow> ('w, 's, 'p) subnet_state \<Rightarrow> (go_error option \<times> ('w, 's, 'p) subnet_state) option" where
  "UpdateSubnetSetStatus env sset st =
    (case subnetInfos env (GetByIndex (suOps env) (suStore st) ''nsx-op/subnetset_uid'' (UID (ssMeta sset))) (nsxOf st) of
       None \<Rightarrow> None
     | Some (Inl e, w) \<Rightarrow> Some (Some e, withNSX st w)
     | Some (Inr is, w) \<Rightarrow>
         if ssSubnets sset = is then Some (None, withNSX st w)
         else let (err, w) = RetryOnConflict env (publishSubnets env (ssMeta sset) is) w in Some (err, withNSX st w))"

text \<open>The condition that a creation failed: an existing one is replaced when its message or status differs. The errors of these updates are only logged.\<close>

fun setFailed :: "string \<times> string \<times> bool \<times> string \<Rightarrow> (string \<times> string \<times> bool \<times> string) list \<Rightarrow> (string \<times> string \<times> bool \<times> string) list" where
  "setFailed new [] = [new]"
| "setFailed new ((t, m, b, r) # cs) =
    (if t = ''SubnetCreationFailed'' then (if m \<noteq> fst (snd new) \<or> \<not> b then new # cs else (t, m, b, r) # cs) else (t, m, b, r) # setFailed new cs)"

definition changeConditions ::
  "('w, 's, 'd, 'e) subnet_env \<Rightarrow> subnet_object \<Rightarrow> ((string \<times> string \<times> bool \<times> string) list \<Rightarrow> (string \<times> string \<times> bool \<times> string) list) \<Rightarrow>
   ('w, 's, 'p) subnet_state \<Rightarrow> ('w, 's, 'p) subnet_state" where
  "changeConditions env ob f st =
    (case ob of
       ObjSubnetCR _ \<Rightarrow> st
     | ObjSubnetSetCR sset \<Rightarrow>
         withNSX st (snd (RetryOnConflict env (\<lambda>w.
           (case suGetSet env (Namespace (ssMeta sset)) (Name (ssMeta sset)) w of
              (Inl e, w) \<Rightarrow> (Some e, w)
            | (Inr latest, w) \<Rightarrow>
                if f (ssConditions latest) = ssConditions latest then (None, w) else suUpdateSetStatus env (latest\<lparr>ssConditions := f (ssConditions latest)\<rparr>) w)) (nsxOf st))))"

definition updateSubnetSetConditionOnFail ::
  "('w, 's, 'd, 'e) subnet_env \<Rightarrow> subnet_object \<Rightarrow> go_error \<Rightarrow> ('w, 's, 'p) subnet_state \<Rightarrow> ('w, 's, 'p) subnet_state" where
  "updateSubnetSetConditionOnFail env ob err st =
    changeConditions env ob (setFailed (''SubnetCreationFailed'', ''Failed to create NSX Subnet: '' @ error_msg err, True, ''SubnetCreationFailed'')) st"

definition removeSubnetSetConditionOnSuccess ::
  "('w, 's, 'd, 'e) subnet_env \<Rightarrow> subnet_object \<Rightarrow> ('w, 's, 'p) subnet_state \<Rightarrow> ('w, 's, 'p) subnet_state" where
  "removeSubnetSetConditionOnSuccess env ob st = changeConditions env ob (filter (\<lambda>(t, m, b, r). t \<noteq> ''SubnetCreationFailed'')) st"

section \<open>Creation and update\<close>

definition createOrUpdateSubnet ::
  "('w, 's, 'd, 'e) subnet_env \<Rightarrow> subnet_object \<Rightarrow> nsx_subnet \<Rightarrow> vpc_resource_info \<Rightarrow> bool \<Rightarrow> ('w, 's, 'p) subnet_state \<Rightarrow>
   ((go_error + nsx_subnet) \<times> ('w, 's, 'p) subnet_state) option" where
  "createOrUpdateSubnet env ob s vpcInfo restoreMode st =
    (let ids = [OrgID vpcInfo, ProjectID vpcInfo, VPCID vpcInfo];
         fail = (\<lambda>err st. Some (Inl err, updateSubnetSetConditionOnFail env ob err st)) in
     case ccPatch (suClient env) ids (suId s) s (nsxOf st) of
       (Some e, w) \<Rightarrow> fail (the (TransNSXApiError (suApi env) (Some e))) (withNSX st w)
     | (None, w) \<Rightarrow>
         (case ccGet (suClient env) ids (suId s) w of
            (Inl e, w) \<Rightarrow> fail (the (TransNSXApiError (suApi env) (Some e))) (withNSX st w)
          | (Inr created, w) \<Rightarrow>
              (case checkSubnetRealizeState env created (withNSX st w) of
                 None \<Rightarrow> None
               | Some (Some err, st) \<Rightarrow> fail err st
               | Some (None, st) \<Rightarrow>
                   let st = st\<lparr>suStore := subnetStore_Apply (suOps env) created (suStore st)\<rparr> in
                   if restoreMode then Some (Inr created, st)
                   else
                     let st = removeSubnetSetConditionOnSuccess env ob st in
                     (case ob of
                        ObjSubnetCR _ \<Rightarrow> Some (Inr created, st)
                      | ObjSubnetSetCR sset \<Rightarrow>
                          (case UpdateSubnetSetStatus env sset st of
                             None \<Rightarrow> None
                           | Some (Some e, st) \<Rightarrow> Some (Inl e, st)
                           | Some (None, st) \<Rightarrow> Some (Inr created, st))))))"

text \<open>What is written for a Subnet, and whether the ranges of its static pool change; \<open>Inl\<close> is the stored Subnet that is up to date with the merged one. The
  realization of an unchanged Subnet is checked on the built one, which has no path.\<close>

definition planSubnet :: "('w, 's, 'd, 'e) subnet_env \<Rightarrow> 's \<Rightarrow> subnet_object \<Rightarrow> nsx_subnet \<Rightarrow> (nsx_subnet \<times> nsx_subnet) + (nsx_subnet \<times> bool)" where
  "planSubnet env s ob built =
    (case ob of
       ObjSubnetSetCR _ \<Rightarrow> Inr (built, False)
     | ObjSubnetCR cr \<Rightarrow>
         (case GetByIndex (suOps env) s ''nsx-op/subnet_uid'' (UID (csMeta cr)) of
            [] \<Rightarrow> Inr (built, False)
          | e # _ \<Rightarrow>
              let merged = mergeSubnet e built in
              if CompareResource (suEnc env) subnet_Value e merged
              then Inr (updatedSubnet e merged (csIPAddressType cr), \<not> CompareArraysWithoutOrder (poolRanges e) (poolRanges built))
              else Inl (e, merged)))"

definition CreateOrUpdateSubnet ::
  "('w, 's, 'd, 'e) subnet_env \<Rightarrow> subnet_object \<Rightarrow> vpc_resource_info \<Rightarrow> nsx_tag list \<Rightarrow> ('w, 's, 'p) subnet_state \<Rightarrow>
   ((go_error + nsx_subnet) \<times> ('w, 's, 'p) subnet_state) option" where
  "CreateOrUpdateSubnet env ob vpcInfo tags st =
    Option.bind (buildSubnet env (suStore st) ob tags [] vpcInfo 0) (\<lambda>built.
      case built of
        Inl err \<Rightarrow> Some (Inl (OtherError err), st)
      | Inr built \<Rightarrow>
          (case planSubnet env (suStore st) ob built of
             Inl (e, merged) \<Rightarrow>
               (case ob of
                  ObjSubnetCR cr \<Rightarrow>
                    if isSubnetReady cr then Some (Inr e, st)
                    else (case checkSubnetRealizeState env merged st of
                            None \<Rightarrow> None | Some (Some err, st) \<Rightarrow> Some (Inl err, st) | Some (None, st) \<Rightarrow> Some (Inr e, st))
                | ObjSubnetSetCR _ \<Rightarrow> Some (Inr e, st))
           | Inr (s, rangesChanged) \<Rightarrow>
               (case createOrUpdateSubnet env ob s vpcInfo False st of
                  None \<Rightarrow> None
                | Some (Inl err, st) \<Rightarrow> Some (Inl err, st)
                | Some (Inr created, st) \<Rightarrow>
                    if \<not> rangesChanged then Some (Inr created, st)
                    else (case suPath created of None \<Rightarrow> None
                          | Some path \<Rightarrow> Some (Inr created, st\<lparr>suPorts := ResetSubnetTotalIP path (suPorts st)\<rparr>)))))"

text \<open>The Subnets in the status of a SubnetSet are created again; a stored Subnet with the same addresses is updated or left alone.\<close>

definition restoredSubnet :: "('w, 's, 'd, 'e) subnet_env \<Rightarrow> nsx_subnet list \<Rightarrow> subnet_set \<Rightarrow> string list \<Rightarrow> nsx_subnet \<Rightarrow> nsx_subnet option" where
  "restoredSubnet env stored sset addresses built =
    (case List.find (\<lambda>e. CompareArraysWithoutOrder (suIpAddresses e) addresses) stored of
       None \<Rightarrow> Some built
     | Some e \<Rightarrow>
         if CompareResource (suEnc env) subnet_Value e built then
           let (size4, prefix6) = getUpdatedSubnetSizesAndPrefixes e (suIpv4Size built) (suIpv6Prefix built) (ssIPAddressType sset) in
           Some (e\<lparr>suTags := suTags built, suDhcp := suDhcp built, suDhcpv6 := suDhcpv6 built, suIpAddressType := suIpAddressType built,
             suIpAddresses := suIpAddresses built, suIpv4Size := size4, suIpv6Prefix := prefix6, suAccessMode := suAccessMode built\<rparr>)
         else None)"

fun restoreLoop ::
  "('w, 's, 'd, 'e) subnet_env \<Rightarrow> nsx_subnet list \<Rightarrow> subnet_set \<Rightarrow> vpc_resource_info \<Rightarrow> nsx_tag list \<Rightarrow> subnet_info list \<Rightarrow> nat \<Rightarrow> go_error list \<Rightarrow>
   ('w, 's, 'p) subnet_state \<Rightarrow> ((go_error + go_error list) \<times> ('w, 's, 'p) subnet_state) option" where
  "restoreLoop env stored sset vpcInfo tags [] k errs st = Some (Inr errs, st)"
| "restoreLoop env stored sset vpcInfo tags ((addresses, gws, dhcps) # infos) k errs st =
    (case buildSubnet env (suStore st) (ObjSubnetSetCR sset) tags addresses vpcInfo k of
       None \<Rightarrow> None
     | Some (Inl err) \<Rightarrow> Some (Inl (OtherError err), st)
     | Some (Inr built) \<Rightarrow>
         (case restoredSubnet env stored sset addresses built of
            None \<Rightarrow> restoreLoop env stored sset vpcInfo tags infos (Suc k) errs st
          | Some s \<Rightarrow>
              (case createOrUpdateSubnet env (ObjSubnetSetCR sset) s vpcInfo True st of
                 None \<Rightarrow> None
               | Some (Inl e, st) \<Rightarrow> restoreLoop env stored sset vpcInfo tags infos (Suc k) (errs @ [e]) st
               | Some (Inr _, st) \<Rightarrow> restoreLoop env stored sset vpcInfo tags infos (Suc k) errs st)))"

definition RestoreSubnetSet ::
  "('w, 's, 'd, 'e) subnet_env \<Rightarrow> subnet_set \<Rightarrow> vpc_resource_info \<Rightarrow> nsx_tag list \<Rightarrow> ('w, 's, 'p) subnet_state \<Rightarrow>
   (go_error option \<times> ('w, 's, 'p) subnet_state) option" where
  "RestoreSubnetSet env sset vpcInfo tags st =
    (case restoreLoop env (GetByIndex (suOps env) (suStore st) ''nsx-op/subnetset_uid'' (UID (ssMeta sset))) sset vpcInfo tags (ssSubnets sset) 0 [] st of
       None \<Rightarrow> None
     | Some (Inl e, st) \<Rightarrow> Some (Some e, st)
     | Some (Inr [], st) \<Rightarrow> Some (None, st)
     | Some (Inr errs, st) \<Rightarrow> Some (Some (OtherError (str_join (map error_msg errs) [CHR 0x0A])), st))"

text \<open>The update of the Subnets of a SubnetSet. The scan of the tags stops at the first tag of another Namespace.\<close>

definition scannedName :: "nsx_tag \<Rightarrow> string \<Rightarrow> string" where
  "scannedName t name = (if fst t = Some ''nsx-op/subnetset_name'' then the (snd t) else name)"

definition namespaceTag :: "nsx_tag \<Rightarrow> bool" where
  "namespaceTag t \<longleftrightarrow> fst t = Some ''nsx-op/namespace'' \<or> fst t = Some ''nsx-op/vm_namespace''"

fun scanTags :: "string \<Rightarrow> nsx_tag list \<Rightarrow> string \<Rightarrow> bool \<Rightarrow> string \<times> bool" where
  "scanTags ns [] name found = (name, found)"
| "scanTags ns (t # tags) name found =
    (if namespaceTag t \<and> the (snd t) \<noteq> ns then (scannedName t name, found) else scanTags ns tags (scannedName t name) (found \<or> namespaceTag t))"

definition updatedOfSet :: "('w, 's, 'd, 'e) subnet_env \<Rightarrow> subnet_set \<Rightarrow> nsx_tag list \<Rightarrow> nsx_subnet \<Rightarrow> nsx_subnet" where
  "updatedOfSet env sset tags s =
    (let (size4, prefix6) = getUpdatedSubnetSizesAndPrefixes s (positive (ssIPv4SubnetSize sset)) (positive (ssIPv6PrefixLength sset)) (ssIPAddressType sset);
         mode = orDeactivated (ssDHCPMode sset); mode6 = orDeactivated (ssDHCPv6Mode sset) in
     s\<lparr>suTags := tags, suAccessMode := Some (convertAccessMode (ssAccessMode sset)),
       suIpAddressType := (if suIPv6 env then Some (ConvertCRIPAddressTypeToNSX (ssIPAddressType sset)) else suIpAddressType s),
       suIpv4Size := size4, suIpv6Prefix := prefix6,
       suDhcp := (case suDhcp s of Some c \<Rightarrow> Some (buildSubnetDHCPConfig mode (dcReserved c))
                  | None \<Rightarrow> if IPAddressTypeIncludesIPv4 (ssIPAddressType sset) then Some (buildSubnetDHCPConfig mode None) else None),
       suDhcpv6 := (case suDhcpv6 s of Some c \<Rightarrow> Some (buildSubnetDHCPv6Config mode6 (dcReserved c))
                    | None \<Rightarrow> if IPAddressTypeIncludesIPv6 (ssIPAddressType sset) then Some (buildSubnetDHCPv6Config mode6 None) else None)\<rparr>)"

definition updateOne ::
  "('w, 's, 'd, 'e) subnet_env \<Rightarrow> string \<Rightarrow> nsx_tag list \<Rightarrow> subnet_set \<Rightarrow> nsx_subnet \<Rightarrow> ('w, 's, 'p) subnet_state \<Rightarrow>
   (go_error option \<times> ('w, 's, 'p) subnet_state) option" where
  "updateOne env ns tags cr s st =
    (let (name, found) = scanTags ns (suTags s) [] False in
     if \<not> found then Some (None, st)
     else
       case suGetSet env ns name (nsxOf st) of
         (Inl e, w) \<Rightarrow> Some (Some (WrappedError (''failed to get SubnetSet '' @ name @ '' in Namespace '' @ ns @ '': '') e), withNSX st w)
       | (Inr sset, w) \<Rightarrow>
           let st = withNSX st w in
           (case buildSubnetTags env (ObjSubnetSetCR sset) tags of
              Inl err \<Rightarrow> Some (Some (OtherError err), st)
            | Inr newTags \<Rightarrow>
                let updated = updatedOfSet env cr newTags s in
                if \<not> CompareResource (suEnc env) subnet_Value s updated then Some (None, st)
                else
                  (case suPath s of
                     None \<Rightarrow> None
                   | Some path \<Rightarrow>
                       (case ParseVPCResourcePath path of
                          Inl err \<Rightarrow> Some (Some (OtherError (''failed to parse NSX VPC path for Subnet '' @ path @ '': '' @ err)), st)
                        | Inr vpcInfo \<Rightarrow>
                            (case createOrUpdateSubnet env (ObjSubnetSetCR sset) updated vpcInfo False st of
                               None \<Rightarrow> None
                             | Some (Inl e, st) \<Rightarrow>
                                 Some (Some (WrappedError (''failed to update Subnet '' @ suId s @ '' in SubnetSet '' @ Name (ssMeta sset) @ '': '') e), st)
                             | Some (Inr _, st) \<Rightarrow> Some (None, st))))))"

fun UpdateSubnetSet ::
  "('w, 's, 'd, 'e) subnet_env \<Rightarrow> string \<Rightarrow> nsx_subnet list \<Rightarrow> nsx_tag list \<Rightarrow> subnet_set \<Rightarrow> ('w, 's, 'p) subnet_state \<Rightarrow>
   (go_error option \<times> ('w, 's, 'p) subnet_state) option" where
  "UpdateSubnetSet env ns [] tags cr st = Some (None, st)"
| "UpdateSubnetSet env ns (s # ss) tags cr st =
    (case updateOne env ns tags cr s st of
       None \<Rightarrow> None | Some (Some e, st) \<Rightarrow> Some (Some e, st) | Some (None, st) \<Rightarrow> UpdateSubnetSet env ns ss tags cr st)"

section \<open>Queries\<close>

definition GetSubnetsByIndex :: "('w, 's, 'd, 'e) subnet_env \<Rightarrow> ('w, 's, 'p) subnet_state \<Rightarrow> string \<Rightarrow> string \<Rightarrow> nsx_subnet list" where
  "GetSubnetsByIndex env st key' v = GetByIndex (suOps env) (suStore st) key' v"

definition ListSubnetCreatedBySubnet :: "('w, 's, 'd, 'e) subnet_env \<Rightarrow> ('w, 's, 'p) subnet_state \<Rightarrow> string \<Rightarrow> nsx_subnet list" where
  "ListSubnetCreatedBySubnet env st i = GetByIndex (suOps env) (suStore st) ''nsx-op/subnet_uid'' i"

definition ListSubnetCreatedBySubnetSet :: "('w, 's, 'd, 'e) subnet_env \<Rightarrow> ('w, 's, 'p) subnet_state \<Rightarrow> string \<Rightarrow> nsx_subnet list" where
  "ListSubnetCreatedBySubnetSet env st i = GetByIndex (suOps env) (suStore st) ''nsx-op/subnetset_uid'' i"

definition ListSubnetByName :: "('w, 's, 'd, 'e) subnet_env \<Rightarrow> ('w, 's, 'p) subnet_state \<Rightarrow> string \<Rightarrow> string \<Rightarrow> nsx_subnet list" where
  "ListSubnetByName env st ns name =
    filter (\<lambda>s. FindTag (suTags s) ''nsx-op/subnet_name'' = Some name) (GetByIndex (suOps env) (suStore st) ''nsx-op/vm_namespace'' ns)"

definition ListSubnetBySubnetSetName :: "('w, 's, 'd, 'e) subnet_env \<Rightarrow> ('w, 's, 'p) subnet_state \<Rightarrow> string \<Rightarrow> string \<Rightarrow> nsx_subnet list" where
  "ListSubnetBySubnetSetName env st ns name =
    filter (\<lambda>s. FindTag (suTags s) ''nsx-op/subnetset_name'' = Some name)
      (GetByIndex (suOps env) (suStore st) ''nsx-op/vm_namespace'' ns @ GetByIndex (suOps env) (suStore st) ''nsx-op/namespace'' ns)"

definition GetSubnetByKey :: "('w, 's, 'd, 'e) subnet_env \<Rightarrow> ('w, 's, 'p) subnet_state \<Rightarrow> string \<Rightarrow> go_error + nsx_subnet" where
  "GetSubnetByKey env st k = (case GetByKey (suOps env) (suStore st) k of None \<Rightarrow> Inl (OtherError ''NSX subnet not found in store'') | Some s \<Rightarrow> Inr s)"

definition ListSubnetSetIDsFromNSXSubnets :: "('w, 's, 'd, 'e) subnet_env \<Rightarrow> ('w, 's, 'p) subnet_state \<Rightarrow> string set" where
  "ListSubnetSetIDsFromNSXSubnets env st = indexValues (suOps env) subnetIndexers (suStore st) ''nsx-op/subnetset_uid''"

definition ListSubnetIDsFromNSXSubnets :: "('w, 's, 'd, 'e) subnet_env \<Rightarrow> ('w, 's, 'p) subnet_state \<Rightarrow> string set" where
  "ListSubnetIDsFromNSXSubnets env st = indexValues (suOps env) subnetIndexers (suStore st) ''nsx-op/subnet_uid''"

definition GenerateSubnetNSTags :: "('w, 's, 'd, 'e) subnet_env \<Rightarrow> subnet_object \<Rightarrow> nsx_tag list option" where
  "GenerateSubnetNSTags env ob =
    (let ns = Namespace (objMeta ob) in
     case suNamespace env ns of
       Inl _ \<Rightarrow> None
     | Inr (nsUID, labels) \<Rightarrow>
         let podDefault = (case ob of ObjSubnetCR _ \<Rightarrow> False
               | ObjSubnetSetCR sset \<Rightarrow>
                   (case map_of (ssLabels sset) ''nsx.vmware.com/default-network'' of
                      Some v \<Rightarrow> v = ''pod''
                    | None \<Rightarrow> map_of (ssLabels sset) ''nsxoperator.vmware.com/default-subnetset-for'' = Some ''Pod'')) in
         Some ([mk_tag ''nsx/managed-by'' ''nsx-op'']
           @ (if podDefault then [mk_tag ''nsx-op/namespace_uid'' nsUID, mk_tag ''nsx-op/namespace'' ns]
              else [mk_tag ''nsx-op/vm_namespace_uid'' nsUID, mk_tag ''nsx-op/vm_namespace'' ns])
           @ labelTagList (Some labels)))"

section \<open>Shared Subnets\<close>

definition GetNSXSubnetByAssociatedResource ::
  "('w, 's, 'd, 'e) subnet_env \<Rightarrow> string \<Rightarrow> 'w \<Rightarrow> (go_error + nsx_subnet) \<times> 'w" where
  "GetNSXSubnetByAssociatedResource env r w =
    (case split_char CHR '':'' r of
       [projectID, vpcID, subnetID] \<Rightarrow>
         (case ccGet (suClient env) [''default'', projectID, vpcID] subnetID w of
            (Inl e, w) \<Rightarrow> (Inl (the (TransNSXApiError (suApi env) (Some e))), w)
          | (Inr s, w) \<Rightarrow> (Inr s, w))
     | _ \<Rightarrow> (Inl (OtherError (''invalid associated resource format: '' @ r @ '', expected format: projectID:vpcID:subnetID'')), w))"

definition UpdateNSXSubnetCache :: "string \<Rightarrow> nsx_subnet \<Rightarrow> subnet_status list \<Rightarrow> ('w, 's, 'p) subnet_state \<Rightarrow> ('w, 's, 'p) subnet_state" where
  "UpdateNSXSubnetCache r s us st = st\<lparr>suCache := (suCache st)(r \<mapsto> (Some s, us))\<rparr>"

definition GetNSXSubnetFromCacheOrAPI ::
  "('w, 's, 'd, 'e) subnet_env \<Rightarrow> string \<Rightarrow> bool \<Rightarrow> ('w, 's, 'p) subnet_state \<Rightarrow> (go_error + nsx_subnet) \<times> ('w, 's, 'p) subnet_state" where
  "GetNSXSubnetFromCacheOrAPI env r forceAPI st =
    (case (if forceAPI then None else suCache st r) of
       Some (Some s, us) \<Rightarrow> (Inr s, st)
     | _ \<Rightarrow>
         (case GetNSXSubnetByAssociatedResource env r (nsxOf st) of
            (Inl e, w) \<Rightarrow> (Inl e, withNSX st w)
          | (Inr s, w) \<Rightarrow> (Inr s, UpdateNSXSubnetCache r s [] (withNSX st w))))"

definition GetSubnetStatusFromCacheOrAPI ::
  "('w, 's, 'd, 'e) subnet_env \<Rightarrow> nsx_subnet \<Rightarrow> string \<Rightarrow> ('w, 's, 'p) subnet_state \<Rightarrow> ((go_error + subnet_status list) \<times> ('w, 's, 'p) subnet_state) option" where
  "GetSubnetStatusFromCacheOrAPI env s r st =
    (case suCache st r of
       Some (_, u # us) \<Rightarrow> Some (Inr (u # us), st)
     | _ \<Rightarrow>
         (case GetSubnetStatus env s (nsxOf st) of
            None \<Rightarrow> None
          | Some (Inl e, w) \<Rightarrow> Some (Inl e, withNSX st w)
          | Some (Inr us, w) \<Rightarrow> Some (Inr us, UpdateNSXSubnetCache r s us (withNSX st w))))"

definition RemoveSubnetFromCache :: "string \<Rightarrow> ('w, 's, 'p) subnet_state \<Rightarrow> ('w, 's, 'p) subnet_state" where
  "RemoveSubnetFromCache r st = st\<lparr>suCache := (suCache st)(r := None), suPortSettings := (suPortSettings st)(r := None)\<rparr>"

definition GetNSXSubnetCacheKeys :: "('w, 's, 'p) subnet_state \<Rightarrow> string set" where
  "GetNSXSubnetCacheKeys st = dom (suCache st) \<union> dom (suPortSettings st)"

definition RemoveSubnetFromCacheIfUnshared :: "string \<Rightarrow> ('w, 's, 'p) subnet_state \<Rightarrow> bool \<times> ('w, 's, 'p) subnet_state" where
  "RemoveSubnetFromCacheIfUnshared r st =
    (let unshared = (case suSharing st r of None \<Rightarrow> True | Some ns \<Rightarrow> ns = {});
         removed = (unshared \<and> (suCache st r \<noteq> None \<or> suPortSettings st r \<noteq> None)) in
     (removed, if removed then RemoveSubnetFromCache r st else st))"

definition AddSharedSubnetToResourceMap :: "string \<Rightarrow> string \<times> string \<Rightarrow> ('w, 's, 'p) subnet_state \<Rightarrow> ('w, 's, 'p) subnet_state" where
  "AddSharedSubnetToResourceMap r n st = st\<lparr>suSharing := (suSharing st)(r \<mapsto> insert n (case suSharing st r of None \<Rightarrow> {} | Some ns \<Rightarrow> ns))\<rparr>"

definition RemoveSharedSubnetFromResourceMap :: "string \<Rightarrow> string \<times> string \<Rightarrow> ('w, 's, 'p) subnet_state \<Rightarrow> ('w, 's, 'p) subnet_state" where
  "RemoveSharedSubnetFromResourceMap r n st =
    (case suSharing st r of None \<Rightarrow> st
     | Some ns \<Rightarrow> st\<lparr>suSharing := (suSharing st)(r := (if ns - {n} = {} then None else Some (ns - {n})))\<rparr>)"

definition GetSubnetByPath ::
  "('w, 's, 'd, 'e) subnet_env \<Rightarrow> string \<Rightarrow> bool \<Rightarrow> ('w, 's, 'p) subnet_state \<Rightarrow> (go_error + nsx_subnet) \<times> ('w, 's, 'p) subnet_state" where
  "GetSubnetByPath env path sharedSubnet st =
    (if sharedSubnet then
       (case ConvertSubnetPathToAssociatedResource path of Inl err \<Rightarrow> (Inl (OtherError err), st) | Inr r \<Rightarrow> GetNSXSubnetFromCacheOrAPI env r True st)
     else
       (case ParseVPCResourcePath path of
          Inl _ \<Rightarrow> (Inl (OtherError (''invalid path '' @ path @ '' while getting Subnet'')), st)
        | Inr i \<Rightarrow> (GetSubnetByKey env st (ResID i), st)))"

definition GetSubnetByCR ::
  "('w, 's, 'd, 'e) subnet_env \<Rightarrow> subnet_cr \<Rightarrow> ('w, 's, 'p) subnet_state \<Rightarrow> (go_error + nsx_subnet) \<times> ('w, 's, 'p) subnet_state" where
  "GetSubnetByCR env cr st =
    (if IsSharedSubnet (csAnnotations cr)
     then GetNSXSubnetFromCacheOrAPI env (the (map_of (the (csAnnotations cr)) ''nsx.vmware.com/associated-resource'')) False st
     else
       (case GetSubnetsByIndex env st ''nsx-op/subnet_uid'' (UID (csMeta cr)) of
          [] \<Rightarrow> (Inl (OtherError (''empty NSX resource path for Subnet CR '' @ Name (csMeta cr) @ ''('' @ UID (csMeta cr) @ '')'')), st)
        | [s] \<Rightarrow> (Inr s, st)
        | _ \<Rightarrow> (Inl (OtherError (''multiple NSX Subnets found for Subnet CR '' @ Name (csMeta cr) @ ''('' @ UID (csMeta cr) @ '')'')), st)))"

section \<open>Gateways\<close>

fun gatewayPrefixes :: "string list \<Rightarrow> gerror + (string \<times> int) list" where
  "gatewayPrefixes [] = Inr []"
| "gatewayPrefixes (a # as) =
    (case RemoveIPPrefix a of
       Inl e \<Rightarrow> Inl e
     | Inr g \<Rightarrow>
         (case GetIPPrefix a of
            Inl e \<Rightarrow> Inl e
          | Inr p \<Rightarrow> (case gatewayPrefixes as of Inl e \<Rightarrow> Inl e | Inr r \<Rightarrow> Inr ((g, p) # r))))"

definition getAllGatewayPrefixesFromNSXSubnet :: "nsx_subnet \<Rightarrow> gerror + (string \<times> int) list" where
  "getAllGatewayPrefixesFromNSXSubnet s = gatewayPrefixes (gatewaysOf s)"

fun statusGateways :: "subnet_status list \<Rightarrow> gerror + (string \<times> int) list" where
  "statusGateways [] = Inr []"
| "statusGateways (u # us) =
    (case usGateway u of
       None \<Rightarrow> Inr []
     | Some a \<Rightarrow>
         if a = [] then Inr []
         else case gatewayPrefixes [a] of
           Inl e \<Rightarrow> Inl e
         | Inr r \<Rightarrow>
             (case statusGateways us of
                Inl e \<Rightarrow> Inl e
              | Inr rs \<Rightarrow> if list_ex (\<lambda>u. usGateway u = None \<or> usGateway u = Some []) us then Inr [] else Inr (r @ rs)))"

definition GetAllGatewayPrefixesOfSubnet ::
  "('w, 's, 'd, 'e) subnet_env \<Rightarrow> nsx_subnet \<Rightarrow> 'w \<Rightarrow> ((gerror + (string \<times> int) list) \<times> 'w) option" where
  "GetAllGatewayPrefixesOfSubnet env s w =
    (case getAllGatewayPrefixesFromNSXSubnet s of
       Inr (g # gs) \<Rightarrow> Some (Inr (g # gs), w)
     | fromSubnet \<Rightarrow>
         (case GetSubnetStatus env s w of
            None \<Rightarrow> None
          | Some (r, w) \<Rightarrow>
              (case (case r of Inl e \<Rightarrow> Inl (error_msg e) | Inr us \<Rightarrow> statusGateways us) of
                 Inr gs \<Rightarrow> Some (Inr gs, w)
               | Inl e \<Rightarrow> Some (Inl (''errFromSubnet: '' @ (case fromSubnet of Inl e \<Rightarrow> e | Inr _ \<Rightarrow> ''<nil>'') @ '', errFromStatus: '' @ e), w))))"

section \<open>From NSX to the custom resource\<close>

definition crAccessMode :: "string \<Rightarrow> string" where
  "crAccessMode m = (if m = ''Private_TGW'' then ''PrivateTGW'' else if m = ''L2_Only'' then ''L2Only'' else m)"

definition crDhcpMode :: "string \<Rightarrow> string" where
  "crDhcpMode m = (if m = ''DHCP_SERVER'' then ''DHCPServer'' else if m = ''DHCP_RELAY'' then ''DHCPRelay'' else ''DHCPDeactivated'')"

definition crDhcpv6Mode :: "string \<Rightarrow> string" where
  "crDhcpv6Mode m =
    (if m = ''DHCP_SERVER'' then ''DHCPServer'' else if m = ''DHCP_RELAY'' then ''DHCPRelay''
     else if m = ''DHCP_SERVER_STATELESS'' then ''DHCPServerStateless'' else ''DHCPDeactivated'')"

text \<open>The mode and the reserved ranges: the ranges are taken for a DHCP server that has some.\<close>

definition mapDhcp :: "(string \<Rightarrow> string) \<Rightarrow> dhcp_config option \<Rightarrow> bool \<Rightarrow> string \<times> string list \<Rightarrow> string \<times> string list" where
  "mapDhcp conv c family old =
    (case Option.bind c dcMode of
       Some m \<Rightarrow> (conv m, case Option.bind c dcReserved of Some (r # rs) \<Rightarrow> if m = ''DHCP_SERVER'' then r # rs else snd old | _ \<Rightarrow> snd old)
     | None \<Rightarrow> (if family then ''DHCPDeactivated'' else fst old, snd old))"

definition MapNSXSubnetToSubnetCR :: "subnet_cr \<Rightarrow> nsx_subnet \<Rightarrow> subnet_cr" where
  "MapNSXSubnetToSubnetCR cr s =
    (let ty = (case suIpAddressType s of Some t \<Rightarrow> ConvertNSXIPAddressTypeToCR t | None \<Rightarrow> IPAddressTypeIPv4);
         (mode4, ranges4) = mapDhcp crDhcpMode (suDhcp s) (IPAddressTypeIncludesIPv4 ty) (csDHCPMode cr, csDHCPReserved cr);
         (mode6, ranges6) = mapDhcp crDhcpv6Mode (suDhcpv6 s) (IPAddressTypeIncludesIPv6 ty) (csDHCPv6Mode cr, csDHCPv6Reserved cr);
         static = Option.bind (suAdvanced s) acStatic in
     cr\<lparr>csAccessMode := (case suAccessMode s of Some m \<Rightarrow> crAccessMode m | None \<Rightarrow> csAccessMode cr),
        csIPv4SubnetSize := (case suIpv4Size s of Some n \<Rightarrow> n | None \<Rightarrow> 0),
        csIPv6PrefixLength := (case suIpv6Prefix s of Some n \<Rightarrow> n | None \<Rightarrow> csIPv6PrefixLength cr),
        csIPAddressType := ty, csIPAddresses := suIpAddresses s,
        csDHCPMode := mode4, csDHCPReserved := ranges4, csDHCPv6Mode := mode6, csDHCPv6Reserved := ranges6,
        csVLANConnectionName := (case suVlanConnection s of Some p \<Rightarrow> last (split_char CHR ''/'' p) | None \<Rightarrow> []),
        csConnectivity := (case Option.bind (suAdvanced s) acConnectivity of
            Some c \<Rightarrow> if c = ''CONNECTED'' then ''Connected'' else if c = ''DISCONNECTED'' then ''Disconnected'' else [] | None \<Rightarrow> []),
        csStaticEnabled := (case static of Some (Some b, _) \<Rightarrow> Some b | _ \<Rightarrow> Some False),
        csPoolRanges := (case static of Some (_, rs) \<Rightarrow> rs | None \<Rightarrow> []),
        csGateways := gatewaysOf s, csDhcpServers := dhcpServersOf s,
        csDescription := (case suDescription s of Some d \<Rightarrow> d | None \<Rightarrow> [])\<rparr>)"

definition MapNSXSubnetStatusToSubnetCRStatus :: "subnet_cr \<Rightarrow> subnet_status list \<Rightarrow> subnet_cr" where
  "MapNSXSubnetStatusToSubnetCRStatus cr us =
    cr\<lparr>csNetworkAddresses := List.map_filter usNetwork us, csGatewayAddresses := List.map_filter usGateway us,
       csDHCPServerAddresses := List.map_filter usDhcp us,
       csShared := (IsSharedSubnet (csAnnotations cr) \<or> csShared cr),
       csVLANExtension := (case List.map_filter usVlan us of [] \<Rightarrow> (0, False)
         | vs \<Rightarrow> (case last vs of (v, e) \<Rightarrow> (case v of Some n \<Rightarrow> n | None \<Rightarrow> 0, case e of Some b \<Rightarrow> b | None \<Rightarrow> False)))\<rparr>"

definition emptyCR :: "object_meta \<Rightarrow> string \<Rightarrow> string \<Rightarrow> subnet_cr" where
  "emptyCR m vpcFullID associatedName =
    \<lparr>csMeta = m, csLabels = [], csAnnotations = Some [(''nsx.vmware.com/associated-resource'', associatedName)], csVPCName = vpcFullID, csAccessMode = [],
     csIPv4SubnetSize = 0, csIPv6PrefixLength = 0, csIPAddresses = [], csIPAddressType = IPAddressTypeOther [], csDHCPMode = [], csDHCPReserved = [], csDHCPv6Mode = [],
     csDHCPv6Reserved = [], csGateways = [], csDhcpServers = [], csConnectivity = [], csStaticEnabled = None, csPoolRanges = [], csDescription = [],
     csIPBlockNames = [], csVLANConnectionName = [], csNetworkAddresses = [], csGatewayAddresses = [], csDHCPServerAddresses = [], csShared = False,
     csVLANExtension = (0, False), csConditions = []\<rparr>"

definition BuildSubnetCR :: "string \<Rightarrow> string \<Rightarrow> string \<Rightarrow> string \<Rightarrow> nsx_subnet option \<Rightarrow> subnet_cr" where
  "BuildSubnetCR ns subnetName vpcFullID associatedName s =
    (let cr = emptyCR \<lparr>Name = subnetName, Namespace = ns, UID = []\<rparr> vpcFullID associatedName in
     case s of None \<Rightarrow> cr | Some s \<Rightarrow> MapNSXSubnetToSubnetCR cr s)"

text \<open>\<open>strings.Trim(path, "/")\<close>.\<close>

definition trimSlashes :: "string \<Rightarrow> string" where
  "trimSlashes p = rev (dropWhile (\<lambda>c. c = CHR ''/'') (rev (dropWhile (\<lambda>c. c = CHR ''/'') p)))"

definition IPBlockPathsToNames :: "string list \<Rightarrow> string list" where
  "IPBlockPathsToNames paths =
    map (\<lambda>p. let i = last (split_char CHR ''/'' (trimSlashes p)) in if HasPrefix p ''/infra/'' then CHR '':'' # i else i) paths"

section \<open>Clean-up\<close>

definition subnet_resource :: "nsx_subnet \<Rightarrow> nsx_subnet nsx_resource" where
  "subnet_resource s =
    \<lparr>ModelType = VpcSubnetT, ResPath = suPath s, ResId = Some (suId s), ResDisplayName = Some (suDisplayName s), ResMarkedForDelete = suMarkedForDelete s,
     ResResourceType = None, ResFqdn = None, ResBody = s\<rparr>"

definition subnet_CleanupVPCChildResources ::
  "('w, 's, 'd, 'e) subnet_env \<Rightarrow> (nat \<Rightarrow> gerror option) \<Rightarrow> string \<Rightarrow> ('w, 's, 'p) subnet_state \<Rightarrow> (go_error option \<times> ('w, 's, 'p) subnet_state) option" where
  "subnet_CleanupVPCChildResources env ctxDone vpcPath st =
    (if vpcPath \<noteq> [] then
       Some (None, st\<lparr>suStore := foldl (ixDelete (suOps env)) (suStore st) (GetByIndex (suOps env) (suStore st) ''indexedByVPCPath'' vpcPath)\<rparr>)
     else
       let (subnets, s) = markAll (suOps env) (\<lambda>s. s\<lparr>suMarkedForDelete := Some True\<rparr>) (suStore st) in
       map_option (\<lambda>(err, w, s). (err, (withNSX st w)\<lparr>suStore := s\<rparr>))
         (pagedDelete (suTree env) (the (map_of policyPaths VpcSubnetT)) (suOps env) subnet_resource ctxDone subnets (nsxOf st) s))"

section \<open>A Subnet is stored as it was asked for\<close>

text \<open>What NSX keeps of a Subnet, and the invariant of the store: no stored Subnet is marked for deletion.\<close>

definition subnet_intent :: "nsx_subnet \<Rightarrow> string \<times> subnet_value \<times> bool" where
  "subnet_intent s = (suId s, subnet_Value s, suMarkedForDelete s = Some True)"

definition unmarked :: "('w, 's, 'd, 'e) subnet_env \<Rightarrow> 's \<Rightarrow> bool" where
  "unmarked env s \<longleftrightarrow> (\<forall>k x. ixGetByKey (suOps env) s k = Some x \<longrightarrow> suMarkedForDelete x \<noteq> Some True)"

locale subnets =
  api: nsx_child "suClient env" held subnet_intent + store: indexer "suOps env" subnetKey subnetIndexers
    + compared: comparable subnetKey subnet_Value "suEnc env"
  for env :: "('w, 's, 'd, 'e) subnet_env" and held
begin

lemma Apply_unmarked: "unmarked env s \<Longrightarrow> unmarked env (subnetStore_Apply (suOps env) x s)"
  by (auto simp: unmarked_def subnetStore_Apply_def store.get_add store.get_delete)

lemma check_ok:
  assumes "checkSubnetRealizeState env s st = Some (None, st')"
  shows "suStore st' = suStore st \<and> pcCounts (suPorts st') = pcCounts (suPorts st) \<and> suPath s \<noteq> None"
  using assms by (auto simp: checkSubnetRealizeState_def split: prod.splits option.splits)

lemma written:
  assumes "createOrUpdateSubnet env (ObjSubnetCR cr) s v False st = Some (Inr c, st')" "suMarkedForDelete s \<noteq> Some True"
  shows "subnet_intent c = subnet_intent s \<and> ixGetByKey (suOps env) (suStore st') (suId s) = Some c \<and> suPath c \<noteq> None
    \<and> pcCounts (suPorts st') = pcCounts (suPorts st) \<and> (unmarked env (suStore st) \<longrightarrow> unmarked env (suStore st'))"
proof -
  obtain w1 w2 st2 where p: "ccPatch (suClient env) [OrgID v, ProjectID v, VPCID v] (suId s) s (nsxOf st) = (None, w1)"
    "ccGet (suClient env) [OrgID v, ProjectID v, VPCID v] (suId s) w1 = (Inr c, w2)"
    "checkSubnetRealizeState env c (withNSX st w2) = Some (None, st2)" "st' = st2\<lparr>suStore := subnetStore_Apply (suOps env) c (suStore st2)\<rparr>"
    using assms(1)
    by (auto simp: createOrUpdateSubnet_def Let_def removeSubnetSetConditionOnSuccess_def changeConditions_def split: prod.splits option.splits sum.splits)
  have i: "subnet_intent c = subnet_intent s" using api.patch_get [OF p(1,2)] by simp
  then have "suId c = suId s" "suMarkedForDelete c \<noteq> Some True" using assms(2) by (simp_all add: subnet_intent_def)
  with i p(4) check_ok [OF p(3)] Apply_unmarked [of "suStore st2" c] show ?thesis
    by (auto simp: subnetStore_Apply_def subnetKey_def store.get_add)
qed

end

lemma built_uid:
  assumes "buildSubnet env s (ObjSubnetCR cr) tags ips v k = Some (Inr b)"
  shows "UID (csMeta cr) \<in> set (tagValues (suTags b) ''nsx-op/subnet_uid'')" "suPath b = None" "suMarkedForDelete b = None" "suAdvanced b \<noteq> None"
proof -
  obtain ts where t: "buildSubnetTags env (ObjSubnetCR cr) tags = Inr ts"
    using assms by (cases "buildSubnetTags env (ObjSubnetCR cr) tags") (simp_all add: buildSubnet_def)
  then have "UID (csMeta cr) \<in> set (tagValues ts ''nsx-op/subnet_uid'')"
    by (auto simp: buildSubnetTags_def Let_def objectOf_def BuildBasicTags_def BuildClusterTags_def objMeta_def split: sum.splits if_splits)
  moreover obtain i n bl where b: "b = (subnetOfCR env cr i n ts)\<lparr>suIpBlocks := bl\<rparr> \<or> b = subnetOfCR env cr i n ts"
    using assms t by (auto simp: buildSubnet_def Let_def bind_eq_Some_conv split: if_splits sum.splits)
  then have "suTags b = ts" "suPath b = None" "suMarkedForDelete b = None" "suAdvanced b \<noteq> None"
    by (auto simp: subnetOfCR_def emptySubnet_def Let_def)
  ultimately show "UID (csMeta cr) \<in> set (tagValues (suTags b) ''nsx-op/subnet_uid'')" "suPath b = None" "suMarkedForDelete b = None" "suAdvanced b \<noteq> None"
    by simp_all
qed

text \<open>The Subnet that the specification asks for: the built one, merged with the stored one when there is one.\<close>

definition wantedSubnet :: "('w, 's, 'd, 'e) subnet_env \<Rightarrow> 's \<Rightarrow> subnet_cr \<Rightarrow> nsx_subnet \<Rightarrow> nsx_subnet" where
  "wantedSubnet env s cr built =
    (case GetByIndex (suOps env) s ''nsx-op/subnet_uid'' (UID (csMeta cr)) of [] \<Rightarrow> built | e # _ \<Rightarrow> mergeSubnet e built)"

lemma mergeSubnet_keeps:
  "suTags (mergeSubnet e b) = suTags b" "suId (mergeSubnet e b) = suId e" "suPath (mergeSubnet e b) = suPath b"
  "suAdvanced b \<noteq> None \<Longrightarrow> suAdvanced (mergeSubnet e b) \<noteq> None"
  by (auto simp: mergeSubnet_def Let_def)

lemma updatedSubnet_value:
  "suAdvanced m \<noteq> None \<Longrightarrow> subnet_Value (updatedSubnet e m t) = subnet_Value m" "suId (updatedSubnet e m t) = suId e"
  "suMarkedForDelete (updatedSubnet e m t) = suMarkedForDelete e"
  by (auto simp: updatedSubnet_def subnet_Value_def split: prod.splits)

lemma planSubnet_cases:
  assumes "subnets env held" "buildSubnet env s (ObjSubnetCR cr) tags ips v k = Some (Inr built)" "unmarked env s"
  shows "(\<exists>e. planSubnet env s (ObjSubnetCR cr) built = Inl (e, wantedSubnet env s cr built)
      \<and> e \<in> set (GetByIndex (suOps env) s ''nsx-op/subnet_uid'' (UID (csMeta cr))) \<and> subnet_Value e = subnet_Value (wantedSubnet env s cr built))
    \<or> (\<exists>p ch. planSubnet env s (ObjSubnetCR cr) built = Inr (p, ch) \<and> subnet_Value p = subnet_Value (wantedSubnet env s cr built)
      \<and> suId p = suId (wantedSubnet env s cr built) \<and> suMarkedForDelete p \<noteq> Some True)"
proof (cases "GetByIndex (suOps env) s ''nsx-op/subnet_uid'' (UID (csMeta cr))")
  case Nil
  then show ?thesis using built_uid [OF assms(2)] by (auto simp: planSubnet_def wantedSubnet_def)
next
  case (Cons e es)
  note ix = subnets.axioms(2) [OF assms(1)]
  have "ixGetByKey (suOps env) s (subnetKey e) = Some e"
    using Cons indexer.by_index_iff [OF ix, of e s] by (metis GetByIndex_def list.set_intros(1))
  then have "suMarkedForDelete e \<noteq> Some True" using assms(3) by (auto simp: unmarked_def)
  moreover have "suAdvanced (mergeSubnet e built) \<noteq> None" using mergeSubnet_keeps(4) built_uid(4) [OF assms(2)] .
  ultimately show ?thesis
    using Cons comparable.compare_iff [OF subnets.axioms(3) [OF assms(1)]]
    by (auto simp: planSubnet_def wantedSubnet_def Let_def updatedSubnet_value mergeSubnet_keeps)
qed


text \<open>C23. A Subnet that is stored and up to date while the custom resource is not ready, as after a restart of the operator, makes the update panic: the realization is
  checked on the built Subnet, which has no path.\<close>

theorem unready_unchanged_subnet_panics:
  assumes "subnets env held" "buildSubnet env (suStore st) (ObjSubnetCR cr) tags [] v 0 = Some (Inr built)"
    and "GetByIndex (suOps env) (suStore st) ''nsx-op/subnet_uid'' (UID (csMeta cr)) = e # es" "subnet_Value e = subnet_Value (mergeSubnet e built)"
    and "\<not> isSubnetReady cr"
  shows "CreateOrUpdateSubnet env (ObjSubnetCR cr) v tags st = None"
proof -
  have "planSubnet env (suStore st) (ObjSubnetCR cr) built = Inl (e, mergeSubnet e built)"
    using assms(3,4) comparable.compare_iff [OF subnets.axioms(3) [OF assms(1)]] by (simp add: planSubnet_def Let_def)
  moreover have "checkSubnetRealizeState env (mergeSubnet e built) st = None"
    using built_uid(2) [OF assms(2)] by (simp add: checkSubnetRealizeState_def mergeSubnet_keeps)
  ultimately show ?thesis using assms(5) by (simp add: CreateOrUpdateSubnet_def assms(2))
qed

text \<open>Clean-up of all VPCs ends, and when it succeeds the store is empty.\<close>

lemma subnet_cleanup_spec:
  assumes "subnets env held"
  shows "\<exists>err st'. subnet_CleanupVPCChildResources env (\<lambda>_. None) [] st = Some (err, st')
    \<and> (err = None \<longrightarrow> (\<forall>k. ixGetByKey (suOps env) (suStore st') k = None))"
proof -
  obtain objs s1 where m: "markAll (suOps env) (\<lambda>s. s\<lparr>suMarkedForDelete := Some True\<rparr>) (suStore st) = (objs, s1)" by fastforce
  have p: "(VpcSubnetT, the (map_of policyPaths VpcSubnetT)) \<in> set policyPaths" by (simp add: policyPaths_def)
  obtain err w' s' where "pagedDelete (suTree env) (the (map_of policyPaths VpcSubnetT)) (suOps env) subnet_resource (\<lambda>_. None) objs (nsxOf st) s1
      = Some (err, w', s')" "err = None \<longrightarrow> (\<forall>k. ixGetByKey (suOps env) s' k = None)"
    using pagedDelete_marked [OF p _ subnets.axioms(2) [OF assms] _ m, of subnet_resource "suTree env" "nsxOf st"] by (auto simp: subnet_resource_def subnetKey_def)
  with m show ?thesis by (auto simp: subnet_CleanupVPCChildResources_def)
qed

section \<open>An example\<close>

text \<open>NSX places a Subnet under its VPC and realizes it at once.\<close>

definition demoSubPlace :: "nsx_subnet \<Rightarrow> string list \<Rightarrow> string \<Rightarrow> nsx_subnet" where
  "demoSubPlace s ids i = s\<lparr>suPath := Some (''/orgs/o/projects/p/vpcs/v/subnets/'' @ i)\<rparr>"

definition demoSubEnv :: "(((string list \<times> string) \<times> nsx_subnet) list, (string \<times> nsx_subnet) list, string, subnet_value) subnet_env" where
  "demoSubEnv =
    \<lparr>suOps = al_ops subnetKey subnetIndexers, suClient = al_child demoSubPlace, suStatusClient = (\<lambda>_ _ w. (Inr [], w)),
     suEntities = (\<lambda>_ w. (Inr [\<lparr>enId = ''e'', enState = ''REALIZED'', enAlarms = []\<rparr>], w)), suApi = noConvert,
     suTree = \<lparr>tcConv = printConv, tcOrder = id, tcApi = noConvert, tcPatch = (\<lambda>_ _ w. (None, w))\<rparr>, suIPv6 = False, suCluster = ''c'',
     suUUID = (\<lambda>_. ''u''), suIndex = (\<lambda>_. ''i''), suNetworkInfos = (\<lambda>_. Inr [[''FullStackVPC'']]), suNamespace = (\<lambda>_. Inr (''abc'', [])),
     suGetSet = (\<lambda>_ _ w. (Inl (OtherError ''not found''), w)), suUpdateSetStatus = (\<lambda>_ w. (None, w)), suConflict = (\<lambda>_. False), suEnc = (\<lambda>v. v)\<rparr>"

interpretation demoSubnets: subnets demoSubEnv al_client
proof (intro subnets.intro)
  show "nsx_child (suClient demoSubEnv) al_client subnet_intent"
    unfolding demoSubEnv_def by (simp add: nsx_child_al demoSubPlace_def subnet_intent_def subnet_Value_def)
  show "indexer (suOps demoSubEnv) subnetKey subnetIndexers" by (simp add: demoSubEnv_def indexer_al_ops)
qed (unfold_locales, simp add: demoSubEnv_def)

definition demoCR :: subnet_cr where
  "demoCR = (emptyCR \<lparr>Name = ''s'', Namespace = ''ns'', UID = ''u1''\<rparr> [] [])\<lparr>csAccessMode := ''Private'', csIPv4SubnetSize := 32, csIPAddressType := IPAddressTypeIPv4\<rparr>"

definition demoVPC :: vpc_resource_info where
  "demoVPC = \<lparr>OrgID = ''o'', ProjectID = ''p'', VPCID = ''v'', ResID = ''v'', ParentID = ''p''\<rparr>"

definition demoNsTags :: "nsx_tag list" where "demoNsTags = [mk_tag ''nsx-op/vm_namespace_uid'' ''abc'']"

definition demoSubTags :: "nsx_tag list" where
  "demoSubTags = BuildBasicTags ''c'' (objectOf (ObjSubnetCR demoCR)) [] @ demoNsTags"

definition demoSubState :: "(string \<times> nsx_subnet) list \<Rightarrow> (((string list \<times> string) \<times> nsx_subnet) list, (string \<times> nsx_subnet) list, unit) subnet_state" where
  "demoSubState s = \<lparr>suPorts = \<lparr>pcNSX = [], pcStore = (), pcCounts = Map.empty\<rparr>, suStore = s, suCache = Map.empty, suSharing = Map.empty,
     suPortSettings = Map.empty, suNextToken = 0\<rparr>"

lemma demoSub_tags: "buildSubnetTags demoSubEnv (ObjSubnetCR demoCR) demoNsTags = Inr demoSubTags"
  by code_simp

lemma demoSub_uid: "getNamespaceUUID demoSubTags = ''abc''"
  by code_simp

lemma demoSubnet_built:
  assumes "\<not> nsxSubnetIdExists demoSubEnv s ''s_jt72f''" "\<not> nsxSubnetNameExists demoSubEnv s ''s_jt72f''"
  shows "buildSubnet demoSubEnv s (ObjSubnetCR demoCR) demoNsTags [] demoVPC 0 = Some (Inr (subnetOfCR demoSubEnv demoCR ''s_jt72f'' ''s_jt72f'' demoSubTags))"
proof -
  let ?m = "\<lparr>Name = ''s'', Namespace = [], UID = ''abc''\<rparr>"
  have "Name (objMeta (ObjSubnetCR demoCR)) = ''s''" "csIPBlockNames demoCR = []" by (simp_all add: objMeta_def demoCR_def emptyCR_def)
  moreover have "BuildSubnetID demoSubEnv s ?m = Some ''s_jt72f''"
    using assms by (simp add: BuildSubnetID_def BuildUniqueIDWithRandomUUID_def GenerateIDByObject_abc uniqueIdLoop.simps)
  moreover have "BuildSubnetName demoSubEnv s ?m = Some ''s_jt72f''"
    using assms by (simp add: BuildSubnetName_def BuildUniqueIDWithSuffix_def BuildUniqueIDWithRandomUUID_def GenerateIDByObject_abc uniqueIdLoop.simps
        MaxSubnetNameLength_def limit_defs Let_def)
  ultimately show ?thesis by (simp add: buildSubnet_def demoSub_tags demoSub_uid)
qed

lemma demoSub_check: "suPath s = Some path \<Longrightarrow> checkSubnetRealizeState demoSubEnv s st = Some (None, st)"
  by (simp add: checkSubnetRealizeState_def CheckRealizeState_realized [of _ _ _ "[\<lparr>enId = ''e'', enState = ''REALIZED'', enAlarms = []\<rparr>]" "nsxOf st"]
      demoSubEnv_def checkEntities_def)

lemma demoSub_written: "\<exists>c st'. createOrUpdateSubnet demoSubEnv (ObjSubnetCR cr) s v False st = Some (Inr c, st')"
proof -
  have c: "suClient demoSubEnv = al_child demoSubPlace" by (simp add: demoSubEnv_def)
  have "suPath (demoSubPlace s ids i) = Some (''/orgs/o/projects/p/vpcs/v/subnets/'' @ i)" for ids i by (simp add: demoSubPlace_def)
  then show ?thesis
    by (simp add: createOrUpdateSubnet_def Let_def c al_child_def demoSub_check removeSubnetSetConditionOnSuccess_def changeConditions_def del: append_Cons)
qed


definition demoStored :: nsx_subnet where
  "demoStored = (subnetOfCR demoSubEnv demoCR ''old'' ''old'' demoSubTags)\<lparr>suPath := Some ''/orgs/o/projects/p/vpcs/v/subnets/old''\<rparr>"

theorem unready_unchanged_subnet_panics_witness:
  "CreateOrUpdateSubnet demoSubEnv (ObjSubnetCR demoCR) demoVPC demoNsTags (demoSubState [(''old'', demoStored)]) = None"
proof -
  let ?b = "subnetOfCR demoSubEnv demoCR ''s_jt72f'' ''s_jt72f'' demoSubTags"
  have s: "suStore (demoSubState [(''old'', demoStored)]) = [(''old'', demoStored)]" by (simp add: demoSubState_def)
  have "\<not> nsxSubnetIdExists demoSubEnv [(''old'', demoStored)] ''s_jt72f''" by code_simp
  moreover have "\<not> nsxSubnetNameExists demoSubEnv [(''old'', demoStored)] ''s_jt72f''" by code_simp
  ultimately have b: "buildSubnet demoSubEnv [(''old'', demoStored)] (ObjSubnetCR demoCR) demoNsTags [] demoVPC 0 = Some (Inr ?b)" by (rule demoSubnet_built)
  have e: "GetByIndex (suOps demoSubEnv) [(''old'', demoStored)] ''nsx-op/subnet_uid'' (UID (csMeta demoCR)) = [demoStored]" by code_simp
  have v: "subnet_Value demoStored = subnet_Value (mergeSubnet demoStored ?b)" by code_simp
  have "\<not> isSubnetReady demoCR" by code_simp
  with unready_unchanged_subnet_panics [OF demoSubnets.subnets_axioms, of "demoSubState [(''old'', demoStored)]"] b e v show ?thesis by (simp only: s)
qed

section \<open>Names and paths of IP blocks\<close>

definition plainName :: "string \<Rightarrow> bool" where
  "plainName n = list_all (\<lambda>c. \<not> is_space c \<and> c \<noteq> CHR ''/'') n"

lemma TrimSpace_plain:
  assumes "plainName n"
  shows "TrimSpace n = n"
proof -
  have d: "dropWhile is_space m = m" if "\<forall>c \<in> set m. \<not> is_space c" for m using that by (cases m) auto
  have n: "\<forall>c \<in> set n. \<not> is_space c" using assms by (simp add: plainName_def list_all_iff)
  then have "\<forall>c \<in> set (rev n). \<not> is_space c" by simp
  then show ?thesis unfolding TrimSpace_def d [OF n] by (simp add: d)
qed

lemma last_split_append:
  assumes "c \<notin> set y"
  shows "last (split_char c (x @ c # y)) = y"
proof (induction x)
  case Nil
  then show ?case using assms by (simp add: split_char_id)
next
  case (Cons a x)
  obtain b bs where "split_char c (x @ c # y) = b # bs" by (cases "split_char c (x @ c # y)") auto
  moreover have "bs \<noteq> []"
  proof
    assume "bs = []"
    then have "str_join [b] [c] = x @ c # y" using join_split [of c "x @ c # y"] calculation by simp
    then show False using split_char_no_sep [of b c "x @ c # y"] calculation by auto
  qed
  ultimately show ?case using Cons.IH by auto
qed

lemma last_segment:
  assumes "plainName y" "y \<noteq> []" "x = CHR ''/'' # a # r" "a \<noteq> CHR ''/''"
  shows "last (split_char CHR ''/'' (trimSlashes (x @ CHR ''/'' # y))) = y"
proof -
  have y: "CHR ''/'' \<notin> set y" using assms(1) by (auto simp: plainName_def list_all_iff)
  then have "last y \<noteq> CHR ''/''" using assms(2) by (metis last_in_set)
  then have "dropWhile (\<lambda>c. c = CHR ''/'') (rev y @ z) = rev y @ z" for z using assms(2) by (cases y rule: rev_cases) auto
  then have "trimSlashes (x @ CHR ''/'' # y) = (a # r) @ CHR ''/'' # y" using assms(3,4) by (simp add: trimSlashes_def)
  then show ?thesis by (simp only: last_split_append [OF y])
qed

lemma blockPath_Inr:
  assumes "blockPath info n = Inr p" "TrimSpace n = n"
  shows "n \<noteq> [] \<and> (if hd n = CHR '':'' then TrimSpace (tl n) \<noteq> [] \<and> p = ''/infra/ip-blocks/'' @ TrimSpace (tl n)
    else p = ''/orgs/'' @ OrgID info @ ''/projects/'' @ ProjectID info @ ''/infra/ip-blocks/'' @ n)"
proof -
  define bad where "bad = list_ex (\<lambda>c. of_char c \<in> {32 :: nat, 9, 10, 13}) n"
  show ?thesis using assms(1) unfolding blockPath_def Let_def assms(2) bad_def [symmetric]
    by (cases "n = [] \<or> bad"; cases "hd n = CHR '':''"; cases "TrimSpace (tl n) = []"; cases "OrgID info = [] \<or> ProjectID info = []")
       (simp_all only: if_True if_False sum.distinct sum.inject HOL.simp_thms not_False_eq_True de_Morgan_disj)
qed

lemma blockPath_name:
  assumes "plainName n" "blockPath info n = Inr p"
  shows "(let i = last (split_char CHR ''/'' (trimSlashes p)) in if HasPrefix p ''/infra/'' then CHR '':'' # i else i) = n"
proof (cases "hd n = CHR '':''")
  case True
  note b = blockPath_Inr [OF assms(2) TrimSpace_plain [OF assms(1)]]
  obtain y where y: "n = CHR '':'' # y" "plainName y" using b True assms(1) by (cases n) (simp_all add: plainName_def)
  then have p: "y \<noteq> []" "p = ''/infra/ip-blocks'' @ CHR ''/'' # y" using b by (simp_all add: TrimSpace_plain)
  show ?thesis using last_segment [OF y(2) p(1), of "''/infra/ip-blocks''" "CHR ''i''" "''nfra/ip-blocks''"] unfolding p(2) y(1)
    by (simp add: HasPrefix_def Let_def)
next
  case False
  let ?r = "''rgs/'' @ OrgID info @ ''/projects/'' @ ProjectID info @ ''/infra/ip-blocks''"
  have p: "n \<noteq> []" "p = (CHR ''/'' # CHR ''o'' # ?r) @ CHR ''/'' # n"
    using blockPath_Inr [OF assms(2) TrimSpace_plain [OF assms(1)]] False by simp_all
  have "\<not> HasPrefix p ''/infra/''" unfolding p(2) by (simp add: HasPrefix_def)
  then show ?thesis using last_segment [OF assms(1) p(1), of "CHR ''/'' # CHR ''o'' # ?r" "CHR ''o''" ?r] unfolding p(2) [symmetric] Let_def by simp
qed

text \<open>C22. The paths that are built from the names of IP blocks give back these names, in their order, when the names have neither slashes nor blanks.\<close>

theorem IPBlockPathsToNames_buildIPBlockPaths:
  assumes "\<forall>n \<in> set names. plainName n" "buildIPBlockPaths names info = Inr paths"
  shows "IPBlockPathsToNames paths = names"
  using assms
proof (induction names arbitrary: paths)
  case (Cons n names)
  then obtain p ps where "blockPath info n = Inr p" "buildIPBlockPaths names info = Inr ps" "paths = p # ps" by (auto split: sum.splits)
  with Cons blockPath_name [of n info p] show ?case by (auto simp: IPBlockPathsToNames_def)
qed (simp add: IPBlockPathsToNames_def)

theorem IPBlockPathsToNames_buildIPBlockPaths_witness:
  "\<exists>paths. buildIPBlockPaths ['':shared'', ''mine''] demoVPC = Inr paths \<and> IPBlockPathsToNames paths = ['':shared'', ''mine'']"
proof -
  have "buildIPBlockPaths ['':shared'', ''mine''] demoVPC = Inr [''/infra/ip-blocks/shared'', ''/orgs/o/projects/p/infra/ip-blocks/mine'']" by code_simp
  moreover have "\<forall>n \<in> set ['':shared'', ''mine'']. plainName n" by code_simp
  ultimately show ?thesis using IPBlockPathsToNames_buildIPBlockPaths [of "['':shared'', ''mine'']" demoVPC] by blast
qed

end
