(* ===== verification/PortSettings.thy ===== *)
theory PortSettings
  imports SubnetService
begin

text \<open>
  The PortSettings of shared Subnets: the paged listing of \<open>subnet.go\<close> and the cache of \<open>pkg/nsx/services/subnet/portsettings_cache.go\<close>, which is filled without
  holding its lock. The callers, the invalidations and the removals interleave as the steps of a relation.
\<close>

section \<open>The listing\<close>

text \<open>Of a PortSetting only its identifier is read. A page is its PortSettings and the cursor of the next page. \<open>None\<close> is a loop without end.\<close>

type_synonym 'w settings_client = "string option \<Rightarrow> 'w \<Rightarrow> (go_error + string option list \<times> string option) \<times> 'w"

partial_function (option) settingsLoop ::
  "converter \<Rightarrow> 'w settings_client \<Rightarrow> string \<Rightarrow> string set \<Rightarrow> string option \<Rightarrow> string option list \<Rightarrow> 'w \<Rightarrow> ((go_error + string option list) \<times> 'w) option" where
  "settingsLoop api page r seenCursors cursor results w =
    (case page cursor w of
       (Inl e, w) \<Rightarrow> Some (Inl (the (TransNSXApiError api (Some e))), w)
     | (Inr (rs, nxt), w) \<Rightarrow>
         (if nxt = None \<or> nxt = Some [] then Some (Inr (results @ rs), w)
          else if the nxt \<in> seenCursors
          then Some (Inl (OtherError (''repeated PortSettings pagination cursor '' @ the nxt @ '' for associated resource '' @ r)), w)
          else settingsLoop api page r (insert (the nxt) seenCursors) nxt (results @ rs) w))"

definition ListPortSettingsByAssociatedResource ::
  "converter \<Rightarrow> (string \<times> string \<times> string \<times> string \<Rightarrow> 'w settings_client) option \<Rightarrow> string \<Rightarrow> 'w \<Rightarrow> ((go_error + string option list) \<times> 'w) option" where
  "ListPortSettingsByAssociatedResource api client r w =
    (case client of
       None \<Rightarrow> Some (Inl (OtherError ''PortSettingsClient is not initialized''), w)
     | Some client \<Rightarrow>
         (case GetSubnetPathFromAssociatedResource r of
            Inl e \<Rightarrow> Some (Inl (OtherError e), w)
          | Inr path \<Rightarrow>
              (case ExtractSubnetPath path of
                 Inl e \<Rightarrow> Some (Inl (OtherError e), w)
               | Inr ids \<Rightarrow> settingsLoop api (client ids) r {} None [] w)))"

text \<open>The pages that follow one another from a cursor, with the cursors between them.\<close>

inductive settingsPages :: "'w settings_client \<Rightarrow> string option \<Rightarrow> 'w \<Rightarrow> string option list list \<Rightarrow> string list \<Rightarrow> 'w \<Rightarrow> bool" for page where
  last: "page cursor w = (Inr (rs, nxt), w') \<Longrightarrow> nxt = None \<or> nxt = Some [] \<Longrightarrow> settingsPages page cursor w [rs] [] w'"
| more: "page cursor w = (Inr (rs, Some c), w1) \<Longrightarrow> c \<noteq> [] \<Longrightarrow> settingsPages page (Some c) w1 pages cs w' \<Longrightarrow> settingsPages page cursor w (rs # pages) (c # cs) w'"

definition loopResult :: "'w settings_client \<Rightarrow> string set \<Rightarrow> string option \<Rightarrow> string option list \<Rightarrow> 'w \<Rightarrow> (go_error + string option list) \<times> 'w \<Rightarrow> bool" where
  "loopResult page seen cursor results w y \<longleftrightarrow>
    (\<forall>ids w'. y = (Inr ids, w') \<longrightarrow> (\<exists>pages cs. settingsPages page cursor w pages cs w' \<and> distinct cs \<and> set cs \<inter> seen = {} \<and> ids = results @ concat pages))"

lemma loopResult_more:
  assumes "page cursor w = (Inr (rs, Some c), w1)" "c \<noteq> []" "c \<notin> seen" "loopResult page (insert c seen) (Some c) (results @ rs) w1 y"
  shows "loopResult page seen cursor results w y"
  unfolding loopResult_def
proof (intro allI impI)
  fix ids w'
  assume "y = (Inr ids, w')"
  then obtain pages cs where p: "settingsPages page (Some c) w1 pages cs w'" "distinct cs" "set cs \<inter> insert c seen = {}" "ids = (results @ rs) @ concat pages"
    using assms(4) unfolding loopResult_def by blast
  have "settingsPages page cursor w (rs # pages) (c # cs) w'" using settingsPages.more [OF assms(1,2) p(1)] .
  with p assms(3) show "\<exists>pages cs. settingsPages page cursor w pages cs w' \<and> distinct cs \<and> set cs \<inter> seen = {} \<and> ids = results @ concat pages"
    by (intro exI [of _ "rs # pages"] exI [of _ "c # cs"]) auto
qed

lemma settingsLoop_sound: "settingsLoop api page r seen cursor results w = Some y \<Longrightarrow> loopResult page seen cursor results w y"
proof (induction rule: settingsLoop.raw_induct [rotated, consumes 1, case_names step])
  case (step f api page r seen cursor results w y)
  obtain res w1 where p: "page cursor w = (res, w1)" by fastforce
  show ?case
  proof (cases res)
    case (Inl e)
    then show ?thesis using step(2) p by (auto simp: loopResult_def)
  next
    case (Inr pg)
    obtain rs nxt where pg: "pg = (rs, nxt)" by fastforce
    show ?thesis
    proof (cases "nxt = None \<or> nxt = Some []")
      case True
      then have "settingsPages page cursor w [rs] [] w1" using settingsPages.last p Inr pg by metis
      moreover have "y = (Inr (results @ rs), w1)" using True step(2) p Inr pg by simp
      ultimately show ?thesis by (auto simp: loopResult_def intro!: exI [of _ "[rs]"])
    next
      case False
      then obtain c where c: "nxt = Some c" "c \<noteq> []" by auto
      show ?thesis
      proof (cases "c \<in> seen")
        case True
        then show ?thesis using step(2) p Inr pg c by (auto simp: loopResult_def)
      next
        case False
        then have "f api page r (insert c seen) (Some c) (results @ rs) w1 = Some y" using step(2) p Inr pg c by simp
        from loopResult_more [OF _ c(2) False step(1) [OF this]] show ?thesis using p Inr pg c by simp
      qed
    qed
  qed
qed

lemma settingsLoop_complete:
  assumes "settingsPages page cursor w pages cs w'" "distinct cs" "set cs \<inter> seen = {}"
  shows "settingsLoop api page r seen cursor results w = Some (Inr (results @ concat pages), w')"
  using assms
proof (induction arbitrary: seen results)
  case (last cursor w rs nxt w')
  then show ?case by (subst settingsLoop.simps) simp
next
  case (more cursor w rs c w1 pages cs w')
  then show ?case by (subst settingsLoop.simps) simp
qed

text \<open>C20. The listing of the PortSettings returns a list exactly when the pages end without a cursor coming twice, and the list is the pages in their order.\<close>

theorem ListPortSettings_spec:
  assumes "GetSubnetPathFromAssociatedResource r = Inr path" "ExtractSubnetPath path = Inr ids"
  shows "ListPortSettingsByAssociatedResource api (Some client) r w = Some (Inr settings, w')
    \<longleftrightarrow> (\<exists>pages cs. settingsPages (client ids) None w pages cs w' \<and> distinct cs \<and> settings = concat pages)"
proof -
  have "ListPortSettingsByAssociatedResource api (Some client) r w = settingsLoop api (client ids) r {} None [] w"
    by (simp add: ListPortSettingsByAssociatedResource_def assms)
  then show ?thesis using settingsLoop_sound [of api "client ids" r "{}" None "[]" w "(Inr settings, w')"] settingsLoop_complete [of "client ids" None w _ _ w' "{}" api r "[]"]
    by (auto simp: loopResult_def)
qed

text \<open>The listing ends whenever the server draws its cursors from a finite set: a cursor that comes again stops the loop with an error.\<close>

lemma settingsLoop_returns:
  assumes "finite C" "\<And>cursor w rs c w'. page cursor w = (Inr (rs, Some c), w') \<Longrightarrow> c \<in> C"
  shows "\<exists>y. settingsLoop api page r seen cursor results w = Some y"
proof (induction "card (C - seen)" arbitrary: seen cursor results w rule: less_induct)
  case less
  obtain res w1 where p: "page cursor w = (res, w1)" by fastforce
  show ?case
  proof (cases "\<exists>rs c. res = Inr (rs, Some c) \<and> c \<noteq> [] \<and> c \<notin> seen")
    case True
    then obtain rs c where c: "res = Inr (rs, Some c)" "c \<noteq> []" "c \<notin> seen" by blast
    have "c \<in> C" using assms(2) p c(1) by blast
    then have "C - insert c seen \<subset> C - seen" using c(3) by blast
    then have "card (C - insert c seen) < card (C - seen)" using assms(1) by (meson finite_Diff psubset_card_mono)
    from less [OF this, of "Some c" "results @ rs" w1] show ?thesis by (subst settingsLoop.simps) (simp add: p c)
  next
    case False
    then show ?thesis by (subst settingsLoop.simps) (auto simp: p split: sum.splits prod.splits)
  qed
qed

theorem ListPortSettings_returns:
  assumes "finite C" "\<forall>ids cursor w rs c w'. client ids cursor w = (Inr (rs, Some c), w') \<longrightarrow> c \<in> C"
  shows "\<exists>y. ListPortSettingsByAssociatedResource api (Some client) r w = Some y"
proof -
  have "\<exists>y. settingsLoop api (client ids) r {} None [] w = Some y" for ids using settingsLoop_returns [OF assms(1), of "client ids"] assms(2) by blast
  then show ?thesis by (auto simp: ListPortSettingsByAssociatedResource_def split: sum.splits)
qed

section \<open>The cache\<close>

text \<open>Times are in nanoseconds.\<close>

definition SharedSubnetRefreshInterval :: int where "SharedSubnetRefreshInterval = 10 * 60 * 1000000000"

definition settingIds :: "string option list \<Rightarrow> string list" where
  "settingIds settings = filter (\<lambda>i. i \<noteq> []) (List.map_filter (\<lambda>i. i) settings)"

text \<open>The three parts of \<open>GetPortSettingIDsFromCacheOrAPI\<close> that hold the lock: the look-up, which installs a new token unless it answers; the end of a fetch that failed;
  and the end of one that succeeded.\<close>

definition installToken :: "string \<Rightarrow> ('w, 's, 'p) subnet_state \<Rightarrow> ('a + nat) \<times> ('w, 's, 'p) subnet_state" where
  "installToken r st =
    (Inr (suNextToken st), st\<lparr>suPortSettings := (suPortSettings st)(r \<mapsto> \<lparr>psToken = suNextToken st, psIds = [], psFetchedAt = None\<rparr>), suNextToken := Suc (suNextToken st)\<rparr>)"

definition beginSettings :: "string \<Rightarrow> bool \<Rightarrow> int \<Rightarrow> ('w, 's, 'p) subnet_state \<Rightarrow> (string list + nat) \<times> ('w, 's, 'p) subnet_state" where
  "beginSettings r forceAPI now st =
    (case (if forceAPI then None else Option.bind (suPortSettings st r) (\<lambda>e. map_option (Pair (psIds e)) (psFetchedAt e))) of
       Some (ids, t) \<Rightarrow> if now - t < SharedSubnetRefreshInterval then (Inl ids, st) else installToken r st
     | None \<Rightarrow> installToken r st)"

definition holdsToken :: "('w, 's, 'p) subnet_state \<Rightarrow> string \<Rightarrow> nat \<Rightarrow> bool" where
  "holdsToken st r token \<longleftrightarrow> map_option psToken (suPortSettings st r) = Some token"

definition failSettings :: "string \<Rightarrow> nat \<Rightarrow> ('w, 's, 'p) subnet_state \<Rightarrow> ('w, 's, 'p) subnet_state" where
  "failSettings r token st = (if holdsToken st r token then st\<lparr>suPortSettings := (suPortSettings st)(r := None)\<rparr> else st)"

definition publishSettings ::
  "string \<Rightarrow> nat \<Rightarrow> string option list \<Rightarrow> int \<Rightarrow> ('w, 's, 'p) subnet_state \<Rightarrow> (go_error + string list) \<times> ('w, 's, 'p) subnet_state" where
  "publishSettings r token settings now st =
    (if \<not> holdsToken st r token then (Inl (OtherError ''PortSettings cache invalidated during fetch''), st)
     else (Inr (settingIds settings),
           st\<lparr>suPortSettings := (suPortSettings st)(r \<mapsto> \<lparr>psToken = token, psIds = settingIds settings, psFetchedAt = Some now\<rparr>)\<rparr>))"

text \<open>The whole call when nothing interleaves; the clock is read at the look-up and at the end.\<close>

definition GetPortSettingIDsFromCacheOrAPI ::
  "converter \<Rightarrow> (string \<times> string \<times> string \<times> string \<Rightarrow> 'w settings_client) option \<Rightarrow> string \<Rightarrow> bool \<Rightarrow> int \<Rightarrow> int \<Rightarrow> ('w, 's, 'p) subnet_state \<Rightarrow>
   ((go_error + string list) \<times> ('w, 's, 'p) subnet_state) option" where
  "GetPortSettingIDsFromCacheOrAPI api client r forceAPI now later st =
    (case beginSettings r forceAPI now st of
       (Inl ids, st) \<Rightarrow> Some (Inr ids, st)
     | (Inr token, st) \<Rightarrow>
         (case ListPortSettingsByAssociatedResource api client r (nsxOf st) of
            None \<Rightarrow> None
          | Some (Inl e, w) \<Rightarrow> Some (Inl e, failSettings r token (withNSX st w))
          | Some (Inr settings, w) \<Rightarrow> Some (publishSettings r token settings later (withNSX st w))))"

definition InvalidatePortSettingsCache :: "string \<Rightarrow> ('w, 's, 'p) subnet_state \<Rightarrow> ('w, 's, 'p) subnet_state" where
  "InvalidatePortSettingsCache r st = st\<lparr>suPortSettings := (suPortSettings st)(r := None)\<rparr>"

section \<open>Interleaved callers\<close>

text \<open>The state, the fetches under way (resource and token of a caller) and three ghosts: how often the entry of a resource was invalidated, by a call that does so or by
  the token of a new fetch; this number when a token was installed; and the identifiers that the fetch of a token listed.\<close>

record ('w, 's, 'p) settings_run =
  srState :: "('w, 's, 'p) subnet_state"
  srFetch :: "nat \<rightharpoonup> string \<times> nat"
  srEpoch :: "string \<Rightarrow> nat"
  srBorn :: "nat \<Rightarrow> nat"
  srListed :: "nat \<Rightarrow> string list"

definition bump :: "string \<Rightarrow> (string \<Rightarrow> nat) \<Rightarrow> string \<Rightarrow> nat" where
  "bump r epoch = epoch(r := Suc (epoch r))"

definition startRun :: "('w, 's, 'p) subnet_state \<Rightarrow> ('w, 's, 'p) settings_run" where
  "startRun st = \<lparr>srState = st, srFetch = Map.empty, srEpoch = (\<lambda>_. 0), srBorn = (\<lambda>_. 0), srListed = (\<lambda>_. [])\<rparr>"

inductive settingsStep :: "('w, 's, 'p) settings_run \<Rightarrow> ('w, 's, 'p) settings_run \<Rightarrow> bool" where
  fetch: "beginSettings r forceAPI now (srState x) = (Inr token, st) \<Longrightarrow> srFetch x c = None \<Longrightarrow>
    settingsStep x (x\<lparr>srState := st, srFetch := (srFetch x)(c \<mapsto> (r, token)), srEpoch := bump r (srEpoch x), srBorn := (srBorn x)(token := Suc (srEpoch x r))\<rparr>)"
| failed: "srFetch x c = Some (r, token) \<Longrightarrow> settingsStep x (x\<lparr>srState := failSettings r token (srState x), srFetch := (srFetch x)(c := None)\<rparr>)"
| listed: "srFetch x c = Some (r, token) \<Longrightarrow> publishSettings r token settings now (srState x) = (res, st) \<Longrightarrow>
    settingsStep x (x\<lparr>srState := st, srFetch := (srFetch x)(c := None), srListed := (srListed x)(token := settingIds settings)\<rparr>)"
| invalidated: "settingsStep x (x\<lparr>srState := InvalidatePortSettingsCache r (srState x), srEpoch := bump r (srEpoch x)\<rparr>)"
| removed: "settingsStep x (x\<lparr>srState := RemoveSubnetFromCache r (srState x), srEpoch := bump r (srEpoch x)\<rparr>)"
| removed_unshared: "RemoveSubnetFromCacheIfUnshared r (srState x) = (True, st) \<Longrightarrow> settingsStep x (x\<lparr>srState := st, srEpoch := bump r (srEpoch x)\<rparr>)"
| other: "suPortSettings st = suPortSettings (srState x) \<Longrightarrow> suNextToken st = suNextToken (srState x) \<Longrightarrow> settingsStep x (x\<lparr>srState := st\<rparr>)"

inductive settingsReach :: "('w, 's, 'p) settings_run \<Rightarrow> bool" where
  start: "suPortSettings st = Map.empty \<Longrightarrow> settingsReach (startRun st)"
| step: "settingsReach x \<Longrightarrow> settingsStep x y \<Longrightarrow> settingsReach y"

definition entryInv :: "('w, 's, 'p) settings_run \<Rightarrow> string \<Rightarrow> port_settings_entry \<Rightarrow> bool" where
  "entryInv x r e \<longleftrightarrow> psToken e < suNextToken (srState x) \<and> srBorn x (psToken e) = srEpoch x r
    \<and> (psFetchedAt e \<noteq> None \<longrightarrow> psIds e = srListed x (psToken e) \<and> (\<forall>c r'. srFetch x c \<noteq> Some (r', psToken e)))"

definition fetchInv :: "('w, 's, 'p) settings_run \<Rightarrow> nat \<Rightarrow> string \<Rightarrow> nat \<Rightarrow> bool" where
  "fetchInv x c r token \<longleftrightarrow> token < suNextToken (srState x) \<and> srBorn x token \<le> srEpoch x r
    \<and> (srBorn x token = srEpoch x r \<longrightarrow> holdsToken (srState x) r token) \<and> (\<forall>c' r'. srFetch x c' = Some (r', token) \<longrightarrow> c' = c)"

definition settingsInv :: "('w, 's, 'p) settings_run \<Rightarrow> bool" where
  "settingsInv x \<longleftrightarrow> (\<forall>r e. suPortSettings (srState x) r = Some e \<longrightarrow> entryInv x r e) \<and> (\<forall>c r token. srFetch x c = Some (r, token) \<longrightarrow> fetchInv x c r token)"

lemma beginSettings_Inr:
  assumes "beginSettings r f now st = (Inr token, st')"
  shows "token = suNextToken st" "suNextToken st' = Suc (suNextToken st)"
    "suPortSettings st' = (suPortSettings st)(r \<mapsto> \<lparr>psToken = token, psIds = [], psFetchedAt = None\<rparr>)"
  using assms by (auto simp: beginSettings_def installToken_def split: option.splits if_splits prod.splits)

text \<open>A step that drops the entry of one resource and counts it.\<close>

lemma dropped_inv:
  assumes "settingsInv x" "suPortSettings st = (suPortSettings (srState x))(r := None)" "suNextToken st = suNextToken (srState x)"
  shows "settingsInv (x\<lparr>srState := st, srEpoch := bump r (srEpoch x)\<rparr>)"
proof -
  have "fetchInv x c r' t" if "srFetch x c = Some (r', t)" for c r' t using assms(1) that by (simp add: settingsInv_def)
  then have "fetchInv (x\<lparr>srState := st, srEpoch := bump r (srEpoch x)\<rparr>) c r' t" if "srFetch x c = Some (r', t)" for c r' t
    using that assms(2,3) by (fastforce simp: fetchInv_def holdsToken_def bump_def)
  then show ?thesis using assms by (auto simp: settingsInv_def entryInv_def bump_def)
qed

lemma fetch_inv:
  assumes inv: "settingsInv x" and b: "beginSettings r f now (srState x) = (Inr token, st)" and c: "srFetch x c = None"
  shows "settingsInv (x\<lparr>srState := st, srFetch := (srFetch x)(c \<mapsto> (r, token)), srEpoch := bump r (srEpoch x), srBorn := (srBorn x)(token := Suc (srEpoch x r))\<rparr>)"
proof -
  note b = beginSettings_Inr [OF b]
  have e: "psToken e < token" "entryInv x r' e" if "suPortSettings (srState x) r' = Some e" for r' e
    using inv that b(1) by (auto simp: settingsInv_def entryInv_def)
  have g: "t < token" "fetchInv x c' r' t" if "srFetch x c' = Some (r', t)" for c' r' t
    using inv that b(1) by (auto simp: settingsInv_def fetchInv_def)
  show ?thesis unfolding settingsInv_def
  proof (intro conjI allI impI, goal_cases)
    case (1 r' e)
    then show ?case using e [of r' e] g b by (fastforce simp: entryInv_def bump_def split: if_splits)
  next
    case (2 c' r' t)
    then show ?case using g [of c' r' t] g(1) b by (fastforce simp: fetchInv_def bump_def holdsToken_def split: if_splits)
  qed
qed

text \<open>The end of a fetch only changes the entry that holds its token, so that it leaves the other fetches alone.\<close>

lemma ended_fetch_inv:
  assumes inv: "settingsInv x" and c: "srFetch x c = Some (r, token)" and c': "srFetch x c' = Some (r', t)" "c' \<noteq> c"
    and st: "\<And>q. suPortSettings st q = suPortSettings (srState x) q \<or> q = r \<and> holdsToken (srState x) r token" "suNextToken st = suNextToken (srState x)"
  shows "fetchInv (x\<lparr>srState := st, srFetch := (srFetch x)(c := None), srListed := l\<rparr>) c' r' t"
proof -
  have "fetchInv x c' r' t" "fetchInv x c r token" using inv c c'(1) by (simp_all add: settingsInv_def)
  moreover from this c' have "t \<noteq> token" unfolding fetchInv_def by blast
  moreover have "holdsToken st r' t" if "holdsToken (srState x) r' t" using that st(1) [of r'] \<open>t \<noteq> token\<close> by (auto simp: holdsToken_def)
  ultimately show ?thesis using st(2) unfolding fetchInv_def by simp
qed

lemma failed_inv:
  assumes inv: "settingsInv x" and c: "srFetch x c = Some (r, token)"
  shows "settingsInv (x\<lparr>srState := failSettings r token (srState x), srFetch := (srFetch x)(c := None)\<rparr>)"
proof -
  have "fetchInv (x\<lparr>srState := failSettings r token (srState x), srFetch := (srFetch x)(c := None), srListed := srListed x\<rparr>) c' r' t"
    if "srFetch x c' = Some (r', t)" "c' \<noteq> c" for c' r' t
    by (rule ended_fetch_inv [OF inv c that]) (auto simp: failSettings_def)
  then show ?thesis using inv by (auto simp: settingsInv_def entryInv_def failSettings_def split: if_splits)
qed

lemma listed_inv:
  assumes inv: "settingsInv x" and c: "srFetch x c = Some (r, token)" and p: "publishSettings r token settings now (srState x) = (res, st)"
  shows "settingsInv (x\<lparr>srState := st, srFetch := (srFetch x)(c := None), srListed := (srListed x)(token := settingIds settings)\<rparr>)" (is "settingsInv ?y")
proof -
  have g: "fetchInv ?y c' r' t" if "srFetch x c' = Some (r', t)" "c' \<noteq> c" for c' r' t
    by (rule ended_fetch_inv [OF inv c that]) (use p in \<open>auto simp: publishSettings_def split: if_splits\<close>)
  have only: "srFetch x c' \<noteq> Some (r', token)" if "c' \<noteq> c" for c' r' using inv c that unfolding settingsInv_def fetchInv_def by blast
  have "entryInv ?y q e" if q: "suPortSettings st q = Some e" for q e
  proof (cases "suPortSettings (srState x) q = Some e")
    case True
    then have "entryInv x q e" using inv by (simp add: settingsInv_def)
    moreover from this c have "psFetchedAt e = None" if "psToken e = token" using that unfolding entryInv_def by blast
    moreover have "suNextToken st = suNextToken (srState x)" using p by (auto simp: publishSettings_def split: if_splits)
    ultimately show ?thesis unfolding entryInv_def by auto
  next
    case False
    then obtain e0 where e0: "q = r" "suPortSettings (srState x) r = Some e0" "psToken e0 = token" "suNextToken st = suNextToken (srState x)"
      "e = \<lparr>psToken = token, psIds = settingIds settings, psFetchedAt = Some now\<rparr>"
      using p q by (auto simp: publishSettings_def holdsToken_def split: if_splits)
    then have "entryInv x r e0" using inv by (simp add: settingsInv_def)
    then show ?thesis using e0 only unfolding entryInv_def by auto
  qed
  with g show ?thesis by (auto simp: settingsInv_def)
qed

lemma settingsReach_inv: "settingsReach x \<Longrightarrow> settingsInv x"
proof (induction rule: settingsReach.induct)
  case (step x y)
  from step(2,3) show ?case
  proof cases
    case (removed_unshared r st)
    then have "st = RemoveSubnetFromCache r (srState x)" by (auto simp: RemoveSubnetFromCacheIfUnshared_def Let_def split: if_splits)
    then show ?thesis using removed_unshared step(3) dropped_inv [of x st r] by (simp add: RemoveSubnetFromCache_def)
  next
    case (other st)
    then show ?thesis using step(3) by (auto simp: settingsInv_def entryInv_def fetchInv_def holdsToken_def)
  qed (use step(3) in \<open>simp_all add: fetch_inv failed_inv listed_inv dropped_inv InvalidatePortSettingsCache_def RemoveSubnetFromCache_def\<close>)
qed (simp add: startRun_def settingsInv_def)

text \<open>C19. However the callers and the invalidations interleave, the end of a fetch hands out its identifiers exactly when the entry was not invalidated since the fetch
  began; and an answer from the cache is what a fetch listed that began after the last invalidation and ended less than ten minutes ago.\<close>

theorem port_settings_never_stale:
  assumes "settingsReach x"
  shows "(srFetch x c = Some (r, token) \<longrightarrow>
      fst (publishSettings r token settings now (srState x)) = (if srBorn x token = srEpoch x r then Inr (settingIds settings)
        else Inl (OtherError ''PortSettings cache invalidated during fetch'')))
    \<and> (beginSettings r f now (srState x) = (Inl ids, st) \<longrightarrow>
      (\<exists>token t. srBorn x token = srEpoch x r \<and> srListed x token = ids \<and> now - t < SharedSubnetRefreshInterval \<and> \<not> f
        \<and> suPortSettings (srState x) r = Some \<lparr>psToken = token, psIds = ids, psFetchedAt = Some t\<rparr>))"
proof (intro conjI impI)
  have inv: "settingsInv x" by (rule settingsReach_inv [OF assms])
  {
    assume "srFetch x c = Some (r, token)"
    then have "fetchInv x c r token" using inv by (simp add: settingsInv_def)
    moreover have "srBorn x token = srEpoch x r" if h: "holdsToken (srState x) r token"
      using h inv unfolding settingsInv_def entryInv_def holdsToken_def by auto
    ultimately show "fst (publishSettings r token settings now (srState x)) = (if srBorn x token = srEpoch x r then Inr (settingIds settings)
        else Inl (OtherError ''PortSettings cache invalidated during fetch''))" by (auto simp: publishSettings_def fetchInv_def)
  next
    assume "beginSettings r f now (srState x) = (Inl ids, st)"
    then obtain e t where e: "suPortSettings (srState x) r = Some e" "psFetchedAt e = Some t" "psIds e = ids" "now - t < SharedSubnetRefreshInterval" "\<not> f"
      by (cases "suPortSettings (srState x) r"; cases "psFetchedAt (the (suPortSettings (srState x) r))"; cases f)
         (auto simp: beginSettings_def installToken_def split: if_splits)
    then have "entryInv x r e" using inv by (simp add: settingsInv_def)
    with e show "\<exists>token t. srBorn x token = srEpoch x r \<and> srListed x token = ids \<and> now - t < SharedSubnetRefreshInterval \<and> \<not> f
        \<and> suPortSettings (srState x) r = Some \<lparr>psToken = token, psIds = ids, psFetchedAt = Some t\<rparr>"
      by (intro exI [of _ "psToken e"] exI [of _ t]) (auto simp: entryInv_def)
  }
qed

section \<open>An example\<close>

text \<open>A server with two pages, and a run in which a second caller invalidates the fetch of the first one.\<close>

definition demoSettings :: "string \<times> string \<times> string \<times> string \<Rightarrow> unit settings_client" where
  "demoSettings ids cursor w = (Inr (if cursor = None then ([Some ''a'', None], Some ''1'') else ([Some ''b''], None)), w)"

theorem ListPortSettings_spec_witness:
  "ListPortSettingsByAssociatedResource noConvert (Some demoSettings) ''p:v:s'' () = Some (Inr [Some ''a'', None, Some ''b''], ())"
proof -
  have p: "GetSubnetPathFromAssociatedResource ''p:v:s'' = Inr ''/orgs/default/projects/p/vpcs/v/subnets/s''"
    "ExtractSubnetPath ''/orgs/default/projects/p/vpcs/v/subnets/s'' = Inr (''default'', ''p'', ''v'', ''s'')" by code_simp+
  let ?pg = "demoSettings (''default'', ''p'', ''v'', ''s'')"
  have "settingsPages ?pg (Some ''1'') () [[Some ''b'']] [] ()" by (rule settingsPages.last [where nxt = None]) (simp_all add: demoSettings_def)
  then have "settingsPages ?pg None () [[Some ''a'', None], [Some ''b'']] [''1''] ()" by (intro settingsPages.more) (simp_all add: demoSettings_def)
  then have "\<exists>pages cs. settingsPages ?pg None () pages cs () \<and> distinct cs \<and> [Some ''a'', None, Some ''b''] = concat pages"
    by (intro exI [of _ "[[Some ''a'', None], [Some ''b'']]"] exI [of _ "[''1'']"]) simp
  then show ?thesis using ListPortSettings_spec [OF p, where api = noConvert and client = demoSettings and w' = "()"] by blast
qed

theorem ListPortSettings_returns_witness:
  "\<exists>y. ListPortSettingsByAssociatedResource noConvert (Some (\<lambda>_ cursor w. (Inr ([], Some ''again''), w))) ''p:v:s'' () = Some y"
  using ListPortSettings_returns [of "{''again''}" "\<lambda>_ cursor w. (Inr ([], Some ''again''), w)" noConvert "''p:v:s''" "()"] by auto

definition demoRun :: "(unit, unit, unit) settings_run" where
  "demoRun = startRun \<lparr>suPorts = \<lparr>pcNSX = (), pcStore = (), pcCounts = Map.empty\<rparr>, suStore = (), suCache = Map.empty, suSharing = Map.empty,
     suPortSettings = Map.empty, suNextToken = 0\<rparr>"

definition demoFetch :: "nat \<Rightarrow> (unit, unit, unit) settings_run \<Rightarrow> (unit, unit, unit) settings_run" where
  "demoFetch c x = (let (t, st) = installToken ''p:v:s'' (srState x) in
    x\<lparr>srState := st, srFetch := (srFetch x)(c \<mapsto> (''p:v:s'', projr (t :: string list + nat))), srEpoch := bump ''p:v:s'' (srEpoch x),
      srBorn := (srBorn x)(projr t := Suc (srEpoch x ''p:v:s''))\<rparr>)"

lemma demoFetch_reach: "settingsReach x \<Longrightarrow> srFetch x c = None \<Longrightarrow> settingsReach (demoFetch c x)"
proof -
  assume x: "settingsReach x" "srFetch x c = None"
  have "beginSettings ''p:v:s'' True 0 (srState x) = installToken ''p:v:s'' (srState x)" by (simp add: beginSettings_def)
  from settingsReach.step [OF x(1) settingsStep.fetch [OF this [unfolded installToken_def] x(2)]] show "settingsReach (demoFetch c x)" by (simp add: demoFetch_def installToken_def)
qed

theorem port_settings_never_stale_witness:
  "fst (publishSettings ''p:v:s'' 0 [Some ''a''] 5 (srState (demoFetch 2 (demoFetch 1 demoRun)))) = Inl (OtherError ''PortSettings cache invalidated during fetch'')
    \<and> fst (publishSettings ''p:v:s'' 1 [Some ''a''] 5 (srState (demoFetch 2 (demoFetch 1 demoRun)))) = Inr [''a'']"
proof -
  have "settingsReach demoRun" unfolding demoRun_def by (rule settingsReach.start) simp
  then have r: "settingsReach (demoFetch 2 (demoFetch 1 demoRun))"
    by (intro demoFetch_reach) (simp_all add: demoFetch_def demoRun_def startRun_def installToken_def)
  have f: "srFetch (demoFetch 2 (demoFetch 1 demoRun)) 1 = Some (''p:v:s'', 0)" "srFetch (demoFetch 2 (demoFetch 1 demoRun)) 2 = Some (''p:v:s'', 1)"
    by (simp_all add: demoFetch_def demoRun_def startRun_def installToken_def)
  show ?thesis
    using port_settings_never_stale [OF r, of 1 "''p:v:s''" 0] port_settings_never_stale [OF r, of 2 "''p:v:s''" 1] f
    by (simp add: demoFetch_def demoRun_def startRun_def installToken_def bump_def settingIds_def List.map_filter_def)
qed

end
