(* ===== verification/SubnetAlloc.thy ===== *)
theory SubnetAlloc
  imports PortSettings
begin

text \<open>
  From the helpers of the controllers, \<open>pkg/controllers/common/utils.go\<close>: the choice of a Subnet of a SubnetSet for a new port, which reserves its addresses in the counters of
  the Subnet and creates a Subnet when none has room. The other helpers of the file are in \<open>ControllerUtil\<close>.
\<close>

section \<open>The choice of a Subnet\<close>

text \<open>The VPC services are used through their interface: the Subnets in the network configuration of a Namespace (path, default for Pods, default for VMs), and its VPCs. \<open>chReadSet\<close>
  is the reader that bypasses the cache, \<open>chClock\<close> the clock at the n-th candidate.\<close>

record ('w, 's, 'p, 'd, 'e) choice_env =
  chSubnets :: "('w, 's, 'd, 'e) subnet_env"
  chPorts :: "('w, 'p) pc_env"
  chConfig :: "string \<Rightarrow> go_error + (string \<times> bool \<times> bool) list option"
  chVPCs :: "string \<Rightarrow> vpc_resource_info list"
  chGetSubnet :: "string \<Rightarrow> string \<Rightarrow> 'w \<Rightarrow> (go_error + subnet_cr) \<times> 'w"
  chReadSet :: "string \<Rightarrow> string \<Rightarrow> 'w \<Rightarrow> (go_error + subnet_set) \<times> 'w"
  chClock :: "nat \<Rightarrow> int"

text \<open>What a port asks for: the type of its addresses, the static allocation type of the resource if it has one, and the IP addresses of its bindings.\<close>

record port_request =
  prType :: ip_address_type
  prStatic :: "static_ip_type option"
  prBindings :: "string list"

definition ipOf :: "nsx_subnet \<Rightarrow> nsx_subnet_ip" where
  "ipOf s = \<lparr>dhcpMode = Option.bind (suDhcp s) dcMode, dhcpv6Mode = Option.bind (suDhcpv6 s) dcMode,
    staticEnabled = Option.bind (suAdvanced s) (\<lambda>a. Option.bind (acStatic a) fst)\<rparr>"

text \<open>The Subnet as the counters see it; \<open>None\<close> is a Subnet without a path.\<close>

definition countedSubnet :: "nsx_subnet \<Rightarrow> vpc_subnet option" where
  "countedSubnet s = map_option (\<lambda>path. nsx_subnet_ip.extend (ipOf s) \<lparr>snPath = path, snIpv4SubnetSize = suIpv4Size s, snIpAddresses = suIpAddresses s, snAccessMode = suAccessMode s\<rparr>) (suPath s)"

definition ResolveEffectiveStaticIPAllocationType :: "static_ip_type option \<Rightarrow> nsx_subnet \<Rightarrow> ip_address_type \<Rightarrow> static_ip_type" where
  "ResolveEffectiveStaticIPAllocationType raw s ipType =
    (case raw of Some t \<Rightarrow> t | None \<Rightarrow> ComputeDefaultStaticIPAllocationType (ipOf s) ipType)"

definition GetVpcNetworkConfig :: "('w, 's, 'p, 'd, 'e) choice_env \<Rightarrow> string \<Rightarrow> go_error + (string \<times> bool \<times> bool) list" where
  "GetVpcNetworkConfig env ns =
    (case chConfig env ns of
       Inl e \<Rightarrow> Inl e | Inr None \<Rightarrow> Inl (OtherError ''VPCNetworkConfig not found'') | Inr (Some c) \<Rightarrow> Inr c)"

definition getSubnetFromVPCNetworkConfiguration :: "('w, 's, 'p, 'd, 'e) choice_env \<Rightarrow> string \<Rightarrow> string \<Rightarrow> go_error + string set" where
  "getSubnetFromVPCNetworkConfiguration env ns kind =
    (case GetVpcNetworkConfig env ns of
       Inl e \<Rightarrow> Inl e
     | Inr entries \<Rightarrow> Inr (set (map fst (filter (\<lambda>(path, pod, vm). kind = ''pod'' \<and> pod \<or> kind = ''vm'' \<and> vm) entries))))"

text \<open>One candidate: the reservation of the addresses in the counters of a Subnet. \<open>None\<close> is a Subnet without a path.\<close>

definition tryAllocate ::
  "('w, 's, 'p, 'd, 'e) choice_env \<Rightarrow> port_request \<Rightarrow> bool \<Rightarrow> nat \<Rightarrow> nsx_subnet \<Rightarrow> ('w, 's, 'p) subnet_state \<Rightarrow>
   ((go_error + (string \<times> static_ip_type) option) \<times> ('w, 's, 'p) subnet_state) option" where
  "tryAllocate env rq shared k s st =
    (case countedSubnet s of
       None \<Rightarrow> None
     | Some sub \<Rightarrow>
         let ty = ResolveEffectiveStaticIPAllocationType (prStatic rq) s (prType rq);
             (r, ps) = AllocatePortFromSubnet (chPorts env) sub shared (prType rq) ty (prBindings rq) (chClock env k) (suPorts st) in
         Some (case r of Inl e \<Rightarrow> Inl e | Inr ok \<Rightarrow> Inr (if ok then Some (snPath sub, ty) else None), st\<lparr>suPorts := ps\<rparr>))"

text \<open>The loop over the Subnets of a pre-created SubnetSet: a Subnet that fails is skipped, and its error is kept.\<close>

fun chooseByName ::
  "('w, 's, 'p, 'd, 'e) choice_env \<Rightarrow> subnet_set \<Rightarrow> string set option \<Rightarrow> port_request \<Rightarrow> string list \<Rightarrow> nat \<Rightarrow> go_error list \<Rightarrow> ('w, 's, 'p) subnet_state \<Rightarrow>
   ((go_error + string \<times> static_ip_type) \<times> ('w, 's, 'p) subnet_state) option" where
  "chooseByName env sset allowed rq [] k errs st =
    Some (Inl (if errs \<noteq> [] then OtherError (str_join (map error_msg errs) [CHR 0x0A])
      else OtherError (''all Subnets for SubnetSet '' @ Namespace (ssMeta sset) @ ''/'' @ Name (ssMeta sset) @ '' are not available'')), st)"
| "chooseByName env sset allowed rq (n # ns) k errs st =
    (case chGetSubnet env (Namespace (ssMeta sset)) n (nsxOf st) of
       (Inl e, w) \<Rightarrow> chooseByName env sset allowed rq ns (Suc k) (errs @ [e]) (withNSX st w)
     | (Inr cr, w) \<Rightarrow>
         (case GetSubnetByCR (chSubnets env) cr (withNSX st w) of
            (Inl e, st) \<Rightarrow> chooseByName env sset allowed rq ns (Suc k) (errs @ [e]) st
          | (Inr s, st) \<Rightarrow>
              if allowed \<noteq> None \<and> suPath s = None then None
              else if allowed \<noteq> None \<and> the (suPath s) \<notin> the allowed then chooseByName env sset allowed rq ns (Suc k) errs st
              else
                (case tryAllocate env rq (IsSharedSubnet (csAnnotations cr)) k s st of
                   None \<Rightarrow> None
                 | Some (Inl e, st) \<Rightarrow> chooseByName env sset allowed rq ns (Suc k) (errs @ [e]) st
                 | Some (Inr (Some r), st) \<Rightarrow> Some (Inr r, st)
                 | Some (Inr None, st) \<Rightarrow> chooseByName env sset allowed rq ns (Suc k) errs st)))"

definition GetSubnetFromSubnetSet ::
  "('w, 's, 'p, 'd, 'e) choice_env \<Rightarrow> subnet_set \<Rightarrow> port_request \<Rightarrow> ('w, 's, 'p) subnet_state \<Rightarrow>
   ((go_error + string \<times> static_ip_type) \<times> ('w, 's, 'p) subnet_state) option" where
  "GetSubnetFromSubnetSet env sset rq st =
    (let kind = GetSubnetSetKind (ssLabels sset) in
     case (if kind = [] then Inr None else map_sum id Some (getSubnetFromVPCNetworkConfiguration env (Namespace (ssMeta sset)) kind)) of
       Inl e \<Rightarrow> Some (Inl e, st)
     | Inr allowed \<Rightarrow>
         (case ssSubnetNames sset of None \<Rightarrow> None | Some names \<Rightarrow> chooseByName env sset allowed rq names 0 [] st))"

text \<open>The loop over the Subnets that were created for a SubnetSet; an error ends it. \<open>Inr None\<close> asks for a new Subnet.\<close>

fun chooseCreated ::
  "('w, 's, 'p, 'd, 'e) choice_env \<Rightarrow> port_request \<Rightarrow> nsx_subnet list \<Rightarrow> nat \<Rightarrow> ('w, 's, 'p) subnet_state \<Rightarrow>
   ((go_error + (string \<times> static_ip_type) option) \<times> ('w, 's, 'p) subnet_state) option" where
  "chooseCreated env rq [] k st = Some (Inr None, st)"
| "chooseCreated env rq (s # ss) k st =
    (case tryAllocate env rq False k s st of
       Some (Inr None, st) \<Rightarrow> chooseCreated env rq ss (Suc k) st
     | r \<Rightarrow> r)"

definition createAndAllocate ::
  "('w, 's, 'p, 'd, 'e) choice_env \<Rightarrow> subnet_set \<Rightarrow> port_request \<Rightarrow> nat \<Rightarrow> ('w, 's, 'p) subnet_state \<Rightarrow>
   ((go_error + string \<times> static_ip_type) \<times> ('w, 's, 'p) subnet_state) option" where
  "createAndAllocate env sset rq k st =
    (case GenerateSubnetNSTags (chSubnets env) (ObjSubnetSetCR sset) of
       None \<Rightarrow> Some (Inl (OtherError ''failed to generate subnet tags''), st)
     | Some tags \<Rightarrow>
         (case chVPCs env (Namespace (ssMeta sset)) of
            [] \<Rightarrow> Some (Inl (OtherError ''no VPC found''), st)
          | v # _ \<Rightarrow>
              (case CreateOrUpdateSubnet (chSubnets env) (ObjSubnetSetCR sset) v tags st of
                 None \<Rightarrow> None
               | Some (Inl e, st) \<Rightarrow> Some (Inl e, st)
               | Some (Inr s, st) \<Rightarrow>
                   (case tryAllocate env rq False k s st of
                      None \<Rightarrow> None
                    | Some (Inl e, st) \<Rightarrow> Some (Inl e, st)
                    | Some (Inr (Some r), st) \<Rightarrow> Some (Inr r, st)
                    | Some (Inr None, st) \<Rightarrow> Some (Inl (OtherError (''cannot allocate Port from SubnetSet '' @ Name (ssMeta sset))), st)))))"

text \<open>The result tells also whether the caller holds the read lock of the SubnetSet. The write lock of the other branch spans the whole branch, which is one step here.\<close>

definition AllocateSubnetFromSubnetSet ::
  "('w, 's, 'p, 'd, 'e) choice_env \<Rightarrow> subnet_set \<Rightarrow> port_request \<Rightarrow> ('w, 's, 'p) subnet_state \<Rightarrow>
   ((go_error + string \<times> static_ip_type) \<times> bool \<times> ('w, 's, 'p) subnet_state) option" where
  "AllocateSubnetFromSubnetSet env sset rq st =
    (if ssDHCPMode sset = ''DHCPRelay'' then Some (Inl (OtherError ''Creating SubnetPort on DHCPRelay SubnetSet is not supported''), False, st)
     else if ssSubnetNames sset \<noteq> None then
       (case chReadSet env (Namespace (ssMeta sset)) (Name (ssMeta sset)) (nsxOf st) of
          (Inl e, w) \<Rightarrow> Some (Inl e, True, withNSX st w)
        | (Inr latest, w) \<Rightarrow> map_option (\<lambda>(r, st). (r, True, st)) (GetSubnetFromSubnetSet env latest rq (withNSX st w)))
     else
       let created = GetSubnetsByIndex (chSubnets env) st ''nsx-op/subnetset_uid'' (UID (ssMeta sset)) in
       (case chooseCreated env rq created 0 st of
          None \<Rightarrow> None
        | Some (Inl e, st) \<Rightarrow> Some (Inl e, False, st)
        | Some (Inr (Some r), st) \<Rightarrow> Some (Inr r, False, st)
        | Some (Inr None, st) \<Rightarrow> map_option (\<lambda>(r, st). (r, False, st)) (createAndAllocate env sset rq (length created) st)))"

section \<open>No reservation is lost\<close>

text \<open>The addresses that the reservations in flight have taken of the four pools of a Subnet: DHCP, static, DHCPv6 and static IPv6.\<close>

definition dirtyOf :: "CountInfo \<Rightarrow> int \<times> int \<times> int \<times> int" where
  "dirtyOf i = (dirtyDhcpCount i, dirtyStaticCount i, dirtyDhcpCountIPv6 i, dirtyStaticCountIPv6 i)"

definition taken :: "('w, 's, 'p) subnet_state \<Rightarrow> string \<Rightarrow> int \<times> int \<times> int \<times> int" where
  "taken st path = dirtyOf (infoAt (suPorts st) path)"

text \<open>What one request adds, with the static allocation type that was resolved for it.\<close>

definition withRequest :: "port_request \<Rightarrow> static_ip_type \<Rightarrow> int \<times> int \<times> int \<times> int \<Rightarrow> int \<times> int \<times> int \<times> int" where
  "withRequest rq ty c = (case c of (d4, s4, d6, s6) \<Rightarrow> let (v4, v6) = requestedCounts (prType rq) (prBindings rq) in
     (if IPAddressTypeIncludesIPv4 (prType rq) \<and> \<not> StaticIPAllocationTypeIncludesIPv4 ty then d4 + v4 else d4,
      if IPAddressTypeIncludesIPv4 (prType rq) \<and> StaticIPAllocationTypeIncludesIPv4 ty then s4 + v4 else s4,
      if IPAddressTypeIncludesIPv6 (prType rq) \<and> \<not> StaticIPAllocationTypeIncludesIPv6 ty then d6 + v6 else d6,
      if IPAddressTypeIncludesIPv6 (prType rq) \<and> StaticIPAllocationTypeIncludesIPv6 ty then s6 + v6 else s6))"

lemma size_dirty: "sizeIPv4 env subnet shared info existed ids useStatic w = (res, info', w') \<Longrightarrow> dirtyOf info' = dirtyOf info"
  by (auto simp: sizeIPv4_def Let_def dirtyOf_def split: if_splits prod.splits sum.splits option.splits list.splits)

lemma check4_dirty:
  assumes "checkIPv4Capacity env subnet shared info existed ids useStatic n now s w = (res, info', w')"
  shows "dirtyOf info' = dirtyOf info"
proof -
  obtain a i v where a: "sizeIPv4 env subnet shared info existed ids useStatic w = (a, i, v)" by (metis prod.exhaust)
  show ?thesis using assms size_dirty [OF a] by (auto simp: checkIPv4Capacity_def a Let_def split: if_splits sum.splits)
qed

lemma check6_dirty:
  assumes "checkIPv6Capacity env subnet shared info existed ids useStatic n now s w = (res, info', w')"
  shows "dirtyOf info' = dirtyOf info"
  using assms by (auto simp: checkIPv6Capacity_def checkDhcpIPv6_def Let_def dirtyOf_def split: if_splits prod.splits sum.splits option.splits list.splits)

lemma allocate_dirty:
  assumes run: "AllocatePortFromSubnet env sub shared (prType rq) ty (prBindings rq) now st = (res, st')"
  shows "dirtyOf (infoAt st' path)
    = (if res = Inr True \<and> path = snPath sub then withRequest rq ty (dirtyOf (infoAt st path)) else dirtyOf (infoAt st path))"
proof -
  let ?p = "snPath sub" and ?u4 = "StaticIPAllocationTypeIncludesIPv4 ty" and ?u6 = "StaticIPAllocationTypeIncludesIPv6 ty"
  let ?ids = "subnetIds ?p" and ?ex = "pcCounts st ?p \<noteq> None" and ?info = "infoAt st ?p" and ?t = "prType rq"
  obtain v4 v6 where v: "requestedCounts ?t (prBindings rq) = (v4, v6)" by fastforce
  obtain r4 i4 w4 where c4: "(if IPAddressTypeIncludesIPv4 ?t
      then checkIPv4Capacity env sub shared ?info ?ex ?ids ?u4 v4 now (pcStore st) (pcNSX st) else (Inr True, ?info, pcNSX st)) = (r4, i4, w4)" by (metis prod.exhaust)
  obtain r6 i6 w6 where c6: "(if IPAddressTypeIncludesIPv6 ?t
      then checkIPv6Capacity env sub shared i4 ?ex ?ids ?u6 v6 now (pcStore st) w4 else (Inr True, i4, w4)) = (r6, i6, w6)" by (metis prod.exhaust)
  have k: "dirtyOf i4 = dirtyOf ?info" "dirtyOf i6 = dirtyOf i4" using c4 c6 check4_dirty check6_dirty by (auto split: if_splits)
  have out: "(res, st') = (let finish = (\<lambda>r info w. (r, st\<lparr>pcNSX := w, pcCounts := (pcCounts st)(?p \<mapsto> info)\<rparr>)) in
      if r4 \<noteq> Inr True then finish r4 i4 w4 else if r6 \<noteq> Inr True then finish r6 i6 w6
      else finish (Inr True) (reserve ?t ty v4 v6 i6) w6)"
    using run by (simp only: AllocatePortFromSubnet_def Let_def v prod.case c4 c6)
  have r: "dirtyOf (reserve ?t ty v4 v6 i6) = withRequest rq ty (dirtyOf i6)" by (simp add: withRequest_def v dirtyOf_def reserve_def Let_def)
  show ?thesis using out k r by (auto simp: Let_def infoAt_def split: if_splits)
qed

text \<open>A step of the choice either reserves at the Subnet it returns, or nothing at all.\<close>

definition reservesFor :: "port_request \<Rightarrow> ('w, 's, 'p) subnet_state \<Rightarrow> (string \<times> static_ip_type) option \<Rightarrow> ('w, 's, 'p) subnet_state \<Rightarrow> bool" where
  "reservesFor rq st r st' \<longleftrightarrow> (\<forall>path. taken st' path
     = (case r of Some (p, ty) \<Rightarrow> if path = p then withRequest rq ty (taken st path) else taken st path | None \<Rightarrow> taken st path))"

definition chosen :: "'e + 'a \<Rightarrow> 'a option" where
  "chosen r = (case r of Inl _ \<Rightarrow> None | Inr x \<Rightarrow> Some x)"

definition chosenOption :: "'e + 'a option \<Rightarrow> 'a option" where
  "chosenOption r = (case r of Inl _ \<Rightarrow> None | Inr x \<Rightarrow> x)"

lemma chosen_simps [simp]: "chosen (Inl e) = None" "chosen (Inr x) = Some x" "chosenOption (Inl e) = None" "chosenOption (Inr y) = y"
  by (simp_all add: chosen_def chosenOption_def)

lemma same_counts: "pcCounts (suPorts st') = pcCounts (suPorts st) \<Longrightarrow> taken st' = taken st"
  by (simp add: fun_eq_iff taken_def infoAt_def)

lemma reserves_trans: "taken st1 = taken st \<Longrightarrow> reservesFor rq st1 r st2 \<Longrightarrow> reservesFor rq st r st2"
  by (cases r) (auto simp: reservesFor_def)

lemma reserves_none: "reservesFor rq st None st' \<longleftrightarrow> taken st' = taken st"
  by (auto simp: reservesFor_def)

lemma tryAllocate_reserves:
  assumes "tryAllocate env rq shared k s st = Some (res, st')"
  shows "reservesFor rq st (chosenOption res) st'"
proof -
  obtain sub r ps where s: "countedSubnet s = Some sub"
    "AllocatePortFromSubnet (chPorts env) sub shared (prType rq) (ResolveEffectiveStaticIPAllocationType (prStatic rq) s (prType rq)) (prBindings rq) (chClock env k) (suPorts st) = (r, ps)"
    "res = (case r of Inl e \<Rightarrow> Inl e | Inr ok \<Rightarrow> Inr (if ok then Some (snPath sub, ResolveEffectiveStaticIPAllocationType (prStatic rq) s (prType rq)) else None))"
    "st' = st\<lparr>suPorts := ps\<rparr>"
    using assms by (auto simp: tryAllocate_def Let_def split: option.splits prod.splits)
  show ?thesis using allocate_dirty [OF s(2)] s(3,4) by (cases r) (auto simp: reservesFor_def taken_def)
qed

text \<open>Reading and writing Subnets never touches the counters of another port.\<close>

lemma GetSubnetByCR_counts: "pcCounts (suPorts (snd (GetSubnetByCR env cr st))) = pcCounts (suPorts st)"
  by (auto simp: GetSubnetByCR_def GetNSXSubnetFromCacheOrAPI_def UpdateNSXSubnetCache_def split: option.splits prod.splits sum.splits list.splits)

lemma check_counts: "checkSubnetRealizeState env s st = Some (r, st') \<Longrightarrow> pcCounts (suPorts st') = pcCounts (suPorts st)"
  by (auto simp: checkSubnetRealizeState_def DeleteSubnet_def split: option.splits prod.splits)

lemma conditions_counts: "pcCounts (suPorts (changeConditions env ob f st)) = pcCounts (suPorts st)"
  by (auto simp: changeConditions_def split: subnet_object.splits)

lemma status_counts: "UpdateSubnetSetStatus env sset st = Some (r, st') \<Longrightarrow> pcCounts (suPorts st') = pcCounts (suPorts st)"
  by (auto simp: UpdateSubnetSetStatus_def Let_def split: option.splits prod.splits sum.splits if_splits)

lemma createOrUpdateSubnet_counts:
  assumes "createOrUpdateSubnet env ob s v restoreMode st = Some (r, st')"
  shows "pcCounts (suPorts st') = pcCounts (suPorts st)"
  using assms
  by (auto simp: createOrUpdateSubnet_def Let_def updateSubnetSetConditionOnFail_def removeSubnetSetConditionOnSuccess_def conditions_counts
      dest!: check_counts status_counts split: prod.splits sum.splits option.splits if_splits subnet_object.splits)

lemma CreateOrUpdateSubnet_counts:
  assumes "CreateOrUpdateSubnet env (ObjSubnetSetCR sset) v tags st = Some (r, st')"
  shows "pcCounts (suPorts st') = pcCounts (suPorts st)"
proof (cases "buildSubnet env (suStore st) (ObjSubnetSetCR sset) tags [] v 0")
  case (Some b)
  show ?thesis
  proof (cases b)
    case (Inr built)
    then have "createOrUpdateSubnet env (ObjSubnetSetCR sset) built v False st = Some (r, st')"
      using assms Some by (auto simp: CreateOrUpdateSubnet_def planSubnet_def split: option.splits prod.splits sum.splits)
    then show ?thesis by (rule createOrUpdateSubnet_counts)
  qed (use assms Some in \<open>simp add: CreateOrUpdateSubnet_def\<close>)
qed (use assms in \<open>simp add: CreateOrUpdateSubnet_def\<close>)

lemma chooseByName_reserves:
  assumes "chooseByName env sset allowed rq names k errs st = Some (res, st')"
  shows "reservesFor rq st (chosen res) st'"
  using assms
proof (induction names arbitrary: k errs st)
  case Nil
  then show ?case by (auto simp: reserves_none)
next
  case (Cons n ns)
  obtain x w where x: "chGetSubnet env (Namespace (ssMeta sset)) n (nsxOf st) = (x, w)" by fastforce
  have w: "taken (withNSX st w) = taken st" by (rule same_counts) simp
  show ?case
  proof (cases x)
    case (Inl e)
    then show ?thesis using Cons x reserves_trans [OF w] by auto
  next
    case (Inr cr)
    obtain y st1 where y: "GetSubnetByCR (chSubnets env) cr (withNSX st w) = (y, st1)" by fastforce
    have t1: "taken st1 = taken st" using same_counts [of st1 "withNSX st w"] GetSubnetByCR_counts [of "chSubnets env" cr "withNSX st w"] y w by simp
    show ?thesis
    proof (cases y)
      case (Inl e)
      then show ?thesis using Cons x Inr y reserves_trans [OF t1] by auto
    next
      case s: (Inr s)
      let ?skip = "allowed \<noteq> None \<and> the (suPath s) \<notin> the allowed"
      have no: "\<not> (allowed \<noteq> None \<and> suPath s = None)" using Cons.prems x Inr y s by (auto split: if_splits)
      show ?thesis
      proof (cases ?skip)
        case True
        then show ?thesis using Cons x Inr y s no reserves_trans [OF t1] by auto
      next
        case False
        obtain z st2 where z: "tryAllocate env rq (IsSharedSubnet (csAnnotations cr)) k s st1 = Some (z, st2)"
          using Cons.prems x Inr y s no False by (auto split: option.splits)
        note r = reserves_trans [OF t1 tryAllocate_reserves [OF z]]
        show ?thesis
        proof (cases "chosenOption z")
          case None
          then have "taken st2 = taken st" using r by (simp add: reserves_none)
          moreover obtain e' where "chooseByName env sset allowed rq ns (Suc k) e' st2 = Some (res, st')"
            using Cons.prems x Inr y s no False z None by (cases z) auto
          ultimately show ?thesis using Cons.IH reserves_trans by blast
        next
          case (Some p)
          then have "z = Inr (Some p)" by (cases z) auto
          then show ?thesis using Cons.prems x Inr y s no False z r by auto
        qed
      qed
    qed
  qed
qed

lemma chooseCreated_reserves:
  assumes "chooseCreated env rq ss k st = Some (res, st')"
  shows "reservesFor rq st (chosenOption res) st'"
  using assms
proof (induction ss arbitrary: k st)
  case (Cons s ss)
  then obtain z st1 where z: "tryAllocate env rq False k s st = Some (z, st1)" by (cases "tryAllocate env rq False k s st") auto
  note r = tryAllocate_reserves [OF z]
  show ?case
  proof (cases "z = Inr None")
    case True
    then have "taken st1 = taken st" using r by (simp add: reserves_none)
    moreover have "chooseCreated env rq ss (Suc k) st1 = Some (res, st')" using Cons.prems z True by simp
    ultimately show ?thesis using Cons.IH reserves_trans by blast
  next
    case False
    then have "res = z" "st' = st1" using Cons.prems z by (auto split: sum.splits option.splits)
    then show ?thesis using r by simp
  qed
qed (auto simp: reserves_none)

lemma createAndAllocate_reserves:
  assumes "createAndAllocate env sset rq k st = Some (res, st')"
  shows "reservesFor rq st (chosen res) st'"
proof -
  have quiet: "reservesFor rq st None st" by (simp add: reserves_none)
  show ?thesis
  proof (cases "GenerateSubnetNSTags (chSubnets env) (ObjSubnetSetCR sset)")
    case (Some tags)
    show ?thesis
    proof (cases "chVPCs env (Namespace (ssMeta sset))")
      case (Cons v vs)
      obtain y st1 where y: "CreateOrUpdateSubnet (chSubnets env) (ObjSubnetSetCR sset) v tags st = Some (y, st1)"
        using assms Some Cons by (auto simp: createAndAllocate_def split: option.splits)
      have t: "taken st1 = taken st" by (rule same_counts [OF CreateOrUpdateSubnet_counts [OF y]])
      show ?thesis
      proof (cases y)
        case (Inr s)
        obtain z st2 where z: "tryAllocate env rq False k s st1 = Some (z, st2)"
          using assms Some Cons y Inr by (auto simp: createAndAllocate_def split: option.splits)
        have "chosen res = chosenOption z" "st' = st2" using assms Some Cons y Inr z by (auto simp: createAndAllocate_def split: sum.splits option.splits)
        then show ?thesis using reserves_trans [OF t tryAllocate_reserves [OF z]] by simp
      qed (use assms Some Cons y t in \<open>auto simp: createAndAllocate_def reserves_none\<close>)
    qed (use assms Some quiet in \<open>auto simp: createAndAllocate_def\<close>)
  qed (use assms quiet in \<open>auto simp: createAndAllocate_def\<close>)
qed

lemma GetSubnetFromSubnetSet_reserves:
  assumes "GetSubnetFromSubnetSet env sset rq st = Some (res, st')"
  shows "reservesFor rq st (chosen res) st'"
  using assms chooseByName_reserves
  by (auto simp: GetSubnetFromSubnetSet_def Let_def reserves_none split: if_splits sum.splits option.splits)

text \<open>The release of what was reserved restores the counters, as long as they are not negative.\<close>

lemma release_dirty:
  assumes "dirtyOf info' = withRequest rq ty (dirtyOf info)" "requestedCounts (prType rq) (prBindings rq) = (v4, v6)"
    and "0 \<le> dirtyDhcpCount info" "0 \<le> dirtyStaticCount info" "0 \<le> dirtyDhcpCountIPv6 info" "0 \<le> dirtyStaticCountIPv6 info"
  shows "dirtyOf (release (prType rq) ty v4 v6 info') = dirtyOf info"
  using assms by (auto simp: dirtyOf_def withRequest_def release_def decreased_def Let_def split: if_splits)

lemma release_new: "requestedCounts t b = (v4, v6) \<Longrightarrow> dirtyOf (release t ty v4 v6 newInfo) = dirtyOf newInfo"
  by (auto simp: dirtyOf_def release_def decreased_def newInfo_def requestedCounts_def Let_def split: if_splits prod.splits)

definition nonNegative :: "int \<times> int \<times> int \<times> int \<Rightarrow> bool" where
  "nonNegative c = (case c of (a, b, d, e) \<Rightarrow> 0 \<le> a \<and> 0 \<le> b \<and> 0 \<le> d \<and> 0 \<le> e)"

text \<open>C4. The choice of a Subnet for a port, whatever path it takes through the candidates, the errors and the creation of a Subnet, reserves the addresses of the request exactly
  once, at the Subnet it returns, and nothing when it fails; and the release with the returned static allocation type undoes it, so that no address is lost.\<close>

theorem AllocateSubnetFromSubnetSet_reserves_once:
  assumes "AllocateSubnetFromSubnetSet env sset rq st = Some (res, held, st')" "\<forall>path. nonNegative (taken st path)"
  shows "case res of
      Inl e \<Rightarrow> taken st' = taken st
    | Inr (p, ty) \<Rightarrow> taken st' = (taken st)(p := withRequest rq ty (taken st p))
        \<and> taken (st'\<lparr>suPorts := ReleasePortInSubnet p (prType rq) ty (prBindings rq) (suPorts st')\<rparr>) = taken st"
proof -
  have r: "reservesFor rq st (chosen res) st'"
  proof (cases "ssDHCPMode sset = ''DHCPRelay''")
    case True
    then show ?thesis using assms(1) by (auto simp: AllocateSubnetFromSubnetSet_def reserves_none)
  next
    case relay: False
    show ?thesis
    proof (cases "ssSubnetNames sset")
      case None
      let ?ss = "GetSubnetsByIndex (chSubnets env) st ''nsx-op/subnetset_uid'' (UID (ssMeta sset))"
      obtain z st1 where z: "chooseCreated env rq ?ss 0 st = Some (z, st1)"
        using assms(1) relay None by (auto simp: AllocateSubnetFromSubnetSet_def Let_def split: option.splits)
      note zr = chooseCreated_reserves [OF z]
      show ?thesis
      proof (cases "z = Inr None")
        case True
        then have "taken st1 = taken st" using zr by (simp add: reserves_none)
        moreover have "createAndAllocate env sset rq (length ?ss) st1 = Some (res, st')"
          using assms(1) relay None z True by (auto simp: AllocateSubnetFromSubnetSet_def Let_def)
        ultimately show ?thesis using createAndAllocate_reserves reserves_trans by blast
      next
        case False
        then have "chosen res = chosenOption z" "st' = st1"
          using assms(1) relay None z by (auto simp: AllocateSubnetFromSubnetSet_def Let_def split: sum.splits option.splits)
        then show ?thesis using zr by simp
      qed
    next
      case (Some names)
      obtain x w where x: "chReadSet env (Namespace (ssMeta sset)) (Name (ssMeta sset)) (nsxOf st) = (x, w)" by fastforce
      have t: "taken (withNSX st w) = taken st" by (rule same_counts) simp
      show ?thesis using assms(1) relay Some x t reserves_trans [OF t GetSubnetFromSubnetSet_reserves]
        by (cases x) (auto simp: AllocateSubnetFromSubnetSet_def reserves_none)
    qed
  qed
  show ?thesis
  proof (cases res)
    case (Inr c)
    obtain p ty where c: "c = (p, ty)" by fastforce
    obtain v4 v6 where v: "requestedCounts (prType rq) (prBindings rq) = (v4, v6)" by fastforce
    have t: "taken st' = (taken st)(p := withRequest rq ty (taken st p))" using r Inr c by (auto simp: reservesFor_def)
    let ?st2 = "st'\<lparr>suPorts := ReleasePortInSubnet p (prType rq) ty (prBindings rq) (suPorts st')\<rparr>"
    have "dirtyOf (release (prType rq) ty v4 v6 (infoAt (suPorts st') p)) = dirtyOf (infoAt (suPorts st) p)"
      using t assms(2) by (intro release_dirty [OF _ v]) (auto simp: taken_def nonNegative_def dirtyOf_def fun_eq_iff)
    then have "taken ?st2 p = taken st p"
      using v release_new [OF v] by (cases "pcCounts (suPorts st') p") (simp_all add: taken_def ReleasePortInSubnet_def infoAt_def)
    moreover have "taken ?st2 q = taken st q" if "q \<noteq> p" for q
      using that fun_cong [OF t, of q] v by (cases "pcCounts (suPorts st') p") (simp_all add: taken_def ReleasePortInSubnet_def infoAt_def)
    ultimately have "taken ?st2 q = taken st q" for q by (cases "q = p") simp_all
    then have "taken ?st2 = taken st" by (rule ext)
    with t Inr c show ?thesis by simp
  qed (use r in \<open>simp add: reserves_none\<close>)
qed

section \<open>An example\<close>

text \<open>A SubnetSet with two Subnets: the first has no address left, the second has three.\<close>

definition demoOfSet :: "string \<Rightarrow> nsx_subnet" where
  "demoOfSet i = (emptySubnet i i [mk_tag ''nsx-op/subnetset_uid'' ''set1''])\<lparr>suPath := Some (''/orgs/o/projects/p/vpcs/v/subnets/'' @ i),
     suAdvanced := Some \<lparr>acGateways = [], acDhcpServers = [], acConnectivity = None, acStatic = Some (Some True, [])\<rparr>\<rparr>"

definition demoAllocPorts :: "(((string list \<times> string) \<times> nsx_subnet) list, (string \<times> nsx_port) list) pc_env" where
  "demoAllocPorts = \<lparr>peOps = onceOps, pePool = (\<lambda>ids _ w. (Inr (Some \<lparr>TotalIps = Some (if ids ! 3 = ''full'' then 0 else 3), RequestedIpAllocations = None\<rparr>), w)),
    peDhcpStats = (\<lambda>_ w. (Inr \<lparr>IpPoolStats = [], DhcpIpv6 = None\<rparr>, w)), peIPv6 = True, peAddressCount = (\<lambda>_ _. 16)\<rparr>"

definition demoAllocSubnetEnv ::
  "(((string list \<times> string) \<times> nsx_subnet) list, (string \<times> nsx_subnet) list, (string \<times> nsx_port) list, string, subnet_value) choice_env" where
  "demoAllocSubnetEnv = \<lparr>chSubnets = demoSubEnv, chPorts = demoAllocPorts, chConfig = (\<lambda>_. Inr None), chVPCs = (\<lambda>_. [demoVPC]),
     chGetSubnet = (\<lambda>_ _ w. (Inl (OtherError ''not found''), w)), chReadSet = (\<lambda>_ _ w. (Inl (OtherError ''not found''), w)), chClock = (\<lambda>_. 0)\<rparr>"

definition demoSet :: subnet_set where
  "demoSet = \<lparr>ssMeta = \<lparr>Name = ''set'', Namespace = ''ns'', UID = ''set1''\<rparr>, ssLabels = [], ssAccessMode = ''Private'', ssIPAddressType = IPAddressTypeIPv4,
     ssDHCPMode = [], ssDHCPv6Mode = [], ssIPv4SubnetSize = 0, ssIPv6PrefixLength = 0, ssSubnetNames = None, ssSubnets = [], ssConditions = []\<rparr>"

definition demoAllocState :: "(((string list \<times> string) \<times> nsx_subnet) list, (string \<times> nsx_subnet) list, (string \<times> nsx_port) list) subnet_state" where
  "demoAllocState = \<lparr>suPorts = \<lparr>pcNSX = [], pcStore = [], pcCounts = Map.empty\<rparr>, suStore = [(''full'', demoOfSet ''full''), (''free'', demoOfSet ''free'')],
     suCache = Map.empty, suSharing = Map.empty, suPortSettings = Map.empty, suNextToken = 0\<rparr>"

definition demoAsk :: port_request where
  "demoAsk = \<lparr>prType = IPAddressTypeIPv4, prStatic = None, prBindings = []\<rparr>"

theorem AllocateSubnetFromSubnetSet_reserves_once_witness:
  "\<exists>st'. AllocateSubnetFromSubnetSet demoAllocSubnetEnv demoSet demoAsk demoAllocState
      = Some (Inr (''/orgs/o/projects/p/vpcs/v/subnets/free'', StaticIPAllocationTypeIPv4), False, st')
    \<and> taken st' ''/orgs/o/projects/p/vpcs/v/subnets/free'' = (0, 1, 0, 0) \<and> taken st' ''/orgs/o/projects/p/vpcs/v/subnets/full'' = (0, 0, 0, 0)"
proof -
  have "map_option fst (AllocateSubnetFromSubnetSet demoAllocSubnetEnv demoSet demoAsk demoAllocState)
      = Some (Inr (''/orgs/o/projects/p/vpcs/v/subnets/free'', StaticIPAllocationTypeIPv4))"
    "map_option (fst \<circ> snd) (AllocateSubnetFromSubnetSet demoAllocSubnetEnv demoSet demoAsk demoAllocState) = Some False" by (code_simp, code_simp)
  then obtain st' where a: "AllocateSubnetFromSubnetSet demoAllocSubnetEnv demoSet demoAsk demoAllocState
      = Some (Inr (''/orgs/o/projects/p/vpcs/v/subnets/free'', StaticIPAllocationTypeIPv4), False, st')" by auto
  have n: "taken demoAllocState path = (0, 0, 0, 0)" for path by (simp add: taken_def demoAllocState_def infoAt_def dirtyOf_def newInfo_def)
  have "withRequest demoAsk StaticIPAllocationTypeIPv4 (0, 0, 0, 0) = (0, 1, 0, 0)" by code_simp
  with AllocateSubnetFromSubnetSet_reserves_once [OF a] n have
    "taken st' ''/orgs/o/projects/p/vpcs/v/subnets/free'' = (0, 1, 0, 0)" "taken st' ''/orgs/o/projects/p/vpcs/v/subnets/full'' = (0, 0, 0, 0)"
    by (simp_all add: nonNegative_def)
  with a show ?thesis by blast
qed

end
