(* ===== verification/ControllerUtil.thy ===== *)
theory ControllerUtil
  imports IpBlocksInfo SubnetAlloc
begin

text \<open>
  The other helpers of \<open>pkg/controllers/common/utils.go\<close>: the types of addresses and their allowed changes, default SubnetSets, network stacks, the conditions and
  annotations of Pods, and the names of the SubnetPorts of Pods.
\<close>

section \<open>Types of addresses\<close>

definition ipTypeStr :: "ip_address_type \<Rightarrow> string" where
  "ipTypeStr t = (case t of IPAddressTypeIPv4 \<Rightarrow> ''IPv4'' | IPAddressTypeIPv6 \<Rightarrow> ''IPv6'' | IPAddressTypeIPv4IPv6 \<Rightarrow> ''IPv4IPv6'' | IPAddressTypeOther s \<Rightarrow> s)"

abbreviation noType :: ip_address_type where "noType \<equiv> IPAddressTypeOther []"

fun intersectLoop :: "ip_address_type \<Rightarrow> ip_address_type list \<Rightarrow> gerror + ip_address_type" where
  "intersectLoop result [] = Inr result"
| "intersectLoop result (t # ts) =
    (if result = t then intersectLoop result ts
     else if result = IPAddressTypeIPv4IPv6 then intersectLoop t ts
     else if t = IPAddressTypeIPv4IPv6 then intersectLoop result ts
     else Inl (''no intersection between IP address types '' @ ipTypeStr result @ '' and '' @ ipTypeStr t))"

definition IntersectIPAddressTypes :: "ip_address_type list \<Rightarrow> gerror + ip_address_type" where
  "IntersectIPAddressTypes ts = (case ts of [] \<Rightarrow> Inl ''no IP address types provided'' | t # ts \<Rightarrow> intersectLoop t ts)"

fun subnetTypes :: "('w, 's, 'p, 'd, 'e) choice_env \<Rightarrow> string \<Rightarrow> string list \<Rightarrow> 'w \<Rightarrow> (go_error + ip_address_type list) \<times> 'w" where
  "subnetTypes env ns [] w = (Inr [], w)"
| "subnetTypes env ns (n # names) w =
    (case chGetSubnet env ns n w of
       (Inl e, w) \<Rightarrow> (Inl e, w)
     | (Inr cr, w) \<Rightarrow>
         (case subnetTypes env ns names w of
            (Inl e, w) \<Rightarrow> (Inl e, w)
          | (Inr ts, w) \<Rightarrow> (Inr ((if csIPAddressType cr = noType then IPAddressTypeIPv4 else csIPAddressType cr) # ts), w)))"

definition GetPrecreatedSubnetSetIPAddressType ::
  "('w, 's, 'p, 'd, 'e) choice_env \<Rightarrow> string \<Rightarrow> string list option \<Rightarrow> ip_address_type \<Rightarrow> ip_address_type \<Rightarrow> 'w \<Rightarrow> (go_error + ip_address_type) \<times> 'w" where
  "GetPrecreatedSubnetSetIPAddressType env ns names ty family w =
    (if ty \<noteq> noType then (Inr ty, w)
     else if names = None \<or> names = Some [] then (Inr IPAddressTypeIPv4, w)
     else
       case subnetTypes env ns (the names) w of
         (Inl e, w) \<Rightarrow> (Inl e, w)
       | (Inr ts, w) \<Rightarrow>
           (case IntersectIPAddressTypes (family # ts) of
              Inl e \<Rightarrow> (Inl (OtherError (''IP address types of Subnets in SubnetSet do not have intersection: '' @ e @ '', ipTypes: ['' @ str_join (map ipTypeStr (family # ts)) '' '' @ '']'')), w)
            | Inr t \<Rightarrow> (Inr t, w)))"

section \<open>Allowed changes\<close>

text \<open>\<open>None\<close> is a change that is allowed.\<close>

definition ValidateIPAddressTypeTransition :: "ip_address_type \<Rightarrow> ip_address_type \<Rightarrow> gerror option" where
  "ValidateIPAddressTypeTransition old new =
    (if old \<noteq> new \<and> old \<noteq> noType \<and> \<not> (new = IPAddressTypeIPv4IPv6 \<and> (old = IPAddressTypeIPv4 \<or> old = IPAddressTypeIPv6))
     then Some (''IPAddressType converting from '' @ ipTypeStr old @ '' to '' @ ipTypeStr new @ '' is not supported'') else None)"

definition ValidateAccessModeTransition :: "string \<Rightarrow> string \<Rightarrow> ip_address_type \<Rightarrow> ip_address_type \<Rightarrow> gerror option" where
  "ValidateAccessModeTransition oldMode newMode oldType newType =
    (if oldMode \<noteq> newMode \<and> oldMode \<noteq> [] \<and> (newType \<noteq> IPAddressTypeIPv4IPv6 \<or> oldType \<noteq> IPAddressTypeIPv6) then Some ''accessMode is immutable'' else None)"

text \<open>The added addresses come in the order of an iteration over a set; the message does not depend on it.\<close>

definition widened :: "ip_address_type \<Rightarrow> ip_address_type \<Rightarrow> bool" where
  "widened oldType newType \<longleftrightarrow> (oldType = IPAddressTypeIPv4 \<or> oldType = IPAddressTypeIPv6) \<and> newType = IPAddressTypeIPv4IPv6"

definition ValidateIPAddressesTransition :: "string list \<Rightarrow> string list \<Rightarrow> ip_address_type \<Rightarrow> ip_address_type \<Rightarrow> gerror option" where
  "ValidateIPAddressesTransition oldIPs newIPs oldType newType =
    (if set oldIPs = set newIPs then None
     else if \<not> widened oldType newType then Some ''ipAddresses can only be updated when ipAddressType transitions from IPv4 or IPv6 to IPv4IPv6''
     else if \<not> set oldIPs \<subseteq> set newIPs then Some ''existing ipAddresses cannot be removed or modified''
     else
       let added = filter (\<lambda>ip. ip \<notin> set oldIPs) newIPs in
       if oldType = IPAddressTypeIPv4 \<and> list_ex (\<lambda>ip. \<not> IsIPv6CIDR ip) added
       then Some ''only IPv6 addresses can be added when transitioning from IPv4 to IPv4IPv6''
       else if oldType = IPAddressTypeIPv6 \<and> list_ex IsIPv6CIDR added
       then Some ''only IPv4 addresses can be added when transitioning from IPv6 to IPv4IPv6''
       else None)"

definition ValidateIPBlockNamesTransition :: "string list \<Rightarrow> string list \<Rightarrow> ip_address_type \<Rightarrow> ip_address_type \<Rightarrow> gerror option" where
  "ValidateIPBlockNamesTransition oldBlocks newBlocks oldType newType =
    (if set oldBlocks = set newBlocks then None
     else if \<not> widened oldType newType then Some ''ipBlockNames can only be updated when ipAddressType transitions from IPv4 or IPv6 to IPv4IPv6''
     else if \<not> set oldBlocks \<subseteq> set newBlocks then Some ''existing ipBlockNames cannot be removed or modified''
     else None)"

section \<open>SubnetSets and network stacks\<close>

definition IsSharedSubnetPath :: "(string \<Rightarrow> string \<Rightarrow> gerror + subnet_cr list) \<Rightarrow> string \<Rightarrow> string \<Rightarrow> gerror + bool" where
  "IsSharedSubnetPath listByResource path ns =
    (case ConvertSubnetPathToAssociatedResource path of
       Inl e \<Rightarrow> Inl e
     | Inr r \<Rightarrow> (case listByResource ns r of Inl e \<Rightarrow> Inl e | Inr crs \<Rightarrow> Inr (crs \<noteq> [])))"

fun subnetsByName ::
  "('w, 's, 'p, 'd, 'e) choice_env \<Rightarrow> string \<Rightarrow> string list \<Rightarrow> ('w, 's, 'p) subnet_state \<Rightarrow> (go_error option \<times> nsx_subnet list) \<times> ('w, 's, 'p) subnet_state" where
  "subnetsByName env ns [] st = ((None, []), st)"
| "subnetsByName env ns (n # names) st =
    (case chGetSubnet env ns n (nsxOf st) of
       (Inl e, w) \<Rightarrow> ((Some e, []), withNSX st w)
     | (Inr cr, w) \<Rightarrow>
         (case GetSubnetByCR (chSubnets env) cr (withNSX st w) of
            (Inl e, st) \<Rightarrow> ((Some e, []), st)
          | (Inr s, st) \<Rightarrow> (case subnetsByName env ns names st of ((err, ss), st) \<Rightarrow> ((err, s # ss), st))))"

definition GetNSXSubnetsForSubnetSet ::
  "('w, 's, 'p, 'd, 'e) choice_env \<Rightarrow> subnet_set \<Rightarrow> ('w, 's, 'p) subnet_state \<Rightarrow> (go_error option \<times> nsx_subnet list) \<times> ('w, 's, 'p) subnet_state" where
  "GetNSXSubnetsForSubnetSet env sset st =
    (case ssSubnetNames sset of
       None \<Rightarrow> ((None, GetSubnetsByIndex (chSubnets env) st ''nsx-op/subnetset_uid'' (UID (ssMeta sset))), st)
     | Some names \<Rightarrow> subnetsByName env (Namespace (ssMeta sset)) names st)"

text \<open>The listings of SubnetSets get a label and its value.\<close>

definition GetDefaultSubnetSetByNamespace :: "(string \<Rightarrow> string \<times> string \<Rightarrow> gerror + subnet_set list) \<Rightarrow> string \<Rightarrow> string \<Rightarrow> gerror + subnet_set" where
  "GetDefaultSubnetSetByNamespace listSets ns resourceType =
    (case listSets ns (''nsx.vmware.com/default-network'', resourceType) of
       Inl e \<Rightarrow> Inl e
     | Inr [] \<Rightarrow> Inl ''default SubnetSet not found''
     | Inr [s] \<Rightarrow> Inr s
     | Inr (_ # _ # _) \<Rightarrow> Inl ''multiple default SubnetSets found'')"

definition listSubnetSet :: "(string \<Rightarrow> string \<times> string \<Rightarrow> gerror + subnet_set list) \<Rightarrow> string \<Rightarrow> string \<times> string \<Rightarrow> gerror + subnet_set option" where
  "listSubnetSet listSets ns label =
    (case listSets ns label of Inl e \<Rightarrow> Inl e | Inr ss \<Rightarrow> Inr (case ss of [] \<Rightarrow> None | s # _ \<Rightarrow> Some s))"

definition NetworkSubnetSetNameMap :: "string \<Rightarrow> string" where
  "NetworkSubnetSetNameMap t = (if t = ''pod'' then ''Pod'' else if t = ''vm'' then ''VirtualMachine'' else [])"

definition ListDefaultSubnetSet :: "(string \<Rightarrow> string \<times> string \<Rightarrow> gerror + subnet_set list) \<Rightarrow> string \<Rightarrow> string \<Rightarrow> gerror + subnet_set option" where
  "ListDefaultSubnetSet listSets ns subnetSetType =
    (case listSubnetSet listSets ns (''nsx.vmware.com/default-network'', subnetSetType) of
       Inl e \<Rightarrow> Inl e
     | Inr None \<Rightarrow> listSubnetSet listSets ns (''nsxoperator.vmware.com/default-subnetset-for'', NetworkSubnetSetNameMap subnetSetType)
     | Inr (Some s) \<Rightarrow> Inr (Some s))"

definition IsDefaultSubnetSet :: "subnet_set option \<Rightarrow> bool" where
  "IsDefaultSubnetSet s =
    (case s of
       None \<Rightarrow> False
     | Some s \<Rightarrow> map_of (ssLabels s) ''nsx.vmware.com/default-network'' \<noteq> None \<or> map_of (ssLabels s) ''nsxoperator.vmware.com/default-subnetset-for'' \<noteq> None
         \<or> Name (ssMeta s) = ''vm-default'' \<or> Name (ssMeta s) = ''pod-default'')"

text \<open>The error tells whether the listing of the NetworkInfos failed.\<close>

definition IsTepLessMode :: "(string \<Rightarrow> gerror + string list list) \<Rightarrow> string \<Rightarrow> gerror + bool" where
  "IsTepLessMode infos ns =
    (case infos ns of
       Inl e \<Rightarrow> Inl (''failed to list NetworkInfo in namespace '' @ ns @ '': '' @ e)
     | Inr [] \<Rightarrow> Inr False
     | Inr (stacks # _) \<Rightarrow> Inr (list_ex (\<lambda>s. s = ''VLANBackedVPC'') stacks))"

datatype mode_error = ListingFailed gerror | ModeDenied gerror

definition CheckNetworkStack :: "(string \<Rightarrow> gerror + string list list) \<Rightarrow> string \<Rightarrow> string \<Rightarrow> mode_error option" where
  "CheckNetworkStack infos ns resourceType =
    (case IsTepLessMode infos ns of
       Inl e \<Rightarrow> Some (ListingFailed e)
     | Inr tepless \<Rightarrow> if tepless then Some (ModeDenied (resourceType @ '' is not supported in VLANBackedVPC VPC'')) else None)"

definition CheckAccessModeOrVisibility :: "(string \<Rightarrow> gerror + string list list) \<Rightarrow> string \<Rightarrow> string \<Rightarrow> string \<Rightarrow> mode_error option" where
  "CheckAccessModeOrVisibility infos ns accessMode resourceType =
    (case IsTepLessMode infos ns of
       Inl e \<Rightarrow> Some (ListingFailed e)
     | Inr tepless \<Rightarrow>
         if resourceType = ''VpcIpAddressAllocation'' then
           (if tepless \<and> (accessMode = ''Private'' \<or> accessMode = ''PrivateTGW'')
            then Some (ModeDenied ''IPAddressVisibility other than External is not supported for VLANBackedVPC'') else None)
         else
           (if tepless \<and> (accessMode = ''Private'' \<or> accessMode = ''PrivateTGW'')
            then Some (ModeDenied ''AccessMode other than Public/L2Only is not supported for VLANBackedVPC'') else None))"

definition GetDefaultAccessMode :: "('w, 's, 'p, 'd, 'e) choice_env \<Rightarrow> ((string \<times> bool \<times> bool) list \<Rightarrow> go_error + string) \<Rightarrow> string \<Rightarrow> go_error + string" where
  "GetDefaultAccessMode env networkStack ns =
    (case GetVpcNetworkConfig env ns of
       Inl e \<Rightarrow> Inl e
     | Inr c \<Rightarrow> (case networkStack c of Inl e \<Rightarrow> Inl e | Inr stack \<Rightarrow> Inr (if stack = ''FullStackVPC'' then ''Private'' else ''Public'')))"

datatype namespace_type = SystemNs | SVServiceNs | NormalNs

definition GetNamespaceType :: "(string \<times> string) list \<Rightarrow> (string \<times> string) list \<Rightarrow> namespace_type" where
  "GetNamespaceType annotations labels =
    (if map_of annotations ''nsx.vmware.com/vpc_network_config'' = Some ''system'' then SystemNs
     else if map_of labels ''appplatform.vmware.com/serviceId'' \<noteq> None \<and> map_of labels ''managedBy'' = Some ''vSphere-AppPlatform'' then SVServiceNs
     else NormalNs)"

definition NodeIsMaster :: "(string \<times> string) list \<Rightarrow> bool" where
  "NodeIsMaster labels = list_ex (\<lambda>(k, v). k = ''node-role.kubernetes.io/master'' \<or> k = ''node-role.kubernetes.io/control-plane'') labels"

section \<open>Pods\<close>

text \<open>The phase of a Pod; no Pod has none.\<close>

definition PodIsDeleted :: "string option \<Rightarrow> bool" where
  "PodIsDeleted phase \<longleftrightarrow> phase = Some ''Succeeded'' \<or> phase = Some ''Failed''"

record pod_condition =
  coType :: string
  coStatus :: string
  coReason :: string
  coMessage :: string
  coTime :: int

definition GetExistingPodConditionOfType :: "string \<Rightarrow> pod_condition list \<Rightarrow> pod_condition option" where
  "GetExistingPodConditionOfType t cs = List.find (\<lambda>c. coType c = t) cs"

definition isPodConditionSemanticEqual :: "pod_condition option \<Rightarrow> pod_condition \<Rightarrow> bool" where
  "isPodConditionSemanticEqual matched new =
    (case matched of None \<Rightarrow> False | Some c \<Rightarrow> coStatus c = coStatus new \<and> coReason c = coReason new \<and> coMessage c = coMessage new)"

text \<open>The first condition of a type is changed in place.\<close>

fun setCondition :: "pod_condition \<Rightarrow> pod_condition list \<Rightarrow> pod_condition list" where
  "setCondition new [] = [new]"
| "setCondition new (c # cs) =
    (if coType c = coType new then c\<lparr>coReason := coReason new, coMessage := coMessage new, coStatus := coStatus new, coTime := coTime new\<rparr> # cs
     else c # setCondition new cs)"

definition MergePodStatusCondition :: "pod_condition list \<Rightarrow> pod_condition \<Rightarrow> bool \<times> pod_condition list" where
  "MergePodStatusCondition cs new =
    (if isPodConditionSemanticEqual (GetExistingPodConditionOfType (coType new) cs) new then (False, cs) else (True, setCondition new cs))"

text \<open>The status is written when a condition has changed.\<close>

fun mergeConditions :: "pod_condition list \<Rightarrow> pod_condition list \<Rightarrow> bool \<Rightarrow> bool \<times> pod_condition list" where
  "mergeConditions cs [] changed = (changed, cs)"
| "mergeConditions cs (n # ns) changed = (case MergePodStatusCondition cs n of (ch, cs) \<Rightarrow> mergeConditions cs ns (changed \<or> ch))"

definition UpdatePodStatusConditions ::
  "(pod_condition list \<Rightarrow> 'w \<Rightarrow> go_error option \<times> 'w) \<Rightarrow> pod_condition list \<Rightarrow> pod_condition list \<Rightarrow> 'w \<Rightarrow> go_error option \<times> 'w" where
  "UpdatePodStatusConditions updateStatus cs news w = (case mergeConditions cs news False of (changed, cs) \<Rightarrow> if changed then updateStatus cs w else (None, w))"

text \<open>The Pod is read again: its UID and conditions.\<close>

definition SetReconfigureNicStatus ::
  "('w \<Rightarrow> (go_error + string \<times> pod_condition list) \<times> 'w) \<Rightarrow> (pod_condition list \<Rightarrow> 'w \<Rightarrow> go_error option \<times> 'w) \<Rightarrow> object_meta \<Rightarrow> int \<Rightarrow> 'w \<Rightarrow> go_error option \<times> 'w" where
  "SetReconfigureNicStatus readPod updateStatus pod now w =
    (case readPod w of
       (Inl e, w) \<Rightarrow> (Some e, w)
     | (Inr (uid, cs), w) \<Rightarrow>
         if uid \<noteq> UID pod then (Some (OtherError (''Pod '' @ Namespace pod @ ''/'' @ Name pod @ '' UID changed from '' @ UID pod @ '' to '' @ uid)), w)
         else UpdatePodStatusConditions updateStatus cs
           [\<lparr>coType = ''PodNetworkReconfigRequired'', coStatus = ''True'', coReason = ''ReconfigureNic'', coMessage = [], coTime = now\<rparr>] w)"

definition IsConditionSemanticEqual :: "pod_condition option \<Rightarrow> pod_condition \<Rightarrow> bool" where
  "IsConditionSemanticEqual matched new = isPodConditionSemanticEqual matched new"

text \<open>The annotation that lists the interfaces to configure again.\<close>

definition nicAnnotation :: "string option \<Rightarrow> string \<Rightarrow> string" where
  "nicAnnotation old value =
    (case old of
       None \<Rightarrow> value
     | Some v \<Rightarrow> if v = [] \<or> value = ''true'' then value else if \<not> str_contains v value then v @ '', '' @ value else v)"

definition UpdateReconfigureNicAnnotation ::
  "('w \<Rightarrow> (go_error + (string \<times> string) list option) \<times> 'w) \<Rightarrow> ((string \<times> string) list \<Rightarrow> 'w \<Rightarrow> go_error option \<times> 'w) \<Rightarrow> string \<Rightarrow> 'w \<Rightarrow> go_error option \<times> 'w" where
  "UpdateReconfigureNicAnnotation readAnnotations update value w =
    (case readAnnotations w of
       (Inl e, w) \<Rightarrow> (Some e, w)
     | (Inr anno, w) \<Rightarrow>
         let anno = (case anno of None \<Rightarrow> [] | Some a \<Rightarrow> a) in
         update (AList.update ''nsx/reconfigure-nic'' (nicAnnotation (map_of anno ''nsx/reconfigure-nic'') value) anno) w)"

fun cidrHit :: "string list \<Rightarrow> IP \<Rightarrow> bool \<Rightarrow> gerror + bool" where
  "cidrHit [] ip hasPath = Inr False"
| "cidrHit (c # cs) ip hasPath =
    (case ParseCIDR c of
       None \<Rightarrow> Inl (''invalid CIDR address: '' @ c)
     | Some (_, net) \<Rightarrow> if IPNet_Contains net ip \<and> hasPath then Inr True else cidrHit cs ip hasPath)"

fun GetSubnetByIP :: "nsx_subnet list \<Rightarrow> IP \<Rightarrow> gerror + string" where
  "GetSubnetByIP [] ip = Inl (''failed to find Subnet matching IP '' @ IP_String ip)"
| "GetSubnetByIP (s # ss) ip =
    (case cidrHit (suIpAddresses s) ip (suPath s \<noteq> None) of
       Inl e \<Rightarrow> Inl e
     | Inr hit \<Rightarrow> if hit then Inr (the (suPath s)) else GetSubnetByIP ss ip)"

text \<open>The SubnetPorts of a Pod come from an index of the client; owner references are a kind and a UID.\<close>

definition GetSubnetPortForPod ::
  "(string \<Rightarrow> gerror + (object_meta \<times> (string \<times> string) list) list) \<Rightarrow> object_meta option \<Rightarrow> gerror + object_meta option" where
  "GetSubnetPortForPod listByPod pod =
    (case pod of
       None \<Rightarrow> Inr None
     | Some p \<Rightarrow>
         (case listByPod (Namespace p @ ''/'' @ Name p) of
            Inl e \<Rightarrow> Inl e
          | Inr sps \<Rightarrow> Inr (map_option fst (List.find (\<lambda>(m, refs). (''Pod'', UID p) \<in> set refs) sps))))"

text \<open>\<open>random\<close> is the random string of five characters.\<close>

definition trimRight :: "string \<Rightarrow> string" where
  "trimRight s = rev (dropWhile (\<lambda>c. c = CHR ''-'' \<or> c = CHR ''.'') (rev s))"

definition GenerateSubnetPortName :: "string \<Rightarrow> object_meta \<Rightarrow> int \<Rightarrow> string" where
  "GenerateSubnetPortName random pod attempt =
    trimRight (take 57 (Name pod)) @ ''-'' @ (if attempt = 0 then take 5 (UID pod) else random)"

text \<open>A node of NSX is its unique identifier, if it is not nil.\<close>

datatype node_error = NoReader | NodeNotFound string | ManyNodes string "string list"

definition GetNodeByName :: "(string \<Rightarrow> (string option \<times> 'n) option list) option \<Rightarrow> string \<Rightarrow> node_error + (string option \<times> 'n) option" where
  "GetNodeByName reader nodeName =
    (case reader of
       None \<Rightarrow> Inl NoReader
     | Some byName \<Rightarrow>
         (case byName nodeName of
            [] \<Rightarrow> Inl (NodeNotFound nodeName)
          | [n] \<Rightarrow> Inr n
          | ns \<Rightarrow> Inl (ManyNodes nodeName (map (\<lambda>n. case Option.bind n fst of None \<Rightarrow> ''<nil>'' | Some i \<Rightarrow> i) ns))))"

definition GetStsUID :: "nsx_port option \<Rightarrow> string option" where
  "GetStsUID p = (case p of None \<Rightarrow> Some [] | Some p \<Rightarrow> FindTag (ptTags p) ''nsx-op/sts_uid'')"

definition IsStatefulSetSubnetPort :: "nsx_port option \<Rightarrow> bool" where
  "IsStatefulSetSubnetPort p \<longleftrightarrow> GetStsUID p \<noteq> Some []"

section \<open>Properties\<close>

text \<open>The address families of a type. The intersection of types is the type of the common families, and fails exactly when there is none.\<close>

definition families :: "ip_address_type \<Rightarrow> nat set" where
  "families t = (if t \<in> {IPAddressTypeIPv4, IPAddressTypeIPv4IPv6} then {4} else {}) \<union> (if t \<in> {IPAddressTypeIPv6, IPAddressTypeIPv4IPv6} then {6} else {})"

definition knownType :: "ip_address_type \<Rightarrow> bool" where
  "knownType t \<longleftrightarrow> t \<in> {IPAddressTypeIPv4, IPAddressTypeIPv6, IPAddressTypeIPv4IPv6}"

lemma families_eq: "knownType a \<Longrightarrow> knownType b \<Longrightarrow> families a = families b \<longleftrightarrow> a = b"
  by (auto simp: knownType_def families_def)

lemma families_superset: "knownType a \<Longrightarrow> knownType b \<Longrightarrow> IsSupersetIPAddressTypes a b \<longleftrightarrow> families b \<subseteq> families a"
  by (auto simp: knownType_def families_def IsSupersetIPAddressTypes_def)

lemma intersect_step:
  assumes "knownType r" "knownType t" "r \<noteq> t" "r \<noteq> IPAddressTypeIPv4IPv6" "t \<noteq> IPAddressTypeIPv4IPv6"
  shows "families r \<inter> families t = {}"
  using assms by (auto simp: knownType_def families_def)

lemma intersectLoop_families:
  assumes "knownType r" "\<forall>t \<in> set ts. knownType t"
  shows "case intersectLoop r ts of Inl _ \<Rightarrow> families r \<inter> (\<Inter>t \<in> set ts. families t) = {}
    | Inr u \<Rightarrow> knownType u \<and> families u = families r \<inter> (\<Inter>t \<in> set ts. families t)"
  using assms
proof (induction ts arbitrary: r)
  case (Cons t ts)
  have dual: "families x \<subseteq> families IPAddressTypeIPv4IPv6" for x by (auto simp: families_def)
  consider "r = t" | "r \<noteq> t" "r = IPAddressTypeIPv4IPv6" | "r \<noteq> t" "r \<noteq> IPAddressTypeIPv4IPv6" "t = IPAddressTypeIPv4IPv6"
    | "r \<noteq> t" "r \<noteq> IPAddressTypeIPv4IPv6" "t \<noteq> IPAddressTypeIPv4IPv6" by blast
  then show ?case
  proof cases
    case 1
    then show ?thesis using Cons.IH [of r] Cons.prems by (auto split: sum.splits)
  next
    case 2
    then show ?thesis using Cons.IH [of t] Cons.prems dual by (auto split: sum.splits)
  next
    case 3
    then show ?thesis using Cons.IH [of r] Cons.prems dual [of r] by (auto split: sum.splits)
  next
    case 4
    then show ?thesis using intersect_step [of r t] Cons.prems by auto
  qed
qed auto

text \<open>C28. The intersection of address types has exactly the address families that all of them have, and is an error exactly when they have none in common.\<close>

theorem IntersectIPAddressTypes_families:
  assumes "ts \<noteq> []" "\<forall>t \<in> set ts. knownType t"
  shows "case IntersectIPAddressTypes ts of Inl _ \<Rightarrow> (\<Inter>t \<in> set ts. families t) = {}
    | Inr u \<Rightarrow> knownType u \<and> families u = (\<Inter>t \<in> set ts. families t)"
proof (cases ts)
  case (Cons t ts')
  then show ?thesis using intersectLoop_families [of t ts'] assms(2) by (auto simp: IntersectIPAddressTypes_def split: sum.splits)
qed (use assms(1) in simp)

theorem IntersectIPAddressTypes_families_witness:
  "IntersectIPAddressTypes [IPAddressTypeIPv4IPv6, IPAddressTypeIPv6, IPAddressTypeIPv4IPv6] = Inr IPAddressTypeIPv6 \<and> families IPAddressTypeIPv6 = {6}"
proof -
  let ?ts = "[IPAddressTypeIPv4IPv6, IPAddressTypeIPv6, IPAddressTypeIPv4IPv6]"
  have "IntersectIPAddressTypes ?ts = Inr IPAddressTypeIPv6" by code_simp
  with IntersectIPAddressTypes_families [of ?ts] show ?thesis by (auto simp: knownType_def families_def)
qed

text \<open>The names of the SubnetPorts of Pods are DNS labels of at most 63 characters, whose part before the suffix does not end with a separator.\<close>

lemma trimRight_length: "length (trimRight s) \<le> length s"
  unfolding trimRight_def length_rev using length_dropWhile_le [of _ "rev s"] by simp

lemma GenerateSubnetPortName_bounded: "length random = 5 \<Longrightarrow> length (GenerateSubnetPortName random pod attempt) \<le> 63"
  using trimRight_length [of "take 57 (Name pod)"] by (auto simp: GenerateSubnetPortName_def)

lemma trimRight_end: "trimRight s \<noteq> [] \<Longrightarrow> last (trimRight s) \<noteq> CHR ''-'' \<and> last (trimRight s) \<noteq> CHR ''.''"
  unfolding trimRight_def rev_is_Nil_conv last_rev using hd_dropWhile [of "\<lambda>c. c = CHR ''-'' \<or> c = CHR ''.''" "rev s"] by blast

text \<open>Defect: an interface whose name is a prefix of a recorded one is not added, because the test looks for a substring and not for an entry of the list.\<close>

lemma nic_prefix_dropped: "nicAnnotation (Some (''eth1'' @ s)) ''eth1'' = ''eth1'' @ s"
  by (simp add: nicAnnotation_def HasPrefix_def)

text \<open>A merged condition is found again, the conditions of other types are untouched, and merging it again changes nothing.\<close>

lemma setCondition_find:
  "GetExistingPodConditionOfType t (setCondition new cs)
    = (if t = coType new
       then Some (case GetExistingPodConditionOfType t cs of None \<Rightarrow> new
         | Some c \<Rightarrow> c\<lparr>coReason := coReason new, coMessage := coMessage new, coStatus := coStatus new, coTime := coTime new\<rparr>)
       else GetExistingPodConditionOfType t cs)"
  by (induction cs) (auto simp: GetExistingPodConditionOfType_def)

lemma MergePodStatusCondition_spec:
  assumes "MergePodStatusCondition cs new = (changed, cs')"
  shows "isPodConditionSemanticEqual (GetExistingPodConditionOfType (coType new) cs') new \<and> MergePodStatusCondition cs' new = (False, cs')
    \<and> (\<forall>t. t \<noteq> coType new \<longrightarrow> GetExistingPodConditionOfType t cs' = GetExistingPodConditionOfType t cs) \<and> (cs' \<noteq> cs \<longrightarrow> changed)"
proof -
  have "isPodConditionSemanticEqual (GetExistingPodConditionOfType (coType new) cs') new"
    using assms by (auto simp: MergePodStatusCondition_def setCondition_find isPodConditionSemanticEqual_def split: if_splits option.splits)
  moreover have "GetExistingPodConditionOfType t cs' = GetExistingPodConditionOfType t cs" if "t \<noteq> coType new" for t
    using assms that by (auto simp: MergePodStatusCondition_def setCondition_find split: if_splits)
  ultimately show ?thesis using assms by (auto simp: MergePodStatusCondition_def split: if_splits)
qed

text \<open>The Subnet found for an address has a network that contains it.\<close>

lemma cidrHit_True: "cidrHit cs ip b = Inr True \<Longrightarrow> b \<and> (\<exists>c \<in> set cs. \<exists>a net. ParseCIDR c = Some (a, net) \<and> IPNet_Contains net ip)"
  by (induction cs) (auto split: option.splits if_splits)

lemma GetSubnetByIP_contains:
  "GetSubnetByIP ss ip = Inr p \<Longrightarrow>
    \<exists>s \<in> set ss. suPath s = Some p \<and> (\<exists>c \<in> set (suIpAddresses s). \<exists>a net. ParseCIDR c = Some (a, net) \<and> IPNet_Contains net ip)"
proof (induction ss)
  case (Cons s ss)
  obtain hit where h: "cidrHit (suIpAddresses s) ip (suPath s \<noteq> None) = Inr hit" using Cons.prems by (auto split: sum.splits)
  show ?case
  proof (cases hit)
    case True
    then show ?thesis using h Cons.prems cidrHit_True [of "suIpAddresses s" ip "suPath s \<noteq> None"] by force
  next
    case False
    then show ?thesis using h Cons by auto
  qed
qed simp

end
