(* ===== verification/IpAllocation.thy ===== *)
theory IpAllocation
  imports VpcChild
begin

text \<open>
  The IP address allocations of a VPC: \<open>pkg/nsx/services/ipaddressallocation\<close>. An IPAddressAllocation becomes one NSX allocation, whose addresses are
  copied to the status of the object; while a cluster is restored, the external address of an AddressBinding is reserved by an
  allocation of its own.
\<close>

section \<open>Data\<close>

record ip_allocation =
  iaMeta :: object_meta
  iaVisibility :: string
  iaAllocationSize :: int
  iaAllocationIPs :: string
  iaIPv6AllocationPrefixLength :: int
  iaIPAddressType :: string
  iaUsedFor :: string
  iaIPBlockName :: string
  iaStatusIPs :: string

record address_binding =
  abMeta :: object_meta
  abIPAddressAllocationName :: string
  abStatusIP :: string

datatype alloc_object = AllocCR ip_allocation | BindingCR address_binding

record nsx_allocation =
  alId :: string
  alDisplayName :: string
  alTags :: "nsx_tag list"
  alIpAddressType :: "string option"
  alAllocationIps :: "string option"
  alAllocationSize :: "int option"
  alIpv6AllocationPrefixLength :: "int option"
  alIpBlock :: "string option"
  alUsedFor :: "string list"
  alVisibility :: "string option"
  alPath :: "string option"
  alParentPath :: "string option"
  alMarkedForDelete :: "bool option"

type_synonym alloc_value =
  "string \<times> string \<times> nsx_tag list \<times> int option \<times> string option \<times> string option \<times> int option \<times> string option \<times> string list"

text \<open>\<open>aeLoadBalancerVPC\<close> is the load balancer VPC in the network configuration of a Namespace, if it has one; \<open>aeFrontend\<close> is the constant
  of the SDK for allocations of load balancers.\<close>

record ('w, 's, 'd, 'e) alloc_env =
  aeClient :: "('w, nsx_allocation) child_client"
  aeOps :: "('s, nsx_allocation) indexer_ops"
  aeTree :: "('w, nsx_allocation, 'd) tree_client"
  aeApi :: converter
  aeLoadBalancerVPC :: "string \<Rightarrow> gerror + string option"
  aeListVPCInfo :: "string \<Rightarrow> vpc_resource_info list"
  aeNamespaceUID :: "string \<Rightarrow> string"
  aeCluster :: string
  aeFrontend :: string
  aeUUID :: "nat \<Rightarrow> string"
  aeEnc :: "alloc_value \<Rightarrow> 'e"

record ('w, 's) alloc_state =
  asNSX :: 'w
  asStore :: 's

section \<open>The store\<close>

definition allocKey :: "nsx_allocation \<Rightarrow> string" where "allocKey a = alId a"

definition allocIndexers :: "string \<Rightarrow> nsx_allocation \<Rightarrow> string list" where
  "allocIndexers name a =
    (if name \<in> {''nsx-op/ipaddressallocation_uid'', ''nsx-op/addressbinding_uid'', ''nsx-op/subnetport_uid''} then tagValues (alTags a) name
     else if name = ''indexedByVPCPath'' then (case IndexByVPCFunc (IxVpcIpAddressAllocation (alParentPath a)) of Inl _ \<Rightarrow> [] | Inr ps \<Rightarrow> ps)
     else [])"

definition allocStore_Apply :: "('s, nsx_allocation) indexer_ops \<Rightarrow> nsx_allocation \<Rightarrow> 's \<Rightarrow> 's" where
  "allocStore_Apply ops a s = (if alMarkedForDelete a = Some True then ixDelete ops s a else ixAdd ops s a)"

definition alloc_GetByUID :: "('s, nsx_allocation) indexer_ops \<Rightarrow> 's \<Rightarrow> string \<Rightarrow> nsx_allocation option" where
  "alloc_GetByUID ops s uid =
    (case concat (map (\<lambda>index. ixByIndex ops s index uid)
        [''nsx-op/ipaddressallocation_uid'', ''nsx-op/addressbinding_uid'', ''nsx-op/subnetport_uid'']) of
       [] \<Rightarrow> None | a # _ \<Rightarrow> Some a)"

definition indexedIPAddressAllocation :: "('w, 's, 'd, 'e) alloc_env \<Rightarrow> ('w, 's) alloc_state \<Rightarrow> string \<Rightarrow> nsx_allocation option" where
  "indexedIPAddressAllocation env st uid = alloc_GetByUID (aeOps env) (asStore st) uid"

definition alloc_GetByVPCPath :: "('s, nsx_allocation) indexer_ops \<Rightarrow> 's \<Rightarrow> string \<Rightarrow> nsx_allocation list" where
  "alloc_GetByVPCPath ops s vpcPath = ixByIndex ops s ''indexedByVPCPath'' vpcPath"

definition alloc_DeleteMultipleObjects :: "('s, nsx_allocation) indexer_ops \<Rightarrow> 's \<Rightarrow> nsx_allocation list \<Rightarrow> 's" where
  "alloc_DeleteMultipleObjects ops s allocations = foldl (ixDelete ops) s allocations"

section \<open>Comparison\<close>

definition alloc_Value :: "nsx_allocation \<Rightarrow> alloc_value" where
  "alloc_Value a =
    (alId a, alDisplayName a, alTags a, alAllocationSize a, alVisibility a, alIpAddressType a, alIpv6AllocationPrefixLength a, alIpBlock a, alUsedFor a)"

section \<open>The builder\<close>

definition convertIpAddressBlockVisibility :: "string \<Rightarrow> string" where
  "convertIpAddressBlockVisibility visibility =
    (if visibility = [] then ''Private'' else if visibility = ''PrivateTGW'' then ''PRIVATE_TGW'' else visibility)"

definition ipAddressTypeToNSX :: "string \<Rightarrow> string" where
  "ipAddressTypeToNSX ipAddressType = (if ipAddressType = ''IPv6'' then ''IPV6'' else ''IPV4'')"

definition isLBAllocation :: "ip_allocation \<Rightarrow> bool" where
  "isLBAllocation ob \<longleftrightarrow> iaUsedFor ob = ''LB_FRONTEND''"

definition alloc_getVPCInfo :: "('w, 's, 'd, 'e) alloc_env \<Rightarrow> string \<Rightarrow> bool \<Rightarrow> gerror + vpc_resource_info list" where
  "alloc_getVPCInfo env ns isLB =
    (if isLB then
       (case aeLoadBalancerVPC env ns of
          Inl err \<Rightarrow> Inl err
        | Inr nc \<Rightarrow>
            if nc \<noteq> None \<and> nc \<noteq> Some [] then
              (case ParseVPCResourcePath (the nc) of Inl err \<Rightarrow> Inl err | Inr info \<Rightarrow> Inr [info])
            else Inr (aeListVPCInfo env ns))
     else Inr (aeListVPCInfo env ns))"

definition getVPCInfoForCR :: "('w, 's, 'd, 'e) alloc_env \<Rightarrow> ip_allocation \<Rightarrow> gerror + vpc_resource_info list" where
  "getVPCInfoForCR env ob = alloc_getVPCInfo env (Namespace (iaMeta ob)) (isLBAllocation ob)"

definition buildIPBlockPath :: "string \<Rightarrow> string \<Rightarrow> gerror + string option" where
  "buildIPBlockPath rawBlock orgID =
    (let rawBlock = TrimSpace rawBlock in
     if rawBlock = [] then Inr None
     else
       let (projectID, ipBlockID, found) = str_cut CHR '':'' rawBlock;
           projectID = TrimSpace projectID; ipBlockID = TrimSpace ipBlockID in
       if \<not> found \<or> ipBlockID = [] \<or> list_ex (\<lambda>c. c = CHR '':'' \<or> c = CHR ''/'') (projectID @ ipBlockID)
       then Inl (''invalid IPBlockName format '' @ rawBlock)
       else if projectID = [] then Inr (Some (''/infra/ip-blocks/'' @ ipBlockID))
       else Inr (Some (''/orgs/'' @ orgID @ ''/projects/'' @ projectID @ ''/infra/ip-blocks/'' @ ipBlockID)))"

definition buildIPAddressAllocationTags :: "('w, 's, 'd, 'e) alloc_env \<Rightarrow> k8s_object \<Rightarrow> string \<Rightarrow> nsx_tag list" where
  "buildIPAddressAllocationTags env ob ns = BuildBasicTags (aeCluster env) ob (aeNamespaceUID env ns)"

definition allocationIdExists :: "('w, 's, 'd, 'e) alloc_env \<Rightarrow> ('w, 's) alloc_state \<Rightarrow> string \<Rightarrow> bool" where
  "allocationIdExists env st i \<longleftrightarrow> GetByKey (aeOps env) (asStore st) i \<noteq> None"

definition buildIPAddressAllocationName :: "string \<Rightarrow> string option" where
  "buildIPAddressAllocationName name = truncatedName name"

definition BuildIPAddressAllocationID :: "('w, 's, 'd, 'e) alloc_env \<Rightarrow> ('w, 's) alloc_state \<Rightarrow> string \<Rightarrow> nsx_tag list \<Rightarrow> string option" where
  "BuildIPAddressAllocationID env st name tags = namespacedID (aeUUID env) (allocationIdExists env st) name tags"

text \<open>The addresses, the size and the prefix length asked for: explicit addresses, else those to restore, else a prefix length for IPv6 and a size for
  IPv4.\<close>

definition requestedIPs :: "ip_allocation \<Rightarrow> bool \<Rightarrow> string option \<times> int option \<times> int option" where
  "requestedIPs ob restoreMode =
    (if iaAllocationIPs ob \<noteq> [] then (Some (iaAllocationIPs ob), None, None)
     else if restoreMode \<and> iaStatusIPs ob \<noteq> [] then (Some (iaStatusIPs ob), None, None)
     else if ipAddressTypeToNSX (iaIPAddressType ob) = ''IPV6'' then
       (None, None, Some (if iaIPv6AllocationPrefixLength ob = 0 then 64 else iaIPv6AllocationPrefixLength ob))
     else (None, Some (iaAllocationSize ob), None))"

definition subnetPortTags :: "bool \<Rightarrow> object_meta option \<Rightarrow> nsx_tag list" where
  "subnetPortTags restoreMode subnetPort =
    (case subnetPort of
       Some p \<Rightarrow> if restoreMode then [mk_tag ''nsx-op/subnetport_name'' (Name p), mk_tag ''nsx-op/subnetport_uid'' (UID p)] else []
     | None \<Rightarrow> [])"

text \<open>The allocation of an IPAddressAllocation: \<open>None\<close> is a panic or a loop in the generation of the identifier.\<close>

definition buildForCR :: "('w, 's, 'd, 'e) alloc_env \<Rightarrow> ('w, 's) alloc_state \<Rightarrow> ip_allocation \<Rightarrow> object_meta option \<Rightarrow> bool \<Rightarrow>
   (gerror + (nsx_allocation \<times> vpc_resource_info list) option) option" where
  "buildForCR env st ob subnetPort restoreMode =
    (let meta = iaMeta ob; ipType = ipAddressTypeToNSX (iaIPAddressType ob) in
     case getVPCInfoForCR env ob of
       Inl err \<Rightarrow> Some (Inl err)
     | Inr [] \<Rightarrow> Some (Inl (''failed to find VPCInfo for IPAddressAllocation CR '' @ Name meta @ '' in Namespace '' @ Namespace meta))
     | Inr (v # vs) \<Rightarrow>
         (case buildIPBlockPath (iaIPBlockName ob) (OrgID v) of
            Inl err \<Rightarrow> Some (Inl err)
          | Inr ipBlock \<Rightarrow>
              let (ips, size, prefix) = requestedIPs ob restoreMode;
                  tags = buildIPAddressAllocationTags env (ObjIPAddressAllocation meta) (Namespace meta)
                    @ (if isLBAllocation ob then [mk_tag ''nsx-op/lb'' ''true''] else []) @ subnetPortTags restoreMode subnetPort in
              Option.bind (BuildIPAddressAllocationID env st (Name meta) tags) (\<lambda>i.
              Option.bind (buildIPAddressAllocationName (Name meta)) (\<lambda>n.
                Some (Inr (Some (\<lparr>alId = i, alDisplayName = n, alTags = tags, alIpAddressType = Some ipType, alAllocationIps = ips, alAllocationSize = size,
                  alIpv6AllocationPrefixLength = prefix, alIpBlock = ipBlock, alUsedFor = (if isLBAllocation ob then [aeFrontend env] else []),
                  alVisibility = (if ipType \<noteq> ''IPV6'' then Some (ToUpper (convertIpAddressBlockVisibility (iaVisibility ob))) else None),
                  alPath = None, alParentPath = None, alMarkedForDelete = None\<rparr>, v # vs)))))))"

definition buildForBinding :: "('w, 's, 'd, 'e) alloc_env \<Rightarrow> ('w, 's) alloc_state \<Rightarrow> address_binding \<Rightarrow> object_meta option \<Rightarrow> bool \<Rightarrow>
   (gerror + (nsx_allocation \<times> vpc_resource_info list) option) option" where
  "buildForBinding env st ob subnetPort restoreMode =
    (let meta = abMeta ob; ipType = (if IsIPv6 (abStatusIP ob) then ''IPV6'' else ''IPV4'') in
     if \<not> restoreMode \<or> subnetPort = None \<or> abIPAddressAllocationName ob \<noteq> [] then Some (Inr None)
     else
       let tags = buildIPAddressAllocationTags env (ObjAddressBinding meta) (Namespace meta) @ subnetPortTags restoreMode subnetPort in
       Option.bind (BuildIPAddressAllocationID env st (Name meta) tags) (\<lambda>i.
       Option.bind (buildIPAddressAllocationName (Name meta)) (\<lambda>n.
         Some (Inr (Some (\<lparr>alId = i, alDisplayName = n, alTags = tags, alIpAddressType = Some ipType, alAllocationIps = Some (abStatusIP ob),
           alAllocationSize = None, alIpv6AllocationPrefixLength = None, alIpBlock = None, alUsedFor = [],
           alVisibility = (if ipType \<noteq> ''IPV6'' then Some ''EXTERNAL'' else None), alPath = None, alParentPath = None, alMarkedForDelete = None\<rparr>,
           aeListVPCInfo env (Namespace meta)))))))"

definition BuildIPAddressAllocation :: "('w, 's, 'd, 'e) alloc_env \<Rightarrow> ('w, 's) alloc_state \<Rightarrow> alloc_object \<Rightarrow> object_meta option \<Rightarrow> bool \<Rightarrow>
   (gerror + (nsx_allocation \<times> vpc_resource_info list) option) option" where
  "BuildIPAddressAllocation env st ob subnetPort restoreMode =
    (case ob of AllocCR a \<Rightarrow> buildForCR env st a subnetPort restoreMode | BindingCR b \<Rightarrow> buildForBinding env st b subnetPort restoreMode)"

section \<open>The service\<close>

definition alloc_Apply :: "('w, 's, 'd, 'e) alloc_env \<Rightarrow> nsx_allocation \<Rightarrow> vpc_resource_info list \<Rightarrow> ('w, 's) alloc_state \<Rightarrow> go_error option \<times> ('w, 's) alloc_state" where
  "alloc_Apply env a vpcInfo st =
    (case vpcInfo of
       [] \<Rightarrow> (Some (OtherError ''no valid org and project for ipaddressallocation''), st)
     | v # _ \<Rightarrow>
         let ids = [OrgID v, ProjectID v, VPCID v];
             (patched, w) = ccPatch (aeClient env) ids (alId a) a (asNSX st);
             errPatch = TransNSXApiError (aeApi env) patched in
         (case ccGet (aeClient env) ids (alId a) w of
            (Inl e, w) \<Rightarrow>
              let errGet = TransNSXApiError (aeApi env) (Some e) in
              ((case (errGet, errPatch) of
                  (Some g, Some p) \<Rightarrow> Some (OtherError (''error get '' @ error_msg g @ '', error patch '' @ error_msg p))
                | _ \<Rightarrow> errGet), st\<lparr>asNSX := w\<rparr>)
          | (Inr new, w) \<Rightarrow>
              if alAllocationIps new = None then (Some (OtherError ''cidr not realized yet''), st\<lparr>asNSX := w\<rparr>)
              else (None, st\<lparr>asNSX := w, asStore := allocStore_Apply (aeOps env) new (asStore st)\<rparr>)))"

text \<open>What the new allocation takes from the one that is stored: an allocation that was restored has addresses and no size.\<close>

definition mergeExisting :: "nsx_allocation option \<Rightarrow> nsx_allocation \<Rightarrow> nsx_allocation" where
  "mergeExisting existing a =
    (case existing of
       None \<Rightarrow> a
     | Some e \<Rightarrow>
         (if alAllocationIps e \<noteq> None \<and> alAllocationSize e = None
          then a\<lparr>alAllocationSize := None, alIpv6AllocationPrefixLength := None, alAllocationIps := alAllocationIps e\<rparr> else a)
         \<lparr>alId := alId e, alDisplayName := alDisplayName e\<rparr>)"

text \<open>The result is the flag that the status has changed and the addresses in the status; \<open>allocate\<close> is the part after the comparison.\<close>

definition allocate ::
  "('w, 's, 'd, 'e) alloc_env \<Rightarrow> ip_allocation \<Rightarrow> bool \<Rightarrow> nsx_allocation \<Rightarrow> vpc_resource_info list \<Rightarrow> ('w, 's) alloc_state \<Rightarrow>
   (go_error + bool) \<times> string \<times> ('w, 's) alloc_state" where
  "allocate env ob restoreMode a vpcInfo st =
    (let uid = UID (iaMeta ob); status = iaStatusIPs ob in
     case alloc_Apply env a vpcInfo st of
       (Some err, st) \<Rightarrow> (Inl err, status, st)
     | (None, st) \<Rightarrow>
         (case indexedIPAddressAllocation env st uid of
            None \<Rightarrow> (Inl (OtherError (''created ipaddressallocation not found in cache for '' @ uid)), status, st)
          | Some created \<Rightarrow>
              (case alAllocationIps created of
                 None \<Rightarrow> (Inl (OtherError (''ipaddressallocation '' @ uid @ '' didn'' @ [CHR 0x27] @ ''t realize available allocation_ips'')), status, st)
               | Some ips \<Rightarrow>
                   if restoreMode then
                     (if status = ips then (Inr False, status, st)
                      else (Inl (OtherError (''IP mismatches for the restored IPAddressAllocation CR '' @ uid @ '': got '' @ ips @ '', expecting '' @ status)), status, st))
                   else if status \<noteq> ips then (Inr True, ips, st) else (Inr False, status, st))))"

definition CreateOrUpdateIPAddressAllocation ::
  "('w, 's, 'd, 'e) alloc_env \<Rightarrow> ip_allocation \<Rightarrow> bool \<Rightarrow> ('w, 's) alloc_state \<Rightarrow> ((go_error + bool) \<times> string \<times> ('w, 's) alloc_state) option" where
  "CreateOrUpdateIPAddressAllocation env ob restoreMode st =
    (let uid = UID (iaMeta ob); status = iaStatusIPs ob in
     Option.bind (BuildIPAddressAllocation env st (AllocCR ob) None restoreMode) (\<lambda>built.
       case built of
         Inl err \<Rightarrow> Some (Inl (OtherError err), status, st)
       | Inr None \<Rightarrow> None
       | Inr (Some (a, vpcInfo)) \<Rightarrow>
           let existing = indexedIPAddressAllocation env st uid; a = mergeExisting existing a in
           case existing of
             Some e \<Rightarrow>
               if \<not> CompareResource (aeEnc env) alloc_Value e a then
                 (case alAllocationIps e of
                    Some ips \<Rightarrow> if status \<noteq> ips then Some (Inr True, ips, st) else Some (Inr False, status, st)
                  | None \<Rightarrow> Some (Inr False, status, st))
               else Some (allocate env ob restoreMode a vpcInfo st)
           | None \<Rightarrow> Some (allocate env ob restoreMode a vpcInfo st)))"

text \<open>Deletion: a nil path is dereferenced.\<close>

definition DeleteIPAddressAllocationByNSXResource ::
  "('w, 's, 'd, 'e) alloc_env \<Rightarrow> nsx_allocation \<Rightarrow> ('w, 's) alloc_state \<Rightarrow> (go_error option \<times> ('w, 's) alloc_state) option" where
  "DeleteIPAddressAllocationByNSXResource env a st =
    (case alPath a of
       None \<Rightarrow> None
     | Some path \<Rightarrow>
         (case ParseVPCResourcePath path of
            Inl err \<Rightarrow> Some (Some (OtherError err), st)
          | Inr info \<Rightarrow>
              (case ccDelete (aeClient env) [OrgID info, ProjectID info, VPCID info] (alId a) (asNSX st) of
                 (Some e, w) \<Rightarrow> Some (Some e, st\<lparr>asNSX := w\<rparr>)
               | (None, w) \<Rightarrow> Some (None, st\<lparr>asNSX := w, asStore := allocStore_Apply (aeOps env) (a\<lparr>alMarkedForDelete := Some True\<rparr>) (asStore st)\<rparr>))))"

datatype delete_target = TargetCR ip_allocation | TargetUID string | TargetKey string | TargetResource nsx_allocation

definition DeleteIPAddressAllocation ::
  "('w, 's, 'd, 'e) alloc_env \<Rightarrow> delete_target \<Rightarrow> ('w, 's) alloc_state \<Rightarrow> (go_error option \<times> ('w, 's) alloc_state) option" where
  "DeleteIPAddressAllocation env target st =
    (let found = (case target of
         TargetCR ob \<Rightarrow> indexedIPAddressAllocation env st (UID (iaMeta ob))
       | TargetUID uid \<Rightarrow> indexedIPAddressAllocation env st uid
       | TargetKey k \<Rightarrow> GetByKey (aeOps env) (asStore st) k
       | TargetResource a \<Rightarrow> Some a) in
     case found of None \<Rightarrow> Some (None, st) | Some a \<Rightarrow> DeleteIPAddressAllocationByNSXResource env a st)"

definition ownedByName :: "string \<Rightarrow> string \<Rightarrow> nsx_allocation \<Rightarrow> bool" where
  "ownedByName ns name a \<longleftrightarrow>
    ns \<in> set (tagValues (alTags a) ''nsx-op/namespace'') \<and> name \<in> set (tagValues (alTags a) ''nsx-op/ipaddressallocation_name'')"

fun deleteEach ::
  "('w, 's, 'd, 'e) alloc_env \<Rightarrow> nsx_allocation list \<Rightarrow> ('w, 's) alloc_state \<Rightarrow> (go_error option \<times> ('w, 's) alloc_state) option" where
  "deleteEach env [] st = Some (None, st)"
| "deleteEach env (a # as) st =
    (case DeleteIPAddressAllocation env (TargetResource a) st of
       None \<Rightarrow> None
     | Some (Some err, st) \<Rightarrow> Some (Some err, st)
     | Some (None, st) \<Rightarrow> deleteEach env as st)"

definition DeleteIPAddressAllocationByNamespacedName ::
  "('w, 's, 'd, 'e) alloc_env \<Rightarrow> string \<Rightarrow> string \<Rightarrow> ('w, 's) alloc_state \<Rightarrow> (go_error option \<times> ('w, 's) alloc_state) option" where
  "DeleteIPAddressAllocationByNamespacedName env ns name st =
    deleteEach env (filter (ownedByName ns name) (ixList (aeOps env) (asStore st))) st"

definition GetIPAddressAllocationByOwner :: "('w, 's, 'd, 'e) alloc_env \<Rightarrow> ('w, 's) alloc_state \<Rightarrow> object_meta \<Rightarrow> nsx_allocation option" where
  "GetIPAddressAllocationByOwner env st owner = indexedIPAddressAllocation env st (UID owner)"

definition CreateIPAddressAllocationForAddressBinding ::
  "('w, 's, 'd, 'e) alloc_env \<Rightarrow> address_binding option \<Rightarrow> object_meta option \<Rightarrow> bool \<Rightarrow> ('w, 's) alloc_state \<Rightarrow>
   (go_error option \<times> ('w, 's) alloc_state) option" where
  "CreateIPAddressAllocationForAddressBinding env addressBinding subnetPort restoreMode st =
    (if \<not> restoreMode then Some (None, st)
     else case addressBinding of
       None \<Rightarrow> Some (None, st)
     | Some b \<Rightarrow>
         if abStatusIP b = [] \<or> GetIPAddressAllocationByOwner env st (abMeta b) \<noteq> None then Some (None, st)
         else
           Option.bind (BuildIPAddressAllocation env st (BindingCR b) subnetPort restoreMode) (\<lambda>built.
             case built of
               Inl err \<Rightarrow> Some (Some (OtherError err), st)
             | Inr None \<Rightarrow> Some (None, st)
             | Inr (Some (a, vpcInfo)) \<Rightarrow> Some (alloc_Apply env a vpcInfo st)))"

definition DeleteIPAddressAllocationForAddressBinding ::
  "('w, 's, 'd, 'e) alloc_env \<Rightarrow> object_meta \<Rightarrow> ('w, 's) alloc_state \<Rightarrow> (go_error option \<times> ('w, 's) alloc_state) option" where
  "DeleteIPAddressAllocationForAddressBinding env owner st =
    (case GetIPAddressAllocationByOwner env st owner of
       None \<Rightarrow> Some (None, st)
     | Some a \<Rightarrow> DeleteIPAddressAllocationByNSXResource env a st)"

section \<open>Listing\<close>

definition ListIPAddressAllocationID :: "('w, 's, 'd, 'e) alloc_env \<Rightarrow> ('w, 's) alloc_state \<Rightarrow> string set" where
  "ListIPAddressAllocationID env st = indexValues (aeOps env) allocIndexers (asStore st) ''nsx-op/ipaddressallocation_uid''"

definition ListIPAddressAllocationWithAddressBinding :: "('w, 's, 'd, 'e) alloc_env \<Rightarrow> ('w, 's) alloc_state \<Rightarrow> nsx_allocation list" where
  "ListIPAddressAllocationWithAddressBinding env st =
    filter (\<lambda>a. FindTag (alTags a) ''nsx-op/ipaddressallocation_uid'' = Some [] \<and> FindTag (alTags a) ''nsx-op/addressbinding_uid'' \<noteq> Some [])
      (ixList (aeOps env) (asStore st))"

definition ListSubnetPortCRUIDFromNSXIPAddressAllocation :: "('w, 's, 'd, 'e) alloc_env \<Rightarrow> ('w, 's) alloc_state \<Rightarrow> string set" where
  "ListSubnetPortCRUIDFromNSXIPAddressAllocation env st = indexValues (aeOps env) allocIndexers (asStore st) ''nsx-op/subnetport_uid''"

definition ListIPAddressAllocationKeys :: "('w, 's, 'd, 'e) alloc_env \<Rightarrow> ('w, 's) alloc_state \<Rightarrow> string list" where
  "ListIPAddressAllocationKeys env st = map allocKey (ixList (aeOps env) (asStore st))"

definition GetIPAddressAllocationNamespace :: "nsx_allocation \<Rightarrow> string" where
  "GetIPAddressAllocationNamespace a = firstTag (alTags a) ''nsx-op/namespace''"

definition GetIPAddressAllocationUID :: "nsx_allocation \<Rightarrow> string" where
  "GetIPAddressAllocationUID a = firstTag (alTags a) ''nsx-op/ipaddressallocation_uid''"

section \<open>Clean-up\<close>

definition alloc_resource :: "nsx_allocation \<Rightarrow> nsx_allocation nsx_resource" where
  "alloc_resource a =
    \<lparr>ModelType = VpcIpAddressAllocationT, ResPath = alPath a, ResId = Some (alId a), ResDisplayName = Some (alDisplayName a),
     ResMarkedForDelete = alMarkedForDelete a, ResResourceType = None, ResFqdn = None, ResBody = a\<rparr>"

definition alloc_CleanupVPCChildResources ::
  "('w, 's, 'd, 'e) alloc_env \<Rightarrow> (nat \<Rightarrow> gerror option) \<Rightarrow> string \<Rightarrow> ('w, 's) alloc_state \<Rightarrow> (go_error option \<times> ('w, 's) alloc_state) option" where
  "alloc_CleanupVPCChildResources env ctxDone vpcPath st =
    (if vpcPath \<noteq> [] then
       Some (None, st\<lparr>asStore := alloc_DeleteMultipleObjects (aeOps env) (asStore st) (alloc_GetByVPCPath (aeOps env) (asStore st) vpcPath)\<rparr>)
     else
       let (allocations, s) = markAll (aeOps env) (\<lambda>a. a\<lparr>alMarkedForDelete := Some True\<rparr>) (asStore st) in
       map_option (\<lambda>(err, w, s). (err, st\<lparr>asNSX := w, asStore := s\<rparr>))
         (pagedDelete (aeTree env) (vpc_leaf ''VpcIpAddressAllocation'' ''ip-address-allocations'') (aeOps env) alloc_resource ctxDone allocations (asNSX st) s))"


section \<open>Properties\<close>

text \<open>What NSX keeps of an allocation that is written.\<close>

definition alloc_intent :: "nsx_allocation \<Rightarrow> alloc_value" where
  "alloc_intent a = alloc_Value a"

text \<open>The allocations that an owner has in the store, over the three indexes.\<close>

definition owned :: "('w, 's, 'd, 'e) alloc_env \<Rightarrow> 's \<Rightarrow> string \<Rightarrow> nsx_allocation set" where
  "owned env s uid = {a. ixGetByKey (aeOps env) s (allocKey a) = Some a
     \<and> (\<exists>i \<in> {''nsx-op/ipaddressallocation_uid'', ''nsx-op/addressbinding_uid'', ''nsx-op/subnetport_uid''}. uid \<in> set (tagValues (alTags a) i))}"

definition sole_owned :: "('w, 's, 'd, 'e) alloc_env \<Rightarrow> 's \<Rightarrow> string \<Rightarrow> bool" where
  "sole_owned env s uid \<longleftrightarrow> (\<forall>a \<in> owned env s uid. \<forall>b \<in> owned env s uid. a = b)"

locale ip_allocations =
  api: nsx_child "aeClient env" held alloc_intent + store: indexer "aeOps env" allocKey allocIndexers + compared: comparable allocKey alloc_Value "aeEnc env"
  for env :: "('w, 's, 'd, 'e) alloc_env" and held
begin

lemma get_owned:
  shows "alloc_GetByUID (aeOps env) s uid = Some a \<Longrightarrow> a \<in> owned env s uid"
    and "alloc_GetByUID (aeOps env) s uid = None \<Longrightarrow> owned env s uid = {}"
proof -
  let ?found = "concat (map (\<lambda>index. ixByIndex (aeOps env) s index uid)
     [''nsx-op/ipaddressallocation_uid'', ''nsx-op/addressbinding_uid'', ''nsx-op/subnetport_uid''])"
  have f: "set ?found = owned env s uid" by (auto simp: owned_def store.by_index_iff allocIndexers_def)
  have g: "alloc_GetByUID (aeOps env) s uid = (case ?found of [] \<Rightarrow> None | a # _ \<Rightarrow> Some a)" by (simp only: alloc_GetByUID_def)
  show "alloc_GetByUID (aeOps env) s uid = Some a \<Longrightarrow> a \<in> owned env s uid"
    and "alloc_GetByUID (aeOps env) s uid = None \<Longrightarrow> owned env s uid = {}"
    unfolding g f [symmetric] by (cases ?found; simp del: concat.simps list.map)+
qed

text \<open>After an update that NSX has accepted the owner has the new allocation, if it had no other before.\<close>

lemma owned_after_add:
  assumes "sole_owned env s uid" "uid \<in> set (tagValues (alTags c) ''nsx-op/ipaddressallocation_uid'')"
    and "\<And>e. alloc_GetByUID (aeOps env) s uid = Some e \<Longrightarrow> alId e = alId c"
  shows "owned env (ixAdd (aeOps env) s c) uid = {c}"
proof -
  have "a = c" if a: "a \<in> owned env (ixAdd (aeOps env) s c) uid" for a
  proof (cases "alId a = alId c")
    case True
    with a show ?thesis by (simp add: owned_def store.get_add allocKey_def)
  next
    case False
    with a have o': "a \<in> owned env s uid" by (simp add: owned_def store.get_add allocKey_def)
    then obtain e where e: "alloc_GetByUID (aeOps env) s uid = Some e" using get_owned(2) by fastforce
    have "a = e" using assms(1) o' get_owned(1) [OF e] by (auto simp: sole_owned_def)
    with assms(3) [OF e] False show ?thesis by simp
  qed
  moreover have "c \<in> owned env (ixAdd (aeOps env) s c) uid" using assms(2) by (auto simp: owned_def store.get_add)
  ultimately show ?thesis by blast
qed

lemma owned_after_delete:
  assumes "sole_owned env s uid" and "\<And>e. alloc_GetByUID (aeOps env) s uid = Some e \<Longrightarrow> alId e = alId c"
  shows "owned env (ixDelete (aeOps env) s c) uid = {}"
proof (rule ccontr)
  assume "owned env (ixDelete (aeOps env) s c) uid \<noteq> {}"
  then obtain a where a: "a \<in> owned env s uid" "alId a \<noteq> alId c" by (auto simp: owned_def store.get_delete allocKey_def split: if_splits)
  then obtain e where e: "alloc_GetByUID (aeOps env) s uid = Some e" using get_owned(2) by fastforce
  have "a = e" using assms(1) a(1) get_owned(1) [OF e] by (auto simp: sole_owned_def)
  with assms(2) [OF e] a(2) show False by simp
qed

lemma apply_ok:
  assumes "alloc_Apply env a vpcInfo st = (None, st')"
  shows "\<exists>v vs w1 c. vpcInfo = v # vs \<and> asStore st' = allocStore_Apply (aeOps env) c (asStore st) \<and> alAllocationIps c \<noteq> None
    \<and> (snd (ccPatch (aeClient env) [OrgID v, ProjectID v, VPCID v] (alId a) a (asNSX st)) = w1)
    \<and> (fst (ccPatch (aeClient env) [OrgID v, ProjectID v, VPCID v] (alId a) a (asNSX st)) = None \<longrightarrow> alloc_Value c = alloc_Value a)"
proof -
  obtain v vs where v: "vpcInfo = v # vs" using assms by (cases vpcInfo) (auto simp: alloc_Apply_def)
  let ?ids = "[OrgID v, ProjectID v, VPCID v]"
  obtain e w1 where p: "ccPatch (aeClient env) ?ids (alId a) a (asNSX st) = (e, w1)" by fastforce
  obtain c w2 where g: "ccGet (aeClient env) ?ids (alId a) w1 = (Inr c, w2)" "alAllocationIps c \<noteq> None"
    "asStore st' = allocStore_Apply (aeOps env) c (asStore st)"
    using assms v p by (auto simp: alloc_Apply_def TransNSXApiError_def split: prod.splits sum.splits option.splits if_splits)
  have "alloc_Value c = alloc_Value a" if "e = None"
    using api.patch_get [of ?ids "alId a" a "asNSX st" w1 c w2] p g(1) that by (simp add: alloc_intent_def)
  with v p g show ?thesis by auto
qed

lemma allocated:
  assumes "sole_owned env (asStore st) (UID (iaMeta ob))" "UID (iaMeta ob) \<in> set (tagValues (alTags a) ''nsx-op/ipaddressallocation_uid'')"
    and "\<And>e. indexedIPAddressAllocation env st (UID (iaMeta ob)) = Some e \<Longrightarrow> alId e = alId a"
    and run: "allocate env ob restoreMode a vpcs st = (Inr changed, status, st')"
  shows "\<exists>v vs c. vpcs = v # vs \<and> indexedIPAddressAllocation env st' (UID (iaMeta ob)) = Some c \<and> alAllocationIps c = Some status
    \<and> (changed \<longleftrightarrow> status \<noteq> iaStatusIPs ob)
    \<and> (alloc_Value c = alloc_Value a \<or> fst (ccPatch (aeClient env) [OrgID v, ProjectID v, VPCID v] (alId a) a (asNSX st)) \<noteq> None)"
proof -
  let ?uid = "UID (iaMeta ob)"
  have app: "alloc_Apply env a vpcs st = (None, st')" and ix: "\<exists>c. indexedIPAddressAllocation env st' ?uid = Some c \<and> alAllocationIps c = Some status"
    and ch: "changed \<longleftrightarrow> status \<noteq> iaStatusIPs ob"
    using run by (auto simp: allocate_def Let_def split: prod.splits option.splits if_splits)
  obtain c where c: "indexedIPAddressAllocation env st' ?uid = Some c" "alAllocationIps c = Some status" using ix by blast
  obtain v vs n where n: "vpcs = v # vs" "asStore st' = allocStore_Apply (aeOps env) n (asStore st)"
    "fst (ccPatch (aeClient env) [OrgID v, ProjectID v, VPCID v] (alId a) a (asNSX st)) = None \<longrightarrow> alloc_Value n = alloc_Value a"
    using apply_ok [OF app] by auto
  have "alloc_Value c = alloc_Value a" if v: "alloc_Value n = alloc_Value a"
  proof -
    have same: "alId n = alId a" "alTags n = alTags a" using v by (simp_all add: alloc_Value_def)
    have c': "c \<in> owned env (asStore st') ?uid" using c(1) get_owned(1) by (simp add: indexedIPAddressAllocation_def)
    have e: "alId e = alId n" if "alloc_GetByUID (aeOps env) (asStore st) ?uid = Some e" for e
      using that assms(3) same(1) by (simp add: indexedIPAddressAllocation_def)
    have "alMarkedForDelete n \<noteq> Some True"
      using c' n(2) owned_after_delete [OF assms(1) e] by (auto simp: allocStore_Apply_def)
    then have "owned env (asStore st') ?uid = {n}"
      using n(2) owned_after_add [OF assms(1) _ e] assms(2) same(2) by (simp add: allocStore_Apply_def)
    with c' v show ?thesis by simp
  qed
  with n c ch show ?thesis by blast
qed

end

lemma buildForCR_tags:
  assumes "buildForCR env st ob sp restoreMode = Some (Inr (Some (a, vpcs)))"
  shows "UID (iaMeta ob) \<in> set (tagValues (alTags a) ''nsx-op/ipaddressallocation_uid'')"
  using assms
  by (auto simp: buildForCR_def Let_def bind_eq_Some_conv buildIPAddressAllocationTags_def BuildBasicTags_def BuildClusterTags_def
      split: sum.splits list.splits prod.splits)

lemma mergeExisting_simps [simp]:
  "alTags (mergeExisting existing a) = alTags a"
  "existing = Some e \<Longrightarrow> alId (mergeExisting existing a) = alId e"
  by (auto simp: mergeExisting_def split: option.splits)



text \<open>Defect: the rule for restored allocations, which have addresses and no size, also applies to every IPv6 allocation that was made by its prefix length. The
  prefix length is dropped before the comparison, so that an unchanged allocation never compares equal: each reconciliation sends a PATCH without it.\<close>

theorem ipv6_reconcile_patches:
  assumes "comparable alloc_Value (aeEnc env)" "indexedIPAddressAllocation env st (UID (iaMeta ob)) = Some e"
    and "alAllocationIps e \<noteq> None" "alAllocationSize e = None" "alIpv6AllocationPrefixLength e = Some n"
    and b: "BuildIPAddressAllocation env st (AllocCR ob) None restoreMode = Some (Inr (Some (built, vpcs)))"
  shows "CreateOrUpdateIPAddressAllocation env ob restoreMode st = Some (allocate env ob restoreMode (mergeExisting (Some e) built) vpcs st)
    \<and> alIpv6AllocationPrefixLength (mergeExisting (Some e) built) = None"
proof -
  have p: "alIpv6AllocationPrefixLength (mergeExisting (Some e) built) = None" using assms(3,4) by (simp add: mergeExisting_def)
  then have "alloc_Value e \<noteq> alloc_Value (mergeExisting (Some e) built)" using assms(5) by (auto simp: alloc_Value_def)
  then have "CompareResource (aeEnc env) alloc_Value e (mergeExisting (Some e) built)" using comparable.compare_iff [OF assms(1)] by blast
  with p assms(2) b show ?thesis by (simp add: CreateOrUpdateIPAddressAllocation_def Let_def)
qed

text \<open>A rejected PATCH is not reported when NSX holds an allocation with addresses under the identifier.\<close>

lemma rejected_patch_ignored:
  assumes "ccPatch (aeClient env) [OrgID v, ProjectID v, VPCID v] (alId a) a (asNSX st) = (Some e, w1)"
    and "ccGet (aeClient env) [OrgID v, ProjectID v, VPCID v] (alId a) w1 = (Inr c, w2)" "alAllocationIps c \<noteq> None"
  shows "alloc_Apply env a (v # vs) st = (None, st\<lparr>asNSX := w2, asStore := allocStore_Apply (aeOps env) c (asStore st)\<rparr>)"
  using assms by (simp add: alloc_Apply_def Let_def)

text \<open>Deleting by name removes every allocation of the object, or stops at the first error; the others stay.\<close>

lemma deleteEach_spec:
  assumes "indexer (aeOps env) allocKey allocIndexers" "deleteEach env as st = Some (None, st')"
  shows "ixGetByKey (aeOps env) (asStore st') k = (if k \<in> allocKey ` set as then None else ixGetByKey (aeOps env) (asStore st) k)"
  using assms(2)
proof (induction as arbitrary: st)
  case (Cons a as)
  then obtain st1 where st1: "DeleteIPAddressAllocation env (TargetResource a) st = Some (None, st1)" "deleteEach env as st1 = Some (None, st')"
    by (auto split: option.splits prod.splits)
  then obtain w where "asStore st1 = ixDelete (aeOps env) (asStore st) (a\<lparr>alMarkedForDelete := Some True\<rparr>)"
    by (auto simp: DeleteIPAddressAllocation_def DeleteIPAddressAllocationByNSXResource_def allocStore_Apply_def split: option.splits sum.splits prod.splits)
  then show ?case using Cons.IH [OF st1(2)] indexer.get_delete [OF assms(1)] by (auto simp: allocKey_def)
qed simp

text \<open>The deletion by Namespace and name, when it succeeds, leaves in the store exactly the allocations of other objects.\<close>

theorem DeleteIPAddressAllocationByNamespacedName_exact:
  assumes "ip_allocations env held" "DeleteIPAddressAllocationByNamespacedName env ns name st = Some (None, st')"
  shows "set (ixList (aeOps env) (asStore st')) = {a \<in> set (ixList (aeOps env) (asStore st)).
    \<not> (ns \<in> set (tagValues (alTags a) ''nsx-op/namespace'') \<and> name \<in> set (tagValues (alTags a) ''nsx-op/ipaddressallocation_name''))}"
proof -
  note ix = ip_allocations.axioms(2) [OF assms(1)]
  let ?del = "filter (ownedByName ns name) (ixList (aeOps env) (asStore st))"
  have g: "ixGetByKey (aeOps env) (asStore st') k = (if k \<in> allocKey ` set ?del then None else ixGetByKey (aeOps env) (asStore st) k)" for k
    using deleteEach_spec [OF ix] assms(2) unfolding DeleteIPAddressAllocationByNamespacedName_def by blast
  have "allocKey a \<in> allocKey ` set ?del \<longleftrightarrow> ownedByName ns name a" if a: "ixGetByKey (aeOps env) (asStore st) (allocKey a) = Some a" for a
  proof
    assume "allocKey a \<in> allocKey ` set ?del"
    then obtain b where "b \<in> set (ixList (aeOps env) (asStore st))" "ownedByName ns name b" "allocKey b = allocKey a" by auto
    moreover from this have "ixGetByKey (aeOps env) (asStore st) (allocKey b) = Some b" using indexer.list_iff [OF ix, of b "asStore st"] by blast
    ultimately show "ownedByName ns name a" using a by (metis option.inject)
  qed (use a indexer.list_iff [OF ix, of a] in \<open>simp add: image_iff, blast\<close>)
  then have "a \<in> set (ixList (aeOps env) (asStore st')) \<longleftrightarrow> a \<in> set (ixList (aeOps env) (asStore st)) \<and> \<not> ownedByName ns name a" for a
    unfolding indexer.list_iff [OF ix] g by (metis option.distinct(1))
  then show ?thesis unfolding ownedByName_def by blast
qed

section \<open>An example\<close>

definition demoAllocPlace :: "nsx_allocation \<Rightarrow> string list \<Rightarrow> string \<Rightarrow> nsx_allocation" where
  "demoAllocPlace a ids i = a\<lparr>alPath := Some (''/orgs/o/projects/p/vpcs/v/ip-address-allocations/'' @ i), alAllocationIps := Some ''172.26.0.0/28''\<rparr>"

definition demoAllocEnv ::
  "(((string list \<times> string) \<times> nsx_allocation) list, (string \<times> nsx_allocation) list, string, alloc_value) alloc_env" where
  "demoAllocEnv =
    \<lparr>aeClient = al_child demoAllocPlace, aeOps = al_ops allocKey allocIndexers,
     aeTree = \<lparr>tcConv = printConv, tcOrder = id, tcApi = noConvert, tcPatch = (\<lambda>_ _ w. (None, w))\<rparr>, aeApi = noConvert,
     aeLoadBalancerVPC = (\<lambda>_. Inr None),
     aeListVPCInfo = (\<lambda>_. [\<lparr>OrgID = ''o'', ProjectID = ''p'', VPCID = ''v'', ResID = ''v'', ParentID = ''p''\<rparr>]),
     aeNamespaceUID = (\<lambda>_. ''abc''), aeCluster = ''c'', aeFrontend = ''FRONTEND'', aeUUID = (\<lambda>_. ''u''), aeEnc = (\<lambda>v. v)\<rparr>"

interpretation demoAlloc: ip_allocations demoAllocEnv al_client
proof (intro ip_allocations.intro)
  show "nsx_child (aeClient demoAllocEnv) al_client alloc_intent"
    unfolding demoAllocEnv_def by (simp add: nsx_child_al demoAllocPlace_def alloc_intent_def alloc_Value_def)
  show "indexer (aeOps demoAllocEnv) allocKey allocIndexers" by (simp add: demoAllocEnv_def indexer_al_ops)
qed (unfold_locales, auto simp: demoAllocEnv_def)

definition demoAlloc :: "string \<Rightarrow> ip_allocation" where
  "demoAlloc ipType = \<lparr>iaMeta = \<lparr>Name = ''a'', Namespace = ''ns'', UID = ''u1''\<rparr>, iaVisibility = ''External'', iaAllocationSize = 16,
    iaAllocationIPs = [], iaIPv6AllocationPrefixLength = 0, iaIPAddressType = ipType, iaUsedFor = [], iaIPBlockName = ''proj: b1 '', iaStatusIPs = []\<rparr>"

definition demoAllocTags :: "nsx_tag list" where
  "demoAllocTags = buildIPAddressAllocationTags demoAllocEnv (ObjIPAddressAllocation (iaMeta (demoAlloc ''IPv4''))) ''ns''"

definition demoNsxAlloc :: nsx_allocation where
  "demoNsxAlloc = \<lparr>alId = ''a_jt72f'', alDisplayName = ''a'', alTags = demoAllocTags, alIpAddressType = Some ''IPV4'', alAllocationIps = None,
    alAllocationSize = Some 16, alIpv6AllocationPrefixLength = None, alIpBlock = Some ''/orgs/o/projects/proj/infra/ip-blocks/b1'', alUsedFor = [],
    alVisibility = Some ''EXTERNAL'', alPath = None, alParentPath = None, alMarkedForDelete = None\<rparr>"

lemma demoAlloc_built:
  "BuildIPAddressAllocation demoAllocEnv \<lparr>asNSX = w, asStore = []\<rparr> (AllocCR (demoAlloc ''IPv4'')) None False
    = Some (Inr (Some (demoNsxAlloc, [\<lparr>OrgID = ''o'', ProjectID = ''p'', VPCID = ''v'', ResID = ''v'', ParentID = ''p''\<rparr>])))"
proof -
  have "buildIPBlockPath ''proj: b1 '' ''o'' = Inr (Some ''/orgs/o/projects/proj/infra/ip-blocks/b1'')" by code_simp
  moreover have "GetNamespaceUIDFromTag demoAllocTags = ''abc''" by code_simp
  moreover have "ToUpper (convertIpAddressBlockVisibility ''External'') = ''EXTERNAL''" by code_simp
  moreover have "getVPCInfoForCR demoAllocEnv (demoAlloc ''IPv4'') = Inr [\<lparr>OrgID = ''o'', ProjectID = ''p'', VPCID = ''v'', ResID = ''v'', ParentID = ''p''\<rparr>]"
    by code_simp
  moreover have "\<not> allocationIdExists demoAllocEnv \<lparr>asNSX = w, asStore = []\<rparr> i" for i
    by (simp add: allocationIdExists_def GetByKey_def demoAllocEnv_def al_ops_def)
  ultimately show ?thesis
    by (simp add: BuildIPAddressAllocation_def buildForCR_def Let_def BuildIPAddressAllocationID_def namespacedID_abc buildIPAddressAllocationName_def
        truncatedName_short requestedIPs_def ipAddressTypeToNSX_def isLBAllocation_def subnetPortTags_def demoNsxAlloc_def demoAllocTags_def demoAlloc_def)
qed


lemma demoAlloc_start:
  "indexedIPAddressAllocation demoAllocEnv \<lparr>asNSX = w, asStore = []\<rparr> uid = None" "mergeExisting None a = a"
  "fst (ccPatch (aeClient demoAllocEnv) ids i a w) = None"
  by (simp_all add: indexedIPAddressAllocation_def alloc_GetByUID_def demoAllocEnv_def al_ops_def mergeExisting_def al_child_def)

lemma demoAlloc_single:
  assumes "UID m \<in> set (tagValues (alTags c) ''nsx-op/ipaddressallocation_uid'')"
  shows "indexedIPAddressAllocation demoAllocEnv \<lparr>asNSX = w, asStore = [(alId c, c)]\<rparr> (UID m) = Some c"
proof -
  have o': "aeOps demoAllocEnv = al_ops allocKey allocIndexers" by (simp add: demoAllocEnv_def)
  have i: "allocIndexers ''nsx-op/ipaddressallocation_uid'' c = tagValues (alTags c) ''nsx-op/ipaddressallocation_uid''"
    unfolding allocIndexers_def by (rule if_P) simp
  have "ixByIndex (al_ops allocKey allocIndexers) [(alId c, c)] ''nsx-op/ipaddressallocation_uid'' (UID m) = [c]"
    using assms i by (simp add: al_ops_def allocKey_def)
  then show ?thesis by (simp only: indexedIPAddressAllocation_def alloc_GetByUID_def o' alloc_state.simps list.map concat.simps append_Cons append_Nil list.case)
qed

lemma demoAlloc_run:
  assumes "BuildIPAddressAllocation demoAllocEnv \<lparr>asNSX = [], asStore = []\<rparr> (AllocCR ob) None False = Some (Inr (Some (a, [\<lparr>OrgID = ''o'', ProjectID = ''p'', VPCID = ''v'', ResID = ''v'', ParentID = ''p''\<rparr>])))"
    and "UID (iaMeta ob) = ''u1''" "alTags a = demoAllocTags" "alMarkedForDelete a = None" "iaStatusIPs ob = []"
  shows "CreateOrUpdateIPAddressAllocation demoAllocEnv ob False \<lparr>asNSX = [], asStore = []\<rparr>
    = Some (Inr True, ''172.26.0.0/28'', \<lparr>asNSX = [(([''o'', ''p'', ''v''], alId a), demoAllocPlace a [''o'', ''p'', ''v''] (alId a))],
        asStore = [(alId a, demoAllocPlace a [''o'', ''p'', ''v''] (alId a))]\<rparr>)"
proof -
  have "tagValues demoAllocTags ''nsx-op/ipaddressallocation_uid'' = [''u1'']" by code_simp
  then have some: "indexedIPAddressAllocation demoAllocEnv \<lparr>asNSX = w, asStore = [(alId a, demoAllocPlace a ids (alId a))]\<rparr> ''u1'' = Some (demoAllocPlace a ids (alId a))" for w ids
    using demoAlloc_single [of "iaMeta ob" "demoAllocPlace a ids (alId a)" w] assms(2,3) by (simp add: demoAllocPlace_def)
  have p: "alId (demoAllocPlace a ids i) = alId a" "alAllocationIps (demoAllocPlace a ids i) = Some ''172.26.0.0/28''"
    "alMarkedForDelete (demoAllocPlace a ids i) = None" for ids i using assms(4) by (simp_all add: demoAllocPlace_def)
  have "alloc_Apply demoAllocEnv a [\<lparr>OrgID = ''o'', ProjectID = ''p'', VPCID = ''v'', ResID = ''v'', ParentID = ''p''\<rparr>] \<lparr>asNSX = [], asStore = []\<rparr>
     = (None, \<lparr>asNSX = [(([''o'', ''p'', ''v''], alId a), demoAllocPlace a [''o'', ''p'', ''v''] (alId a))],
        asStore = [(alId a, demoAllocPlace a [''o'', ''p'', ''v''] (alId a))]\<rparr>)"
    by (simp add: alloc_Apply_def Let_def) (simp add: allocStore_Apply_def demoAllocEnv_def al_child_def al_ops_def p allocKey_def TransNSXApiError_def)
  then show ?thesis using assms(1,2,5) some by (simp add: CreateOrUpdateIPAddressAllocation_def Let_def demoAlloc_start allocate_def p)
qed



text \<open>The second reconciliation of an IPv6 allocation.\<close>

theorem ipv6_reconcile_patches_witness:
  "\<exists>a. alIpv6AllocationPrefixLength a = None
    \<and> CreateOrUpdateIPAddressAllocation demoAllocEnv (demoAlloc ''IPv6'') False
        \<lparr>asNSX = [], asStore = [(''a_1'', demoNsxAlloc\<lparr>alId := ''a_1'', alIpAddressType := Some ''IPV6'', alVisibility := None, alAllocationSize := None,
          alIpv6AllocationPrefixLength := Some 64, alAllocationIps := Some ''2001:db8::/64''\<rparr>)]\<rparr>
      = Some (allocate demoAllocEnv (demoAlloc ''IPv6'') False a [\<lparr>OrgID = ''o'', ProjectID = ''p'', VPCID = ''v'', ResID = ''v'', ParentID = ''p''\<rparr>]
        \<lparr>asNSX = [], asStore = [(''a_1'', demoNsxAlloc\<lparr>alId := ''a_1'', alIpAddressType := Some ''IPV6'', alVisibility := None, alAllocationSize := None,
          alIpv6AllocationPrefixLength := Some 64, alAllocationIps := Some ''2001:db8::/64''\<rparr>)]\<rparr>)"
proof -
  let ?e = "demoNsxAlloc\<lparr>alId := ''a_1'', alIpAddressType := Some ''IPV6'', alVisibility := None, alAllocationSize := None,
          alIpv6AllocationPrefixLength := Some 64, alAllocationIps := Some ''2001:db8::/64''\<rparr>"
  let ?st = "\<lparr>asNSX = [], asStore = [(''a_1'', ?e)]\<rparr>" and ?ob = "demoAlloc ''IPv6''"
  have "tagValues demoAllocTags ''nsx-op/ipaddressallocation_uid'' = [''u1'']" by code_simp
  then have ix: "indexedIPAddressAllocation demoAllocEnv ?st (UID (iaMeta ?ob)) = Some ?e"
    using demoAlloc_single [of "iaMeta ?ob" ?e "[]"] by (simp add: demoNsxAlloc_def demoAlloc_def)
  have "buildIPBlockPath ''proj: b1 '' ''o'' = Inr (Some ''/orgs/o/projects/proj/infra/ip-blocks/b1'')" by code_simp
  moreover have "GetNamespaceUIDFromTag demoAllocTags = ''abc''" by code_simp
  moreover have "getVPCInfoForCR demoAllocEnv ?ob = Inr [\<lparr>OrgID = ''o'', ProjectID = ''p'', VPCID = ''v'', ResID = ''v'', ParentID = ''p''\<rparr>]" by code_simp
  moreover have "\<not> allocationIdExists demoAllocEnv ?st ''a_jt72f''"
    by (simp add: allocationIdExists_def GetByKey_def demoAllocEnv_def al_ops_def)
  ultimately obtain built where "BuildIPAddressAllocation demoAllocEnv ?st (AllocCR ?ob) None False
      = Some (Inr (Some (built, [\<lparr>OrgID = ''o'', ProjectID = ''p'', VPCID = ''v'', ResID = ''v'', ParentID = ''p''\<rparr>])))"
    by (simp add: BuildIPAddressAllocation_def buildForCR_def Let_def BuildIPAddressAllocationID_def namespacedID_abc buildIPAddressAllocationName_def
        truncatedName_short requestedIPs_def ipAddressTypeToNSX_def isLBAllocation_def subnetPortTags_def demoAllocTags_def demoAlloc_def)
  from ipv6_reconcile_patches [OF demoAlloc.compared.comparable_axioms ix _ _ _ this, of 64] show ?thesis by auto
qed

text \<open>Deleting the allocation that was just made.\<close>

theorem DeleteIPAddressAllocationByNamespacedName_exact_witness:
  "\<exists>st'. DeleteIPAddressAllocationByNamespacedName demoAllocEnv ''ns'' ''a'' \<lparr>asNSX = [], asStore = [(''a_jt72f'', demoAllocPlace demoNsxAlloc [] ''a_jt72f'')]\<rparr> = Some (None, st')
    \<and> set (ixList (aeOps demoAllocEnv) (asStore st')) = {}"
proof -
  let ?st = "\<lparr>asNSX = [], asStore = [(''a_jt72f'', demoAllocPlace demoNsxAlloc [] ''a_jt72f'')]\<rparr>"
  let ?X = "DeleteIPAddressAllocationByNamespacedName demoAllocEnv ''ns'' ''a'' ?st"
  have "map_option fst ?X = Some None" by code_simp
  then obtain st' where x: "?X = Some (None, st')" by auto
  have "{a \<in> set (ixList (aeOps demoAllocEnv) (asStore ?st)).
    \<not> (''ns'' \<in> set (tagValues (alTags a) ''nsx-op/namespace'') \<and> ''a'' \<in> set (tagValues (alTags a) ''nsx-op/ipaddressallocation_name''))} = {}" by code_simp
  with DeleteIPAddressAllocationByNamespacedName_exact [OF demoAlloc.ip_allocations_axioms x] have "set (ixList (aeOps demoAllocEnv) (asStore st')) = {}"
    by (rule trans)
  with x show ?thesis by blast
qed

end
