(* ===== verification/StaticRoute.thy ===== *)
theory StaticRoute
  imports VpcChild
begin

text \<open>
  The static routes of a VPC: \<open>pkg/nsx/services/staticroute\<close>. A StaticRoute becomes one NSX route, which is written, read back, checked for its
  realization and then stored; a route that is not realized is deleted again.
\<close>

section \<open>Data\<close>

record static_route =
  srMeta :: object_meta
  srNetwork :: string
  srNetworkIPAllocationName :: string
  srNextHops :: "string list"
  srConditions :: "(string \<times> string) list"

text \<open>The NSX route; a next hop is its address and administrative distance.\<close>

record nsx_route =
  rtId :: string
  rtDisplayName :: string
  rtTags :: "nsx_tag list"
  rtNetwork :: "string option"
  rtNetworkIpAllocationPath :: "string option"
  rtNextHops :: "(string option \<times> int option) list"
  rtPath :: "string option"
  rtParentPath :: "string option"
  rtMarkedForDelete :: "bool option"

record ('w, 's, 'd, 'e) route_env =
  reClient :: "('w, nsx_route) child_client"
  reOps :: "('s, nsx_route) indexer_ops"
  reTree :: "('w, nsx_route, 'd) tree_client"
  reEntities :: "'w entity_client"
  reApi :: converter
  reGetAllocationCR :: "string \<Rightarrow> string \<Rightarrow> 'w \<Rightarrow> k8s_error + object_meta"
  reAllocationByOwner :: "object_meta \<Rightarrow> gerror + string option option"
  reListVPCInfo :: "string \<Rightarrow> vpc_resource_info list"
  reNamespaceUID :: "string \<Rightarrow> string"
  reCluster :: string
  reUUID :: "nat \<Rightarrow> string"
  reEnc :: "string option \<times> string option \<times> string option list \<Rightarrow> 'e"

record ('w, 's) route_state =
  rsNSX :: 'w
  rsStore :: 's

section \<open>The store\<close>

definition routeKey :: "nsx_route \<Rightarrow> string" where "routeKey r = rtId r"

definition routeIndexers :: "string \<Rightarrow> nsx_route \<Rightarrow> string list" where
  "routeIndexers name r =
    (if name = ''nsx-op/static_route_uid'' then tagValues (rtTags r) ''nsx-op/static_route_uid''
     else if name = ''nsx-op/namespace'' then tagValues (rtTags r) ''nsx-op/namespace''
     else if name = ''indexedByVPCPath'' then (case IndexByVPCFunc (IxStaticRoutes (rtParentPath r)) of Inl _ \<Rightarrow> [] | Inr ps \<Rightarrow> ps)
     else [])"

definition GetStaticRoutesByCRUID :: "('s, nsx_route) indexer_ops \<Rightarrow> 's \<Rightarrow> string \<Rightarrow> nsx_route option" where
  "GetStaticRoutesByCRUID ops s uid = (case GetByIndex ops s ''nsx-op/static_route_uid'' uid of [] \<Rightarrow> None | r # _ \<Rightarrow> Some r)"

definition route_GetByVPCPath :: "('s, nsx_route) indexer_ops \<Rightarrow> 's \<Rightarrow> string \<Rightarrow> nsx_route list" where
  "route_GetByVPCPath ops s vpcPath = ixByIndex ops s ''indexedByVPCPath'' vpcPath"

section \<open>Comparison\<close>

text \<open>The addresses of the next hops are compared as a sorted list; NSX gives every next hop an address.\<close>

definition route_Value :: "nsx_route \<Rightarrow> string option \<times> string option \<times> string option list" where
  "route_Value r = (rtNetwork r, rtNetworkIpAllocationPath r, map Some (sort (map (\<lambda>h. the (fst h)) (rtNextHops r))))"

definition compareStaticRoute :: "(string option \<times> string option \<times> string option list \<Rightarrow> 'e) \<Rightarrow> nsx_route option \<Rightarrow> nsx_route option \<Rightarrow> bool" where
  "compareStaticRoute enc oldRoute newRoute =
    (case (oldRoute, newRoute) of
       (None, None) \<Rightarrow> True
     | (Some old, Some new) \<Rightarrow> \<not> CompareResource enc route_Value old new
     | _ \<Rightarrow> False)"

section \<open>The builder\<close>

fun validateHops :: "string list \<Rightarrow> string list \<Rightarrow> gerror option" where
  "validateHops [] seen = None"
| "validateHops (ip # ips) seen =
    (if ip \<in> set seen then Some (''duplicate ip address '' @ ip)
     else if ParseIP ip = None then Some (''invalid IP address: '' @ ip)
     else validateHops ips (ip # seen))"

definition validateStaticRoute :: "static_route \<Rightarrow> gerror option" where
  "validateStaticRoute obj = validateHops (srNextHops obj) []"

definition route_buildBasicTags :: "('w, 's, 'd, 'e) route_env \<Rightarrow> static_route \<Rightarrow> nsx_tag list" where
  "route_buildBasicTags env obj =
    BuildBasicTags (reCluster env) (ObjStaticRoute (srMeta obj)) (reNamespaceUID env (Namespace (srMeta obj)))"

definition staticRoutesIdExists :: "('w, 's, 'd, 'e) route_env \<Rightarrow> 's \<Rightarrow> string \<Rightarrow> bool" where
  "staticRoutesIdExists env s i \<longleftrightarrow> GetByKey (reOps env) s i \<noteq> None"

definition buildStaticRoute :: "('w, 's, 'd, 'e) route_env \<Rightarrow> 's \<Rightarrow> static_route \<Rightarrow> string \<Rightarrow> (gerror + nsx_route) option" where
  "buildStaticRoute env s obj networkIPAllocationPath =
    (case validateStaticRoute obj of
       Some err \<Rightarrow> Some (Inl err)
     | None \<Rightarrow>
         let tags = route_buildBasicTags env obj in
         Option.bind (namespacedID (reUUID env) (staticRoutesIdExists env s) (Name (srMeta obj)) tags) (\<lambda>i.
         Option.bind (truncatedName (Name (srMeta obj))) (\<lambda>n.
           Some (Inr \<lparr>rtId = i, rtDisplayName = n, rtTags = tags,
             rtNetwork = (if networkIPAllocationPath \<noteq> [] then None else Some (srNetwork obj)),
             rtNetworkIpAllocationPath = (if networkIPAllocationPath \<noteq> [] then Some networkIPAllocationPath else None),
             rtNextHops = map (\<lambda>ip. (Some ip, Some 1)) (srNextHops obj), rtPath = None, rtParentPath = None, rtMarkedForDelete = None\<rparr>))))"

section \<open>The service\<close>

definition isStaticRouteReady :: "static_route \<Rightarrow> bool" where
  "isStaticRouteReady obj = list_ex (\<lambda>(t, s). t = ''Ready'' \<and> s = ''True'') (srConditions obj)"

definition resolveNetworkIPAllocationPath :: "('w, 's, 'd, 'e) route_env \<Rightarrow> string \<Rightarrow> string \<Rightarrow> 'w \<Rightarrow> gerror + string" where
  "resolveNetworkIPAllocationPath env ns name w =
    (let cr = ''IPAddressAllocation CR '' @ ns @ ''/'' @ name in
     case reGetAllocationCR env ns name w of
       Inl (K8sNotFound _) \<Rightarrow> Inl (cr @ '' not found'')
     | Inl (K8sError e) \<Rightarrow> Inl (''failed to get '' @ cr @ '': '' @ e)
     | Inr meta \<Rightarrow>
         (case reAllocationByOwner env meta of
            Inl e \<Rightarrow> Inl (''failed to look up NSX allocation for '' @ cr @ '': '' @ e)
          | Inr None \<Rightarrow> Inl (''NSX allocation for '' @ cr @ '' not found in store'')
          | Inr (Some path) \<Rightarrow>
              if path = None \<or> path = Some [] then Inl (''NSX allocation for '' @ cr @ '' has no policy path'') else Inr (the path)))"

text \<open>A nil path is dereferenced: \<open>None\<close>.\<close>

definition DeleteStaticRoute :: "('w, 's, 'd, 'e) route_env \<Rightarrow> nsx_route \<Rightarrow> ('w, 's) route_state \<Rightarrow> (go_error option \<times> ('w, 's) route_state) option" where
  "DeleteStaticRoute env r st =
    (case rtPath r of
       None \<Rightarrow> None
     | Some path \<Rightarrow>
         (case ParseVPCResourcePath path of
            Inl err \<Rightarrow> Some (Some (OtherError err), st)
          | Inr info \<Rightarrow>
              (case ccDelete (reClient env) [OrgID info, ProjectID info, VPCID info] (rtId r) (rsNSX st) of
                 (Some e, w) \<Rightarrow> Some (TransNSXApiError (reApi env) (Some e), st\<lparr>rsNSX := w\<rparr>)
               | (None, w) \<Rightarrow> Some (None, st\<lparr>rsNSX := w, rsStore := ixDelete (reOps env) (rsStore st) r\<rparr>))))"

definition checkStaticRouteRealizeState ::
  "('w, 's, 'd, 'e) route_env \<Rightarrow> nsx_route \<Rightarrow> ('w, 's) route_state \<Rightarrow> (go_error option \<times> ('w, 's) route_state) option" where
  "checkStaticRouteRealizeState env r st =
    (case rtPath r of
       None \<Rightarrow> None
     | Some path \<Rightarrow>
         (case CheckRealizeState (reApi env) (reEntities env) NSXTRealizeRetrySteps path [] (rsNSX st) of
            (None, w) \<Rightarrow> Some (None, st\<lparr>rsNSX := w\<rparr>)
          | (Some err, w) \<Rightarrow>
              (case DeleteStaticRoute env r (st\<lparr>rsNSX := w\<rparr>) of
                 None \<Rightarrow> None
               | Some (Some deleteErr, st') \<Rightarrow>
                   Some (Some (OtherError (''realization check failed: '' @ error_msg err @ ''; deletion failed: '' @ error_msg deleteErr)), st')
               | Some (None, st') \<Rightarrow> Some (Some err, st'))))"

text \<open>Writing a route: the PATCH, the route as NSX returns it, the realization check, the store.\<close>

definition writeStaticRoute ::
  "('w, 's, 'd, 'e) route_env \<Rightarrow> string list \<Rightarrow> nsx_route \<Rightarrow> ('w, 's) route_state \<Rightarrow> (go_error option \<times> ('w, 's) route_state) option" where
  "writeStaticRoute env ids r st =
    (case ccPatch (reClient env) ids (rtId r) r (rsNSX st) of
       (Some e, w) \<Rightarrow> Some (TransNSXApiError (reApi env) (Some e), st\<lparr>rsNSX := w\<rparr>)
     | (None, w) \<Rightarrow>
         (case ccGet (reClient env) ids (rtId r) w of
            (Inl e, w) \<Rightarrow> Some (TransNSXApiError (reApi env) (Some e), st\<lparr>rsNSX := w\<rparr>)
          | (Inr created, w) \<Rightarrow>
              (case checkStaticRouteRealizeState env created (st\<lparr>rsNSX := w\<rparr>) of
                 None \<Rightarrow> None
               | Some (Some e, st') \<Rightarrow> Some (Some e, st')
               | Some (None, st') \<Rightarrow> Some (None, st'\<lparr>rsStore := ixAdd (reOps env) (rsStore st') created\<rparr>))))"

definition networkPath :: "('w, 's, 'd, 'e) route_env \<Rightarrow> string \<Rightarrow> static_route \<Rightarrow> 'w \<Rightarrow> gerror + string" where
  "networkPath env ns obj w =
    (if srNetworkIPAllocationName obj \<noteq> [] then resolveNetworkIPAllocationPath env ns (srNetworkIPAllocationName obj) w else Inr [])"

definition CreateOrUpdateStaticRoute ::
  "('w, 's, 'd, 'e) route_env \<Rightarrow> string \<Rightarrow> static_route \<Rightarrow> ('w, 's) route_state \<Rightarrow> (go_error option \<times> ('w, 's) route_state) option" where
  "CreateOrUpdateStaticRoute env ns obj st =
    (case networkPath env ns obj (rsNSX st) of
       Inl err \<Rightarrow> Some (Some (OtherError err), st)
     | Inr path \<Rightarrow>
         Option.bind (buildStaticRoute env (rsStore st) obj path) (\<lambda>built.
           case built of
             Inl err \<Rightarrow> Some (Some (OtherError err), st)
           | Inr r \<Rightarrow>
               let existing = GetStaticRoutesByCRUID (reOps env) (rsStore st) (UID (srMeta obj));
                   r = (case existing of None \<Rightarrow> r | Some e \<Rightarrow> r\<lparr>rtId := rtId e, rtDisplayName := rtDisplayName e\<rparr>) in
               if existing \<noteq> None \<and> compareStaticRoute (reEnc env) existing (Some r) then
                 (if isStaticRouteReady obj then Some (None, st) else checkStaticRouteRealizeState env (the existing) st)
               else
                 (case reListVPCInfo env ns of
                    [] \<Rightarrow> Some (Some (OtherError (''no vpc found for ns '' @ ns)), st)
                  | v # _ \<Rightarrow> writeStaticRoute env [OrgID v, ProjectID v, ResID v] r st)))"

definition DeleteStaticRouteByCR ::
  "('w, 's, 'd, 'e) route_env \<Rightarrow> static_route \<Rightarrow> ('w, 's) route_state \<Rightarrow> (go_error option \<times> ('w, 's) route_state) option" where
  "DeleteStaticRouteByCR env obj st =
    (case GetByIndex (reOps env) (rsStore st) ''nsx-op/static_route_uid'' (UID (srMeta obj)) of
       [] \<Rightarrow> Some (None, st)
     | r # _ \<Rightarrow> DeleteStaticRoute env r st)"

definition route_GetUID :: "nsx_route option \<Rightarrow> string option" where
  "route_GetUID r =
    (case r of None \<Rightarrow> None
     | Some r \<Rightarrow> (case List.find (\<lambda>t. the (fst t) = ''nsx-op/static_route_uid'') (rtTags r) of None \<Rightarrow> None | Some t \<Rightarrow> snd t))"

definition ListStaticRouteByName :: "('w, 's, 'd, 'e) route_env \<Rightarrow> ('w, 's) route_state \<Rightarrow> string \<Rightarrow> string \<Rightarrow> nsx_route list" where
  "ListStaticRouteByName env st ns name =
    filter (\<lambda>r. FindTag (rtTags r) ''nsx-op/static_route_name'' = Some name) (GetByIndex (reOps env) (rsStore st) ''nsx-op/namespace'' ns)"

definition ListStaticRoute :: "('w, 's, 'd, 'e) route_env \<Rightarrow> ('w, 's) route_state \<Rightarrow> nsx_route list" where
  "ListStaticRoute env st = ixList (reOps env) (rsStore st)"

section \<open>Clean-up\<close>

definition route_resource :: "nsx_route \<Rightarrow> nsx_route nsx_resource" where
  "route_resource r =
    \<lparr>ModelType = StaticRoutesT, ResPath = rtPath r, ResId = Some (rtId r), ResDisplayName = Some (rtDisplayName r),
     ResMarkedForDelete = rtMarkedForDelete r, ResResourceType = None, ResFqdn = None, ResBody = r\<rparr>"

text \<open>With a VPC path the routes only leave the store; otherwise the stored routes themselves are marked and all deleted on NSX.\<close>

definition route_CleanupVPCChildResources ::
  "('w, 's, 'd, 'e) route_env \<Rightarrow> (nat \<Rightarrow> gerror option) \<Rightarrow> string \<Rightarrow> ('w, 's) route_state \<Rightarrow> (go_error option \<times> ('w, 's) route_state) option" where
  "route_CleanupVPCChildResources env ctxDone vpcPath st =
    (if vpcPath \<noteq> [] then
       Some (None, st\<lparr>rsStore := foldl (ixDelete (reOps env)) (rsStore st) (route_GetByVPCPath (reOps env) (rsStore st) vpcPath)\<rparr>)
     else
       let (routes, s) = markAll (reOps env) (\<lambda>r. r\<lparr>rtMarkedForDelete := Some True\<rparr>) (rsStore st) in
       map_option (\<lambda>(err, w, s). (err, st\<lparr>rsNSX := w, rsStore := s\<rparr>))
         (pagedDelete (reTree env) (vpc_leaf ''StaticRoutes'' ''static-routes'') (reOps env) route_resource ctxDone routes (rsNSX st) s))"

section \<open>Properties\<close>

text \<open>What NSX keeps of a route that is written.\<close>

definition route_intent :: "nsx_route \<Rightarrow> string \<times> string \<times> nsx_tag list \<times> string option \<times> string option \<times> (string option \<times> int option) list" where
  "route_intent r = (rtId r, rtDisplayName r, rtTags r, rtNetwork r, rtNetworkIpAllocationPath r, rtNextHops r)"

locale static_routes =
  api: nsx_child "reClient env" held route_intent + store: indexer "reOps env" routeKey routeIndexers + compared: comparable routeKey route_Value "reEnc env"
  for env :: "('w, 's, 'd, 'e) route_env" and held +
  assumes entities_keep: "reEntities env path w = (r, w') \<Longrightarrow> held w' = held w"
begin

lemma check_keeps: "held (snd (CheckRealizeState (reApi env) (reEntities env) n path ids w)) = held w"
  using CheckRealizeState_keeps [of "reEntities env" held] entities_keep by blast

lemma unrealized_deleted:
  assumes "checkStaticRouteRealizeState env r st = Some (Some e, st')" "rtPath r = Some path" "ParseVPCResourcePath path = Inr info"
  shows "(\<exists>m. e = OtherError m) \<or> held (rsNSX st') [OrgID info, ProjectID info, VPCID info] (rtId r) = None
      \<and> ixGetByKey (reOps env) (rsStore st') (rtId r) = None"
proof -
  obtain err w where c: "CheckRealizeState (reApi env) (reEntities env) NSXTRealizeRetrySteps path [] (rsNSX st) = (Some err, w)"
    using assms by (auto simp: checkStaticRouteRealizeState_def split: prod.splits option.splits)
  show ?thesis
  proof (cases "ccDelete (reClient env) [OrgID info, ProjectID info, VPCID info] (rtId r) w")
    case (Pair d w')
    then show ?thesis
      using assms c api.deleted [of "[OrgID info, ProjectID info, VPCID info]" "rtId r" w w'] store.get_delete
      by (cases d) (auto simp: checkStaticRouteRealizeState_def DeleteStaticRoute_def routeKey_def TransNSXApiError_def split: option.splits)
  qed
qed

lemma check_ok_store:
  assumes "checkStaticRouteRealizeState env r st = Some (None, st')"
  shows "rsStore st' = rsStore st"
  using assms by (auto simp: checkStaticRouteRealizeState_def split: prod.splits option.splits)

lemma written:
  assumes "writeStaticRoute env ids r st = Some (None, st')"
  shows "\<exists>c. route_intent c = route_intent r \<and> ixGetByKey (reOps env) (rsStore st') (rtId r) = Some c"
proof -
  obtain w1 c w2 st2 where p: "ccPatch (reClient env) ids (rtId r) r (rsNSX st) = (None, w1)" "ccGet (reClient env) ids (rtId r) w1 = (Inr c, w2)"
    "checkStaticRouteRealizeState env c (st\<lparr>rsNSX := w2\<rparr>) = Some (None, st2)" "st' = st2\<lparr>rsStore := ixAdd (reOps env) (rsStore st2) c\<rparr>"
    using assms by (auto simp: writeStaticRoute_def TransNSXApiError_def split: prod.splits option.splits sum.splits)
  have i: "route_intent c = route_intent r" using api.patch_get [OF p(1,2)] by simp
  then have "rtId c = rtId r" by (simp add: route_intent_def)
  with i p(4) show ?thesis using store.get_add by (auto simp: routeKey_def)
qed

end

lemma built_tags: "buildStaticRoute env s obj path = Some (Inr r) \<Longrightarrow> UID (srMeta obj) \<in> set (tagValues (rtTags r) ''nsx-op/static_route_uid'')"
  by (auto simp: buildStaticRoute_def Let_def bind_eq_Some_conv route_buildBasicTags_def BuildBasicTags_def BuildClusterTags_def split: option.splits)

lemma intent_value: "route_intent a = route_intent b \<Longrightarrow> route_Value a = route_Value b \<and> rtTags a = rtTags b"
  by (simp add: route_intent_def route_Value_def)



section \<open>An example\<close>

text \<open>NSX places a route under its VPC and realizes it at once.\<close>

definition demoPlace :: "nsx_route \<Rightarrow> string list \<Rightarrow> string \<Rightarrow> nsx_route" where
  "demoPlace r ids i = r\<lparr>rtPath := Some (''/orgs/o/projects/p/vpcs/v/static-routes/'' @ i)\<rparr>"

definition demoRouteEnv ::
  "(((string list \<times> string) \<times> nsx_route) list, (string \<times> nsx_route) list, string, string option \<times> string option \<times> string option list) route_env" where
  "demoRouteEnv =
    \<lparr>reClient = al_child demoPlace, reOps = al_ops routeKey routeIndexers,
     reTree = \<lparr>tcConv = printConv, tcOrder = id, tcApi = noConvert, tcPatch = (\<lambda>_ _ w. (None, w))\<rparr>,
     reEntities = (\<lambda>_ w. (Inr [\<lparr>enId = ''e'', enState = ''REALIZED'', enAlarms = []\<rparr>], w)), reApi = noConvert,
     reGetAllocationCR = (\<lambda>ns n w. Inl (K8sNotFound ''none'')), reAllocationByOwner = (\<lambda>_. Inr None),
     reListVPCInfo = (\<lambda>_. [\<lparr>OrgID = ''o'', ProjectID = ''p'', VPCID = ''v'', ResID = ''v'', ParentID = ''p''\<rparr>]),
     reNamespaceUID = (\<lambda>_. ''abc''), reCluster = ''c'', reUUID = (\<lambda>_. ''u''), reEnc = (\<lambda>v. v)\<rparr>"

interpretation demoRoutes: static_routes demoRouteEnv al_client
proof (intro static_routes.intro static_routes_axioms.intro)
  show "nsx_child (reClient demoRouteEnv) al_client route_intent"
    unfolding demoRouteEnv_def by (simp add: nsx_child_al demoPlace_def route_intent_def)
  show "indexer (reOps demoRouteEnv) routeKey routeIndexers" by (simp add: demoRouteEnv_def indexer_al_ops)
qed (unfold_locales, auto simp: demoRouteEnv_def)

definition demoRoute :: static_route where
  "demoRoute = \<lparr>srMeta = \<lparr>Name = ''r'', Namespace = ''ns'', UID = ''u1''\<rparr>, srNetwork = ''45.1.2.0/24'', srNetworkIPAllocationName = [],
    srNextHops = [''10.0.0.1'', ''10.0.0.2''], srConditions = []\<rparr>"

lemma demoRoute_built:
  "buildStaticRoute demoRouteEnv [] demoRoute [] = Some (Inr \<lparr>rtId = ''r_jt72f'', rtDisplayName = ''r'', rtTags = route_buildBasicTags demoRouteEnv demoRoute,
     rtNetwork = Some ''45.1.2.0/24'', rtNetworkIpAllocationPath = None, rtNextHops = [(Some ''10.0.0.1'', Some 1), (Some ''10.0.0.2'', Some 1)],
     rtPath = None, rtParentPath = None, rtMarkedForDelete = None\<rparr>)"
proof -
  have "validateStaticRoute demoRoute = None" by code_simp
  moreover have "GetNamespaceUIDFromTag (route_buildBasicTags demoRouteEnv demoRoute) = ''abc''" by code_simp
  ultimately show ?thesis
    by (simp add: buildStaticRoute_def Let_def demoRoute_def namespacedID_abc truncatedName_short staticRoutesIdExists_def GetByKey_def demoRouteEnv_def al_ops_def)
qed


lemma demoRoute_check: "rtPath r = Some path \<Longrightarrow> checkStaticRouteRealizeState demoRouteEnv r st = Some (None, st)"
  by (simp add: checkStaticRouteRealizeState_def CheckRealizeState_realized [of _ _ _ "[\<lparr>enId = ''e'', enState = ''REALIZED'', enAlarms = []\<rparr>]" "rsNSX st"]
      demoRouteEnv_def checkEntities_def)

lemma demoRoute_written: "\<exists>st'. writeStaticRoute demoRouteEnv ids r st = Some (None, st')"
proof -
  have c: "reClient demoRouteEnv = al_child demoPlace" by (simp add: demoRouteEnv_def)
  have "rtPath (demoPlace r ids (rtId r)) = Some (''/orgs/o/projects/p/vpcs/v/static-routes/'' @ rtId r)" by (simp add: demoPlace_def)
  then show ?thesis by (simp add: writeStaticRoute_def c al_child_def demoRoute_check del: append_Cons)
qed

lemma demoRoute_store: "ixByIndex (reOps demoRouteEnv) [] i v = []" "reListVPCInfo demoRouteEnv ns = [\<lparr>OrgID = ''o'', ProjectID = ''p'', VPCID = ''v'', ResID = ''v'', ParentID = ''p''\<rparr>]"
  by (simp_all add: demoRouteEnv_def al_ops_def)


text \<open>Clean-up of all VPCs ends, and when it succeeds the store is empty.\<close>

lemma route_cleanup_spec:
  assumes "static_routes env held"
  shows "\<exists>err st'. route_CleanupVPCChildResources env (\<lambda>_. None) [] st = Some (err, st')
    \<and> (err = None \<longrightarrow> (\<forall>k. ixGetByKey (reOps env) (rsStore st') k = None))"
proof -
  obtain objs s1 where m: "markAll (reOps env) (rtMarkedForDelete_update (\<lambda>_. Some True)) (rsStore st) = (objs, s1)" by fastforce
  have p: "(StaticRoutesT, vpc_leaf ''StaticRoutes'' ''static-routes'') \<in> set policyPaths" by (simp add: policyPaths_def)
  obtain err w' s' where "pagedDelete (reTree env) (vpc_leaf ''StaticRoutes'' ''static-routes'') (reOps env) route_resource (\<lambda>_. None) objs (rsNSX st) s1
      = Some (err, w', s')" "err = None \<longrightarrow> (\<forall>k. ixGetByKey (reOps env) s' k = None)"
    using pagedDelete_marked [OF p _ static_routes.axioms(2) [OF assms] _ m, of route_resource "reTree env" "rsNSX st"] by (auto simp: route_resource_def routeKey_def)
  with m show ?thesis by (auto simp: route_CleanupVPCChildResources_def)
qed

end
