(* ===== verification/Webhooks.thy ===== *)
theory Webhooks
  imports ControllerUtil IpAllocation StaticRoute
begin

text \<open>
  The admission webhooks: \<open>subnet_webhook.go\<close>, \<open>subnetset_webhook.go\<close>, \<open>addressbinding_webhook.go\<close>, \<open>ipaddressallocation_webhook.go\<close> and \<open>staticroute_webhook.go\<close> of
  \<open>pkg/controllers\<close>. They decide which changes of the custom resources reach the controllers.
\<close>

section \<open>Requests\<close>

datatype operation = CreateOp | UpdateOp | DeleteOp

datatype response = Allowed | Denied string | Errored int gerror

text \<open>A request with what the decoder makes of its objects.\<close>

record 'o request =
  rqOperation :: operation
  rqUser :: string
  rqNamespace :: string
  rqObject :: "gerror + 'o"
  rqOldObject :: "gerror + 'o"

definition NSXOperatorSA :: string where "NSXOperatorSA = ''system:serviceaccount:vmware-system-nsx:ncp-svc-account''"

text \<open>What the validators read of the cluster: the network stacks of the VPCs in the NetworkInfos, the IP family of the cluster (none when there is no configuration), the
  SubnetSets of a Namespace, the SubnetPorts (UID, SubnetSet and Subnet) and Pods (UID) of a Namespace, and the SubnetIPReservations of a Subnet.\<close>

record ('w, 's, 'p, 'd, 'e) hook_env =
  hkChoice :: "('w, 's, 'p, 'd, 'e) choice_env"
  hkMinimalSize8 :: bool
  hkFamily :: "ip_address_type option"
  hkInfos :: "string \<Rightarrow> gerror + string list list"
  hkSubnetSets :: "string \<Rightarrow> gerror + subnet_set list"
  hkPorts :: "string \<Rightarrow> gerror + (string \<times> string \<times> string) list"
  hkPods :: "string \<Rightarrow> gerror + string list"
  hkReservations :: "string \<Rightarrow> string \<Rightarrow> gerror + nat"
  hkPathOfPort :: "string \<Rightarrow> string"
  hkSetOrder :: "string list \<Rightarrow> string list"

definition fullName :: "object_meta \<Rightarrow> string" where
  "fullName m = Namespace m @ ''/'' @ Name m"

text \<open>The checks that both validators make at the end.\<close>

definition modeResponse :: "mode_error option \<Rightarrow> response option" where
  "modeResponse e = (case e of None \<Rightarrow> None | Some (ListingFailed m) \<Rightarrow> Some (Errored 503 m) | Some (ModeDenied m) \<Rightarrow> Some (Denied m))"

definition familyResponse :: "('w, 's, 'p, 'd, 'e) hook_env \<Rightarrow> string \<Rightarrow> ip_address_type \<Rightarrow> response" where
  "familyResponse env kind ty =
    (if ty = noType then Allowed
     else case hkFamily env of
       None \<Rightarrow> Allowed
     | Some family \<Rightarrow>
         (case IntersectIPAddressTypes [ty, family] of
            Inl _ \<Rightarrow> Denied (kind @ '' IPAddressType '' @ ipTypeStr ty @ '' does not intersect with supervisor IP family '' @ ipTypeStr family)
          | Inr _ \<Rightarrow> Allowed))"

section \<open>Subnets\<close>

definition checkSubnetSet :: "('w, 's, 'p, 'd, 'e) hook_env \<Rightarrow> string \<Rightarrow> string \<Rightarrow> gerror + bool" where
  "checkSubnetSet env ns name =
    (case hkSubnetSets env ns of
       Inl e \<Rightarrow> Inl (''failed to list SubnetSet: '' @ e)
     | Inr sets \<Rightarrow> Inr (list_ex (\<lambda>s. case ssSubnetNames s of None \<Rightarrow> False | Some names \<Rightarrow> name \<in> set names) sets))"

definition checkSubnetPort :: "('w, 's, 'p, 'd, 'e) hook_env \<Rightarrow> string \<Rightarrow> string \<Rightarrow> gerror + bool" where
  "checkSubnetPort env ns name =
    (case hkPorts env ns of Inl e \<Rightarrow> Inl (''failed to list SubnetPort: '' @ e) | Inr ports \<Rightarrow> Inr (list_ex (\<lambda>(uid, sset, s). s = name) ports))"

definition checkSubnetIPReservation :: "('w, 's, 'p, 'd, 'e) hook_env \<Rightarrow> string \<Rightarrow> string \<Rightarrow> gerror + bool" where
  "checkSubnetIPReservation env ns name =
    (case hkReservations env ns name of Inl e \<Rightarrow> Inl (''failed to list SubnetIPReservations: '' @ e) | Inr n \<Rightarrow> Inr (n > 0))"

text \<open>The branches of the three operations; \<open>None\<close> goes on to the common checks.\<close>

definition subnetCreate :: "('w, 's, 'p, 'd, 'e) hook_env \<Rightarrow> string \<Rightarrow> subnet_cr \<Rightarrow> response option" where
  "subnetCreate env user s =
    (let (valid, msg) = ValidateSubnetSize (hkMinimalSize8 env) (csIPv4SubnetSize s); n = fullName (csMeta s) in
     if \<not> valid then Some (Denied (''Subnet '' @ n @ '' has invalid size '' @ Itoa (csIPv4SubnetSize s) @ '': '' @ msg))
     else if IsSharedSubnet (csAnnotations s) \<and> user \<noteq> NSXOperatorSA then Some (Denied (''Shared Subnet '' @ n @ '' can only be created by NSX Operator''))
     else if user \<noteq> NSXOperatorSA \<and> csVPCName s \<noteq> [] then Some (Denied (''Subnet '' @ n @ '': spec.vpcName can only be set by NSX Operator''))
     else if user \<noteq> NSXOperatorSA \<and> csVLANConnectionName s \<noteq> [] then Some (Denied (''Subnet '' @ n @ '': spec.vlanConnectionName can only be set by NSX Operator''))
     else if user \<noteq> NSXOperatorSA \<and> csAccessMode s = ''L2Only'' then Some (Denied (''Subnet '' @ n @ '': spec.accessMode L2Only is not supported''))
     else None)"

definition denySubnet :: "gerror option \<Rightarrow> response option" where
  "denySubnet e = map_option (\<lambda>m. Denied (''Subnet '' @ m)) e"

definition firstResponse :: "response option list \<Rightarrow> response option" where
  "firstResponse rs = (case filter (\<lambda>r. r \<noteq> None) rs of [] \<Rightarrow> None | r # _ \<Rightarrow> r)"

definition subnetUpdate :: "string \<Rightarrow> subnet_cr \<Rightarrow> subnet_cr \<Rightarrow> response option" where
  "subnetUpdate user old s =
    (let n = fullName (csMeta s) in
     if (IsSharedSubnet (csAnnotations old) \<or> IsSharedSubnet (csAnnotations s)) \<and> user \<noteq> NSXOperatorSA
     then Some (Denied (''Shared Subnet '' @ n @ '' can only be updated by NSX Operator''))
     else if user = NSXOperatorSA then None
     else if csVPCName old \<noteq> csVPCName s then Some (Denied (''Subnet '' @ n @ '': spec.vpcName can only be updated by NSX Operator''))
     else if csVLANConnectionName old \<noteq> csVLANConnectionName s then Some (Denied (''Subnet '' @ n @ '': spec.vlanConnectionName can only be updated by NSX Operator''))
     else firstResponse
       [denySubnet (ValidateIPAddressTypeTransition (csIPAddressType old) (csIPAddressType s)),
        denySubnet (ValidateAccessModeTransition (csAccessMode old) (csAccessMode s) (csIPAddressType old) (csIPAddressType s)),
        denySubnet (ValidateIPAddressesTransition (csIPAddresses old) (csIPAddresses s) (csIPAddressType old) (csIPAddressType s)),
        denySubnet (ValidateIPBlockNamesTransition (csIPBlockNames old) (csIPBlockNames s) (csIPAddressType old) (csIPAddressType s))])"

definition subnetDelete :: "('w, 's, 'p, 'd, 'e) hook_env \<Rightarrow> string \<Rightarrow> subnet_cr \<Rightarrow> subnet_cr \<Rightarrow> response option" where
  "subnetDelete env user old s =
    (let ns = Namespace (csMeta s); name = Name (csMeta s); n = fullName (csMeta s) in
     if (IsSharedSubnet (csAnnotations old) \<or> IsSharedSubnet (csAnnotations s)) \<and> user \<noteq> NSXOperatorSA
     then Some (Denied (''Shared Subnet '' @ n @ '' can only be deleted by NSX Operator''))
     else
       case checkSubnetSet env ns name of
         Inl e \<Rightarrow> Some (Errored 400 e)
       | Inr True \<Rightarrow> Some (Denied (''Subnet '' @ n @ '' used by SubnetSet cannot be deleted''))
       | Inr False \<Rightarrow>
           if user = NSXOperatorSA then None
           else
             (case checkSubnetPort env ns name of
                Inl e \<Rightarrow> Some (Errored 400 e)
              | Inr True \<Rightarrow> Some (Denied (''Subnet '' @ n @ '' with stale SubnetPorts cannot be deleted''))
              | Inr False \<Rightarrow>
                  (case checkSubnetIPReservation env ns name of
                     Inl e \<Rightarrow> Some (Errored 400 e)
                   | Inr True \<Rightarrow> Some (Denied (''Subnet '' @ n @ '' with stale SubnetIPReservations cannot be deleted''))
                   | Inr False \<Rightarrow> None)))"

definition SubnetValidator_Handle :: "('w, 's, 'p, 'd, 'e) hook_env \<Rightarrow> subnet_cr request \<Rightarrow> response" where
  "SubnetValidator_Handle env rq =
    (case (if rqOperation rq = DeleteOp then rqOldObject rq else rqObject rq) of
       Inl e \<Rightarrow> Errored 400 e
     | Inr s \<Rightarrow>
         (case (case rqOperation rq of
                  CreateOp \<Rightarrow> subnetCreate env (rqUser rq) s
                | UpdateOp \<Rightarrow> (case rqOldObject rq of Inl e \<Rightarrow> Some (Errored 400 e) | Inr old \<Rightarrow> subnetUpdate (rqUser rq) old s)
                | DeleteOp \<Rightarrow> (case rqOldObject rq of Inl e \<Rightarrow> Some (Errored 400 e) | Inr old \<Rightarrow> subnetDelete env (rqUser rq) old s)) of
            Some r \<Rightarrow> r
          | None \<Rightarrow>
              if rqOperation rq = DeleteOp then Allowed
              else
                (case modeResponse (CheckAccessModeOrVisibility (hkInfos env) (Namespace (csMeta s)) (csAccessMode s) ''subnet'') of
                   Some r \<Rightarrow> r
                 | None \<Rightarrow> familyResponse env ''Subnet'' (csIPAddressType s))))"

section \<open>SubnetSets\<close>

definition labelOf :: "subnet_set \<Rightarrow> string option" where
  "labelOf s = map_of (ssLabels s) ''nsx.vmware.com/default-network''"

definition defaultSubnetSetLabelChanged :: "subnet_set \<Rightarrow> subnet_set \<Rightarrow> bool" where
  "defaultSubnetSetLabelChanged old s \<longleftrightarrow> labelOf old \<noteq> labelOf s"

definition autoFields :: "subnet_set \<Rightarrow> bool" where
  "autoFields s \<longleftrightarrow> ssIPv4SubnetSize s \<noteq> 0 \<or> ssIPv6PrefixLength s \<noteq> 0 \<or> subnet_set.ssAccessMode s \<noteq> [] \<or> ssDHCPMode s \<noteq> [] \<or> ssDHCPv6Mode s \<noteq> []"

definition hasExclusiveFields :: "subnet_set \<Rightarrow> bool" where
  "hasExclusiveFields s \<longleftrightarrow> ssSubnetNames s \<noteq> None \<and> autoFields s"

datatype subnet_set_type = SubnetSetTypePreCreated | SubnetSetTypeAutoCreated | SubnetSetTypeNone

definition subnetSetType :: "subnet_set \<Rightarrow> subnet_set_type" where
  "subnetSetType s =
    (if ssSubnetNames s \<noteq> None then SubnetSetTypePreCreated else if autoFields s then SubnetSetTypeAutoCreated else SubnetSetTypeNone)"

definition switchSubnetSetType :: "subnet_set \<Rightarrow> subnet_set \<Rightarrow> string option" where
  "switchSubnetSetType old new =
    (let typeOld = subnetSetType old; typeNew = subnetSetType new in
     if typeOld \<noteq> typeNew \<and> typeOld \<noteq> SubnetSetTypeNone \<and> typeNew \<noteq> SubnetSetTypeNone
     then Some ''SubnetSet type cannot be switched between Pre-created and Auto-created''
     else if ssSubnetNames old \<noteq> None \<and> ssSubnetNames new = None then Some ''SubnetName should at least have value like subnetNames:[]''
     else None)"

text \<open>The ports on a SubnetSet: those that name it, and for a default SubnetSet the Pods, or the ports that name nothing.\<close>

definition defaultPortUIDs :: "('w, 's, 'p, 'd, 'e) hook_env \<Rightarrow> subnet_set \<Rightarrow> (string \<times> string \<times> string) list \<Rightarrow> gerror + string list" where
  "defaultPortUIDs env s ports =
    (if \<not> IsDefaultSubnetSet (Some s) then Inr []
     else let kind = GetSubnetSetKind (ssLabels s) in
       if kind = ''pod'' then (case hkPods env (Namespace (ssMeta s)) of Inl e \<Rightarrow> Inl (''failed to list Pod: '' @ e) | Inr pods \<Rightarrow> Inr pods)
       else if kind = ''vm'' then Inr (map fst (filter (\<lambda>(uid, sset, sub). sset = [] \<and> sub = []) ports))
       else Inr [])"

definition getSubnetPortsID :: "('w, 's, 'p, 'd, 'e) hook_env \<Rightarrow> subnet_set \<Rightarrow> gerror + string list" where
  "getSubnetPortsID env s =
    (case hkPorts env (Namespace (ssMeta s)) of
       Inl e \<Rightarrow> Inl (''failed to list SubnetPort: '' @ e)
     | Inr ports \<Rightarrow>
         (case defaultPortUIDs env s ports of
            Inl e \<Rightarrow> Inl e
          | Inr others \<Rightarrow> Inr (map fst (filter (\<lambda>(uid, sset, sub). sset = Name (ssMeta s)) ports) @ others)))"

text \<open>The ports that name the SubnetSet answer before the Pods are listed.\<close>

definition checkSetPort :: "('w, 's, 'p, 'd, 'e) hook_env \<Rightarrow> subnet_set \<Rightarrow> gerror + bool" where
  "checkSetPort env s =
    (case hkPorts env (Namespace (ssMeta s)) of
       Inl e \<Rightarrow> Inl (''failed to list SubnetPort: '' @ e)
     | Inr ports \<Rightarrow>
         if list_ex (\<lambda>(uid, sset, sub). sset = Name (ssMeta s)) ports then Inr True
         else (case defaultPortUIDs env s ports of Inl e \<Rightarrow> Inl e | Inr others \<Rightarrow> Inr (others \<noteq> [])))"

fun removedLoop ::
  "('w, 's, 'p, 'd, 'e) hook_env \<Rightarrow> string \<Rightarrow> string set \<Rightarrow> string list \<Rightarrow> ('w, 's, 'p) subnet_state \<Rightarrow> ((gerror + bool) \<times> ('w, 's, 'p) subnet_state) option" where
  "removedLoop env ns used [] st = Some (Inr True, st)"
| "removedLoop env ns used (n # names) st =
    (case chGetSubnet (hkChoice env) ns n (nsxOf st) of
       (Inl e, w) \<Rightarrow> Some (Inl (''failed to get Subnet '' @ ns @ ''/'' @ n @ '': '' @ error_msg e), withNSX st w)
     | (Inr cr, w) \<Rightarrow>
         (case GetSubnetByCR (chSubnets (hkChoice env)) cr (withNSX st w) of
            (Inl e, st) \<Rightarrow> Some (Inl (''failed to get NSX Subnet '' @ ns @ ''/'' @ n @ '': '' @ error_msg e), st)
          | (Inr s, st) \<Rightarrow>
              (case suPath s of
                 None \<Rightarrow> None
               | Some path \<Rightarrow> if path \<in> used then Some (Inr False, st) else removedLoop env ns used names st)))"

definition validateRemovedSubnets ::
  "('w, 's, 'p, 'd, 'e) hook_env \<Rightarrow> subnet_set \<Rightarrow> string list \<Rightarrow> ('w, 's, 'p) subnet_state \<Rightarrow> ((gerror + bool) \<times> ('w, 's, 'p) subnet_state) option" where
  "validateRemovedSubnets env s names st =
    (case getSubnetPortsID env s of
       Inl e \<Rightarrow> Some (Inl (''failed to get SubnetPort IDs: '' @ e), st)
     | Inr uids \<Rightarrow> removedLoop env (Namespace (ssMeta s)) (set (filter (\<lambda>p. p \<noteq> []) (map (hkPathOfPort env) uids))) names st)"

definition getVPCPath :: "('w, 's, 'p, 'd, 'e) hook_env \<Rightarrow> string \<Rightarrow> gerror + string" where
  "getVPCPath env ns =
    (case chVPCs (hkChoice env) ns of
       [] \<Rightarrow> Inl (''failed to get VPC Info '' @ ns)
     | v # _ \<Rightarrow> Inr (''/orgs/'' @ OrgID v @ ''/projects/'' @ ProjectID v @ ''/vpcs/'' @ VPCID v))"

definition getEffectiveStaticIPAllocation :: "subnet_cr \<Rightarrow> bool" where
  "getEffectiveStaticIPAllocation s =
    (case csStaticEnabled s of
       Some b \<Rightarrow> b
     | None \<Rightarrow> GetDefaultStaticIPAllocation (Some \<lparr>crDHCPMode = csDHCPMode s, crDHCPv6Mode = csDHCPv6Mode s, crIPAddressType = csIPAddressType s\<rparr>))"

definition getEffectiveDHCPMode :: "subnet_cr \<Rightarrow> string" where "getEffectiveDHCPMode s = orDeactivated (csDHCPMode s)"

definition getEffectiveDHCPv6Mode :: "subnet_cr \<Rightarrow> string" where "getEffectiveDHCPv6Mode s = orDeactivated (csDHCPv6Mode s)"

text \<open>What is compared with the first Subnet: the access mode, the two DHCP modes and the static allocation.\<close>

type_synonym subnet_profile = "string \<times> string \<times> string \<times> bool"

definition profile :: "subnet_cr \<Rightarrow> subnet_profile" where
  "profile s = (csAccessMode s, getEffectiveDHCPMode s, getEffectiveDHCPv6Mode s, getEffectiveStaticIPAllocation s)"

definition mustHaveSame :: "string \<Rightarrow> string \<Rightarrow> string \<Rightarrow> string \<Rightarrow> string \<Rightarrow> gerror" where
  "mustHaveSame ns sset field a b = ''Subnets in SubnetSet '' @ ns @ ''/'' @ sset @ '' must have the same '' @ field @ '', found different '' @ field @ ''s: ['' @ a @ '', '' @ b @ '']''"

definition boolStr :: "bool \<Rightarrow> string" where "boolStr b = (if b then ''true'' else ''false'')"

definition profileError :: "string \<Rightarrow> string \<Rightarrow> ip_address_type \<Rightarrow> subnet_profile \<Rightarrow> subnet_profile \<Rightarrow> gerror option" where
  "profileError ns sset expected first this =
    (case (first, this) of ((am, dm, dm6, st), (am', dm', dm6', st')) \<Rightarrow>
       if IPAddressTypeIncludesIPv4 expected \<and> am \<noteq> am' then Some (mustHaveSame ns sset ''AccessMode'' am am')
       else if IPAddressTypeIncludesIPv4 expected \<and> dm \<noteq> dm' then Some (mustHaveSame ns sset ''DHCPConfigMode'' dm dm')
       else if IPAddressTypeIncludesIPv6 expected \<and> dm6 \<noteq> dm6' then Some (mustHaveSame ns sset ''DHCPv6ConfigMode'' dm6 dm6')
       else if st \<noteq> st' then Some (mustHaveSame ns sset ''StaticIPAllocation'' (boolStr st) (boolStr st'))
       else None)"

fun beforeSeparator :: "string \<Rightarrow> string \<Rightarrow> string" where
  "beforeSeparator sep [] = []"
| "beforeSeparator sep (c # s) = (if HasPrefix (c # s) sep then [] else c # beforeSeparator sep s)"

definition vpcOfSubnet :: "('w, 's, 'p, 'd, 'e) hook_env \<Rightarrow> string \<Rightarrow> subnet_cr \<Rightarrow> gerror + string" where
  "vpcOfSubnet env ns s =
    (case map_of (case csAnnotations s of None \<Rightarrow> [] | Some a \<Rightarrow> a) ''nsx.vmware.com/associated-resource'' of
       Some r \<Rightarrow> map_sum id (beforeSeparator ''/subnets/'') (GetSubnetPathFromAssociatedResource r)
     | None \<Rightarrow> getVPCPath env ns)"

text \<open>The checks of one Subnet against the first one and the VPC found so far; the flag of an error tells a rule that is broken from a failed reading.\<close>

definition subnetError :: "string \<Rightarrow> string \<Rightarrow> ip_address_type \<Rightarrow> ip_address_type \<Rightarrow> subnet_profile option \<Rightarrow> subnet_cr \<Rightarrow> gerror option" where
  "subnetError ns sset ty expected first s =
    (let n = fullName (csMeta s) in
     if getEffectiveDHCPMode s = ''DHCPRelay'' then Some (''DHCPRelay Subnet '' @ n @ '' is not supported in SubnetSet'')
     else if getEffectiveDHCPv6Mode s = ''DHCPRelay'' \<or> csDHCPv6Mode s = ''DHCPServerStateless''
     then Some (''DHCPRelay or DHCPServerStateless Subnet '' @ n @ '' is not supported in SubnetSet'')
     else if ty \<noteq> noType \<and> \<not> IsSupersetIPAddressTypes (csIPAddressType s) ty
     then Some (''Subnet '' @ Name (csMeta s) @ '' with IPAddressType '' @ ipTypeStr (csIPAddressType s) @ '' cannot be added to SubnetSet of IPAddressType '' @ ipTypeStr ty)
     else case first of None \<Rightarrow> None | Some f \<Rightarrow> profileError ns sset expected f (profile s))"

fun validateLoop ::
  "('w, 's, 'p, 'd, 'e) hook_env \<Rightarrow> string \<Rightarrow> string \<Rightarrow> ip_address_type \<Rightarrow> ip_address_type \<Rightarrow> subnet_profile option \<Rightarrow> string \<Rightarrow> string list \<Rightarrow> 'w \<Rightarrow>
   (bool \<times> gerror) option \<times> 'w" where
  "validateLoop env ns sset ty expected first vpc [] w = (None, w)"
| "validateLoop env ns sset ty expected first vpc (n # names) w =
    (case chGetSubnet (hkChoice env) ns n w of
       (Inl e, w) \<Rightarrow> (Some (False, ''failed to get Subnet '' @ ns @ ''/'' @ n @ '': '' @ error_msg e), w)
     | (Inr s, w) \<Rightarrow>
         (case subnetError ns sset ty expected first s of
            Some e \<Rightarrow> (Some (True, e), w)
          | None \<Rightarrow>
              (case vpcOfSubnet env ns s of
                 Inl e \<Rightarrow> (Some (False, e), w)
               | Inr v \<Rightarrow>
                   if vpc \<noteq> [] \<and> vpc \<noteq> v then (Some (True, ''Subnets under SubnetSet '' @ ns @ ''/'' @ sset @ '' are from different VPCs''), w)
                   else validateLoop env ns sset ty expected (case first of None \<Rightarrow> Some (profile s) | Some f \<Rightarrow> Some f) v names w)))"

definition validateSubnets ::
  "('w, 's, 'p, 'd, 'e) hook_env \<Rightarrow> string \<Rightarrow> string list option \<Rightarrow> string \<Rightarrow> ip_address_type \<Rightarrow> 'w \<Rightarrow> (bool \<times> gerror) option \<times> 'w" where
  "validateSubnets env ns names sset ty w =
    (case names of
       None \<Rightarrow> (None, w)
     | Some names \<Rightarrow>
         (case GetPrecreatedSubnetSetIPAddressType (hkChoice env) ns (Some names) ty (case hkFamily env of Some f \<Rightarrow> f | None \<Rightarrow> IPAddressTypeIPv4) w of
            (Inl e, w) \<Rightarrow> (Some (True, ''failed to calculate expected IPAddressType for SubnetSet: '' @ error_msg e), w)
          | (Inr expected, w) \<Rightarrow> validateLoop env ns sset ty expected None [] names w))"

definition validateResponse :: "(bool \<times> gerror) option \<Rightarrow> response option" where
  "validateResponse r = map_option (\<lambda>(deny, e). if deny then Denied e else Errored 400 e) r"

definition setCreate :: "('w, 's, 'p, 'd, 'e) hook_env \<Rightarrow> string \<Rightarrow> subnet_set \<Rightarrow> ('w, 's, 'p) subnet_state \<Rightarrow> response option \<times> ('w, 's, 'p) subnet_state" where
  "setCreate env user s st =
    (let (valid, msg) = ValidateSubnetSize (hkMinimalSize8 env) (ssIPv4SubnetSize s) in
     if \<not> valid then (Some (Denied (''SubnetSet '' @ fullName (ssMeta s) @ '' has invalid size '' @ Itoa (ssIPv4SubnetSize s) @ '': '' @ msg)), st)
     else if IsDefaultSubnetSet (Some s) \<and> user \<noteq> NSXOperatorSA then (Some (Denied ''default SubnetSet only can be created by nsx-operator''), st)
     else if ssSubnetNames s \<noteq> None \<and> ssIPAddressType s \<noteq> noType \<and> user \<noteq> NSXOperatorSA
     then (Some (Denied ''Pre-created SubnetSet spec.ipAddressType can only be set by NSX Operator''), st)
     else let (r, w) = validateSubnets env (Namespace (ssMeta s)) (ssSubnetNames s) (Name (ssMeta s)) (ssIPAddressType s) (nsxOf st) in (validateResponse r, withNSX st w))"

definition denySet :: "gerror option \<Rightarrow> response option" where
  "denySet e = map_option (\<lambda>m. Denied (''SubnetSet '' @ m)) e"

text \<open>The part of an update that needs no reading.\<close>

definition setGuards :: "string \<Rightarrow> subnet_set \<Rightarrow> subnet_set \<Rightarrow> response option" where
  "setGuards user old s =
    (if (IsDefaultSubnetSet (Some s) \<or> IsDefaultSubnetSet (Some old)) \<and> user \<noteq> NSXOperatorSA
     then Some (Denied ''default SubnetSet only can be updated by nsx-operator'')
     else if defaultSubnetSetLabelChanged old s \<and> user \<noteq> NSXOperatorSA
     then Some (Denied ''SubnetSet label nsx.vmware.com/default-network can only be updated by NSX Operator'')
     else if ssSubnetNames s \<noteq> None \<and> ssIPAddressType s \<noteq> ssIPAddressType old \<and> user \<noteq> NSXOperatorSA
     then Some (Denied ''Pre-created SubnetSet spec.ipAddressType can only be set by NSX Operator'')
     else if ssSubnetNames s = None then
       firstResponse [denySet (ValidateIPAddressTypeTransition (ssIPAddressType old) (ssIPAddressType s)),
         denySet (ValidateAccessModeTransition (subnet_set.ssAccessMode old) (subnet_set.ssAccessMode s) (ssIPAddressType old) (ssIPAddressType s))]
     else None)"

definition setUpdate ::
  "('w, 's, 'p, 'd, 'e) hook_env \<Rightarrow> string \<Rightarrow> subnet_set \<Rightarrow> subnet_set \<Rightarrow> ('w, 's, 'p) subnet_state \<Rightarrow> (response option \<times> ('w, 's, 'p) subnet_state) option" where
  "setUpdate env user old s st =
    (case setGuards user old s of
       Some r \<Rightarrow> Some (Some r, st)
     | None \<Rightarrow>
         (case validateSubnets env (Namespace (ssMeta s)) (ssSubnetNames s) (Name (ssMeta s)) (ssIPAddressType s) (nsxOf st) of
            (Some v, w) \<Rightarrow> Some (validateResponse (Some v), withNSX st w)
          | (None, w) \<Rightarrow>
              (case switchSubnetSetType old s of
                 Some m \<Rightarrow> Some (Some (Denied m), withNSX st w)
               | None \<Rightarrow>
                   (case (ssSubnetNames s, ssSubnetNames old) of
                      (Some new, Some before) \<Rightarrow>
                        let removed = DiffArrays (hkSetOrder env) before new in
                        (case validateRemovedSubnets env s removed (withNSX st w) of
                           None \<Rightarrow> None
                         | Some (Inl e, st) \<Rightarrow> Some (Some (Errored 400 e), st)
                         | Some (Inr True, st) \<Rightarrow> Some (None, st)
                         | Some (Inr False, st) \<Rightarrow>
                             Some (Some (Denied (''Subnets ['' @ str_join removed '' '' @ ''] on SubnetSet '' @ fullName (ssMeta s) @ '' used by SubnetPorts cannot be removed'')), st))
                    | _ \<Rightarrow> Some (None, withNSX st w)))))"

definition setDelete :: "('w, 's, 'p, 'd, 'e) hook_env \<Rightarrow> string \<Rightarrow> subnet_set \<Rightarrow> response option" where
  "setDelete env user s =
    (if IsDefaultSubnetSet (Some s) \<and> user \<noteq> NSXOperatorSA then Some (Denied ''default SubnetSet only can be deleted by nsx-operator'')
     else
       case checkSetPort env s of
         Inl e \<Rightarrow> Some (Errored 400 e)
       | Inr used \<Rightarrow> if used then Some (Denied (''SubnetSet '' @ fullName (ssMeta s) @ '' with stale SubnetPorts cannot be deleted'')) else None)"

definition setFinal :: "('w, 's, 'p, 'd, 'e) hook_env \<Rightarrow> subnet_set \<Rightarrow> response" where
  "setFinal env s =
    (if hasExclusiveFields s then Denied ''SubnetSet spec.subnetNames is exclusive with spec.ipv4SubnetSize, spec.accessMode and spec.subnetDHCPConfig''
     else
       case modeResponse (CheckAccessModeOrVisibility (hkInfos env) (Namespace (ssMeta s)) (subnet_set.ssAccessMode s) ''subnetset'') of
         Some r \<Rightarrow> r
       | None \<Rightarrow> familyResponse env ''SubnetSet'' (ssIPAddressType s))"

definition SubnetSetValidator_Handle ::
  "('w, 's, 'p, 'd, 'e) hook_env \<Rightarrow> subnet_set request \<Rightarrow> ('w, 's, 'p) subnet_state \<Rightarrow> (response \<times> ('w, 's, 'p) subnet_state) option" where
  "SubnetSetValidator_Handle env rq st =
    (case (if rqOperation rq = DeleteOp then rqOldObject rq else rqObject rq) of
       Inl e \<Rightarrow> Some (Errored 400 e, st)
     | Inr s \<Rightarrow>
         (case rqOperation rq of
            CreateOp \<Rightarrow> (case setCreate env (rqUser rq) s st of (Some r, st) \<Rightarrow> Some (r, st) | (None, st) \<Rightarrow> Some (setFinal env s, st))
          | UpdateOp \<Rightarrow>
              (case rqOldObject rq of
                 Inl e \<Rightarrow> Some (Errored 400 e, st)
               | Inr old \<Rightarrow>
                   (case setUpdate env (rqUser rq) old s st of
                      None \<Rightarrow> None | Some (Some r, st) \<Rightarrow> Some (r, st) | Some (None, st) \<Rightarrow> Some (setFinal env s, st)))
          | DeleteOp \<Rightarrow> Some (case setDelete env (rqUser rq) s of Some r \<Rightarrow> r | None \<Rightarrow> Allowed, st)))"

section \<open>Address bindings, allocations and routes\<close>

text \<open>The AddressBindings of a VM, from the index of the client by Namespace and VM.\<close>

definition interfaceTaken :: "vm_binding \<Rightarrow> vm_binding list \<Rightarrow> bool" where
  "interfaceTaken ab existing =
    (let hasDefault = (vbInterfaceName ab = [] \<or> list_ex (\<lambda>b. vbInterfaceName b = []) existing) in
     list_ex (\<lambda>b. Name (vbMeta ab) \<noteq> Name (vbMeta b) \<and> (hasDefault \<or> vbInterfaceName ab = vbInterfaceName b)) existing)"

text \<open>An allocation that a binding may use is external and a single address.\<close>

definition allocationResponse :: "(string \<Rightarrow> string \<Rightarrow> gerror + ip_allocation) \<Rightarrow> vm_binding \<Rightarrow> response" where
  "allocationResponse getAllocation ab =
    (if vbIPAddressAllocationName ab = [] then Allowed
     else case getAllocation (Namespace (vbMeta ab)) (vbIPAddressAllocationName ab) of
       Inl _ \<Rightarrow> Denied (''IPAddressAllocation '' @ vbIPAddressAllocationName ab @ '' does not exist'')
     | Inr a \<Rightarrow>
         let v6 = (iaIPAddressType a = ''IPv6'') in
         if \<not> v6 \<and> iaVisibility a \<noteq> ''External'' then Denied (''IPBlock visibility of IPAddressAllocation must be '' @ [CHR 0x22] @ ''External'' @ [CHR 0x22])
         else if iaAllocationIPs a \<noteq> [] \<and> ParseIP (iaAllocationIPs a) = None then Denied ''IPAddressAllocation must be a single IP''
         else if iaAllocationIPs a = [] \<and> v6 \<and> iaIPv6AllocationPrefixLength a \<noteq> 128 then Denied ''IPAddressAllocation must be a single IP''
         else if iaAllocationIPs a = [] \<and> \<not> v6 \<and> iaAllocationSize a \<noteq> 1 then Denied ''IPAddressAllocation must be a single IP''
         else Allowed)"

definition AddressBindingValidator_Handle ::
  "(string \<Rightarrow> gerror + string list list) \<Rightarrow> (string \<Rightarrow> string \<Rightarrow> gerror + vm_binding list) \<Rightarrow> (string \<Rightarrow> string \<Rightarrow> gerror + ip_allocation) \<Rightarrow> vm_binding request \<Rightarrow> response" where
  "AddressBindingValidator_Handle infos listByVM getAllocation rq =
    (if rqOperation rq = DeleteOp then Allowed
     else case rqObject rq of
       Inl e \<Rightarrow> Errored 400 e
     | Inr ab \<Rightarrow>
         (case modeResponse (CheckNetworkStack infos (rqNamespace rq) ''AddressBinding'') of
            Some r \<Rightarrow> r
          | None \<Rightarrow>
              (case rqOperation rq of
                 CreateOp \<Rightarrow>
                   (case listByVM (Namespace (vbMeta ab)) (vbVMName ab) of
                      Inl e \<Rightarrow> Errored 500 e
                    | Inr existing \<Rightarrow> if interfaceTaken ab existing then Denied ''interface already has AddressBinding'' else allocationResponse getAllocation ab)
               | _ \<Rightarrow>
                   (case rqOldObject rq of
                      Inl e \<Rightarrow> Errored 400 e
                    | Inr old \<Rightarrow>
                        if vbVMName ab \<noteq> vbVMName old \<or> vbInterfaceName ab \<noteq> vbInterfaceName old
                        then Denied ''update AddressBinding vmName/interfaceName is not allowed'' else allocationResponse getAllocation ab))))"

definition ifIPUsed :: "string \<Rightarrow> string \<Rightarrow> bool" where
  "ifIPUsed loadBalancerIP ipRange =
    (case ParseIP loadBalancerIP of
       None \<Rightarrow> False
     | Some ip \<Rightarrow>
         (case ParseCIDR ipRange of
            Some (_, net) \<Rightarrow> IPNet_Contains net ip
          | None \<Rightarrow> (case ParseIP ipRange of None \<Rightarrow> False | Some r \<Rightarrow> IP_Equal ip r)))"

text \<open>An allocation comes with the types of its conditions; a Service is its load balancer address and its name.\<close>

definition validateServiceVIP :: "(string \<Rightarrow> gerror + (string \<times> string) list) \<Rightarrow> string \<Rightarrow> ip_allocation \<Rightarrow> string list \<Rightarrow> response" where
  "validateServiceVIP services ns a conditions =
    (if conditions = [] \<or> hd conditions \<noteq> ''Ready'' then Allowed
     else case services ns of
       Inl e \<Rightarrow> Errored 500 e
     | Inr svcs \<Rightarrow>
         (case List.find (\<lambda>(ip, name). ip \<noteq> [] \<and> ifIPUsed ip (iaStatusIPs a)) svcs of
            None \<Rightarrow> Allowed
          | Some (ip, name) \<Rightarrow> Denied (''cannot delete IPAddressAllocation '' @ Name (iaMeta a) @ '': IP '' @ ip @ '' is still in use by Service '' @ name)))"

text \<open>The names of the AddressBindings and of the StaticRoutes that use an allocation, from the indexes of the client.\<close>

definition IPAddressAllocationValidator_Handle ::
  "(string \<Rightarrow> gerror + string list list) \<Rightarrow> (string \<Rightarrow> string \<Rightarrow> gerror + string list) \<Rightarrow> (string \<Rightarrow> string \<Rightarrow> gerror + string list) \<Rightarrow>
   (string \<Rightarrow> gerror + (string \<times> string) list) \<Rightarrow> (ip_allocation \<times> string list) request \<Rightarrow> response" where
  "IPAddressAllocationValidator_Handle infos bindings routes services rq =
    (case (if rqOperation rq = DeleteOp then rqOldObject rq else rqObject rq) of
       Inl e \<Rightarrow> Errored 400 e
     | Inr (a, conditions) \<Rightarrow>
         let ns = Namespace (iaMeta a); name = Name (iaMeta a) in
         if rqOperation rq = DeleteOp then
           (case bindings ns name of
              Inl e \<Rightarrow> Errored 400 e
            | Inr (b # _) \<Rightarrow> Denied (''IPAddressAllocation '' @ name @ '' is used by AddressBinding '' @ b)
            | Inr [] \<Rightarrow>
                (case routes ns name of
                   Inl e \<Rightarrow> Errored 400 e
                 | Inr (r # _) \<Rightarrow> Denied (''IPAddressAllocation '' @ name @ '' is used by StaticRoute '' @ r)
                 | Inr [] \<Rightarrow> validateServiceVIP services (rqNamespace rq) a conditions))
         else
           let visibility = (if iaIPAddressType a = ''IPv6'' then [] else if iaVisibility a = [] then ''Private'' else iaVisibility a) in
           if visibility = [] then Allowed
           else (case modeResponse (CheckAccessModeOrVisibility infos ns visibility ''VpcIpAddressAllocation'') of Some r \<Rightarrow> r | None \<Rightarrow> Allowed))"

definition StaticRouteValidator_Handle :: "(string \<Rightarrow> gerror + string list list) \<Rightarrow> static_route request \<Rightarrow> response" where
  "StaticRouteValidator_Handle infos rq =
    (if rqOperation rq = DeleteOp then Allowed
     else case rqObject rq of
       Inl e \<Rightarrow> Errored 400 e
     | Inr _ \<Rightarrow> (case modeResponse (CheckNetworkStack infos (rqNamespace rq) ''StaticRoute'') of Some r \<Rightarrow> r | None \<Rightarrow> Allowed))"

section \<open>Properties\<close>

text \<open>An update of a Subnet by a user other than the operator that the webhook lets through, whatever the cluster answers.\<close>

definition userUpdate :: "('w, 's, 'p, 'd, 'e) hook_env \<Rightarrow> string \<Rightarrow> subnet_cr \<Rightarrow> subnet_cr \<Rightarrow> bool" where
  "userUpdate env user old new \<longleftrightarrow> user \<noteq> NSXOperatorSA
    \<and> SubnetValidator_Handle env \<lparr>rqOperation = UpdateOp, rqUser = user, rqNamespace = Namespace (csMeta new), rqObject = Inr new, rqOldObject = Inr old\<rparr> = Allowed"

text \<open>A history of updates: the cluster as the webhook saw it, the user and the new Subnet.\<close>

fun admittedRun :: "subnet_cr \<Rightarrow> (('w, 's, 'p, 'd, 'e) hook_env \<times> string \<times> subnet_cr) list \<Rightarrow> bool" where
  "admittedRun s [] \<longleftrightarrow> True"
| "admittedRun s ((env, user, t) # run) \<longleftrightarrow> userUpdate env user s t \<and> admittedRun t run"

definition afterRun :: "subnet_cr \<Rightarrow> (('w, 's, 'p, 'd, 'e) hook_env \<times> string \<times> subnet_cr) list \<Rightarrow> subnet_cr" where
  "afterRun s run = last (s # map (\<lambda>(env, user, t). t) run)"

lemma firstResponse_None: "firstResponse rs = None \<longleftrightarrow> (\<forall>r \<in> set rs. r = None)"
  by (auto simp: firstResponse_def filter_empty_conv split: list.splits dest!: filter_eq_ConsD)

lemma subnetUpdate_None:
  assumes "userUpdate env user old new"
  shows "subnetUpdate user old new = None" "user \<noteq> NSXOperatorSA"
  using assms by (auto simp: userUpdate_def SubnetValidator_Handle_def split: option.splits)
     (auto simp: subnetUpdate_def Let_def firstResponse_def denySubnet_def split: if_splits list.splits)

lemma userUpdate_fields:
  assumes "userUpdate env user old new"
  shows "\<not> IsSharedSubnet (csAnnotations old)" "\<not> IsSharedSubnet (csAnnotations new)" "csVPCName new = csVPCName old"
    "csVLANConnectionName new = csVLANConnectionName old"
    "ValidateIPAddressTypeTransition (csIPAddressType old) (csIPAddressType new) = None"
    "ValidateAccessModeTransition (csAccessMode old) (csAccessMode new) (csIPAddressType old) (csIPAddressType new) = None"
    "ValidateIPAddressesTransition (csIPAddresses old) (csIPAddresses new) (csIPAddressType old) (csIPAddressType new) = None"
    "ValidateIPBlockNamesTransition (csIPBlockNames old) (csIPBlockNames new) (csIPAddressType old) (csIPAddressType new) = None"
  using subnetUpdate_None [OF assms]
  by (auto simp: subnetUpdate_def Let_def firstResponse_None denySubnet_def split: if_splits)

text \<open>One update keeps what a Subnet has: addresses and blocks are only added, and only with the step to both families.\<close>

definition keepsSubnet :: "subnet_cr \<Rightarrow> subnet_cr \<Rightarrow> bool" where
  "keepsSubnet old new \<longleftrightarrow> csVPCName new = csVPCName old \<and> csVLANConnectionName new = csVLANConnectionName old
    \<and> IsSharedSubnet (csAnnotations new) = IsSharedSubnet (csAnnotations old)
    \<and> set (csIPAddresses old) \<subseteq> set (csIPAddresses new) \<and> set (csIPBlockNames old) \<subseteq> set (csIPBlockNames new)
    \<and> (knownType (csIPAddressType old) \<longrightarrow> knownType (csIPAddressType new) \<and> IsSupersetIPAddressTypes (csIPAddressType new) (csIPAddressType old))
    \<and> (csIPAddressType old = IPAddressTypeIPv4IPv6 \<longrightarrow> set (csIPAddresses new) = set (csIPAddresses old) \<and> set (csIPBlockNames new) = set (csIPBlockNames old))
    \<and> (csAccessMode old \<noteq> [] \<and> csIPAddressType old \<in> {IPAddressTypeIPv4, IPAddressTypeIPv4IPv6} \<longrightarrow> csAccessMode new = csAccessMode old)"

lemma keepsSubnet_refl: "keepsSubnet s s"
  by (simp add: keepsSubnet_def IsSupersetIPAddressTypes_def)

lemma superset_types_trans:
  "IsSupersetIPAddressTypes z y \<Longrightarrow> IsSupersetIPAddressTypes y x \<Longrightarrow> IsSupersetIPAddressTypes z x"
  by (auto simp: IsSupersetIPAddressTypes_def)

lemma superset_of_IPv4:
  "IsSupersetIPAddressTypes y x \<Longrightarrow> x \<in> {IPAddressTypeIPv4, IPAddressTypeIPv4IPv6} \<Longrightarrow> y \<in> {IPAddressTypeIPv4, IPAddressTypeIPv4IPv6}"
  by (auto simp: IsSupersetIPAddressTypes_def)

lemma superset_of_dual: "IsSupersetIPAddressTypes y IPAddressTypeIPv4IPv6 \<Longrightarrow> y = IPAddressTypeIPv4IPv6"
  by (auto simp: IsSupersetIPAddressTypes_def)

lemma keepsSubnet_trans:
  assumes "keepsSubnet a b" "keepsSubnet b c"
  shows "keepsSubnet a c"
proof -
  note ab = assms(1) [unfolded keepsSubnet_def] and bc = assms(2) [unfolded keepsSubnet_def]
  have known: "knownType t" if "t \<in> {IPAddressTypeIPv4, IPAddressTypeIPv4IPv6}" for t using that by (auto simp: knownType_def)
  have sup: "IsSupersetIPAddressTypes (csIPAddressType b) (csIPAddressType a)" if "knownType (csIPAddressType a)" using ab that by simp
  have fixed: "csVPCName c = csVPCName a" "csVLANConnectionName c = csVLANConnectionName a"
    "IsSharedSubnet (csAnnotations c) = IsSharedSubnet (csAnnotations a)" using ab bc by simp_all
  have grow: "set (csIPAddresses a) \<subseteq> set (csIPAddresses c)" "set (csIPBlockNames a) \<subseteq> set (csIPBlockNames c)" using ab bc by (metis subset_trans)+
  have fam: "knownType (csIPAddressType c) \<and> IsSupersetIPAddressTypes (csIPAddressType c) (csIPAddressType a)" if "knownType (csIPAddressType a)"
    using that ab bc superset_types_trans by metis
  have dual: "set (csIPAddresses c) = set (csIPAddresses a) \<and> set (csIPBlockNames c) = set (csIPBlockNames a)" if t: "csIPAddressType a = IPAddressTypeIPv4IPv6"
  proof -
    have "csIPAddressType b = IPAddressTypeIPv4IPv6" using sup superset_of_dual known [of "csIPAddressType a"] t by simp
    then show ?thesis using ab bc t by simp
  qed
  have mode: "csAccessMode c = csAccessMode a" if t: "csAccessMode a \<noteq> []" "csIPAddressType a \<in> {IPAddressTypeIPv4, IPAddressTypeIPv4IPv6}"
  proof -
    have "csIPAddressType b \<in> {IPAddressTypeIPv4, IPAddressTypeIPv4IPv6}" using superset_of_IPv4 [OF sup [OF known [OF t(2)]] t(2)] .
    moreover have "csAccessMode b = csAccessMode a" using ab t by blast
    ultimately show ?thesis using bc t(1) by simp
  qed
  show ?thesis unfolding keepsSubnet_def using fixed grow fam dual mode by blast
qed

lemma userUpdate_keeps:
  assumes "userUpdate env user old new"
  shows "keepsSubnet old new"
proof -
  note f = userUpdate_fields [OF assms]
  have a: "set (csIPAddresses old) \<subseteq> set (csIPAddresses new)"
    "csIPAddressType old = IPAddressTypeIPv4IPv6 \<longrightarrow> set (csIPAddresses new) = set (csIPAddresses old)"
    using f(7) by (auto simp: ValidateIPAddressesTransition_def widened_def split: if_splits)
  have b: "set (csIPBlockNames old) \<subseteq> set (csIPBlockNames new)"
    "csIPAddressType old = IPAddressTypeIPv4IPv6 \<longrightarrow> set (csIPBlockNames new) = set (csIPBlockNames old)"
    using f(8) by (auto simp: ValidateIPBlockNamesTransition_def widened_def split: if_splits)
  have c: "knownType (csIPAddressType old) \<longrightarrow> knownType (csIPAddressType new) \<and> IsSupersetIPAddressTypes (csIPAddressType new) (csIPAddressType old)"
    using f(5) by (auto simp: ValidateIPAddressTypeTransition_def knownType_def IsSupersetIPAddressTypes_def split: if_splits)
  have d: "csAccessMode old \<noteq> [] \<and> csIPAddressType old \<in> {IPAddressTypeIPv4, IPAddressTypeIPv4IPv6} \<longrightarrow> csAccessMode new = csAccessMode old"
    using f(6) by (auto simp: ValidateAccessModeTransition_def split: if_splits)
  show ?thesis unfolding keepsSubnet_def using f(1-4) a b c d by blast
qed

text \<open>C26. However often users change a Subnet, what the webhook lets through keeps its VPC and VLAN connection, never makes it shared, never takes an address, an IP block or an
  address family away, and leaves the addresses of a dual-stack Subnet and the access mode of a Subnet with IPv4 as they were.\<close>

theorem admitted_updates_keep:
  assumes "admittedRun s run"
  shows "keepsSubnet s (afterRun s run)"
  using assms
proof (induction run arbitrary: s)
  case Nil
  then show ?case by (simp add: afterRun_def keepsSubnet_refl)
next
  case (Cons u run)
  obtain env user t where u: "u = (env, user, t)" by (cases u)
  then have "keepsSubnet s t" "keepsSubnet t (afterRun t run)" using Cons userUpdate_keeps by auto
  moreover have "afterRun s (u # run) = afterRun t run" by (simp add: afterRun_def u)
  ultimately show ?case using keepsSubnet_trans by metis
qed

definition demoHooks :: "(((string list \<times> string) \<times> nsx_subnet) list, (string \<times> nsx_subnet) list, (string \<times> nsx_port) list, string, subnet_value) hook_env" where
  "demoHooks = \<lparr>hkChoice = demoAllocSubnetEnv, hkMinimalSize8 = False, hkFamily = Some IPAddressTypeIPv4IPv6, hkInfos = (\<lambda>_. Inr []), hkSubnetSets = (\<lambda>_. Inr []),
     hkPorts = (\<lambda>_. Inr []), hkPods = (\<lambda>_. Inr []), hkReservations = (\<lambda>_ _. Inr 0), hkPathOfPort = (\<lambda>_. []), hkSetOrder = id\<rparr>"

definition demoNarrow :: subnet_cr where
  "demoNarrow = demoCR\<lparr>csAnnotations := None, csIPAddresses := [''10.0.0.0/28'']\<rparr>"

definition demoWide :: subnet_cr where
  "demoWide = demoNarrow\<lparr>csIPAddresses := [''10.0.0.0/28'', ''2001:db8::/64''], csIPAddressType := IPAddressTypeIPv4IPv6\<rparr>"

theorem admitted_updates_keep_witness:
  "userUpdate demoHooks ''admin'' demoNarrow demoWide \<and> \<not> userUpdate demoHooks ''admin'' demoWide demoNarrow
    \<and> keepsSubnet demoNarrow demoWide \<and> csIPAddresses demoWide \<noteq> csIPAddresses demoNarrow"
proof -
  have u: "userUpdate demoHooks ''admin'' demoNarrow demoWide" "\<not> userUpdate demoHooks ''admin'' demoWide demoNarrow" by (code_simp, code_simp)
  then have "admittedRun demoNarrow [(demoHooks, ''admin'', demoWide)]" by simp
  from admitted_updates_keep [OF this] u show ?thesis by (simp add: afterRun_def demoWide_def demoNarrow_def)
qed

section \<open>Address bindings of a VM\<close>

text \<open>The bindings of one Namespace under admitted requests; the client lists what is there, and Kubernetes keeps names unique.\<close>

definition bindingsOf :: "vm_binding list \<Rightarrow> string \<Rightarrow> string \<Rightarrow> vm_binding list" where
  "bindingsOf bs ns vm = filter (\<lambda>b. Namespace (vbMeta b) = ns \<and> vbVMName b = vm) bs"

inductive bindingStep :: "vm_binding list \<Rightarrow> vm_binding list \<Rightarrow> bool" where
  create: "AddressBindingValidator_Handle infos (\<lambda>ns vm. Inr (bindingsOf bs ns vm)) getAllocation
      \<lparr>rqOperation = CreateOp, rqUser = user, rqNamespace = Namespace (vbMeta ab), rqObject = Inr ab, rqOldObject = old\<rparr> = Allowed
    \<Longrightarrow> (\<And>b. b \<in> set bs \<Longrightarrow> (Namespace (vbMeta b), Name (vbMeta b)) \<noteq> (Namespace (vbMeta ab), Name (vbMeta ab)))
    \<Longrightarrow> bindingStep bs (ab # bs)"
| update: "AddressBindingValidator_Handle infos (\<lambda>ns vm. Inr (bindingsOf (A @ b # B) ns vm)) getAllocation
      \<lparr>rqOperation = UpdateOp, rqUser = user, rqNamespace = Namespace (vbMeta ab), rqObject = Inr ab, rqOldObject = Inr b\<rparr> = Allowed
    \<Longrightarrow> vbMeta ab = vbMeta b \<Longrightarrow> bindingStep (A @ b # B) (A @ ab # B)"
| delete: "bindingStep (A @ b # B) (A @ B)"

inductive bindingReach :: "vm_binding list \<Rightarrow> bool" where
  start: "bindingReach []"
| step: "bindingReach bs \<Longrightarrow> bindingStep bs bs' \<Longrightarrow> bindingReach bs'"

text \<open>Two bindings of a VM are for different interfaces, and one for the default interface is the only one.\<close>

definition compatible :: "vm_binding \<Rightarrow> vm_binding \<Rightarrow> bool" where
  "compatible a b \<longleftrightarrow> Namespace (vbMeta a) = Namespace (vbMeta b) \<and> vbVMName a = vbVMName b
    \<longrightarrow> vbInterfaceName a \<noteq> [] \<and> vbInterfaceName b \<noteq> [] \<and> vbInterfaceName a \<noteq> vbInterfaceName b"

definition bindingInv :: "vm_binding list \<Rightarrow> bool" where
  "bindingInv bs \<longleftrightarrow> sorted_wrt compatible bs"

lemma compatible_cong:
  assumes "vbMeta a = vbMeta b" "vbVMName a = vbVMName b" "vbInterfaceName a = vbInterfaceName b"
  shows "compatible a c = compatible b c" "compatible c a = compatible c b"
  using assms by (simp_all add: compatible_def)

lemma created_binding:
  assumes "AddressBindingValidator_Handle infos (\<lambda>ns vm. Inr (bindingsOf bs ns vm)) getAllocation
      \<lparr>rqOperation = CreateOp, rqUser = user, rqNamespace = ns, rqObject = Inr ab, rqOldObject = old\<rparr> = Allowed"
    and "b \<in> set bs" "(Namespace (vbMeta b), Name (vbMeta b)) \<noteq> (Namespace (vbMeta ab), Name (vbMeta ab))"
  shows "compatible ab b"
proof -
  have "\<not> interfaceTaken ab (bindingsOf bs (Namespace (vbMeta ab)) (vbVMName ab))"
    using assms(1) by (auto simp: AddressBindingValidator_Handle_def split: option.splits if_splits) (auto simp: modeResponse_def CheckNetworkStack_def split: sum.splits if_splits)
  then show ?thesis using assms(2,3) by (auto simp: interfaceTaken_def Let_def bindingsOf_def list_ex_iff compatible_def)
qed

lemma updated_binding:
  assumes "AddressBindingValidator_Handle infos l getAllocation
      \<lparr>rqOperation = UpdateOp, rqUser = user, rqNamespace = ns, rqObject = Inr ab, rqOldObject = Inr b\<rparr> = Allowed"
  shows "vbVMName ab = vbVMName b \<and> vbInterfaceName ab = vbInterfaceName b"
  using assms by (auto simp: AddressBindingValidator_Handle_def split: option.splits if_splits) (auto simp: modeResponse_def CheckNetworkStack_def split: sum.splits if_splits)

lemma bindingStep_inv: "bindingStep bs bs' \<Longrightarrow> bindingInv bs \<Longrightarrow> bindingInv bs'"
proof (induction rule: bindingStep.induct)
  case (create infos bs getAllocation user ab old)
  then show ?case using created_binding [OF create.hyps(1)] by (auto simp: bindingInv_def)
next
  case (update infos A b B getAllocation user ab)
  have "compatible ab c = compatible b c" "compatible c ab = compatible c b" for c
    using compatible_cong [of ab b c] update.hyps(2) updated_binding [OF update.hyps(1)] by auto
  then show ?case using update.prems by (simp add: bindingInv_def sorted_wrt_append)
next
  case (delete A b B)
  then show ?case by (auto simp: bindingInv_def sorted_wrt_append)
qed


definition demoBinding :: "string \<Rightarrow> string \<Rightarrow> vm_binding" where
  "demoBinding name port = \<lparr>vbMeta = \<lparr>Name = name, Namespace = ''ns'', UID = name\<rparr>, vbVMName = ''vm'', vbInterfaceName = port, vbIPAddressAllocationName = [],
     vbStatusIP = [], vbCreated = 0\<rparr>"

definition demoBindings :: "vm_binding list" where
  "demoBindings = [demoBinding ''b2'' ''eth1'', demoBinding ''b1'' ''eth0'']"


end
