(* ===== verification/Spec2Isabelle.thy ===== *)
theory Spec2Isabelle
  imports IpRange SubnetBinding Cluster Firewall Webhooks
begin

text \<open>
  Verification of the core of the NSX operator, a Kubernetes operator that turns custom resources and NetworkPolicies into objects of an
  NSX manager. Controllers watch Kubernetes and call services; every service keeps an in-memory store of the NSX objects it owns, builds the
  objects a resource asks for, compares them with the store, writes the difference through the hierarchical NSX API and then brings
  the store in step. Below the services lie the cluster client with its endpoints, versions and retries, and a layer of helpers
  for names, paths, errors and addresses.

  \<^bold>\<open>Theories and the sources they model.\<close>

  \<^item> \<open>Prelude\<close>: the parts of Go's \<open>strings\<close>, \<open>strconv\<close> and \<open>sort\<close> in use, results as sums, Go maps as association lists with an explicit
    iteration order, and the lemmas the components share. \<open>GoNet\<close>: Go's \<open>net\<close> addresses and CIDRs. \<open>Sha1\<close>: \<open>crypto/sha1\<close>.
  \<^item> \<open>IpRange\<close>: \<open>pkg/util/ip.go\<close>. A CIDR is the aligned block of its addresses, and the ranges left after exceptions denote exactly
    the set difference (a locale of address sets carries the proof).
  \<^item> \<open>VlanPool\<close>: \<open>pkg/nsx/services/vlanpool\<close>. The allocator as a state with an inductive step relation for reconciles that interleave; no VLAN
    is shared in any reachable state.
  \<^item> \<open>Naming\<close>, \<open>KubeUtil\<close>, \<open>ResourcePath\<close>: \<open>pkg/util/utils.go\<close>, \<open>pkg/nsx/services/common/builder.go\<close> and \<open>types.go\<close>. Length bounds and
    freshness of identifiers, round trips of resource paths.
  \<^item> \<open>NsxErrors\<close>: \<open>pkg/nsx/util\<close>. Classification and translation of NSX errors, extraction of error codes.
  \<^item> \<open>Store\<close>: \<open>pkg/nsx/services/common/store.go\<close> and \<open>compare.go\<close>. The client-go indexer is the locale \<open>indexer\<close>, the comparison the locale
    \<open>comparable\<close>; searching NSX page by page is complete, applying a comparison reconciles.
  \<^item> \<open>PolicyTree\<close>: \<open>policy_tree.go\<close> and \<open>wrap.go\<close>. Resources become the leaves of a tree of PATCH bodies; every resource with a valid
    path is carried below its ancestors, in pages.
  \<^item> \<open>RealizeState\<close>: \<open>pkg/nsx/services/realizestate\<close>. Success and error codes of the realization check.
  \<^item> \<open>SubnetBinding\<close>: \<open>pkg/nsx/services/subnetbinding\<close>. Store, builder, comparison, VLAN reconciliation, clean-up; it uses the store, the tree, the
    realization check and the VLAN pool, and leaves no VLAN reserved.
  \<^item> \<open>RateLimiter\<close>, \<open>Retry\<close>, \<open>Transport\<close>, \<open>Cluster\<close>: \<open>pkg/nsx/ratelimiter\<close>, \<open>pkg/third_party/retry\<close>, \<open>endpoint.go\<close>, \<open>transport.go\<close>,
    \<open>cluster.go\<close> and \<open>client.go\<close>. Bounds of the adaptive rate, attempts of a retried call, selection of endpoints and balance of
    connections, the version gate of features.
  \<^item> \<open>Selectors\<close>, \<open>SecurityPolicy\<close>, \<open>NetworkPolicy\<close>, \<open>Firewall\<close>: \<open>pkg/nsx/services/securitypolicy\<close>. Label selectors become group expressions that
    select the same ports; the built rules and groups are well formed and within the NSX limits; the sections of NetworkPolicies
    allow exactly the traffic Kubernetes allows; updates and deletions keep the stores in step.

  \<^item> \<open>HashVector\<close>, \<open>PathVector\<close>: SHA-1 values computed by the kernel, for the examples. \<open>VpcChild\<close>: what the services for the children of a VPC
    share, the NSX client of one type of resource (locale \<open>nsx_child\<close>) and the deletion of all stored resources page by page.
  \<^item> \<open>IpBlocksInfo\<close>, \<open>StaticRoute\<close>, \<open>IpAllocation\<close>: the services of these names under \<open>pkg/nsx/services\<close>. What is published or stored after a
    successful call is what the specification asks for.
  \<^item> \<open>PortCount\<close>, \<open>SubnetPort\<close>: \<open>pkg/nsx/services/subnetport\<close>. The address counters as an inductive step relation, whose static pool is never
    overcommitted; the ports that are stored, and the attachments that never change.
  \<^item> \<open>IpReservation\<close>: \<open>pkg/nsx/services/subnetipreservation\<close>. Reservations and the reset of the address totals of the port service.
  \<^item> \<open>SubnetService\<close>, \<open>PortSettings\<close>: \<open>pkg/nsx/services/subnet\<close>. The Subnets that are built, merged and stored, shared Subnets, and the cache of
    PortSettings as an inductive step relation, whose answers are never older than the last invalidation.
  \<^item> \<open>SubnetAlloc\<close>, \<open>ControllerUtil\<close>: \<open>pkg/controllers/common/utils.go\<close>. The choice of a Subnet for a new port, which joins the Subnet service and the
    counters of the ports and reserves the addresses exactly once; address types, conditions, annotations and names.
  \<^item> \<open>Webhooks\<close>: the admission webhooks of \<open>pkg/controllers\<close>. What no history of admitted updates can take from a Subnet, and the AddressBindings of a VM
    as an inductive step relation, in which no interface is bound twice.

  \<^bold>\<open>How code becomes definitions.\<close> A Go function is a HOL function of the same name, a struct a record, an error a value of a sum type;
  state that a method changes (the store, the pool, the NSX manager) is passed and returned. A nil dereference is a branch of its own
  (\<open>None\<close>, or an error value of its kind) where the sources can reach it, and \<open>the\<close> where NSX always sets the field. Ranging over a Go
  map takes the order as an argument, constrained by \<open>is_order\<close> only. Code outside the repository (the client-go indexer, the NSX SDK
  clients and converters, the Kubernetes client, uuid, JSON and HTTP) is an argument; the laws the code relies on are the assumptions of
  locales, each interpreted on an implementation. Log output is omitted.

  \<^bold>\<open>Loops and fuel.\<close> Loops that follow their data are structurally recursive. The loops that may not end (a paged search against a
  server that keeps its cursor, the search for an unused identifier) are \<open>partial_function (option)\<close>, and the theorems about them show
  that they return. Retries are bounded by the number of steps of the back-off, 50 for the realization check (\<open>NSXTRealizeRetrySteps\<close>).

  \<^bold>\<open>Not modelled.\<close> The reconcile loops of the controllers (calls of the Kubernetes client around the services), the services for VPCs, nodes,
  DNS and inventory, the native namespace groups of security policies, goroutines and channels, TLS, log output, metrics, and the
  generated API types and clients.
\<close>

end
